(* ===== verification/Mercury_Prelude.thy ===== *)
theory Mercury_Prelude
  imports Main "HOL-Library.AList"
begin

text \<open>
  Shared ground of the development: the result type of fallible code (an exception or a
  value), its sequencing and handling combinators, insertion-ordered dictionaries, and the
  lemma collections the component theories add to.
\<close>

named_theorems result_simps \<open>equations that turn a successful run into its intermediate results\<close>
named_theorems validator_defs \<open>definitions of the validating constructors of the data models\<close>
named_theorems node_defs \<open>definitions of the graph nodes\<close>

section \<open>Fallible computations\<close>

text \<open>
  A Python function that may raise is a function into \<open>'e + 'a\<close>: \<open>Inl\<close> is the raised
  exception, \<open>Inr\<close> the returned value. \<open>rbind\<close> is sequencing, \<open>rcatch\<close> is
  \<^verbatim>\<open>try: ... except Exception as exc: ...\<close>.
\<close>

definition rbind :: "'e + 'a \<Rightarrow> ('a \<Rightarrow> 'e + 'b) \<Rightarrow> 'e + 'b" where
  "rbind m f = (case m of Inl e \<Rightarrow> Inl e | Inr x \<Rightarrow> f x)"

definition rcatch :: "'e + 'a \<Rightarrow> ('e \<Rightarrow> 'f + 'a) \<Rightarrow> 'f + 'a" where
  "rcatch m h = (case m of Inl e \<Rightarrow> h e | Inr x \<Rightarrow> Inr x)"

definition guard_else :: "bool \<Rightarrow> 'e \<Rightarrow> 'e + unit" where
  "guard_else b e = (if b then Inr () else Inl e)"

lemma rbind_simps [simp]:
  "rbind (Inl e) f = Inl e"
  "rbind (Inr x) f = f x"
  by (simp_all add: rbind_def)

lemma rbind_eq_Inr [result_simps]:
  "rbind m f = Inr y \<longleftrightarrow> (\<exists>x. m = Inr x \<and> f x = Inr y)"
  by (cases m) simp_all

lemma rbind_eq_Inl:
  "rbind m f = Inl e \<longleftrightarrow> m = Inl e \<or> (\<exists>x. m = Inr x \<and> f x = Inl e)"
  by (cases m) simp_all

lemma rbind_cong [fundef_cong]:
  assumes "m = m'" and "\<And>x. m' = Inr x \<Longrightarrow> f x = g x"
  shows "rbind m f = rbind m' g"
  using assms by (cases m') auto

lemma rcatch_simps [simp]:
  "rcatch (Inl e) h = h e"
  "rcatch (Inr x) h = Inr x"
  by (simp_all add: rcatch_def)

lemma guard_else_eq [simp]:
  "guard_else b e = Inr u \<longleftrightarrow> b"
  "guard_else b e = Inl e' \<longleftrightarrow> \<not> b \<and> e = e'"
  by (auto simp: guard_else_def)

lemma guard_else_simps [simp]:
  "guard_else True e = Inr ()"
  "guard_else False e = Inl e"
  by (simp_all add: guard_else_def)

lemma case_sum_eq_Inr [result_simps]:
  "(case m of Inl e \<Rightarrow> Inl (f e) | Inr x \<Rightarrow> g x) = Inr y \<longleftrightarrow> (\<exists>x. m = Inr x \<and> g x = Inr y)"
  by (cases m) simp_all

lemma case_sum_same [simp]: "(case m of Inl e \<Rightarrow> Inl e | Inr x \<Rightarrow> Inr x) = m"
  by (cases m) simp_all

text \<open>The first rejection of a sequence of optional reasons, as a \<^verbatim>\<open>for\<close> loop that returns early.\<close>

fun first_some :: "'a option list \<Rightarrow> 'a option" where
  "first_some [] = None"
| "first_some (None # xs) = first_some xs"
| "first_some (Some x # xs) = Some x"

lemma first_some_None [simp]: "first_some xs = None \<longleftrightarrow> (\<forall>x \<in> set xs. x = None)"
  by (induction xs rule: first_some.induct) auto

lemma first_some_in: "first_some xs = Some r \<Longrightarrow> Some r \<in> set xs"
  by (induction xs rule: first_some.induct) auto

lemma first_some_split:
  "first_some xs = Some r \<longleftrightarrow>
     (\<exists>us vs. xs = us @ Some r # vs \<and> (\<forall>u \<in> set us. u = None))"
proof (induction xs rule: first_some.induct)
  case 1
  then show ?case by simp
next
  case (2 xs)
  show ?case
  proof
    assume "first_some (None # xs) = Some r"
    then obtain us vs where "xs = us @ Some r # vs" "\<forall>u \<in> set us. u = None"
      using 2 by auto
    then show "\<exists>us vs. None # xs = us @ Some r # vs \<and> (\<forall>u \<in> set us. u = None)"
      by (intro exI [of _ "None # us"] exI [of _ vs]) simp
  next
    assume "\<exists>us vs. None # xs = us @ Some r # vs \<and> (\<forall>u \<in> set us. u = None)"
    then obtain us vs where "None # xs = us @ Some r # vs" and n: "\<forall>u \<in> set us. u = None"
      by blast
    then obtain us' where "us = None # us'" "xs = us' @ Some r # vs"
      by (cases us) auto
    with n 2 show "first_some (None # xs) = Some r" by auto
  qed
next
  case (3 x xs)
  show ?case by (auto simp: Cons_eq_append_conv)
qed

section \<open>Insertion-ordered dictionaries\<close>

text \<open>
  A Python \<open>dict\<close> is an association list without repeated keys. \<open>d.get(k)\<close> is
  \<open>map_of d k\<close>; assignment keeps the position of an existing key and appends a new one.
\<close>

abbreviation dget :: "('k \<times> 'v) list \<Rightarrow> 'k \<Rightarrow> 'v option" where
  "dget d k \<equiv> map_of d k"

definition dset :: "'k \<Rightarrow> 'v \<Rightarrow> ('k \<times> 'v) list \<Rightarrow> ('k \<times> 'v) list" where
  "dset k v d = AList.update k v d"

definition dsetdefault :: "'k \<Rightarrow> 'v \<Rightarrow> ('k \<times> 'v) list \<Rightarrow> ('k \<times> 'v) list" where
  "dsetdefault k v d = (if dget d k = None then dset k v d else d)"

definition dmerge :: "('k \<times> 'v) list \<Rightarrow> ('k \<times> 'v) list \<Rightarrow> ('k \<times> 'v) list" where
  "dmerge a b = fold (\<lambda>(k, v). dset k v) b a"

definition wf_dict :: "('k \<times> 'v) list \<Rightarrow> bool" where
  "wf_dict d \<longleftrightarrow> distinct (map fst d)"

lemma dget_dset [simp]: "dget (dset k v d) k' = (if k' = k then Some v else dget d k')"
  by (simp add: dset_def update_conv')

lemma dget_dsetdefault:
  "dget (dsetdefault k v d) k' = (if k' = k \<and> dget d k = None then Some v else dget d k')"
  by (auto simp: dsetdefault_def)

lemma wf_dict_Nil [simp]: "wf_dict []"
  by (simp add: wf_dict_def)

lemma wf_dict_dset [simp]: "wf_dict d \<Longrightarrow> wf_dict (dset k v d)"
  by (simp add: wf_dict_def dset_def distinct_update)

lemma wf_dict_dmerge: "wf_dict a \<Longrightarrow> wf_dict (dmerge a b)"
  unfolding dmerge_def by (induction b arbitrary: a) auto

lemma dget_dmerge:
  assumes "wf_dict b"
  shows "dget (dmerge a b) k = (case dget b k of Some v \<Rightarrow> Some v | None \<Rightarrow> dget a k)"
  using assms unfolding dmerge_def
proof (induction b arbitrary: a)
  case Nil
  then show ?case by simp
next
  case (Cons p b)
  obtain k0 v0 where p: "p = (k0, v0)" by fastforce
  with Cons.prems have wf: "wf_dict b" and fresh: "k0 \<notin> fst ` set b"
    by (auto simp: wf_dict_def)
  then have "dget b k0 = None" by (simp add: map_of_eq_None_iff)
  with p Cons.IH [OF wf] show ?case by (auto split: option.splits)
qed

end
