(* ===== verification/Py_Values.thy ===== *)
theory Py_Values
  imports Py_Strings Complex_Main
begin

text \<open>
  Dynamic Python values (\<open>Any\<close>, JSON documents, transaction metadata), the exceptions the
  program raises and catches, and the record of third-party functions the model takes as a
  parameter.
\<close>

section \<open>Values\<close>

text \<open>Finite floats are given by their exact value; NaN and the infinities are not modelled.\<close>

datatype pyval =
    PNone
  | PBool bool
  | PInt int
  | PFloat rat
  | PStr string
  | PList "pyval list"
  | PDict "(string \<times> pyval) list"

type_synonym pydict = "(string \<times> pyval) list"

text \<open>\<open>bool(v)\<close>\<close>

fun truthy :: "pyval \<Rightarrow> bool" where
  "truthy PNone = False"
| "truthy (PBool b) = b"
| "truthy (PInt i) = (i \<noteq> 0)"
| "truthy (PFloat q) = (q \<noteq> 0)"
| "truthy (PStr s) = (s \<noteq> [])"
| "truthy (PList vs) = (vs \<noteq> [])"
| "truthy (PDict d) = (d \<noteq> [])"

text \<open>\<open>isinstance(v, int)\<close>: booleans are integers in Python.\<close>

fun as_int :: "pyval \<Rightarrow> int option" where
  "as_int (PInt i) = Some i"
| "as_int (PBool b) = Some (of_bool b)"
| "as_int _ = None"

fun as_str :: "pyval \<Rightarrow> string option" where
  "as_str (PStr s) = Some s"
| "as_str _ = None"

fun as_dict :: "pyval \<Rightarrow> pydict option" where
  "as_dict (PDict d) = Some d"
| "as_dict _ = None"

text \<open>\<open>v == i\<close> for an integer \<open>i\<close>: numbers compare by value across types.\<close>

fun eq_int :: "pyval \<Rightarrow> int \<Rightarrow> bool" where
  "eq_int (PInt j) i = (j = i)"
| "eq_int (PBool b) i = (of_bool b = i)"
| "eq_int (PFloat q) i = (q = of_int i)"
| "eq_int _ i = False"

text \<open>\<open>d.get(key, PNone)\<close> and \<open>d.get(key)\<close> of a string: a missing key reads as \<open>None\<close>.\<close>

definition dget_none :: "pydict \<Rightarrow> string \<Rightarrow> pyval" where
  "dget_none d k = (case dget d k of Some v \<Rightarrow> v | None \<Rightarrow> PNone)"

definition dget_str :: "pydict \<Rightarrow> string \<Rightarrow> string option" where
  "dget_str d k = as_str (dget_none d k)"

definition opt_val :: "('a \<Rightarrow> pyval) \<Rightarrow> 'a option \<Rightarrow> pyval" where
  "opt_val f x = (case x of None \<Rightarrow> PNone | Some a \<Rightarrow> f a)"

lemma dget_none_simps [simp]:
  "dget_none [] k = PNone"
  "dget_none ((k', v) # d) k = (if k = k' then v else dget_none d k)"
  by (simp_all add: dget_none_def)

lemma opt_val_simps [simp]: "opt_val f None = PNone" "opt_val f (Some a) = f a"
  by (simp_all add: opt_val_def)

section \<open>Exceptions\<close>

text \<open>
  The constraint that a field of a validated model can violate; \<open>FieldValueError\<close> carries
  the text of the \<open>ValueError\<close> a field or model validator raised.
\<close>

datatype field_constraint =
    MinLength nat
  | MinItems nat
  | MaxItems nat
  | GreaterThan int
  | GreaterEqual int
  | LessEqual int
  | MatchesPattern string
  | FieldValueError string
  | WrongType string
  | MissingField

datatype exn_class =
    ValueError
  | InvalidEVMAddressError
  | InvalidTokenDecimalsError
  | UnsupportedChainError
  | KnownAddressMissingError
  | UnsupportedIntentError
  | DuplicateTransactionError
  | SwapProviderError
  | UnsupportedSwapRoute
  | UnknownAlchemyNetworkError
  | UnicodeDecodeError
  | EnsResolutionError
  | SecretNotFoundError
  | EmptySecretValueError
  | SecretStoreUnavailableError
  | WalletIdValidationError
  | WalletPrivateKeyError
  | SigningRequestError
  | SigningFailedError
  | KeyError
  | TypeError
  | ArithmeticError
  | ConnectionError
  | TimeoutError
  | OSError
  | OtherException

text \<open>
  An exception is its class and its text, \<open>str(exc)\<close>; a pydantic \<open>ValidationError\<close>
  is the model's name and the violated constraints, in field order.
\<close>

datatype exn =
    Exn exn_class string
  | ValidationError string "(string \<times> field_constraint) list"

text \<open>\<open>isinstance(exc, ValueError)\<close>; pydantic's \<open>ValidationError\<close> is a \<open>ValueError\<close>.\<close>

fun is_value_error :: "exn \<Rightarrow> bool" where
  "is_value_error (ValidationError m es) = True"
| "is_value_error (Exn c t) = (c \<in> {ValueError, InvalidEVMAddressError, InvalidTokenDecimalsError,
     UnsupportedChainError, UnsupportedIntentError, DuplicateTransactionError, SwapProviderError,
     UnsupportedSwapRoute, UnknownAlchemyNetworkError, UnicodeDecodeError, EnsResolutionError})"

text \<open>\<open>isinstance(exc, (ConnectionError, TimeoutError, OSError))\<close>\<close>

fun is_os_error :: "exn \<Rightarrow> bool" where
  "is_os_error (ValidationError m es) = False"
| "is_os_error (Exn c t) = (c \<in> {ConnectionError, TimeoutError, OSError})"

section \<open>Third-party functions\<close>

text \<open>
  The functions of libraries that the code calls, taken as one parameter \<open>L\<close>:
  \<^item> web3: \<open>Web3.is_address\<close>, \<open>Web3.to_checksum_address\<close>, \<open>Web3.keccak(text=...)\<close>;
  \<^item> eth\_abi: \<open>encode(["address", "uint256"], [a, n])\<close>;
  \<^item> pydantic: the message of one violated constraint, \<open>str(exc)\<close> and \<open>exc.errors()\<close>
    of a \<open>ValidationError\<close>, and its lax conversion of a value to \<open>int\<close> and \<open>bool\<close>;
  \<^item> the interpreter's shortest decimal text of a float.
\<close>

record libs =
  is_address :: "string \<Rightarrow> bool"
  to_checksum_address :: "string \<Rightarrow> string"
  keccak_text :: "string \<Rightarrow> nat list"
  abi_encode :: "string \<Rightarrow> int \<Rightarrow> nat list"
  validation_msg :: "field_constraint \<Rightarrow> string"
  validation_text :: "string \<Rightarrow> (string \<times> field_constraint) list \<Rightarrow> string"
  validation_errors :: "string \<Rightarrow> (string \<times> field_constraint) list \<Rightarrow> pyval"
  lax_int :: "pyval \<Rightarrow> int option"
  lax_bool :: "pyval \<Rightarrow> bool option"
  float_text :: "rat \<Rightarrow> string"

text \<open>\<open>str(exc)\<close>\<close>

fun exn_text :: "libs \<Rightarrow> exn \<Rightarrow> string" where
  "exn_text L (Exn c t) = t"
| "exn_text L (ValidationError m es) = validation_text L m es"

section \<open>Text of a value\<close>

definition hex_digit :: "nat \<Rightarrow> char" where
  "hex_digit d = (if d < 10 then char_of (48 + d) else char_of (87 + d))"

definition printable :: "char \<Rightarrow> bool" where
  "printable c \<longleftrightarrow> (let n = code_point c in (32 \<le> n \<and> n < 127) \<or> (160 < n \<and> n \<noteq> 173))"

definition repr_char :: "char \<Rightarrow> char \<Rightarrow> string" where
  "repr_char q c = (let n = code_point c in
     if c = q \<or> n = 92 then [CHR 0x5C, c]
     else if n = 10 then [CHR 0x5C, CHR ''n'']
     else if n = 13 then [CHR 0x5C, CHR ''r'']
     else if n = 9 then [CHR 0x5C, CHR ''t'']
     else if printable c then [c]
     else [CHR 0x5C, CHR ''x'', hex_digit (n div 16), hex_digit (n mod 16)])"

definition repr_str :: "string \<Rightarrow> string" where
  "repr_str s = (let q = (if CHR 0x27 \<in> set s \<and> CHR 0x22 \<notin> set s then CHR 0x22 else CHR 0x27)
     in [q] @ concat (map (repr_char q) s) @ [q])"

fun py_repr :: "libs \<Rightarrow> pyval \<Rightarrow> string" where
  "py_repr L PNone = ''None''"
| "py_repr L (PBool b) = (if b then ''True'' else ''False'')"
| "py_repr L (PInt i) = int_text i"
| "py_repr L (PFloat q) = float_text L q"
| "py_repr L (PStr s) = repr_str s"
| "py_repr L (PList vs) = ''['' @ py_join '', '' (map (py_repr L) vs) @ '']''"
| "py_repr L (PDict d) =
     ''{'' @ py_join '', '' (map (\<lambda>(k, v). repr_str k @ '': '' @ py_repr L v) d) @ ''}''"

text \<open>\<open>str(v)\<close>: a string is itself, any other value its \<open>repr\<close>.\<close>

definition py_str :: "libs \<Rightarrow> pyval \<Rightarrow> string" where
  "py_str L v = (case v of PStr s \<Rightarrow> s | _ \<Rightarrow> py_repr L v)"

lemma py_str_PStr [simp]: "py_str L (PStr s) = s"
  by (simp add: py_str_def)

text \<open>\<open>int(s)\<close> of a text: surrounding space, a sign, digits with single underscores between.\<close>

fun int_digits :: "string \<Rightarrow> string option" where
  "int_digits [] = None"
| "int_digits [c] = (if is_decimal_char c then Some [c] else None)"
| "int_digits (c # d # cs) =
     (if \<not> is_decimal_char c then None
      else map_option (Cons c) (int_digits (if d = CHR ''_'' then cs else d # cs)))"

definition py_int_text :: "string \<Rightarrow> int option" where
  "py_int_text s = (case py_strip s of
       [] \<Rightarrow> None
     | c # cs \<Rightarrow>
         if c = CHR ''-'' then map_option (\<lambda>t. - int (text_nat t)) (int_digits cs)
         else if c = CHR ''+'' then map_option (\<lambda>t. int (text_nat t)) (int_digits cs)
         else map_option (\<lambda>t. int (text_nat t)) (int_digits (c # cs)))"

lemma int_digits_decimal: "s \<noteq> [] \<Longrightarrow> list_all is_decimal_char s \<Longrightarrow> int_digits s = Some s"
proof (induction s rule: int_digits.induct)
  case (3 c d cs)
  then have "d \<noteq> CHR ''_''" by (auto simp: is_decimal_char_def)
  with 3 show ?case by simp
qed auto

lemma list_all_decimal_strip: "list_all is_decimal_char s \<Longrightarrow> py_strip s = s"
  by (rule py_strip_no_space) (auto simp: list_all_iff)

lemma py_int_text_decimal:
  assumes "py_isdecimal s"
  shows "py_int_text s = Some (int (text_nat s))"
proof -
  from assms obtain c cs where s: "s = c # cs" and d: "list_all is_decimal_char s"
    by (cases s) (auto simp: py_isdecimal_def)
  from d s have "c \<noteq> CHR ''-''" "c \<noteq> CHR ''+''" by (auto simp: is_decimal_char_def)
  with s d show ?thesis
    by (auto simp: py_int_text_def list_all_decimal_strip int_digits_decimal)
qed

lemma py_int_text_nat_text [simp]: "py_int_text (nat_text n) = Some (int n)"
  by (subst py_int_text_decimal) (simp_all add: py_isdecimal_def nat_text_decimal)

end
