(* ===== verification/Redaction.thy ===== *)
theory Redaction
  imports Py_Values
begin

text \<open>
  Redaction at the service boundary (\<^verbatim>\<open>mercury/service/logging.py\<close>) and in custody code
  (\<^verbatim>\<open>mercury/custody/redaction.py\<close>). A compiled pattern is a function that gives the
  length of its match at the current position, from the previous character and the rest of
  the text; \<open>re_sub\<close> is \<open>pattern.sub(REDACTION, text)\<close>: leftmost matches, without overlap.
\<close>

definition REDACTION :: string where
  "REDACTION = ''<redacted>''"

type_synonym re_match = "char option \<Rightarrow> string \<Rightarrow> nat option"

text \<open>Python's \<^verbatim>\<open>\w\<close> on this range, and the two ends of a \<^verbatim>\<open>\b\<close> assertion.\<close>

definition is_word_char :: "char \<Rightarrow> bool" where
  "is_word_char c \<longleftrightarrow> is_alnum_char c \<or> c = CHR ''_''"

definition word_opt :: "char option \<Rightarrow> bool" where
  "word_opt p \<longleftrightarrow> (case p of None \<Rightarrow> False | Some c \<Rightarrow> is_word_char c)"

definition head_opt :: "string \<Rightarrow> char option" where
  "head_opt s = (case s of [] \<Rightarrow> None | c # _ \<Rightarrow> Some c)"

definition at_boundary :: "char option \<Rightarrow> string \<Rightarrow> bool" where
  "at_boundary p s \<longleftrightarrow> word_opt p \<noteq> word_opt (head_opt s)"

function re_sub :: "re_match \<Rightarrow> char option \<Rightarrow> string \<Rightarrow> string" where
  "re_sub m p [] = []"
| "re_sub m p (c # cs) = (case m p (c # cs) of
       Some (Suc n) \<Rightarrow> REDACTION @ re_sub m (Some (last (c # take n cs))) (drop n cs)
     | _ \<Rightarrow> c # re_sub m (Some c) cs)"
  by pat_completeness auto
termination
  by (relation "measure (\<lambda>(m, p, s). length s)") auto

text \<open>A literal of a pattern, with or without case.\<close>

definition after_literal :: "string \<Rightarrow> string \<Rightarrow> string option" where
  "after_literal p s = (if prefix p s then Some (drop (length p) s) else None)"

definition after_literal_ci :: "string \<Rightarrow> string \<Rightarrow> string option" where
  "after_literal_ci p s = (if prefix p (py_lower s) then Some (drop (length p) s) else None)"

fun after_first :: "('a \<Rightarrow> string \<Rightarrow> string option) \<Rightarrow> 'a list \<Rightarrow> string \<Rightarrow> string option" where
  "after_first f [] s = None"
| "after_first f (p # ps) s = (case f p s of Some r \<Rightarrow> Some r | None \<Rightarrow> after_first f ps s)"

section \<open>The patterns\<close>

text \<open>\<^verbatim>\<open>https?://[^\s\"'<>]+\<close>\<close>

definition is_url_char :: "char \<Rightarrow> bool" where
  "is_url_char c \<longleftrightarrow> \<not> is_space c \<and> c \<notin> {CHR 0x22, CHR 0x27, CHR 0x3C, CHR 0x3E}"

definition URL_PATTERN :: re_match where
  "URL_PATTERN p s = (case after_first after_literal [''https://'', ''http://''] s of
       None \<Rightarrow> None
     | Some r \<Rightarrow> (let k = length (takeWhile is_url_char r)
                  in if k = 0 then None else Some (length s - length r + k)))"

text \<open>
  \<^verbatim>\<open>\bmercury/(?:rpc|apis|wallets)/[A-Za-z0-9_./-]+\b\<close>: the class is matched greedily and
  given back one character at a time until a word boundary follows.
\<close>

definition is_path_char :: "char \<Rightarrow> bool" where
  "is_path_char c \<longleftrightarrow> is_ascii_alnum c \<or> c \<in> {CHR ''_'', CHR ''.'', CHR ''/'', CHR ''-''}"

fun longest_to_boundary :: "nat \<Rightarrow> string \<Rightarrow> nat option" where
  "longest_to_boundary 0 s = None"
| "longest_to_boundary (Suc k) s =
     (if at_boundary (Some (s ! k)) (drop (Suc k) s) then Some (Suc k)
      else longest_to_boundary k s)"

definition SECRET_PATH_PATTERN :: re_match where
  "SECRET_PATH_PATTERN p s = (if \<not> at_boundary p s then None else
     case after_first after_literal [''mercury/rpc/'', ''mercury/apis/'', ''mercury/wallets/''] s of
       None \<Rightarrow> None
     | Some r \<Rightarrow> map_option (\<lambda>k. length s - length r + k)
                    (longest_to_boundary (length (takeWhile is_path_char r)) r))"

text \<open>\<^verbatim>\<open>(?i)\b(?:oneclaw|1claw|api[_-]?key|bearer)\s*[:=]\s*\S+\<close>\<close>

definition ONECLAW_TOKEN_PATTERN :: re_match where
  "ONECLAW_TOKEN_PATTERN p s = (if \<not> at_boundary p s then None else
     case after_first after_literal_ci
            [''oneclaw'', ''1claw'', ''api_key'', ''api-key'', ''apikey'', ''bearer''] s of
       None \<Rightarrow> None
     | Some r \<Rightarrow> (case dropWhile is_space r of
           [] \<Rightarrow> None
         | c # t \<Rightarrow>
             if c \<noteq> CHR '':'' \<and> c \<noteq> CHR ''='' then None
             else (let v = dropWhile is_space t; k = length (takeWhile (\<lambda>x. \<not> is_space x) v)
                   in if k = 0 then None else Some (length s - length v + k))))"

text \<open>\<^verbatim>\<open>\b0x[a-fA-F0-9]{96,}\b\<close>\<close>

definition LONG_HEX_PATTERN :: re_match where
  "LONG_HEX_PATTERN p s = (if \<not> at_boundary p s then None else
     case after_literal ''0x'' s of
       None \<Rightarrow> None
     | Some r \<Rightarrow> (let h = takeWhile is_hex_char r; k = length h in
         if 96 \<le> k \<and> at_boundary (Some (last h)) (drop k r) then Some (2 + k) else None))"

text \<open>\<^verbatim>\<open>\b(?:0x)?[a-fA-F0-9]{64}\b\<close>\<close>

definition hex64_here :: "string \<Rightarrow> bool" where
  "hex64_here r \<longleftrightarrow> 64 \<le> length r \<and> list_all is_hex_char (take 64 r) \<and>
     at_boundary (Some (r ! 63)) (drop 64 r)"

definition HEX_PRIVATE_KEY_PATTERN :: re_match where
  "HEX_PRIVATE_KEY_PATTERN p s = (if \<not> at_boundary p s then None else
     case after_literal ''0x'' s of
       Some r \<Rightarrow> if hex64_here r then Some 66 else if hex64_here s then Some 64 else None
     | None \<Rightarrow> if hex64_here s then Some 64 else None)"

text \<open>\<^verbatim>\<open>\bmercury/wallets/[A-Za-z0-9_.-]+/private_key\b\<close>: the class has no slash.\<close>

definition is_wallet_id_char :: "char \<Rightarrow> bool" where
  "is_wallet_id_char c \<longleftrightarrow> is_ascii_alnum c \<or> c \<in> {CHR ''_'', CHR ''.'', CHR ''-''}"

definition WALLET_PRIVATE_KEY_PATH_PATTERN :: re_match where
  "WALLET_PRIVATE_KEY_PATH_PATTERN p s = (if \<not> at_boundary p s then None else
     case after_literal ''mercury/wallets/'' s of
       None \<Rightarrow> None
     | Some r \<Rightarrow> (let k = length (takeWhile is_wallet_id_char r) in
         if k = 0 then None
         else case after_literal ''/private_key'' (drop k r) of
             None \<Rightarrow> None
           | Some t \<Rightarrow> if at_boundary (Some (CHR ''y'')) t then Some (length s - length t) else None))"

section \<open>Redaction of text and values\<close>

definition redact_text :: "string \<Rightarrow> string" where
  "redact_text t = fold (\<lambda>m. re_sub m None)
     [URL_PATTERN, SECRET_PATH_PATTERN, ONECLAW_TOKEN_PATTERN, LONG_HEX_PATTERN] t"

definition SENSITIVE_KEY_PARTS :: "string list" where
  "SENSITIVE_KEY_PARTS = [''api_key'', ''apikey'', ''authorization'', ''bearer'', ''credential'',
     ''private_key'', ''raw_transaction'', ''rpc_url'', ''secret'', ''signature'', ''token'']"

definition is_sensitive_key :: "string \<Rightarrow> bool" where
  "is_sensitive_key k =
     (let n = map (\<lambda>c. if c = CHR ''-'' then CHR ''_'' else c) (py_lower k)
      in list_ex (\<lambda>part. py_contains part n) SENSITIVE_KEY_PARTS)"

fun redact_value :: "pyval \<Rightarrow> pyval" where
  "redact_value (PDict d) =
     PDict (map (\<lambda>(k, v). (k, if is_sensitive_key k then PStr REDACTION else redact_value v)) d)"
| "redact_value (PStr s) = PStr (redact_text s)"
| "redact_value (PList vs) = PList (map redact_value vs)"
| "redact_value v = v"

definition redact_error_message :: "string \<Rightarrow> string" where
  "redact_error_message m = redact_text (py_or m ''Mercury request failed.'')"

definition redact_secret_text :: "string \<Rightarrow> string" where
  "redact_secret_text t = fold (\<lambda>m. re_sub m None)
     [HEX_PRIVATE_KEY_PATTERN, WALLET_PRIVATE_KEY_PATH_PATTERN, ONECLAW_TOKEN_PATTERN] t"

definition secret_text_leaked :: "string \<Rightarrow> string list \<Rightarrow> bool" where
  "secret_text_leaked t secrets \<longleftrightarrow> list_ex (\<lambda>s. s \<noteq> [] \<and> py_contains s t) secrets"

section \<open>Basic facts\<close>

lemma re_sub_nonempty [simp]: "re_sub m p s = [] \<longleftrightarrow> s = []"
  by (cases s) (auto simp: REDACTION_def split: option.splits nat.splits)

lemma fold_re_sub_nonempty [simp]: "fold (\<lambda>m. re_sub m None) ms s = [] \<longleftrightarrow> s = []"
  by (induction ms arbitrary: s) auto

lemma redact_text_nonempty [simp]: "redact_text t = [] \<longleftrightarrow> t = []"
  unfolding redact_text_def by (rule fold_re_sub_nonempty)

lemma redact_error_message_nonempty [simp]: "redact_error_message m \<noteq> []"
  by (simp add: redact_error_message_def py_or_def)

end
