(* ===== verification/Errors.thy ===== *)
theory Errors
  imports Redaction
begin

text \<open>
  Structured domain errors (\<^verbatim>\<open>mercury/models/errors.py\<close>): the error payload, its
  constructors with their fixed codes and categories, and \<open>normalize_exception\<close>, which maps
  every exception the graphs catch to such a payload.
\<close>

record mercury_error_info =
  err_code :: string
  err_category :: string
  err_message :: string
  err_retryable :: bool
  err_recoverable :: bool
  err_user_action :: "string option"
  err_llm_action :: "string option"
  err_details :: pydict

definition with_stage :: "pydict \<Rightarrow> string option \<Rightarrow> pydict" where
  "with_stage details stage =
     (case stage of None \<Rightarrow> details | Some s \<Rightarrow> dsetdefault ''stage'' (PStr s) details)"

definition with_chain :: "pydict \<Rightarrow> string option \<Rightarrow> pydict" where
  "with_chain details chain =
     (case chain of None \<Rightarrow> details | Some c \<Rightarrow> dsetdefault ''chain'' (PStr c) details)"

definition error_info ::
  "string \<Rightarrow> string \<Rightarrow> string \<Rightarrow> bool \<Rightarrow> string \<Rightarrow> string \<Rightarrow> pydict \<Rightarrow> mercury_error_info" where
  "error_info code category message retryable user_action llm_action details =
     \<lparr>err_code = code, err_category = category, err_message = redact_error_message message,
      err_retryable = retryable, err_recoverable = True, err_user_action = Some user_action,
      err_llm_action = Some llm_action, err_details = details\<rparr>"

section \<open>Constructors\<close>

definition unsupported_intent :: "string option \<Rightarrow> pydict \<Rightarrow> string option \<Rightarrow> mercury_error_info" where
  "unsupported_intent message details stage =
     error_info ''unsupported_intent'' ''intent''
       (py_or (case message of None \<Rightarrow> [] | Some m \<Rightarrow> m) ''This wallet intent is not supported.'')
       False ''Provide a supported wallet intent in the expected shape.''
       ''Ask the user for a supported read-only or structured transaction intent.''
       (with_stage details stage)"

definition validation_failed :: "string \<Rightarrow> pydict \<Rightarrow> string option \<Rightarrow> mercury_error_info" where
  "validation_failed message details stage =
     error_info ''validation_failed'' ''validation'' message False
       ''Fix the invalid fields and try again.''
       ''Inspect validation details, correct the payload, and retry.''
       (with_stage details stage)"

definition missing_chain_config ::
  "string \<Rightarrow> string option \<Rightarrow> pydict \<Rightarrow> string option \<Rightarrow> mercury_error_info" where
  "missing_chain_config message chain details stage =
     error_info ''missing_chain_config'' ''config'' message False
       ''Choose a supported chain name.''
       ''Retry with a supported chain; list configured chains if unsure.''
       (with_chain (with_stage details stage) chain)"

definition rpc_unavailable ::
  "string \<Rightarrow> string option \<Rightarrow> pydict \<Rightarrow> string option \<Rightarrow> mercury_error_info" where
  "rpc_unavailable message chain details stage =
     error_info ''rpc_unavailable'' ''rpc'' message True
       ''Try again later or choose another supported chain.''
       ''Retry once with backoff. If it fails again, ask about another supported chain.''
       (with_chain (with_stage details stage) chain)"

definition policy_rejected :: "string \<Rightarrow> pydict \<Rightarrow> string option \<Rightarrow> mercury_error_info" where
  "policy_rejected message details stage =
     error_info ''policy_rejected'' ''policy'' message False
       ''Adjust the transaction or policy inputs.''
       ''Explain the policy outcome and what the user can change.''
       (with_stage details stage)"

definition idempotency_conflict :: "pydict \<Rightarrow> string option \<Rightarrow> mercury_error_info" where
  "idempotency_conflict details stage =
     error_info ''idempotency_conflict'' ''policy''
       ''Duplicate transaction: this idempotency key is already in flight or completed.'' False
       ''Use a new idempotency key or wait for the in-flight request.''
       ''Do not retry blindly; check idempotency and prior execution state.''
       (with_stage details stage)"

definition approval_required :: "string \<Rightarrow> pydict \<Rightarrow> string option \<Rightarrow> mercury_error_info" where
  "approval_required message details stage =
     error_info ''approval_required'' ''approval'' message True
       ''Approve the transaction in your wallet or approval channel.''
       ''Request explicit human approval with clear risk summary before continuing.''
       (with_stage details stage)"

definition approval_denied :: "string \<Rightarrow> pydict \<Rightarrow> string option \<Rightarrow> mercury_error_info" where
  "approval_denied message details stage =
     error_info ''approval_denied'' ''approval'' message False
       ''Approval was not granted; change the request or try again if appropriate.''
       ''Report denial and offer to revise amount, recipient, or safety checks.''
       (with_stage details stage)"

definition simulation_failed :: "string \<Rightarrow> pydict \<Rightarrow> string option \<Rightarrow> mercury_error_info" where
  "simulation_failed message details stage =
     error_info ''simulation_failed'' ''simulation'' message True
       ''Adjust the transaction; simulation indicated it may fail on-chain.''
       ''Analyze simulation failure, suggest calldata, gas, or balance fixes.''
       (with_stage details stage)"

definition signing_failed :: "string \<Rightarrow> pydict \<Rightarrow> string option \<Rightarrow> mercury_error_info" where
  "signing_failed message details stage =
     error_info ''signing_failed'' ''signing'' message True
       ''Retry signing with an unlocked key or a valid wallet session.''
       ''If signing failed repeatedly, stop and ask the user to verify custody setup.''
       (with_stage details stage)"

definition broadcast_failed :: "string \<Rightarrow> pydict \<Rightarrow> string option \<Rightarrow> mercury_error_info" where
  "broadcast_failed message details stage =
     error_info ''broadcast_failed'' ''rpc'' message True
       ''Retry the broadcast; check network and RPC availability.''
       ''Retry once; if the error persists, consider gas, nonce, and chain health.''
       (with_stage details stage)"

definition internal_error ::
  "string \<Rightarrow> pydict \<Rightarrow> string option \<Rightarrow> string \<Rightarrow> mercury_error_info" where
  "internal_error message details stage code =
     error_info code ''internal'' message True
       ''Try again; contact support if the problem continues.''
       ''Retry once; if it still fails, stop and report an internal error without exposing secrets.''
       (with_stage details stage)"

section \<open>Exceptions to errors\<close>

definition validation_failed_from_pydantic ::
  "libs \<Rightarrow> string \<Rightarrow> (string \<times> field_constraint) list \<Rightarrow> string option \<Rightarrow> mercury_error_info" where
  "validation_failed_from_pydantic L model errs stage =
     (let loc = (case errs of [] \<Rightarrow> [] | (l, _) # _ \<Rightarrow> l);
          msg = (case errs of [] \<Rightarrow> ''Validation failed.'' | (_, c) # _ \<Rightarrow> validation_msg L c);
          summary = (if loc \<noteq> [] then ''Invalid field '' @ [CHR 0x27] @ loc @ [CHR 0x27] @ '': '' @ msg @ ''.''
                     else redact_error_message (validation_text L model errs))
      in validation_failed (redact_error_message summary)
           [(''errors'', redact_value (validation_errors L model errs))] stage)"

text \<open>What \<open>normalize_exception\<close> accepts: an error payload, an exception, or a message.\<close>

datatype exc_arg =
    ArgInfo mercury_error_info
  | ArgExn exn
  | ArgText string

text \<open>The tests on the requested code, then on the kind and the text of the exception.\<close>

definition normalize_by_code ::
  "string \<Rightarrow> string option \<Rightarrow> string option \<Rightarrow> string option \<Rightarrow> mercury_error_info option" where
  "normalize_by_code message stage code default_category =
     (if code = Some ''simulation_failed'' then Some (simulation_failed message [] stage)
      else if code = Some ''signing_failed'' then Some (signing_failed message [] stage)
      else if code = Some ''broadcast_failed'' then Some (broadcast_failed message [] stage)
      else if code = Some ''rpc_unavailable'' then Some (rpc_unavailable message None [] stage)
      else if code = Some ''policy_rejected'' then Some (policy_rejected message [] stage)
      else if code = Some ''internal_error'' \<or> default_category = Some ''internal''
        then Some (internal_error message [] stage ''internal_error'')
      else None)"

definition normalize_plain ::
  "string \<Rightarrow> exn option \<Rightarrow> string \<Rightarrow> string option \<Rightarrow> string option \<Rightarrow> string option
     \<Rightarrow> mercury_error_info" where
  "normalize_plain raw exc message stage code default_category =
     (case normalize_by_code message stage code default_category of
        Some info \<Rightarrow> info
      | None \<Rightarrow>
          if (case exc of None \<Rightarrow> False | Some e \<Rightarrow> is_os_error e)
            then rpc_unavailable message None [] stage
          else if (case exc of None \<Rightarrow> False | Some e \<Rightarrow> is_value_error e)
               \<and> py_contains ''nonce'' (py_lower raw)
            then rpc_unavailable message None [] stage
          else if (case exc of None \<Rightarrow> False | Some e \<Rightarrow> is_value_error e)
               \<and> py_contains ''chain'' (py_lower raw)
            then missing_chain_config message None [] stage
          else (case code of
              Some c \<Rightarrow> internal_error message [] stage c
            | None \<Rightarrow> internal_error message [] stage ''internal_error''))"

definition or_none :: "string \<Rightarrow> string option" where
  "or_none s = (if s = [] then None else Some s)"

fun normalize_exception ::
  "libs \<Rightarrow> exc_arg \<Rightarrow> string option \<Rightarrow> string option \<Rightarrow> string option \<Rightarrow> mercury_error_info" where
  "normalize_exception L (ArgInfo info) stage code cat =
     (case stage of
        Some s \<Rightarrow> if dget (err_details info) ''stage'' = None
                  then info\<lparr>err_details := dset ''stage'' (PStr s) (err_details info)\<rparr> else info
      | None \<Rightarrow> info)"
| "normalize_exception L (ArgExn (ValidationError m es)) stage code cat =
     validation_failed_from_pydantic L m es stage"
| "normalize_exception L (ArgExn (Exn c t)) stage code cat =
     (if c = UnsupportedIntentError then unsupported_intent (or_none t) [] stage
      else if c = DuplicateTransactionError then idempotency_conflict [] stage
      else if c = UnsupportedChainError then missing_chain_config t None [] stage
      else normalize_plain t (Some (Exn c t))
             (py_or (redact_error_message t) ''Mercury request failed.'') stage code cat)"
| "normalize_exception L (ArgText t) stage code cat =
     normalize_plain t None (py_or (redact_error_message t) ''Mercury request failed.'') stage code cat"

abbreviation normalize_exn :: "libs \<Rightarrow> exn \<Rightarrow> string \<Rightarrow> mercury_error_info" where
  "normalize_exn L e stage \<equiv> normalize_exception L (ArgExn e) (Some stage) None None"

abbreviation normalize_exn_code :: "libs \<Rightarrow> exn \<Rightarrow> string \<Rightarrow> string \<Rightarrow> mercury_error_info" where
  "normalize_exn_code L e code stage \<equiv> normalize_exception L (ArgExn e) (Some stage) (Some code) None"

section \<open>Facts\<close>

lemmas error_constructor_defs =
  unsupported_intent_def validation_failed_def missing_chain_config_def rpc_unavailable_def
  policy_rejected_def idempotency_conflict_def approval_required_def approval_denied_def
  simulation_failed_def signing_failed_def broadcast_failed_def internal_error_def

lemma error_info_simps [simp]:
  "err_code (error_info c k m r u l d) = c"
  "err_category (error_info c k m r u l d) = k"
  "err_message (error_info c k m r u l d) = redact_error_message m"
  "err_retryable (error_info c k m r u l d) = r"
  "err_recoverable (error_info c k m r u l d)"
  "err_details (error_info c k m r u l d) = d"
  by (simp_all add: error_info_def)

text \<open>Every constructor redacts its message and leaves it non-empty.\<close>

definition message_redacted :: "mercury_error_info \<Rightarrow> bool" where
  "message_redacted i \<longleftrightarrow> (\<exists>m. err_message i = redact_error_message m)"

lemma message_redacted_error_info [simp]: "message_redacted (error_info c k m r u l d)"
  by (auto simp: message_redacted_def)

lemma message_redacted_nonempty: "message_redacted i \<Longrightarrow> err_message i \<noteq> []"
  unfolding message_redacted_def by (metis redact_error_message_nonempty)

lemma message_redacted_validation [simp]:
  "message_redacted (validation_failed_from_pydantic L m es stage)"
  by (simp add: validation_failed_from_pydantic_def validation_failed_def Let_def)

lemma message_redacted_plain [simp]: "message_redacted (normalize_plain r e m s c k)"
  by (auto simp: normalize_plain_def normalize_by_code_def error_constructor_defs
           split: option.splits)

lemma message_redacted_normalize [simp]: "message_redacted (normalize_exception L (ArgExn e) s c k)"
  by (cases e) (simp_all add: error_constructor_defs)

end
