(* ===== verification/Addresses.thy ===== *)
theory Addresses
  imports Errors
begin

text \<open>
  EVM addresses (\<^verbatim>\<open>mercury/models/addresses.py\<close>) and the native-token placeholders of the
  swap boundary (\<^verbatim>\<open>mercury/models/native_tokens.py\<close>). \<open>Web3.is_address\<close> and
  \<open>Web3.to_checksum_address\<close> are parameters; \<open>web3_laws\<close> states what web3 documents of
  them, and \<open>lower_libs\<close> is a concrete instance that meets it.
\<close>

definition is_evm_hex :: "string \<Rightarrow> bool" where
  "is_evm_hex s \<longleftrightarrow> length s = 42 \<and> prefix ''0x'' s \<and> list_all is_hex_char (drop 2 s)"

definition ZERO_ADDRESS :: string where
  "ZERO_ADDRESS = ''0x0000000000000000000000000000000000000000''"

definition normalize_evm_address :: "libs \<Rightarrow> string \<Rightarrow> exn + string" where
  "normalize_evm_address L address = (let candidate = py_strip address in
     if candidate = [] then Inl (Exn InvalidEVMAddressError ''EVM address must not be empty.'')
     else if \<not> is_address L candidate then Inl (Exn InvalidEVMAddressError ''Invalid EVM address.'')
     else Inr (to_checksum_address L candidate))"

definition NATIVE_FROM_TOKEN_SENTINEL_ALIAS :: string where
  "NATIVE_FROM_TOKEN_SENTINEL_ALIAS = ''0xEeeeeEeeeEeEeeEeEeEeeEEEeeeeEeeeeeeeEEeE''"

definition normalize_swap_input_from_token :: "libs \<Rightarrow> string \<Rightarrow> exn + string" where
  "normalize_swap_input_from_token L v = (let stripped = py_strip v; lower = py_lower stripped in
     if lower = py_lower ZERO_ADDRESS \<or> lower = py_lower NATIVE_FROM_TOKEN_SENTINEL_ALIAS
     then normalize_evm_address L ZERO_ADDRESS
     else normalize_evm_address L stripped)"

text \<open>
  Documented behaviour of web3: the checksum form of an address is \<open>0x\<close> and 40 hex digits,
  is itself an address and is its own checksum form; an all-lowercase 40-digit hex string is
  an address.
\<close>

definition web3_laws :: "libs \<Rightarrow> bool" where
  "web3_laws L \<longleftrightarrow>
     (\<forall>a. is_address L a \<longrightarrow> is_address L (to_checksum_address L a)
        \<and> to_checksum_address L (to_checksum_address L a) = to_checksum_address L a
        \<and> is_evm_hex (to_checksum_address L a)) \<and>
     (\<forall>a. is_evm_hex a \<and> py_lower a = a \<longrightarrow> is_address L a)"

section \<open>Normalised addresses\<close>

definition normal_address :: "libs \<Rightarrow> string \<Rightarrow> bool" where
  "normal_address L a \<longleftrightarrow> is_address L a \<and> to_checksum_address L a = a \<and> is_evm_hex a"

lemma hex_char_not_space [simp]: "is_hex_char c \<Longrightarrow> \<not> is_space c"
  by (auto simp: is_hex_char_def is_space_def Let_def)

lemma is_evm_hex_set: "is_evm_hex s \<Longrightarrow> c \<in> set s \<Longrightarrow> is_hex_char c \<or> c = CHR ''x''"
proof -
  assume s: "is_evm_hex s" and c: "c \<in> set s"
  obtain t where t: "s = ''0x'' @ t" using s by (auto simp: is_evm_hex_def prefix_def)
  with s have "list_all is_hex_char t" by (simp add: is_evm_hex_def)
  with c t show ?thesis by (auto simp: list_all_iff is_hex_char_def)
qed

lemma is_evm_hex_strip [simp]: "is_evm_hex s \<Longrightarrow> py_strip s = s"
proof (rule py_strip_no_space)
  have "\<not> is_space (CHR ''x'')" by (simp add: is_space_def)
  then show "\<forall>c \<in> set s. \<not> is_space c" if "is_evm_hex s"
    using is_evm_hex_set [OF that] hex_char_not_space by blast
qed

lemma is_evm_hex_nonempty [simp]: "is_evm_hex s \<Longrightarrow> s \<noteq> []"
  by (auto simp: is_evm_hex_def)

lemma normalize_normal:
  assumes "normal_address L a"
  shows "normalize_evm_address L a = Inr a"
  using assms by (simp add: normalize_evm_address_def normal_address_def Let_def)

lemma normalize_result_normal:
  assumes "web3_laws L" and "normalize_evm_address L v = Inr a"
  shows "normal_address L a"
  using assms
  by (auto simp: normalize_evm_address_def web3_laws_def normal_address_def Let_def split: if_splits)

lemma normalize_idem:
  assumes "web3_laws L" and "normalize_evm_address L v = Inr a"
  shows "normalize_evm_address L a = Inr a"
  using assms by (intro normalize_normal normalize_result_normal)

lemma normal_address_nonempty [simp]: "normal_address L a \<Longrightarrow> a \<noteq> []"
  by (auto simp: normal_address_def)

lemma is_evm_hex_ZERO: "is_evm_hex ZERO_ADDRESS"
  by code_simp

lemma lower_ZERO: "py_lower ZERO_ADDRESS = ZERO_ADDRESS"
  by code_simp

lemma normalize_error:
  "normalize_evm_address L v = Inl e \<Longrightarrow> is_value_error e"
  by (auto simp: normalize_evm_address_def Let_def split: if_splits)

lemma normalize_ZERO:
  assumes "web3_laws L"
  shows "normalize_evm_address L ZERO_ADDRESS = Inr (to_checksum_address L ZERO_ADDRESS)"
  using assms is_evm_hex_ZERO lower_ZERO
  by (simp add: normalize_evm_address_def web3_laws_def Let_def)

section \<open>A concrete instance of the library parameter\<close>

text \<open>Big-endian bytes of an integer, as ABI words are written.\<close>

fun be_bytes :: "nat \<Rightarrow> nat \<Rightarrow> nat list" where
  "be_bytes 0 n = []"
| "be_bytes (Suc k) n = be_bytes k (n div 256) @ [n mod 256]"

definition hex_value :: "char \<Rightarrow> nat" where
  "hex_value c = (let n = code_point c in if n \<le> 57 then n - 48 else if n \<le> 70 then n - 55 else n - 87)"

definition text_hex_nat :: "string \<Rightarrow> nat" where
  "text_hex_nat s = foldl (\<lambda>n c. 16 * n + hex_value c) 0 s"

definition lower_libs :: libs where
  "lower_libs = \<lparr>is_address = is_evm_hex, to_checksum_address = py_lower,
     keccak_text = (\<lambda>s. if s = ''transfer(address,uint256)'' then [169, 5, 156, 187, 0]
                        else [9, 94, 167, 179, 0]),
     abi_encode = (\<lambda>a n. be_bytes 32 (text_hex_nat (drop 2 a)) @ be_bytes 32 (nat n)),
     validation_msg = (\<lambda>c. ''invalid''), validation_text = (\<lambda>m es. m),
     validation_errors = (\<lambda>m es. PList []), lax_int = as_int,
     lax_bool = (\<lambda>v. case v of PBool b \<Rightarrow> Some b | _ \<Rightarrow> None), float_text = (\<lambda>q. ''0.0'')\<rparr>"

lemma lower_hex_char [simp]:
  assumes "is_hex_char c"
  shows "is_hex_char (lower_char c)"
proof (cases "65 \<le> code_point c \<and> code_point c \<le> (70::nat)")
  case True
  then have l: "lower_char c = char_of (code_point c + 32 :: nat)"
    by (simp add: lower_char_def Let_def)
  from True have "(of_char (char_of (code_point c + 32 :: nat) :: char) :: nat) = code_point c + 32"
    by simp
  with True show ?thesis unfolding l is_hex_char_def Let_def by simp
next
  case False
  with assms have "lower_char c = c"
    by (auto simp: lower_char_def is_hex_char_def Let_def)
  with assms show ?thesis by simp
qed

lemma is_evm_hex_lower:
  assumes "is_evm_hex s"
  shows "is_evm_hex (py_lower s)"
proof -
  obtain t where t: "s = ''0x'' @ t" using assms by (auto simp: is_evm_hex_def prefix_def)
  have "lower_char (CHR ''0'') = CHR ''0''" "lower_char (CHR ''x'') = CHR ''x''" by code_simp+
  with t assms show ?thesis
    by (auto simp: is_evm_hex_def py_lower_def list_all_iff)
qed

lemma web3_laws_lower_libs: "web3_laws lower_libs"
  by (auto simp: web3_laws_def lower_libs_def is_evm_hex_lower)

end
