(* ===== verification/Known_Addresses.thy ===== *)
theory Known_Addresses
  imports Addresses "HOL-Library.List_Lexorder" "HOL-Library.Char_ord"
begin

text \<open>
  The curated address book (\<^verbatim>\<open>mercury/known_addresses/book.py\<close>) over the bundled document
  \<^verbatim>\<open>mercury/data/known_addresses.json\<close>. The loaded document is cached by the program, so the
  lookups take it as an argument; \<open>validate_and_normalize\<close> is what the loader does to it once.
\<close>

definition known_addresses_json :: pydict where
  "known_addresses_json = [
     (''version'', PInt 1),
     (''chain_name_to_id'', PDict [
        (''ethereum'', PInt 1),
        (''base'', PInt 8453),
        (''arbitrum'', PInt 42161),
        (''optimism'', PInt 10),
        (''monad'', PInt 143)]),
     (''chains'', PDict [
        (''1'', PDict [
          (''tokens'', PDict [
            (''USDC'', PStr ''0xA0b86991c6218b36c1d19D4a2e9Eb0cE3606eB48''),
            (''USDT'', PStr ''0xdAC17F958D2ee523a2206206994597C13D831ec7''),
            (''DAI'', PStr ''0x6B175474E89094C44Da98b954EedeAC495271d0F''),
            (''WBTC'', PStr ''0x2260FAC5E5542a773Aa44fBCfeDf7C193bc2C599''),
            (''WETH'', PStr ''0xC02aaA39b223FE8D0A0e5C4F27eAD9083C756Cc2''),
            (''LINK'', PStr ''0x514910771AF9Ca656af840dff83E8264EcF986CA''),
            (''GHO'', PStr ''0x40D16FC0246aD3160Ccc09B8D0D3A2cD28aE6C2f''),
            (''stkGHO'', PStr ''0x1a88Df1cFe15Af22B3c4c783D4e6F7F9e0C1885d''),
            (''wstETH'', PStr ''0x7f39C581F595B53c5cb19bD0b3f8dA6c935E2Ca0''),
            (''rETH'', PStr ''0xae78736Cd615f374D3085123A210448E74Fc6393''),
            (''crvUSD'', PStr ''0xf939E0A03FB07F59A73314E73794Be0E57ac1b4E''),
            (''EURC'', PStr ''0x1aBaEA1f7C830bD89Acc67eC4af516284b1bC33c''),
            (''cbETH'', PStr ''0xBe9895146f7AF43049ca1c1AE358B0541Ea49704''),
            (''SOL'', PStr ''0xD31a59c85aE9D8edEFeC411D448f90841571b89c'')]),
          (''protocols'', PDict [
            (''AAVE_V3'', PDict [
              (''pool_addresses_provider'', PStr ''0x2f39d218133AFaB8F2B819B1066c7E434Ad94E9e''),
              (''pool'', PStr ''0x87870Bca3F3fD6335C3F4ce8392D69350B4fA4E2'')]),
            (''MORPHO'', PDict [
              (''morpho_blue'', PStr ''0x0000000000000000000000000000000000000000'')])])]),
        (''8453'', PDict [
          (''tokens'', PDict [
            (''USDC'', PStr ''0x833589fCD6eDb6E08f4c7C32D4f71b54bdA02913''),
            (''USDT'', PStr ''0xfde4C96c8593536E31F229EA8f37b2ADa2699bb2''),
            (''DAI'', PStr ''0x50c5725949A6F0c72E6C4a641F24049A917DB0Cb''),
            (''WBTC'', PStr ''0x0555E30da8f98308EdB960aa94C0Db47230d2B9c''),
            (''WETH'', PStr ''0x4200000000000000000000000000000000000006''),
            (''LINK'', PStr ''0x88Fb150BDc53A65fe94Dea0c9BA0a6dAf8C6e196''),
            (''SOL'', PStr ''0x311935Cd80B76769bF2ecC9D8Ab7635b2139cf82''),
            (''GHO'', PStr ''0x6Bb7a212910682DCFdbd5BCBb3e28FB4E8da10Ee''),
            (''wstETH'', PStr ''0xc1CBa3fCea344f92D9239c08C0568f6F2F0ee452''),
            (''rETH'', PStr ''0xB6fe221Fe9EeF5aBa221c348bA20A1Bf5e73624c''),
            (''EURC'', PStr ''0x60a3E35Cc302bFA44Cb288Bc5a4F316Fdb1adb42''),
            (''cbETH'', PStr ''0x2Ae3F1Ec7F1F5012CFEab0185bfc7aa3cf0DEc22''),
            (''sparkUSDC'', PStr ''0x7BfA7C4f149E7415b73bdeDfe609237e29CBF34A'')]),
          (''protocols'', PDict [
            (''AAVE_V3'', PDict [
              (''pool_addresses_provider'', PStr ''0xe20fCBdBfFC4Dd138cE8b2E6FBb6CB49777ad64D''),
              (''pool'', PStr ''0xa238dD80C259A72E81D25c0dfF3B6D9c19B8c6f3'')]),
            (''MORPHO'', PDict [
              (''sparkUSDC'', PStr ''0x7BfA7C4f149E7415b73bdeDfe609237e29CBF34A'')])])]),
        (''42161'', PDict [
          (''tokens'', PDict [
            (''USDC'', PStr ''0xaf88d065e77c8cC2239327C5EDb3A432268e5831''),
            (''USDT'', PStr ''0xFd086bC7CD5C481DCC9C85ebE478A1C0b69FCbb9''),
            (''DAI'', PStr ''0xDA10009cBd5D07dd0CeCc66161FC93D7c9000da1''),
            (''WBTC'', PStr ''0x2f2a2543B76A4166549F7aaB2e75Bef0aefC5B0f''),
            (''WETH'', PStr ''0x82aF49447D8a07e3bd95BD0d56f35241523fBab1''),
            (''LINK'', PStr ''0xf97f4df75117a78c1A5a0DBb814Af92458539FB4''),
            (''GHO'', PStr ''0x7dfF72693f6A4149b17e7C6314655f6A9F7c8B33''),
            (''SY-wstETH'', PStr ''0x80c12D5b6Cc494632Bf11b03F09436c8B61Cc5Df''),
            (''rETH'', PStr ''0xEC70Dcb4A1EFa46b8F2D97C310C9c4790ba5ffA8''),
            (''SNX'', PStr ''0xCbA56e55248D38DaA7D874c08426f65921484704''),
            (''crvUSD'', PStr ''0x498Bf2B1e120FeD3ad3D42EA2165E9b73f99C1e5''),
            (''ARB'', PStr ''0x912CE59144191C1204E64559FE8253a0e49E6548'')]),
          (''protocols'', PDict [
            (''AAVE_V3'', PDict [
              (''pool_addresses_provider'', PStr ''0xa97684ead0e402dC232d5A977953DF7ECBaB3CDb''),
              (''pool'', PStr ''0x794a61358D6845594F94dc1DB02A252b5b4814aD'')]),
            (''MORPHO'', PDict [
              (''morpho_blue'', PStr ''0x0000000000000000000000000000000000000000'')])])]),
        (''10'', PDict [
          (''tokens'', PDict [
            (''USDC'', PStr ''0x0b2c639c533813AB4FCa6D36533e9365af3daf6f''),
            (''USDT'', PStr ''0x94B008AA00579C13Bf263a176c224c74aAf5ffAd''),
            (''DAI'', PStr ''0xDA10009cBd5D07dd0CeCc66161FC93D7c9000da1''),
            (''WBTC'', PStr ''0x68F180FCcEe6836688fcD8da20ffA843874bC260''),
            (''WETH'', PStr ''0x4200000000000000000000000000000000000006''),
            (''LINK'', PStr ''0x350a791BFC2c21FbC9D897b05D054C893992A557''),
            (''SNX'', PStr ''0x8700dAe30Bc7Bf4aFEC867BFd00A79dd32ccBd76''),
            (''rETH'', PStr ''0x9BceF72Be871E1C4A82d0653F02e34B733d9b47f''),
            (''OP'', PStr ''0x4200000000000000000000000000000000000042'')]),
          (''protocols'', PDict [
            (''AAVE_V3'', PDict [
              (''pool_addresses_provider'', PStr ''0xa97684ead0e402dC232d5A977953DF7ECBaB3CDb''),
              (''pool'', PStr ''0x794a61358D6845594F94dc1DB02A252b5b4814aD'')]),
            (''MORPHO'', PDict [
              (''morpho_blue'', PStr ''0x0000000000000000000000000000000000000000'')])])]),
        (''143'', PDict [
          (''tokens'', PDict []),
          (''protocols'', PDict [
            (''AAVE_V3'', PDict []),
            (''MORPHO'', PDict [
              (''morpho_blue'', PStr ''0x0000000000000000000000000000000000000000'')])])])])]"

text \<open>ASCII upper case of a ticker symbol.\<close>

definition upper_char :: "char \<Rightarrow> char" where
  "upper_char c = (let n = code_point c in if 97 \<le> n \<and> n \<le> (122::nat) then char_of (n - 32) else c)"

definition py_upper :: "string \<Rightarrow> string" where
  "py_upper s = map upper_char s"

section \<open>Loading\<close>

definition normalize_tokens :: "libs \<Rightarrow> pydict \<Rightarrow> exn + pydict" where
  "normalize_tokens L toks = fold (\<lambda>(symbol, addr) acc. rbind acc (\<lambda>rebuilt.
       case addr of
         PStr a \<Rightarrow> rbind (normalize_evm_address L a) (\<lambda>n. Inr (dset (py_upper symbol) (PStr n) rebuilt))
       | _ \<Rightarrow> Inl (Exn ValueError ''address must be a string.''))) toks (Inr [])"

definition normalize_protocol_field :: "libs \<Rightarrow> string \<times> pyval \<Rightarrow> exn + (string \<times> pyval)" where
  "normalize_protocol_field L = (\<lambda>(pk, addr). case addr of
       PStr a \<Rightarrow> if prefix ''0x'' a \<and> 42 \<le> length a
                 then rbind (normalize_evm_address L a) (\<lambda>n. Inr (pk, PStr n)) else Inr (pk, addr)
     | _ \<Rightarrow> Inr (pk, addr))"

fun rmap :: "('a \<Rightarrow> 'e + 'b) \<Rightarrow> 'a list \<Rightarrow> 'e + 'b list" where
  "rmap f [] = Inr []"
| "rmap f (x # xs) = rbind (f x) (\<lambda>y. rbind (rmap f xs) (\<lambda>ys. Inr (y # ys)))"

definition normalize_protocols :: "libs \<Rightarrow> pydict \<Rightarrow> exn + pydict" where
  "normalize_protocols L protos = rmap (\<lambda>(group, mapping). case mapping of
       PDict m \<Rightarrow> rbind (rmap (normalize_protocol_field L) m) (\<lambda>m'. Inr (group, PDict m'))
     | _ \<Rightarrow> Inr (group, mapping)) protos"

definition normalize_block :: "libs \<Rightarrow> pydict \<Rightarrow> exn + pydict" where
  "normalize_block L block =
     rbind (case dget block ''tokens'' of
              Some (PDict toks) \<Rightarrow> rbind (normalize_tokens L toks) (\<lambda>t. Inr (dset ''tokens'' (PDict t) block))
            | _ \<Rightarrow> Inr block) (\<lambda>block.
     case dget block ''protocols'' of
       Some (PDict protos) \<Rightarrow>
         rbind (normalize_protocols L protos) (\<lambda>p. Inr (dset ''protocols'' (PDict p) block))
     | _ \<Rightarrow> Inr block)"

definition validate_and_normalize :: "libs \<Rightarrow> pydict \<Rightarrow> exn + pydict" where
  "validate_and_normalize L doc = (case dget doc ''chains'' of
       Some (PDict blocks) \<Rightarrow>
         rbind (rmap (\<lambda>(cid, block). case block of
                        PDict b \<Rightarrow> rbind (normalize_block L b) (\<lambda>b'. Inr (cid, PDict b'))
                      | _ \<Rightarrow> Inr (cid, block)) blocks)
           (\<lambda>blocks'. Inr (dset ''chains'' (PDict blocks') doc))
     | _ \<Rightarrow> Inl (Exn ValueError ''known_addresses.json: missing chains object.''))"

section \<open>Lookup\<close>

definition doc_section :: "pydict \<Rightarrow> string \<Rightarrow> pydict" where
  "doc_section doc k = (case dget doc k of Some (PDict d) \<Rightarrow> d | _ \<Rightarrow> [])"

definition quote_text :: "string \<Rightarrow> string" where
  "quote_text s = [CHR 0x27] @ s @ [CHR 0x27]"

definition sorted_keys_text :: "pydict \<Rightarrow> string" where
  "sorted_keys_text d = py_join '', '' (sort (map fst d))"

definition chain_id_string :: "string \<Rightarrow> pydict \<Rightarrow> exn + string" where
  "chain_id_string chain chain_name_to_id = (let normalized = py_lower (py_strip chain) in
     case dget chain_name_to_id normalized of
       Some (PInt i) \<Rightarrow> Inr (int_text i)
     | _ \<Rightarrow> (case py_int_text normalized of
           Some i \<Rightarrow> Inr (int_text i)
         | None \<Rightarrow> Inl (Exn KnownAddressMissingError
             (''Unknown chain '' @ repr_str chain @ ''. Known chains from known_addresses.json: '' @
              sorted_keys_text chain_name_to_id @ ''.''))))"

definition resolve_chain_catalog_ref :: "pydict \<Rightarrow> string \<Rightarrow> exn + (string \<times> string)" where
  "resolve_chain_catalog_ref doc chain = (let name_map = doc_section doc ''chain_name_to_id'' in
     rbind (chain_id_string chain name_map) (\<lambda>cid.
     case find (\<lambda>name. case dget name_map name of Some (PInt i) \<Rightarrow> int_text i = cid | _ \<Rightarrow> False)
            (sort (map fst name_map)) of
       Some name \<Rightarrow> Inr (name, cid)
     | None \<Rightarrow> Inr (cid, cid)))"

definition py_partition_dot :: "string \<Rightarrow> string \<times> string" where
  "py_partition_dot s = (takeWhile (\<lambda>c. c \<noteq> CHR ''.'') s, drop 1 (dropWhile (\<lambda>c. c \<noteq> CHR ''.'') s))"

definition lookup_token :: "string \<Rightarrow> pydict \<Rightarrow> string \<Rightarrow> exn + string" where
  "lookup_token cid block key = (let symbols = doc_section block ''tokens''; symbol = py_upper (py_strip key) in
     case dget symbols symbol of
       Some (PStr addr) \<Rightarrow> Inr addr
     | _ \<Rightarrow> Inl (Exn KnownAddressMissingError
         (''No token '' @ quote_text symbol @ '' on chain_id='' @ cid @ ''. Known tokens: '' @
          py_or (sorted_keys_text symbols) ''(none)'' @ ''.'')))"

definition lookup_protocol :: "libs \<Rightarrow> string \<Rightarrow> pydict \<Rightarrow> string \<Rightarrow> exn + string" where
  "lookup_protocol L cid block key = (let protos = doc_section block ''protocols'';
       (g, f) = py_partition_dot (py_strip key); group = py_strip g; fld = py_strip f in
     if group = [] \<or> fld = [] then Inl (Exn KnownAddressMissingError
         (''Protocol keys must look like PROTO.field (got '' @ repr_str key @
          ''); e.g. AAVE_V3.pool or MORPHO.morpho_blue.''))
     else case dget protos group of
         Some (PDict subtree) \<Rightarrow> (case dget subtree fld of
             Some (PStr a) \<Rightarrow> if prefix ''0x'' a then normalize_evm_address L a
               else Inl (Exn KnownAddressMissingError
                 (''No field '' @ repr_str fld @ '' under '' @ repr_str group @ '' on chain_id='' @ cid @ ''.''))
           | _ \<Rightarrow> Inl (Exn KnownAddressMissingError
                 (''No field '' @ repr_str fld @ '' under '' @ repr_str group @ '' on chain_id='' @ cid @ ''.'')))
       | _ \<Rightarrow> Inl (Exn KnownAddressMissingError
           (''No protocol group '' @ repr_str group @ '' on chain_id='' @ cid @ ''. Groups: '' @
            py_or (sorted_keys_text protos) ''(none)'' @ ''.'')))"

datatype known_category = CatToken | CatProtocol

definition lookup_address :: "libs \<Rightarrow> pydict \<Rightarrow> string \<Rightarrow> known_category \<Rightarrow> string \<Rightarrow> exn + string" where
  "lookup_address L doc chain category key =
     rbind (chain_id_string chain (doc_section doc ''chain_name_to_id'')) (\<lambda>cid.
     case dget (doc_section doc ''chains'') cid of
       Some (PDict block) \<Rightarrow>
         (case category of
            CatToken \<Rightarrow> lookup_token cid block key
          | CatProtocol \<Rightarrow> lookup_protocol L cid block key)
     | _ \<Rightarrow> Inl (Exn KnownAddressMissingError
         (''No known_addresses bundle for chain_id='' @ cid @ ''. Available chain ids: '' @
          sorted_keys_text (doc_section doc ''chains'') @ ''.'')))"

definition list_token_symbols :: "pydict \<Rightarrow> string \<Rightarrow> exn + string list" where
  "list_token_symbols doc chain =
     rbind (chain_id_string chain (doc_section doc ''chain_name_to_id'')) (\<lambda>cid.
     case dget (doc_section doc ''chains'') cid of
       Some (PDict block) \<Rightarrow> Inr (sort (map fst (doc_section block ''tokens'')))
     | _ \<Rightarrow> Inr [])"

definition list_protocol_keys :: "pydict \<Rightarrow> string \<Rightarrow> exn + string list" where
  "list_protocol_keys doc chain =
     rbind (chain_id_string chain (doc_section doc ''chain_name_to_id'')) (\<lambda>cid.
     case dget (doc_section doc ''chains'') cid of
       Some (PDict block) \<Rightarrow> Inr (sort (concat (map (\<lambda>(group, mapping). case mapping of
            PDict m \<Rightarrow> map (\<lambda>(fld, _). group @ ''.'' @ fld) m | _ \<Rightarrow> []) (doc_section block ''protocols''))))
     | _ \<Rightarrow> Inr [])"

section \<open>Facts\<close>

lemma chain_id_string_error:
  "chain_id_string chain m = Inl e \<Longrightarrow> \<exists>t. e = Exn KnownAddressMissingError t"
  by (auto simp: chain_id_string_def Let_def split: option.splits pyval.splits)

lemma lookup_token_error:
  "lookup_token cid block key = Inl e \<Longrightarrow> \<exists>t. e = Exn KnownAddressMissingError t"
  by (auto simp: lookup_token_def Let_def split: option.splits pyval.splits)

text \<open>A token lookup fails with \<open>KnownAddressMissingError\<close> only.\<close>

lemma lookup_address_token_error:
  assumes "lookup_address L doc chain CatToken key = Inl e"
  shows "\<exists>t. e = Exn KnownAddressMissingError t"
proof (cases "chain_id_string chain (doc_section doc ''chain_name_to_id'')")
  case (Inl e')
  with assms show ?thesis by (simp add: lookup_address_def chain_id_string_error)
next
  case (Inr cid)
  show ?thesis
  proof (cases "dget (doc_section doc ''chains'') cid")
    case None
    with Inr assms show ?thesis by (simp add: lookup_address_def) blast
  next
    case (Some v)
    with Inr assms show ?thesis
      by (cases v) (auto simp: lookup_address_def intro: lookup_token_error)
  qed
qed

end
