(* ===== verification/Config_Chains.thy ===== *)
theory Config_Chains
  imports Known_Addresses
begin

text \<open>
  Application settings (\<^verbatim>\<open>mercury/config.py\<close>), chain models (\<^verbatim>\<open>mercury/models/chain.py\<close>) and the
  static chain registry (\<^verbatim>\<open>mercury/chains/\<close>). The program rebuilds the registry from the current
  settings on every call; \<open>chain_configs\<close> is that table and the lookups take it as an argument.
\<close>

record mercury_settings =
  app_name :: string
  default_chain :: string
  graph_node_logging :: bool
  log_level :: string
  ethereum_rpc_secret_path :: string
  base_rpc_secret_path :: string
  arbitrum_rpc_secret_path :: string
  optimism_rpc_secret_path :: string
  monad_rpc_secret_path :: string
  lifi_api_secret_path :: string
  cowswap_api_secret_path :: string
  uniswap_api_secret_path :: string
  alchemy_api_secret_path :: string
  alchemy_webhook_signing_key_secret_path :: string
  oneclaw_base_url :: string
  oneclaw_vault_id :: string
  oneclaw_api_key_secret_source :: string
  oneclaw_agent_id :: "string option"

definition default_settings :: mercury_settings where
  "default_settings = \<lparr>
     app_name = ''Mercury Wallet Agent'',
     default_chain = ''ethereum'',
     graph_node_logging = True,
     log_level = ''DEBUG'',
     ethereum_rpc_secret_path = ''mercury/rpc/ethereum'',
     base_rpc_secret_path = ''mercury/rpc/base'',
     arbitrum_rpc_secret_path = ''mercury/rpc/arbitrum'',
     optimism_rpc_secret_path = ''mercury/rpc/optimism'',
     monad_rpc_secret_path = ''mercury/rpc/monad'',
     lifi_api_secret_path = ''mercury/apis/lifi'',
     cowswap_api_secret_path = ''mercury/apis/cowswap'',
     uniswap_api_secret_path = ''mercury/apis/uniswap'',
     alchemy_api_secret_path = ''mercury/apis/alchemy'',
     alchemy_webhook_signing_key_secret_path = ''mercury/apis/alchemy_webhook_signing_key'',
     oneclaw_base_url = ''http://localhost:8080'',
     oneclaw_vault_id = ''mercury'',
     oneclaw_api_key_secret_source = ''MERCURY_ONECLAW_API_KEY'',
     oneclaw_agent_id = None\<rparr>"

record chain_reference =
  ref_name :: string
  ref_chain_id :: int

record chain_config =
  cc_name :: string
  cc_chain_id :: int
  native_symbol :: string
  rpc_secret_path :: string
  block_explorer_url :: string
  wrapped_native_token_address :: "string option"

definition to_reference :: "chain_config \<Rightarrow> chain_reference" where
  "to_reference c = \<lparr>ref_name = cc_name c, ref_chain_id = cc_chain_id c\<rparr>"

section \<open>Registry\<close>

definition wrapped_native_token :: "libs \<Rightarrow> pydict \<Rightarrow> string \<Rightarrow> string option" where
  "wrapped_native_token L doc chain_name = (case lookup_address L doc chain_name CatToken ''WETH'' of
       Inr a \<Rightarrow> Some a
     | Inl _ \<Rightarrow> None)"

definition chain_configs :: "libs \<Rightarrow> pydict \<Rightarrow> mercury_settings \<Rightarrow> chain_config list" where
  "chain_configs L doc s = [
     \<lparr>cc_name = ''ethereum'', cc_chain_id = 1, native_symbol = ''ETH'',
      rpc_secret_path = ethereum_rpc_secret_path s, block_explorer_url = ''https://etherscan.io'',
      wrapped_native_token_address = wrapped_native_token L doc ''ethereum''\<rparr>,
     \<lparr>cc_name = ''base'', cc_chain_id = 8453, native_symbol = ''ETH'',
      rpc_secret_path = base_rpc_secret_path s, block_explorer_url = ''https://basescan.org'',
      wrapped_native_token_address = wrapped_native_token L doc ''base''\<rparr>,
     \<lparr>cc_name = ''arbitrum'', cc_chain_id = 42161, native_symbol = ''ETH'',
      rpc_secret_path = arbitrum_rpc_secret_path s, block_explorer_url = ''https://arbiscan.org'',
      wrapped_native_token_address = wrapped_native_token L doc ''arbitrum''\<rparr>,
     \<lparr>cc_name = ''optimism'', cc_chain_id = 10, native_symbol = ''ETH'',
      rpc_secret_path = optimism_rpc_secret_path s,
      block_explorer_url = ''https://optimistic.etherscan.io'',
      wrapped_native_token_address = wrapped_native_token L doc ''optimism''\<rparr>,
     \<lparr>cc_name = ''monad'', cc_chain_id = 143, native_symbol = ''MON'',
      rpc_secret_path = monad_rpc_secret_path s, block_explorer_url = ''https://monadvision.com'',
      wrapped_native_token_address = wrapped_native_token L doc ''monad''\<rparr>]"

type_synonym chain_table = "chain_config list"

definition supported_chains_text :: "chain_table \<Rightarrow> string" where
  "supported_chains_text C = py_join '', '' (sort (map cc_name C))"

definition get_chain_by_name :: "chain_table \<Rightarrow> string \<Rightarrow> exn + chain_config" where
  "get_chain_by_name C name = (let normalized_name = py_lower (py_strip name) in
     case map_of (rev (map (\<lambda>c. (cc_name c, c)) C)) normalized_name of
       Some c \<Rightarrow> Inr c
     | None \<Rightarrow> Inl (Exn UnsupportedChainError
         (''Unsupported chain name '' @ quote_text name @ ''. Supported chains: '' @
          supported_chains_text C @ ''.'')))"

definition get_chain_by_id :: "chain_table \<Rightarrow> int \<Rightarrow> exn + chain_config" where
  "get_chain_by_id C chain_id = (case find (\<lambda>c. cc_chain_id c = chain_id) C of
       Some c \<Rightarrow> Inr c
     | None \<Rightarrow> Inl (Exn UnsupportedChainError
         (''Unsupported chain ID '' @ quote_text (int_text chain_id) @ ''. Supported chains: '' @
          supported_chains_text C @ ''.'')))"

definition DEFAULT_CHAIN_NAME :: string where
  "DEFAULT_CHAIN_NAME = ''ethereum''"

definition get_default_chain :: "chain_table \<Rightarrow> exn + chain_config" where
  "get_default_chain C = get_chain_by_name C DEFAULT_CHAIN_NAME"

definition list_chains :: "libs \<Rightarrow> pydict \<Rightarrow> mercury_settings \<Rightarrow> chain_config list" where
  "list_chains L doc s = chain_configs L doc s"

text \<open>ENSIP-11 coin types; Python's bitwise or on unbounded integers.\<close>

definition evm_chain_id_to_ens_coin_type :: "int \<Rightarrow> int" where
  "evm_chain_id_to_ens_coin_type chain_id =
     (if chain_id = 1 then 60 else Bit_Operations.or 0x80000000 chain_id)"

section \<open>The registry contract\<close>

text \<open>
  What the clients of the registry rely on: names are canonical (already stripped and lower
  case) and unique, chain IDs are positive and unique.
\<close>

definition canonical_name :: "string \<Rightarrow> bool" where
  "canonical_name n \<longleftrightarrow> py_lower (py_strip n) = n \<and> n \<noteq> []"

locale chain_registry =
  fixes C :: chain_table
  assumes distinct_names: "distinct (map cc_name C)"
    and distinct_ids: "distinct (map cc_chain_id C)"
    and canonical: "c \<in> set C \<Longrightarrow> canonical_name (cc_name c)"
    and positive_ids: "c \<in> set C \<Longrightarrow> 0 < cc_chain_id c"
begin

lemma map_of_registry:
  "map_of (rev (map (\<lambda>c. (cc_name c, c)) C)) n = Some c \<longleftrightarrow> c \<in> set C \<and> cc_name c = n"
proof -
  have d: "distinct (map fst (rev (map (\<lambda>c. (cc_name c, c)) C)))"
    using distinct_names by (simp add: rev_map [symmetric] comp_def)
  show ?thesis using map_of_eq_Some_iff [OF d, of n c] by auto
qed

lemma by_name_member:
  "get_chain_by_name C n = Inr c \<longleftrightarrow> c \<in> set C \<and> cc_name c = py_lower (py_strip n)"
  by (auto simp: get_chain_by_name_def Let_def map_of_registry [symmetric] split: option.splits)

lemma by_name_error:
  "get_chain_by_name C n = Inl e \<Longrightarrow> \<exists>t. e = Exn UnsupportedChainError t"
  by (auto simp: get_chain_by_name_def Let_def split: option.splits)

lemma by_id_member:
  "get_chain_by_id C i = Inr c \<longleftrightarrow> c \<in> set C \<and> cc_chain_id c = i"
proof
  assume "get_chain_by_id C i = Inr c"
  then show "c \<in> set C \<and> cc_chain_id c = i"
    by (auto simp: get_chain_by_id_def find_Some_iff split: option.splits)
next
  assume c: "c \<in> set C \<and> cc_chain_id c = i"
  then obtain c' where f: "find (\<lambda>c. cc_chain_id c = i) C = Some c'"
    by (cases "find (\<lambda>c. cc_chain_id c = i) C") (auto simp: find_None_iff)
  then have "c' \<in> set C" "cc_chain_id c' = i" by (auto simp: find_Some_iff)
  with c distinct_ids have "c' = c" by (metis distinct_map inj_onD)
  with f show "get_chain_by_id C i = Inr c" by (simp add: get_chain_by_id_def)
qed

lemma by_name_stable:
  assumes "get_chain_by_name C n = Inr c"
  shows "get_chain_by_name C (cc_name c) = Inr c"
proof -
  from assms have "c \<in> set C" by (simp add: by_name_member)
  with canonical have "py_lower (py_strip (cc_name c)) = cc_name c"
    by (simp add: canonical_name_def)
  with \<open>c \<in> set C\<close> show ?thesis by (simp add: by_name_member)
qed

lemma by_name_positive: "get_chain_by_name C n = Inr c \<Longrightarrow> 0 < cc_chain_id c"
  using positive_ids by (simp add: by_name_member)

lemma by_name_nonempty: "get_chain_by_name C n = Inr c \<Longrightarrow> cc_name c \<noteq> []"
  using canonical by (auto simp: by_name_member canonical_name_def)

lemma by_id_by_name:
  "get_chain_by_id C i = Inr c \<longleftrightarrow> get_chain_by_name C (cc_name c) = Inr c \<and> cc_chain_id c = i"
proof
  assume "get_chain_by_id C i = Inr c"
  then have c: "c \<in> set C" "cc_chain_id c = i" by (simp_all add: by_id_member)
  with canonical have "py_lower (py_strip (cc_name c)) = cc_name c" by (simp add: canonical_name_def)
  with c show "get_chain_by_name C (cc_name c) = Inr c \<and> cc_chain_id c = i"
    by (simp add: by_name_member)
next
  assume "get_chain_by_name C (cc_name c) = Inr c \<and> cc_chain_id c = i"
  then show "get_chain_by_id C i = Inr c" by (simp add: by_name_member by_id_member)
qed

end

lemma canonical_chain_names:
  "canonical_name ''ethereum''" "canonical_name ''base''" "canonical_name ''arbitrum''"
  "canonical_name ''optimism''" "canonical_name ''monad''"
  by code_simp+

interpretation reg: chain_registry "chain_configs L doc s" for L doc s
  by unfold_locales (auto simp: chain_configs_def canonical_chain_names)

end
