(* ===== verification/Execution_Models.thy ===== *)
theory Execution_Models
  imports Config_Chains
begin

text \<open>
  The pydantic models of transaction execution (\<^verbatim>\<open>mercury/models/\<close>: \<^verbatim>\<open>gas.py\<close>, \<^verbatim>\<open>execution.py\<close>,
  \<^verbatim>\<open>policy.py\<close>, \<^verbatim>\<open>simulation.py\<close>, \<^verbatim>\<open>approval.py\<close>, \<^verbatim>\<open>transactions.py\<close>, \<^verbatim>\<open>wallets.py\<close>, \<^verbatim>\<open>signing.py\<close>).
  A model is a record; its constructor is a validator that takes the record of the given
  arguments and returns the normalised record, or the \<open>ValidationError\<close> with every violated
  field in declaration order. Validators of the whole model run once the fields are valid.
\<close>

section \<open>Field constraints\<close>

type_synonym field_errors = "(string \<times> field_constraint) list"

definition check :: "bool \<Rightarrow> string \<Rightarrow> field_constraint \<Rightarrow> field_errors" where
  "check b fld c = (if b then [] else [(fld, c)])"

definition min_len :: "string \<Rightarrow> string \<Rightarrow> field_errors" where
  "min_len fld s = check (s \<noteq> []) fld (MinLength 1)"

definition opt_check :: "('a \<Rightarrow> bool) \<Rightarrow> 'a option \<Rightarrow> string \<Rightarrow> field_constraint \<Rightarrow> field_errors" where
  "opt_check P x fld c = (case x of None \<Rightarrow> [] | Some a \<Rightarrow> check (P a) fld c)"

definition addr_errs :: "libs \<Rightarrow> string \<Rightarrow> string \<Rightarrow> field_errors" where
  "addr_errs L fld v = (case normalize_evm_address L v of
       Inr _ \<Rightarrow> [] | Inl e \<Rightarrow> [(fld, FieldValueError (exn_text L e))])"

definition req_addr_errs :: "libs \<Rightarrow> string \<Rightarrow> string \<Rightarrow> field_errors" where
  "req_addr_errs L fld v = (if v = [] then [(fld, MinLength 1)] else addr_errs L fld v)"

definition opt_addr_errs :: "libs \<Rightarrow> string \<Rightarrow> string option \<Rightarrow> field_errors" where
  "opt_addr_errs L fld v = (case v of None \<Rightarrow> [] | Some a \<Rightarrow> addr_errs L fld a)"

definition addr_norm :: "libs \<Rightarrow> string \<Rightarrow> string" where
  "addr_norm L v = (case normalize_evm_address L v of Inr a \<Rightarrow> a | Inl _ \<Rightarrow> v)"

definition finish :: "string \<Rightarrow> field_errors \<Rightarrow> 'a \<Rightarrow> exn + 'a" where
  "finish model errs x = (if errs = [] then Inr x else Inl (ValidationError model errs))"

definition model_error :: "string \<Rightarrow> string \<Rightarrow> exn" where
  "model_error model text = ValidationError model [([], FieldValueError text)]"

text \<open>\<^verbatim>\<open>HexData\<close>: the pattern \<^verbatim>\<open>^0x[a-fA-F0-9]*$\<close>.\<close>

definition is_hex_data :: "string \<Rightarrow> bool" where
  "is_hex_data s \<longleftrightarrow> prefix ''0x'' s \<and> list_all is_hex_char (drop 2 s)"

definition HEX_PATTERN :: field_constraint where
  "HEX_PATTERN = MatchesPattern ''^0x[a-fA-F0-9]*$''"

lemma check_Nil [simp]: "check b fld c = [] \<longleftrightarrow> b"
  by (simp add: check_def)

lemma min_len_Nil [simp]: "min_len fld s = [] \<longleftrightarrow> s \<noteq> []"
  by (simp add: min_len_def)

lemma opt_check_Nil [simp]: "opt_check P x fld c = [] \<longleftrightarrow> (case x of None \<Rightarrow> True | Some a \<Rightarrow> P a)"
  by (cases x) (simp_all add: opt_check_def)

lemma addr_errs_Nil [simp]:
  "addr_errs L fld v = [] \<longleftrightarrow> normalize_evm_address L v = Inr (addr_norm L v)"
  by (auto simp: addr_errs_def addr_norm_def split: sum.splits)

lemma req_addr_errs_Nil [simp]:
  "req_addr_errs L fld v = [] \<longleftrightarrow> v \<noteq> [] \<and> normalize_evm_address L v = Inr (addr_norm L v)"
  by (auto simp: req_addr_errs_def)

lemma opt_addr_errs_Nil [simp]:
  "opt_addr_errs L fld v = [] \<longleftrightarrow>
     (case v of None \<Rightarrow> True | Some a \<Rightarrow> normalize_evm_address L a = Inr (addr_norm L a))"
  by (auto simp: opt_addr_errs_def split: option.splits)

lemma finish_Inr [simp]: "finish m errs x = Inr y \<longleftrightarrow> errs = [] \<and> y = x"
  by (auto simp: finish_def)

lemma finish_Inl: "finish m errs x = Inl e \<longleftrightarrow> errs \<noteq> [] \<and> e = ValidationError m errs"
  by (auto simp: finish_def)

lemma addr_norm_normal [simp]: "normal_address L a \<Longrightarrow> addr_norm L a = a"
  by (simp add: addr_norm_def normalize_normal)

lemma addr_norm_result:
  "web3_laws L \<Longrightarrow> normalize_evm_address L v = Inr (addr_norm L v) \<Longrightarrow> normal_address L (addr_norm L v)"
  by (rule normalize_result_normal)

section \<open>Gas\<close>

record gas_fees =
  gas_limit :: int
  max_fee_per_gas :: "int option"
  max_priority_fee_per_gas :: "int option"
  gas_price :: "int option"

definition has_eip1559 :: "gas_fees \<Rightarrow> bool" where
  "has_eip1559 g \<longleftrightarrow> max_fee_per_gas g \<noteq> None \<or> max_priority_fee_per_gas g \<noteq> None"

definition gas_errors :: "gas_fees \<Rightarrow> field_errors" where
  "gas_errors g = check (0 < gas_limit g) ''gas_limit'' (GreaterThan 0)
     @ opt_check (\<lambda>i. 0 < i) (max_fee_per_gas g) ''max_fee_per_gas'' (GreaterThan 0)
     @ opt_check (\<lambda>i. 0 < i) (max_priority_fee_per_gas g) ''max_priority_fee_per_gas'' (GreaterThan 0)
     @ opt_check (\<lambda>i. 0 < i) (gas_price g) ''gas_price'' (GreaterThan 0)"

definition validate_fee_mode :: "gas_fees \<Rightarrow> exn + gas_fees" where
  "validate_fee_mode g =
     (if has_eip1559 g \<and> gas_price g \<noteq> None
        then Inl (model_error ''GasFees'' ''Gas fees cannot mix EIP-1559 and legacy gas price fields.'')
      else if has_eip1559 g \<and> (max_fee_per_gas g = None \<or> max_priority_fee_per_gas g = None)
        then Inl (model_error ''GasFees'' ''EIP-1559 fees require max fee and priority fee.'')
      else if \<not> has_eip1559 g \<and> gas_price g = None
        then Inl (model_error ''GasFees'' ''Gas fees require either EIP-1559 fees or legacy gas price.'')
      else Inr g)"

definition mk_gas_fees :: "gas_fees \<Rightarrow> exn + gas_fees" where
  "mk_gas_fees g = rbind (finish ''GasFees'' (gas_errors g) g) validate_fee_mode"

definition gas_transaction_fields :: "gas_fees \<Rightarrow> pydict" where
  "gas_transaction_fields g = (''gas'', PInt (gas_limit g)) #
     (case gas_price g of
        Some p \<Rightarrow> [(''gasPrice'', PInt p)]
      | None \<Rightarrow> [(''maxFeePerGas'', PInt (case max_fee_per_gas g of Some f \<Rightarrow> f | None \<Rightarrow> 0)),
                 (''maxPriorityFeePerGas'',
                  PInt (case max_priority_fee_per_gas g of Some f \<Rightarrow> f | None \<Rightarrow> 0))])"

section \<open>Policy, simulation and approval\<close>

datatype policy_status = ALLOWED | NEEDS_APPROVAL | REJECTED_BY_POLICY

record policy_decision =
  pd_status :: policy_status
  pd_reason :: string

definition mk_policy_decision :: "policy_status \<Rightarrow> string \<Rightarrow> exn + policy_decision" where
  "mk_policy_decision st reason =
     finish ''PolicyDecision'' (min_len ''reason'' reason) \<lparr>pd_status = st, pd_reason = reason\<rparr>"

datatype simulation_status = PASSED | SIM_FAILED

record simulation_result =
  sim_status :: simulation_status
  sim_gas_estimate :: "int option"
  sim_reason :: "string option"

definition mk_simulation_result :: "simulation_result \<Rightarrow> exn + simulation_result" where
  "mk_simulation_result r = finish ''SimulationResult''
     (opt_check (\<lambda>i. 0 < i) (sim_gas_estimate r) ''gas_estimate'' (GreaterThan 0)) r"

definition sim_passed :: "simulation_result \<Rightarrow> bool" where
  "sim_passed r \<longleftrightarrow> sim_status r = PASSED"

datatype approval_status = APPROVED | DENIED | REQUIRED

record approval_request =
  ar_wallet_id :: string
  ar_chain :: string
  ar_chain_id :: int
  ar_from_address :: "string option"
  ar_to :: string
  ar_value_wei :: int
  ar_data :: string
  ar_idempotency_key :: string
  ar_metadata :: pydict

definition mk_approval_request :: "approval_request \<Rightarrow> exn + approval_request" where
  "mk_approval_request r = finish ''ApprovalRequest''
     (min_len ''wallet_id'' (ar_wallet_id r) @ min_len ''chain'' (ar_chain r)
      @ check (0 < ar_chain_id r) ''chain_id'' (GreaterThan 0) @ min_len ''to'' (ar_to r)
      @ check (0 \<le> ar_value_wei r) ''value_wei'' (GreaterEqual 0)
      @ check (2 \<le> length (ar_data r)) ''data'' (MinLength 2)
      @ min_len ''idempotency_key'' (ar_idempotency_key r)) r"

record approval_result =
  apr_status :: approval_status
  apr_reason :: string
  apr_approved_by :: "string option"

definition mk_approval_result ::
  "approval_status \<Rightarrow> string \<Rightarrow> string option \<Rightarrow> exn + approval_result" where
  "mk_approval_result st reason by = finish ''ApprovalResult'' (min_len ''reason'' reason)
     \<lparr>apr_status = st, apr_reason = reason, apr_approved_by = by\<rparr>"

definition apr_approved :: "approval_result \<Rightarrow> bool" where
  "apr_approved r \<longleftrightarrow> apr_status r = APPROVED"

section \<open>Transactions\<close>

record prepared_transaction =
  prep_wallet_id :: string
  prep_chain :: string
  prep_chain_id :: "int option"
  prep_from_address :: "string option"
  prep_to :: string
  prep_value_wei :: int
  prep_data :: string
  prep_nonce :: "int option"
  prep_gas :: "gas_fees option"
  prep_idempotency_key :: "string option"
  prep_metadata :: pydict

definition prepared_errors :: "libs \<Rightarrow> prepared_transaction \<Rightarrow> field_errors" where
  "prepared_errors L t = min_len ''wallet_id'' (prep_wallet_id t) @ min_len ''chain'' (prep_chain t)
     @ opt_check (\<lambda>i. 0 < i) (prep_chain_id t) ''chain_id'' (GreaterThan 0)
     @ opt_addr_errs L ''from_address'' (prep_from_address t)
     @ req_addr_errs L ''to'' (prep_to t)
     @ check (0 \<le> prep_value_wei t) ''value_wei'' (GreaterEqual 0)
     @ check (is_hex_data (prep_data t)) ''data'' HEX_PATTERN
     @ opt_check (\<lambda>i. 0 \<le> i) (prep_nonce t) ''nonce'' (GreaterEqual 0)"

definition mk_prepared_transaction :: "libs \<Rightarrow> prepared_transaction \<Rightarrow> exn + prepared_transaction" where
  "mk_prepared_transaction L t = finish ''PreparedTransaction'' (prepared_errors L t)
     (t\<lparr>prep_from_address := map_option (addr_norm L) (prep_from_address t),
        prep_to := addr_norm L (prep_to t)\<rparr>)"

definition prep_is_value_moving :: "prepared_transaction \<Rightarrow> bool" where
  "prep_is_value_moving t \<longleftrightarrow> 0 < prep_value_wei t \<or> prep_data t \<noteq> ''0x''"

record executable_transaction =
  exec_wallet_id :: string
  exec_chain :: string
  exec_chain_id :: int
  exec_from_address :: "string option"
  exec_to :: string
  exec_value_wei :: int
  exec_data :: string
  exec_nonce :: int
  exec_gas :: gas_fees
  exec_idempotency_key :: "string option"
  exec_metadata :: pydict

definition executable_errors :: "libs \<Rightarrow> executable_transaction \<Rightarrow> field_errors" where
  "executable_errors L t = min_len ''wallet_id'' (exec_wallet_id t) @ min_len ''chain'' (exec_chain t)
     @ check (0 < exec_chain_id t) ''chain_id'' (GreaterThan 0)
     @ opt_addr_errs L ''from_address'' (exec_from_address t)
     @ req_addr_errs L ''to'' (exec_to t)
     @ check (0 \<le> exec_value_wei t) ''value_wei'' (GreaterEqual 0)
     @ check (is_hex_data (exec_data t)) ''data'' HEX_PATTERN
     @ check (0 \<le> exec_nonce t) ''nonce'' (GreaterEqual 0)
     @ opt_check (\<lambda>k. k \<noteq> []) (exec_idempotency_key t) ''idempotency_key'' (MinLength 1)"

definition mk_executable_transaction ::
  "libs \<Rightarrow> executable_transaction \<Rightarrow> exn + executable_transaction" where
  "mk_executable_transaction L t = finish ''ExecutableTransaction'' (executable_errors L t)
     (t\<lparr>exec_from_address := map_option (addr_norm L) (exec_from_address t),
        exec_to := addr_norm L (exec_to t)\<rparr>)"

definition is_value_moving :: "executable_transaction \<Rightarrow> bool" where
  "is_value_moving t \<longleftrightarrow> 0 < exec_value_wei t \<or> exec_data t \<noteq> ''0x''"

record prepared_evm_transaction =
  evm_chain_id :: int
  evm_transaction :: pydict

definition mk_prepared_evm_transaction ::
  "prepared_evm_transaction \<Rightarrow> exn + prepared_evm_transaction" where
  "mk_prepared_evm_transaction t =
     rbind (finish ''PreparedEVMTransaction''
              (check (0 < evm_chain_id t) ''chain_id'' (GreaterThan 0)
               @ check (evm_transaction t \<noteq> []) ''transaction'' (MinLength 1)) t) (\<lambda>t.
     case dget_none (evm_transaction t) ''chainId'' of
       PNone \<Rightarrow> Inl (model_error ''PreparedEVMTransaction'' ''Prepared transaction must include chainId.'')
     | v \<Rightarrow> (case as_int v of
           None \<Rightarrow> Inl (model_error ''PreparedEVMTransaction''
                     ''Prepared transaction chainId must be an integer.'')
         | Some i \<Rightarrow> if i \<noteq> evm_chain_id t
             then Inl (model_error ''PreparedEVMTransaction''
                    ''Prepared transaction chainId must match request chain_id.'')
             else Inr t))"

definition to_prepared_evm_transaction :: "executable_transaction \<Rightarrow> exn + prepared_evm_transaction" where
  "to_prepared_evm_transaction t = mk_prepared_evm_transaction
     \<lparr>evm_chain_id = exec_chain_id t,
      evm_transaction =
        [(''chainId'', PInt (exec_chain_id t)), (''nonce'', PInt (exec_nonce t)),
         (''to'', PStr (exec_to t)), (''value'', PInt (exec_value_wei t)),
         (''data'', PStr (exec_data t))]
        @ gas_transaction_fields (exec_gas t)
        @ (case exec_from_address t of None \<Rightarrow> [] | Some a \<Rightarrow> [(''from'', PStr a)])\<rparr>"

section \<open>Execution results\<close>

datatype execution_status = PENDING | CONFIRMED | FAILED | REJECTED | APPROVAL_DENIED

record transaction_receipt =
  rc_tx_hash :: string
  rc_status :: execution_status
  rc_block_number :: "int option"
  rc_gas_used :: "int option"

definition mk_transaction_receipt :: "transaction_receipt \<Rightarrow> exn + transaction_receipt" where
  "mk_transaction_receipt r =
     rbind (finish ''TransactionReceipt''
              (check (is_hex_data (rc_tx_hash r)) ''tx_hash'' HEX_PATTERN
               @ opt_check (\<lambda>i. 0 \<le> i) (rc_block_number r) ''block_number'' (GreaterEqual 0)
               @ opt_check (\<lambda>i. 0 \<le> i) (rc_gas_used r) ''gas_used'' (GreaterEqual 0)) r) (\<lambda>r.
     if rc_status r \<in> {CONFIRMED, FAILED, PENDING} then Inr r
     else Inl (model_error ''TransactionReceipt'' ''Receipt status must be confirmed, failed, or pending.''))"

record execution_result =
  res_chain :: string
  res_chain_id :: int
  res_wallet_id :: string
  res_wallet_address :: "string option"
  res_tx_hash :: "string option"
  res_status :: execution_status
  res_block_number :: "int option"
  res_gas_used :: "int option"
  res_policy_decision :: "policy_decision option"
  res_error :: "mercury_error_info option"

definition result_errors :: "libs \<Rightarrow> execution_result \<Rightarrow> field_errors" where
  "result_errors L r = min_len ''chain'' (res_chain r)
     @ check (0 < res_chain_id r) ''chain_id'' (GreaterThan 0)
     @ min_len ''wallet_id'' (res_wallet_id r)
     @ opt_addr_errs L ''wallet_address'' (res_wallet_address r)
     @ opt_check is_hex_data (res_tx_hash r) ''tx_hash'' HEX_PATTERN
     @ opt_check (\<lambda>i. 0 \<le> i) (res_block_number r) ''block_number'' (GreaterEqual 0)
     @ opt_check (\<lambda>i. 0 \<le> i) (res_gas_used r) ''gas_used'' (GreaterEqual 0)"

definition mk_execution_result :: "libs \<Rightarrow> execution_result \<Rightarrow> exn + execution_result" where
  "mk_execution_result L r = finish ''ExecutionResult'' (result_errors L r)
     (r\<lparr>res_wallet_address := map_option (addr_norm L) (res_wallet_address r)\<rparr>)"

section \<open>Wallets and signing\<close>

record wallet_ref =
  wr_wallet_id :: string
  wr_expected_address :: "string option"

definition mk_wallet_ref :: "libs \<Rightarrow> wallet_ref \<Rightarrow> exn + wallet_ref" where
  "mk_wallet_ref L w = finish ''WalletRef''
     (min_len ''wallet_id'' (wr_wallet_id w)
      @ opt_addr_errs L ''expected_address'' (wr_expected_address w))
     (w\<lparr>wr_expected_address := map_option (addr_norm L) (wr_expected_address w)\<rparr>)"

record wallet_address_result =
  wa_wallet_id :: string
  wa_address :: string

definition mk_wallet_address_result ::
  "libs \<Rightarrow> wallet_address_result \<Rightarrow> exn + wallet_address_result" where
  "mk_wallet_address_result L w = finish ''WalletAddressResult''
     (min_len ''wallet_id'' (wa_wallet_id w) @ req_addr_errs L ''address'' (wa_address w))
     (w\<lparr>wa_address := addr_norm L (wa_address w)\<rparr>)"

record sign_transaction_request =
  sr_wallet :: wallet_ref
  sr_chain_id :: int
  sr_prepared_transaction :: prepared_evm_transaction

definition mk_sign_transaction_request ::
  "sign_transaction_request \<Rightarrow> exn + sign_transaction_request" where
  "mk_sign_transaction_request r =
     rbind (finish ''SignTransactionRequest'' (check (0 < sr_chain_id r) ''chain_id'' (GreaterThan 0)) r) (\<lambda>r.
     if evm_chain_id (sr_prepared_transaction r) \<noteq> sr_chain_id r
     then Inl (model_error ''SignTransactionRequest''
            ''Prepared transaction chain_id must match request chain_id.'')
     else Inr r)"

record signed_transaction_result =
  st_wallet_id :: string
  st_chain_id :: int
  st_signer_address :: string
  st_raw_transaction_hex :: string
  st_tx_hash :: string

definition mk_signed_transaction_result ::
  "libs \<Rightarrow> signed_transaction_result \<Rightarrow> exn + signed_transaction_result" where
  "mk_signed_transaction_result L r =
     rbind (finish ''SignedTransactionResult''
       (min_len ''wallet_id'' (st_wallet_id r) @ check (0 < st_chain_id r) ''chain_id'' (GreaterThan 0)
        @ min_len ''signer_address'' (st_signer_address r)
        @ check (is_hex_data (st_raw_transaction_hex r)) ''raw_transaction_hex'' HEX_PATTERN
        @ check (is_hex_data (st_tx_hash r)) ''tx_hash'' HEX_PATTERN) r) (\<lambda>r.
     case normalize_evm_address L (st_signer_address r) of
       Inr a \<Rightarrow> Inr (r\<lparr>st_signer_address := a\<rparr>)
     | Inl e \<Rightarrow> Inl (model_error ''SignedTransactionResult'' (exn_text L e)))"

record sign_typed_data_request =
  sd_wallet :: wallet_ref
  sd_chain_id :: int
  sd_typed_data :: pydict

definition mk_sign_typed_data_request :: "sign_typed_data_request \<Rightarrow> exn + sign_typed_data_request" where
  "mk_sign_typed_data_request r =
     rbind (finish ''SignTypedDataRequest''
       (check (0 < sd_chain_id r) ''chain_id'' (GreaterThan 0)
        @ check (sd_typed_data r \<noteq> []) ''typed_data'' (MinLength 1)) r) (\<lambda>r.
     case dget_none (sd_typed_data r) ''domain'' of
       PDict domain \<Rightarrow>
         (let cid = dget_none domain ''chainId'' in
          if cid \<noteq> PNone \<and> \<not> eq_int cid (sd_chain_id r)
          then Inl (model_error ''SignTypedDataRequest''
                 ''Typed-data domain chainId must match request chain_id.'')
          else Inr r)
     | _ \<Rightarrow> Inr r)"

record signed_typed_data_result =
  sg_wallet_id :: string
  sg_chain_id :: int
  sg_signer_address :: string
  sg_signature :: string
  sg_message_hash :: string

definition mk_signed_typed_data_result ::
  "libs \<Rightarrow> signed_typed_data_result \<Rightarrow> exn + signed_typed_data_result" where
  "mk_signed_typed_data_result L r =
     rbind (finish ''SignedTypedDataResult''
       (min_len ''wallet_id'' (sg_wallet_id r) @ check (0 < sg_chain_id r) ''chain_id'' (GreaterThan 0)
        @ min_len ''signer_address'' (sg_signer_address r)
        @ check (is_hex_data (sg_signature r)) ''signature'' HEX_PATTERN
        @ check (is_hex_data (sg_message_hash r)) ''message_hash'' HEX_PATTERN) r) (\<lambda>r.
     case normalize_evm_address L (sg_signer_address r) of
       Inr a \<Rightarrow> Inr (r\<lparr>sg_signer_address := a\<rparr>)
     | Inl e \<Rightarrow> Inl (model_error ''SignedTypedDataResult'' (exn_text L e)))"

lemmas model_defs [validator_defs] =
  mk_gas_fees_def gas_errors_def mk_policy_decision_def mk_simulation_result_def
  mk_approval_request_def mk_approval_result_def mk_prepared_transaction_def prepared_errors_def
  mk_executable_transaction_def executable_errors_def mk_prepared_evm_transaction_def
  mk_transaction_receipt_def mk_execution_result_def result_errors_def mk_wallet_ref_def
  mk_wallet_address_result_def mk_sign_transaction_request_def mk_signed_transaction_result_def
  mk_sign_typed_data_request_def mk_signed_typed_data_result_def

section \<open>Validated models\<close>

text \<open>A model is well formed when its own constructor accepts it and leaves it unchanged.\<close>

definition wf_prepared :: "libs \<Rightarrow> prepared_transaction \<Rightarrow> bool" where
  "wf_prepared L t \<longleftrightarrow> mk_prepared_transaction L t = Inr t"

definition wf_executable :: "libs \<Rightarrow> executable_transaction \<Rightarrow> bool" where
  "wf_executable L t \<longleftrightarrow> mk_executable_transaction L t = Inr t"

definition wf_result :: "libs \<Rightarrow> execution_result \<Rightarrow> bool" where
  "wf_result L r \<longleftrightarrow> mk_execution_result L r = Inr r"

definition opt_normal :: "libs \<Rightarrow> string option \<Rightarrow> bool" where
  "opt_normal L a \<longleftrightarrow> (case a of None \<Rightarrow> True | Some x \<Rightarrow> normal_address L x)"

lemma opt_normal_simps [simp]:
  "opt_normal L None" "opt_normal L (Some a) \<longleftrightarrow> normal_address L a"
  by (simp_all add: opt_normal_def)

lemma addr_norm_fix:
  assumes "web3_laws L"
  shows "normalize_evm_address L a = Inr (addr_norm L a) \<and> addr_norm L a = a \<longleftrightarrow> normal_address L a"
proof
  assume a: "normalize_evm_address L a = Inr (addr_norm L a) \<and> addr_norm L a = a"
  then have "normalize_evm_address L a = Inr a" by simp
  with assms show "normal_address L a" by (rule normalize_result_normal)
next
  assume "normal_address L a"
  then show "normalize_evm_address L a = Inr (addr_norm L a) \<and> addr_norm L a = a"
    by (simp add: normalize_normal)
qed

lemma wf_executable_iff:
  assumes "web3_laws L"
  shows "wf_executable L t \<longleftrightarrow>
    exec_wallet_id t \<noteq> [] \<and> exec_chain t \<noteq> [] \<and> 0 < exec_chain_id t \<and>
    opt_normal L (exec_from_address t) \<and> normal_address L (exec_to t) \<and> 0 \<le> exec_value_wei t \<and>
    is_hex_data (exec_data t) \<and> 0 \<le> exec_nonce t \<and> exec_idempotency_key t \<noteq> Some []"
proof -
  have to: "exec_to t \<noteq> [] \<and> normalize_evm_address L (exec_to t) = Inr (addr_norm L (exec_to t)) \<and>
      addr_norm L (exec_to t) = exec_to t \<longleftrightarrow> normal_address L (exec_to t)"
    using addr_norm_fix [OF assms, of "exec_to t"] normal_address_nonempty by blast
  have from_: "(case exec_from_address t of None \<Rightarrow> True
        | Some a \<Rightarrow> normalize_evm_address L a = Inr (addr_norm L a)) \<and>
      map_option (addr_norm L) (exec_from_address t) = exec_from_address t
      \<longleftrightarrow> opt_normal L (exec_from_address t)"
    using addr_norm_fix [OF assms] by (cases "exec_from_address t") auto
  have eq: "(t = t\<lparr>exec_from_address := f, exec_to := x\<rparr>) \<longleftrightarrow> f = exec_from_address t \<and> x = exec_to t"
    for f x by (cases t) auto
  show ?thesis
    unfolding wf_executable_def mk_executable_transaction_def finish_Inr executable_errors_def
      append_is_Nil_conv eq
    using to from_ by (auto split: option.splits)
qed

lemma wf_prepared_iff:
  assumes "web3_laws L"
  shows "wf_prepared L t \<longleftrightarrow>
    prep_wallet_id t \<noteq> [] \<and> prep_chain t \<noteq> [] \<and> (\<forall>i. prep_chain_id t = Some i \<longrightarrow> 0 < i) \<and>
    opt_normal L (prep_from_address t) \<and> normal_address L (prep_to t) \<and> 0 \<le> prep_value_wei t \<and>
    is_hex_data (prep_data t) \<and> (\<forall>n. prep_nonce t = Some n \<longrightarrow> 0 \<le> n)"
proof -
  have to: "prep_to t \<noteq> [] \<and> normalize_evm_address L (prep_to t) = Inr (addr_norm L (prep_to t)) \<and>
      addr_norm L (prep_to t) = prep_to t \<longleftrightarrow> normal_address L (prep_to t)"
    using addr_norm_fix [OF assms, of "prep_to t"] normal_address_nonempty by blast
  have from_: "(case prep_from_address t of None \<Rightarrow> True
        | Some a \<Rightarrow> normalize_evm_address L a = Inr (addr_norm L a)) \<and>
      map_option (addr_norm L) (prep_from_address t) = prep_from_address t
      \<longleftrightarrow> opt_normal L (prep_from_address t)"
    using addr_norm_fix [OF assms] by (cases "prep_from_address t") auto
  have eq: "(t = t\<lparr>prep_from_address := f, prep_to := x\<rparr>) \<longleftrightarrow> f = prep_from_address t \<and> x = prep_to t"
    for f x by (cases t) auto
  show ?thesis
    unfolding wf_prepared_def mk_prepared_transaction_def finish_Inr prepared_errors_def
      append_is_Nil_conv eq
    using to from_ by (auto split: option.splits)
qed

lemma wf_result_iff:
  assumes "web3_laws L"
  shows "wf_result L r \<longleftrightarrow>
    res_chain r \<noteq> [] \<and> 0 < res_chain_id r \<and> res_wallet_id r \<noteq> [] \<and>
    opt_normal L (res_wallet_address r) \<and> (\<forall>h. res_tx_hash r = Some h \<longrightarrow> is_hex_data h) \<and>
    (\<forall>b. res_block_number r = Some b \<longrightarrow> 0 \<le> b) \<and> (\<forall>g. res_gas_used r = Some g \<longrightarrow> 0 \<le> g)"
proof -
  have wallet: "(case res_wallet_address r of None \<Rightarrow> True
        | Some a \<Rightarrow> normalize_evm_address L a = Inr (addr_norm L a)) \<and>
      map_option (addr_norm L) (res_wallet_address r) = res_wallet_address r
      \<longleftrightarrow> opt_normal L (res_wallet_address r)"
    using addr_norm_fix [OF assms] by (cases "res_wallet_address r") auto
  have eq: "(r = r\<lparr>res_wallet_address := w\<rparr>) \<longleftrightarrow> w = res_wallet_address r" for w
    by (cases r) auto
  show ?thesis
    unfolding wf_result_def mk_execution_result_def finish_Inr result_errors_def
      append_is_Nil_conv eq
    using wallet by (auto split: option.splits)
qed

lemma mk_prepared_wf:
  assumes "web3_laws L" and "mk_prepared_transaction L t = Inr t'"
  shows "wf_prepared L t'"
proof -
  have n: "normal_address L (addr_norm L a)" if "normalize_evm_address L a = Inr (addr_norm L a)" for a
    using assms(1) that by (rule addr_norm_result)
  have "opt_normal L (prep_from_address t') \<and> normal_address L (prep_to t')"
    using assms(2) n
    by (auto simp: mk_prepared_transaction_def prepared_errors_def split: option.splits)
  with assms(2) show ?thesis
    unfolding wf_prepared_iff [OF assms(1)]
    by (auto simp: mk_prepared_transaction_def prepared_errors_def split: option.splits)
qed

lemma mk_executable_wf:
  assumes "web3_laws L" and "mk_executable_transaction L t = Inr t'"
  shows "wf_executable L t'"
proof -
  have n: "normal_address L (addr_norm L a)" if "normalize_evm_address L a = Inr (addr_norm L a)" for a
    using assms(1) that by (rule addr_norm_result)
  have "opt_normal L (exec_from_address t') \<and> normal_address L (exec_to t')"
    using assms(2) n
    by (auto simp: mk_executable_transaction_def executable_errors_def split: option.splits)
  with assms(2) show ?thesis
    unfolding wf_executable_iff [OF assms(1)]
    by (auto simp: mk_executable_transaction_def executable_errors_def split: option.splits)
qed

lemma mk_execution_result_wf:
  assumes "web3_laws L" and "mk_execution_result L r = Inr r'"
  shows "wf_result L r'"
proof -
  have n: "normal_address L (addr_norm L a)" if "normalize_evm_address L a = Inr (addr_norm L a)" for a
    using assms(1) that by (rule addr_norm_result)
  have "opt_normal L (res_wallet_address r')"
    using assms(2) n
    by (auto simp: mk_execution_result_def result_errors_def split: option.splits)
  with assms(2) show ?thesis
    unfolding wf_result_iff [OF assms(1)]
    by (auto simp: mk_execution_result_def result_errors_def split: option.splits)
qed

end
