(* ===== verification/Amounts.thy ===== *)
theory Amounts
  imports Execution_Models
begin

text \<open>
  Token amounts (\<^verbatim>\<open>mercury/models/amounts.py\<close>) over the part of Python's \<^verbatim>\<open>decimal\<close> module they use:
  construction from text, rounding to a context, \<open>normalize\<close>, product, quotient,
  \<open>to_integral_value\<close> and fixed point formatting. A finite decimal is a sign, a coefficient
  and an exponent. The contexts are copies of the default one (half-even rounding, exponents up
  to 999999 either way, overflow trapped, underflow not) with their own precision.
\<close>

section \<open>Decimal numbers\<close>

type_synonym dec = "bool \<times> nat \<times> int"

datatype decimal = Finite dec | Infinite | Nan

definition num_digits :: "nat \<Rightarrow> nat" where
  "num_digits c = length (nat_text c)"

definition EMAX :: int where
  "EMAX = 999999"

definition round_half_even :: "nat \<Rightarrow> nat \<Rightarrow> nat" where
  "round_half_even c k = (let q = c div 10 ^ k; r = c mod 10 ^ k; h = 10 ^ k in
     if 2 * r < h then q else if h < 2 * r then q + 1 else if even q then q else q + 1)"

definition dec_overflow :: exn where
  "dec_overflow = Exn ArithmeticError ''[<class 'decimal.Overflow'>]''"

text \<open>The result of an operation, rounded to the precision and the exponent range of the context.\<close>

definition dec_fix :: "nat \<Rightarrow> dec \<Rightarrow> exn + dec" where
  "dec_fix prec d = (case d of (neg, c, e) \<Rightarrow>
     let etiny = - EMAX - int prec + 1; low = max (e + int (num_digits c) - int prec) etiny in
     if c = 0 then Inr (neg, 0, max etiny (min e EMAX))
     else if e + int (num_digits c) - 1 > EMAX then Inl dec_overflow
     else if low \<le> e then Inr (neg, c, e)
     else (let c' = round_half_even c (nat (low - e));
               (c'', e'') = (if num_digits c' > prec then (c' div 10, low + 1) else (c', low))
           in if e'' + int prec - 1 > EMAX then Inl dec_overflow else Inr (neg, c'', e'')))"

function strip_zeros :: "int \<Rightarrow> nat \<Rightarrow> int \<Rightarrow> nat \<times> int" where
  "strip_zeros limit c e =
     (if c \<noteq> 0 \<and> c mod 10 = 0 \<and> e < limit then strip_zeros limit (c div 10) (e + 1) else (c, e))"
  by pat_completeness auto
termination by (relation "measure (\<lambda>(limit, c, e). c)") auto

declare strip_zeros.simps [simp del]

definition DEFAULT_PREC :: nat where
  "DEFAULT_PREC = 28"

definition dec_normalize :: "dec \<Rightarrow> exn + dec" where
  "dec_normalize d = rbind (dec_fix DEFAULT_PREC d) (\<lambda>(neg, c, e).
     if c = 0 then Inr (neg, 0, 0)
     else (let (c', e') = strip_zeros EMAX c e in Inr (neg, c', e')))"

definition dec_mult :: "nat \<Rightarrow> dec \<Rightarrow> dec \<Rightarrow> exn + dec" where
  "dec_mult prec a b = (case (a, b) of ((n1, c1, e1), (n2, c2, e2)) \<Rightarrow>
     dec_fix prec (n1 \<noteq> n2, c1 * c2, e1 + e2))"

text \<open>Division by a finite number other than zero.\<close>

definition dec_div :: "nat \<Rightarrow> dec \<Rightarrow> dec \<Rightarrow> exn + dec" where
  "dec_div prec a b = (case (a, b) of ((n1, c1, e1), (n2, c2, e2)) \<Rightarrow>
     if c1 = 0 then dec_fix prec (n1 \<noteq> n2, 0, e1 - e2)
     else (let shift = int (num_digits c2) - int (num_digits c1) + int prec + 1;
               p = c1 * 10 ^ nat shift; q = c2 * 10 ^ nat (- shift); coeff = p div q; e = e1 - e2 - shift
           in if p mod q \<noteq> 0 then dec_fix prec (n1 \<noteq> n2, if coeff mod 5 = 0 then coeff + 1 else coeff, e)
              else (let (c', e') = strip_zeros (e1 - e2) coeff e in dec_fix prec (n1 \<noteq> n2, c', e'))))"

text \<open>\<open>Decimal(10) ** n\<close> for a precision of more than \<open>n\<close> digits is exact, with exponent 0.\<close>

definition dec_pow10 :: "nat \<Rightarrow> dec" where
  "dec_pow10 n = (False, 10 ^ n, 0)"

definition dec_is_negative :: "dec \<Rightarrow> bool" where
  "dec_is_negative d = (case d of (neg, c, e) \<Rightarrow> neg \<and> c \<noteq> 0)"

text \<open>\<open>x == x.to_integral_value()\<close> and \<open>int(x)\<close>\<close>

definition dec_to_integral :: "dec \<Rightarrow> dec" where
  "dec_to_integral d = (case d of (neg, c, e) \<Rightarrow>
     if 0 \<le> e then d else (neg, round_half_even c (nat (- e)), 0))"

definition dec_signed :: "bool \<Rightarrow> nat \<Rightarrow> int" where
  "dec_signed neg c = (if neg then - int c else int c)"

definition dec_eq :: "dec \<Rightarrow> dec \<Rightarrow> bool" where
  "dec_eq a b = (case (a, b) of ((n1, c1, e1), (n2, c2, e2)) \<Rightarrow>
     dec_signed n1 (c1 * 10 ^ nat (e1 - e2)) = dec_signed n2 (c2 * 10 ^ nat (e2 - e1)))"

definition dec_int :: "dec \<Rightarrow> int" where
  "dec_int d = (case d of (neg, c, e) \<Rightarrow> dec_signed neg (c * 10 ^ nat e div 10 ^ nat (- e)))"

text \<open>\<open>format(x, "f")\<close>\<close>

definition dec_format_f :: "dec \<Rightarrow> string" where
  "dec_format_f d = (case d of (neg, c, e) \<Rightarrow>
     (if neg then ''-'' else []) @
     (let t = nat_text c; k = nat (- e);
          padded = replicate (k + 1 - length t) (CHR ''0'') @ t in
      if 0 \<le> e then t @ (if c = 0 then [] else replicate (nat e) (CHR ''0''))
      else take (length padded - k) padded @ ''.'' @ drop (length padded - k) padded))"

section \<open>Decimals from text\<close>

definition is_exponent_mark :: "char \<Rightarrow> bool" where
  "is_exponent_mark c \<longleftrightarrow> c \<in> {CHR ''e'', CHR ''E''}"

definition unsigned_int :: "string \<Rightarrow> int option" where
  "unsigned_int s = (if py_isdecimal s then Some (int (text_nat s)) else None)"

definition signed_int :: "string \<Rightarrow> int option" where
  "signed_int s = (case s of
       [] \<Rightarrow> None
     | c # cs \<Rightarrow> if c = CHR ''-'' then map_option uminus (unsigned_int cs)
                else if c = CHR ''+'' then unsigned_int cs else unsigned_int s)"

definition dec_number :: "string \<Rightarrow> (nat \<times> int) option" where
  "dec_number s = (let mant = takeWhile (\<lambda>c. \<not> is_exponent_mark c) s;
       rest = dropWhile (\<lambda>c. \<not> is_exponent_mark c) s;
       whole = takeWhile (\<lambda>c. c \<noteq> CHR ''.'') mant;
       frac = tl (dropWhile (\<lambda>c. c \<noteq> CHR ''.'') mant) in
     if py_isdecimal (whole @ frac)
     then map_option (\<lambda>x. (text_nat (whole @ frac), x - int (length frac)))
            (if rest = [] then Some 0 else signed_int (tl rest))
     else None)"

text \<open>The widest exponents a decimal can have; text beyond them is not converted.\<close>

definition exact_range :: "nat \<Rightarrow> int \<Rightarrow> bool" where
  "exact_range c e \<longleftrightarrow> -1999999999999999997 \<le> e \<and>
     (if c = 0 then e else e + int (num_digits c) - 1) \<le> 999999999999999999"

definition dec_special :: "string \<Rightarrow> decimal option" where
  "dec_special s = (let t = py_lower s in
     if t \<in> {''inf'', ''infinity''} then Some Infinite
     else if prefix ''nan'' t \<and> list_all is_decimal_char (drop 3 t) then Some Nan
     else if prefix ''snan'' t \<and> list_all is_decimal_char (drop 4 t) then Some Nan
     else None)"

text \<open>\<open>Decimal(text)\<close>: surrounding space and every underscore are dropped; \<open>None\<close> stands for
  \<open>InvalidOperation\<close>.\<close>

definition decimal_of_text :: "string \<Rightarrow> decimal option" where
  "decimal_of_text text = (let t = filter (\<lambda>c. c \<noteq> CHR ''_'') (py_strip text);
       neg = (t \<noteq> [] \<and> hd t = CHR ''-'');
       body = (if t \<noteq> [] \<and> hd t \<in> {CHR ''-'', CHR ''+''} then tl t else t) in
     case dec_special body of
       Some d \<Rightarrow> Some d
     | None \<Rightarrow> (case dec_number body of
           None \<Rightarrow> None
         | Some (c, e) \<Rightarrow> if exact_range c e then Some (Finite (neg, c, e)) else None))"

section \<open>The amount functions\<close>

definition MAX_DECIMALS :: int where
  "MAX_DECIMALS = 77"

definition validate_token_decimals :: "int \<Rightarrow> exn + int" where
  "validate_token_decimals decimals =
     (if decimals < 0 \<or> decimals > MAX_DECIMALS
      then Inl (Exn InvalidTokenDecimalsError ''Token decimals must be between 0 and 77.'')
      else Inr decimals)"

definition value_error :: "string \<Rightarrow> exn" where
  "value_error msg = Exn ValueError msg"

text \<open>\<open>str\<close> and \<open>int\<close> refuse numbers of more than 4300 digits.\<close>

definition INT_MAX_STR_DIGITS :: nat where
  "INT_MAX_STR_DIGITS = 4300"

definition py_str_int :: "int \<Rightarrow> exn + string" where
  "py_str_int i = (if num_digits (nat \<bar>i\<bar>) > INT_MAX_STR_DIGITS
     then Inl (value_error ''Exceeds the limit (4300 digits) for integer string conversion; use sys.set_int_max_str_digits() to increase the limit'')
     else Inr (int_text i))"

definition format_units :: "int \<Rightarrow> int \<Rightarrow> exn + string" where
  "format_units raw_amount decimals =
     rbind (validate_token_decimals decimals) (\<lambda>_.
     if raw_amount < 0 then Inl (value_error ''Raw amount must not be negative.'')
     else rbind (py_str_int raw_amount) (\<lambda>text.
       if decimals = 0 then Inr text
       else (let prec = max (length text) (nat decimals) + 2 in
         rbind (dec_div prec (False, nat raw_amount, 0) (dec_pow10 (nat decimals))) (\<lambda>q.
         Inr (dec_format_f q)))))"

definition drop_plus :: "string \<Rightarrow> string" where
  "drop_plus s = (if prefix ''+'' s then tl s else s)"

definition fractional_digits :: "dec \<Rightarrow> int" where
  "fractional_digits d = (case d of (neg, c, e) \<Rightarrow> max (- e) 0)"

definition too_many_places :: exn where
  "too_many_places = value_error ''Amount has too many decimal places for token decimals.''"

definition scale_amount :: "string \<Rightarrow> dec \<Rightarrow> int \<Rightarrow> exn + int" where
  "scale_amount candidate parsed decimals =
     rbind (dec_normalize parsed) (\<lambda>normalized.
     if fractional_digits normalized > decimals then Inl too_many_places
     else rbind (dec_mult (max (length candidate) (nat decimals) + nat decimals + 4) parsed
                   (dec_pow10 (nat decimals))) (\<lambda>raw.
       if \<not> dec_eq raw (dec_to_integral raw) then Inl too_many_places
       else Inr (dec_int raw)))"

definition parse_units :: "string \<Rightarrow> int \<Rightarrow> exn + int" where
  "parse_units amount decimals =
     rbind (validate_token_decimals decimals) (\<lambda>_.
     if py_strip amount = [] then Inl (value_error ''Amount must not be empty.'')
     else (let candidate = drop_plus (py_strip amount) in
       case decimal_of_text candidate of
         None \<Rightarrow> Inl (value_error ''Amount must be a valid decimal string.'')
       | Some (Finite d) \<Rightarrow>
           if dec_is_negative d then Inl (value_error ''Amount must not be negative.'')
           else scale_amount candidate d decimals
       | Some _ \<Rightarrow> Inl (value_error ''Amount must be finite.'')))"

definition parse_integer_raw_amount :: "string \<Rightarrow> exn + int" where
  "parse_integer_raw_amount amount =
     (if py_strip amount = [] then Inl (value_error ''Amount must not be empty.'')
      else (let candidate = drop_plus (py_strip amount) in
        if \<not> py_isdigit candidate
          then Inl (value_error ''Raw amount must be a nonnegative integer decimal string without fractional digits.'')
        else if \<not> py_isdecimal candidate
          then Inl (value_error (''invalid literal for int() with base 10: '' @ repr_str candidate))
        else if length candidate > INT_MAX_STR_DIGITS
          then Inl (value_error (''Exceeds the limit (4300 digits) for integer string conversion: value has '' @
            nat_text (length candidate) @ '' digits; use sys.set_int_max_str_digits() to increase the limit''))
        else Inr (int (text_nat candidate))))"

record formatted_amount =
  fa_raw :: int
  fa_formatted :: string
  fa_decimals :: int

definition decimals_errs :: "string \<Rightarrow> int \<Rightarrow> field_errors" where
  "decimals_errs fld d = (if d < 0 then [(fld, GreaterEqual 0)]
     else if d > MAX_DECIMALS then [(fld, LessEqual MAX_DECIMALS)] else [])"

definition mk_formatted_amount :: "formatted_amount \<Rightarrow> exn + formatted_amount" where
  "mk_formatted_amount a = finish ''FormattedAmount''
     (check (0 \<le> fa_raw a) ''raw'' (GreaterEqual 0) @ min_len ''formatted'' (fa_formatted a)
      @ decimals_errs ''decimals'' (fa_decimals a)) a"

section \<open>Digits\<close>

lemma num_digits_pos [simp]: "0 < num_digits c"
  by (simp add: num_digits_def)

lemma num_digits_unfold:
  "num_digits c = (if c < 10 then 1 else num_digits (c div 10) + 1)"
  unfolding num_digits_def by (subst nat_text.simps) simp

lemma less_power_num_digits: "c < 10 ^ num_digits c"
proof (induction c rule: nat_text.induct)
  case (1 c)
  show ?case
  proof (cases "c < 10")
    case False
    with 1 have "c div 10 < 10 ^ num_digits (c div 10)" by simp
    then have "c < 10 ^ (num_digits (c div 10) + 1)" by simp
    with False show ?thesis by (subst num_digits_unfold) simp
  qed (subst num_digits_unfold, simp)
qed

lemma num_digits_le: "c < 10 ^ k \<Longrightarrow> 0 < k \<Longrightarrow> num_digits c \<le> k"
proof (induction k arbitrary: c)
  case (Suc k)
  show ?case
  proof (cases "c < 10")
    case False
    with Suc.prems have "c div 10 < 10 ^ k" by simp
    moreover from this False have "0 < k" by (cases k) auto
    ultimately have "num_digits (c div 10) \<le> k" by (rule Suc.IH)
    with False show ?thesis by (subst num_digits_unfold) simp
  qed (subst num_digits_unfold, simp)
qed simp

lemma num_digits_mult_pow: "c \<noteq> 0 \<Longrightarrow> num_digits (c * 10 ^ k) = num_digits c + k"
proof (induction k)
  case (Suc k)
  then have "1 \<le> c * 10 ^ k" by simp
  then have "\<not> c * 10 ^ Suc k < 10" by (simp add: mult.left_commute)
  then have "num_digits (c * 10 ^ Suc k) = num_digits (c * 10 ^ Suc k div 10) + 1"
    by (subst num_digits_unfold) simp
  also have "c * 10 ^ Suc k div 10 = c * 10 ^ k" by simp
  finally show ?case using Suc by simp
qed simp

lemma num_digits_pow [simp]: "num_digits (10 ^ k) = k + 1"
proof -
  have "num_digits 1 = 1" by (subst num_digits_unfold) simp
  then show ?thesis using num_digits_mult_pow [of 1 k] by simp
qed

lemma digit_value_less: "is_decimal_char c \<Longrightarrow> digit_value c < 10"
  by (auto simp: is_decimal_char_def digit_value_def Let_def)

lemma text_nat_less: "list_all is_decimal_char s \<Longrightarrow> text_nat s < 10 ^ length s"
proof (induction s rule: rev_induct)
  case (snoc c s)
  then have "text_nat s < 10 ^ length s" "digit_value c < 10" by (simp_all add: digit_value_less)
  then show ?case by simp
qed simp

lemma num_digits_text_nat: "py_isdecimal s \<Longrightarrow> num_digits (text_nat s) \<le> length s"
  using text_nat_less [of s] num_digits_le [of "text_nat s" "length s"] by (simp add: py_isdecimal_def)

section \<open>Exact operations\<close>

lemma dec_fix_exact:
  assumes "c \<noteq> 0" and "num_digits c \<le> prec" and "e + int (num_digits c) - 1 \<le> EMAX"
    and "- EMAX - int prec + 1 \<le> e"
  shows "dec_fix prec (neg, c, e) = Inr (neg, c, e)"
  using assms by (simp add: dec_fix_def Let_def)

lemma dec_fix_zero: "dec_fix prec (neg, 0, e) = Inr (neg, 0, max (- EMAX - int prec + 1) (min e EMAX))"
  by (simp add: dec_fix_def Let_def)

lemma dec_fix_Inr_small:
  assumes "dec_fix prec (neg, c, e) = Inr d" and "c \<noteq> 0"
  shows "e + int (num_digits c) - 1 \<le> EMAX"
  using assms by (auto simp: dec_fix_def Let_def split: if_splits)

lemma dec_fix_exponent:
  assumes "dec_fix prec (neg, c, e) = Inr (neg', c', e')" and "c \<noteq> 0"
  shows "neg' = neg" "e \<le> e'"
  using assms by (auto simp: dec_fix_def Let_def split: if_splits)

lemma dec_fix_total:
  assumes "c \<noteq> 0" and "e + int (num_digits c) + int prec \<le> EMAX" and "- EMAX \<le> e" and "0 < prec"
  shows "\<exists>c' e'. dec_fix prec (neg, c, e) = Inr (neg, c', e') \<and> e \<le> e'"
  using assms by (auto simp: dec_fix_def Let_def)

lemma strip_zeros_spec:
  assumes "strip_zeros limit c e = (c', e')"
  shows "e \<le> e' \<and> c = c' * 10 ^ nat (e' - e) \<and> (e \<le> limit \<longrightarrow> e' \<le> limit) \<and> (c' = 0 \<longleftrightarrow> c = 0)"
  using assms
proof (induction limit c e arbitrary: c' e' rule: strip_zeros.induct)
  case (1 limit c e)
  show ?case
  proof (cases "c \<noteq> 0 \<and> c mod 10 = 0 \<and> e < limit")
    case True
    with 1(2) have st: "strip_zeros limit (c div 10) (e + 1) = (c', e')"
      by (simp add: strip_zeros.simps [of limit c e])
    have ih: "e + 1 \<le> e'" "c div 10 = c' * 10 ^ nat (e' - (e + 1))" "e' \<le> limit" "c' = 0 \<longleftrightarrow> c div 10 = 0"
      using 1(1) [OF True st] True by (simp_all only: simp_thms zless_imp_add1_zle)
    from ih(1) have "nat (e' - e) = Suc (nat (e' - (e + 1)))" by simp
    moreover obtain q where q: "c = q * 10" using True by (metis dvdE mod_0_imp_dvd mult.commute)
    moreover have "q = c' * 10 ^ nat (e' - (e + 1))" using ih(2) q by simp
    ultimately have c: "c = c' * 10 ^ nat (e' - e)" by simp
    have "c' = 0 \<longleftrightarrow> c = 0" using q ih(4) by simp
    with c ih(1,3) show ?thesis by linarith
  next
    case False
    with 1(2) show ?thesis by (subst (asm) strip_zeros.simps) auto
  qed
qed

lemma strip_zeros_stops:
  assumes "strip_zeros limit c e = (c', e')"
  shows "c' = 0 \<or> \<not> 10 dvd c' \<or> limit \<le> e'"
  using assms
proof (induction limit c e arbitrary: c' e' rule: strip_zeros.induct)
  case (1 limit c e)
  show ?case
  proof (cases "c \<noteq> 0 \<and> c mod 10 = 0 \<and> e < limit")
    case True
    with 1(2) have "strip_zeros limit (c div 10) (e + 1) = (c', e')"
      by (simp add: strip_zeros.simps [of limit c e])
    from 1(1) [OF True this] show ?thesis .
  next
    case False
    with 1(2) show ?thesis by (auto simp: strip_zeros.simps [of limit c e] mod_eq_0_iff_dvd)
  qed
qed

text \<open>Dividing an integer by a power of ten is exact; the quotient keeps at most \<open>n\<close> places.\<close>

lemma dec_div_pow10:
  assumes "r \<noteq> 0" and "num_digits r + 2 \<le> prec" and "n + 2 \<le> prec" and "int prec \<le> 100000"
  shows "\<exists>c k. dec_div prec (False, r, 0) (dec_pow10 n) = Inr (False, c, - int k) \<and> k \<le> n \<and>
    r = c * 10 ^ (n - k) \<and> c \<noteq> 0 \<and> num_digits c \<le> num_digits r"
proof -
  define m where "m = prec + 2 - num_digits r"
  have shift: "int (num_digits (10 ^ n)) - int (num_digits r) + int prec + 1 = int (n + m)"
    using assms(2) by (simp add: m_def)
  obtain c e where s: "strip_zeros 0 (r * 10 ^ m) (- int (n + m)) = (c, e)" by fastforce
  from strip_zeros_spec [OF s] have e: "- int (n + m) \<le> e" "e \<le> 0" "c \<noteq> 0"
    and c: "r * 10 ^ m = c * 10 ^ nat (e + int (n + m))"
    using assms(1) by (auto simp: algebra_simps)
  define k where "k = nat (- e)"
  have k: "e = - int k" "k \<le> n + m" using e by (auto simp: k_def)
  have le: "k \<le> n"
  proof (rule ccontr)
    assume "\<not> k \<le> n"
    then obtain j where j: "k = n + Suc j" by (metis add_Suc_right less_imp_Suc_add linorder_not_le)
    have "10 dvd c"
    proof -
      have "nat (e + int (n + m)) = m - Suc j" using k j by simp
      with c have "r * 10 ^ m = c * 10 ^ (m - Suc j)" by simp
      moreover have "m = Suc j + (m - Suc j)" using k(2) j by simp
      ultimately have "r * 10 ^ Suc j * 10 ^ (m - Suc j) = c * 10 ^ (m - Suc j)"
        by (metis mult.assoc power_add)
      then have "c = r * 10 ^ Suc j" by simp
      then show ?thesis by simp
    qed
    then show False using strip_zeros_stops [OF s] e(3) k j by auto
  qed
  have rc: "r = c * 10 ^ (n - k)"
  proof -
    have "nat (e + int (n + m)) = (n - k) + m" using k le by simp
    with c have "r * 10 ^ m = c * 10 ^ (n - k) * 10 ^ m" by (simp add: power_add)
    then show ?thesis by simp
  qed
  then have d: "num_digits c \<le> num_digits r" using num_digits_mult_pow [OF e(3), of "n - k"] by simp
  have "dec_fix prec (False, c, e) = Inr (False, c, e)"
    using d e assms k le by (intro dec_fix_exact) (simp_all add: EMAX_def)
  moreover have "r * 10 ^ (n + m) mod 10 ^ n = 0" "r * 10 ^ (n + m) div 10 ^ n = r * 10 ^ m"
    by (simp_all add: power_add mult.left_commute)
  ultimately have "dec_div prec (False, r, 0) (dec_pow10 n) = Inr (False, c, - int k)"
    unfolding dec_div_def dec_pow10_def prod.case Let_def shift nat_int nat_zminus_int
    using assms(1) s k by simp
  with le rc e d show ?thesis by blast
qed

section \<open>Formatted text\<close>

lemma text_nat_zeros [simp]: "text_nat (replicate n (CHR ''0'') @ s) = text_nat s"
proof -
  have "text_nat (replicate n (CHR ''0'')) = 0"
  proof (induction n)
    case (Suc n)
    have "replicate (Suc n) (CHR ''0'') = replicate n (CHR ''0'') @ ''0''" by (simp add: replicate_append_same)
    with Suc show ?case by (simp add: digit_value_def del: replicate_Suc)
  qed simp
  then show ?thesis by (simp add: text_nat_append)
qed

lemma decimal_zero [simp]: "is_decimal_char (CHR ''0'')"
  by (simp add: is_decimal_char_def)

lemma decimal_char_facts:
  assumes "is_decimal_char c"
  shows "\<not> is_exponent_mark c" "c \<noteq> CHR ''.''" "c \<noteq> CHR ''_''" "c \<noteq> CHR ''-''" "c \<noteq> CHR ''+''"
    "lower_char c \<noteq> CHR ''i''" "lower_char c \<noteq> CHR ''n''" "lower_char c \<noteq> CHR ''s''"
  using assms by (auto simp: is_decimal_char_def is_exponent_mark_def lower_char_def Let_def)

text \<open>A plain number: digits, or digits with a point between them.\<close>

lemma dec_number_digits:
  assumes "py_isdecimal s"
  shows "dec_number s = Some (text_nat s, 0)"
proof -
  have all: "\<forall>c \<in> set s. \<not> is_exponent_mark c \<and> c \<noteq> CHR ''.''"
    using assms decimal_char_facts by (auto simp: py_isdecimal_def list_all_iff)
  then have "takeWhile (\<lambda>c. \<not> is_exponent_mark c) s = s" "dropWhile (\<lambda>c. \<not> is_exponent_mark c) s = []"
    "takeWhile (\<lambda>c. c \<noteq> CHR ''.'') s = s" "dropWhile (\<lambda>c. c \<noteq> CHR ''.'') s = []"
    by (auto simp: takeWhile_eq_all_conv dropWhile_eq_Nil_conv)
  note split = this
  show ?thesis unfolding dec_number_def Let_def split using assms by simp
qed

lemma dec_number_point:
  assumes "list_all is_decimal_char (whole @ fr)" and "whole @ fr \<noteq> []"
  shows "dec_number (whole @ ''.'' @ fr) = Some (text_nat (whole @ fr), - int (length fr))"
proof -
  have all: "\<forall>c \<in> set (whole @ ''.'' @ fr). \<not> is_exponent_mark c" "\<forall>c \<in> set whole. c \<noteq> CHR ''.''"
    using assms(1) decimal_char_facts by (auto simp: list_all_iff is_exponent_mark_def)
  then have "takeWhile (\<lambda>c. \<not> is_exponent_mark c) (whole @ ''.'' @ fr) = whole @ ''.'' @ fr"
    "dropWhile (\<lambda>c. \<not> is_exponent_mark c) (whole @ ''.'' @ fr) = []"
    by (simp_all only: takeWhile_eq_all_conv dropWhile_eq_Nil_conv)
  note mark = this
  have point: "takeWhile (\<lambda>c. c \<noteq> CHR ''.'') (whole @ ''.'' @ fr) = whole"
    "dropWhile (\<lambda>c. c \<noteq> CHR ''.'') (whole @ ''.'' @ fr) = ''.'' @ fr"
    using all(2) by (simp_all add: takeWhile_append2 dropWhile_append2)
  show ?thesis
    unfolding dec_number_def Let_def mark point using assms by (simp add: py_isdecimal_def)
qed

definition plain_number :: "string \<Rightarrow> bool" where
  "plain_number s \<longleftrightarrow> s \<noteq> [] \<and> is_decimal_char (hd s) \<and>
     (\<forall>c \<in> set s. is_decimal_char c \<or> c = CHR ''.'')"

lemma plain_number_text:
  assumes "plain_number s"
  shows "py_strip s = s" "drop_plus s = s"
    "decimal_of_text s = (case dec_number s of None \<Rightarrow> None
       | Some (c, e) \<Rightarrow> if exact_range c e then Some (Finite (False, c, e)) else None)"
proof -
  from assms obtain c cs where s: "s = c # cs" and c: "is_decimal_char c"
    by (cases s) (auto simp: plain_number_def)
  have "\<not> is_space (CHR ''.'')" by (simp add: is_space_def)
  then show strip: "py_strip s = s"
    using assms decimal_not_space by (intro py_strip_no_space) (auto simp: plain_number_def)
  note f = decimal_char_facts [OF c]
  show "drop_plus s = s" using s f by (simp add: drop_plus_def)
  have "filter (\<lambda>c. c \<noteq> CHR ''_'') s = s"
    using assms decimal_char_facts(3) by (auto simp: filter_id_conv plain_number_def)
  moreover have "dec_special s = None"
    using f(6-8) s by (auto simp: dec_special_def py_lower_def)
  ultimately show "decimal_of_text s = (case dec_number s of None \<Rightarrow> None
       | Some (c, e) \<Rightarrow> if exact_range c e then Some (Finite (False, c, e)) else None)"
    using s f(4,5) strip by (simp add: decimal_of_text_def Let_def split: option.split)
qed

lemma split_at_end:
  assumes "k < length p"
  shows "take (length p - k) p \<noteq> []" "take (length p - k) p @ drop (length p - k) p = p"
    "length (drop (length p - k) p) = k"
  using assms by auto

lemma dec_format_f_text:
  fixes c k :: nat
  defines "t \<equiv> dec_format_f (False, c, - int k)"
  shows "plain_number t" "dec_number t = Some (c, - int k)" "num_digits c \<le> length t"
proof -
  let ?p = "replicate (k + 1 - length (nat_text c)) (CHR ''0'') @ nat_text c"
  have dec: "list_all is_decimal_char ?p" using nat_text_decimal [of c] by (auto simp: list_all_iff)
  have val: "text_nat ?p = c" by simp
  have len: "k + 1 \<le> length ?p" "num_digits c \<le> length ?p" by (simp_all add: num_digits_def)
  let ?w = "take (length ?p - k) ?p" and ?f = "drop (length ?p - k) ?p"
  have "k < length ?p" using len(1) by (simp only: Suc_eq_plus1 [symmetric] Suc_le_eq)
  note w = split_at_end [OF this]
  show "plain_number t"
  proof (cases "k = 0")
    case True
    then show ?thesis using nat_text_decimal [of c]
      by (cases "nat_text c") (auto simp: t_def dec_format_f_def plain_number_def list_all_iff)
  next
    case False
    then have t: "t = ?w @ ''.'' @ ?f" by (simp add: t_def dec_format_f_def Let_def)
    have "\<forall>c \<in> set (?w @ ?f). is_decimal_char c" unfolding w(2) using dec by (simp add: list_all_iff)
    then have "\<forall>c \<in> set t. is_decimal_char c \<or> c = CHR ''.''" and "\<forall>c \<in> set ?w. is_decimal_char c"
      unfolding t by (auto simp del: append_take_drop_id)
    then show ?thesis unfolding plain_number_def using w(1) t by (cases ?w) auto
  qed
  show "dec_number t = Some (c, - int k)"
  proof (cases "k = 0")
    case True
    then show ?thesis using nat_text_decimal [of c]
      by (simp add: t_def dec_format_f_def dec_number_digits py_isdecimal_def)
  next
    case False
    then have t: "t = ?w @ ''.'' @ ?f" by (simp add: t_def dec_format_f_def Let_def)
    have "list_all is_decimal_char (?w @ ?f)" "?w @ ?f \<noteq> []" unfolding w(2) using dec by simp_all
    from dec_number_point [OF this] show ?thesis unfolding t w(2,3) val .
  qed
  show "num_digits c \<le> length t"
    by (cases "k = 0") (simp_all add: t_def dec_format_f_def Let_def num_digits_def)
qed

section \<open>Exact amounts\<close>

lemma round_half_even_exact: "10 ^ k dvd c \<Longrightarrow> round_half_even c k * 10 ^ k = c"
  by (simp add: round_half_even_def Let_def)

lemma dec_integral:
  assumes "dec_eq (neg, c, e) (dec_to_integral (neg, c, e))"
  shows "dec_int (neg, c, e) * 10 ^ nat (- e) = dec_signed neg c * 10 ^ nat e"
proof (cases "0 \<le> e")
  case True
  then show ?thesis by (simp add: dec_int_def dec_signed_def)
next
  case False
  with assms have "int c = int (round_half_even c (nat (- e)) * 10 ^ nat (- e))"
    by (auto simp: dec_eq_def dec_to_integral_def dec_signed_def split: if_splits)
  then have "c = round_half_even c (nat (- e)) * 10 ^ nat (- e)" by (simp only: of_nat_eq_iff)
  then obtain q where "c = q * 10 ^ nat (- e)" by blast
  with False show ?thesis by (simp add: dec_int_def dec_signed_def)
qed

lemma dec_integral_divides:
  assumes "10 ^ nat (- e) dvd c"
  shows "dec_eq (neg, c, e) (dec_to_integral (neg, c, e))"
  using round_half_even_exact [OF assms]
  by (simp add: dec_eq_def dec_to_integral_def)

lemma dec_special_infinite: "dec_special t \<noteq> Some (Finite x)"
  by (simp add: dec_special_def Let_def)

lemma finite_decimal_body:
  "(case dec_special b of
      Some d \<Rightarrow> Some d
    | None \<Rightarrow> (case dec_number b of
          None \<Rightarrow> None
        | Some (c, e) \<Rightarrow> if exact_range c e then Some (Finite (n, c, e)) else None)) = Some (Finite (neg, c, e)) \<Longrightarrow>
     dec_number b = Some (c, e)"
  using dec_special_infinite by (auto split: option.splits if_splits)

lemma decimal_of_text_digits:
  assumes "decimal_of_text s = Some (Finite (neg, c, e))"
  shows "num_digits c \<le> length s"
proof -
  let ?t = "filter (\<lambda>c. c \<noteq> CHR ''_'') (py_strip s)"
  from finite_decimal_body [OF assms [unfolded decimal_of_text_def Let_def]]
  obtain body where b: "dec_number body = Some (c, e)" "length body \<le> length ?t"
    by (auto split: if_splits)
  from b(1) obtain w f where c: "c = text_nat (w @ f)" "py_isdecimal (w @ f)" and
    l: "length (w @ f) \<le> length body"
  proof -
    let ?m = "takeWhile (\<lambda>c. \<not> is_exponent_mark c) body"
    let ?w = "takeWhile (\<lambda>c. c \<noteq> CHR ''.'') ?m" and ?f = "tl (dropWhile (\<lambda>c. c \<noteq> CHR ''.'') ?m)"
    have "length (?w @ dropWhile (\<lambda>c. c \<noteq> CHR ''.'') ?m) \<le> length body"
      unfolding takeWhile_dropWhile_id by (rule length_takeWhile_le)
    then have "length (?w @ ?f) \<le> length body" by (simp only: length_append length_tl)
    moreover have "c = text_nat (?w @ ?f)" "py_isdecimal (?w @ ?f)"
      using b(1) by (auto simp: dec_number_def Let_def split: if_splits)
    ultimately show ?thesis using that by blast
  qed
  have "length ?t \<le> length s"
    using length_filter_le [of _ "py_strip s"] length_dropWhile_le [of is_space s]
      length_dropWhile_le [of is_space "rev (dropWhile is_space s)"]
    by (simp add: py_strip_def) (meson le_trans)
  with num_digits_text_nat [OF c(2)] c(1) l b(2) show ?thesis by simp
qed

text \<open>
  Scaling keeps the exact value: all digits fit the context, so a result differs from the number
  times \<open>10 ^ decimals\<close> only where the exponent is beyond the range of the context.
\<close>

lemma scale_amount_exact:
  assumes "scale_amount text (neg, c, e) decimals = Inr n" and "num_digits c \<le> length text"
    and "0 \<le> decimals" and "- EMAX \<le> e"
  shows "n * 10 ^ nat (- e) = dec_signed neg c * 10 ^ nat e * 10 ^ nat decimals"
proof -
  let ?p = "max (length text) (nat decimals) + nat decimals + 4" and ?c = "c * 10 ^ nat decimals"
  from assms(1) obtain raw where raw: "dec_fix ?p (neg, ?c, e) = Inr raw"
    and int: "dec_eq raw (dec_to_integral raw)" "n = dec_int raw"
    by (auto simp: scale_amount_def dec_mult_def dec_pow10_def rbind_eq_Inr split: if_splits)
  show ?thesis
  proof (cases "c = 0")
    case True
    with raw have "fst (snd raw) = 0" by (auto simp: dec_fix_zero)
    with int(2) True show ?thesis by (auto simp: dec_int_def dec_signed_def split: prod.splits)
  next
    case False
    have "raw = (neg, ?c, e)"
      using raw dec_fix_Inr_small [OF raw] dec_fix_exact [of ?c ?p e neg] False assms(2,4)
      by (simp add: num_digits_mult_pow)
    with dec_integral [of neg ?c e] int show ?thesis by (simp add: dec_signed_def)
  qed
qed

lemma dec_normalize_places:
  assumes "num_digits c \<le> 1000" and "k \<le> 1000"
  shows "\<exists>d. dec_normalize (neg, c, - int k) = Inr d \<and> fractional_digits d \<le> int k"
proof (cases "c = 0")
  case True
  then show ?thesis by (simp add: dec_normalize_def dec_fix_zero fractional_digits_def)
next
  case False
  obtain c' e' where f: "dec_fix DEFAULT_PREC (neg, c, - int k) = Inr (neg, c', e')" "- int k \<le> e'"
    using dec_fix_total [OF False, of "- int k" DEFAULT_PREC neg] assms by (auto simp: EMAX_def DEFAULT_PREC_def)
  obtain c'' e'' where s: "strip_zeros EMAX c' e' = (c'', e'')" by fastforce
  have "e' \<le> e''" using strip_zeros_spec [OF s] by blast
  with f s show ?thesis by (simp add: dec_normalize_def fractional_digits_def)
qed

lemma scale_amount_total:
  assumes "num_digits c \<le> length text" and "length text \<le> 1000" and "int k \<le> decimals" and "decimals \<le> 77"
  shows "scale_amount text (False, c, - int k) decimals = Inr (int (c * 10 ^ (nat decimals - k)))"
proof -
  obtain m where m: "nat decimals = k + m" using assms(3) by (metis le_Suc_ex nat_int nat_mono)
  let ?p = "max (length text) (nat decimals) + nat decimals + 4" and ?c = "c * 10 ^ nat decimals"
  obtain d where d: "dec_normalize (False, c, - int k) = Inr d" "fractional_digits d \<le> int k"
    using dec_normalize_places [of c k False] assms by auto
  have c: "?c = c * 10 ^ m * 10 ^ k" by (simp add: m power_add)
  obtain e where fx: "dec_fix ?p (False, ?c, - int k) = Inr (False, ?c, e)" "c \<noteq> 0 \<longrightarrow> e = - int k"
  proof (cases "c = 0")
    case False
    then have "dec_fix ?p (False, ?c, - int k) = Inr (False, ?c, - int k)"
      using assms m by (intro dec_fix_exact) (simp_all add: num_digits_mult_pow EMAX_def)
    then show ?thesis using that by simp
  qed (use that in \<open>simp add: dec_fix_zero\<close>)
  have "dec_eq (False, ?c, e) (dec_to_integral (False, ?c, e))"
    using fx(2) c by (intro dec_integral_divides) (cases "c = 0"; simp)
  moreover have "dec_int (False, ?c, e) = int (c * 10 ^ m)"
    using fx(2) c by (cases "c = 0") (simp_all add: dec_int_def dec_signed_def)
  ultimately show ?thesis
    using d assms(3) fx(1) m by (simp add: scale_amount_def dec_mult_def dec_pow10_def)
qed

section \<open>Parsing and printing\<close>

lemma dec_div_zero: "0 < prec \<Longrightarrow> dec_div prec (False, 0, 0) (dec_pow10 n) = Inr (False, 0, 0)"
  by (simp add: dec_div_def dec_pow10_def dec_fix_zero EMAX_def)

lemma format_units_text:
  assumes "0 \<le> raw" and "raw \<le> 10 ^ 100" and "0 \<le> d" and "d \<le> 77"
  shows "\<exists>c k. format_units raw d = Inr (dec_format_f (False, c, - int k)) \<and> int k \<le> d \<and>
    nat raw = c * 10 ^ (nat d - k) \<and> num_digits c \<le> 101"
proof -
  have "nat raw < 10 ^ 101" using assms(1,2) by (simp add: nat_less_iff)
  then have digits: "num_digits (nat raw) \<le> 101" by (rule num_digits_le) simp
  have str: "py_str_int raw = Inr (nat_text (nat raw))"
    using digits assms(1) by (simp add: py_str_int_def INT_MAX_STR_DIGITS_def int_text_def)
  show ?thesis
  proof (cases "d = 0 \<or> raw = 0")
    case True
    have "format_units raw d = Inr (dec_format_f (False, nat raw, - int 0))"
    proof (cases "d = 0")
      case True
      then show ?thesis using str assms(1)
        by (simp add: format_units_def validate_token_decimals_def MAX_DECIMALS_def dec_format_f_def Let_def)
    next
      case False
      with True have "raw = 0" by simp
      with False str assms(3,4) show ?thesis
        by (simp add: format_units_def validate_token_decimals_def MAX_DECIMALS_def dec_div_zero Let_def)
    qed
    moreover have "int 0 \<le> d" using assms(3) by simp
    moreover have "nat raw = nat raw * 10 ^ (nat d - 0)" using True by auto
    ultimately show ?thesis using digits by blast
  next
    case False
    let ?p = "max (length (nat_text (nat raw))) (nat d) + 2"
    have p: "num_digits (nat raw) + 2 \<le> ?p" "nat d + 2 \<le> ?p" "int ?p \<le> 100000" "nat raw \<noteq> 0"
      using digits assms(1,4) False by (auto simp: num_digits_def)
    obtain c k where div: "dec_div ?p (False, nat raw, 0) (dec_pow10 (nat d)) = Inr (False, c, - int k)" and
      k: "k \<le> nat d" "nat raw = c * 10 ^ (nat d - k)" "num_digits c \<le> num_digits (nat raw)"
      using dec_div_pow10 [OF p(4,1,2,3)] by blast
    have "format_units raw d = Inr (dec_format_f (False, c, - int k))"
      using False str assms div by (simp add: format_units_def validate_token_decimals_def MAX_DECIMALS_def Let_def)
    moreover have "int k \<le> d" "num_digits c \<le> 101" using k(1,3) digits assms(3) by auto
    ultimately show ?thesis using k(2) by blast
  qed
qed

lemma dec_format_f_length:
  "length (dec_format_f (False, c, - int k)) \<le> num_digits c + k + 2"
  by (auto simp: dec_format_f_def Let_def num_digits_def simp del: take_append drop_append)

lemma parse_units_format:
  assumes "0 \<le> raw" and "raw \<le> 10 ^ 100" and "0 \<le> d" and "d \<le> 77" and "format_units raw d = Inr s"
  shows "parse_units s d = Inr raw"
proof -
  obtain c k where f: "format_units raw d = Inr (dec_format_f (False, c, - int k))" "int k \<le> d"
    "nat raw = c * 10 ^ (nat d - k)" "num_digits c \<le> 101"
    using format_units_text [OF assms(1-4)] by blast
  with assms(5) have s: "s = dec_format_f (False, c, - int k)" by simp
  note t = dec_format_f_text [of c k, folded s]
  have "exact_range c (- int k)" using f(2,4) assms(4) by (simp add: exact_range_def)
  then have "decimal_of_text s = Some (Finite (False, c, - int k))"
    using plain_number_text(3) [OF t(1)] t(2) by simp
  moreover have "s \<noteq> []" using t(1) by (simp add: plain_number_def)
  moreover have "scale_amount s (False, c, - int k) d = Inr (int (c * 10 ^ (nat d - k)))"
    using t(3) dec_format_f_length [of c k] f s assms by (intro scale_amount_total) auto
  moreover have "int (c * 10 ^ (nat d - k)) = raw" using f(3) assms(1) by (metis int_nat_eq)
  ultimately show ?thesis
    using plain_number_text(1,2) [OF t(1)] assms(3,4)
    by (simp add: parse_units_def validate_token_decimals_def MAX_DECIMALS_def dec_is_negative_def Let_def)
qed

lemma parse_units_Inr:
  assumes "parse_units s d = Inr n"
  obtains neg c e where "decimal_of_text (drop_plus (py_strip s)) = Some (Finite (neg, c, e))"
    "\<not> dec_is_negative (neg, c, e)" "scale_amount (drop_plus (py_strip s)) (neg, c, e) d = Inr n"
    "0 \<le> d" "d \<le> 77"
  using assms
  by (auto simp: parse_units_def validate_token_decimals_def MAX_DECIMALS_def Let_def rbind_eq_Inr
      split: if_splits option.splits decimal.splits)

lemma scale_amount_nonneg:
  assumes "scale_amount text (neg, c, e) d = Inr n" and "\<not> dec_is_negative (neg, c, e)"
  shows "0 \<le> n"
proof -
  from assms(1) obtain p neg' c' e' where f: "dec_fix p (neg, c * 10 ^ nat d, e) = Inr (neg', c', e')"
    and n: "n = dec_int (neg', c', e')"
    by (auto simp: scale_amount_def dec_mult_def dec_pow10_def rbind_eq_Inr split: if_splits)
  show ?thesis
  proof (cases "c = 0")
    case True
    with f n show ?thesis by (auto simp: dec_fix_zero dec_int_def dec_signed_def)
  next
    case False
    with dec_fix_exponent(1) [OF f] assms(2) n show ?thesis
      by (simp add: dec_is_negative_def dec_int_def dec_signed_def)
  qed
qed

end
