(* ===== verification/Read_Tools.thy ===== *)
theory Read_Tools
  imports Amounts Known_Addresses
begin

text \<open>
  The read-only tools (\<^verbatim>\<open>mercury/tools/evm.py\<close>, \<^verbatim>\<open>mercury/tools/erc20.py\<close>) over a provider whose
  contract calls and balances are answered by a node. Texts of a contract are Latin-1; bytes that
  do not decode to such a text raise.
\<close>

section \<open>Providers and contract calls\<close>

datatype call_value = CallVal pyval | CallBytes "nat list"

record read_provider =
  rp_chain :: chain_config
  rp_get_balance :: "string \<Rightarrow> exn + int"
  rp_call :: "string \<Rightarrow> pydict list \<Rightarrow> string \<Rightarrow> pyval list \<Rightarrow> exn + call_value"

text \<open>The dictionary a read-only tool returns.\<close>

type_synonym tool_result = "(string \<times> call_value) list"

type_synonym read_factory = "string \<Rightarrow> exn + read_provider"

text \<open>\<open>contract.functions.<name>(*args).call()\<close>\<close>

definition call_contract_function ::
  "read_provider \<Rightarrow> string \<Rightarrow> pydict list \<Rightarrow> string \<Rightarrow> pyval list \<Rightarrow> exn + call_value" where
  "call_contract_function p address abi function_name args = rp_call p address abi function_name args"

definition abi_entry :: "string \<Rightarrow> (string \<times> string) list \<Rightarrow> string \<Rightarrow> pydict" where
  "abi_entry name inputs output =
     [(''type'', PStr ''function''), (''name'', PStr name), (''stateMutability'', PStr ''view''),
      (''inputs'', PList (map (\<lambda>(n, t). PDict [(''name'', PStr n), (''type'', PStr t)]) inputs)),
      (''outputs'', PList [PDict [(''name'', PStr []), (''type'', PStr output)]])]"

definition ERC20_BALANCE_OF_ABI :: pydict where
  "ERC20_BALANCE_OF_ABI = abi_entry ''balanceOf'' [(''account'', ''address'')] ''uint256''"

definition ERC20_ALLOWANCE_ABI :: pydict where
  "ERC20_ALLOWANCE_ABI = abi_entry ''allowance'' [(''owner'', ''address''), (''spender'', ''address'')] ''uint256''"

definition ERC20_METADATA_ABI :: "pydict list" where
  "ERC20_METADATA_ABI = [abi_entry ''decimals'' [] ''uint8'', abi_entry ''symbol'' [] ''string'',
     abi_entry ''name'' [] ''string'']"

definition ERC20_READ_ABI :: "pydict list" where
  "ERC20_READ_ABI = [ERC20_BALANCE_OF_ABI, ERC20_ALLOWANCE_ABI] @ ERC20_METADATA_ABI"

text \<open>\<open>int(text)\<close>, with the interpreter's limit on the number of digits.\<close>

definition int_of_text :: "string \<Rightarrow> exn + int" where
  "int_of_text s = (case py_int_text s of
       None \<Rightarrow> Inl (value_error (''invalid literal for int() with base 10: '' @ repr_str s))
     | Some i \<Rightarrow> (let n = length (filter is_decimal_char s) in
         if n > INT_MAX_STR_DIGITS
         then Inl (value_error (''Exceeds the limit (4300 digits) for integer string conversion: value has '' @
           nat_text n @ '' digits; use sys.set_int_max_str_digits() to increase the limit''))
         else Inr i))"

text \<open>\<open>int(value)\<close>: a float is truncated, a text parsed, other values raise.\<close>

definition py_int :: "pyval \<Rightarrow> exn + int" where
  "py_int v = (case v of
       PInt i \<Rightarrow> Inr i
     | PBool b \<Rightarrow> Inr (of_bool b)
     | PFloat q \<Rightarrow> Inr (if 0 \<le> q then \<lfloor>q\<rfloor> else \<lceil>q\<rceil>)
     | PStr s \<Rightarrow> int_of_text s
     | _ \<Rightarrow> Inl (Exn TypeError ''int() argument must be a string, a bytes-like object or a real number''))"

fun int_of_call :: "call_value \<Rightarrow> exn + int" where
  "int_of_call (CallVal v) = py_int v"
| "int_of_call (CallBytes bs) = py_int (PStr (map char_of bs))"

text \<open>UTF-8 decoding up to U+00FF.\<close>

fun utf8_decode :: "nat list \<Rightarrow> exn + string" where
  "utf8_decode [] = Inr []"
| "utf8_decode (b # bs) =
     (if b < 128 then rbind (utf8_decode bs) (\<lambda>s. Inr (char_of b # s))
      else (case bs of
          c # cs \<Rightarrow> if (b = 194 \<or> b = 195) \<and> 128 \<le> c \<and> c < 192
            then rbind (utf8_decode cs) (\<lambda>s. Inr (char_of ((b - 192) * 64 + (c - 128)) # s))
            else Inl (Exn UnicodeDecodeError ''utf-8'')
        | [] \<Rightarrow> Inl (Exn UnicodeDecodeError ''utf-8'')))"

definition rstrip_zero :: "nat list \<Rightarrow> nat list" where
  "rstrip_zero bs = rev (dropWhile (\<lambda>b. b = 0) (rev bs))"

definition optional_text_call ::
  "libs \<Rightarrow> read_provider \<Rightarrow> string \<Rightarrow> pydict list \<Rightarrow> string \<Rightarrow> exn + string option" where
  "optional_text_call L p address abi function_name =
     (case call_contract_function p address abi function_name [] of
        Inl _ \<Rightarrow> Inr None
      | Inr (CallBytes bs) \<Rightarrow> rbind (utf8_decode (rstrip_zero bs)) (\<lambda>s. Inr (Some s))
      | Inr (CallVal v) \<Rightarrow> Inr (Some (py_str L v)))"

section \<open>Native balances and generic reads\<close>

record native_balance_output =
  nb_chain :: string
  nb_chain_id :: int
  nb_wallet_address :: string
  nb_raw_wei :: int
  nb_formatted :: string
  nb_symbol :: string

definition get_native_balance ::
  "libs \<Rightarrow> read_factory \<Rightarrow> string \<Rightarrow> string \<Rightarrow> exn + native_balance_output" where
  "get_native_balance L F chain wallet_address =
     rbind (normalize_evm_address L wallet_address) (\<lambda>w.
     rbind (F chain) (\<lambda>p.
     rbind (rp_get_balance p w) (\<lambda>raw_wei.
     rbind (format_units raw_wei 18) (\<lambda>text.
     Inr \<lparr>nb_chain = cc_name (rp_chain p), nb_chain_id = cc_chain_id (rp_chain p), nb_wallet_address = w,
          nb_raw_wei = raw_wei, nb_formatted = text, nb_symbol = native_symbol (rp_chain p)\<rparr>))))"

datatype abi_fragment = AbiEntry pydict | AbiList "pydict list"

fun normalize_abi_fragment :: "abi_fragment \<Rightarrow> pydict list" where
  "normalize_abi_fragment (AbiEntry e) = [e]"
| "normalize_abi_fragment (AbiList es) = es"

definition abi_matches :: "string \<Rightarrow> pydict \<Rightarrow> bool" where
  "abi_matches function_name e \<longleftrightarrow>
     (case dget e ''type'' of None \<Rightarrow> True | Some t \<Rightarrow> t = PStr ''function'') \<and>
     dget e ''name'' = Some (PStr function_name)"

definition not_read_only :: "string \<Rightarrow> exn" where
  "not_read_only function_name =
     value_error (''Function '' @ quote_text function_name @ '' is not read-only.'')"

definition validate_read_only_function :: "pydict list \<Rightarrow> string \<Rightarrow> exn + unit" where
  "validate_read_only_function abi function_name =
     (case filter (abi_matches function_name) abi of
        [] \<Rightarrow> Inl (value_error (''Function '' @ quote_text function_name @ '' was not found in the ABI fragment.''))
      | e # _ \<Rightarrow> (case dget_none e ''stateMutability'' of
            PStr m \<Rightarrow> if m \<noteq> ''view'' \<and> m \<noteq> ''pure'' then Inl (not_read_only function_name)
              else guard_else (dget_none e ''constant'' \<noteq> PBool False) (not_read_only function_name)
          | _ \<Rightarrow> guard_else (dget_none e ''constant'' \<noteq> PBool False) (not_read_only function_name)))"

record contract_read_output =
  cr_chain :: string
  cr_chain_id :: int
  cr_contract_address :: string
  cr_function_name :: string
  cr_result :: call_value

definition read_contract ::
  "libs \<Rightarrow> read_factory \<Rightarrow> string \<Rightarrow> string \<Rightarrow> abi_fragment \<Rightarrow> string \<Rightarrow> pyval list
     \<Rightarrow> exn + contract_read_output" where
  "read_contract L F chain contract_address abi_fragment function_name args =
     rbind (normalize_evm_address L contract_address) (\<lambda>c.
     let abi = normalize_abi_fragment abi_fragment in
     rbind (validate_read_only_function abi function_name) (\<lambda>_.
     rbind (F chain) (\<lambda>p.
     rbind (call_contract_function p c abi function_name args) (\<lambda>result.
     Inr \<lparr>cr_chain = cc_name (rp_chain p), cr_chain_id = cc_chain_id (rp_chain p), cr_contract_address = c,
          cr_function_name = function_name, cr_result = result\<rparr>))))"

section \<open>ERC20 reads\<close>

record erc20_metadata_output =
  md_chain :: string
  md_chain_id :: int
  md_token_address :: string
  md_decimals :: int
  md_symbol :: "string option"
  md_name :: "string option"

definition token_decimals :: "read_provider \<Rightarrow> string \<Rightarrow> exn + int" where
  "token_decimals p token =
     rbind (call_contract_function p token ERC20_READ_ABI ''decimals'' []) (\<lambda>v.
     rbind (int_of_call v) validate_token_decimals)"

definition get_erc20_metadata ::
  "libs \<Rightarrow> read_factory \<Rightarrow> string \<Rightarrow> string \<Rightarrow> exn + erc20_metadata_output" where
  "get_erc20_metadata L F chain token_address =
     rbind (normalize_evm_address L token_address) (\<lambda>token.
     rbind (F chain) (\<lambda>p.
     rbind (token_decimals p token) (\<lambda>decimals.
     rbind (optional_text_call L p token ERC20_READ_ABI ''symbol'') (\<lambda>symbol.
     rbind (optional_text_call L p token ERC20_READ_ABI ''name'') (\<lambda>name.
     Inr \<lparr>md_chain = cc_name (rp_chain p), md_chain_id = cc_chain_id (rp_chain p), md_token_address = token,
          md_decimals = decimals, md_symbol = symbol, md_name = name\<rparr>)))))"

record erc20_balance_output =
  bal_chain :: string
  bal_chain_id :: int
  bal_token_address :: string
  bal_wallet_address :: string
  bal_raw_amount :: int
  bal_formatted :: string
  bal_decimals :: int
  bal_symbol :: "string option"
  bal_name :: "string option"

definition get_erc20_balance ::
  "libs \<Rightarrow> read_factory \<Rightarrow> string \<Rightarrow> string \<Rightarrow> string \<Rightarrow> exn + erc20_balance_output" where
  "get_erc20_balance L F chain token_address wallet_address =
     rbind (normalize_evm_address L token_address) (\<lambda>token.
     rbind (normalize_evm_address L wallet_address) (\<lambda>wallet.
     rbind (F chain) (\<lambda>p.
     rbind (token_decimals p token) (\<lambda>decimals.
     rbind (rbind (call_contract_function p token ERC20_READ_ABI ''balanceOf'' [PStr wallet]) int_of_call) (\<lambda>raw_amount.
     rbind (format_units raw_amount decimals) (\<lambda>text.
     rbind (optional_text_call L p token ERC20_READ_ABI ''symbol'') (\<lambda>symbol.
     rbind (optional_text_call L p token ERC20_READ_ABI ''name'') (\<lambda>name.
     Inr \<lparr>bal_chain = cc_name (rp_chain p), bal_chain_id = cc_chain_id (rp_chain p), bal_token_address = token,
          bal_wallet_address = wallet, bal_raw_amount = raw_amount, bal_formatted = text,
          bal_decimals = decimals, bal_symbol = symbol, bal_name = name\<rparr>))))))))"

record erc20_allowance_output =
  alw_chain :: string
  alw_chain_id :: int
  alw_token_address :: string
  alw_owner_address :: string
  alw_spender_address :: string
  alw_raw_amount :: int
  alw_formatted :: string
  alw_decimals :: int
  alw_symbol :: "string option"
  alw_name :: "string option"

definition get_erc20_allowance ::
  "libs \<Rightarrow> read_factory \<Rightarrow> string \<Rightarrow> string \<Rightarrow> string \<Rightarrow> string \<Rightarrow> exn + erc20_allowance_output" where
  "get_erc20_allowance L F chain token_address owner_address spender_address =
     rbind (normalize_evm_address L token_address) (\<lambda>token.
     rbind (normalize_evm_address L owner_address) (\<lambda>owner.
     rbind (normalize_evm_address L spender_address) (\<lambda>spender.
     rbind (F chain) (\<lambda>p.
     rbind (token_decimals p token) (\<lambda>decimals.
     rbind (rbind (call_contract_function p token ERC20_READ_ABI ''allowance'' [PStr owner, PStr spender]) int_of_call)
       (\<lambda>raw_amount.
     rbind (format_units raw_amount decimals) (\<lambda>text.
     rbind (optional_text_call L p token ERC20_READ_ABI ''symbol'') (\<lambda>symbol.
     rbind (optional_text_call L p token ERC20_READ_ABI ''name'') (\<lambda>name.
     Inr \<lparr>alw_chain = cc_name (rp_chain p), alw_chain_id = cc_chain_id (rp_chain p), alw_token_address = token,
          alw_owner_address = owner, alw_spender_address = spender, alw_raw_amount = raw_amount,
          alw_formatted = text, alw_decimals = decimals, alw_symbol = symbol, alw_name = name\<rparr>)))))))))"

section \<open>Lemmas\<close>

lemma validate_decimals_Inr: "validate_token_decimals d = Inr n \<longleftrightarrow> n = d \<and> 0 \<le> d \<and> d \<le> 77"
  by (auto simp: validate_token_decimals_def MAX_DECIMALS_def)

lemma metadata_Inr:
  assumes "get_erc20_metadata L F chain token = Inr m"
  shows "\<exists>p. F chain = Inr p \<and> md_chain m = cc_name (rp_chain p) \<and> md_chain_id m = cc_chain_id (rp_chain p)"
    "normalize_evm_address L token = Inr (md_token_address m)" "0 \<le> md_decimals m" "md_decimals m \<le> 77"
  using assms
  by (auto simp: get_erc20_metadata_def token_decimals_def rbind_eq_Inr validate_decimals_Inr)

lemma format_units_nonneg: "format_units raw d = Inr s \<Longrightarrow> 0 \<le> raw"
  by (auto simp: format_units_def rbind_eq_Inr split: if_splits)

lemma balance_Inr:
  assumes "get_erc20_balance L F chain token wallet = Inr b"
  shows "\<exists>p v. F chain = Inr p \<and> normalize_evm_address L token = Inr (bal_token_address b) \<and>
      normalize_evm_address L wallet = Inr (bal_wallet_address b) \<and>
      call_contract_function p (bal_token_address b) ERC20_READ_ABI ''balanceOf'' [PStr (bal_wallet_address b)] = Inr v \<and>
      int_of_call v = Inr (bal_raw_amount b)"
    "0 \<le> bal_raw_amount b"
  using assms by (auto simp: get_erc20_balance_def rbind_eq_Inr dest: format_units_nonneg)

lemma allowance_Inr:
  assumes "get_erc20_allowance L F chain token owner spender = Inr a"
  shows "\<exists>p v. F chain = Inr p \<and> normalize_evm_address L token = Inr (alw_token_address a) \<and>
      normalize_evm_address L owner = Inr (alw_owner_address a) \<and>
      normalize_evm_address L spender = Inr (alw_spender_address a) \<and>
      call_contract_function p (alw_token_address a) ERC20_READ_ABI ''allowance''
        [PStr (alw_owner_address a), PStr (alw_spender_address a)] = Inr v \<and>
      int_of_call v = Inr (alw_raw_amount a)"
    "0 \<le> alw_raw_amount a"
  using assms by (auto simp: get_erc20_allowance_def rbind_eq_Inr dest: format_units_nonneg)

lemma read_contract_view:
  assumes "read_contract L F chain c abi f args = Inr r"
  shows "\<exists>e \<in> set (normalize_abi_fragment abi). abi_matches f e \<and>
    (\<forall>m. dget_none e ''stateMutability'' = PStr m \<longrightarrow> m = ''view'' \<or> m = ''pure'') \<and>
    dget_none e ''constant'' \<noteq> PBool False"
proof -
  from assms have v: "validate_read_only_function (normalize_abi_fragment abi) f = Inr ()"
    by (auto simp: read_contract_def rbind_eq_Inr Let_def)
  then obtain e es where e: "filter (abi_matches f) (normalize_abi_fragment abi) = e # es"
    by (auto simp: validate_read_only_function_def split: list.splits)
  then have "e \<in> set (filter (abi_matches f) (normalize_abi_fragment abi))" by simp
  then have "e \<in> set (normalize_abi_fragment abi)" "abi_matches f e" by simp_all
  with v e show ?thesis
    by (intro bexI [of _ e]) (auto simp: validate_read_only_function_def split: pyval.splits if_splits)
qed

end
