(* ===== verification/Swap_Models.thy ===== *)
theory Swap_Models
  imports Execution_Models
begin

text \<open>
  The normalised swap models (\<^verbatim>\<open>mercury/models/swaps.py\<close>): intents, quote requests, routes,
  quotes, provider transactions and orders, and executions, with their validators.
\<close>

section \<open>Enumerations and times\<close>

datatype swap_provider_name = LIFI | COWSWAP | UNISWAP

fun provider_value :: "swap_provider_name \<Rightarrow> string" where
  "provider_value LIFI = ''lifi''"
| "provider_value COWSWAP = ''cowswap''"
| "provider_value UNISWAP = ''uniswap''"

definition provider_of_value :: "string \<Rightarrow> swap_provider_name option" where
  "provider_of_value s = (if s = ''lifi'' then Some LIFI else if s = ''cowswap'' then Some COWSWAP
     else if s = ''uniswap'' then Some UNISWAP else None)"

datatype swap_route_kind = SWAP | BRIDGE

datatype swap_execution_type = EVM_TRANSACTION | EIP712_ORDER | UNSUPPORTED

lemma provider_of_value [simp]: "provider_of_value (provider_value p) = Some p"
  by (cases p) (simp_all add: provider_of_value_def)

text \<open>
  A \<open>datetime\<close>: local time in microseconds and the offset of its zone; a naive one has no
  zone, and comparing it with an aware one raises \<open>TypeError\<close>.
\<close>

record datetime =
  dt_local :: int
  dt_offset :: "int option"

definition dt_le :: "datetime \<Rightarrow> datetime \<Rightarrow> exn + bool" where
  "dt_le a b = (case (dt_offset a, dt_offset b) of
       (None, None) \<Rightarrow> Inr (dt_local a \<le> dt_local b)
     | (Some i, Some j) \<Rightarrow> Inr (dt_local a - i \<le> dt_local b - j)
     | _ \<Rightarrow> Inl (Exn TypeError ''can't compare offset-naive and offset-aware datetimes''))"

definition dt_utc :: "int \<Rightarrow> datetime" where
  "dt_utc t = \<lparr>dt_local = t, dt_offset = Some 0\<rparr>"

text \<open>\<open>normalize_expiry\<close>: a naive time is read as UTC, an aware one is converted to it.\<close>

definition normalize_expiry :: "datetime \<Rightarrow> datetime" where
  "normalize_expiry d = (case dt_offset d of None \<Rightarrow> dt_utc (dt_local d) | Some i \<Rightarrow> dt_utc (dt_local d - i))"

lemma dt_le_utc [simp]: "dt_le (dt_utc a) (dt_utc b) = Inr (a \<le> b)"
  by (simp add: dt_le_def dt_utc_def)

lemma normalize_expiry_utc [simp]: "normalize_expiry (dt_utc t) = dt_utc t"
  by (simp add: normalize_expiry_def dt_utc_def)

section \<open>Field helpers\<close>

definition bps_errs :: "string \<Rightarrow> int option \<Rightarrow> field_errors" where
  "bps_errs fld b = (case b of None \<Rightarrow> [] | Some i \<Rightarrow>
     if i < 0 then [(fld, GreaterEqual 0)] else if 10000 < i then [(fld, LessEqual 10000)] else [])"

definition from_token_errs :: "libs \<Rightarrow> string \<Rightarrow> string \<Rightarrow> field_errors" where
  "from_token_errs L fld v = (if v = [] then [(fld, MinLength 1)] else
     (case normalize_swap_input_from_token L v of
        Inr _ \<Rightarrow> [] | Inl e \<Rightarrow> [(fld, FieldValueError (exn_text L e))]))"

definition from_token_norm :: "libs \<Rightarrow> string \<Rightarrow> string" where
  "from_token_norm L v = (case normalize_swap_input_from_token L v of Inr a \<Rightarrow> a | Inl _ \<Rightarrow> v)"

definition opt_req_addr_errs :: "libs \<Rightarrow> string \<Rightarrow> string option \<Rightarrow> field_errors" where
  "opt_req_addr_errs L fld v = (case v of None \<Rightarrow> [] | Some a \<Rightarrow> req_addr_errs L fld a)"

definition opt_min_len :: "string \<Rightarrow> string option \<Rightarrow> field_errors" where
  "opt_min_len fld v = (case v of None \<Rightarrow> [] | Some s \<Rightarrow> min_len fld s)"

definition chain_norm :: "string \<Rightarrow> string" where
  "chain_norm s = py_lower (py_strip s)"

text \<open>The shared check of \<open>validate_bridge_fields\<close> and \<open>validate_request_destination\<close>.\<close>

definition destination_error :: "libs \<Rightarrow> chain_table \<Rightarrow> string option \<Rightarrow> int option \<Rightarrow> string option" where
  "destination_error L C to_chain to_chain_id = (case (to_chain, to_chain_id) of
       (Some name, Some i) \<Rightarrow> (case get_chain_by_name C name of
           Inl e \<Rightarrow> Some (exn_text L e)
         | Inr c \<Rightarrow> if cc_chain_id c \<noteq> i
             then Some ''to_chain and to_chain_id must refer to the same network.'' else None)
     | _ \<Rightarrow> None)"

definition model_check :: "string \<Rightarrow> string option \<Rightarrow> 'a \<Rightarrow> exn + 'a" where
  "model_check model err x = (case err of None \<Rightarrow> Inr x | Some t \<Rightarrow> Inl (model_error model t))"

lemma bps_errs_Nil [simp]: "bps_errs fld b = [] \<longleftrightarrow> (\<forall>i. b = Some i \<longrightarrow> 0 \<le> i \<and> i \<le> 10000)"
  by (auto simp: bps_errs_def split: option.splits)

lemma from_token_errs_Nil [simp]:
  "from_token_errs L fld v = [] \<longleftrightarrow>
     v \<noteq> [] \<and> normalize_swap_input_from_token L v = Inr (from_token_norm L v)"
  by (auto simp: from_token_errs_def from_token_norm_def split: sum.splits)

lemma opt_req_addr_errs_Nil [simp]:
  "opt_req_addr_errs L fld v = [] \<longleftrightarrow>
     (case v of None \<Rightarrow> True | Some a \<Rightarrow> a \<noteq> [] \<and> normalize_evm_address L a = Inr (addr_norm L a))"
  by (simp add: opt_req_addr_errs_def split: option.splits)

lemma model_check_Inr [simp]: "model_check m e x = Inr y \<longleftrightarrow> e = None \<and> y = x"
  by (auto simp: model_check_def split: option.splits)

section \<open>Intents and requests\<close>

record swap_intent =
  si_wallet_id :: string
  si_chain :: string
  si_from_token :: string
  si_to_token :: string
  si_amount_in :: string
  si_min_amount_out :: "string option"
  si_max_slippage_bps :: "int option"
  si_provider_preference :: "swap_provider_name option"
  si_recipient_address :: "string option"
  si_idempotency_key :: string
  si_to_chain :: "string option"
  si_to_chain_id :: "int option"

definition swap_intent_errors :: "libs \<Rightarrow> swap_intent \<Rightarrow> field_errors" where
  "swap_intent_errors L i = min_len ''wallet_id'' (si_wallet_id i) @ min_len ''chain'' (si_chain i)
     @ from_token_errs L ''from_token'' (si_from_token i) @ req_addr_errs L ''to_token'' (si_to_token i)
     @ min_len ''amount_in'' (si_amount_in i) @ opt_min_len ''min_amount_out'' (si_min_amount_out i)
     @ bps_errs ''max_slippage_bps'' (si_max_slippage_bps i)
     @ opt_req_addr_errs L ''recipient_address'' (si_recipient_address i)
     @ min_len ''idempotency_key'' (si_idempotency_key i) @ opt_min_len ''to_chain'' (si_to_chain i)
     @ opt_check (\<lambda>n. 0 < n) (si_to_chain_id i) ''to_chain_id'' (GreaterThan 0)"

definition mk_swap_intent :: "libs \<Rightarrow> chain_table \<Rightarrow> swap_intent \<Rightarrow> exn + swap_intent" where
  "mk_swap_intent L C i =
     rbind (finish ''SwapIntent'' (swap_intent_errors L i)
       (i\<lparr>si_chain := chain_norm (si_chain i), si_to_chain := map_option chain_norm (si_to_chain i),
          si_from_token := from_token_norm L (si_from_token i),
          si_to_token := addr_norm L (si_to_token i),
          si_recipient_address := map_option (addr_norm L) (si_recipient_address i)\<rparr>)) (\<lambda>i.
     rbind (model_check ''SwapIntent''
       (if si_from_token i = si_to_token i then Some ''Swap tokens must be different.'' else None) i)
       (\<lambda>i. model_check ''SwapIntent'' (destination_error L C (si_to_chain i) (si_to_chain_id i)) i))"

record swap_quote_request =
  rq_wallet_id :: string
  rq_wallet_address :: string
  rq_chain :: string
  rq_chain_id :: int
  rq_from_token :: string
  rq_to_token :: string
  rq_amount_in :: string
  rq_amount_in_raw :: int
  rq_max_slippage_bps :: "int option"
  rq_min_amount_out :: "string option"
  rq_recipient_address :: "string option"
  rq_idempotency_key :: string
  rq_to_chain :: "string option"
  rq_to_chain_id :: "int option"
  rq_from_token_is_native :: bool
  rq_wrapped_from_token :: "string option"

definition effective_recipient :: "swap_quote_request \<Rightarrow> string" where
  "effective_recipient r = (case rq_recipient_address r of
       Some a \<Rightarrow> if a \<noteq> [] then a else rq_wallet_address r
     | None \<Rightarrow> rq_wallet_address r)"

definition quote_request_errors :: "libs \<Rightarrow> swap_quote_request \<Rightarrow> field_errors" where
  "quote_request_errors L r = min_len ''wallet_id'' (rq_wallet_id r)
     @ req_addr_errs L ''wallet_address'' (rq_wallet_address r) @ min_len ''chain'' (rq_chain r)
     @ check (0 < rq_chain_id r) ''chain_id'' (GreaterThan 0)
     @ from_token_errs L ''from_token'' (rq_from_token r) @ req_addr_errs L ''to_token'' (rq_to_token r)
     @ min_len ''amount_in'' (rq_amount_in r)
     @ check (0 < rq_amount_in_raw r) ''amount_in_raw'' (GreaterThan 0)
     @ bps_errs ''max_slippage_bps'' (rq_max_slippage_bps r)
     @ opt_min_len ''min_amount_out'' (rq_min_amount_out r)
     @ opt_req_addr_errs L ''recipient_address'' (rq_recipient_address r)
     @ min_len ''idempotency_key'' (rq_idempotency_key r) @ opt_min_len ''to_chain'' (rq_to_chain r)
     @ opt_check (\<lambda>n. 0 < n) (rq_to_chain_id r) ''to_chain_id'' (GreaterThan 0)
     @ opt_req_addr_errs L ''wrapped_from_token'' (rq_wrapped_from_token r)"

text \<open>\<open>validate_native_sell_fields\<close>\<close>

definition native_sell_error :: "libs \<Rightarrow> swap_quote_request \<Rightarrow> string option" where
  "native_sell_error L r = (case normalize_evm_address L ZERO_ADDRESS of
       Inl e \<Rightarrow> Some (exn_text L e)
     | Inr canonical_native \<Rightarrow>
         if rq_from_token r = canonical_native then
           (if \<not> rq_from_token_is_native r then Some
              (''from_token_is_native must be True when from_token is the '' @ ''canonical native placeholder.'')
            else if rq_wrapped_from_token r = None
              then Some ''wrapped_from_token is required when selling native currency.'' else None)
         else if rq_from_token_is_native r
           then Some ''from_token_is_native cannot be True for ERC-20 sell tokens.''
         else if rq_wrapped_from_token r \<noteq> None
           then Some ''wrapped_from_token must be omitted for ERC-20 sell tokens.''
         else None)"

definition mk_swap_quote_request ::
  "libs \<Rightarrow> chain_table \<Rightarrow> swap_quote_request \<Rightarrow> exn + swap_quote_request" where
  "mk_swap_quote_request L C r =
     rbind (finish ''SwapQuoteRequest'' (quote_request_errors L r)
       (r\<lparr>rq_wallet_address := addr_norm L (rq_wallet_address r), rq_chain := chain_norm (rq_chain r),
          rq_from_token := from_token_norm L (rq_from_token r),
          rq_to_token := addr_norm L (rq_to_token r),
          rq_recipient_address := map_option (addr_norm L) (rq_recipient_address r),
          rq_to_chain := map_option chain_norm (rq_to_chain r),
          rq_wrapped_from_token := map_option (addr_norm L) (rq_wrapped_from_token r)\<rparr>)) (\<lambda>r.
     rbind (model_check ''SwapQuoteRequest'' (destination_error L C (rq_to_chain r) (rq_to_chain_id r)) r)
       (\<lambda>r. model_check ''SwapQuoteRequest'' (native_sell_error L r) r))"

section \<open>Routes and quotes\<close>

record swap_route =
  rt_provider :: swap_provider_name
  rt_route_id :: string
  rt_route_kind :: swap_route_kind
  rt_from_chain_id :: int
  rt_to_chain_id :: int
  rt_from_token :: string
  rt_to_token :: string
  rt_spender_address :: "string option"
  rt_steps :: "string list"

definition mk_swap_route :: "libs \<Rightarrow> swap_route \<Rightarrow> exn + swap_route" where
  "mk_swap_route L r = finish ''SwapRoute''
     (min_len ''route_id'' (rt_route_id r)
      @ check (0 < rt_from_chain_id r) ''from_chain_id'' (GreaterThan 0)
      @ check (0 < rt_to_chain_id r) ''to_chain_id'' (GreaterThan 0)
      @ req_addr_errs L ''from_token'' (rt_from_token r) @ req_addr_errs L ''to_token'' (rt_to_token r)
      @ opt_req_addr_errs L ''spender_address'' (rt_spender_address r))
     (r\<lparr>rt_from_token := addr_norm L (rt_from_token r), rt_to_token := addr_norm L (rt_to_token r),
        rt_spender_address := map_option (addr_norm L) (rt_spender_address r)\<rparr>)"

record swap_quote =
  q_provider :: swap_provider_name
  q_request :: swap_quote_request
  q_route :: swap_route
  q_amount_in_raw :: int
  q_expected_amount_out_raw :: int
  q_min_amount_out_raw :: "int option"
  q_slippage_bps :: "int option"
  q_expires_at :: "datetime option"
  q_recipient_address :: string
  q_raw_quote :: pydict

definition quote_consistency_error :: "swap_quote \<Rightarrow> string option" where
  "quote_consistency_error q = (let r = q_request q; t = q_route q in
     if q_provider q \<noteq> rt_provider t then Some ''Quote provider must match route provider.''
     else if q_amount_in_raw q \<noteq> rq_amount_in_raw r
       then Some ''Quote amount_in_raw must match the request amount.''
     else if rt_from_chain_id t \<noteq> rq_chain_id r
       then Some ''Route source chain must match the request chain.''
     else if rq_to_chain_id r = None \<and> rt_to_chain_id t \<noteq> rq_chain_id r
       then Some ''Route destination chain must match the request chain for same-chain quotes.''
     else if (case rq_to_chain_id r of None \<Rightarrow> False | Some i \<Rightarrow> rt_to_chain_id t \<noteq> i)
       then Some ''Route destination chain must match the request destination chain.''
     else if rt_from_token t \<noteq> rq_from_token r
       then Some ''Route source token must match the request token.''
     else if rt_to_token t \<noteq> rq_to_token r
       then Some ''Route destination token must match the request token.''
     else if q_recipient_address q \<noteq> effective_recipient r
       then Some ''Quote recipient must match the request recipient.''
     else None)"

definition mk_swap_quote :: "libs \<Rightarrow> swap_quote \<Rightarrow> exn + swap_quote" where
  "mk_swap_quote L q =
     rbind (finish ''SwapQuote''
       (check (0 < q_amount_in_raw q) ''amount_in_raw'' (GreaterThan 0)
        @ check (0 < q_expected_amount_out_raw q) ''expected_amount_out_raw'' (GreaterThan 0)
        @ opt_check (\<lambda>i. 0 \<le> i) (q_min_amount_out_raw q) ''min_amount_out_raw'' (GreaterEqual 0)
        @ bps_errs ''slippage_bps'' (q_slippage_bps q)
        @ req_addr_errs L ''recipient_address'' (q_recipient_address q))
       (q\<lparr>q_recipient_address := addr_norm L (q_recipient_address q),
          q_expires_at := map_option normalize_expiry (q_expires_at q)\<rparr>)) (\<lambda>q.
     model_check ''SwapQuote'' (quote_consistency_error q) q)"

section \<open>Executions\<close>

record swap_evm_transaction =
  sx_chain_id :: int
  sx_to :: string
  sx_data :: string
  sx_value_wei :: int

definition mk_swap_evm_transaction :: "libs \<Rightarrow> swap_evm_transaction \<Rightarrow> exn + swap_evm_transaction" where
  "mk_swap_evm_transaction L t = finish ''SwapEVMTransaction''
     (check (0 < sx_chain_id t) ''chain_id'' (GreaterThan 0) @ req_addr_errs L ''to'' (sx_to t)
      @ check (is_hex_data (sx_data t)) ''data'' HEX_PATTERN
      @ check (0 \<le> sx_value_wei t) ''value_wei'' (GreaterEqual 0))
     (t\<lparr>sx_to := addr_norm L (sx_to t)\<rparr>)"

record swap_typed_order =
  so_chain_id :: int
  so_typed_data :: pydict
  so_submit_url :: "string option"

definition mk_swap_typed_order :: "swap_typed_order \<Rightarrow> exn + swap_typed_order" where
  "mk_swap_typed_order t = finish ''SwapTypedOrder''
     (check (0 < so_chain_id t) ''chain_id'' (GreaterThan 0)
      @ check (so_typed_data t \<noteq> []) ''typed_data'' (MinLength 1)
      @ opt_min_len ''submit_url'' (so_submit_url t)) t"

record swap_execution =
  sw_provider :: swap_provider_name
  sw_execution_type :: swap_execution_type
  sw_quote :: swap_quote
  sw_transaction :: "swap_evm_transaction option"
  sw_order :: "swap_typed_order option"
  sw_unsupported_reason :: "string option"
  sw_raw_execution :: pydict

definition execution_payload_error :: "swap_execution \<Rightarrow> string option" where
  "execution_payload_error x = (let cid = rq_chain_id (q_request (sw_quote x)) in
     if sw_provider x \<noteq> q_provider (sw_quote x) then Some ''Execution provider must match quote provider.''
     else (case sw_execution_type x of
         EVM_TRANSACTION \<Rightarrow> (case sw_transaction x of
             None \<Rightarrow> Some ''EVM swap execution requires a transaction.''
           | Some t \<Rightarrow> if sx_chain_id t \<noteq> cid
               then Some ''Swap transaction chain_id must match the quote chain.'' else None)
       | EIP712_ORDER \<Rightarrow> (case sw_order x of
             None \<Rightarrow> Some ''Typed order swap execution requires an order payload.''
           | Some t \<Rightarrow> if so_chain_id t \<noteq> cid
               then Some ''Swap order chain_id must match the quote chain.'' else None)
       | UNSUPPORTED \<Rightarrow> (case sw_unsupported_reason x of
             None \<Rightarrow> Some ''Unsupported swap execution requires a reason.''
           | Some r \<Rightarrow> if r = [] then Some ''Unsupported swap execution requires a reason.'' else None)))"

definition mk_swap_execution :: "swap_execution \<Rightarrow> exn + swap_execution" where
  "mk_swap_execution x =
     rbind (finish ''SwapExecution'' (opt_min_len ''unsupported_reason'' (sw_unsupported_reason x)) x)
       (\<lambda>x. model_check ''SwapExecution'' (execution_payload_error x) x)"

lemmas swap_model_defs [validator_defs] =
  mk_swap_intent_def swap_intent_errors_def mk_swap_quote_request_def quote_request_errors_def
  mk_swap_route_def mk_swap_quote_def mk_swap_evm_transaction_def mk_swap_typed_order_def
  mk_swap_execution_def

section \<open>What a validated quote promises\<close>

lemma mk_swap_quote_consistent:
  assumes "mk_swap_quote L q0 = Inr q"
  shows "quote_consistency_error q = None" and "0 < q_expected_amount_out_raw q"
    and "\<forall>i. q_slippage_bps q = Some i \<longrightarrow> 0 \<le> i \<and> i \<le> 10000"
    and "\<exists>t. q_expires_at q = map_option dt_utc t"
proof -
  have "\<exists>t. map_option normalize_expiry d = map_option dt_utc t" for d
    by (cases d) (auto simp: normalize_expiry_def intro: exI [of _ None] exI [of _ "Some _"] split: option.splits)
  with assms show "\<exists>t. q_expires_at q = map_option dt_utc t"
    by (auto simp: mk_swap_quote_def result_simps)
qed (use assms in \<open>auto simp: mk_swap_quote_def result_simps\<close>)

section \<open>Prepared swaps\<close>

text \<open>The result of swap preparation (\<^verbatim>\<open>mercury/tools/swaps.py\<close>).\<close>

record swap_allowance_check =
  al_spender_address :: string
  al_required_amount_raw :: int
  al_current_allowance_raw :: int
  al_allowance_sufficient :: bool

definition mk_swap_allowance_check :: "swap_allowance_check \<Rightarrow> exn + swap_allowance_check" where
  "mk_swap_allowance_check a = finish ''SwapAllowanceCheck''
     (check (0 < al_required_amount_raw a) ''required_amount_raw'' (GreaterThan 0)
      @ check (0 \<le> al_current_allowance_raw a) ''current_allowance_raw'' (GreaterEqual 0)) a"

record prepared_swap =
  ps_quote :: swap_quote
  ps_execution :: "swap_execution option"
  ps_quote_policy_decision :: policy_decision
  ps_execution_policy_decision :: "policy_decision option"
  ps_allowance :: "swap_allowance_check option"
  ps_approval_transaction :: "prepared_transaction option"
  ps_swap_transaction :: "prepared_transaction option"
  ps_order_submission_key :: "string option"

definition next_transaction :: "prepared_swap \<Rightarrow> prepared_transaction option" where
  "next_transaction p = (case ps_approval_transaction p of
       Some t \<Rightarrow> Some t
     | None \<Rightarrow> ps_swap_transaction p)"

end
