(* ===== verification/Custody.thy ===== *)
theory Custody
  imports Execution_Models "HOL-Library.Word"
begin

text \<open>
  Custody (\<^verbatim>\<open>mercury/custody/\<close>): secret values and stores, the 1Claw HTTP client with its cached
  agent token, wallet secret paths and the signer boundary. The HTTP service and
  \<open>eth_account\<close> are parameters.
\<close>

section \<open>Secrets\<close>

record secret_value =
  sv_path :: string
  sv_value :: string

definition secret_not_found :: "string \<Rightarrow> exn" where
  "secret_not_found path = Exn SecretNotFoundError (''Secret not found at path '' @ quote_text path @ ''.'')"

definition empty_secret_value :: "string \<Rightarrow> exn" where
  "empty_secret_value path = Exn EmptySecretValueError (''Secret at path '' @ quote_text path @ '' is empty.'')"

definition store_unavailable :: "string \<Rightarrow> string \<Rightarrow> string option \<Rightarrow> exn" where
  "store_unavailable path store_name detail = Exn SecretStoreUnavailableError (case detail of
       Some d \<Rightarrow> store_name @ '': '' @ d
     | None \<Rightarrow> store_name @ '' could not resolve secret path '' @ quote_text path @ ''.'')"

definition mk_secret_value :: "string \<Rightarrow> string \<Rightarrow> exn + secret_value" where
  "mk_secret_value path v =
     (if py_strip path = [] then Inl (Exn ValueError ''Secret path must not be empty.'')
      else if py_strip v = [] then Inl (empty_secret_value path)
      else Inr \<lparr>sv_path = path, sv_value = v\<rparr>)"

definition secret_repr :: "secret_value \<Rightarrow> string" where
  "secret_repr s = ''SecretValue(path='' @ repr_str (sv_path s) @ '', value=<redacted>)''"

text \<open>
  \<open>OneClawSecretStore.get_secret\<close>, over the client's answer for the path (\<open>None\<close> is a
  client that returns no value).
\<close>

definition oneclaw_get_secret ::
  "(string \<Rightarrow> exn + string option) \<Rightarrow> string \<Rightarrow> exn + secret_value" where
  "oneclaw_get_secret client path =
     (if py_strip path = [] then Inl (Exn ValueError ''Secret path must not be empty.'')
      else (case client path of
          Inl (Exn c t) \<Rightarrow>
            if c \<in> {SecretNotFoundError, EmptySecretValueError, SecretStoreUnavailableError}
            then Inl (Exn c t) else Inl (store_unavailable path ''1Claw'' None)
        | Inl (ValidationError _ _) \<Rightarrow> Inl (store_unavailable path ''1Claw'' None)
        | Inr None \<Rightarrow> Inl (secret_not_found path)
        | Inr (Some v) \<Rightarrow> mk_secret_value path v))"

definition fake_get_secret :: "(string \<times> string) list \<Rightarrow> string \<Rightarrow> exn + secret_value" where
  "fake_get_secret secrets path = (case dget secrets path of
       None \<Rightarrow> Inl (secret_not_found path)
     | Some v \<Rightarrow> mk_secret_value path v)"

text \<open>What the clients of a store rely on: a resolved secret sits at the asked path and is not blank.\<close>

locale secret_store =
  fixes get_secret :: "string \<Rightarrow> exn + secret_value"
  assumes resolved: "get_secret p = Inr s \<Longrightarrow> sv_path s = p \<and> py_strip p \<noteq> [] \<and> py_strip (sv_value s) \<noteq> []"
begin

lemma blank_path_refused: "py_strip p = [] \<Longrightarrow> \<exists>e. get_secret p = Inl e"
  using resolved by (cases "get_secret p") auto

lemma resolved_value_nonempty: "get_secret p = Inr s \<Longrightarrow> sv_value s \<noteq> []"
  using resolved by fastforce

end

lemma mk_secret_value_Inr:
  "mk_secret_value p v = Inr s \<longleftrightarrow> py_strip p \<noteq> [] \<and> py_strip v \<noteq> [] \<and> s = \<lparr>sv_path = p, sv_value = v\<rparr>"
  by (auto simp: mk_secret_value_def)

interpretation oneclaw: secret_store "oneclaw_get_secret client" for client
  by unfold_locales
     (auto simp: oneclaw_get_secret_def mk_secret_value_Inr split: if_splits sum.splits exn.splits option.splits)

interpretation fake: secret_store "fake_get_secret secrets" for secrets
  by unfold_locales (auto simp: fake_get_secret_def mk_secret_value_Inr split: option.splits)

section \<open>The 1Claw HTTP client\<close>

record http_request =
  hr_method :: string
  hr_url :: string
  hr_bearer :: "string option"
  hr_body :: pydict

text \<open>An answer with a JSON body, an HTTP error status, or no usable answer (connection or JSON failure).\<close>

datatype http_outcome = HttpOk pyval | HttpStatus int | HttpBroken

record oneclaw_client =
  oc_base_url :: string
  oc_api_key :: string
  oc_access_token :: "string option"
  oc_access_token_agent :: "string option"

definition rstrip_slash :: "string \<Rightarrow> string" where
  "rstrip_slash s = rev (dropWhile (\<lambda>c. c = CHR ''/'') (rev s))"

definition mk_oneclaw_client :: "string \<Rightarrow> string \<Rightarrow> exn + oneclaw_client" where
  "mk_oneclaw_client base_url api_key =
     (if py_strip base_url = [] then Inl (Exn ValueError ''1Claw base URL must not be empty.'')
      else if py_strip api_key = [] then Inl (Exn ValueError ''1Claw API key must not be empty.'')
      else Inr \<lparr>oc_base_url = rstrip_slash base_url, oc_api_key = api_key,
                oc_access_token = None, oc_access_token_agent = None\<rparr>)"

text \<open>The service is a step function on its own state, so that answers may change over time.\<close>

type_synonym 'w http_service = "'w \<Rightarrow> http_request \<Rightarrow> http_outcome \<times> 'w"

definition agent_auth_error :: exn where
  "agent_auth_error = store_unavailable ''agent authentication'' ''1Claw'' None"

definition attribute_error :: exn where
  "attribute_error = Exn OtherException ''AttributeError: get''"

definition fetch_access_token ::
  "'w http_service \<Rightarrow> 'w \<Rightarrow> oneclaw_client \<Rightarrow> string \<Rightarrow> (exn + string) \<times> oneclaw_client \<times> 'w" where
  "fetch_access_token srv w c agent_id =
     (let (out, w') = srv w \<lparr>hr_method = ''POST'', hr_url = oc_base_url c @ ''/v1/auth/agent-token'',
            hr_bearer = None,
            hr_body = [(''agent_id'', PStr agent_id), (''api_key'', PStr (oc_api_key c))]\<rparr>
      in case out of
           HttpOk (PDict payload) \<Rightarrow>
             (case dget_none payload ''access_token'' of
                PStr token \<Rightarrow>
                  if py_strip token = [] then (Inl agent_auth_error, c, w')
                  else (Inr (py_strip token),
                        c\<lparr>oc_access_token := Some (py_strip token), oc_access_token_agent := Some agent_id\<rparr>, w')
              | _ \<Rightarrow> (Inl agent_auth_error, c, w'))
         | HttpOk _ \<Rightarrow> (Inl attribute_error, c, w')
         | _ \<Rightarrow> (Inl agent_auth_error, c, w'))"

definition invalidate_access_token :: "oneclaw_client \<Rightarrow> string \<Rightarrow> oneclaw_client" where
  "invalidate_access_token c agent_id =
     (if oc_access_token_agent c = Some agent_id
      then c\<lparr>oc_access_token := None, oc_access_token_agent := None\<rparr> else c)"

definition bearer_for_agent ::
  "'w http_service \<Rightarrow> 'w \<Rightarrow> oneclaw_client \<Rightarrow> string \<Rightarrow> (exn + string) \<times> oneclaw_client \<times> 'w" where
  "bearer_for_agent srv w c agent_id = (case oc_access_token c of
       Some token \<Rightarrow> if token \<noteq> [] \<and> oc_access_token_agent c = Some agent_id then (Inr token, c, w)
                     else fetch_access_token srv w c agent_id
     | None \<Rightarrow> fetch_access_token srv w c agent_id)"

text \<open>\<open>urllib.parse.quote(s, safe="/")\<close> on the UTF-8 bytes of the text.\<close>

definition upper_hex :: "nat \<Rightarrow> char" where
  "upper_hex d = (if d < 10 then char_of (48 + d) else char_of (55 + d))"

definition utf8_bytes :: "char \<Rightarrow> nat list" where
  "utf8_bytes c = (let n = code_point c in if n < 128 then [n] else [192 + n div 64, 128 + n mod 64])"

definition url_safe :: "char \<Rightarrow> bool" where
  "url_safe c \<longleftrightarrow> is_ascii_alnum c \<or> c \<in> {CHR ''_'', CHR ''.'', CHR ''-'', CHR ''~'', CHR ''/''}"

definition url_quote :: "string \<Rightarrow> string" where
  "url_quote s = concat (map (\<lambda>c. if url_safe c then [c]
     else concat (map (\<lambda>b. [CHR ''%'', upper_hex (b div 16), upper_hex (b mod 16)]) (utf8_bytes c))) s)"

definition secret_url_path_suffix :: "string \<Rightarrow> exn + string" where
  "secret_url_path_suffix path = (let normalized = dropWhile (\<lambda>c. c = CHR ''/'') (py_strip path) in
     if normalized = [] then Inl (Exn ValueError ''Secret path must not be empty.'')
     else Inr (url_quote normalized))"

definition extract_secret_value :: "pydict \<Rightarrow> string option" where
  "extract_secret_value payload = (case dget_none payload ''value'' of
       PStr v \<Rightarrow> Some v
     | _ \<Rightarrow> (case dget_none payload ''secret'' of
           PDict d \<Rightarrow> as_str (dget_none d ''value'')
         | _ \<Rightarrow> None))"

definition secret_of_payload :: "pyval \<Rightarrow> string \<Rightarrow> exn + string" where
  "secret_of_payload payload path = (case payload of
       PDict d \<Rightarrow> (case extract_secret_value d of
           None \<Rightarrow> Inl (secret_not_found path) | Some v \<Rightarrow> Inr v)
     | _ \<Rightarrow> Inl attribute_error)"

text \<open>An HTTP error status of a secret read is passed on to the caller as a status.\<close>

datatype read_outcome = ReadDone "exn + string" | ReadStatus int

definition http_get_secret_value ::
  "'w http_service \<Rightarrow> 'w \<Rightarrow> oneclaw_client \<Rightarrow> string \<Rightarrow> string \<Rightarrow> string \<Rightarrow> read_outcome \<times> 'w" where
  "http_get_secret_value srv w c vault_id path bearer = (case secret_url_path_suffix path of
       Inl e \<Rightarrow> (ReadDone (Inl e), w)
     | Inr sfx \<Rightarrow>
         (let (out, w') = srv w \<lparr>hr_method = ''GET'',
                hr_url = oc_base_url c @ ''/v1/vaults/'' @ vault_id @ ''/secrets/'' @ sfx,
                hr_bearer = Some bearer, hr_body = []\<rparr>
          in (case out of
                HttpOk payload \<Rightarrow> ReadDone (secret_of_payload payload path)
              | HttpStatus code \<Rightarrow> ReadStatus code
              | HttpBroken \<Rightarrow> ReadDone (Inl (store_unavailable path ''1Claw'' None)), w')))"

text \<open>The em dash of the 403 text is written as two hyphens.\<close>

definition forbidden_detail :: string where
  "forbidden_detail = ''HTTP 403 Forbidden -- the agent token is valid but this principal '' @
     ''is not allowed to read that vault or secret path. In 1Claw, grant '' @
     ''the agent access to the vault, confirm MERCURY_ONECLAW_VAULT_ID, '' @
     ''and that the secret path exists for that vault.''"

text \<open>An \<open>HTTPError\<close> of the retried read is not handled again: it escapes as it is.\<close>

definition http_error :: "int \<Rightarrow> exn" where
  "http_error code = Exn OSError (''HTTP Error '' @ int_text code)"

definition retry_read ::
  "'w http_service \<Rightarrow> 'w \<Rightarrow> oneclaw_client \<Rightarrow> string \<Rightarrow> string \<Rightarrow> string
     \<Rightarrow> (exn + string) \<times> oneclaw_client \<times> 'w" where
  "retry_read srv w c vault_id path agent_id =
     (case bearer_for_agent srv w (invalidate_access_token c agent_id) agent_id of
        (Inl e, c', w') \<Rightarrow> (Inl e, c', w')
      | (Inr bearer, c', w') \<Rightarrow>
          (case http_get_secret_value srv w' c' vault_id path bearer of
             (ReadDone r, w'') \<Rightarrow> (r, c', w'')
           | (ReadStatus code, w'') \<Rightarrow> (Inl (http_error code), c', w'')))"

definition get_secret_hosted ::
  "'w http_service \<Rightarrow> 'w \<Rightarrow> oneclaw_client \<Rightarrow> string \<Rightarrow> string \<Rightarrow> string
     \<Rightarrow> (exn + string) \<times> oneclaw_client \<times> 'w" where
  "get_secret_hosted srv w c vault_id path agent_id =
     (case bearer_for_agent srv w c agent_id of
        (Inl e, c', w') \<Rightarrow> (Inl e, c', w')
      | (Inr bearer, c', w') \<Rightarrow>
          (case http_get_secret_value srv w' c' vault_id path bearer of
             (ReadDone r, w'') \<Rightarrow> (r, c', w'')
           | (ReadStatus code, w'') \<Rightarrow>
               if code = 401 then retry_read srv w'' c' vault_id path agent_id
               else if code = 404 then (Inl (secret_not_found path), c', w'')
               else if code = 403 then (Inl (store_unavailable path ''1Claw'' (Some forbidden_detail)), c', w'')
               else (Inl (store_unavailable path ''1Claw'' None), c', w'')))"

definition get_secret_legacy_resolve ::
  "'w http_service \<Rightarrow> 'w \<Rightarrow> oneclaw_client \<Rightarrow> string \<Rightarrow> string \<Rightarrow> (exn + string) \<times> 'w" where
  "get_secret_legacy_resolve srv w c vault_id path =
     (let (out, w') = srv w \<lparr>hr_method = ''POST'',
            hr_url = oc_base_url c @ ''/v1/vaults/'' @ vault_id @ ''/secrets:resolve'',
            hr_bearer = Some (oc_api_key c), hr_body = [(''path'', PStr path)]\<rparr>
      in (case out of
            HttpOk payload \<Rightarrow> secret_of_payload payload path
          | HttpStatus code \<Rightarrow> if code = 404 then Inl (secret_not_found path)
              else Inl (store_unavailable path ''1Claw'' None)
          | HttpBroken \<Rightarrow> Inl (store_unavailable path ''1Claw'' None), w'))"

definition http_get_secret ::
  "'w http_service \<Rightarrow> 'w \<Rightarrow> oneclaw_client \<Rightarrow> string \<Rightarrow> string \<Rightarrow> string option
     \<Rightarrow> (exn + string) \<times> oneclaw_client \<times> 'w" where
  "http_get_secret srv w c vault_id path agent_id =
     (case agent_id of
        Some a \<Rightarrow> if py_strip a \<noteq> [] then get_secret_hosted srv w c vault_id path (py_strip a)
                  else (let (r, w') = get_secret_legacy_resolve srv w c vault_id path in (r, c, w'))
      | None \<Rightarrow> (let (r, w') = get_secret_legacy_resolve srv w c vault_id path in (r, c, w')))"

section \<open>Wallet secret paths\<close>

definition is_wallet_char :: "char \<Rightarrow> bool" where
  "is_wallet_char c \<longleftrightarrow> is_ascii_alnum c \<or> c \<in> {CHR ''_'', CHR ''.'', CHR ''-''}"

text \<open>\<^verbatim>\<open>^[A-Za-z0-9][A-Za-z0-9_.-]{0,127}$\<close>\<close>

definition safe_wallet_id :: "string \<Rightarrow> bool" where
  "safe_wallet_id s \<longleftrightarrow> (case s of [] \<Rightarrow> False | c # cs \<Rightarrow>
     is_ascii_alnum c \<and> list_all is_wallet_char cs \<and> length cs \<le> 127)"

definition validate_wallet_id :: "string \<Rightarrow> exn + string" where
  "validate_wallet_id wallet_id = (let candidate = py_strip wallet_id in
     if candidate = [] \<or> \<not> safe_wallet_id candidate \<or> candidate \<in> {''.'', ''..''}
        \<or> py_contains ''..'' candidate
     then Inl (Exn WalletIdValidationError ''Wallet ID is empty or contains unsupported path characters.'')
     else Inr candidate)"

definition wallet_path :: "string \<Rightarrow> string" where
  "wallet_path w = ''mercury/wallets/'' @ w @ ''/private_key''"

definition wallet_private_key_path :: "string \<Rightarrow> exn + string" where
  "wallet_private_key_path wallet_id = rbind (validate_wallet_id wallet_id) (\<lambda>w. Inr (wallet_path w))"

section \<open>The signer\<close>

text \<open>
  \<open>_hex\<close>: a \<open>HexBytes\<close> (or \<open>bytes\<close>) value as its hex digits, any other value as its text,
  with the \<open>0x\<close> prefix added unless it is there.
\<close>

type_synonym bytes = "8 word list"

datatype hexable = HexBytes bytes | HexText string

definition bytes_hex :: "bytes \<Rightarrow> string" where
  "bytes_hex bs = concat (map (\<lambda>b. [hex_digit (unat b div 16), hex_digit (unat b mod 16)]) bs)"

definition hex_text :: "string \<Rightarrow> string" where
  "hex_text text = (if prefix ''0x'' text then text else ''0x'' @ text)"

fun to_hex :: "hexable \<Rightarrow> string" where
  "to_hex (HexBytes bs) = hex_text (bytes_hex bs)"
| "to_hex (HexText t) = hex_text t"

text \<open>
  \<open>eth_account\<close>: the address of a key, the raw transaction and hash bytes of a signed
  transaction, the signature and hash bytes of a signed typed message.
\<close>

record eth_account =
  acct_address :: "string \<Rightarrow> exn + string"
  acct_sign_transaction :: "pydict \<Rightarrow> string \<Rightarrow> exn + bytes \<times> bytes"
  acct_sign_typed_data :: "string \<Rightarrow> pydict \<Rightarrow> exn + bytes \<times> bytes"

definition is_private_key_hex :: "string \<Rightarrow> bool" where
  "is_private_key_hex s \<longleftrightarrow>
     (let body = (if prefix ''0x'' s \<and> length s = 66 then drop 2 s else s)
      in length body = 64 \<and> list_all is_hex_char body)"

definition wallet_key_error :: "string \<Rightarrow> exn" where
  "wallet_key_error wallet_id = Exn WalletPrivateKeyError
     (''Wallet private key for wallet '' @ quote_text wallet_id @ '' is unavailable or invalid.'')"

definition normalize_private_key :: "string \<Rightarrow> string \<Rightarrow> exn + string" where
  "normalize_private_key private_key wallet_id = (let candidate = py_strip private_key in
     if \<not> is_private_key_hex candidate then Inl (wallet_key_error wallet_id)
     else Inr (hex_text candidate))"

text \<open>The errors \<open>_load_private_key\<close> replaces by \<open>WalletPrivateKeyError\<close>.\<close>

definition hidden_store_error :: "exn \<Rightarrow> bool" where
  "hidden_store_error e \<longleftrightarrow> is_value_error e \<or>
     (case e of Exn c _ \<Rightarrow> c \<in> {SecretNotFoundError, EmptySecretValueError} | _ \<Rightarrow> False)"

definition load_private_key :: "(string \<Rightarrow> exn + secret_value) \<Rightarrow> string \<Rightarrow> exn + string" where
  "load_private_key get_secret wallet_id =
     rbind (wallet_private_key_path wallet_id) (\<lambda>path.
     case rbind (get_secret path) (\<lambda>s. normalize_private_key (sv_value s) wallet_id) of
       Inl e \<Rightarrow> Inl (if hidden_store_error e then wallet_key_error wallet_id else e)
     | Inr k \<Rightarrow> Inr k)"

definition derive_address :: "libs \<Rightarrow> eth_account \<Rightarrow> string \<Rightarrow> string \<Rightarrow> exn + string" where
  "derive_address L A wallet_id private_key =
     (case rbind (acct_address A private_key) (normalize_evm_address L) of
        Inl _ \<Rightarrow> Inl (wallet_key_error wallet_id) | Inr a \<Rightarrow> Inr a)"

definition validate_expected_address :: "libs \<Rightarrow> string option \<Rightarrow> string \<Rightarrow> exn + unit" where
  "validate_expected_address L expected signer_address = (case expected of
       None \<Rightarrow> Inr ()
     | Some e \<Rightarrow> rbind (normalize_evm_address L e) (\<lambda>a.
         guard_else (a = signer_address)
           (Exn SigningRequestError ''Expected wallet address does not match signing key.'')))"

definition signing_failed_error :: exn where
  "signing_failed_error = Exn SigningFailedError ''Prepared payload could not be signed.''"

definition signer_get_wallet_address ::
  "libs \<Rightarrow> eth_account \<Rightarrow> (string \<Rightarrow> exn + secret_value) \<Rightarrow> string \<Rightarrow> exn + wallet_address_result" where
  "signer_get_wallet_address L A get_secret wallet_id =
     rbind (validate_wallet_id wallet_id) (\<lambda>w.
     rbind (load_private_key get_secret w) (\<lambda>key.
     rbind (derive_address L A w key) (\<lambda>address.
     mk_wallet_address_result L \<lparr>wa_wallet_id = w, wa_address = address\<rparr>)))"

text \<open>A \<open>SignerError\<close> raised while signing passes, any other exception becomes \<open>SigningFailedError\<close>.\<close>

definition is_signer_error :: "exn \<Rightarrow> bool" where
  "is_signer_error e \<longleftrightarrow> (case e of
     Exn c _ \<Rightarrow> c \<in> {WalletPrivateKeyError, SigningRequestError, SigningFailedError} | _ \<Rightarrow> False)"

definition signer_sign_transaction ::
  "libs \<Rightarrow> eth_account \<Rightarrow> (string \<Rightarrow> exn + secret_value) \<Rightarrow> sign_transaction_request
     \<Rightarrow> exn + signed_transaction_result" where
  "signer_sign_transaction L A get_secret r =
     rbind (validate_wallet_id (wr_wallet_id (sr_wallet r))) (\<lambda>w.
     rbind (load_private_key get_secret w) (\<lambda>key.
     rbind (derive_address L A w key) (\<lambda>signer_address.
     rbind (validate_expected_address L (wr_expected_address (sr_wallet r)) signer_address) (\<lambda>_.
     case acct_sign_transaction A (evm_transaction (sr_prepared_transaction r)) key of
       Inl e \<Rightarrow> Inl (if is_signer_error e then e else signing_failed_error)
     | Inr (raw, h) \<Rightarrow> mk_signed_transaction_result L
         \<lparr>st_wallet_id = w, st_chain_id = sr_chain_id r, st_signer_address = signer_address,
          st_raw_transaction_hex = to_hex (HexBytes raw), st_tx_hash = to_hex (HexBytes h)\<rparr>))))"

definition signer_sign_typed_data ::
  "libs \<Rightarrow> eth_account \<Rightarrow> (string \<Rightarrow> exn + secret_value) \<Rightarrow> sign_typed_data_request
     \<Rightarrow> exn + signed_typed_data_result" where
  "signer_sign_typed_data L A get_secret r =
     rbind (validate_wallet_id (wr_wallet_id (sd_wallet r))) (\<lambda>w.
     rbind (load_private_key get_secret w) (\<lambda>key.
     rbind (derive_address L A w key) (\<lambda>signer_address.
     rbind (validate_expected_address L (wr_expected_address (sd_wallet r)) signer_address) (\<lambda>_.
     case acct_sign_typed_data A key (sd_typed_data r) of
       Inl _ \<Rightarrow> Inl signing_failed_error
     | Inr (sig, h) \<Rightarrow> mk_signed_typed_data_result L
         \<lparr>sg_wallet_id = w, sg_chain_id = sd_chain_id r, sg_signer_address = signer_address,
          sg_signature = to_hex (HexBytes sig), sg_message_hash = to_hex (HexBytes h)\<rparr>))))"

section \<open>Paths stay inside the wallet directory\<close>

lemma slash_not_wallet_char: "\<not> is_wallet_char (CHR ''/'')" "\<not> is_ascii_alnum (CHR ''/'')"
  by (simp_all add: is_wallet_char_def is_ascii_alnum_def Let_def)

lemma validate_wallet_id_Inr:
  assumes "validate_wallet_id w = Inr c"
  shows "c = py_strip w" "c \<noteq> []" "list_all is_wallet_char c" "length c \<le> 128"
    "\<not> py_contains ''..'' c" "CHR ''/'' \<notin> set c"
proof -
  from assms have c: "c = py_strip w" "c \<noteq> []" "safe_wallet_id c" "\<not> py_contains ''..'' c"
    by (auto simp: validate_wallet_id_def Let_def split: if_splits)
  then show "c = py_strip w" "c \<noteq> []" "\<not> py_contains ''..'' c" by simp_all
  from c(2,3) show l: "list_all is_wallet_char c" and "length c \<le> 128"
    by (cases c; simp add: safe_wallet_id_def is_wallet_char_def)+
  then show "CHR ''/'' \<notin> set c" using slash_not_wallet_char by (auto simp: list_all_iff)
qed

lemma validate_wallet_id_idem:
  assumes "validate_wallet_id w = Inr c"
  shows "validate_wallet_id c = Inr c"
proof -
  have "py_strip c = c" using validate_wallet_id_Inr(1) [OF assms] by simp
  then have "validate_wallet_id c = validate_wallet_id w"
    using validate_wallet_id_Inr(1) [OF assms] by (simp add: validate_wallet_id_def Let_def)
  with assms show ?thesis by simp
qed

lemma wallet_path_inj: "wallet_path a = wallet_path b \<longleftrightarrow> a = b"
  by (simp add: wallet_path_def)

lemma url_quote_safe: "list_all url_safe s \<Longrightarrow> url_quote s = s"
  by (induction s) (simp_all add: url_quote_def)

lemma wallet_char_url_safe: "is_wallet_char c \<Longrightarrow> url_safe c"
  by (auto simp: is_wallet_char_def url_safe_def)

lemma wallet_path_url_safe: "list_all is_wallet_char w \<Longrightarrow> list_all url_safe (wallet_path w)"
proof -
  have "list_all url_safe ''mercury/wallets/''" "list_all url_safe ''/private_key''" by code_simp+
  then show ?thesis if "list_all is_wallet_char w"
    using that wallet_char_url_safe unfolding wallet_path_def list_all_append
    by (simp add: list_all_iff)
qed

lemma url_safe_not_space: "url_safe c \<Longrightarrow> \<not> is_space c"
  by (auto simp: url_safe_def is_ascii_alnum_def is_space_def Let_def)

lemma wallet_path_suffix:
  assumes "list_all is_wallet_char w"
  shows "secret_url_path_suffix (wallet_path w) = Inr (wallet_path w)"
proof -
  have safe: "list_all url_safe (wallet_path w)" by (rule wallet_path_url_safe [OF assms])
  then have "py_strip (wallet_path w) = wallet_path w"
    using url_safe_not_space by (intro py_strip_no_space) (auto simp: list_all_iff)
  moreover have "dropWhile (\<lambda>c. c = CHR ''/'') (wallet_path w) = wallet_path w"
    and "wallet_path w \<noteq> []" by (simp_all add: wallet_path_def)
  ultimately show ?thesis
    by (simp add: secret_url_path_suffix_def Let_def url_quote_safe [OF safe])
qed

lemma count_slash: "CHR ''/'' \<notin> set w \<Longrightarrow> count_list (wallet_path w) (CHR ''/'') = 3"
  by (simp add: wallet_path_def count_notin)

section \<open>Signing\<close>

lemma hex_digit_hex [simp]: "d < 16 \<Longrightarrow> is_hex_char (hex_digit d)"
  by (auto simp: hex_digit_def is_hex_char_def Let_def)

lemma bytes_hex_hex: "list_all is_hex_char (bytes_hex bs)"
proof (induction bs)
  case (Cons b bs)
  have "unat b < 256" using unsigned_less [of b] by simp
  then show ?case using Cons by (simp add: bytes_hex_def less_mult_imp_div_less)
qed (simp add: bytes_hex_def)

lemma is_hex_data_to_hex [simp]: "is_hex_data (to_hex (HexBytes bs))"
proof -
  have "\<not> is_hex_char (CHR ''x'')" by (simp add: is_hex_char_def)
  then have "\<not> prefix ''0x'' (bytes_hex bs)"
    using bytes_hex_hex [of bs] by (auto simp: prefix_def)
  then show ?thesis using bytes_hex_hex [of bs] by (simp add: hex_text_def is_hex_data_def)
qed

lemma is_hex_data_not_blank: "is_hex_data h \<Longrightarrow> py_strip h \<noteq> []"
proof -
  assume "is_hex_data h"
  then obtain t where h: "h = ''0x'' @ t" and t: "list_all is_hex_char t"
    by (auto simp: is_hex_data_def prefix_def)
  have "\<not> is_space (CHR ''x'')" "\<not> is_space (CHR ''0'')" by (simp_all add: is_space_def)
  with t have "\<forall>c \<in> set h. \<not> is_space c" unfolding h by (auto simp: list_all_iff)
  then show ?thesis using h by (simp add: py_strip_no_space)
qed

lemma load_private_key_Inr:
  assumes "load_private_key get_secret w = Inr key"
  shows "\<exists>c s. validate_wallet_id w = Inr c \<and> get_secret (wallet_path c) = Inr s \<and>
    is_private_key_hex (py_strip (sv_value s)) \<and> key = hex_text (py_strip (sv_value s))"
  using assms
  by (auto simp: load_private_key_def wallet_private_key_path_def normalize_private_key_def
      result_simps Let_def split: if_splits)

text \<open>The key the signer uses for a wallet, and the address it stands for.\<close>

definition wallet_address_of ::
  "libs \<Rightarrow> eth_account \<Rightarrow> (string \<Rightarrow> exn + secret_value) \<Rightarrow> string \<Rightarrow> exn + string" where
  "wallet_address_of L A get_secret w = rbind (load_private_key get_secret w) (derive_address L A w)"

lemma signer_transaction_Inr:
  assumes "web3_laws L" and "signer_sign_transaction L A get_secret r = Inr s"
  shows "validate_wallet_id (wr_wallet_id (sr_wallet r)) = Inr (st_wallet_id s)"
    "wallet_address_of L A get_secret (st_wallet_id s) = Inr (st_signer_address s)"
    "\<forall>a. wr_expected_address (sr_wallet r) = Some a \<longrightarrow>
       normalize_evm_address L a = Inr (st_signer_address s)"
    "st_chain_id s = sr_chain_id r" "is_hex_data (st_raw_transaction_hex s)"
proof -
  from assms(2) obtain w key a raw h where
    w: "validate_wallet_id (wr_wallet_id (sr_wallet r)) = Inr w" and
    key: "load_private_key get_secret w = Inr key" and
    a: "derive_address L A w key = Inr a" and
    e: "validate_expected_address L (wr_expected_address (sr_wallet r)) a = Inr ()" and
    s: "mk_signed_transaction_result L
         \<lparr>st_wallet_id = w, st_chain_id = sr_chain_id r, st_signer_address = a,
          st_raw_transaction_hex = to_hex (HexBytes raw), st_tx_hash = to_hex (HexBytes h)\<rparr> = Inr s"
    by (auto simp: signer_sign_transaction_def result_simps)
  from a have "\<exists>k. normalize_evm_address L k = Inr a"
    by (auto simp: derive_address_def rbind_eq_Inr split: sum.splits)
  then have n: "normalize_evm_address L a = Inr a" using normalize_idem [OF assms(1)] by blast
  from s n have f: "st_wallet_id s = w" "st_signer_address s = a" "st_chain_id s = sr_chain_id r"
    "is_hex_data (st_raw_transaction_hex s)"
    by (auto simp: mk_signed_transaction_result_def rbind_eq_Inr)
  show "validate_wallet_id (wr_wallet_id (sr_wallet r)) = Inr (st_wallet_id s)"
    "wallet_address_of L A get_secret (st_wallet_id s) = Inr (st_signer_address s)"
    "st_chain_id s = sr_chain_id r" "is_hex_data (st_raw_transaction_hex s)"
    using f w key a by (simp_all add: wallet_address_of_def)
  show "\<forall>a. wr_expected_address (sr_wallet r) = Some a \<longrightarrow>
       normalize_evm_address L a = Inr (st_signer_address s)"
    using e f by (auto simp: validate_expected_address_def rbind_eq_Inr)
qed

end
