(* ===== verification/Swap_Providers.thy ===== *)
theory Swap_Providers
  imports Read_Tools Swap_Models Custody
begin

text \<open>
  The swap provider adapters (\<^verbatim>\<open>mercury/swaps/base.py\<close>, \<^verbatim>\<open>lifi.py\<close>, \<^verbatim>\<open>cowswap.py\<close>, \<^verbatim>\<open>uniswap.py\<close>) over a JSON
  HTTP client, and the router that selects one (\<^verbatim>\<open>router.py\<close>). Every response is untrusted: it is
  normalised into a quote or an execution whose consistency the models check.
\<close>

section \<open>Clock and floats\<close>

text \<open>
  What the adapters use of the interpreter's clock, time zones and floats: the current time (and the times of the two policy checks),
  \<open>datetime.fromtimestamp\<close>, \<open>datetime.fromisoformat\<close> (nothing on a \<open>ValueError\<close>), \<open>isoformat\<close>, the offset of the
  host's zone, the double nearest to a number, and \<open>float\<close> of a text.
\<close>

datatype float_reading = FloatVal rat | FloatNan | FloatInf | NotFloat

record py_env =
  env_now :: int
  env_quote_check_time :: int
  env_execution_check_time :: int
  env_from_timestamp :: "rat \<Rightarrow> exn + datetime"
  env_from_iso :: "string \<Rightarrow> datetime option"
  env_isoformat :: "datetime \<Rightarrow> string"
  env_local_offset :: "int \<Rightarrow> int"
  env_float :: "rat \<Rightarrow> rat"
  env_float_of_text :: "string \<Rightarrow> float_reading"

text \<open>\<open>d.astimezone(UTC)\<close>: a naive time is taken in the zone of the host.\<close>

definition astimezone_utc :: "py_env \<Rightarrow> datetime \<Rightarrow> datetime" where
  "astimezone_utc V d = (case dt_offset d of
       None \<Rightarrow> dt_utc (dt_local d - env_local_offset V (dt_local d))
     | Some i \<Rightarrow> dt_utc (dt_local d - i))"

definition five_minutes_from_now :: "py_env \<Rightarrow> datetime" where
  "five_minutes_from_now V = dt_utc (env_now V + 300000000)"

definition py_trunc :: "rat \<Rightarrow> int" where
  "py_trunc q = (if 0 \<le> q then \<lfloor>q\<rfloor> else \<lceil>q\<rceil>)"

text \<open>\<open>round(q)\<close>: to the nearest integer, ties to even.\<close>

definition py_round :: "rat \<Rightarrow> int" where
  "py_round q = (let f = \<lfloor>q\<rfloor>; r = q - of_int f in
     if r < 1 / 2 then f else if r > 1 / 2 then f + 1 else if even f then f else f + 1)"

definition zulu_to_offset :: "string \<Rightarrow> string" where
  "zulu_to_offset s = concat (map (\<lambda>c. if c = CHR ''Z'' then ''+00:00'' else [c]) s)"

section \<open>Base helpers\<close>

definition swap_err :: "string \<Rightarrow> exn" where
  "swap_err t = Exn SwapProviderError t"

record swap_provider_config =
  spc_provider :: swap_provider_name
  spc_base_url :: string
  spc_api_secret_path :: "string option"
  spc_secret_store :: "(string \<Rightarrow> exn + secret_value) option"

fun provider_secret_path :: "mercury_settings \<Rightarrow> swap_provider_name \<Rightarrow> string" where
  "provider_secret_path st LIFI = lifi_api_secret_path st"
| "provider_secret_path st COWSWAP = cowswap_api_secret_path st"
| "provider_secret_path st UNISWAP = uniswap_api_secret_path st"

fun provider_base_url :: "swap_provider_name \<Rightarrow> string" where
  "provider_base_url LIFI = ''https://li.quest/v1''"
| "provider_base_url COWSWAP = ''https://api.cow.fi''"
| "provider_base_url UNISWAP = ''https://api.uniswap.org''"

definition default_for ::
  "mercury_settings \<Rightarrow> swap_provider_name \<Rightarrow> (string \<Rightarrow> exn + secret_value) option \<Rightarrow> swap_provider_config" where
  "default_for st provider store =
     \<lparr>spc_provider = provider, spc_base_url = provider_base_url provider,
      spc_api_secret_path = Some (provider_secret_path st provider), spc_secret_store = store\<rparr>"

type_synonym headers = "(string \<times> string) list"

record json_http_client =
  jc_get :: "string \<Rightarrow> pydict \<Rightarrow> headers \<Rightarrow> exn + pydict"
  jc_post :: "string \<Rightarrow> pydict \<Rightarrow> headers \<Rightarrow> exn + pydict"

definition provider_api_key :: "swap_provider_config \<Rightarrow> exn + string option" where
  "provider_api_key cfg = (case (spc_api_secret_path cfg, spc_secret_store cfg) of
       (Some p, Some store) \<Rightarrow> rbind (store p) (\<lambda>s. Inr (Some (sv_value s)))
     | _ \<Rightarrow> Inr None)"

definition key_headers :: "(string \<Rightarrow> headers) \<Rightarrow> swap_provider_config \<Rightarrow> exn + headers" where
  "key_headers f cfg = rbind (provider_api_key cfg) (\<lambda>k. Inr (case k of
       Some key \<Rightarrow> if key = [] then [] else f key
     | None \<Rightarrow> []))"

definition require_string :: "pydict \<Rightarrow> string \<Rightarrow> exn + string" where
  "require_string payload key = (case dget_none payload key of
       PStr v \<Rightarrow> if py_strip v \<noteq> [] then Inr v
         else Inl (swap_err (''Swap provider response missing string field '' @ quote_text key @ ''.''))
     | _ \<Rightarrow> Inl (swap_err (''Swap provider response missing string field '' @ quote_text key @ ''.'')))"

definition not_an_integer :: "string \<Rightarrow> exn" where
  "not_an_integer key = swap_err (''Swap provider response field '' @ quote_text key @ '' must be an integer.'')"

definition missing_integer :: "string \<Rightarrow> exn" where
  "missing_integer key = swap_err (''Swap provider response missing integer field '' @ quote_text key @ ''.'')"

definition require_int :: "pydict \<Rightarrow> string \<Rightarrow> exn + int" where
  "require_int payload key = (case dget_none payload key of
       PBool _ \<Rightarrow> Inl (not_an_integer key)
     | PInt i \<Rightarrow> Inr i
     | PStr v \<Rightarrow> if py_isdecimal v then int_of_text v else Inl (missing_integer key)
     | _ \<Rightarrow> Inl (missing_integer key))"

definition optional_int :: "pydict \<Rightarrow> string \<Rightarrow> exn + int option" where
  "optional_int payload key = (case dget_none payload key of
       PNone \<Rightarrow> Inr None
     | PInt i \<Rightarrow> Inr (Some i)
     | PStr v \<Rightarrow> if py_isdecimal v then rbind (int_of_text v) (\<lambda>i. Inr (Some i)) else Inl (not_an_integer key)
     | _ \<Rightarrow> Inl (not_an_integer key))"

text \<open>The loops that look for the first non-blank text under a list of keys.\<close>

definition text_at :: "pydict \<Rightarrow> string \<Rightarrow> string option" where
  "text_at d k = (case dget_none d k of PStr v \<Rightarrow> if py_strip v \<noteq> [] then Some v else None | _ \<Rightarrow> None)"

definition first_text :: "pydict \<Rightarrow> string list \<Rightarrow> string option" where
  "first_text d keys = first_some (map (text_at d) keys)"

definition bad_amount :: "string \<Rightarrow> string \<Rightarrow> exn" where
  "bad_amount fld what = swap_err (''Swap provider response '' @ what @ '' '' @ quote_text fld @ ''.'')"

definition coerce_non_negative_int :: "pyval \<Rightarrow> string \<Rightarrow> exn + int" where
  "coerce_non_negative_int v fld = (case v of
       PBool _ \<Rightarrow> Inl (swap_err (''Swap provider response field '' @ quote_text fld @ '' must be a number.''))
     | PInt i \<Rightarrow> if i < 0
         then Inl (swap_err (''Swap provider response field '' @ quote_text fld @ '' must be non-negative.'')) else Inr i
     | PStr t \<Rightarrow> (case int_of_text (py_strip t) of
           Inl _ \<Rightarrow> Inl (bad_amount fld ''has invalid amount field'')
         | Inr n \<Rightarrow> if n < 0
             then Inl (swap_err (''Swap provider response field '' @ quote_text fld @ '' must be non-negative.''))
             else Inr n)
     | _ \<Rightarrow> Inl (bad_amount fld ''has invalid amount field''))"

text \<open>\<open>int(s, 16)\<close> of a text with its prefix: hexadecimal digits with single underscores before or between them.\<close>

fun hex_digits :: "string \<Rightarrow> string option" where
  "hex_digits [] = None"
| "hex_digits [c] = (if is_hex_char c then Some [c] else None)"
| "hex_digits (c # d # cs) =
     (if \<not> is_hex_char c then None
      else map_option (Cons c) (hex_digits (if d = CHR ''_'' then cs else d # cs)))"

definition int_base16 :: "string \<Rightarrow> exn + int" where
  "int_base16 s = (let t = drop 2 s in
     case hex_digits (if prefix ''_'' t then tl t else t) of
       Some ds \<Rightarrow> Inr (int (text_hex_nat ds))
     | None \<Rightarrow> Inl (value_error (''invalid literal for int() with base 16: '' @ repr_str s)))"

definition parse_uint256 :: "pyval \<Rightarrow> string \<Rightarrow> exn + int" where
  "parse_uint256 v fld = (case v of
       PNone \<Rightarrow> Inr 0
     | PInt i \<Rightarrow> if i < 0 then Inl (swap_err (''Invalid '' @ fld @ ''.'')) else Inr i
     | PStr t \<Rightarrow> (let s = py_strip t in
         if prefix ''0x'' s \<or> prefix ''0X'' s then int_base16 s
         else if py_isdecimal s then int_of_text s
         else Inl (swap_err (''Invalid '' @ fld @ ''.'')))
     | _ \<Rightarrow> Inl (swap_err (''Invalid '' @ fld @ ''.'')))"

definition from_unix :: "py_env \<Rightarrow> int \<Rightarrow> exn + datetime option" where
  "from_unix V ts = rbind (env_from_timestamp V
     (if ts > 1000000000000 then env_float V (of_int ts / 1000) else of_int ts)) (\<lambda>d. Inr (Some d))"

definition parse_expiry_value :: "py_env \<Rightarrow> pyval \<Rightarrow> exn + datetime option" where
  "parse_expiry_value V v = (case v of
       PInt i \<Rightarrow> from_unix V i
     | PFloat q \<Rightarrow> from_unix V (py_trunc q)
     | PStr t \<Rightarrow> (let s = py_strip t in
         if s = [] then Inr None
         else if CHR ''T'' \<in> set s \<or> 2 \<le> count_list s (CHR ''-'') then
           Inr (map_option (astimezone_utc V) (env_from_iso V (zulu_to_offset s)))
         else if py_isdigit s then
           rbind (int_of_text s) (\<lambda>ts. if ts > 1000000000 then from_unix V ts else Inr None)
         else Inr None)
     | _ \<Rightarrow> Inr None)"

text \<open>A loop that returns the first expiry that parses.\<close>

fun first_expiry :: "py_env \<Rightarrow> pyval list \<Rightarrow> exn + datetime option" where
  "first_expiry V [] = Inr None"
| "first_expiry V (v # vs) = rbind (parse_expiry_value V v) (\<lambda>d. case d of
     Some e \<Rightarrow> Inr (Some e) | None \<Rightarrow> first_expiry V vs)"

record swap_provider =
  pr_name :: swap_provider_name
  pr_get_quote :: "swap_quote_request \<Rightarrow> exn + swap_quote"
  pr_build_execution :: "swap_quote \<Rightarrow> exn + swap_execution"

fun route_kind_value :: "swap_route_kind \<Rightarrow> string" where
  "route_kind_value SWAP = ''swap''"
| "route_kind_value BRIDGE = ''bridge''"

definition swap_metadata :: "py_env \<Rightarrow> string \<Rightarrow> pydict \<Rightarrow> swap_quote \<Rightarrow> pydict" where
  "swap_metadata V provider amount q = (let r = q_route q in
     [(''action'', PStr ''swap''), (''provider'', PStr provider), (''route_id'', PStr (rt_route_id r)),
      (''route_kind'', PStr (route_kind_value (rt_route_kind r))), (''from_token'', PStr (rt_from_token r)),
      (''to_token'', PStr (rt_to_token r)), (''spender_address'', opt_val PStr (rt_spender_address r))]
     @ amount @
     [(''amount_in_raw'', PInt (q_amount_in_raw q)), (''expected_amount_out_raw'', PInt (q_expected_amount_out_raw q)),
      (''min_amount_out_raw'', opt_val PInt (q_min_amount_out_raw q)), (''slippage_bps'', opt_val PInt (q_slippage_bps q)),
      (''recipient_address'', PStr (q_recipient_address q)),
      (''quote_expires_at'', opt_val (\<lambda>d. PStr (env_isoformat V d)) (q_expires_at q))])"

definition swap_prepared ::
  "libs \<Rightarrow> swap_quote \<Rightarrow> swap_evm_transaction \<Rightarrow> pydict \<Rightarrow> exn + prepared_transaction" where
  "swap_prepared L q t metadata = (let r = q_request q in mk_prepared_transaction L
     \<lparr>prep_wallet_id = rq_wallet_id r, prep_chain = rq_chain r, prep_chain_id = Some (sx_chain_id t),
      prep_from_address = Some (rq_wallet_address r), prep_to = sx_to t, prep_value_wei = sx_value_wei t,
      prep_data = sx_data t, prep_nonce = None, prep_gas = None,
      prep_idempotency_key = Some (rq_idempotency_key r), prep_metadata = metadata\<rparr>)"

definition unsupported_execution :: "swap_provider_name \<Rightarrow> swap_quote \<Rightarrow> string \<Rightarrow> pydict \<Rightarrow> exn + swap_execution" where
  "unsupported_execution name q reason raw = mk_swap_execution
     \<lparr>sw_provider = name, sw_execution_type = UNSUPPORTED, sw_quote = q, sw_transaction = None, sw_order = None,
      sw_unsupported_reason = Some reason, sw_raw_execution = raw\<rparr>"

definition evm_execution ::
  "libs \<Rightarrow> swap_provider_name \<Rightarrow> swap_quote \<Rightarrow> pydict \<Rightarrow> pydict \<Rightarrow> exn + swap_execution" where
  "evm_execution L name q tx raw =
     rbind (require_string tx ''to'') (\<lambda>to.
     rbind (require_string tx ''data'') (\<lambda>data.
     rbind (parse_uint256 (dget_none tx ''value'') ''transaction value'') (\<lambda>value.
     rbind (mk_swap_evm_transaction L
        \<lparr>sx_chain_id = rq_chain_id (q_request q), sx_to = to, sx_data = data, sx_value_wei = value\<rparr>) (\<lambda>t.
     mk_swap_execution
       \<lparr>sw_provider = name, sw_execution_type = EVM_TRANSACTION, sw_quote = q, sw_transaction = Some t,
        sw_order = None, sw_unsupported_reason = None, sw_raw_execution = raw\<rparr>))))"

section \<open>LiFi\<close>

definition lifi_headers :: "swap_provider_config \<Rightarrow> exn + headers" where
  "lifi_headers = key_headers (\<lambda>k. [(''x-lifi-api-key'', k)])"

definition request_to_chain_id :: "swap_quote_request \<Rightarrow> int" where
  "request_to_chain_id r = (case rq_to_chain_id r of Some i \<Rightarrow> i | None \<Rightarrow> rq_chain_id r)"

definition slippage_float :: "py_env \<Rightarrow> int option \<Rightarrow> pyval" where
  "slippage_float V b = opt_val (\<lambda>i. PFloat (env_float V (of_int i / 10000))) b"

definition action_token_address :: "libs \<Rightarrow> pydict \<Rightarrow> string \<Rightarrow> string \<Rightarrow> exn + string" where
  "action_token_address L action key fallback =
     (case (case dget_none action key of
              PStr v \<Rightarrow> if py_strip v \<noteq> [] then Some v else None
            | PDict d \<Rightarrow> text_at d ''address''
            | _ \<Rightarrow> None) of
        Some v \<Rightarrow> normalize_evm_address L v
      | None \<Rightarrow> if py_strip fallback \<noteq> [] then normalize_evm_address L fallback
          else Inl (swap_err (''LiFi quote action missing token field '' @ quote_text key @ ''.'')))"

definition lifi_route_id :: "pydict \<Rightarrow> string" where
  "lifi_route_id payload = (case first_text payload [''id'', ''tool''] of Some v \<Rightarrow> v | None \<Rightarrow> ''lifi-route'')"

definition lifi_spender :: "pydict \<Rightarrow> pydict \<Rightarrow> string option" where
  "lifi_spender payload estimate = (let keys = [''approvalAddress'', ''spenderAddress'', ''spender''] in
     first_some [first_text payload keys, first_text estimate keys])"

definition flatten_estimate_view :: "pydict \<Rightarrow> pydict \<Rightarrow> pydict" where
  "flatten_estimate_view body estimate = concat (map (\<lambda>key.
     if dget_none estimate key \<noteq> PNone then [(key, dget_none estimate key)]
     else if dget_none body key \<noteq> PNone then [(key, dget_none body key)] else [])
     [''fromAmount'', ''toAmount'', ''toAmountMin'', ''approvalAddress'', ''spenderAddress'', ''expiresAt''])"

definition optional_amount_key :: "pydict \<Rightarrow> string \<Rightarrow> exn + int option" where
  "optional_amount_key payload key = (if dget_none payload key = PNone then Inr None
     else rbind (coerce_non_negative_int (dget_none payload key) key) (\<lambda>i. Inr (Some i)))"

definition lifi_amount_int :: "pydict \<Rightarrow> string \<Rightarrow> exn + int" where
  "lifi_amount_int payload key = (if dget_none payload key = PNone
     then Inl (swap_err (''Swap provider response missing amount field '' @ quote_text key @ ''.''))
     else coerce_non_negative_int (dget_none payload key) key)"

text \<open>\<open>try: _require_amount_int(...) except SwapProviderError\<close>: the function raises no other exception.\<close>

definition lifi_required :: "pydict \<Rightarrow> string \<Rightarrow> exn + int" where
  "lifi_required em key = (case lifi_amount_int em key of
       Inl _ \<Rightarrow> Inl (swap_err (''LiFi quote response missing '' @ key @ '' in estimate or body.''))
     | Inr i \<Rightarrow> Inr i)"

definition lifi_expiry :: "py_env \<Rightarrow> pydict \<Rightarrow> pydict \<Rightarrow> pydict \<Rightarrow> pydict \<Rightarrow> exn + datetime" where
  "lifi_expiry V payload estimate em action =
     rbind (first_expiry V (concat (map (\<lambda>d. [dget_none d ''expiresAt'', dget_none d ''validUntil''])
       [em, payload, estimate, action]))) (\<lambda>d.
     Inr (case d of Some e \<Rightarrow> e | None \<Rightarrow> five_minutes_from_now V))"

definition lifi_steps :: "pydict \<Rightarrow> string list" where
  "lifi_steps payload = (case dget_none payload ''includedSteps'' of
       PList steps \<Rightarrow> concat (map (\<lambda>st. case st of
           PDict d \<Rightarrow> (case text_at d ''tool'' of Some t \<Rightarrow> [t] | None \<Rightarrow> [])
         | _ \<Rightarrow> []) steps)
     | _ \<Rightarrow> [])"

definition lifi_normalize_quote ::
  "libs \<Rightarrow> py_env \<Rightarrow> swap_quote_request \<Rightarrow> pydict \<Rightarrow> exn + swap_quote" where
  "lifi_normalize_quote L V r payload = (case dget_none payload ''action'' of
       PDict action \<Rightarrow> (let estimate = (case dget_none payload ''estimate'' of PDict e \<Rightarrow> e | _ \<Rightarrow> []);
           em = flatten_estimate_view payload estimate in
         rbind (require_int action ''fromChainId'') (\<lambda>from_chain_id.
         rbind (require_int action ''toChainId'') (\<lambda>to_chain_id.
         rbind (lifi_required em ''toAmount'') (\<lambda>expected_out.
         rbind (optional_amount_key em ''toAmountMin'') (\<lambda>min_out.
         rbind (lifi_required em ''fromAmount'') (\<lambda>amount_in.
         rbind (lifi_expiry V payload estimate em action) (\<lambda>expires_at.
         rbind (action_token_address L action ''fromToken'' (rq_from_token r)) (\<lambda>from_token.
         rbind (if rq_from_token_is_native r then normalize_evm_address L (rq_from_token r) else Inr from_token)
           (\<lambda>from_token_route.
         rbind (action_token_address L action ''toToken'' (rq_to_token r)) (\<lambda>to_token.
         rbind (mk_swap_route L
           \<lparr>rt_provider = LIFI, rt_route_id = lifi_route_id payload,
            rt_route_kind = (if from_chain_id \<noteq> to_chain_id then BRIDGE else SWAP),
            rt_from_chain_id = from_chain_id, rt_to_chain_id = to_chain_id, rt_from_token = from_token_route,
            rt_to_token = to_token, rt_spender_address = lifi_spender payload estimate,
            rt_steps = lifi_steps payload\<rparr>) (\<lambda>route.
         mk_swap_quote L
           \<lparr>q_provider = LIFI, q_request = r, q_route = route, q_amount_in_raw = amount_in,
            q_expected_amount_out_raw = expected_out, q_min_amount_out_raw = min_out,
            q_slippage_bps = rq_max_slippage_bps r, q_expires_at = Some expires_at,
            q_recipient_address = effective_recipient r, q_raw_quote = payload\<rparr>)))))))))))
     | _ \<Rightarrow> Inl (swap_err ''LiFi quote response missing action.''))"

definition lifi_get_quote ::
  "libs \<Rightarrow> py_env \<Rightarrow> swap_provider_config \<Rightarrow> json_http_client \<Rightarrow> swap_quote_request \<Rightarrow> exn + swap_quote" where
  "lifi_get_quote L V cfg http r =
     rbind (normalize_evm_address L (rq_from_token r)) (\<lambda>from_token.
     rbind (py_str_int (rq_amount_in_raw r)) (\<lambda>amount.
     rbind (lifi_headers cfg) (\<lambda>hdrs.
     rbind (jc_get http ''/quote''
       [(''fromChain'', PInt (rq_chain_id r)), (''toChain'', PInt (request_to_chain_id r)),
        (''fromToken'', PStr from_token), (''toToken'', PStr (rq_to_token r)),
        (''fromAmount'', PStr amount), (''fromAddress'', PStr (rq_wallet_address r)),
        (''toAddress'', PStr (effective_recipient r)), (''slippage'', slippage_float V (rq_max_slippage_bps r))] hdrs)
       (lifi_normalize_quote L V r))))"

definition lifi_build_execution :: "libs \<Rightarrow> swap_quote \<Rightarrow> exn + swap_execution" where
  "lifi_build_execution L q = (case dget_none (q_raw_quote q) ''transactionRequest'' of
       PDict tx \<Rightarrow> evm_execution L LIFI q tx tx
     | _ \<Rightarrow> unsupported_execution LIFI q ''LiFi quote did not include an executable transaction.'' [])"

definition lifi_to_prepared_transaction :: "libs \<Rightarrow> py_env \<Rightarrow> swap_execution \<Rightarrow> exn + prepared_transaction" where
  "lifi_to_prepared_transaction L V x = (case sw_transaction x of
       None \<Rightarrow> Inl (swap_err ''LiFi execution has no EVM transaction.'')
     | Some t \<Rightarrow> swap_prepared L (sw_quote x) t (swap_metadata V ''lifi'' [] (sw_quote x)))"

definition lifi_provider :: "libs \<Rightarrow> py_env \<Rightarrow> swap_provider_config \<Rightarrow> json_http_client \<Rightarrow> swap_provider" where
  "lifi_provider L V cfg http = \<lparr>pr_name = LIFI, pr_get_quote = lifi_get_quote L V cfg http,
     pr_build_execution = lifi_build_execution L\<rparr>"

section \<open>CoW Swap\<close>

definition COW_NETWORK_SLUG_BY_CHAIN_ID :: "(int \<times> string) list" where
  "COW_NETWORK_SLUG_BY_CHAIN_ID = [(1, ''mainnet''), (100, ''gnosis''), (42161, ''arbitrum_one''), (8453, ''base'')]"

definition cow_network_slug_for_chain_id :: "int \<Rightarrow> exn + string" where
  "cow_network_slug_for_chain_id chain_id = (case dget COW_NETWORK_SLUG_BY_CHAIN_ID chain_id of
       Some slug \<Rightarrow> Inr slug
     | None \<Rightarrow> Inl (swap_err (''CoW Swap has no network slug mapping for chain_id='' @ int_text chain_id
         @ ''. Known: 1, 100, 8453, 42161.'')))"

definition cow_headers :: "swap_provider_config \<Rightarrow> exn + headers" where
  "cow_headers = key_headers (\<lambda>k. [(''Authorization'', ''Bearer '' @ k)])"

definition cow_spender :: "pydict \<Rightarrow> pydict \<Rightarrow> string option" where
  "cow_spender response quote_payload = (let keys = [''spender'', ''allowanceTarget'', ''vaultRelayer''] in
     first_some [first_text response keys, first_text quote_payload keys])"

definition cow_expiry :: "py_env \<Rightarrow> pydict \<Rightarrow> exn + datetime" where
  "cow_expiry V quote_payload = (case dget_none quote_payload ''validTo'' of
       PInt i \<Rightarrow> env_from_timestamp V (of_int i)
     | PBool b \<Rightarrow> env_from_timestamp V (of_bool b)
     | PStr v \<Rightarrow> if py_isdecimal v then rbind (int_of_text v) (\<lambda>i. env_from_timestamp V (of_int i))
         else (case env_from_iso V (zulu_to_offset v) of
             Some d \<Rightarrow> Inr (astimezone_utc V d)
           | None \<Rightarrow> Inl (value_error (''Invalid isoformat string: '' @ repr_str (zulu_to_offset v))))
     | _ \<Rightarrow> Inr (five_minutes_from_now V))"

definition cow_normalize_quote ::
  "libs \<Rightarrow> py_env \<Rightarrow> swap_quote_request \<Rightarrow> pydict \<Rightarrow> exn + swap_quote" where
  "cow_normalize_quote L V r response = (case dget_none response ''quote'' of
       PDict quote_payload \<Rightarrow>
         rbind (case dget_none response ''id'' of
             PStr _ \<Rightarrow> require_string response ''id'' | _ \<Rightarrow> Inr ''cowswap-quote'') (\<lambda>route_id.
         rbind (require_string quote_payload ''sellToken'') (\<lambda>sell.
         rbind (require_string quote_payload ''buyToken'') (\<lambda>buy.
         rbind (mk_swap_route L
           \<lparr>rt_provider = COWSWAP, rt_route_id = route_id, rt_route_kind = SWAP,
            rt_from_chain_id = rq_chain_id r, rt_to_chain_id = rq_chain_id r, rt_from_token = sell, rt_to_token = buy,
            rt_spender_address = cow_spender response quote_payload, rt_steps = [''cow-protocol-order'']\<rparr>) (\<lambda>route.
         rbind (require_int quote_payload ''sellAmount'') (\<lambda>amount_in.
         rbind (require_int quote_payload ''buyAmount'') (\<lambda>expected_out.
         rbind (cow_expiry V quote_payload) (\<lambda>expires_at.
         mk_swap_quote L
           \<lparr>q_provider = COWSWAP, q_request = r, q_route = route, q_amount_in_raw = amount_in,
            q_expected_amount_out_raw = expected_out, q_min_amount_out_raw = None,
            q_slippage_bps = rq_max_slippage_bps r, q_expires_at = Some expires_at,
            q_recipient_address = effective_recipient r, q_raw_quote = response\<rparr>)))))))
     | _ \<Rightarrow> Inl (swap_err ''CoW Swap response missing quote payload.''))"

definition cow_get_quote ::
  "libs \<Rightarrow> py_env \<Rightarrow> swap_provider_config \<Rightarrow> json_http_client \<Rightarrow> swap_quote_request \<Rightarrow> exn + swap_quote" where
  "cow_get_quote L V cfg http r =
     (if rq_from_token_is_native r then Inl (swap_err
        (''CoW Swap quotes do not support selling the chain native token in this '' @
         ''adapter; use wrapped native or another provider.''))
      else
      rbind (cow_network_slug_for_chain_id (rq_chain_id r)) (\<lambda>slug.
      rbind (py_str_int (rq_amount_in_raw r)) (\<lambda>amount.
      rbind (cow_headers cfg) (\<lambda>hdrs.
      rbind (jc_post http (slug @ ''/api/v1/quote'')
        [(''sellToken'', PStr (rq_from_token r)), (''buyToken'', PStr (rq_to_token r)),
         (''receiver'', PStr (effective_recipient r)), (''from'', PStr (rq_wallet_address r)),
         (''sellAmountBeforeFee'', PStr amount), (''kind'', PStr ''sell'')] hdrs)
        (cow_normalize_quote L V r)))))"

definition rstrip_slash :: "string \<Rightarrow> string" where
  "rstrip_slash s = rev (dropWhile (\<lambda>c. c = CHR ''/'') (rev s))"

definition cow_build_execution :: "swap_provider_config \<Rightarrow> swap_quote \<Rightarrow> exn + swap_execution" where
  "cow_build_execution cfg q = (let raw = q_raw_quote q;
       order_payload = (if truthy (dget_none raw ''order'') then dget_none raw ''order'' else dget_none raw ''quote'') in
     case order_payload of
       PDict order \<Rightarrow> (case dget_none raw ''typedData'' of
           PDict typed_data \<Rightarrow>
             rbind (cow_network_slug_for_chain_id (rq_chain_id (q_request q))) (\<lambda>slug.
             rbind (mk_swap_typed_order
               \<lparr>so_chain_id = rq_chain_id (q_request q), so_typed_data = typed_data,
                so_submit_url = Some (rstrip_slash (spc_base_url cfg) @ ''/'' @ slug @ ''/api/v1/orders'')\<rparr>) (\<lambda>t.
             mk_swap_execution
               \<lparr>sw_provider = COWSWAP, sw_execution_type = EIP712_ORDER, sw_quote = q, sw_transaction = None,
                sw_order = Some t, sw_unsupported_reason = None, sw_raw_execution = order\<rparr>))
         | _ \<Rightarrow> unsupported_execution COWSWAP q
             ''CoW Swap typed-data signing is not available for this quote.'' order)
     | _ \<Rightarrow> unsupported_execution COWSWAP q ''CoW Swap quote did not include an order payload.'' [])"

text \<open>\<open>send\<close> posts a body to a URL and gives the text of the answer, \<open>loads\<close> is \<open>json.loads\<close>.\<close>

definition lstrip_slash :: "string \<Rightarrow> string" where
  "lstrip_slash s = dropWhile (\<lambda>c. c = CHR ''/'') s"

definition post_cow_order ::
  "(string \<Rightarrow> pydict \<Rightarrow> headers \<Rightarrow> exn + string) \<Rightarrow> (string \<Rightarrow> pyval option) \<Rightarrow> string \<Rightarrow> string \<Rightarrow> pydict \<Rightarrow> headers
     \<Rightarrow> exn + pydict" where
  "post_cow_order send loads base_url path payload hdrs =
     (case send (rstrip_slash base_url @ ''/'' @ lstrip_slash path) payload
             (dmerge [(''Content-Type'', ''application/json'')] hdrs) of
        Inl e \<Rightarrow> Inl (if is_os_error e then swap_err ''CoW order submission request failed.'' else e)
      | Inr text \<Rightarrow> (let body = py_strip text in
          if body = [] then Inr []
          else (case loads body of
              None \<Rightarrow> Inr [(''orderUid'', PStr body)]
            | Some (PDict d) \<Rightarrow> Inr d
            | Some (PStr s) \<Rightarrow> Inr [(''orderUid'', PStr s)]
            | Some _ \<Rightarrow> Inl (swap_err ''CoW order submission returned an unexpected JSON value.''))))"

definition default_post_order ::
  "(string \<Rightarrow> pydict \<Rightarrow> headers \<Rightarrow> exn + string) \<Rightarrow> (string \<Rightarrow> pyval option) \<Rightarrow> swap_provider_config
     \<Rightarrow> string \<Rightarrow> pydict \<Rightarrow> exn + pydict" where
  "default_post_order send loads cfg path body =
     rbind (cow_headers cfg) (post_cow_order send loads (spc_base_url cfg) path body)"

definition submit_order ::
  "(string \<Rightarrow> pydict \<Rightarrow> exn + pydict) \<Rightarrow> int \<Rightarrow> pydict \<Rightarrow> exn + pydict" where
  "submit_order post_order chain_id body =
     rbind (cow_network_slug_for_chain_id chain_id) (\<lambda>slug. post_order (slug @ ''/api/v1/orders'') body)"

definition cow_provider :: "libs \<Rightarrow> py_env \<Rightarrow> swap_provider_config \<Rightarrow> json_http_client \<Rightarrow> swap_provider" where
  "cow_provider L V cfg http = \<lparr>pr_name = COWSWAP, pr_get_quote = cow_get_quote L V cfg http,
     pr_build_execution = cow_build_execution cfg\<rparr>"

section \<open>Uniswap\<close>

definition uniswap_headers :: "swap_provider_config \<Rightarrow> exn + headers" where
  "uniswap_headers = key_headers (\<lambda>k. [(''Authorization'', ''Bearer '' @ k)])"

definition merged_quote_view :: "pydict \<Rightarrow> pydict" where
  "merged_quote_view response = (case dget_none response ''quote'' of
       PDict inner \<Rightarrow> dmerge (filter (\<lambda>(k, _). k \<noteq> ''quote'') response) inner
     | _ \<Rightarrow> response)"

definition uniswap_route_id :: "pydict \<Rightarrow> string" where
  "uniswap_route_id payload = (case first_text payload [''requestId'', ''quoteId'', ''routeId'', ''id''] of
     Some v \<Rightarrow> v | None \<Rightarrow> ''uniswap-route'')"

definition uniswap_spender :: "pydict \<Rightarrow> string option" where
  "uniswap_spender payload =
     first_text payload [''permit2Address'', ''allowanceTarget'', ''allowanceHolder'', ''spender'', ''approvalAddress'']"

text \<open>The code calls it with the two chain keys only, for which a missing value falls back to \<open>chainId\<close>.\<close>

definition require_chain_id :: "pydict \<Rightarrow> string \<Rightarrow> exn + int" where
  "require_chain_id payload key = (let v = (case dget_none payload key of
         PNone \<Rightarrow> if key = ''tokenInChainId'' \<or> key = ''tokenOutChainId'' then dget_none payload ''chainId'' else PNone
       | v \<Rightarrow> v) in
     case v of
       PBool _ \<Rightarrow> Inl (not_an_integer key)
     | PInt i \<Rightarrow> Inr i
     | PStr t \<Rightarrow> if py_isdecimal (py_strip t) then int_of_text (py_strip t) else Inl (missing_integer key)
     | _ \<Rightarrow> Inl (missing_integer key))"

text \<open>\<open>_optional_amount_int\<close> and \<open>_require_amount_int\<close>: the first key that is present decides.\<close>

fun optional_amount_int :: "pydict \<Rightarrow> string list \<Rightarrow> exn + int option" where
  "optional_amount_int payload [] = Inr None"
| "optional_amount_int payload (key # keys) =
     (if dget_none payload key \<noteq> PNone
      then rbind (coerce_non_negative_int (dget_none payload key) key) (\<lambda>i. Inr (Some i))
      else optional_amount_int payload keys)"

definition require_amount_int :: "pydict \<Rightarrow> string list \<Rightarrow> exn + int" where
  "require_amount_int payload keys = rbind (optional_amount_int payload keys) (\<lambda>r. case r of
       Some i \<Rightarrow> Inr i
     | None \<Rightarrow> Inl (swap_err (''Swap provider response missing amount field; tried ('' @
         py_join '', '' (map repr_str keys) @ '').'')))"

definition uniswap_expiry :: "py_env \<Rightarrow> pydict \<Rightarrow> exn + datetime option" where
  "uniswap_expiry V payload = first_expiry V (map (dget_none payload)
     [''expiresAt'', ''deadline'', ''validUntil'', ''quoteExpiry'', ''expiration''])"

text \<open>\<open>int(round(float(tol) * 10_000))\<close>\<close>

definition tolerance_bps :: "py_env \<Rightarrow> rat \<Rightarrow> int" where
  "tolerance_bps V q = py_round (env_float V (env_float V q * 10000))"

definition slippage_from_tolerance :: "py_env \<Rightarrow> pyval \<Rightarrow> int option \<Rightarrow> exn + int option" where
  "slippage_from_tolerance V tol dflt = (case tol of
       PInt i \<Rightarrow> Inr (Some (tolerance_bps V (of_int i)))
     | PFloat q \<Rightarrow> Inr (Some (tolerance_bps V q))
     | PStr t \<Rightarrow> (let s = py_strip t in
         if s = [] then Inr dflt
         else rbind (if py_isdecimal s then rbind (int_of_text s) (\<lambda>v.
                Inr (if 0 \<le> v \<and> v \<le> 10000 then Some v else None)) else Inr None) (\<lambda>whole.
         case whole of
           Some v \<Rightarrow> Inr (Some v)
         | None \<Rightarrow> (case env_float_of_text V s of
               FloatVal q \<Rightarrow> Inr (Some (tolerance_bps V q))
             | FloatInf \<Rightarrow> Inl (Exn ArithmeticError ''cannot convert float infinity to integer'')
             | _ \<Rightarrow> Inr dflt)))
     | _ \<Rightarrow> Inr dflt)"

definition resolve_slippage_bps :: "py_env \<Rightarrow> pydict \<Rightarrow> swap_quote_request \<Rightarrow> exn + int option" where
  "resolve_slippage_bps V payload r =
     rbind (case dget_none payload ''slippageBps'' of
         PInt i \<Rightarrow> Inr (Some i)
       | PStr t \<Rightarrow> if py_isdecimal (py_strip t) then rbind (int_of_text (py_strip t)) (\<lambda>i. Inr (Some i)) else Inr None
       | _ \<Rightarrow> Inr None) (\<lambda>bps.
     case bps of
       Some b \<Rightarrow> if b < 0 \<or> b > 10000 then Inl (swap_err ''Uniswap quote slippageBps is out of range.'') else Inr (Some b)
     | None \<Rightarrow> slippage_from_tolerance V (dget_none payload ''slippageTolerance'') (rq_max_slippage_bps r))"

definition uniswap_normalize_quote ::
  "libs \<Rightarrow> py_env \<Rightarrow> swap_quote_request \<Rightarrow> pydict \<Rightarrow> exn + swap_quote" where
  "uniswap_normalize_quote L V r response = (let quote_payload = merged_quote_view response in
     rbind (require_chain_id quote_payload ''tokenInChainId'') (\<lambda>from_chain_id.
     rbind (require_chain_id quote_payload ''tokenOutChainId'') (\<lambda>to_chain_id.
     rbind (require_string quote_payload ''tokenIn'') (\<lambda>token_in.
     rbind (require_string quote_payload ''tokenOut'') (\<lambda>token_out.
     rbind (mk_swap_route L
       \<lparr>rt_provider = UNISWAP, rt_route_id = uniswap_route_id quote_payload, rt_route_kind = SWAP,
        rt_from_chain_id = from_chain_id, rt_to_chain_id = to_chain_id, rt_from_token = token_in,
        rt_to_token = token_out, rt_spender_address = uniswap_spender quote_payload, rt_steps = [''uniswap'']\<rparr>) (\<lambda>route.
     rbind (require_amount_int quote_payload [''amount'', ''amountIn'', ''inputAmount'']) (\<lambda>amount_in.
     if amount_in \<noteq> rq_amount_in_raw r then Inl (swap_err ''Uniswap quote amount_in does not match the request.'')
     else
     rbind (require_amount_int quote_payload [''amountOut'', ''quoteAmountOut'', ''outputAmount'', ''outAmount''])
       (\<lambda>expected_out.
     rbind (optional_amount_int quote_payload [''minAmountOut'', ''amountOutMinimum'', ''quoteAmountOutMinimum''])
       (\<lambda>min_out.
     rbind (resolve_slippage_bps V quote_payload r) (\<lambda>slippage.
     rbind (uniswap_expiry V quote_payload) (\<lambda>expires_at.
     mk_swap_quote L
       \<lparr>q_provider = UNISWAP, q_request = r, q_route = route, q_amount_in_raw = amount_in,
        q_expected_amount_out_raw = expected_out, q_min_amount_out_raw = min_out, q_slippage_bps = slippage,
        q_expires_at = expires_at, q_recipient_address = effective_recipient r, q_raw_quote = response\<rparr>)))))))))))"

definition uniswap_get_quote ::
  "libs \<Rightarrow> py_env \<Rightarrow> swap_provider_config \<Rightarrow> json_http_client \<Rightarrow> swap_quote_request \<Rightarrow> exn + swap_quote" where
  "uniswap_get_quote L V cfg http r =
     (if rq_from_token_is_native r then Inl (swap_err
        (''Uniswap Trading API quotes do not support selling the chain native token '' @
         ''in this adapter; use wrapped native or another provider.''))
      else
      rbind (py_str_int (rq_amount_in_raw r)) (\<lambda>amount.
      rbind (uniswap_headers cfg) (\<lambda>hdrs.
      rbind (jc_post http ''/v1/quote''
        [(''tokenInChainId'', PInt (rq_chain_id r)), (''tokenOutChainId'', PInt (rq_chain_id r)),
         (''tokenIn'', PStr (rq_from_token r)), (''tokenOut'', PStr (rq_to_token r)), (''amount'', PStr amount),
         (''swapper'', PStr (rq_wallet_address r)), (''recipient'', PStr (effective_recipient r)),
         (''type'', PStr ''EXACT_INPUT'')] hdrs)
        (uniswap_normalize_quote L V r))))"

definition swap_quote_argument :: "swap_quote \<Rightarrow> pydict" where
  "swap_quote_argument q = (case dget_none (q_raw_quote q) ''quote'' of PDict inner \<Rightarrow> inner | _ \<Rightarrow> q_raw_quote q)"

definition uniswap_build_execution ::
  "libs \<Rightarrow> swap_provider_config \<Rightarrow> json_http_client \<Rightarrow> swap_quote \<Rightarrow> exn + swap_execution" where
  "uniswap_build_execution L cfg http q =
     rbind (uniswap_headers cfg) (\<lambda>hdrs.
     rbind (jc_post http ''/v1/swap'' [(''quote'', PDict (swap_quote_argument q))] hdrs) (\<lambda>response.
     case dget_none response ''transaction'' of
       PDict tx \<Rightarrow> evm_execution L UNISWAP q tx response
     | _ \<Rightarrow> unsupported_execution UNISWAP q ''Uniswap response did not include an executable transaction.'' response))"

definition uniswap_to_prepared_transaction :: "libs \<Rightarrow> py_env \<Rightarrow> swap_execution \<Rightarrow> exn + prepared_transaction" where
  "uniswap_to_prepared_transaction L V x = (case sw_transaction x of
       None \<Rightarrow> Inl (swap_err ''Uniswap execution has no EVM transaction.'')
     | Some t \<Rightarrow> swap_prepared L (sw_quote x) t (swap_metadata V ''uniswap'' [] (sw_quote x)))"

definition uniswap_provider :: "libs \<Rightarrow> py_env \<Rightarrow> swap_provider_config \<Rightarrow> json_http_client \<Rightarrow> swap_provider" where
  "uniswap_provider L V cfg http = \<lparr>pr_name = UNISWAP, pr_get_quote = uniswap_get_quote L V cfg http,
     pr_build_execution = uniswap_build_execution L cfg http\<rparr>"

section \<open>Router\<close>

record swap_router =
  ro_providers :: "swap_provider list"
  ro_order :: "swap_provider_name list"

definition default_provider_order :: "swap_provider_name list" where
  "default_provider_order = [LIFI, COWSWAP, UNISWAP]"

text \<open>The dictionary by name keeps the last provider given for a name.\<close>

definition provider_named :: "swap_router \<Rightarrow> swap_provider_name \<Rightarrow> swap_provider option" where
  "provider_named ro n = find (\<lambda>p. pr_name p = n) (rev (ro_providers ro))"

definition provider_for :: "swap_router \<Rightarrow> swap_provider_name option \<Rightarrow> exn + swap_provider" where
  "provider_for ro preference = (case preference of
       Some n \<Rightarrow> (case provider_named ro n of
           Some p \<Rightarrow> Inr p
         | None \<Rightarrow> Inl (swap_err (''Swap provider '' @ quote_text (provider_value n) @ '' is not configured.'')))
     | None \<Rightarrow> (case first_some (map (provider_named ro) (ro_order ro)) of
           Some p \<Rightarrow> Inr p
         | None \<Rightarrow> Inl (swap_err ''No swap providers are configured.'')))"

definition router_get_quote ::
  "swap_router \<Rightarrow> swap_quote_request \<Rightarrow> swap_provider_name option \<Rightarrow> exn + swap_quote" where
  "router_get_quote ro r preference = rbind (provider_for ro preference) (\<lambda>p. pr_get_quote p r)"

section \<open>The contract of an adapter\<close>

text \<open>
  Whatever a provider answers, an adapter's quote is for the request it was asked for and passes the
  consistency check of the quote model; an execution carries the quote it was built from and its payload is
  for the quote's chain.
\<close>

locale swap_adapter =
  fixes p :: swap_provider
  assumes quote_faithful: "pr_get_quote p r = Inr q \<Longrightarrow>
      q_provider q = pr_name p \<and> q_request q = r \<and> quote_consistency_error q = None"
    and execution_faithful: "pr_build_execution p q = Inr x \<Longrightarrow>
      sw_provider x = pr_name p \<and> sw_quote x = q \<and> execution_payload_error x = None"
begin

lemma quote_matches_request:
  assumes "pr_get_quote p r = Inr q"
  shows "q_amount_in_raw q = rq_amount_in_raw r" "rt_from_chain_id (q_route q) = rq_chain_id r"
    "rt_to_chain_id (q_route q) = request_to_chain_id r" "rt_from_token (q_route q) = rq_from_token r"
    "rt_to_token (q_route q) = rq_to_token r" "q_recipient_address q = effective_recipient r"
    "rt_provider (q_route q) = pr_name p"
  using quote_faithful [OF assms]
  by (auto simp: quote_consistency_error_def request_to_chain_id_def Let_def split: if_splits option.splits)

lemma execution_for_quote_chain:
  assumes "pr_build_execution p q = Inr x" and "sw_execution_type x = EVM_TRANSACTION"
  obtains t where "sw_transaction x = Some t" "sx_chain_id t = rq_chain_id (q_request q)"
proof -
  have e: "execution_payload_error x = None" "sw_quote x = q" using execution_faithful [OF assms(1)] by simp_all
  then obtain t where "sw_transaction x = Some t"
    using assms(2) by (auto simp: execution_payload_error_def Let_def split: if_splits option.splits)
  with e assms(2) show thesis
    using that by (auto simp: execution_payload_error_def Let_def split: if_splits)
qed

end

lemma mk_quote_faithful:
  "mk_swap_quote L q0 = Inr q \<Longrightarrow>
     q_provider q = q_provider q0 \<and> q_request q = q_request q0 \<and> quote_consistency_error q = None"
  by (auto simp: mk_swap_quote_def rbind_eq_Inr)

lemma mk_execution_faithful:
  "mk_swap_execution x0 = Inr x \<Longrightarrow> x = x0 \<and> execution_payload_error x = None"
  by (auto simp: mk_swap_execution_def rbind_eq_Inr)

lemma evm_execution_faithful:
  "evm_execution L n q tx raw = Inr x \<Longrightarrow> sw_provider x = n \<and> sw_quote x = q \<and> execution_payload_error x = None"
  by (auto simp: evm_execution_def rbind_eq_Inr dest!: mk_execution_faithful)

lemma unsupported_execution_faithful:
  "unsupported_execution n q reason raw = Inr x \<Longrightarrow> sw_provider x = n \<and> sw_quote x = q \<and> execution_payload_error x = None"
  by (auto simp: unsupported_execution_def dest!: mk_execution_faithful)

interpretation lifi: swap_adapter "lifi_provider L V cfg http" for L V cfg http
proof
  fix r q assume "pr_get_quote (lifi_provider L V cfg http) r = Inr q"
  then obtain payload where "lifi_normalize_quote L V r payload = Inr q"
    by (auto simp: lifi_provider_def lifi_get_quote_def rbind_eq_Inr)
  then show "q_provider q = pr_name (lifi_provider L V cfg http) \<and> q_request q = r \<and> quote_consistency_error q = None"
    by (auto simp: lifi_normalize_quote_def lifi_provider_def rbind_eq_Inr Let_def dest!: mk_quote_faithful
        split: pyval.splits)
next
  fix q x assume "pr_build_execution (lifi_provider L V cfg http) q = Inr x"
  then show "sw_provider x = pr_name (lifi_provider L V cfg http) \<and> sw_quote x = q \<and> execution_payload_error x = None"
    by (auto simp: lifi_provider_def lifi_build_execution_def
        dest!: evm_execution_faithful unsupported_execution_faithful split: pyval.splits)
qed

interpretation cow: swap_adapter "cow_provider L V cfg http" for L V cfg http
proof
  fix r q assume "pr_get_quote (cow_provider L V cfg http) r = Inr q"
  then obtain payload where "cow_normalize_quote L V r payload = Inr q"
    by (auto simp: cow_provider_def cow_get_quote_def rbind_eq_Inr split: if_splits)
  then show "q_provider q = pr_name (cow_provider L V cfg http) \<and> q_request q = r \<and> quote_consistency_error q = None"
    by (auto simp: cow_normalize_quote_def cow_provider_def rbind_eq_Inr dest!: mk_quote_faithful split: pyval.splits)
next
  fix q x assume "pr_build_execution (cow_provider L V cfg http) q = Inr x"
  then show "sw_provider x = pr_name (cow_provider L V cfg http) \<and> sw_quote x = q \<and> execution_payload_error x = None"
    by (auto simp: cow_provider_def cow_build_execution_def Let_def rbind_eq_Inr
        dest!: mk_execution_faithful unsupported_execution_faithful split: pyval.splits)
qed

interpretation uniswap: swap_adapter "uniswap_provider L V cfg http" for L V cfg http
proof
  fix r q assume "pr_get_quote (uniswap_provider L V cfg http) r = Inr q"
  then obtain payload where "uniswap_normalize_quote L V r payload = Inr q"
    by (auto simp: uniswap_provider_def uniswap_get_quote_def rbind_eq_Inr split: if_splits)
  then show "q_provider q = pr_name (uniswap_provider L V cfg http) \<and> q_request q = r \<and> quote_consistency_error q = None"
    by (auto simp: uniswap_normalize_quote_def uniswap_provider_def rbind_eq_Inr Let_def dest!: mk_quote_faithful
        split: if_splits)
next
  fix q x assume "pr_build_execution (uniswap_provider L V cfg http) q = Inr x"
  then obtain response where "(case dget_none response ''transaction'' of
       PDict tx \<Rightarrow> evm_execution L UNISWAP q tx response
     | _ \<Rightarrow> unsupported_execution UNISWAP q ''Uniswap response did not include an executable transaction.'' response) = Inr x"
    by (auto simp: uniswap_provider_def uniswap_build_execution_def rbind_eq_Inr)
  then show "sw_provider x = pr_name (uniswap_provider L V cfg http) \<and> sw_quote x = q \<and> execution_payload_error x = None"
    by (auto simp: uniswap_provider_def dest!: evm_execution_faithful unsupported_execution_faithful split: pyval.splits)
qed

text \<open>The router only ever answers with a configured provider, the preferred one where one is named.\<close>

lemma provider_named_Some: "provider_named ro n = Some p \<Longrightarrow> p \<in> set (ro_providers ro) \<and> pr_name p = n"
  by (auto simp: provider_named_def find_Some_iff) (metis in_set_conv_nth length_rev set_rev)

lemma provider_for_Inr:
  assumes "provider_for ro pref = Inr p"
  shows "p \<in> set (ro_providers ro)" "\<forall>n. pref = Some n \<longrightarrow> pr_name p = n" "pref = None \<longrightarrow> pr_name p \<in> set (ro_order ro)"
proof -
  have "(\<exists>n. pref = Some n \<and> provider_named ro n = Some p) \<or>
      (pref = None \<and> (\<exists>n \<in> set (ro_order ro). provider_named ro n = Some p))"
    using assms by (auto simp: provider_for_def split: option.splits dest!: first_some_in) force
  then show "p \<in> set (ro_providers ro)" "\<forall>n. pref = Some n \<longrightarrow> pr_name p = n"
    "pref = None \<longrightarrow> pr_name p \<in> set (ro_order ro)"
    using provider_named_Some by blast+
qed

end
