(* ===== verification/Model_Fields.thy ===== *)
theory Model_Fields
  imports Execution_Models
begin

text \<open>
  Reading a validated model from a dictionary (pydantic's \<open>model_validate\<close>): a field gives its
  value or its errors, the errors of all fields are collected in the order of the fields, and keys
  the model does not know are ignored.
\<close>

type_synonym 'a field = "field_errors + 'a"

definition fld_errs :: "'a field \<Rightarrow> field_errors" where
  "fld_errs f = (case f of Inl es \<Rightarrow> es | Inr _ \<Rightarrow> [])"

definition fld_val :: "'a \<Rightarrow> 'a field \<Rightarrow> 'a" where
  "fld_val d f = (case f of Inl _ \<Rightarrow> d | Inr v \<Rightarrow> v)"

abbreviation sval :: "string field \<Rightarrow> string" where
  "sval \<equiv> fld_val []"

abbreviation oval :: "'a option field \<Rightarrow> 'a option" where
  "oval \<equiv> fld_val None"

definition rd_str :: "pydict \<Rightarrow> string \<Rightarrow> string field" where
  "rd_str d fld = (case dget d fld of
       None \<Rightarrow> Inl [(fld, MissingField)]
     | Some (PStr s) \<Rightarrow> Inr s
     | Some _ \<Rightarrow> Inl [(fld, WrongType ''string'')])"

definition nonempty :: "string \<Rightarrow> string \<Rightarrow> string field" where
  "nonempty fld s = (if s = [] then Inl [(fld, MinLength 1)] else Inr s)"

definition rd_str1 :: "pydict \<Rightarrow> string \<Rightarrow> string field" where
  "rd_str1 d fld = rbind (rd_str d fld) (nonempty fld)"

definition rd_opt_str :: "pydict \<Rightarrow> string \<Rightarrow> string option field" where
  "rd_opt_str d fld = (case dget_none d fld of
       PNone \<Rightarrow> Inr None
     | PStr s \<Rightarrow> Inr (Some s)
     | _ \<Rightarrow> Inl [(fld, WrongType ''string'')])"

definition rd_opt_str1 :: "pydict \<Rightarrow> string \<Rightarrow> string option field" where
  "rd_opt_str1 d fld = rbind (rd_opt_str d fld) (\<lambda>s.
     if s = Some [] then Inl [(fld, MinLength 1)] else Inr s)"

text \<open>A field validator that calls \<open>normalize_evm_address\<close>.\<close>

definition norm_addr_field :: "libs \<Rightarrow> string \<Rightarrow> string \<Rightarrow> string field" where
  "norm_addr_field L fld v = (case normalize_evm_address L v of
       Inr a \<Rightarrow> Inr a
     | Inl e \<Rightarrow> Inl [(fld, FieldValueError (exn_text L e))])"

definition rd_addr :: "libs \<Rightarrow> pydict \<Rightarrow> string \<Rightarrow> string field" where
  "rd_addr L d fld = rbind (rd_str1 d fld) (norm_addr_field L fld)"

definition rd_opt_addr :: "libs \<Rightarrow> pydict \<Rightarrow> string \<Rightarrow> string option field" where
  "rd_opt_addr L d fld = rbind (rd_opt_str d fld) (\<lambda>v. case v of
       None \<Rightarrow> Inr None
     | Some s \<Rightarrow> rbind (norm_addr_field L fld s) (\<lambda>a. Inr (Some a)))"

definition rd_bool :: "libs \<Rightarrow> pydict \<Rightarrow> string \<Rightarrow> bool \<Rightarrow> bool field" where
  "rd_bool L d fld dflt = (case dget d fld of
       None \<Rightarrow> Inr dflt
     | Some v \<Rightarrow> (case lax_bool L v of
           Some b \<Rightarrow> Inr b
         | None \<Rightarrow> Inl [(fld, WrongType ''boolean'')]))"

definition rd_opt_int :: "libs \<Rightarrow> pydict \<Rightarrow> string \<Rightarrow> int option field" where
  "rd_opt_int L d fld = (case dget_none d fld of
       PNone \<Rightarrow> Inr None
     | v \<Rightarrow> (case lax_int L v of
           Some i \<Rightarrow> Inr (Some i)
         | None \<Rightarrow> Inl [(fld, WrongType ''integer'')]))"

definition lower_strip :: "string \<Rightarrow> string" where
  "lower_strip s = py_lower (py_strip s)"

lemma fld_simps [simp]:
  "fld_errs (Inr v) = []" "fld_errs (Inl es) = es" "fld_val d (Inr v) = v" "fld_val d (Inl es) = d"
  by (simp_all add: fld_errs_def fld_val_def)

lemma fld_errs_Nil: "fld_errs f = [] \<longleftrightarrow> f = Inl [] \<or> (\<exists>v. f = Inr v)"
  by (cases f) auto

lemma rd_str1_ok: "fld_errs (rd_str1 d fld) = [] \<longleftrightarrow> (\<exists>s. dget d fld = Some (PStr s) \<and> s \<noteq> [])"
  by (auto simp: rd_str1_def rd_str_def nonempty_def split: option.splits pyval.splits)

lemma rd_addr_ok:
  "fld_errs (rd_addr L d fld) = [] \<longleftrightarrow>
     (\<exists>s a. dget d fld = Some (PStr s) \<and> s \<noteq> [] \<and> normalize_evm_address L s = Inr a \<and> rd_addr L d fld = Inr a)"
  by (auto simp: rd_addr_def rd_str1_def rd_str_def nonempty_def norm_addr_field_def
      split: option.splits pyval.splits sum.splits)

end
