(* ===== verification/Read_Intents.thy ===== *)
theory Read_Intents
  imports Model_Fields Swap_Models
begin

text \<open>
  Read-only intents (\<^verbatim>\<open>graph/intents.py\<close>) and the Alchemy network names they refer to (\<^verbatim>\<open>alchemy/networks.py\<close>): the
  kinds and their aliases, the validation of each intent from a JSON object, and the JSON form that the graph
  keeps. The chain table \<open>C\<close> is a parameter.
\<close>

section \<open>Alchemy networks\<close>

definition MERCURY_TO_ALCHEMY_NETWORK :: "(string \<times> string) list" where
  "MERCURY_TO_ALCHEMY_NETWORK = [(''ethereum'', ''eth-mainnet''), (''base'', ''base-mainnet''),
     (''arbitrum'', ''arb-mainnet''), (''optimism'', ''opt-mainnet'')]"

definition mercury_chain_to_alchemy_network :: "string \<Rightarrow> exn + string" where
  "mercury_chain_to_alchemy_network name = (case dget MERCURY_TO_ALCHEMY_NETWORK (lower_strip name) of
       Some n \<Rightarrow> Inr n
     | None \<Rightarrow> Inl (Exn UnknownAlchemyNetworkError
         (''Alchemy APIs are not configured for chain '' @ quote_text name @ ''. Supported chains for these APIs: '' @
          py_join '', '' (sort (map fst MERCURY_TO_ALCHEMY_NETWORK)) @ ''.'')))"

definition alchemy_network_to_mercury_chain :: "string \<Rightarrow> exn + string" where
  "alchemy_network_to_mercury_chain network =
     (case find (\<lambda>(m, a). py_lower a = lower_strip network) MERCURY_TO_ALCHEMY_NETWORK of
       Some (m, a) \<Rightarrow> Inr m
     | None \<Rightarrow> Inl (Exn UnknownAlchemyNetworkError
         (''Unsupported Alchemy network '' @ quote_text network @
          ''. Mercury maps the following portfolio/price networks: '' @
          py_join '', '' (sort (map snd MERCURY_TO_ALCHEMY_NETWORK)) @ ''.'')))"

section \<open>Kinds\<close>

datatype read_kind = NATIVE_BALANCE | ERC20_BALANCE | ERC20_ALLOWANCE | ERC20_METADATA | CONTRACT_READ
  | KNOWN_ADDRESS | TOKEN_PRICES | PORTFOLIO_TOKENS | TRANSFER_HISTORY

fun kind_value :: "read_kind \<Rightarrow> string" where
  "kind_value NATIVE_BALANCE = ''native_balance''"
| "kind_value ERC20_BALANCE = ''erc20_balance''"
| "kind_value ERC20_ALLOWANCE = ''erc20_allowance''"
| "kind_value ERC20_METADATA = ''erc20_metadata''"
| "kind_value CONTRACT_READ = ''contract_read''"
| "kind_value KNOWN_ADDRESS = ''known_address''"
| "kind_value TOKEN_PRICES = ''token_prices''"
| "kind_value PORTFOLIO_TOKENS = ''portfolio_tokens''"
| "kind_value TRANSFER_HISTORY = ''transfer_history''"

definition KIND_ALIASES :: "(string \<times> read_kind) list" where
  "KIND_ALIASES = [
     (''get_native_balance'', NATIVE_BALANCE), (''native_balance'', NATIVE_BALANCE), (''eth_balance'', NATIVE_BALANCE),
     (''get_erc20_balance'', ERC20_BALANCE), (''erc20_balance'', ERC20_BALANCE), (''token_balance'', ERC20_BALANCE),
     (''get_erc20_allowance'', ERC20_ALLOWANCE), (''erc20_allowance'', ERC20_ALLOWANCE), (''allowance'', ERC20_ALLOWANCE),
     (''get_erc20_metadata'', ERC20_METADATA), (''erc20_metadata'', ERC20_METADATA), (''token_metadata'', ERC20_METADATA),
     (''read_contract'', CONTRACT_READ), (''contract_read'', CONTRACT_READ),
     (''known_address'', KNOWN_ADDRESS), (''address_lookup'', KNOWN_ADDRESS), (''lookup_known_address'', KNOWN_ADDRESS),
     (''token_prices'', TOKEN_PRICES), (''get_token_prices'', TOKEN_PRICES),
     (''portfolio_tokens'', PORTFOLIO_TOKENS), (''get_portfolio_tokens'', PORTFOLIO_TOKENS),
     (''transfer_history'', TRANSFER_HISTORY), (''get_transfer_history'', TRANSFER_HISTORY)]"

section \<open>Intents\<close>

datatype block_ref = BlockInt int | BlockText string

datatype transfer_direction = INCOMING | OUTGOING | BOTH

fun direction_value :: "transfer_direction \<Rightarrow> string" where
  "direction_value INCOMING = ''incoming''"
| "direction_value OUTGOING = ''outgoing''"
| "direction_value BOTH = ''both''"

record portfolio_intent =
  pf_wallet_address :: string
  pf_chains :: "string list"
  pf_with_metadata :: bool
  pf_with_prices :: bool
  pf_include_native_tokens :: bool
  pf_include_erc20_tokens :: bool
  pf_page_key :: "string option"

record transfer_intent_read =
  th_chain :: "string option"
  th_wallet_address :: string
  th_direction :: transfer_direction
  th_categories :: "string list"
  th_from_block :: "block_ref option"
  th_to_block :: "block_ref option"
  th_max_count :: int
  th_page_key :: "string option"
  th_with_metadata :: bool
  th_exclude_zero_value :: bool

datatype parsed_intent =
    NativeBalanceIntent "string option" string
  | ERC20BalanceIntent "string option" string string
  | ERC20AllowanceIntent "string option" string string string
  | ERC20MetadataIntent "string option" string
  | ContractReadIntent "string option" string "pydict list" string "pyval list"
  | KnownAddressIntent "string option" known_category string
  | TokenPricesIntent "(string \<times> string) list"
  | PortfolioTokensIntent portfolio_intent
  | TransferHistoryIntent transfer_intent_read
  | UnsupportedIntent string

fun category_value :: "known_category \<Rightarrow> string" where
  "category_value CatToken = ''token''"
| "category_value CatProtocol = ''protocol''"

fun block_json :: "block_ref \<Rightarrow> pyval" where
  "block_json (BlockInt i) = PInt i"
| "block_json (BlockText s) = PStr s"

definition price_entry_json :: "string \<times> string \<Rightarrow> pyval" where
  "price_entry_json e = PDict [(''chain'', PStr (fst e)), (''token_address'', PStr (snd e))]"

definition intent_head :: "read_kind \<Rightarrow> string option \<Rightarrow> pydict" where
  "intent_head k chain = [(''kind'', PStr (kind_value k)), (''chain'', opt_val PStr chain)]"

text \<open>\<open>intent.model_dump(mode="json")\<close>\<close>

fun intent_json :: "parsed_intent \<Rightarrow> pydict" where
  "intent_json (NativeBalanceIntent c w) = intent_head NATIVE_BALANCE c @ [(''wallet_address'', PStr w)]"
| "intent_json (ERC20BalanceIntent c t w) =
     intent_head ERC20_BALANCE c @ [(''token_address'', PStr t), (''wallet_address'', PStr w)]"
| "intent_json (ERC20AllowanceIntent c t ow sp) =
     intent_head ERC20_ALLOWANCE c @ [(''token_address'', PStr t), (''owner_address'', PStr ow), (''spender_address'', PStr sp)]"
| "intent_json (ERC20MetadataIntent c t) = intent_head ERC20_METADATA c @ [(''token_address'', PStr t)]"
| "intent_json (ContractReadIntent c a abi f args) =
     intent_head CONTRACT_READ c @ [(''contract_address'', PStr a), (''abi_fragment'', PList (map PDict abi)),
       (''function_name'', PStr f), (''args'', PList args)]"
| "intent_json (KnownAddressIntent c cat k) =
     intent_head KNOWN_ADDRESS c @ [(''category'', PStr (category_value cat)), (''key'', PStr k)]"
| "intent_json (TokenPricesIntent es) =
     intent_head TOKEN_PRICES None @ [(''token_address'', PNone), (''tokens'', PList (map price_entry_json es))]"
| "intent_json (PortfolioTokensIntent p) =
     intent_head PORTFOLIO_TOKENS None @ [(''wallet_address'', PStr (pf_wallet_address p)),
       (''chains'', PList (map PStr (pf_chains p))), (''networks'', PNone), (''with_metadata'', PBool (pf_with_metadata p)),
       (''with_prices'', PBool (pf_with_prices p)), (''include_native_tokens'', PBool (pf_include_native_tokens p)),
       (''include_erc20_tokens'', PBool (pf_include_erc20_tokens p)), (''page_key'', opt_val PStr (pf_page_key p))]"
| "intent_json (TransferHistoryIntent t) =
     intent_head TRANSFER_HISTORY (th_chain t) @ [(''wallet_address'', PStr (th_wallet_address t)),
       (''direction'', PStr (direction_value (th_direction t))), (''categories'', PList (map PStr (th_categories t))),
       (''from_block'', opt_val block_json (th_from_block t)), (''to_block'', opt_val block_json (th_to_block t)),
       (''max_count'', PInt (th_max_count t)), (''page_key'', opt_val PStr (th_page_key t)),
       (''with_metadata'', PBool (th_with_metadata t)), (''exclude_zero_value'', PBool (th_exclude_zero_value t))]"
| "intent_json (UnsupportedIntent reason) = [(''kind'', PStr ''unsupported''), (''reason'', PStr reason)]"

section \<open>Reading fields\<close>

text \<open>The items of a list are validated one by one; the location of an item's error ends with its index.\<close>

definition item_loc :: "string \<Rightarrow> nat \<Rightarrow> string" where
  "item_loc fld i = fld @ ''.'' @ nat_text i"

definition rd_items :: "(string \<Rightarrow> pyval \<Rightarrow> 'a field) \<Rightarrow> string \<Rightarrow> pyval list \<Rightarrow> 'a list field" where
  "rd_items f fld vs = (let fs = map (\<lambda>i. f (item_loc fld i) (vs ! i)) [0..<length vs];
     es = concat (map fld_errs fs) in if es = [] then Inr (concat (map (\<lambda>x. case x of Inr v \<Rightarrow> [v] | Inl _ \<Rightarrow> []) fs)) else Inl es)"

definition item_str :: "string \<Rightarrow> pyval \<Rightarrow> string field" where
  "item_str loc v = (case v of PStr s \<Rightarrow> Inr s | _ \<Rightarrow> Inl [(loc, WrongType ''string'')])"

definition item_dict :: "string \<Rightarrow> pyval \<Rightarrow> pydict field" where
  "item_dict loc v = (case v of PDict d \<Rightarrow> Inr d | _ \<Rightarrow> Inl [(loc, WrongType ''dict'')])"

definition rd_opt_list :: "(string \<Rightarrow> pyval \<Rightarrow> 'a field) \<Rightarrow> pydict \<Rightarrow> string \<Rightarrow> 'a list option field" where
  "rd_opt_list f d fld = (case dget_none d fld of
       PNone \<Rightarrow> Inr None
     | PList vs \<Rightarrow> rbind (rd_items f fld vs) (\<lambda>xs. Inr (Some xs))
     | _ \<Rightarrow> Inl [(fld, WrongType ''list'')])"

text \<open>A list field with a default: the key may be absent, but not \<open>None\<close>.\<close>

definition rd_list :: "(string \<Rightarrow> pyval \<Rightarrow> 'a field) \<Rightarrow> pydict \<Rightarrow> string \<Rightarrow> 'a list option \<Rightarrow> 'a list field" where
  "rd_list f d fld dflt = (case dget d fld of
       None \<Rightarrow> (case dflt of Some xs \<Rightarrow> Inr xs | None \<Rightarrow> Inl [(fld, MissingField)])
     | Some (PList vs) \<Rightarrow> rd_items f fld vs
     | Some _ \<Rightarrow> Inl [(fld, WrongType ''list'')])"

definition min_items :: "string \<Rightarrow> 'a list \<Rightarrow> 'a list field" where
  "min_items fld xs = (if xs = [] then Inl [(fld, MinItems 1)] else Inr xs)"

definition rd_block :: "libs \<Rightarrow> pydict \<Rightarrow> string \<Rightarrow> block_ref option field" where
  "rd_block L d fld = (case dget_none d fld of
       PNone \<Rightarrow> Inr None
     | PStr s \<Rightarrow> Inr (Some (BlockText s))
     | v \<Rightarrow> (case lax_int L v of
           Some i \<Rightarrow> Inr (Some (BlockInt i))
         | None \<Rightarrow> Inl [(fld @ ''.str'', WrongType ''string''), (fld @ ''.int'', WrongType ''integer'')]))"

definition rd_str_default :: "pydict \<Rightarrow> string \<Rightarrow> string \<Rightarrow> string field" where
  "rd_str_default d fld dflt = (if dget d fld = None then Inr dflt else rd_str d fld)"

text \<open>Validators shared by the intents: an optional chain, an optional page key.\<close>

definition or_blank :: "string \<Rightarrow> string option" where
  "or_blank s = (if s = [] then None else Some s)"

definition rd_chain :: "pydict \<Rightarrow> string option field" where
  "rd_chain d = rbind (rd_opt_str d ''chain'') (\<lambda>c. Inr (Option.bind c (\<lambda>s. or_blank (lower_strip s))))"

definition rd_page_key :: "pydict \<Rightarrow> string option field" where
  "rd_page_key d = rbind (rd_opt_str d ''page_key'') (\<lambda>c. Inr (Option.bind c (\<lambda>s. or_blank (py_strip s))))"

definition field_value_error :: "string \<Rightarrow> string \<Rightarrow> 'a field" where
  "field_value_error fld t = Inl [(fld, FieldValueError t)]"

text \<open>A model validator that runs after the fields and may replace the model.\<close>

definition model_after :: "string \<Rightarrow> string + 'a \<Rightarrow> exn + 'a" where
  "model_after model r = (case r of Inl t \<Rightarrow> Inl (model_error model t) | Inr x \<Rightarrow> Inr x)"

section \<open>Validation of each kind\<close>

definition native_balance_of :: "libs \<Rightarrow> pydict \<Rightarrow> exn + parsed_intent" where
  "native_balance_of L d = (let c = rd_chain d; w = rd_addr L d ''wallet_address'' in
     finish ''NativeBalanceIntent'' (fld_errs c @ fld_errs w) (NativeBalanceIntent (oval c) (sval w)))"

definition erc20_metadata_of :: "libs \<Rightarrow> pydict \<Rightarrow> exn + parsed_intent" where
  "erc20_metadata_of L d = (let c = rd_chain d; t = rd_addr L d ''token_address'' in
     finish ''ERC20MetadataIntent'' (fld_errs c @ fld_errs t) (ERC20MetadataIntent (oval c) (sval t)))"

definition erc20_balance_of :: "libs \<Rightarrow> pydict \<Rightarrow> exn + parsed_intent" where
  "erc20_balance_of L d = (let c = rd_chain d; t = rd_addr L d ''token_address''; w = rd_addr L d ''wallet_address'' in
     finish ''ERC20BalanceIntent'' (fld_errs c @ fld_errs t @ fld_errs w) (ERC20BalanceIntent (oval c) (sval t) (sval w)))"

definition erc20_allowance_of :: "libs \<Rightarrow> pydict \<Rightarrow> exn + parsed_intent" where
  "erc20_allowance_of L d = (let c = rd_chain d; t = rd_addr L d ''token_address'';
       ow = rd_addr L d ''owner_address''; sp = rd_addr L d ''spender_address'' in
     finish ''ERC20AllowanceIntent'' (fld_errs c @ fld_errs t @ fld_errs ow @ fld_errs sp)
       (ERC20AllowanceIntent (oval c) (sval t) (sval ow) (sval sp)))"

definition contract_read_of :: "libs \<Rightarrow> pydict \<Rightarrow> exn + parsed_intent" where
  "contract_read_of L d = (let c = rd_chain d; a = rd_addr L d ''contract_address'';
       abi = rbind (rd_list item_dict d ''abi_fragment'' None) (min_items ''abi_fragment'');
       f = rd_str1 d ''function_name''; args = rd_list (\<lambda>loc v. Inr v) d ''args'' (Some []) in
     finish ''ContractReadIntent'' (fld_errs c @ fld_errs a @ fld_errs abi @ fld_errs f @ fld_errs args)
       (ContractReadIntent (oval c) (sval a) (fld_val [] abi) (sval f) (fld_val [] args)))"

definition rd_category :: "pydict \<Rightarrow> known_category field" where
  "rd_category d = (case dget d ''category'' of
       None \<Rightarrow> Inl [(''category'', MissingField)]
     | Some v \<Rightarrow> if v = PStr ''token'' then Inr CatToken
         else if v = PStr ''protocol'' then Inr CatProtocol
         else Inl [(''category'', WrongType ''literal'')])"

definition known_address_of :: "pydict \<Rightarrow> exn + parsed_intent" where
  "known_address_of d = (let c = rd_chain d; cat = rd_category d;
       k = rbind (rd_str1 d ''key'') (\<lambda>s. if py_strip s = [] then field_value_error ''key'' ''key must not be empty.''
             else Inr (py_strip s)) in
     finish ''KnownAddressIntent'' (fld_errs c @ fld_errs cat @ fld_errs k)
       (KnownAddressIntent (oval c) (fld_val CatToken cat) (sval k)))"

definition prefixed :: "string \<Rightarrow> 'a field \<Rightarrow> 'a field" where
  "prefixed loc f = (case f of Inl es \<Rightarrow> Inl (map (\<lambda>(l, c). (loc @ ''.'' @ l, c)) es) | Inr x \<Rightarrow> Inr x)"

definition price_entry_of :: "libs \<Rightarrow> pydict \<Rightarrow> (string \<times> string) field" where
  "price_entry_of L d = (let
       c = rbind (rd_str1 d ''chain'') (\<lambda>s. if lower_strip s = [] then field_value_error ''chain'' ''chain must not be empty.''
             else Inr (lower_strip s));
       t = rd_addr L d ''token_address'' in
     if fld_errs c @ fld_errs t = [] then Inr (sval c, sval t) else Inl (fld_errs c @ fld_errs t))"

definition item_price_entry :: "libs \<Rightarrow> string \<Rightarrow> pyval \<Rightarrow> (string \<times> string) field" where
  "item_price_entry L loc v = (case v of
       PDict d \<Rightarrow> prefixed loc (price_entry_of L d)
     | _ \<Rightarrow> Inl [(loc, WrongType ''model'')])"

text \<open>\<open>TokenPriceIntentEntry(chain=..., token_address=...)\<close> inside the validator: its error is a \<open>ValueError\<close>.\<close>

definition price_entries :: "libs \<Rightarrow> string option \<Rightarrow> string option \<Rightarrow> (string \<times> string) list \<Rightarrow> string + (string \<times> string) list" where
  "price_entries L chain token tokens =
     (if tokens \<noteq> [] then Inr tokens
      else case token of
          Some t \<Rightarrow> (case chain of
              None \<Rightarrow> Inl ''token_prices requires `chain` when using `token_address` without `tokens`.''
            | Some c \<Rightarrow> (case price_entry_of L [(''chain'', PStr c), (''token_address'', PStr t)] of
                  Inr e \<Rightarrow> Inr [e]
                | Inl es \<Rightarrow> Inl (exn_text L (ValidationError ''TokenPriceIntentEntry'' es))))
        | None \<Rightarrow> Inl ''token_prices requires `tokens` or `token_address` with `chain`.'')"

definition normalize_token_list :: "libs \<Rightarrow> string option \<Rightarrow> string option \<Rightarrow> (string \<times> string) list \<Rightarrow> string + parsed_intent" where
  "normalize_token_list L chain token tokens =
     rbind (price_entries L chain token tokens) (\<lambda>entries.
     if entries = [] then Inl ''token_prices requires at least one token entry.''
     else if 25 < length entries then Inl ''token_prices supports at most 25 token entries per request.''
     else if 3 < card (fst ` set entries) then Inl ''token_prices supports at most 3 distinct chains per request.''
     else Inr (TokenPricesIntent entries))"

definition token_prices_of :: "libs \<Rightarrow> pydict \<Rightarrow> exn + parsed_intent" where
  "token_prices_of L d = (let c = rd_chain d; t = rd_opt_addr L d ''token_address'';
       ts = rd_list (item_price_entry L) d ''tokens'' (Some []) in
     rbind (finish ''TokenPricesIntent'' (fld_errs c @ fld_errs t @ fld_errs ts) (oval c, oval t, fld_val [] ts)) (\<lambda>(c, t, ts).
     model_after ''TokenPricesIntent'' (normalize_token_list L c t ts)))"

text \<open>The loops that collect the distinct chains of a portfolio request.\<close>

fun chains_of_networks :: "string list \<Rightarrow> string list \<Rightarrow> string + string list" where
  "chains_of_networks [] resolved = Inr resolved"
| "chains_of_networks (n # ns) resolved = (let segment = lower_strip n in
     if segment = [] then chains_of_networks ns resolved
     else case alchemy_network_to_mercury_chain segment of
         Inl (Exn _ t) \<Rightarrow> Inl t
       | Inl (ValidationError _ _) \<Rightarrow> Inl []
       | Inr m \<Rightarrow> chains_of_networks ns (if m \<in> set resolved then resolved else resolved @ [m]))"

definition distinct_names :: "string list \<Rightarrow> string list" where
  "distinct_names cs = fold (\<lambda>c out. let name = lower_strip c in
     if name = [] \<or> name \<in> set out then out else out @ [name]) cs []"

definition resolved_chains :: "string option \<Rightarrow> string list option \<Rightarrow> string list option \<Rightarrow> string + string list" where
  "resolved_chains chain cns networks = (let
       has_chains = (case cns of Some cs \<Rightarrow> cs \<noteq> [] | None \<Rightarrow> False);
       has_networks = (case networks of Some ns \<Rightarrow> ns \<noteq> [] | None \<Rightarrow> False) in
     if has_chains \<and> has_networks then Inl ''portfolio_tokens accepts either `chains` or `networks`, not both.''
     else if has_networks then chains_of_networks (case networks of Some ns \<Rightarrow> ns | None \<Rightarrow> []) []
     else if has_chains then Inr (distinct_names (case cns of Some cs \<Rightarrow> cs | None \<Rightarrow> []))
     else case chain of
         Some s \<Rightarrow> if py_strip s = [] then Inl ''portfolio_tokens requires `chains`, `networks`, or a default `chain` field.''
           else Inr [lower_strip s]
       | None \<Rightarrow> Inl ''portfolio_tokens requires `chains`, `networks`, or a default `chain` field.'')"

definition portfolio_chain_problem :: "libs \<Rightarrow> chain_table \<Rightarrow> string \<Rightarrow> string option" where
  "portfolio_chain_problem L C name = (case get_chain_by_name C name of
       Inl _ \<Rightarrow> Some (''Unsupported Mercury chain '' @ quote_text name @ '' for portfolio lookup.'')
     | Inr _ \<Rightarrow> (case mercury_chain_to_alchemy_network name of
           Inl e \<Rightarrow> Some (exn_text L e)
         | Inr _ \<Rightarrow> None))"

definition resolve_portfolio_chains ::
  "libs \<Rightarrow> chain_table \<Rightarrow> string option \<Rightarrow> string list option \<Rightarrow> string list option \<Rightarrow> string + string list" where
  "resolve_portfolio_chains L C chain cns networks =
     rbind (resolved_chains chain cns networks) (\<lambda>resolved.
     if resolved = [] then Inl ''portfolio_tokens requires at least one chain or network.''
     else if 5 < length resolved then Inl ''portfolio_tokens supports at most 5 distinct networks per request.''
     else case first_some (map (portfolio_chain_problem L C) resolved) of
         Some t \<Rightarrow> Inl t
       | None \<Rightarrow> Inr resolved)"

definition portfolio_tokens_of :: "libs \<Rightarrow> chain_table \<Rightarrow> pydict \<Rightarrow> exn + parsed_intent" where
  "portfolio_tokens_of L C d = (let c = rd_chain d; w = rd_addr L d ''wallet_address'';
       cs = rd_opt_list item_str d ''chains''; ns = rd_opt_list item_str d ''networks'';
       wm = rd_bool L d ''with_metadata'' True; wp = rd_bool L d ''with_prices'' True;
       nt = rd_bool L d ''include_native_tokens'' True; et = rd_bool L d ''include_erc20_tokens'' True;
       pk = rd_page_key d in
     rbind (finish ''PortfolioTokensIntent''
       (fld_errs c @ fld_errs w @ fld_errs cs @ fld_errs ns @ fld_errs wm @ fld_errs wp @ fld_errs nt @ fld_errs et @ fld_errs pk)
       \<lparr>pf_wallet_address = sval w, pf_chains = [], pf_with_metadata = fld_val True wm, pf_with_prices = fld_val True wp,
        pf_include_native_tokens = fld_val True nt, pf_include_erc20_tokens = fld_val True et, pf_page_key = oval pk\<rparr>) (\<lambda>p.
     model_after ''PortfolioTokensIntent'' (rbind (resolve_portfolio_chains L C (oval c) (oval cs) (oval ns)) (\<lambda>cns.
       Inr (PortfolioTokensIntent (p\<lparr>pf_chains := cns\<rparr>))))))"

definition TRANSFER_DEFAULT_CATEGORIES :: "string list" where
  "TRANSFER_DEFAULT_CATEGORIES = [''external'', ''internal'', ''erc20'', ''erc721'', ''erc1155'']"

definition ALLOWED_TRANSFER_CATEGORIES :: "string list" where
  "ALLOWED_TRANSFER_CATEGORIES = TRANSFER_DEFAULT_CATEGORIES @ [''specialnft'']"

definition direction_of :: "string \<Rightarrow> transfer_direction option" where
  "direction_of s = dget [(''in'', INCOMING), (''incoming'', INCOMING), (''out'', OUTGOING), (''outgoing'', OUTGOING),
     (''both'', BOTH)] (lower_strip s)"

definition transfer_categories :: "string list option \<Rightarrow> string + string list" where
  "transfer_categories cats = (case cats of
       None \<Rightarrow> Inr TRANSFER_DEFAULT_CATEGORIES
     | Some cs \<Rightarrow> if cs = [] then Inr TRANSFER_DEFAULT_CATEGORIES
         else let resolved = map lower_strip (filter (\<lambda>c. py_strip c \<noteq> []) cs) in
           if resolved = [] then Inl ''categories must include at least one non-empty category name.''
           else case find (\<lambda>c. c \<notin> set ALLOWED_TRANSFER_CATEGORIES) resolved of
               Some c \<Rightarrow> Inl (''Unsupported transfer category '' @ repr_str c @ ''. Allowed: '' @
                 py_join '', '' (sort ALLOWED_TRANSFER_CATEGORIES) @ ''.'')
             | None \<Rightarrow> Inr resolved)"

definition normalize_transfer_fields ::
  "string \<Rightarrow> string list option \<Rightarrow> int option \<Rightarrow> string option \<Rightarrow> string + (transfer_direction \<times> string list \<times> int \<times> string option)" where
  "normalize_transfer_fields direction cats max_count page_key = (case direction_of direction of
       None \<Rightarrow> Inl ''direction must be incoming, outgoing, or both.''
     | Some dir \<Rightarrow> rbind (transfer_categories cats) (\<lambda>resolved.
         let mc = (case max_count of None \<Rightarrow> 100 | Some m \<Rightarrow> m) in
         if mc < 1 \<or> 1000 < mc then Inl ''max_count must be between 1 and 1000 inclusive.''
         else Inr (dir, resolved, mc, if dir = BOTH then None else page_key)))"

definition transfer_history_of :: "libs \<Rightarrow> pydict \<Rightarrow> exn + parsed_intent" where
  "transfer_history_of L d = (let c = rd_chain d; w = rd_addr L d ''wallet_address'';
       dir = rd_str_default d ''direction'' ''both''; cats = rd_opt_list item_str d ''categories'';
       fb = rd_block L d ''from_block''; tb = rd_block L d ''to_block''; mc = rd_opt_int L d ''max_count'';
       pk = rd_page_key d; wm = rd_bool L d ''with_metadata'' True; ez = rd_bool L d ''exclude_zero_value'' True in
     rbind (finish ''TransferHistoryIntent''
       (fld_errs c @ fld_errs w @ fld_errs dir @ fld_errs cats @ fld_errs fb @ fld_errs tb @ fld_errs mc @ fld_errs pk
        @ fld_errs wm @ fld_errs ez) ()) (\<lambda>_.
     model_after ''TransferHistoryIntent''
       (rbind (normalize_transfer_fields (sval dir) (oval cats) (oval mc) (oval pk)) (\<lambda>(dn, cs, m, k).
         Inr (TransferHistoryIntent \<lparr>th_chain = oval c, th_wallet_address = sval w, th_direction = dn, th_categories = cs,
           th_from_block = oval fb, th_to_block = oval tb, th_max_count = m, th_page_key = k,
           th_with_metadata = fld_val True wm, th_exclude_zero_value = fld_val True ez\<rparr>)))))"

fun intent_of_kind :: "libs \<Rightarrow> chain_table \<Rightarrow> read_kind \<Rightarrow> pydict \<Rightarrow> exn + parsed_intent" where
  "intent_of_kind L C NATIVE_BALANCE d = native_balance_of L d"
| "intent_of_kind L C ERC20_BALANCE d = erc20_balance_of L d"
| "intent_of_kind L C ERC20_ALLOWANCE d = erc20_allowance_of L d"
| "intent_of_kind L C ERC20_METADATA d = erc20_metadata_of L d"
| "intent_of_kind L C CONTRACT_READ d = contract_read_of L d"
| "intent_of_kind L C KNOWN_ADDRESS d = known_address_of d"
| "intent_of_kind L C TOKEN_PRICES d = token_prices_of L d"
| "intent_of_kind L C PORTFOLIO_TOKENS d = portfolio_tokens_of L C d"
| "intent_of_kind L C TRANSFER_HISTORY d = transfer_history_of L d"

section \<open>Parsing\<close>

definition unwrap_payload :: "pydict \<Rightarrow> pydict" where
  "unwrap_payload raw = (case dget_none raw ''intent'' of PDict d \<Rightarrow> d | _ \<Rightarrow> raw)"

text \<open>\<open>payload.get("kind", payload.get("type", payload.get("intent")))\<close>\<close>

definition raw_kind :: "pydict \<Rightarrow> pyval" where
  "raw_kind d = (case dget d ''kind'' of
       Some v \<Rightarrow> v
     | None \<Rightarrow> (case dget d ''type'' of Some v \<Rightarrow> v | None \<Rightarrow> dget_none d ''intent''))"

definition format_validation_error :: "libs \<Rightarrow> exn \<Rightarrow> string" where
  "format_validation_error L e = (case e of
       ValidationError m ((loc, c) # es) \<Rightarrow> ''Invalid read-only intent field '' @ quote_text loc @ '': '' @ validation_msg L c @ ''.''
     | _ \<Rightarrow> exn_text L e)"

definition parse_structured_intent :: "libs \<Rightarrow> chain_table \<Rightarrow> pydict \<Rightarrow> exn + parsed_intent" where
  "parse_structured_intent L C raw = (let payload = unwrap_payload raw in
     case raw_kind payload of
       PStr k \<Rightarrow> (case dget KIND_ALIASES (lower_strip k) of
           None \<Rightarrow> Inr (UnsupportedIntent (''Unsupported wallet intent: '' @ k @ ''.''))
         | Some kind \<Rightarrow> (case intent_of_kind L C kind payload of
               Inl e \<Rightarrow> Inl (Exn UnsupportedIntentError (format_validation_error L e))
             | Inr i \<Rightarrow> Inr i))
     | _ \<Rightarrow> Inr (UnsupportedIntent ''Structured intents must include a kind.''))"

definition VALUE_MOVING_WORDS :: "string list" where
  "VALUE_MOVING_WORDS = [''approve'', ''approval'', ''send'', ''transfer'', ''swap'', ''sign'', ''transaction'', ''tx'']"

definition parse_text_intent :: "string \<Rightarrow> parsed_intent" where
  "parse_text_intent text = (let lowered = py_lower text in
     if list_ex (\<lambda>w. py_contains w lowered) VALUE_MOVING_WORDS
     then UnsupportedIntent ''Value-moving wallet actions are not supported in this phase.''
     else UnsupportedIntent ''Use a structured read-only intent for wallet reads.'')"

definition coerce_raw_input :: "pyval \<Rightarrow> string list \<Rightarrow> pyval" where
  "coerce_raw_input raw messages = (if raw \<noteq> PNone then raw
     else if messages = [] then PNone else PStr (last messages))"

definition parse_readonly_intent :: "libs \<Rightarrow> chain_table \<Rightarrow> pyval \<Rightarrow> string list \<Rightarrow> exn + parsed_intent" where
  "parse_readonly_intent L C raw_input messages = (case coerce_raw_input raw_input messages of
       PDict d \<Rightarrow> parse_structured_intent L C d
     | PStr s \<Rightarrow> Inr (parse_text_intent s)
     | _ \<Rightarrow> Inr (UnsupportedIntent ''Provide a structured read-only wallet intent.''))"

end
