(* ===== verification/Alchemy_Clients.thy ===== *)
theory Alchemy_Clients
  imports Swap_Providers Read_Intents "HOL-Library.Product_Lexorder"
begin

text \<open>
  The Alchemy data clients: token prices (\<^verbatim>\<open>alchemy/prices.py\<close>), wallet portfolios
  (\<^verbatim>\<open>alchemy/portfolio.py\<close>) and transfer history (\<^verbatim>\<open>alchemy/transfers.py\<close>). The HTTP client, the secret
  store and the chain table are parameters. The error classes of the three clients are subclasses of
  \<open>ValueError\<close> that no code tells apart.
\<close>

section \<open>Shared parts\<close>

definition str_or_empty :: "pyval \<Rightarrow> string" where
  "str_or_empty v = (case v of PStr s \<Rightarrow> s | _ \<Rightarrow> [])"

definition only_str :: "pyval \<Rightarrow> pyval" where
  "only_str v = (case v of PStr s \<Rightarrow> PStr s | _ \<Rightarrow> PNone)"

definition only_list :: "pyval \<Rightarrow> pyval list" where
  "only_list v = (case v of PList vs \<Rightarrow> vs | _ \<Rightarrow> [])"

definition dict_rows :: "pyval list \<Rightarrow> pydict list" where
  "dict_rows vs = concat (map (\<lambda>v. case v of PDict d \<Rightarrow> [d] | _ \<Rightarrow> []) vs)"

definition stripped_text :: "pyval \<Rightarrow> string option" where
  "stripped_text v = (case v of PStr s \<Rightarrow> if py_strip s = [] then None else Some (py_strip s) | _ \<Rightarrow> None)"

text \<open>An address is shown in its checksum form when it has one, and as it came otherwise.\<close>

definition checksum_or :: "libs \<Rightarrow> string \<Rightarrow> string \<Rightarrow> string" where
  "checksum_or L raw dflt = (case normalize_evm_address L raw of Inr a \<Rightarrow> a | Inl _ \<Rightarrow> dflt)"

definition quote_row :: "libs \<Rightarrow> pydict \<Rightarrow> pyval" where
  "quote_row L p = PDict [(''currency'', PStr (py_str L (dget_none p ''currency''))),
     (''value'', dget_none p ''value''), (''lastUpdatedAt'', dget_none p ''lastUpdatedAt'')]"

definition quote_rows :: "libs \<Rightarrow> pyval \<Rightarrow> pyval" where
  "quote_rows L raw = PList (map (quote_row L) (dict_rows (only_list raw)))"

definition coerce_error :: "libs \<Rightarrow> pyval \<Rightarrow> pyval" where
  "coerce_error L err = (if err = PNone then PNone else PStr (py_str L err))"

text \<open>\<open>secret_store.get_secret(path).reveal().strip()\<close>, which must not be empty.\<close>

definition alchemy_api_key :: "(string \<Rightarrow> exn + secret_value) \<Rightarrow> string \<Rightarrow> exn + string" where
  "alchemy_api_key store path = rbind (store path) (\<lambda>s.
     if py_strip (sv_value s) = []
     then Inl (value_error (''Alchemy API key secret at path '' @ quote_text path @ '' is empty.''))
     else Inr (py_strip (sv_value s)))"

text \<open>\<open>hex(n)\<close> of a non-negative number.\<close>

fun nat_hex :: "nat \<Rightarrow> string" where
  "nat_hex n = (if n < 16 then [hex_digit n] else nat_hex (n div 16) @ [hex_digit (n mod 16)])"

declare nat_hex.simps [simp del]

definition py_hex :: "int \<Rightarrow> string" where
  "py_hex i = (if i < 0 then ''-0x'' @ nat_hex (nat (- i)) else ''0x'' @ nat_hex (nat i))"

section \<open>Token prices\<close>

definition validate_price_batch :: "(string \<times> string) list \<Rightarrow> exn + unit" where
  "validate_price_batch entries =
     (if 25 < length entries
      then Inl (value_error (''Alchemy token prices allow at most 25 address entries; got '' @ nat_text (length entries) @ ''.''))
      else rbind (rmap (\<lambda>(c, a). mercury_chain_to_alchemy_network c) entries) (\<lambda>networks.
        if 3 < card (set networks)
        then Inl (value_error (''Alchemy token prices allow at most 3 distinct networks per request; got '' @
          nat_text (card (set networks)) @ ''.''))
        else Inr ()))"

definition token_price_row :: "libs \<Rightarrow> (string \<times> string) list \<Rightarrow> pydict \<Rightarrow> pyval" where
  "token_price_row L chain_by_network row = (let network = str_or_empty (dget_none row ''network'');
       address = str_or_empty (dget_none row ''address'') in
     PDict [(''network'', PStr network),
       (''mercury_chain'', PStr (case dget chain_by_network network of Some c \<Rightarrow> c | None \<Rightarrow> [])),
       (''address'', PStr (if address = [] then address else checksum_or L address address)),
       (''prices'', quote_rows L (dget_none row ''prices'')),
       (''error'', coerce_error L (dget_none row ''error''))])"

definition normalize_token_price_rows :: "libs \<Rightarrow> pyval \<Rightarrow> (string \<times> string) list \<Rightarrow> pyval list" where
  "normalize_token_price_rows L raw chain_by_network =
     map (token_price_row L chain_by_network) (dict_rows (only_list raw))"

definition clean_price_entry :: "libs \<Rightarrow> string \<times> string \<Rightarrow> exn + (string \<times> string \<times> string)" where
  "clean_price_entry L e = (case e of (chain, addr) \<Rightarrow>
     rbind (normalize_evm_address L addr) (\<lambda>a.
     rbind (mercury_chain_to_alchemy_network (lower_strip chain)) (\<lambda>n. Inr (lower_strip chain, a, n))))"

definition fetch_prices_by_address ::
  "libs \<Rightarrow> (string \<Rightarrow> exn + secret_value) \<Rightarrow> string \<Rightarrow> json_http_client \<Rightarrow> (string \<times> string) list \<Rightarrow> exn + pydict" where
  "fetch_prices_by_address L store path http entries =
     rbind (rmap (clean_price_entry L) entries) (\<lambda>cleaned.
     rbind (validate_price_batch (map (\<lambda>(c, a, n). (c, a)) cleaned)) (\<lambda>_.
     rbind (alchemy_api_key store path) (\<lambda>key.
     let chain_by_network = map (\<lambda>(c, a, n). (n, c)) cleaned;
         body = map (\<lambda>(c, a, n). PDict [(''network'', PStr n), (''address'', PStr a)]) cleaned in
     rbind (jc_post http (''prices/v1/'' @ key @ ''/tokens/by-address'') [(''addresses'', PList body)] []) (\<lambda>response.
     Inr [(''tokens'', PList (normalize_token_price_rows L (dget_none response ''data'') chain_by_network))]))))"

section \<open>Portfolio\<close>

definition parse_token_balance_int :: "string \<Rightarrow> int option" where
  "parse_token_balance_int balance = (let s = py_strip balance in
     if s = [] then None
     else case (if prefix ''0x'' (py_lower s) then int_base16 s else int_of_text s) of
         Inl _ \<Rightarrow> None
       | Inr i \<Rightarrow> Some i)"

definition decimals_in_range :: "int \<Rightarrow> int option" where
  "decimals_in_range i = (if 0 \<le> i \<and> i \<le> 256 then Some i else None)"

definition coerce_meta_decimals :: "pyval \<Rightarrow> exn + int option" where
  "coerce_meta_decimals v = (case v of
       PInt i \<Rightarrow> Inr (decimals_in_range i)
     | PFloat q \<Rightarrow> Inr (if q = of_int \<lfloor>q\<rfloor> then decimals_in_range \<lfloor>q\<rfloor> else None)
     | PStr s \<Rightarrow> if py_isdigit (py_strip s) then rbind (int_of_text (py_strip s)) (\<lambda>i. Inr (decimals_in_range i)) else Inr None
     | _ \<Rightarrow> Inr None)"

definition resolved_decimals_for_display :: "pydict option \<Rightarrow> string option \<Rightarrow> exn + int option" where
  "resolved_decimals_for_display metadata token =
     rbind (case metadata of Some m \<Rightarrow> coerce_meta_decimals (dget_none m ''decimals'') | None \<Rightarrow> Inr None) (\<lambda>dec.
     Inr (if dec \<noteq> None then dec else if token = None then Some 18 else None))"

text \<open>
  \<open>Decimal(10) ** n\<close> in the default context: exact, padded with zeros to the precision at most.
\<close>

definition context_pow10 :: "nat \<Rightarrow> dec" where
  "context_pow10 n = (if n < DEFAULT_PREC then (False, 10 ^ n, 0)
     else (False, 10 ^ (DEFAULT_PREC - 1), int (n - (DEFAULT_PREC - 1))))"

definition rstrip_char :: "char \<Rightarrow> string \<Rightarrow> string" where
  "rstrip_char c s = rev (dropWhile (\<lambda>d. d = c) (rev s))"

definition trim_fraction :: "string \<Rightarrow> string" where
  "trim_fraction s = (let t = (if CHR ''.'' \<in> set s then rstrip_char (CHR ''.'') (rstrip_char (CHR ''0'') s) else s) in
     py_or t ''0'')"

definition format_units_to_display :: "int \<Rightarrow> int \<Rightarrow> exn + string" where
  "format_units_to_display raw decimals =
     (if decimals < 0 \<or> 256 < decimals then py_str_int raw
      else rbind (dec_div DEFAULT_PREC (raw < 0, nat \<bar>raw\<bar>, 0) (context_pow10 (nat decimals))) (\<lambda>(neg, c, e).
        Inr (if c = 0 then ''0'' else trim_fraction (dec_format_f (neg, c, e)))))"

definition compute_portfolio_balance_display :: "string \<Rightarrow> string option \<Rightarrow> pydict option \<Rightarrow> exn + string" where
  "compute_portfolio_balance_display balance token metadata = (case parse_token_balance_int balance of
       None \<Rightarrow> Inr balance
     | Some parsed \<Rightarrow> rbind (resolved_decimals_for_display metadata token) (\<lambda>dec. case dec of
           None \<Rightarrow> rbind (py_str_int parsed) (\<lambda>t. Inr (t @ '' (raw base units)''))
         | Some d \<Rightarrow> format_units_to_display parsed d))"

definition token_metadata :: "pyval \<Rightarrow> pydict option" where
  "token_metadata v = (case v of
       PDict m \<Rightarrow> Some [
         (''decimals'', (case as_int (dget_none m ''decimals'') of Some i \<Rightarrow> PInt i | None \<Rightarrow> dget_none m ''decimals'')),
         (''logo'', only_str (dget_none m ''logo'')), (''name'', only_str (dget_none m ''name'')),
         (''symbol'', only_str (dget_none m ''symbol''))]
     | _ \<Rightarrow> None)"

definition opt_checksum :: "libs \<Rightarrow> pyval \<Rightarrow> string option" where
  "opt_checksum L v = (case v of
       PStr s \<Rightarrow> if py_strip s = [] then None else Some (checksum_or L s (py_strip s))
     | _ \<Rightarrow> None)"

definition balance_text :: "libs \<Rightarrow> pyval \<Rightarrow> string" where
  "balance_text L v = (if v = PNone then [] else py_str L v)"

definition chain_of_network :: "string \<Rightarrow> string" where
  "chain_of_network network = (if network = [] then []
     else case alchemy_network_to_mercury_chain network of Inr c \<Rightarrow> c | Inl _ \<Rightarrow> [])"

definition portfolio_row :: "libs \<Rightarrow> string \<Rightarrow> pydict \<Rightarrow> exn + pyval" where
  "portfolio_row L wallet row = (let network = str_or_empty (dget_none row ''network'');
       token = opt_checksum L (dget_none row ''tokenAddress'');
       balance = balance_text L (dget_none row ''tokenBalance'');
       meta = token_metadata (dget_none row ''tokenMetadata'') in
     rbind (compute_portfolio_balance_display balance token meta) (\<lambda>display.
     Inr (PDict [
       (''wallet_address'', PStr (case opt_checksum L (dget_none row ''address'') of Some a \<Rightarrow> a | None \<Rightarrow> wallet)),
       (''network'', PStr network), (''mercury_chain'', PStr (chain_of_network network)),
       (''token_address'', opt_val PStr token), (''balance'', PStr balance), (''balance_display'', PStr display),
       (''metadata'', opt_val PDict meta), (''prices'', quote_rows L (dget_none row ''tokenPrices'')),
       (''error'', coerce_error L (dget_none row ''error''))])))"

definition normalize_portfolio_token_rows :: "libs \<Rightarrow> pyval list \<Rightarrow> string \<Rightarrow> exn + pyval list" where
  "normalize_portfolio_token_rows L raw wallet = rmap (portfolio_row L wallet) (dict_rows raw)"

text \<open>The loop over the requested chains keeps the first occurrence of each name with its network.\<close>

fun portfolio_networks :: "chain_table \<Rightarrow> string list \<Rightarrow> (string \<times> string) list \<Rightarrow> exn + (string \<times> string) list" where
  "portfolio_networks C [] acc = Inr acc"
| "portfolio_networks C (c # cs) acc = (let name = lower_strip c in
     if name = [] \<or> name \<in> fst ` set acc then portfolio_networks C cs acc
     else case get_chain_by_name C name of
         Inl _ \<Rightarrow> Inl (value_error (''Unsupported Mercury chain '' @ quote_text c @ '' for portfolio lookup.''))
       | Inr _ \<Rightarrow> (case mercury_chain_to_alchemy_network name of
             Inl (Exn _ t) \<Rightarrow> Inl (value_error t)
           | Inl e \<Rightarrow> Inl e
           | Inr n \<Rightarrow> portfolio_networks C cs (acc @ [(name, n)])))"

definition too_many_networks :: "nat \<Rightarrow> exn" where
  "too_many_networks n = value_error (''Alchemy portfolio allows at most 5 networks per wallet; got '' @ nat_text n @ ''.'')"

definition validate_network_list :: "(string \<times> string) list \<Rightarrow> exn + unit" where
  "validate_network_list ns = (if 5 < length ns then Inl (too_many_networks (length ns))
     else guard_else (ns \<noteq> []) (value_error ''Portfolio request requires at least one network.''))"

record portfolio_request =
  pr_wallet_address :: string
  pr_chains :: "string list"
  pr_with_metadata :: bool
  pr_with_prices :: bool
  pr_include_native_tokens :: bool
  pr_include_erc20_tokens :: bool
  pr_page_key :: "string option"

definition page_key_entry :: "string option \<Rightarrow> pydict" where
  "page_key_entry k = (case k of
       Some s \<Rightarrow> if py_strip s = [] then [] else [(''pageKey'', PStr (py_strip s))]
     | None \<Rightarrow> [])"

definition portfolio_body :: "portfolio_request \<Rightarrow> string \<Rightarrow> string list \<Rightarrow> pydict" where
  "portfolio_body r wallet networks =
     [(''addresses'', PList [PDict [(''address'', PStr wallet), (''networks'', PList (map PStr networks))]]),
      (''withMetadata'', PBool (pr_with_metadata r)), (''withPrices'', PBool (pr_with_prices r)),
      (''includeNativeTokens'', PBool (pr_include_native_tokens r)),
      (''includeErc20Tokens'', PBool (pr_include_erc20_tokens r))] @ page_key_entry (pr_page_key r)"

definition fetch_tokens_for_wallet ::
  "libs \<Rightarrow> chain_table \<Rightarrow> (string \<Rightarrow> exn + secret_value) \<Rightarrow> string \<Rightarrow> json_http_client \<Rightarrow> portfolio_request \<Rightarrow> exn + pydict" where
  "fetch_tokens_for_wallet L C store path http r =
     (if 5 < length (pr_chains r) then Inl (too_many_networks (length (pr_chains r)))
      else rbind (normalize_evm_address L (pr_wallet_address r)) (\<lambda>wallet.
        rbind (portfolio_networks C (pr_chains r) []) (\<lambda>ns.
        rbind (validate_network_list ns) (\<lambda>_.
        rbind (alchemy_api_key store path) (\<lambda>key.
        rbind (jc_post http (''data/v1/'' @ key @ ''/assets/tokens/by-address'') (portfolio_body r wallet (map snd ns)) []) (\<lambda>response.
        let data = (case dget_none response ''data'' of PDict d \<Rightarrow> d | _ \<Rightarrow> []) in
        rbind (normalize_portfolio_token_rows L (only_list (dget_none data ''tokens'')) wallet) (\<lambda>tokens.
        Inr [(''wallet_address'', PStr wallet), (''tokens'', PList tokens),
             (''page_key'', opt_val PStr (stripped_text (dget_none data ''pageKey'')))])))))))"

section \<open>Transfer history\<close>

definition normalize_block_param :: "block_ref option \<Rightarrow> exn + string option" where
  "normalize_block_param block = (case block of
       None \<Rightarrow> Inr None
     | Some (BlockInt i) \<Rightarrow> if i < 0
         then Inl (value_error ''from_block/to_block must be non-negative when passed as integers.'')
         else Inr (Some (py_hex i))
     | Some (BlockText t) \<Rightarrow> (let segment = py_strip t in
         if segment = [] then Inr None
         else if py_lower segment = ''latest'' then Inr (Some ''latest'')
         else if prefix ''0x'' (py_lower segment) then Inr (Some segment)
         else if py_isdecimal segment then rbind (int_of_text segment) (\<lambda>i. Inr (Some (py_hex i)))
         else Inl (value_error (''Invalid block reference '' @ repr_str segment @
           ''; use int, hex string, decimal string, or '' @ quote_text ''latest'' @ ''.''))))"

record transfer_request =
  tq_chain :: string
  tq_wallet_address :: string
  tq_direction :: string
  tq_categories :: "string list"
  tq_from_block :: "block_ref option"
  tq_to_block :: "block_ref option"
  tq_max_count :: int
  tq_page_key :: "string option"
  tq_with_metadata :: bool
  tq_exclude_zero_value :: bool

definition opt_entry :: "string \<Rightarrow> string option \<Rightarrow> pydict" where
  "opt_entry k v = (case v of Some s \<Rightarrow> [(k, PStr s)] | None \<Rightarrow> [])"

definition build_asset_transfer_params ::
  "libs \<Rightarrow> string \<Rightarrow> bool \<Rightarrow> transfer_request \<Rightarrow> string option \<Rightarrow> exn + pydict" where
  "build_asset_transfer_params L wallet_address incoming r page_key =
     rbind (normalize_evm_address L wallet_address) (\<lambda>wallet.
     rbind (normalize_block_param (tq_from_block r)) (\<lambda>fb.
     rbind (normalize_block_param (tq_to_block r)) (\<lambda>tb.
     Inr ([(if incoming then ''toAddress'' else ''fromAddress'', PStr wallet)]
       @ opt_entry ''fromBlock'' fb @ opt_entry ''toBlock'' tb
       @ [(''category'', PList (map PStr (tq_categories r))), (''order'', PStr ''desc''),
          (''maxCount'', PStr (py_hex (tq_max_count r))), (''withMetadata'', PBool (tq_with_metadata r)),
          (''excludeZeroValue'', PBool (tq_exclude_zero_value r))] @ page_key_entry page_key))))"

record asset_transfer =
  at_hash :: string
  at_block_num :: pyval
  at_from :: "string option"
  at_to :: "string option"
  at_category :: string
  at_asset :: pyval
  at_value :: pyval
  at_raw_contract :: pyval
  at_metadata :: pyval
  at_network :: string
  at_mercury_chain :: string

definition asset_transfer_json :: "asset_transfer \<Rightarrow> pydict" where
  "asset_transfer_json r = [(''hash'', PStr (at_hash r)), (''block_num'', at_block_num r),
     (''from_address'', opt_val PStr (at_from r)), (''to_address'', opt_val PStr (at_to r)),
     (''category'', PStr (at_category r)), (''asset'', at_asset r), (''value'', at_value r),
     (''raw_contract'', at_raw_contract r), (''metadata'', at_metadata r), (''network'', PStr (at_network r)),
     (''mercury_chain'', PStr (at_mercury_chain r))]"

definition block_number :: "libs \<Rightarrow> pyval \<Rightarrow> pyval" where
  "block_number L v = (case v of
       PStr s \<Rightarrow> if prefix ''0x'' s then (case int_base16 (py_strip s) of Inr i \<Rightarrow> PInt i | Inl _ \<Rightarrow> PStr s) else PStr s
     | PInt i \<Rightarrow> PInt i
     | PBool b \<Rightarrow> PBool b
     | PNone \<Rightarrow> PNone
     | _ \<Rightarrow> PStr (py_str L v))"

definition as_dict_under :: "string \<Rightarrow> pyval \<Rightarrow> pyval" where
  "as_dict_under k v = (case v of PNone \<Rightarrow> PNone | PDict d \<Rightarrow> PDict d | _ \<Rightarrow> PDict [(k, v)])"

definition asset_transfer_of :: "libs \<Rightarrow> string \<Rightarrow> pydict \<Rightarrow> asset_transfer" where
  "asset_transfer_of L network row = \<lparr>at_hash = str_or_empty (dget_none row ''hash''),
     at_block_num = block_number L (dget_none row ''blockNum''),
     at_from = opt_checksum L (dget_none row ''from''), at_to = opt_checksum L (dget_none row ''to''),
     at_category = str_or_empty (dget_none row ''category''), at_asset = dget_none row ''asset'',
     at_value = dget_none row ''value'', at_raw_contract = as_dict_under ''value'' (dget_none row ''rawContract''),
     at_metadata = as_dict_under ''raw'' (dget_none row ''metadata''), at_network = network,
     at_mercury_chain = chain_of_network network\<rparr>"

definition normalize_asset_transfer_rows :: "libs \<Rightarrow> pyval list \<Rightarrow> string \<Rightarrow> asset_transfer list" where
  "normalize_asset_transfer_rows L raw network = map (asset_transfer_of L network) (dict_rows raw)"

text \<open>The first row of each hash is kept; rows without a hash are all kept.\<close>

fun unique_by_hash :: "string set \<Rightarrow> asset_transfer list \<Rightarrow> asset_transfer list" where
  "unique_by_hash seen [] = []"
| "unique_by_hash seen (r # rs) = (if at_hash r = [] then r # unique_by_hash seen rs
     else if at_hash r \<in> seen then unique_by_hash seen rs
     else r # unique_by_hash (insert (at_hash r) seen) rs)"

definition block_or_zero :: "asset_transfer \<Rightarrow> int" where
  "block_or_zero r = (case as_int (at_block_num r) of Some i \<Rightarrow> i | None \<Rightarrow> 0)"

definition transfer_sort_key :: "asset_transfer \<Rightarrow> int \<times> string" where
  "transfer_sort_key r = (- block_or_zero r, at_hash r)"

text \<open>\<open>rows[:n]\<close>\<close>

definition py_take :: "int \<Rightarrow> 'a list \<Rightarrow> 'a list" where
  "py_take n xs = take (nat (if n < 0 then int (length xs) + n else n)) xs"

definition merge_and_sort_transfers :: "asset_transfer list \<Rightarrow> int \<Rightarrow> asset_transfer list" where
  "merge_and_sort_transfers rows max_count = py_take max_count (sort_key transfer_sort_key (unique_by_hash {} rows))"

definition rpc_request_body :: "pydict \<Rightarrow> pydict" where
  "rpc_request_body params = [(''jsonrpc'', PStr ''2.0''), (''id'', PInt 1),
     (''method'', PStr ''alchemy_getAssetTransfers''), (''params'', PList [PDict params])]"

definition parse_rpc_result :: "libs \<Rightarrow> pydict \<Rightarrow> exn + pyval list \<times> string option" where
  "parse_rpc_result L raw = (case dget_none raw ''error'' of
       PDict err \<Rightarrow> Inl (value_error (if dget_none err ''message'' \<noteq> PNone then py_str L (dget_none err ''message'')
         else py_str L (PDict err)))
     | _ \<Rightarrow> (case dget_none raw ''result'' of
           PDict result \<Rightarrow> Inr (only_list (dget_none result ''transfers''), stripped_text (dget_none result ''pageKey''))
         | _ \<Rightarrow> Inl (value_error ''Alchemy transfer history response missing result object.'')))"

definition transfers_answer :: "string \<Rightarrow> string \<Rightarrow> string \<Rightarrow> asset_transfer list \<Rightarrow> string option \<Rightarrow> pydict" where
  "transfers_answer wallet name network rows page_key =
     [(''wallet_address'', PStr wallet), (''mercury_chain'', PStr name), (''network'', PStr network),
      (''transfers'', PList (map (PDict \<circ> asset_transfer_json) rows)), (''page_key'', opt_val PStr page_key)]"

definition transfer_network :: "chain_table \<Rightarrow> string \<Rightarrow> exn + string" where
  "transfer_network C chain = (case get_chain_by_name C (lower_strip chain) of
       Inl _ \<Rightarrow> Inl (value_error (''Unsupported Mercury chain '' @ quote_text chain @ '' for transfer history.''))
     | Inr _ \<Rightarrow> (case mercury_chain_to_alchemy_network (lower_strip chain) of
           Inl (Exn _ t) \<Rightarrow> Inl (value_error t)
         | r \<Rightarrow> r))"

text \<open>Both legs are requested before either answer is read.\<close>

definition fetch_both_legs ::
  "libs \<Rightarrow> json_http_client \<Rightarrow> string \<Rightarrow> string \<Rightarrow> string \<Rightarrow> transfer_request \<Rightarrow> exn + asset_transfer list" where
  "fetch_both_legs L http key network wallet r =
     rbind (build_asset_transfer_params L wallet False r None) (\<lambda>outgoing.
     rbind (build_asset_transfer_params L wallet True r None) (\<lambda>incoming.
     rbind (jc_post http key (rpc_request_body outgoing) []) (\<lambda>raw_a.
     rbind (jc_post http key (rpc_request_body incoming) []) (\<lambda>raw_b.
     rbind (parse_rpc_result L raw_a) (\<lambda>(rows_a, _).
     rbind (parse_rpc_result L raw_b) (\<lambda>(rows_b, _).
     Inr (merge_and_sort_transfers (normalize_asset_transfer_rows L rows_a network @
       normalize_asset_transfer_rows L rows_b network) (tq_max_count r))))))))"

definition fetch_one_leg ::
  "libs \<Rightarrow> json_http_client \<Rightarrow> string \<Rightarrow> string \<Rightarrow> string \<Rightarrow> bool \<Rightarrow> transfer_request \<Rightarrow> exn + (asset_transfer list \<times> string option)" where
  "fetch_one_leg L http key network wallet incoming r =
     rbind (build_asset_transfer_params L wallet incoming r (tq_page_key r)) (\<lambda>params.
     rbind (jc_post http key (rpc_request_body params) []) (\<lambda>raw.
     rbind (parse_rpc_result L raw) (\<lambda>(rows, page_out).
     Inr (normalize_asset_transfer_rows L rows network, page_out))))"

text \<open>\<open>http\<close> gives the client for the base URL of the network.\<close>

definition fetch_transfers_for_wallet ::
  "libs \<Rightarrow> chain_table \<Rightarrow> (string \<Rightarrow> exn + secret_value) \<Rightarrow> string \<Rightarrow> (string \<Rightarrow> json_http_client) \<Rightarrow> transfer_request
     \<Rightarrow> exn + pydict" where
  "fetch_transfers_for_wallet L C store path http r =
     rbind (transfer_network C (tq_chain r)) (\<lambda>network.
     rbind (normalize_evm_address L (tq_wallet_address r)) (\<lambda>wallet.
     rbind (alchemy_api_key store path) (\<lambda>key.
     let name = lower_strip (tq_chain r); dir = lower_strip (tq_direction r);
         client = http (''https://'' @ network @ ''.g.alchemy.com/v2'') in
     if dir = ''both'' then rbind (fetch_both_legs L client key network wallet r) (\<lambda>rows.
       Inr (transfers_answer wallet name network rows None))
     else if dir \<notin> {''incoming'', ''outgoing''}
     then Inl (value_error (''direction must be incoming, outgoing, or both; got '' @ repr_str (tq_direction r) @ ''.''))
     else rbind (fetch_one_leg L client key network wallet (dir = ''incoming'') r) (\<lambda>(rows, page_out).
       Inr (transfers_answer wallet name network rows page_out)))))"

end
