(* ===== verification/Tool_Registry.thy ===== *)
theory Tool_Registry
  imports Alchemy_Clients Read_Tools
begin

text \<open>
  The read-only tools as the graph calls them: the validated inputs (\<^verbatim>\<open>tools/schemas.py\<close>), the wrappers
  that turn a result into a dictionary (\<^verbatim>\<open>tools/evm.py\<close>, \<^verbatim>\<open>tools/erc20.py\<close>, \<^verbatim>\<open>tools/known_address_tools.py\<close>,
  \<^verbatim>\<open>tools/token_prices.py\<close>, \<^verbatim>\<open>tools/portfolio_tokens.py\<close>, \<^verbatim>\<open>tools/transfer_history.py\<close>) and the registry
  (\<^verbatim>\<open>tools/registry.py\<close>). A tool validates its input dictionary first; the schema of a tool that names
  none is the one its signature gives. The value of a contract call may be bytes, so the values of a result
  are those of a call.
\<close>

type_synonym read_tool = "pydict \<Rightarrow> exn + tool_result"

definition plain_result :: "pydict \<Rightarrow> tool_result" where
  "plain_result d = map (\<lambda>(k, v). (k, CallVal v)) d"

section \<open>Tools over a provider\<close>

definition rd_chain_name :: "pydict \<Rightarrow> string field" where
  "rd_chain_name d = rbind (rd_str1 d ''chain'') (\<lambda>s. Inr (lower_strip s))"

definition native_balance_dump :: "native_balance_output \<Rightarrow> pydict" where
  "native_balance_dump r = [(''chain'', PStr (nb_chain r)), (''chain_id'', PInt (nb_chain_id r)),
     (''wallet_address'', PStr (nb_wallet_address r)), (''raw_wei'', PInt (nb_raw_wei r)),
     (''formatted'', PStr (nb_formatted r)), (''symbol'', PStr (nb_symbol r))]"

definition native_balance_input :: "libs \<Rightarrow> pydict \<Rightarrow> exn + (string \<times> string)" where
  "native_balance_input L d = (let c = rd_chain_name d; w = rd_addr L d ''wallet_address'' in
     finish ''NativeBalanceInput'' (fld_errs c @ fld_errs w) (sval c, sval w))"

definition native_balance_tool :: "libs \<Rightarrow> read_factory \<Rightarrow> read_tool" where
  "native_balance_tool L F d = rbind (native_balance_input L d) (\<lambda>(c, w).
     rbind (get_native_balance L F c w) (\<lambda>r. Inr (plain_result (native_balance_dump r))))"

definition contract_read_dump :: "contract_read_output \<Rightarrow> tool_result" where
  "contract_read_dump r = [(''chain'', CallVal (PStr (cr_chain r))), (''chain_id'', CallVal (PInt (cr_chain_id r))),
     (''contract_address'', CallVal (PStr (cr_contract_address r))),
     (''function_name'', CallVal (PStr (cr_function_name r))), (''result'', cr_result r)]"

definition contract_read_input :: "libs \<Rightarrow> pydict \<Rightarrow> exn + (string \<times> string \<times> pydict list \<times> string \<times> pyval list)" where
  "contract_read_input L d = (let c = rd_chain_name d; a = rd_addr L d ''contract_address'';
       abi = rbind (rd_list item_dict d ''abi_fragment'' None) (min_items ''abi_fragment'');
       f = rd_str1 d ''function_name''; args = rd_list (\<lambda>loc v. Inr v) d ''args'' (Some []) in
     finish ''ContractReadInput'' (fld_errs c @ fld_errs a @ fld_errs abi @ fld_errs f @ fld_errs args)
       (sval c, sval a, fld_val [] abi, sval f, fld_val [] args))"

definition contract_read_tool :: "libs \<Rightarrow> read_factory \<Rightarrow> read_tool" where
  "contract_read_tool L F d = rbind (contract_read_input L d) (\<lambda>(c, a, abi, f, args).
     rbind (read_contract L F c a (AbiList abi) f args) (\<lambda>r. Inr (contract_read_dump r)))"

definition erc20_metadata_dump :: "erc20_metadata_output \<Rightarrow> pydict" where
  "erc20_metadata_dump r = [(''chain'', PStr (md_chain r)), (''chain_id'', PInt (md_chain_id r)),
     (''token_address'', PStr (md_token_address r)), (''decimals'', PInt (md_decimals r)),
     (''symbol'', opt_val PStr (md_symbol r)), (''name'', opt_val PStr (md_name r))]"

definition erc20_metadata_input :: "libs \<Rightarrow> pydict \<Rightarrow> exn + (string \<times> string)" where
  "erc20_metadata_input L d = (let c = rd_chain_name d; t = rd_addr L d ''token_address'' in
     finish ''ERC20MetadataInput'' (fld_errs c @ fld_errs t) (sval c, sval t))"

definition erc20_metadata_tool :: "libs \<Rightarrow> read_factory \<Rightarrow> read_tool" where
  "erc20_metadata_tool L F d = rbind (erc20_metadata_input L d) (\<lambda>(c, t).
     rbind (get_erc20_metadata L F c t) (\<lambda>r. Inr (plain_result (erc20_metadata_dump r))))"

definition erc20_balance_dump :: "erc20_balance_output \<Rightarrow> pydict" where
  "erc20_balance_dump r = [(''chain'', PStr (bal_chain r)), (''chain_id'', PInt (bal_chain_id r)),
     (''token_address'', PStr (bal_token_address r)), (''wallet_address'', PStr (bal_wallet_address r)),
     (''raw_amount'', PInt (bal_raw_amount r)), (''formatted'', PStr (bal_formatted r)),
     (''decimals'', PInt (bal_decimals r)), (''symbol'', opt_val PStr (bal_symbol r)), (''name'', opt_val PStr (bal_name r))]"

definition erc20_balance_input :: "libs \<Rightarrow> pydict \<Rightarrow> exn + (string \<times> string \<times> string)" where
  "erc20_balance_input L d = (let c = rd_chain_name d; t = rd_addr L d ''token_address''; w = rd_addr L d ''wallet_address'' in
     finish ''ERC20BalanceInput'' (fld_errs c @ fld_errs t @ fld_errs w) (sval c, sval t, sval w))"

definition erc20_balance_tool :: "libs \<Rightarrow> read_factory \<Rightarrow> read_tool" where
  "erc20_balance_tool L F d = rbind (erc20_balance_input L d) (\<lambda>(c, t, w).
     rbind (get_erc20_balance L F c t w) (\<lambda>r. Inr (plain_result (erc20_balance_dump r))))"

definition erc20_allowance_dump :: "erc20_allowance_output \<Rightarrow> pydict" where
  "erc20_allowance_dump r = [(''chain'', PStr (alw_chain r)), (''chain_id'', PInt (alw_chain_id r)),
     (''token_address'', PStr (alw_token_address r)), (''owner_address'', PStr (alw_owner_address r)),
     (''spender_address'', PStr (alw_spender_address r)), (''raw_amount'', PInt (alw_raw_amount r)),
     (''formatted'', PStr (alw_formatted r)), (''decimals'', PInt (alw_decimals r)),
     (''symbol'', opt_val PStr (alw_symbol r)), (''name'', opt_val PStr (alw_name r))]"

definition erc20_allowance_input :: "libs \<Rightarrow> pydict \<Rightarrow> exn + (string \<times> string \<times> string \<times> string)" where
  "erc20_allowance_input L d = (let c = rd_chain_name d; t = rd_addr L d ''token_address'';
       ow = rd_addr L d ''owner_address''; sp = rd_addr L d ''spender_address'' in
     finish ''ERC20AllowanceInput'' (fld_errs c @ fld_errs t @ fld_errs ow @ fld_errs sp) (sval c, sval t, sval ow, sval sp))"

definition erc20_allowance_tool :: "libs \<Rightarrow> read_factory \<Rightarrow> read_tool" where
  "erc20_allowance_tool L F d = rbind (erc20_allowance_input L d) (\<lambda>(c, t, ow, sp).
     rbind (get_erc20_allowance L F c t ow sp) (\<lambda>r. Inr (plain_result (erc20_allowance_dump r))))"

section \<open>Known addresses\<close>

definition resolve_known_address :: "libs \<Rightarrow> pydict \<Rightarrow> string \<Rightarrow> known_category \<Rightarrow> string \<Rightarrow> exn + pydict" where
  "resolve_known_address L doc chain category key =
     rbind (resolve_chain_catalog_ref doc chain) (\<lambda>(name, cid).
     rbind (lookup_address L doc chain category key) (\<lambda>address.
     rbind (int_of_text cid) (\<lambda>chain_id.
     Inr [(''chain'', PStr name), (''chain_id'', PInt chain_id), (''category'', PStr (category_value category)),
          (''key'', PStr (py_strip key)), (''address'', PStr address)])))"

definition known_address_tool :: "libs \<Rightarrow> pydict \<Rightarrow> read_tool" where
  "known_address_tool L doc d = (let c = rd_str d ''chain''; cat = rd_category d; k = rd_str d ''key'' in
     rbind (finish ''resolve_known_address'' (fld_errs c @ fld_errs cat @ fld_errs k) ()) (\<lambda>_.
     rbind (resolve_known_address L doc (sval c) (fld_val CatToken cat) (sval k)) (\<lambda>r. Inr (plain_result r))))"

section \<open>Alchemy tools\<close>

record alchemy_deps =
  ad_secret_store :: "string \<Rightarrow> exn + secret_value"
  ad_api_key_secret_path :: string
  ad_http :: "string \<Rightarrow> json_http_client"

definition ALCHEMY_BASE_URL :: string where
  "ALCHEMY_BASE_URL = ''https://api.g.alchemy.com''"

definition price_batch_limits :: "(string \<times> string) list \<Rightarrow> (string \<times> string) list field" where
  "price_batch_limits es = (if es = [] then Inl [(''tokens'', MinItems 1)]
     else if 25 < length es then field_value_error ''tokens'' ''token_prices supports at most 25 token entries per request.''
     else if 3 < card (fst ` set es) then field_value_error ''tokens'' ''token_prices supports at most 3 distinct chains per request.''
     else Inr es)"

definition token_prices_input :: "libs \<Rightarrow> pydict \<Rightarrow> exn + (string \<times> string) list" where
  "token_prices_input L d = (let ts = rbind (rd_list (item_price_entry L) d ''tokens'' None) price_batch_limits in
     finish ''TokenPricesToolInput'' (fld_errs ts) (fld_val [] ts))"

definition get_token_prices :: "libs \<Rightarrow> alchemy_deps \<Rightarrow> pydict list \<Rightarrow> exn + pydict" where
  "get_token_prices L deps tokens = rbind (token_prices_input L [(''tokens'', PList (map PDict tokens))])
     (fetch_prices_by_address L (ad_secret_store deps) (ad_api_key_secret_path deps) (ad_http deps ALCHEMY_BASE_URL))"

definition token_prices_tool :: "libs \<Rightarrow> alchemy_deps \<Rightarrow> read_tool" where
  "token_prices_tool L deps d = (let ts = rd_list item_dict d ''tokens'' None in
     rbind (finish ''get_token_prices'' (fld_errs ts) (fld_val [] ts)) (\<lambda>tokens.
     rbind (get_token_prices L deps tokens) (\<lambda>r. Inr (plain_result r))))"

definition normalize_chain_list :: "string list \<Rightarrow> string list field" where
  "normalize_chain_list raw = (let out = distinct_names raw in
     if out = [] then field_value_error ''chains'' ''chains must include at least one non-empty chain name.''
     else if 5 < length out
     then field_value_error ''chains'' ''portfolio_tokens supports at most 5 distinct chains per request.''
     else Inr out)"

definition chain_list_bounds :: "string list \<Rightarrow> string list field" where
  "chain_list_bounds cs = (if cs = [] then Inl [(''chains'', MinItems 1)]
     else if 5 < length cs then Inl [(''chains'', MaxItems 5)] else Inr cs)"

definition portfolio_tokens_input :: "libs \<Rightarrow> pydict \<Rightarrow> exn + portfolio_request" where
  "portfolio_tokens_input L d = (let w = rd_addr L d ''wallet_address'';
       cs = rbind (rbind (rd_list item_str d ''chains'' None) chain_list_bounds) normalize_chain_list;
       wm = rd_bool L d ''with_metadata'' True; wp = rd_bool L d ''with_prices'' True;
       nt = rd_bool L d ''include_native_tokens'' True; et = rd_bool L d ''include_erc20_tokens'' True;
       pk = rd_page_key d in
     finish ''PortfolioTokensToolInput''
       (fld_errs w @ fld_errs cs @ fld_errs wm @ fld_errs wp @ fld_errs nt @ fld_errs et @ fld_errs pk)
       \<lparr>pr_wallet_address = sval w, pr_chains = fld_val [] cs, pr_with_metadata = fld_val True wm,
        pr_with_prices = fld_val True wp, pr_include_native_tokens = fld_val True nt,
        pr_include_erc20_tokens = fld_val True et, pr_page_key = oval pk\<rparr>)"

definition get_portfolio_tokens :: "libs \<Rightarrow> chain_table \<Rightarrow> alchemy_deps \<Rightarrow> pydict \<Rightarrow> exn + pydict" where
  "get_portfolio_tokens L C deps d = rbind (portfolio_tokens_input L d)
     (fetch_tokens_for_wallet L C (ad_secret_store deps) (ad_api_key_secret_path deps) (ad_http deps ALCHEMY_BASE_URL))"

definition portfolio_tokens_args :: "libs \<Rightarrow> pydict \<Rightarrow> exn + pydict" where
  "portfolio_tokens_args L d = (let w = rd_str d ''wallet_address''; cs = rd_list item_str d ''chains'' None;
       wm = rd_bool L d ''with_metadata'' True; wp = rd_bool L d ''with_prices'' True;
       nt = rd_bool L d ''include_native_tokens'' True; et = rd_bool L d ''include_erc20_tokens'' True;
       pk = rd_opt_str d ''page_key'' in
     finish ''get_portfolio_tokens''
       (fld_errs w @ fld_errs cs @ fld_errs wm @ fld_errs wp @ fld_errs nt @ fld_errs et @ fld_errs pk)
       [(''wallet_address'', PStr (sval w)), (''chains'', PList (map PStr (fld_val [] cs))),
        (''with_metadata'', PBool (fld_val True wm)), (''with_prices'', PBool (fld_val True wp)),
        (''include_native_tokens'', PBool (fld_val True nt)), (''include_erc20_tokens'', PBool (fld_val True et)),
        (''page_key'', opt_val PStr (oval pk))])"

definition portfolio_tokens_tool :: "libs \<Rightarrow> chain_table \<Rightarrow> alchemy_deps \<Rightarrow> read_tool" where
  "portfolio_tokens_tool L C deps d = rbind (portfolio_tokens_args L d) (\<lambda>args.
     rbind (get_portfolio_tokens L C deps args) (\<lambda>r. Inr (plain_result r)))"

definition rd_max_count :: "libs \<Rightarrow> pydict \<Rightarrow> int field" where
  "rd_max_count L d = (case dget d ''max_count'' of
       None \<Rightarrow> Inr 100
     | Some v \<Rightarrow> (case lax_int L v of
           None \<Rightarrow> Inl [(''max_count'', WrongType ''integer'')]
         | Some i \<Rightarrow> Inr i))"

definition max_count_bounds :: "int \<Rightarrow> int field" where
  "max_count_bounds i = (if i < 1 then Inl [(''max_count'', GreaterEqual 1)]
     else if 1000 < i then Inl [(''max_count'', LessEqual 1000)] else Inr i)"

definition required_chain :: "pydict \<Rightarrow> string field" where
  "required_chain d = rbind (rd_str1 d ''chain'') (\<lambda>s. if lower_strip s = [] then field_value_error ''chain'' ''chain must not be empty.''
     else Inr (lower_strip s))"

definition normalize_transfer_input :: "transfer_request \<Rightarrow> string list option \<Rightarrow> string + transfer_request" where
  "normalize_transfer_input r cats = (case direction_of (tq_direction r) of
       None \<Rightarrow> Inl ''direction must be incoming, outgoing, or both.''
     | Some dir \<Rightarrow> rbind (transfer_categories cats) (\<lambda>resolved.
         Inr (r\<lparr>tq_direction := direction_value dir, tq_categories := resolved,
                tq_page_key := if dir = BOTH then None else tq_page_key r\<rparr>)))"

definition transfer_history_input :: "libs \<Rightarrow> pydict \<Rightarrow> exn + transfer_request" where
  "transfer_history_input L d = (let c = required_chain d; w = rd_addr L d ''wallet_address'';
       dir = rd_str_default d ''direction'' ''both''; cats = rd_opt_list item_str d ''categories'';
       fb = rd_block L d ''from_block''; tb = rd_block L d ''to_block'';
       mc = rbind (rd_max_count L d) max_count_bounds; pk = rd_page_key d;
       wm = rd_bool L d ''with_metadata'' True; ez = rd_bool L d ''exclude_zero_value'' True in
     rbind (finish ''TransferHistoryToolInput''
       (fld_errs c @ fld_errs w @ fld_errs dir @ fld_errs cats @ fld_errs fb @ fld_errs tb @ fld_errs mc @ fld_errs pk
        @ fld_errs wm @ fld_errs ez)
       \<lparr>tq_chain = sval c, tq_wallet_address = sval w, tq_direction = sval dir, tq_categories = [],
        tq_from_block = oval fb, tq_to_block = oval tb, tq_max_count = fld_val 0 mc, tq_page_key = oval pk,
        tq_with_metadata = fld_val True wm, tq_exclude_zero_value = fld_val True ez\<rparr>) (\<lambda>r.
     model_after ''TransferHistoryToolInput'' (normalize_transfer_input r (oval cats))))"

definition get_transfer_history :: "libs \<Rightarrow> chain_table \<Rightarrow> alchemy_deps \<Rightarrow> pydict \<Rightarrow> exn + pydict" where
  "get_transfer_history L C deps d = rbind (transfer_history_input L d)
     (fetch_transfers_for_wallet L C (ad_secret_store deps) (ad_api_key_secret_path deps) (ad_http deps))"

definition transfer_history_args :: "libs \<Rightarrow> pydict \<Rightarrow> exn + pydict" where
  "transfer_history_args L d = (let c = rd_str d ''chain''; w = rd_str d ''wallet_address'';
       dir = rd_str_default d ''direction'' ''both''; cats = rd_opt_list item_str d ''categories'';
       fb = rd_block L d ''from_block''; tb = rd_block L d ''to_block''; mc = rd_max_count L d;
       pk = rd_opt_str d ''page_key''; wm = rd_bool L d ''with_metadata'' True; ez = rd_bool L d ''exclude_zero_value'' True in
     finish ''get_transfer_history''
       (fld_errs c @ fld_errs w @ fld_errs dir @ fld_errs cats @ fld_errs fb @ fld_errs tb @ fld_errs mc @ fld_errs pk
        @ fld_errs wm @ fld_errs ez)
       [(''chain'', PStr (sval c)), (''wallet_address'', PStr (sval w)), (''direction'', PStr (sval dir)),
        (''categories'', opt_val (\<lambda>cs. PList (map PStr cs)) (oval cats)), (''from_block'', opt_val block_json (oval fb)),
        (''to_block'', opt_val block_json (oval tb)), (''max_count'', PInt (fld_val 0 mc)),
        (''page_key'', opt_val PStr (oval pk)), (''with_metadata'', PBool (fld_val True wm)),
        (''exclude_zero_value'', PBool (fld_val True ez))])"

definition transfer_history_tool :: "libs \<Rightarrow> chain_table \<Rightarrow> alchemy_deps \<Rightarrow> read_tool" where
  "transfer_history_tool L C deps d = rbind (transfer_history_args L d) (\<lambda>args.
     rbind (get_transfer_history L C deps args) (\<lambda>r. Inr (plain_result r)))"

section \<open>The registry\<close>

type_synonym tool_registry = "(string \<times> read_tool) list"

definition create_readonly_tools :: "libs \<Rightarrow> pydict \<Rightarrow> read_factory \<Rightarrow> tool_registry" where
  "create_readonly_tools L doc F = [
     (''get_native_balance'', native_balance_tool L F), (''read_contract'', contract_read_tool L F),
     (''get_erc20_metadata'', erc20_metadata_tool L F), (''get_erc20_balance'', erc20_balance_tool L F),
     (''get_erc20_allowance'', erc20_allowance_tool L F), (''resolve_known_address'', known_address_tool L doc)]"

definition optional_tool :: "string \<Rightarrow> (alchemy_deps \<Rightarrow> read_tool) \<Rightarrow> alchemy_deps option \<Rightarrow> tool_registry" where
  "optional_tool name build deps = (case deps of Some d \<Rightarrow> [(name, build d)] | None \<Rightarrow> [])"

definition registry_from_provider_factory ::
  "libs \<Rightarrow> chain_table \<Rightarrow> pydict \<Rightarrow> read_factory \<Rightarrow> alchemy_deps option \<Rightarrow> alchemy_deps option \<Rightarrow> alchemy_deps option \<Rightarrow> tool_registry" where
  "registry_from_provider_factory L C doc F prices portfolio transfers = create_readonly_tools L doc F
     @ optional_tool ''get_token_prices'' (token_prices_tool L) prices
     @ optional_tool ''get_portfolio_tokens'' (portfolio_tokens_tool L C) portfolio
     @ optional_tool ''get_transfer_history'' (transfer_history_tool L C) transfers"

definition registry_execute :: "tool_registry \<Rightarrow> string \<Rightarrow> pydict \<Rightarrow> exn + tool_result" where
  "registry_execute reg tool_name tool_input = (case dget reg tool_name of
       None \<Rightarrow> Inl (value_error (''Read-only tool '' @ quote_text tool_name @ '' is not configured.''))
     | Some tool \<Rightarrow> tool tool_input)"

definition registry_names :: "tool_registry \<Rightarrow> string set" where
  "registry_names reg = fst ` set reg"

end
