(* ===== verification/Graph_State.thy ===== *)
theory Graph_State
  imports Swap_Models Custody Read_Tools
begin

text \<open>
  The state shared by the graph nodes (\<^verbatim>\<open>mercury/graph/state.py\<close>). A key that is absent from
  the TypedDict is \<open>None\<close> (an empty list for the messages, given by their texts); a node returns the state with the keys it writes updated.
\<close>

text \<open>The slots that may hold a model or a plain value.\<close>

datatype input_slot = Model prepared_transaction | Plain pyval

record mercury_state =
  s_messages :: "string list"
  s_request_id :: "string option"
  s_raw_input :: "input_slot option"
  s_parsed_intent :: "pyval option"
  s_chain_name :: "string option"
  s_chain_config :: "chain_config option"
  s_chain_reference :: "chain_reference option"
  s_selected_tool_name :: "string option"
  s_tool_input :: "pydict option"
  s_tool_result :: "tool_result option"
  s_read_result :: "tool_result option"
  s_response_text :: "string option"
  s_policy_decision :: "policy_decision option"
  s_prepared_transaction :: "input_slot option"
  s_prepared_swap :: "prepared_swap option"
  s_executable_transaction :: "executable_transaction option"
  s_simulation_result :: "simulation_result option"
  s_approval_result :: "approval_result option"
  s_signed_transaction :: "signed_transaction_result option"
  s_tx_hash :: "string option"
  s_execution_result :: "execution_result option"
  s_wallet_address :: "string option"
  s_error :: "mercury_error_info option"

definition empty_state :: mercury_state where
  "empty_state = \<lparr>s_messages = [], s_request_id = None, s_raw_input = None, s_parsed_intent = None, s_chain_name = None,
     s_chain_config = None, s_chain_reference = None, s_selected_tool_name = None, s_tool_input = None,
     s_tool_result = None, s_read_result = None, s_response_text = None, s_policy_decision = None,
     s_prepared_transaction = None, s_prepared_swap = None, s_executable_transaction = None, s_simulation_result = None,
     s_approval_result = None, s_signed_transaction = None, s_tx_hash = None,
     s_execution_result = None, s_wallet_address = None, s_error = None\<rparr>"

end
