(* ===== verification/Transaction_Tools.thy ===== *)
theory Transaction_Tools
  imports Graph_State
begin

text \<open>
  The boundaries of the transaction pipeline (\<^verbatim>\<open>mercury/tools/transactions.py\<close>,
  \<^verbatim>\<open>mercury/providers/web3.py\<close>, \<^verbatim>\<open>mercury/chains/rpc.py\<close>): approvers, the request handed to the
  signer, and the web3 backend over a parameter for the RPC client.
\<close>

section \<open>Approval\<close>

type_synonym approver = "approval_request \<Rightarrow> exn + approval_result"

definition default_required_approval :: approver where
  "default_required_approval r = mk_approval_result REQUIRED
     (''Human approval is required before signing '' @ ar_idempotency_key r @ ''.'') None"

definition placeholder_approver :: approver where
  "placeholder_approver r = default_required_approval r"

definition str_or :: "libs \<Rightarrow> pyval \<Rightarrow> string \<Rightarrow> string" where
  "str_or L v d = (if truthy v then py_str L v else d)"

definition approval_status_text :: "libs \<Rightarrow> pydict \<Rightarrow> string" where
  "approval_status_text L raw = py_lower (py_strip
     (case dget raw ''status'' of None \<Rightarrow> [] | Some v \<Rightarrow> py_str L v))"

definition approval_key_matches :: "libs \<Rightarrow> pydict \<Rightarrow> string \<Rightarrow> bool" where
  "approval_key_matches L raw key \<longleftrightarrow> (case dget_none raw ''idempotency_key'' of
       PNone \<Rightarrow> True | v \<Rightarrow> py_str L v = key)"

definition request_metadata_approver :: "libs \<Rightarrow> approver" where
  "request_metadata_approver L r = (case dget_none (ar_metadata r) ''approval_response'' of
       PDict raw \<Rightarrow>
         (let status = approval_status_text L raw in
          if status = ''denied'' then
            mk_approval_result DENIED (str_or L (dget_none raw ''reason'') ''Approval denied.'') None
          else if status \<noteq> ''approved'' then default_required_approval r
          else if \<not> approval_key_matches L raw (ar_idempotency_key r) then
            mk_approval_result DENIED ''Approval idempotency key does not match transaction.'' None
          else mk_approval_result APPROVED
                 (str_or L (dget_none raw ''reason'') ''Approved via request metadata.'')
                 (case dget_none raw ''approved_by'' of PNone \<Rightarrow> None | v \<Rightarrow> Some (py_str L v)))
     | _ \<Rightarrow> default_required_approval r)"

definition build_approval_request :: "executable_transaction \<Rightarrow> exn + approval_request" where
  "build_approval_request t = mk_approval_request
     \<lparr>ar_wallet_id = exec_wallet_id t, ar_chain = exec_chain t, ar_chain_id = exec_chain_id t,
      ar_from_address = exec_from_address t, ar_to = exec_to t, ar_value_wei = exec_value_wei t,
      ar_data = exec_data t,
      ar_idempotency_key = (case exec_idempotency_key t of None \<Rightarrow> [] | Some k \<Rightarrow> k),
      ar_metadata = exec_metadata t\<rparr>"

text \<open>The contract of an approver: it approves only requests it holds an explicit consent for.\<close>

locale consenting_approver =
  fixes request_approval :: approver and consents :: "approval_request \<Rightarrow> bool"
  assumes approves_only_consented:
    "request_approval r = Inr a \<Longrightarrow> apr_approved a \<Longrightarrow> consents r"
begin

lemma not_approved_without_consent:
  "\<not> consents r \<Longrightarrow> request_approval r = Inr a \<Longrightarrow> apr_status a \<noteq> APPROVED"
  using approves_only_consented by (auto simp: apr_approved_def)

end

definition metadata_consents :: "libs \<Rightarrow> approval_request \<Rightarrow> bool" where
  "metadata_consents L r \<longleftrightarrow> (\<exists>raw. dget_none (ar_metadata r) ''approval_response'' = PDict raw \<and>
     approval_status_text L raw = ''approved'' \<and> approval_key_matches L raw (ar_idempotency_key r))"

lemma required_not_approved: "default_required_approval r = Inr a \<Longrightarrow> apr_status a = REQUIRED"
  by (auto simp: default_required_approval_def mk_approval_result_def)

interpretation placeholder: consenting_approver placeholder_approver "\<lambda>r. False"
  by unfold_locales (auto simp: placeholder_approver_def apr_approved_def dest: required_not_approved)

interpretation by_metadata: consenting_approver "request_metadata_approver L" "metadata_consents L" for L
proof unfold_locales
  fix r a
  assume r: "request_metadata_approver L r = Inr a" and a: "apr_approved a"
  show "metadata_consents L r"
  proof (cases "dget_none (ar_metadata r) ''approval_response''")
    case (PDict raw)
    with r a show ?thesis
      by (auto simp: request_metadata_approver_def metadata_consents_def Let_def apr_approved_def
          mk_approval_result_def dest: required_not_approved split: if_splits)
  qed (use r a in \<open>auto simp: request_metadata_approver_def apr_approved_def dest: required_not_approved\<close>)
qed

section \<open>Signing request\<close>

record transaction_signer =
  sg_get_wallet_address :: "string \<Rightarrow> exn + wallet_address_result"
  sg_sign_transaction :: "sign_transaction_request \<Rightarrow> exn + signed_transaction_result"

definition build_sign_request :: "libs \<Rightarrow> executable_transaction \<Rightarrow> exn + sign_transaction_request" where
  "build_sign_request L t =
     rbind (mk_wallet_ref L \<lparr>wr_wallet_id = exec_wallet_id t, wr_expected_address = exec_from_address t\<rparr>) (\<lambda>w.
     rbind (to_prepared_evm_transaction t) (\<lambda>p.
     mk_sign_transaction_request
       \<lparr>sr_wallet = w, sr_chain_id = exec_chain_id t, sr_prepared_transaction = p\<rparr>))"

definition sign_executable_transaction ::
  "libs \<Rightarrow> transaction_signer \<Rightarrow> executable_transaction \<Rightarrow> exn + signed_transaction_result" where
  "sign_executable_transaction L sg t =
     rbind (build_sign_request L t) (\<lambda>r. sg_sign_transaction sg r)"

text \<open>\<open>MercuryWalletSigner\<close> as the signer of the graph.\<close>

definition wallet_signer ::
  "libs \<Rightarrow> eth_account \<Rightarrow> (string \<Rightarrow> exn + secret_value) \<Rightarrow> transaction_signer" where
  "wallet_signer L A get_secret =
     \<lparr>sg_get_wallet_address = signer_get_wallet_address L A get_secret,
      sg_sign_transaction = signer_sign_transaction L A get_secret\<rparr>"

section \<open>Providers\<close>

text \<open>
  The RPC client of a chain. A receipt is a dictionary: a missing entry raises \<open>KeyError\<close>.
  \<open>ec_block_numbers\<close> lists the block numbers read by the polls made before the deadline.
\<close>

record raw_receipt =
  rr_transaction_hash :: "bytes option"
  rr_status :: "int option"
  rr_block_number :: "int option"
  rr_gas_used :: "int option"

record eth_client =
  ec_transaction_count :: "string \<Rightarrow> exn + int"
  ec_estimate_gas :: "pydict \<Rightarrow> exn + int"
  ec_max_priority_fee :: "exn + int"
  ec_latest_base_fee :: "exn + int"
  ec_gas_price :: "exn + int"
  ec_call :: "pydict \<Rightarrow> exn + unit"
  ec_get_balance :: "string \<Rightarrow> exn + int"
  ec_send_raw_transaction :: "string \<Rightarrow> exn + bytes"
  ec_wait_for_receipt :: "string \<Rightarrow> rat \<Rightarrow> exn + raw_receipt"
  ec_block_numbers :: "(exn + int) list"

record web3_provider =
  pv_chain :: chain_config
  pv_client :: eth_client

definition resolve_rpc_url ::
  "chain_table \<Rightarrow> string \<Rightarrow> (string \<Rightarrow> exn + secret_value) \<Rightarrow> exn + string" where
  "resolve_rpc_url C chain_name get_secret =
     rbind (get_chain_by_name C chain_name) (\<lambda>chain.
     rbind (get_secret (rpc_secret_path chain)) (\<lambda>s. Inr (sv_value s)))"

definition provider_create ::
  "chain_table \<Rightarrow> (string \<Rightarrow> exn + secret_value) \<Rightarrow> (string \<Rightarrow> eth_client) \<Rightarrow> string
     \<Rightarrow> exn + web3_provider" where
  "provider_create C get_secret connect chain_name =
     rbind (get_chain_by_name C chain_name) (\<lambda>chain.
     rbind (resolve_rpc_url C (cc_name chain) get_secret) (\<lambda>rpc_url.
     Inr \<lparr>pv_chain = chain, pv_client = connect rpc_url\<rparr>))"

section \<open>The web3 backend\<close>

record transaction_backend =
  be_resolve_chain_id :: "prepared_transaction \<Rightarrow> exn + int"
  be_lookup_nonce :: "prepared_transaction \<Rightarrow> string \<Rightarrow> exn + int"
  be_populate_gas :: "prepared_transaction \<Rightarrow> exn + gas_fees"
  be_simulate :: "executable_transaction \<Rightarrow> exn + simulation_result"
  be_broadcast :: "signed_transaction_result \<Rightarrow> exn + string"
  be_wait_for_receipt :: "string \<Rightarrow> string \<Rightarrow> rat \<Rightarrow> int \<Rightarrow> exn + transaction_receipt"

type_synonym provider_factory = "string \<Rightarrow> exn + web3_provider"

definition drop_none :: "pydict \<Rightarrow> pydict" where
  "drop_none d = filter (\<lambda>(k, v). v \<noteq> PNone) d"

definition tx_fields ::
  "pyval \<Rightarrow> string option \<Rightarrow> string \<Rightarrow> int \<Rightarrow> string \<Rightarrow> pyval \<Rightarrow> gas_fees option \<Rightarrow> pydict" where
  "tx_fields chain_id from_address to value_wei data nonce gas = drop_none (dmerge
     [(''chainId'', chain_id), (''from'', opt_val PStr from_address), (''to'', PStr to),
      (''value'', PInt value_wei), (''data'', PStr data), (''nonce'', nonce)]
     (case gas of None \<Rightarrow> [] | Some g \<Rightarrow> gas_transaction_fields g))"

definition prepared_fields :: "prepared_transaction \<Rightarrow> pydict" where
  "prepared_fields t = tx_fields (opt_val PInt (prep_chain_id t)) (prep_from_address t) (prep_to t)
     (prep_value_wei t) (prep_data t) (opt_val PInt (prep_nonce t)) (prep_gas t)"

definition executable_fields :: "executable_transaction \<Rightarrow> pydict" where
  "executable_fields t = tx_fields (PInt (exec_chain_id t)) (exec_from_address t) (exec_to t)
     (exec_value_wei t) (exec_data t) (PInt (exec_nonce t)) (Some (exec_gas t))"

definition web3_resolve_chain_id :: "provider_factory \<Rightarrow> prepared_transaction \<Rightarrow> exn + int" where
  "web3_resolve_chain_id F t = rbind (F (prep_chain t)) (\<lambda>p. Inr (cc_chain_id (pv_chain p)))"

definition web3_lookup_nonce :: "provider_factory \<Rightarrow> prepared_transaction \<Rightarrow> string \<Rightarrow> exn + int" where
  "web3_lookup_nonce F t wallet_address =
     rbind (F (prep_chain t)) (\<lambda>p. ec_transaction_count (pv_client p) wallet_address)"

definition eip1559_fees :: "eth_client \<Rightarrow> int \<Rightarrow> exn + gas_fees" where
  "eip1559_fees eth limit =
     rbind (ec_max_priority_fee eth) (\<lambda>priority_fee.
     rbind (ec_latest_base_fee eth) (\<lambda>base_fee.
     mk_gas_fees \<lparr>gas_limit = limit, max_fee_per_gas = Some (base_fee * 2 + priority_fee),
       max_priority_fee_per_gas = Some priority_fee, gas_price = None\<rparr>))"

definition legacy_fees :: "eth_client \<Rightarrow> int \<Rightarrow> exn + gas_fees" where
  "legacy_fees eth limit = rbind (ec_gas_price eth) (\<lambda>price.
     mk_gas_fees \<lparr>gas_limit = limit, max_fee_per_gas = None, max_priority_fee_per_gas = None,
       gas_price = Some price\<rparr>)"

definition web3_populate_gas :: "provider_factory \<Rightarrow> prepared_transaction \<Rightarrow> exn + gas_fees" where
  "web3_populate_gas F t = (case prep_gas t of
       Some g \<Rightarrow> Inr g
     | None \<Rightarrow> rbind (F (prep_chain t)) (\<lambda>p.
         rbind (ec_estimate_gas (pv_client p) (prepared_fields t)) (\<lambda>limit.
         rcatch (eip1559_fees (pv_client p) limit) (\<lambda>_. legacy_fees (pv_client p) limit))))"

definition int_or :: "int option \<Rightarrow> int \<Rightarrow> int" where
  "int_or a d = (case a of Some i \<Rightarrow> if i = 0 then d else i | None \<Rightarrow> d)"

definition fee_cap :: "gas_fees \<Rightarrow> int" where
  "fee_cap g = int_or (max_fee_per_gas g) (int_or (gas_price g) 0)"

definition required_wei :: "executable_transaction \<Rightarrow> int" where
  "required_wei t = exec_value_wei t + gas_limit (exec_gas t) * fee_cap (exec_gas t)"

definition simulate_steps :: "web3_provider \<Rightarrow> executable_transaction \<Rightarrow> exn + simulation_result" where
  "simulate_steps p t =
     (if cc_chain_id (pv_chain p) \<noteq> exec_chain_id t then
        mk_simulation_result \<lparr>sim_status = SIM_FAILED, sim_gas_estimate = None,
          sim_reason = Some ''Prepared transaction chain_id does not match resolved chain.''\<rparr>
      else rbind (ec_call (pv_client p) (executable_fields t)) (\<lambda>_.
           rbind (ec_estimate_gas (pv_client p) (executable_fields t)) (\<lambda>estimate.
           let passed = mk_simulation_result \<lparr>sim_status = PASSED, sim_gas_estimate = Some estimate,
                          sim_reason = None\<rparr>
           in case exec_from_address t of
                None \<Rightarrow> passed
              | Some a \<Rightarrow> rbind (ec_get_balance (pv_client p) a) (\<lambda>balance.
                  if balance < required_wei t then
                    mk_simulation_result \<lparr>sim_status = SIM_FAILED, sim_gas_estimate = Some estimate,
                      sim_reason = Some ''Wallet balance is insufficient for value plus maximum gas.''\<rparr>
                  else passed))))"

definition web3_simulate ::
  "libs \<Rightarrow> provider_factory \<Rightarrow> executable_transaction \<Rightarrow> exn + simulation_result" where
  "web3_simulate L F t = rbind (F (exec_chain t)) (\<lambda>p.
     rcatch (simulate_steps p t) (\<lambda>e.
       mk_simulation_result \<lparr>sim_status = SIM_FAILED, sim_gas_estimate = None,
         sim_reason = Some (err_message (normalize_exn_code L e ''simulation_failed'' ''simulate''))\<rparr>))"

definition chain_name_for_id :: "chain_table \<Rightarrow> int \<Rightarrow> exn + string" where
  "chain_name_for_id C chain_id = rbind (get_chain_by_id C chain_id) (\<lambda>c. Inr (cc_name c))"

definition web3_broadcast ::
  "chain_table \<Rightarrow> provider_factory \<Rightarrow> signed_transaction_result \<Rightarrow> exn + string" where
  "web3_broadcast C F stx =
     rbind (chain_name_for_id C (st_chain_id stx)) (\<lambda>name.
     rbind (F name) (\<lambda>p.
     rbind (ec_send_raw_transaction (pv_client p) (st_raw_transaction_hex stx)) (\<lambda>h.
     Inr (to_hex (HexBytes h)))))"

text \<open>The loop of \<open>_wait_for_confirmations\<close> over the polls; running out of polls is the deadline.\<close>

fun wait_for_confirmations :: "(exn + int) list \<Rightarrow> int \<Rightarrow> int \<Rightarrow> exn + unit" where
  "wait_for_confirmations [] block_number confirmations = Inr ()"
| "wait_for_confirmations (Inl e # polls) block_number confirmations = Inl e"
| "wait_for_confirmations (Inr current # polls) block_number confirmations =
     (if current - block_number + 1 \<ge> confirmations then Inr ()
      else wait_for_confirmations polls block_number confirmations)"

definition receipt_item :: "'a option \<Rightarrow> string \<Rightarrow> exn + 'a" where
  "receipt_item v key = (case v of Some x \<Rightarrow> Inr x | None \<Rightarrow> Inl (Exn KeyError (quote_text key)))"

fun is_timeout :: "exn \<Rightarrow> bool" where
  "is_timeout (Exn c t) = (c = TimeoutError)"
| "is_timeout (ValidationError m es) = False"

definition receipt_of_raw :: "raw_receipt \<Rightarrow> exn + transaction_receipt" where
  "receipt_of_raw r =
     rbind (receipt_item (rr_transaction_hash r) ''transactionHash'') (\<lambda>h.
     rbind (receipt_item (rr_block_number r) ''blockNumber'') (\<lambda>bn.
     rbind (receipt_item (rr_gas_used r) ''gasUsed'') (\<lambda>used.
     mk_transaction_receipt \<lparr>rc_tx_hash = to_hex (HexBytes h),
       rc_status = (if (case rr_status r of None \<Rightarrow> 1 | Some i \<Rightarrow> i) = 1 then CONFIRMED else FAILED),
       rc_block_number = Some bn, rc_gas_used = Some used\<rparr>)))"

definition web3_wait_for_receipt ::
  "provider_factory \<Rightarrow> string \<Rightarrow> string \<Rightarrow> rat \<Rightarrow> int \<Rightarrow> exn + transaction_receipt" where
  "web3_wait_for_receipt F chain tx_hash timeout_seconds confirmations =
     rbind (F chain) (\<lambda>p.
     case ec_wait_for_receipt (pv_client p) tx_hash timeout_seconds of
       Inl e \<Rightarrow> if is_timeout e
         then mk_transaction_receipt \<lparr>rc_tx_hash = tx_hash, rc_status = PENDING,
                rc_block_number = None, rc_gas_used = None\<rparr>
         else Inl e
     | Inr r \<Rightarrow>
         rbind (if confirmations > 0
                then rbind (receipt_item (rr_block_number r) ''blockNumber'') (\<lambda>bn.
                       wait_for_confirmations (ec_block_numbers (pv_client p)) bn confirmations)
                else Inr ()) (\<lambda>_.
         receipt_of_raw r))"

definition web3_backend :: "libs \<Rightarrow> chain_table \<Rightarrow> provider_factory \<Rightarrow> transaction_backend" where
  "web3_backend L C F =
     \<lparr>be_resolve_chain_id = web3_resolve_chain_id F, be_lookup_nonce = web3_lookup_nonce F,
      be_populate_gas = web3_populate_gas F, be_simulate = web3_simulate L F,
      be_broadcast = web3_broadcast C F, be_wait_for_receipt = web3_wait_for_receipt F\<rparr>"

section \<open>The contract of a backend\<close>

text \<open>
  What the pipeline relies on: chain IDs are positive, a broadcast transaction has a hash, and
  a receipt carries a hash, natural block number and gas, and one of three statuses.
\<close>

locale backend_contract =
  fixes B :: transaction_backend
  assumes chain_id_positive: "be_resolve_chain_id B t = Inr i \<Longrightarrow> 0 < i"
    and broadcast_hash: "be_broadcast B s = Inr h \<Longrightarrow> is_hex_data h"
    and receipt_valid: "be_wait_for_receipt B c h w n = Inr r \<Longrightarrow> mk_transaction_receipt r = Inr r"
begin

lemma broadcast_hash_not_blank: "be_broadcast B s = Inr h \<Longrightarrow> py_strip h \<noteq> []"
  using broadcast_hash is_hex_data_not_blank by blast

lemma receipt_fields:
  assumes "be_wait_for_receipt B c h w n = Inr r"
  shows "is_hex_data (rc_tx_hash r)" "\<forall>b. rc_block_number r = Some b \<longrightarrow> 0 \<le> b"
    "\<forall>g. rc_gas_used r = Some g \<longrightarrow> 0 \<le> g" "rc_status r \<in> {CONFIRMED, FAILED, PENDING}"
  using receipt_valid [OF assms]
  by (auto simp: mk_transaction_receipt_def result_simps split: if_splits option.splits)

end

lemma mk_transaction_receipt_fix: "mk_transaction_receipt r = Inr r' \<Longrightarrow> mk_transaction_receipt r' = Inr r'"
  by (auto simp: mk_transaction_receipt_def result_simps split: if_splits)

lemma web3_receipt_valid:
  assumes "web3_wait_for_receipt F c h w n = Inr r"
  shows "mk_transaction_receipt r = Inr r"
proof -
  from assms obtain p where p: "F c = Inr p" by (auto simp: web3_wait_for_receipt_def rbind_eq_Inr)
  have "\<exists>r0. mk_transaction_receipt r0 = Inr r"
  proof (cases "ec_wait_for_receipt (pv_client p) h w")
    case (Inl e)
    with p assms show ?thesis by (auto simp: web3_wait_for_receipt_def split: if_splits)
  next
    case (Inr raw)
    with p assms have "receipt_of_raw raw = Inr r"
      by (simp add: web3_wait_for_receipt_def rbind_eq_Inr)
    then show ?thesis unfolding receipt_of_raw_def rbind_eq_Inr by blast
  qed
  then show ?thesis using mk_transaction_receipt_fix by blast
qed

interpretation web3: backend_contract
  "web3_backend L (chain_configs L doc s) (provider_create (chain_configs L doc s) get_secret connect)"
  for L doc s get_secret connect
proof unfold_locales
  fix t i
  assume "be_resolve_chain_id (web3_backend L (chain_configs L doc s)
    (provider_create (chain_configs L doc s) get_secret connect)) t = Inr i"
  then show "0 < i"
    using reg.by_name_positive
    by (auto simp: web3_backend_def web3_resolve_chain_id_def provider_create_def result_simps)
next
  fix x h
  assume "be_broadcast (web3_backend L (chain_configs L doc s)
    (provider_create (chain_configs L doc s) get_secret connect)) x = Inr h"
  then show "is_hex_data h" by (auto simp: web3_backend_def web3_broadcast_def result_simps simp del: to_hex.simps)
next
  fix c h w n r
  assume "be_wait_for_receipt (web3_backend L (chain_configs L doc s)
    (provider_create (chain_configs L doc s) get_secret connect)) c h w n = Inr r"
  then show "mk_transaction_receipt r = Inr r"
    by (simp add: web3_backend_def web3_receipt_valid)
qed

section \<open>Gas and simulation\<close>

lemma mk_gas_fees_Inr:
  "mk_gas_fees g = Inr g' \<Longrightarrow> g' = g \<and> 0 < gas_limit g \<and> (\<forall>p. gas_price g = Some p \<longrightarrow> 0 < p) \<and>
     (\<forall>f. max_fee_per_gas g = Some f \<longrightarrow> 0 < f) \<and> (\<forall>f. max_priority_fee_per_gas g = Some f \<longrightarrow> 0 < f) \<and>
     (gas_price g = None \<longleftrightarrow> max_fee_per_gas g \<noteq> None) \<and>
     (gas_price g = None \<longleftrightarrow> max_priority_fee_per_gas g \<noteq> None)"
  by (auto simp: mk_gas_fees_def gas_errors_def validate_fee_mode_def has_eip1559_def result_simps
      split: if_splits option.splits)

text \<open>A simulation that passed reached the right chain and saw a balance for value and gas.\<close>

lemma simulate_steps_passed:
  assumes "simulate_steps p t = Inr r" and "sim_passed r"
  shows "cc_chain_id (pv_chain p) = exec_chain_id t"
    and "ec_call (pv_client p) (executable_fields t) = Inr ()"
    and "\<forall>a. exec_from_address t = Some a \<longrightarrow>
      (\<exists>b. ec_get_balance (pv_client p) a = Inr b \<and> required_wei t \<le> b)"
  using assms
  by (auto simp: simulate_steps_def sim_passed_def mk_simulation_result_def result_simps Let_def
      split: if_splits option.splits)

lemma web3_simulate_passed:
  assumes "web3_simulate L F t = Inr r" and "sim_passed r"
  shows "\<exists>p. F (exec_chain t) = Inr p \<and> simulate_steps p t = Inr r"
proof -
  from assms(1) obtain p where p: "F (exec_chain t) = Inr p"
    by (auto simp: web3_simulate_def rbind_eq_Inr)
  have "simulate_steps p t = Inr r"
    using assms p by (cases "simulate_steps p t")
      (auto simp: web3_simulate_def mk_simulation_result_def sim_passed_def)
  with p show ?thesis by blast
qed

end
