(* ===== verification/Policy_Rules.thy ===== *)
theory Policy_Rules
  imports Swap_Models
begin

text \<open>
  The transaction policy (\<^verbatim>\<open>mercury/policy/rules.py\<close>, \<^verbatim>\<open>swap_rules.py\<close>, \<^verbatim>\<open>risk.py\<close>). A rule returns
  an optional rejection reason and may raise; \<open>evaluate\<close> computes all seven rules in order,
  so a rule that raises makes the whole evaluation raise even when an earlier rule rejects.
\<close>

section \<open>Generic rules\<close>

definition ERC20_TRANSFER_SELECTOR_PREFIX :: string where
  "ERC20_TRANSFER_SELECTOR_PREFIX = ''0xa9059cbb''"

definition ERC20_APPROVAL_SELECTOR_PREFIX :: string where
  "ERC20_APPROVAL_SELECTOR_PREFIX = ''0x095ea7b3''"

definition MIN_STANDARD_ERC20_CALLDATA_LENGTH :: nat where
  "MIN_STANDARD_ERC20_CALLDATA_LENGTH = 138"

definition NATIVE_TRANSFER_ACTION :: string where
  "NATIVE_TRANSFER_ACTION = ''native_transfer''"

definition ERC20_TRANSFER :: string where
  "ERC20_TRANSFER = ''erc20_transfer''"

definition ERC20_APPROVAL :: string where
  "ERC20_APPROVAL = ''erc20_approval''"

definition MAX_UINT256 :: int where
  "MAX_UINT256 = 2 ^ 256 - 1"

definition has_action :: "executable_transaction \<Rightarrow> string \<Rightarrow> bool" where
  "has_action t a \<longleftrightarrow> dget_none (exec_metadata t) ''action'' = PStr a"

definition unsupported_chain_reason ::
  "libs \<Rightarrow> chain_table \<Rightarrow> executable_transaction \<Rightarrow> string option" where
  "unsupported_chain_reason L C t = (case get_chain_by_name C (exec_chain t) of
       Inl e \<Rightarrow> Some (exn_text L e)
     | Inr c \<Rightarrow> if cc_chain_id c \<noteq> exec_chain_id t
         then Some ''Prepared transaction chain_id does not match resolved chain.'' else None)"

definition key_missing :: "string option \<Rightarrow> bool" where
  "key_missing k \<longleftrightarrow> k = None \<or> k = Some []"

definition invalid_transaction_reason :: "libs \<Rightarrow> executable_transaction \<Rightarrow> string option" where
  "invalid_transaction_reason L t =
     (if exec_wallet_id t = [] then Some ''Wallet ID is required.''
      else (case normalize_evm_address L (exec_to t) of
          Inl _ \<Rightarrow> Some ''Recipient address is invalid.''
        | Inr _ \<Rightarrow> if is_value_moving t \<and> key_missing (exec_idempotency_key t)
            then Some ''Idempotency key is required for value-moving transactions.'' else None))"

definition simulation_failure_reason :: "simulation_result option \<Rightarrow> string option" where
  "simulation_failure_reason sim = (case sim of
       None \<Rightarrow> Some ''Simulation result is required.''
     | Some r \<Rightarrow> if \<not> sim_passed r
         then Some (py_or (case sim_reason r of None \<Rightarrow> [] | Some s \<Rightarrow> s) ''Transaction simulation failed.'')
         else None)"

definition excessive_gas_reason :: "int option \<Rightarrow> executable_transaction \<Rightarrow> string option" where
  "excessive_gas_reason max_gas_limit t = (case max_gas_limit of
       None \<Rightarrow> None
     | Some m \<Rightarrow> if gas_limit (exec_gas t) > m
         then Some ''Estimated gas exceeds configured maximum.'' else None)"

definition metadata_address :: "libs \<Rightarrow> executable_transaction \<Rightarrow> string \<Rightarrow> exn + string" where
  "metadata_address L t key = (case dget_none (exec_metadata t) key of
       PStr v \<Rightarrow> normalize_evm_address L v
     | _ \<Rightarrow> Inl (Exn ValueError (''Transaction metadata missing '' @ key @ ''.'')))"

text \<open>The shape both ERC20 calls share: the token is the callee, no native value, standard calldata.\<close>

definition standard_calldata :: "string \<Rightarrow> string \<Rightarrow> bool" where
  "standard_calldata selector data \<longleftrightarrow>
     prefix selector (py_lower data) \<and> MIN_STANDARD_ERC20_CALLDATA_LENGTH \<le> length data"

definition erc20_transfer_reason ::
  "libs \<Rightarrow> bool \<Rightarrow> executable_transaction \<Rightarrow> exn + string option" where
  "erc20_transfer_reason L reject_self_transfers t =
     (case metadata_address L t ''token_address'' of
        Inl _ \<Rightarrow> Inr (Some ''ERC20 transfer metadata is missing token_address.'')
      | Inr token \<Rightarrow>
          rbind (normalize_evm_address L (exec_to t)) (\<lambda>to.
          if to \<noteq> token then Inr (Some ''ERC20 transfer `to` must be the token contract address.'')
          else if exec_value_wei t \<noteq> 0
            then Inr (Some ''ERC20 transfer must not send native token value.'')
          else if \<not> standard_calldata ERC20_TRANSFER_SELECTOR_PREFIX (exec_data t)
            then Inr (Some ''ERC20 transfer calldata must be a standard transfer(address,uint256) call.'')
          else rbind (metadata_address L t ''recipient_address'') (\<lambda>recipient.
               rbind (normalize_evm_address L ZERO_ADDRESS) (\<lambda>zero.
               if recipient = zero
                 then Inr (Some ''ERC20 transfer recipient must not be the zero address.'')
               else (case exec_from_address t of
                   Some from_address \<Rightarrow>
                     if reject_self_transfers
                     then rbind (normalize_evm_address L from_address) (\<lambda>sender.
                            if recipient = sender then Inr (Some ''ERC20 self-transfer is not allowed.'')
                            else Inr None)
                     else Inr None
                 | None \<Rightarrow> Inr None)))))"

definition is_unlimited :: "executable_transaction \<Rightarrow> bool" where
  "is_unlimited t \<longleftrightarrow> dget_none (exec_metadata t) ''unlimited_approval'' = PBool True
     \<or> eq_int (dget_none (exec_metadata t) ''amount_raw'') MAX_UINT256"

definition erc20_approval_policy ::
  "libs \<Rightarrow> bool \<Rightarrow> executable_transaction \<Rightarrow> exn + string option" where
  "erc20_approval_policy L reject_unlimited t =
     (case metadata_address L t ''token_address'' of
        Inl _ \<Rightarrow> Inr (Some ''ERC20 approval metadata is missing token_address.'')
      | Inr token \<Rightarrow>
          rbind (normalize_evm_address L (exec_to t)) (\<lambda>to.
          if to \<noteq> token then Inr (Some ''ERC20 approval `to` must be the token contract address.'')
          else if exec_value_wei t \<noteq> 0
            then Inr (Some ''ERC20 approval must not send native token value.'')
          else if \<not> standard_calldata ERC20_APPROVAL_SELECTOR_PREFIX (exec_data t)
            then Inr (Some ''ERC20 approval calldata must be a standard approve(address,uint256) call.'')
          else rbind (metadata_address L t ''spender_address'') (\<lambda>spender.
               rbind (normalize_evm_address L ZERO_ADDRESS) (\<lambda>zero.
               if spender = zero
                 then Inr (Some ''ERC20 approval spender must not be the zero address.'')
               else if reject_unlimited \<and> is_unlimited t
                 then Inr (Some ''Unlimited ERC20 approvals are rejected by default.'')
               else Inr None))))"

definition erc20_policy_reason ::
  "libs \<Rightarrow> bool \<Rightarrow> bool \<Rightarrow> executable_transaction \<Rightarrow> exn + string option" where
  "erc20_policy_reason L reject_unlimited reject_self t =
     (if has_action t ERC20_TRANSFER then erc20_transfer_reason L reject_self t
      else if has_action t ERC20_APPROVAL then erc20_approval_policy L reject_unlimited t
      else Inr None)"

definition native_transfer_policy_reason :: "libs \<Rightarrow> executable_transaction \<Rightarrow> exn + string option" where
  "native_transfer_policy_reason L t =
     (if \<not> has_action t NATIVE_TRANSFER_ACTION then Inr None
      else if exec_value_wei t \<le> 0
        then Inr (Some ''Native transfer amount must be greater than zero.'')
      else if exec_data t \<noteq> ''0x''
        then Inr (Some ''Native transfer must not include contract calldata.'')
      else (case metadata_address L t ''recipient_address'' of
          Inl _ \<Rightarrow> Inr (Some ''Native transfer metadata is missing recipient_address.'')
        | Inr recipient \<Rightarrow>
            rbind (normalize_evm_address L (exec_to t)) (\<lambda>to.
            if to \<noteq> recipient
              then Inr (Some ''Native transfer `to` must match the recipient address.'')
            else rbind (normalize_evm_address L ZERO_ADDRESS) (\<lambda>zero.
              if recipient = zero
                then Inr (Some ''Native transfer recipient must not be the zero address.'')
              else (case exec_from_address t of
                  Some from_address \<Rightarrow> rbind (normalize_evm_address L from_address) (\<lambda>sender.
                    if recipient = sender then Inr (Some ''Native self-transfer is not allowed.'')
                    else Inr None)
                | None \<Rightarrow> Inr None)))))"

definition erc20_approval_reason :: "executable_transaction \<Rightarrow> string option" where
  "erc20_approval_reason t =
     (if has_action t ERC20_TRANSFER then Some ''Human approval is required for ERC20 transfers.''
      else if has_action t ERC20_APPROVAL then
        (if dget_none (exec_metadata t) ''spender_known'' = PBool False
         then Some ''Human approval is required for ERC20 approvals; spender is unknown.''
         else Some ''Human approval is required for ERC20 approvals.'')
      else None)"

definition native_transfer_approval_reason :: "executable_transaction \<Rightarrow> string option" where
  "native_transfer_approval_reason t =
     (if has_action t NATIVE_TRANSFER_ACTION
      then Some ''Human approval is required for native token transfers.'' else None)"

section \<open>Swap rules\<close>

record swap_policy_config =
  allowed_providers :: "swap_provider_name list"
  max_slippage_bps :: int
  allow_bridges :: bool

definition default_swap_policy :: swap_policy_config where
  "default_swap_policy = \<lparr>allowed_providers = [LIFI, COWSWAP, UNISWAP], max_slippage_bps = 100,
     allow_bridges = True\<rparr>"

definition expired :: "datetime option \<Rightarrow> datetime \<Rightarrow> exn + bool" where
  "expired e now = (case e of None \<Rightarrow> Inr False | Some d \<Rightarrow> dt_le d now)"

text \<open>The rules on chains, route, spender, amounts and recipient, after provider, slippage, expiry.\<close>

definition swap_route_reason ::
  "libs \<Rightarrow> chain_table \<Rightarrow> swap_policy_config \<Rightarrow> swap_quote \<Rightarrow> string option" where
  "swap_route_reason L C policy q = (let r = q_request q; t = q_route q in
     case get_chain_by_name C (rq_chain r) of
       Inl e \<Rightarrow> Some (exn_text L e)
     | Inr c \<Rightarrow>
         if cc_chain_id c \<noteq> rq_chain_id r
           then Some ''Swap request chain_id does not match resolved chain.''
         else if rt_from_chain_id t \<noteq> rq_chain_id r
           then Some ''Swap route source chain does not match requested chain.''
         else if rt_to_chain_id t \<noteq> rq_chain_id r \<and> rt_route_kind t \<noteq> BRIDGE
           then Some ''Swap route destination chain mismatch is not marked as a bridge.''
         else first_some [
           (if rt_route_kind t = BRIDGE then
              (case get_chain_by_id C (rt_to_chain_id t) of
                 Inl e \<Rightarrow> Some (exn_text L e)
               | Inr _ \<Rightarrow> if \<not> allow_bridges policy
                   then Some ''Bridge routes require explicit user approval and are disabled by default.''
                   else None)
            else None),
           (if rt_spender_address t = None then Some ''Swap route spender is missing.'' else None),
           (case q_min_amount_out_raw q of
              Some m \<Rightarrow> if q_expected_amount_out_raw q < m
                then Some ''Swap quote expected output is below the minimum output.'' else None
            | None \<Rightarrow> if rq_min_amount_out r \<noteq> None
                then Some ''Swap quote is missing minimum output protection.'' else None),
           (if q_recipient_address q \<noteq> rq_wallet_address r then
              (case normalize_evm_address L (q_recipient_address q) of
                 Inl _ \<Rightarrow> Some ''Swap recipient address is invalid.'' | Inr _ \<Rightarrow> None)
            else None)])"

definition swap_quote_rejection_reason ::
  "libs \<Rightarrow> chain_table \<Rightarrow> swap_policy_config \<Rightarrow> datetime \<Rightarrow> swap_quote \<Rightarrow> exn + string option" where
  "swap_quote_rejection_reason L C policy now q =
     (if q_provider q \<notin> set (allowed_providers policy)
        then Inr (Some ''Swap provider is not in the allowlist.'')
      else if (case q_slippage_bps q of None \<Rightarrow> False | Some b \<Rightarrow> b > max_slippage_bps policy)
        then Inr (Some ''Swap slippage exceeds configured maximum.'')
      else rbind (expired (q_expires_at q) now) (\<lambda>e.
        if e then Inr (Some ''Swap quote is expired.'')
        else Inr (swap_route_reason L C policy q)))"

definition evaluate_swap_quote_policy ::
  "libs \<Rightarrow> chain_table \<Rightarrow> swap_policy_config \<Rightarrow> datetime \<Rightarrow> swap_quote \<Rightarrow> exn + policy_decision" where
  "evaluate_swap_quote_policy L C policy now q =
     rbind (swap_quote_rejection_reason L C policy now q) (\<lambda>reason. case reason of
         Some r \<Rightarrow> mk_policy_decision REJECTED_BY_POLICY r
       | None \<Rightarrow> mk_policy_decision ALLOWED ''Swap quote passed policy checks.'')"

definition swap_cow_typed_order_rejection_reason :: "swap_execution \<Rightarrow> string option" where
  "swap_cow_typed_order_rejection_reason x =
     (if sw_provider x \<noteq> COWSWAP
        then Some ''Swap typed order execution requires a dedicated signer approval path.''
      else (case sw_order x of
          None \<Rightarrow> Some ''CoW typed order execution is missing order metadata.''
        | Some ord \<Rightarrow>
            if so_chain_id ord \<noteq> rq_chain_id (q_request (sw_quote x))
              then Some ''CoW typed order chain_id does not match the quote request.''
            else if so_typed_data ord = []
              then Some ''CoW typed order is missing signing payload (typed data).''
            else if (case so_submit_url ord of None \<Rightarrow> True | Some u \<Rightarrow> py_strip u = [])
              then Some ''CoW typed order is missing a submission URL.''
            else None))"

definition swap_execution_rejection_reason :: "swap_execution \<Rightarrow> string option" where
  "swap_execution_rejection_reason x = (case sw_execution_type x of
       UNSUPPORTED \<Rightarrow> Some (py_or (case sw_unsupported_reason x of None \<Rightarrow> [] | Some r \<Rightarrow> r)
                             ''Swap execution is unsupported.'')
     | EIP712_ORDER \<Rightarrow> swap_cow_typed_order_rejection_reason x
     | EVM_TRANSACTION \<Rightarrow> (case sw_transaction x of
           None \<Rightarrow> Some ''Swap execution is missing an EVM transaction.''
         | Some t \<Rightarrow> if sx_chain_id t \<noteq> rq_chain_id (q_request (sw_quote x))
             then Some ''Swap execution chain_id does not match quote chain.'' else None))"

definition evaluate_swap_execution_policy ::
  "libs \<Rightarrow> chain_table \<Rightarrow> swap_policy_config \<Rightarrow> datetime \<Rightarrow> swap_execution \<Rightarrow> exn + policy_decision" where
  "evaluate_swap_execution_policy L C policy now x =
     rbind (swap_quote_rejection_reason L C policy now (sw_quote x)) (\<lambda>reason. case reason of
         Some r \<Rightarrow> mk_policy_decision REJECTED_BY_POLICY r
       | None \<Rightarrow> (case swap_execution_rejection_reason x of
             Some r \<Rightarrow> mk_policy_decision REJECTED_BY_POLICY r
           | None \<Rightarrow> mk_policy_decision NEEDS_APPROVAL ''Human approval is required for swap execution.''))"

definition swap_addresses_ok :: "libs \<Rightarrow> string \<Rightarrow> executable_transaction \<Rightarrow> bool" where
  "swap_addresses_ok L spender t \<longleftrightarrow>
     \<not> isl (normalize_evm_address L spender) \<and> \<not> isl (normalize_evm_address L (exec_to t)) \<and>
     (case dget_none (exec_metadata t) ''recipient_address'' of
        PStr r \<Rightarrow> \<not> isl (normalize_evm_address L r) | _ \<Rightarrow> True)"

definition swap_transaction_policy_reason ::
  "libs \<Rightarrow> swap_policy_config \<Rightarrow> executable_transaction \<Rightarrow> string option" where
  "swap_transaction_policy_reason L policy t =
     (if \<not> has_action t ''swap'' then None
      else (case provider_of_value (py_str L (dget_none (exec_metadata t) ''provider'')) of
          None \<Rightarrow> Some ''Swap transaction provider is not recognized.''
        | Some provider \<Rightarrow>
            if provider \<notin> set (allowed_providers policy)
              then Some ''Swap provider is not in the allowlist.''
            else (case dget_none (exec_metadata t) ''spender_address'' of
                PStr spender \<Rightarrow>
                  if py_strip spender = [] then Some ''Swap transaction spender is missing.''
                  else if \<not> swap_addresses_ok L spender t
                    then Some ''Swap transaction contains an invalid address.''
                  else (case as_int (dget_none (exec_metadata t) ''slippage_bps'') of
                      Some b \<Rightarrow> if b > max_slippage_bps policy
                        then Some ''Swap slippage exceeds configured maximum.'' else None
                    | None \<Rightarrow> None)
              | _ \<Rightarrow> Some ''Swap transaction spender is missing.'')))"

definition swap_approval_reason :: "executable_transaction \<Rightarrow> string option" where
  "swap_approval_reason t =
     (if has_action t ''swap'' then Some ''Human approval is required for swap execution.'' else None)"

section \<open>The engine\<close>

record policy_engine =
  pe_max_gas_limit :: "int option"
  pe_reject_unlimited_erc20_approvals :: bool
  pe_reject_erc20_self_transfers :: bool
  pe_swap_policy_config :: swap_policy_config

definition default_engine :: policy_engine where
  "default_engine = \<lparr>pe_max_gas_limit = None, pe_reject_unlimited_erc20_approvals = True,
     pe_reject_erc20_self_transfers = True, pe_swap_policy_config = default_swap_policy\<rparr>"

definition rejection_reason ::
  "libs \<Rightarrow> chain_table \<Rightarrow> policy_engine \<Rightarrow> executable_transaction \<Rightarrow> simulation_result option
     \<Rightarrow> exn + string option" where
  "rejection_reason L C E t sim =
     rbind (erc20_policy_reason L (pe_reject_unlimited_erc20_approvals E)
              (pe_reject_erc20_self_transfers E) t) (\<lambda>erc20.
     rbind (native_transfer_policy_reason L t) (\<lambda>native.
     Inr (first_some [unsupported_chain_reason L C t, invalid_transaction_reason L t,
            simulation_failure_reason sim, excessive_gas_reason (pe_max_gas_limit E) t,
            erc20, native, swap_transaction_policy_reason L (pe_swap_policy_config E) t])))"

definition approval_reason :: "executable_transaction \<Rightarrow> string option" where
  "approval_reason t = first_some [erc20_approval_reason t, native_transfer_approval_reason t,
     swap_approval_reason t,
     if is_value_moving t then Some ''Human approval is required for value-moving transactions.'' else None]"

definition evaluate ::
  "libs \<Rightarrow> chain_table \<Rightarrow> policy_engine \<Rightarrow> executable_transaction \<Rightarrow> simulation_result option
     \<Rightarrow> exn + policy_decision" where
  "evaluate L C E t sim = rbind (rejection_reason L C E t sim) (\<lambda>reason. case reason of
       Some r \<Rightarrow> mk_policy_decision REJECTED_BY_POLICY r
     | None \<Rightarrow> (case approval_reason t of
           Some r \<Rightarrow> mk_policy_decision NEEDS_APPROVAL r
         | None \<Rightarrow> mk_policy_decision ALLOWED ''Transaction passed MVP policy checks.''))"

section \<open>What the policy promises\<close>

text \<open>
  The declarative reading of the engine: the conditions under which a transaction may go on to
  approval or signing, one group per rule.
\<close>

definition chain_ok :: "chain_table \<Rightarrow> executable_transaction \<Rightarrow> bool" where
  "chain_ok C t \<longleftrightarrow>
     (\<exists>c. get_chain_by_name C (exec_chain t) = Inr c \<and> cc_chain_id c = exec_chain_id t)"

definition identity_ok :: "libs \<Rightarrow> executable_transaction \<Rightarrow> bool" where
  "identity_ok L t \<longleftrightarrow> exec_wallet_id t \<noteq> [] \<and> (\<exists>a. normalize_evm_address L (exec_to t) = Inr a) \<and>
     (is_value_moving t \<longrightarrow> \<not> key_missing (exec_idempotency_key t))"

definition token_call_ok :: "libs \<Rightarrow> string \<Rightarrow> executable_transaction \<Rightarrow> bool" where
  "token_call_ok L selector t \<longleftrightarrow>
     (\<exists>token. metadata_address L t ''token_address'' = Inr token \<and>
        normalize_evm_address L (exec_to t) = Inr token) \<and>
     exec_value_wei t = 0 \<and> standard_calldata selector (exec_data t)"

definition not_sender :: "libs \<Rightarrow> executable_transaction \<Rightarrow> string \<Rightarrow> bool" where
  "not_sender L t a \<longleftrightarrow> (\<forall>f. exec_from_address t = Some f \<longrightarrow>
     (\<exists>s. normalize_evm_address L f = Inr s \<and> a \<noteq> s))"

definition transfer_ok :: "libs \<Rightarrow> bool \<Rightarrow> executable_transaction \<Rightarrow> bool" where
  "transfer_ok L reject_self t \<longleftrightarrow> token_call_ok L ERC20_TRANSFER_SELECTOR_PREFIX t \<and>
     (\<exists>r. metadata_address L t ''recipient_address'' = Inr r \<and>
        r \<noteq> to_checksum_address L ZERO_ADDRESS \<and> (reject_self \<longrightarrow> not_sender L t r))"

definition approval_ok :: "libs \<Rightarrow> bool \<Rightarrow> executable_transaction \<Rightarrow> bool" where
  "approval_ok L reject_unlimited t \<longleftrightarrow> token_call_ok L ERC20_APPROVAL_SELECTOR_PREFIX t \<and>
     (\<exists>s. metadata_address L t ''spender_address'' = Inr s \<and>
        s \<noteq> to_checksum_address L ZERO_ADDRESS) \<and> \<not> (reject_unlimited \<and> is_unlimited t)"

definition native_ok :: "libs \<Rightarrow> executable_transaction \<Rightarrow> bool" where
  "native_ok L t \<longleftrightarrow> 0 < exec_value_wei t \<and> exec_data t = ''0x'' \<and>
     (\<exists>r. metadata_address L t ''recipient_address'' = Inr r \<and>
        normalize_evm_address L (exec_to t) = Inr r \<and>
        r \<noteq> to_checksum_address L ZERO_ADDRESS \<and> not_sender L t r)"

definition swap_ok :: "libs \<Rightarrow> swap_policy_config \<Rightarrow> executable_transaction \<Rightarrow> bool" where
  "swap_ok L policy t \<longleftrightarrow>
     (\<exists>p. provider_of_value (py_str L (dget_none (exec_metadata t) ''provider'')) = Some p \<and>
        p \<in> set (allowed_providers policy)) \<and>
     (\<exists>s. dget_none (exec_metadata t) ''spender_address'' = PStr s \<and> py_strip s \<noteq> [] \<and>
        swap_addresses_ok L s t) \<and>
     (\<forall>b. as_int (dget_none (exec_metadata t) ''slippage_bps'') = Some b \<longrightarrow> b \<le> max_slippage_bps policy)"

definition policy_accepts ::
  "libs \<Rightarrow> chain_table \<Rightarrow> policy_engine \<Rightarrow> executable_transaction \<Rightarrow> simulation_result option \<Rightarrow> bool" where
  "policy_accepts L C E t sim \<longleftrightarrow>
     chain_ok C t \<and> identity_ok L t \<and> (\<exists>r. sim = Some r \<and> sim_passed r) \<and>
     (\<forall>m. pe_max_gas_limit E = Some m \<longrightarrow> gas_limit (exec_gas t) \<le> m) \<and>
     (has_action t ERC20_TRANSFER \<longrightarrow> transfer_ok L (pe_reject_erc20_self_transfers E) t) \<and>
     (has_action t ERC20_APPROVAL \<longrightarrow> approval_ok L (pe_reject_unlimited_erc20_approvals E) t) \<and>
     (has_action t NATIVE_TRANSFER_ACTION \<longrightarrow> native_ok L t) \<and>
     (has_action t ''swap'' \<longrightarrow> swap_ok L (pe_swap_policy_config E) t)"

definition known_actions :: "string list" where
  "known_actions = [ERC20_TRANSFER, ERC20_APPROVAL, NATIVE_TRANSFER_ACTION, ''swap'']"

lemma has_action_unique: "has_action t a \<Longrightarrow> has_action t b \<longleftrightarrow> a = b"
  by (auto simp: has_action_def)

lemma action_names_distinct [simp]:
  "ERC20_TRANSFER \<noteq> ERC20_APPROVAL" "ERC20_APPROVAL \<noteq> ERC20_TRANSFER"
  by (simp_all add: ERC20_TRANSFER_def ERC20_APPROVAL_def)

lemma chain_reason_None: "unsupported_chain_reason L C t = None \<longleftrightarrow> chain_ok C t"
  by (auto simp: unsupported_chain_reason_def chain_ok_def split: sum.splits)

lemma invalid_reason_None: "invalid_transaction_reason L t = None \<longleftrightarrow> identity_ok L t"
  by (auto simp: invalid_transaction_reason_def identity_ok_def split: sum.splits)

lemma simulation_reason_None:
  "simulation_failure_reason sim = None \<longleftrightarrow> (\<exists>r. sim = Some r \<and> sim_passed r)"
  by (auto simp: simulation_failure_reason_def split: option.splits)

lemma gas_reason_None:
  "excessive_gas_reason m t = None \<longleftrightarrow> (\<forall>k. m = Some k \<longrightarrow> gas_limit (exec_gas t) \<le> k)"
  by (auto simp: excessive_gas_reason_def split: option.splits)

lemma swap_reason_None:
  "swap_transaction_policy_reason L P t = None \<longleftrightarrow> (has_action t ''swap'' \<longrightarrow> swap_ok L P t)"
  by (auto simp: swap_transaction_policy_reason_def swap_ok_def split: option.splits pyval.splits)

lemma transfer_reason_None:
  assumes "web3_laws L"
  shows "erc20_transfer_reason L self t = Inr None \<longleftrightarrow> transfer_ok L self t"
  unfolding erc20_transfer_reason_def transfer_ok_def token_call_ok_def not_sender_def
    normalize_ZERO [OF assms]
  by (auto simp: rbind_def split: sum.splits option.splits if_splits)

lemma approval_policy_None:
  assumes "web3_laws L"
  shows "erc20_approval_policy L unl t = Inr None \<longleftrightarrow> approval_ok L unl t"
  unfolding erc20_approval_policy_def approval_ok_def token_call_ok_def normalize_ZERO [OF assms]
  by (auto simp: rbind_def split: sum.splits if_splits)

lemma native_reason_None:
  assumes "web3_laws L"
  shows "native_transfer_policy_reason L t = Inr None \<longleftrightarrow>
    (has_action t NATIVE_TRANSFER_ACTION \<longrightarrow> native_ok L t)"
  unfolding native_transfer_policy_reason_def native_ok_def not_sender_def normalize_ZERO [OF assms]
  by (auto simp: rbind_def split: sum.splits option.splits if_splits)

lemma erc20_reason_None:
  assumes "web3_laws L"
  shows "erc20_policy_reason L unl self t = Inr None \<longleftrightarrow>
    (has_action t ERC20_TRANSFER \<longrightarrow> transfer_ok L self t) \<and>
    (has_action t ERC20_APPROVAL \<longrightarrow> approval_ok L unl t)"
  using has_action_unique [of t ERC20_TRANSFER ERC20_APPROVAL]
  by (auto simp: erc20_policy_reason_def transfer_reason_None [OF assms]
      approval_policy_None [OF assms])

lemma rejection_reason_None:
  assumes "web3_laws L"
  shows "rejection_reason L C E t sim = Inr None \<longleftrightarrow> policy_accepts L C E t sim"
  unfolding rejection_reason_def policy_accepts_def rbind_eq_Inr
  using erc20_reason_None [OF assms, of "pe_reject_unlimited_erc20_approvals E"
      "pe_reject_erc20_self_transfers E" t]
    native_reason_None [OF assms, of t]
  by (auto simp: chain_reason_None invalid_reason_None simulation_reason_None gas_reason_None
      swap_reason_None)

lemma mk_policy_decision_status: "mk_policy_decision st r = Inr d \<Longrightarrow> pd_status d = st \<and> pd_reason d = r"
  by (auto simp: mk_policy_decision_def)

lemma mk_policy_decision_Inr: "r \<noteq> [] \<Longrightarrow> mk_policy_decision st r = Inr \<lparr>pd_status = st, pd_reason = r\<rparr>"
  by (simp add: mk_policy_decision_def)

lemma approval_reason_nonempty: "approval_reason t = Some r \<Longrightarrow> r \<noteq> []"
  by (auto simp: approval_reason_def erc20_approval_reason_def native_transfer_approval_reason_def
      swap_approval_reason_def split: if_splits)

lemma approval_reason_None:
  "approval_reason t = None \<longleftrightarrow> \<not> is_value_moving t \<and> (\<forall>a \<in> set known_actions. \<not> has_action t a)"
  by (auto simp: approval_reason_def erc20_approval_reason_def native_transfer_approval_reason_def
      swap_approval_reason_def known_actions_def)

text \<open>An accepted transaction is decided without an exception, and the decision is not a rejection.\<close>

lemma evaluate_accepts:
  assumes "web3_laws L"
  shows "(\<exists>d. evaluate L C E t sim = Inr d \<and> pd_status d \<noteq> REJECTED_BY_POLICY)
    \<longleftrightarrow> policy_accepts L C E t sim"
proof
  assume "\<exists>d. evaluate L C E t sim = Inr d \<and> pd_status d \<noteq> REJECTED_BY_POLICY"
  then obtain d where d: "evaluate L C E t sim = Inr d" "pd_status d \<noteq> REJECTED_BY_POLICY" by blast
  then obtain reason where r: "rejection_reason L C E t sim = Inr reason"
    by (auto simp: evaluate_def rbind_eq_Inr)
  with d have "reason = None"
    by (cases reason) (auto simp: evaluate_def dest: mk_policy_decision_status)
  with r show "policy_accepts L C E t sim" by (simp add: rejection_reason_None [OF assms])
next
  assume "policy_accepts L C E t sim"
  then have r: "rejection_reason L C E t sim = Inr None" by (simp add: rejection_reason_None [OF assms])
  show "\<exists>d. evaluate L C E t sim = Inr d \<and> pd_status d \<noteq> REJECTED_BY_POLICY"
    using approval_reason_nonempty [of t]
    by (cases "approval_reason t") (simp_all add: evaluate_def r mk_policy_decision_Inr)
qed

lemma evaluate_not_rejected:
  assumes "web3_laws L" and "evaluate L C E t sim = Inr d" and "pd_status d \<noteq> REJECTED_BY_POLICY"
  shows "policy_accepts L C E t sim"
    and "pd_status d = (if approval_reason t = None then ALLOWED else NEEDS_APPROVAL)"
proof -
  show p: "policy_accepts L C E t sim" using assms evaluate_accepts by blast
  then have "rejection_reason L C E t sim = Inr None" by (simp add: rejection_reason_None [OF assms(1)])
  with assms(2) show "pd_status d = (if approval_reason t = None then ALLOWED else NEEDS_APPROVAL)"
    by (auto simp: evaluate_def dest: mk_policy_decision_status split: option.splits)
qed

lemma evaluate_allowed:
  assumes "evaluate L C E t sim = Inr d" and "pd_status d = ALLOWED"
  shows "\<not> is_value_moving t \<and> (\<forall>a \<in> set known_actions. \<not> has_action t a)"
proof -
  from assms have "approval_reason t = None"
    by (auto simp: evaluate_def rbind_eq_Inr mk_policy_decision_def split: option.splits)
  then show ?thesis by (simp add: approval_reason_None)
qed

end
