(* ===== verification/Transaction_Builders.thy ===== *)
theory Transaction_Builders
  imports Model_Fields Read_Tools Transaction_Tools Policy_Rules
begin

text \<open>
  Token amounts and intents (\<^verbatim>\<open>mercury/models/erc20.py\<close>, \<^verbatim>\<open>native_tx.py\<close>) and the builders of unsigned
  transactions (\<^verbatim>\<open>mercury/tools/erc20_transactions.py\<close>, \<^verbatim>\<open>native_transactions.py\<close>). The wallet's public
  address comes from an address resolver, chain data from a read provider.
\<close>

section \<open>Models\<close>

record erc20_token =
  tk_chain :: string
  tk_chain_id :: int
  tk_token_address :: string
  tk_decimals :: int
  tk_symbol :: "string option"
  tk_name :: "string option"

definition mk_erc20_token :: "libs \<Rightarrow> erc20_token \<Rightarrow> exn + erc20_token" where
  "mk_erc20_token L t = finish ''ERC20Token''
     (min_len ''chain'' (tk_chain t) @ check (0 < tk_chain_id t) ''chain_id'' (GreaterThan 0)
      @ req_addr_errs L ''token_address'' (tk_token_address t) @ decimals_errs ''decimals'' (tk_decimals t))
     (t\<lparr>tk_chain := lower_strip (tk_chain t), tk_token_address := addr_norm L (tk_token_address t)\<rparr>)"

record erc20_amount =
  am_human_amount :: string
  am_decimals :: int
  am_raw_amount :: int

text \<open>An error of \<open>parse_units\<close> inside the model validator becomes a validation error, other
  exceptions (decimal overflow) pass.\<close>

definition validate_amount_pair :: "libs \<Rightarrow> erc20_amount \<Rightarrow> exn + erc20_amount" where
  "validate_amount_pair L a = (case parse_units (am_human_amount a) (am_decimals a) of
       Inl e \<Rightarrow> Inl (if is_value_error e then model_error ''ERC20Amount'' (exn_text L e) else e)
     | Inr parsed \<Rightarrow> if parsed \<noteq> am_raw_amount a
         then Inl (model_error ''ERC20Amount'' ''Human amount does not match raw amount.'') else Inr a)"

definition mk_erc20_amount :: "libs \<Rightarrow> erc20_amount \<Rightarrow> exn + erc20_amount" where
  "mk_erc20_amount L a = rbind (finish ''ERC20Amount''
     (min_len ''human_amount'' (am_human_amount a) @ decimals_errs ''decimals'' (am_decimals a)
      @ check (0 \<le> am_raw_amount a) ''raw_amount'' (GreaterEqual 0)) a) (validate_amount_pair L)"

definition from_human :: "libs \<Rightarrow> string \<Rightarrow> int \<Rightarrow> exn + erc20_amount" where
  "from_human L human_amount decimals =
     rbind (parse_units human_amount decimals) (\<lambda>raw.
     mk_erc20_amount L \<lparr>am_human_amount = human_amount, am_decimals = decimals, am_raw_amount = raw\<rparr>)"

definition am_formatted :: "erc20_amount \<Rightarrow> exn + string" where
  "am_formatted a = format_units (am_raw_amount a) (am_decimals a)"

record erc20_transfer_intent =
  ti_chain :: string
  ti_wallet_id :: string
  ti_token_address :: string
  ti_recipient_address :: string
  ti_amount :: string
  ti_amount_in_smallest_units :: bool
  ti_idempotency_key :: "string option"

definition transfer_intent_of :: "libs \<Rightarrow> pydict \<Rightarrow> exn + erc20_transfer_intent" where
  "transfer_intent_of L d = (let chain = rd_str1 d ''chain''; wallet = rd_str1 d ''wallet_id'';
       token = rd_addr L d ''token_address''; recipient = rd_addr L d ''recipient_address'';
       amount = rd_str1 d ''amount''; units = rd_bool L d ''amount_in_smallest_units'' False;
       key = rd_opt_str1 d ''idempotency_key'' in
     finish ''ERC20TransferIntent''
       (fld_errs chain @ fld_errs wallet @ fld_errs token @ fld_errs recipient @ fld_errs amount
        @ fld_errs units @ fld_errs key)
       \<lparr>ti_chain = lower_strip (sval chain), ti_wallet_id = sval wallet, ti_token_address = sval token,
        ti_recipient_address = sval recipient, ti_amount = sval amount,
        ti_amount_in_smallest_units = fld_val False units, ti_idempotency_key = oval key\<rparr>)"

record erc20_approval_intent =
  ai_chain :: string
  ai_wallet_id :: string
  ai_token_address :: string
  ai_spender_address :: string
  ai_amount :: string
  ai_amount_in_smallest_units :: bool
  ai_idempotency_key :: "string option"
  ai_spender_known :: bool
  ai_allow_unlimited :: bool

definition approval_intent_of :: "libs \<Rightarrow> pydict \<Rightarrow> exn + erc20_approval_intent" where
  "approval_intent_of L d = (let chain = rd_str1 d ''chain''; wallet = rd_str1 d ''wallet_id'';
       token = rd_addr L d ''token_address''; spender = rd_addr L d ''spender_address'';
       amount = rd_str1 d ''amount''; units = rd_bool L d ''amount_in_smallest_units'' False;
       key = rd_opt_str1 d ''idempotency_key''; known = rd_bool L d ''spender_known'' False;
       unlimited = rd_bool L d ''allow_unlimited'' False in
     finish ''ERC20ApprovalIntent''
       (fld_errs chain @ fld_errs wallet @ fld_errs token @ fld_errs spender @ fld_errs amount
        @ fld_errs units @ fld_errs key @ fld_errs known @ fld_errs unlimited)
       \<lparr>ai_chain = lower_strip (sval chain), ai_wallet_id = sval wallet, ai_token_address = sval token,
        ai_spender_address = sval spender, ai_amount = sval amount,
        ai_amount_in_smallest_units = fld_val False units, ai_idempotency_key = oval key,
        ai_spender_known = fld_val False known, ai_allow_unlimited = fld_val False unlimited\<rparr>)"

record native_transfer_intent =
  ni_chain :: string
  ni_wallet_id :: string
  ni_recipient_address :: string
  ni_amount :: string
  ni_idempotency_key :: "string option"

definition native_intent_of :: "libs \<Rightarrow> pydict \<Rightarrow> exn + native_transfer_intent" where
  "native_intent_of L d = (let chain = rd_str1 d ''chain''; wallet = rd_str1 d ''wallet_id'';
       recipient = rd_addr L d ''recipient_address''; amount = rd_str1 d ''amount'';
       key = rd_opt_str1 d ''idempotency_key'' in
     finish ''NativeTransferIntent''
       (fld_errs chain @ fld_errs wallet @ fld_errs recipient @ fld_errs amount @ fld_errs key)
       \<lparr>ni_chain = lower_strip (sval chain), ni_wallet_id = sval wallet, ni_recipient_address = sval recipient,
        ni_amount = sval amount, ni_idempotency_key = oval key\<rparr>)"

section \<open>ERC20 preconditions\<close>

type_synonym address_resolver = "string \<Rightarrow> exn + wallet_address_result"

record transfer_preconditions =
  tp_chain :: string
  tp_chain_id :: int
  tp_token_address :: string
  tp_owner_address :: string
  tp_recipient_address :: string
  tp_amount :: erc20_amount
  tp_balance_raw :: int
  tp_symbol :: "string option"
  tp_name :: "string option"

definition mk_transfer_preconditions :: "transfer_preconditions \<Rightarrow> exn + transfer_preconditions" where
  "mk_transfer_preconditions p = finish ''ERC20TransferPreconditions''
     (check (0 < tp_chain_id p) ''chain_id'' (GreaterThan 0)
      @ check (0 \<le> tp_balance_raw p) ''balance_raw'' (GreaterEqual 0)) p"

record approval_preconditions =
  ap_chain :: string
  ap_chain_id :: int
  ap_token_address :: string
  ap_owner_address :: string
  ap_spender_address :: string
  ap_amount :: erc20_amount
  ap_current_allowance_raw :: int
  ap_allowance_sufficient :: bool
  ap_unlimited_approval :: bool
  ap_spender_known :: bool
  ap_symbol :: "string option"
  ap_name :: "string option"

definition mk_approval_preconditions :: "approval_preconditions \<Rightarrow> exn + approval_preconditions" where
  "mk_approval_preconditions p = finish ''ERC20ApprovalPreconditions''
     (check (0 < ap_chain_id p) ''chain_id'' (GreaterThan 0)
      @ check (0 \<le> ap_current_allowance_raw p) ''current_allowance_raw'' (GreaterEqual 0)) p"

definition raw_amount_of :: "libs \<Rightarrow> string \<Rightarrow> int \<Rightarrow> exn + erc20_amount" where
  "raw_amount_of L amount decimals =
     rbind (parse_integer_raw_amount amount) (\<lambda>raw.
     if raw > MAX_UINT256 then Inl (value_error ''ERC20 raw amount must fit uint256.'')
     else rbind (format_units raw decimals) (\<lambda>human.
       mk_erc20_amount L \<lparr>am_human_amount = human, am_decimals = decimals, am_raw_amount = raw\<rparr>))"

definition erc20_amount_for_precondition :: "libs \<Rightarrow> string \<Rightarrow> int \<Rightarrow> bool \<Rightarrow> exn + erc20_amount" where
  "erc20_amount_for_precondition L amount decimals amount_in_smallest_units =
     (if amount_in_smallest_units then raw_amount_of L amount decimals else from_human L amount decimals)"

definition is_unlimited_word :: "string \<Rightarrow> bool" where
  "is_unlimited_word s \<longleftrightarrow> lower_strip s \<in> {''max'', ''unlimited''}"

definition approval_amount :: "libs \<Rightarrow> string \<Rightarrow> int \<Rightarrow> bool \<Rightarrow> bool \<Rightarrow> exn + erc20_amount" where
  "approval_amount L amount decimals allow_unlimited amount_in_smallest_units =
     (if amount_in_smallest_units \<and> \<not> is_unlimited_word amount then raw_amount_of L amount decimals
      else if is_unlimited_word amount then
        (if \<not> allow_unlimited then Inl (value_error ''Unlimited ERC20 approvals are rejected by default.'')
         else mk_erc20_amount L \<lparr>am_human_amount = int_text MAX_UINT256, am_decimals = 0, am_raw_amount = MAX_UINT256\<rparr>)
      else rbind (from_human L amount decimals) (\<lambda>a.
        if am_raw_amount a < 0 then Inl (value_error ''Approval amount must not be negative.'') else Inr a))"

definition reject_zero_address :: "libs \<Rightarrow> string \<Rightarrow> string \<Rightarrow> exn + unit" where
  "reject_zero_address L address label =
     rbind (normalize_evm_address L address) (\<lambda>a.
     guard_else (a \<noteq> to_checksum_address L ZERO_ADDRESS)
       (value_error (label @ '' address must not be the zero address.'')))"

definition check_erc20_transfer_preconditions ::
  "libs \<Rightarrow> read_factory \<Rightarrow> string \<Rightarrow> string \<Rightarrow> string \<Rightarrow> string \<Rightarrow> string \<Rightarrow> bool \<Rightarrow> exn + transfer_preconditions" where
  "check_erc20_transfer_preconditions L F chain token_address owner_address recipient_address amount units =
     rbind (normalize_evm_address L owner_address) (\<lambda>owner.
     rbind (normalize_evm_address L recipient_address) (\<lambda>recipient.
     rbind (normalize_evm_address L token_address) (\<lambda>token.
     rbind (reject_zero_address L recipient ''Recipient'') (\<lambda>_.
     if owner = recipient then Inl (value_error ''ERC20 self-transfer is not allowed.'')
     else
     rbind (get_erc20_metadata L F chain token) (\<lambda>m.
     rbind (erc20_amount_for_precondition L amount (md_decimals m) units) (\<lambda>a.
     if am_raw_amount a \<le> 0 then Inl (value_error ''Transfer amount must be greater than zero.'')
     else
     rbind (get_erc20_balance L F (md_chain m) (md_token_address m) owner) (\<lambda>balance.
     if bal_raw_amount balance < am_raw_amount a
       then Inl (value_error ''ERC20 token balance is insufficient for transfer.'')
     else mk_transfer_preconditions
       \<lparr>tp_chain = md_chain m, tp_chain_id = md_chain_id m, tp_token_address = md_token_address m,
        tp_owner_address = owner, tp_recipient_address = recipient, tp_amount = a,
        tp_balance_raw = bal_raw_amount balance, tp_symbol = md_symbol m, tp_name = md_name m\<rparr>)))))))"

definition check_erc20_approval_preconditions ::
  "libs \<Rightarrow> read_factory \<Rightarrow> string \<Rightarrow> string \<Rightarrow> string \<Rightarrow> string \<Rightarrow> string \<Rightarrow> bool \<Rightarrow> bool \<Rightarrow> bool
     \<Rightarrow> exn + approval_preconditions" where
  "check_erc20_approval_preconditions L F chain token_address owner_address spender_address amount
       spender_known allow_unlimited units =
     rbind (normalize_evm_address L owner_address) (\<lambda>owner.
     rbind (normalize_evm_address L spender_address) (\<lambda>spender.
     rbind (normalize_evm_address L token_address) (\<lambda>token.
     rbind (reject_zero_address L spender ''Spender'') (\<lambda>_.
     rbind (get_erc20_metadata L F chain token) (\<lambda>m.
     rbind (approval_amount L amount (md_decimals m) allow_unlimited units) (\<lambda>a.
     let unlimited = (am_raw_amount a = MAX_UINT256) in
     if unlimited \<and> \<not> allow_unlimited
       then Inl (value_error ''Unlimited ERC20 approvals are rejected by default.'')
     else
     rbind (get_erc20_allowance L F (md_chain m) (md_token_address m) owner spender) (\<lambda>al.
     mk_approval_preconditions
       \<lparr>ap_chain = md_chain m, ap_chain_id = md_chain_id m, ap_token_address = md_token_address m,
        ap_owner_address = owner, ap_spender_address = spender, ap_amount = a,
        ap_current_allowance_raw = alw_raw_amount al,
        ap_allowance_sufficient = (am_raw_amount a \<le> alw_raw_amount al),
        ap_unlimited_approval = unlimited, ap_spender_known = spender_known,
        ap_symbol = md_symbol m, ap_name = md_name m\<rparr>)))))))"

section \<open>Calldata\<close>

definition validate_uint256 :: "int \<Rightarrow> exn + unit" where
  "validate_uint256 n = guard_else (0 \<le> n \<and> n \<le> MAX_UINT256) (value_error ''ERC20 amount must fit uint256.'')"

definition nat_bytes_hex :: "nat list \<Rightarrow> string" where
  "nat_bytes_hex bs = concat (map (\<lambda>b. [hex_digit (b div 16), hex_digit (b mod 16)]) bs)"

definition encode_call :: "libs \<Rightarrow> string \<Rightarrow> string \<Rightarrow> int \<Rightarrow> string" where
  "encode_call L fn_signature a n = ''0x'' @ nat_bytes_hex (take 4 (keccak_text L fn_signature) @ abi_encode L a n)"

definition encode_erc20_transfer_data :: "libs \<Rightarrow> string \<Rightarrow> int \<Rightarrow> exn + string" where
  "encode_erc20_transfer_data L recipient_address raw_amount =
     rbind (normalize_evm_address L recipient_address) (\<lambda>recipient.
     rbind (validate_uint256 raw_amount) (\<lambda>_.
     Inr (encode_call L ''transfer(address,uint256)'' recipient raw_amount)))"

definition encode_erc20_approval_data :: "libs \<Rightarrow> string \<Rightarrow> int \<Rightarrow> exn + string" where
  "encode_erc20_approval_data L spender_address raw_amount =
     rbind (normalize_evm_address L spender_address) (\<lambda>spender.
     rbind (validate_uint256 raw_amount) (\<lambda>_.
     Inr (encode_call L ''approve(address,uint256)'' spender raw_amount)))"

section \<open>Builders\<close>

definition prepared_erc20_transaction ::
  "libs \<Rightarrow> string \<Rightarrow> string \<Rightarrow> int \<Rightarrow> string \<Rightarrow> string \<Rightarrow> string \<Rightarrow> string option \<Rightarrow> pydict \<Rightarrow> exn + prepared_transaction" where
  "prepared_erc20_transaction L wallet_id chain chain_id from_address to data idempotency_key metadata =
     mk_prepared_transaction L
       \<lparr>prep_wallet_id = wallet_id, prep_chain = chain, prep_chain_id = Some chain_id,
        prep_from_address = Some from_address, prep_to = to, prep_value_wei = 0, prep_data = data,
        prep_nonce = None, prep_gas = None, prep_idempotency_key = idempotency_key, prep_metadata = metadata\<rparr>"

definition transfer_metadata :: "transfer_preconditions \<Rightarrow> pydict" where
  "transfer_metadata p =
     [(''action'', PStr ERC20_TRANSFER), (''token_address'', PStr (tp_token_address p)),
      (''recipient_address'', PStr (tp_recipient_address p)), (''amount'', PStr (am_human_amount (tp_amount p))),
      (''amount_raw'', PInt (am_raw_amount (tp_amount p))), (''decimals'', PInt (am_decimals (tp_amount p))),
      (''symbol'', opt_val PStr (tp_symbol p)), (''name'', opt_val PStr (tp_name p)),
      (''balance_raw'', PInt (tp_balance_raw p))]"

definition prepare_erc20_transfer ::
  "libs \<Rightarrow> read_factory \<Rightarrow> address_resolver \<Rightarrow> string \<Rightarrow> string \<Rightarrow> string \<Rightarrow> string \<Rightarrow> string \<Rightarrow> string option \<Rightarrow> bool
     \<Rightarrow> exn + prepared_transaction" where
  "prepare_erc20_transfer L F R chain wallet_id token_address recipient_address amount idempotency_key units =
     rbind (R wallet_id) (\<lambda>wallet.
     rbind (check_erc20_transfer_preconditions L F chain token_address (wa_address wallet)
              recipient_address amount units) (\<lambda>p.
     rbind (encode_erc20_transfer_data L (tp_recipient_address p) (am_raw_amount (tp_amount p))) (\<lambda>data.
     prepared_erc20_transaction L wallet_id (tp_chain p) (tp_chain_id p) (tp_owner_address p)
       (tp_token_address p) data idempotency_key (transfer_metadata p))))"

definition approval_metadata :: "approval_preconditions \<Rightarrow> pydict" where
  "approval_metadata p =
     [(''action'', PStr ERC20_APPROVAL), (''token_address'', PStr (ap_token_address p)),
      (''spender_address'', PStr (ap_spender_address p)), (''amount'', PStr (am_human_amount (ap_amount p))),
      (''amount_raw'', PInt (am_raw_amount (ap_amount p))), (''decimals'', PInt (am_decimals (ap_amount p))),
      (''symbol'', opt_val PStr (ap_symbol p)), (''name'', opt_val PStr (ap_name p)),
      (''current_allowance_raw'', PInt (ap_current_allowance_raw p)),
      (''allowance_sufficient'', PBool (ap_allowance_sufficient p)),
      (''unlimited_approval'', PBool (ap_unlimited_approval p)), (''spender_known'', PBool (ap_spender_known p))]"

definition prepare_erc20_approval ::
  "libs \<Rightarrow> read_factory \<Rightarrow> address_resolver \<Rightarrow> string \<Rightarrow> string \<Rightarrow> string \<Rightarrow> string \<Rightarrow> string \<Rightarrow> string option
     \<Rightarrow> bool \<Rightarrow> bool \<Rightarrow> bool \<Rightarrow> exn + prepared_transaction" where
  "prepare_erc20_approval L F R chain wallet_id token_address spender_address amount idempotency_key
       spender_known allow_unlimited units =
     rbind (R wallet_id) (\<lambda>wallet.
     rbind (check_erc20_approval_preconditions L F chain token_address (wa_address wallet) spender_address
              amount spender_known allow_unlimited units) (\<lambda>p.
     if ap_allowance_sufficient p \<and> 0 < am_raw_amount (ap_amount p)
       then Inl (value_error ''Current allowance already satisfies requested ERC20 approval amount.'')
     else
     rbind (encode_erc20_approval_data L (ap_spender_address p) (am_raw_amount (ap_amount p))) (\<lambda>data.
     prepared_erc20_transaction L wallet_id (ap_chain p) (ap_chain_id p) (ap_owner_address p)
       (ap_token_address p) data idempotency_key (approval_metadata p))))"

definition prepare_native_transfer ::
  "libs \<Rightarrow> chain_table \<Rightarrow> address_resolver \<Rightarrow> string \<Rightarrow> string \<Rightarrow> string \<Rightarrow> string \<Rightarrow> string option
     \<Rightarrow> exn + prepared_transaction" where
  "prepare_native_transfer L C R chain wallet_id recipient_address amount idempotency_key =
     rbind (get_chain_by_name C chain) (\<lambda>cfg.
     rbind (R wallet_id) (\<lambda>wallet.
     rbind (normalize_evm_address L recipient_address) (\<lambda>recipient.
     rbind (normalize_evm_address L ZERO_ADDRESS) (\<lambda>zero.
     if recipient = zero then Inl (value_error ''Native transfer recipient must not be the zero address.'')
     else
     rbind (normalize_evm_address L (wa_address wallet)) (\<lambda>self.
     if recipient = self then Inl (value_error ''Native self-transfer is not allowed.'')
     else
     rbind (parse_units (py_strip amount) 18) (\<lambda>value_wei.
     if value_wei \<le> 0 then Inl (value_error ''Native transfer amount must be greater than zero.'')
     else mk_prepared_transaction L
       \<lparr>prep_wallet_id = wallet_id, prep_chain = cc_name cfg, prep_chain_id = Some (cc_chain_id cfg),
        prep_from_address = Some (wa_address wallet), prep_to = recipient, prep_value_wei = value_wei,
        prep_data = ''0x'', prep_nonce = None, prep_gas = None, prep_idempotency_key = idempotency_key,
        prep_metadata = [(''action'', PStr ''native_transfer''), (''recipient_address'', PStr recipient),
          (''amount_eth'', PStr (py_strip amount))]\<rparr>))))))"

section \<open>What the ABI library promises\<close>

text \<open>
  The Solidity ABI encoding of an address and a \<open>uint256\<close> is two 32 byte big-endian words, and the
  first four bytes of the hash of a signature are its selector.
\<close>

definition abi_laws :: "libs \<Rightarrow> bool" where
  "abi_laws L \<longleftrightarrow>
     take 4 (keccak_text L ''transfer(address,uint256)'') = [0xa9, 0x05, 0x9c, 0xbb] \<and>
     take 4 (keccak_text L ''approve(address,uint256)'') = [0x09, 0x5e, 0xa7, 0xb3] \<and>
     (\<forall>a n. is_evm_hex a \<longrightarrow> 0 \<le> n \<longrightarrow> n \<le> MAX_UINT256 \<longrightarrow>
        abi_encode L a n = be_bytes 32 (text_hex_nat (drop 2 a)) @ be_bytes 32 (nat n))"

lemma abi_laws_lower_libs: "abi_laws lower_libs"
  by (simp add: abi_laws_def lower_libs_def)

lemma be_bytes_length [simp]: "length (be_bytes k n) = k"
  by (induction k arbitrary: n) simp_all

lemma be_bytes_less: "b \<in> set (be_bytes k n) \<Longrightarrow> b < 256"
  by (induction k arbitrary: n) auto

lemma nat_bytes_hex_append [simp]: "nat_bytes_hex (a @ b) = nat_bytes_hex a @ nat_bytes_hex b"
  by (simp add: nat_bytes_hex_def)

lemma nat_bytes_hex_length [simp]: "length (nat_bytes_hex bs) = 2 * length bs"
  by (induction bs) (simp_all add: nat_bytes_hex_def)

lemma hex_value_digit [simp]: "d < 16 \<Longrightarrow> hex_value (hex_digit d) = d"
  by (auto simp: hex_value_def hex_digit_def Let_def)

lemma text_hex_nat_append:
  "text_hex_nat (s @ t) = text_hex_nat s * 16 ^ length t + text_hex_nat t"
proof (induction t rule: rev_induct)
  case (snoc c t)
  have "text_hex_nat (u @ [c]) = 16 * text_hex_nat u + hex_value c" for u
    by (simp add: text_hex_nat_def)
  with snoc show ?case by (simp add: append_assoc [symmetric] algebra_simps del: append_assoc)
qed (simp add: text_hex_nat_def)

lemma text_hex_nat_be_bytes: "text_hex_nat (nat_bytes_hex (be_bytes k n)) = n mod 256 ^ k"
proof (induction k arbitrary: n)
  case (Suc k)
  let ?b = "n mod 256"
  have "text_hex_nat (nat_bytes_hex [?b]) = ?b"
  proof -
    have "?b div 16 < 16" "?b mod 16 < 16" by (simp_all add: div_less_iff_less_mult)
    then show ?thesis by (simp add: nat_bytes_hex_def text_hex_nat_def)
  qed
  with Suc [of "n div 256"] show ?case
    by (simp add: text_hex_nat_append) (metis mod_mult2_eq add.commute mult.commute)
qed (simp add: nat_bytes_hex_def text_hex_nat_def)

lemma nat_bytes_hex_hex:
  assumes "\<forall>b \<in> set bs. b < 256"
  shows "list_all is_hex_char (nat_bytes_hex bs)"
  using assms by (induction bs) (auto simp: nat_bytes_hex_def less_mult_imp_div_less)

section \<open>Calldata of a built transaction\<close>

definition address_value :: "string \<Rightarrow> nat" where
  "address_value a = text_hex_nat (drop 2 a)"

lemma hex_value_less: "is_hex_char c \<Longrightarrow> hex_value c < 16"
  by (auto simp: is_hex_char_def hex_value_def Let_def)

lemma text_hex_nat_less: "list_all is_hex_char s \<Longrightarrow> text_hex_nat s < 16 ^ length s"
proof (induction s rule: rev_induct)
  case (snoc c s)
  have "text_hex_nat (s @ [c]) = 16 * text_hex_nat s + hex_value c" by (simp add: text_hex_nat_def)
  with snoc hex_value_less [of c] show ?case by simp
qed (simp add: text_hex_nat_def)

lemma address_value_less: "is_evm_hex a \<Longrightarrow> address_value a < 256 ^ 32"
proof -
  assume a: "is_evm_hex a"
  then have "address_value a < 16 ^ length (drop 2 a)"
    unfolding address_value_def by (intro text_hex_nat_less) (simp add: is_evm_hex_def)
  also have "\<dots> \<le> 16 ^ 64" using a by (intro power_increasing) (simp_all add: is_evm_hex_def)
  finally show ?thesis by simp
qed

lemma encode_call_words:
  assumes "abi_laws L" and "is_evm_hex a" and "0 \<le> n" and "n \<le> MAX_UINT256"
    and "take 4 (keccak_text L sig) = bs" and "length bs = 4"
  shows "take 10 (encode_call L sig a n) = ''0x'' @ nat_bytes_hex bs"
    "text_hex_nat (take 64 (drop 10 (encode_call L sig a n))) = address_value a"
    "int (text_hex_nat (drop 74 (encode_call L sig a n))) = n"
    "length (encode_call L sig a n) = 138"
    "(\<forall>b \<in> set bs. b < 256) \<Longrightarrow> is_hex_data (encode_call L sig a n)"
proof -
  let ?x = "nat_bytes_hex bs" and ?y = "nat_bytes_hex (be_bytes 32 (address_value a))"
    and ?z = "nat_bytes_hex (be_bytes 32 (nat n))"
  have e: "encode_call L sig a n = ''0x'' @ ?x @ ?y @ ?z"
    using assms by (simp add: encode_call_def abi_laws_def address_value_def)
  have l: "length ?x = 8" "length ?y = 64" "length ?z = 64" using assms(6) by simp_all
  show "take 10 (encode_call L sig a n) = ''0x'' @ ?x" "length (encode_call L sig a n) = 138"
    using l by (simp_all add: e)
  have "take 64 (drop 10 (encode_call L sig a n)) = ?y" "drop 74 (encode_call L sig a n) = ?z"
    using l by (simp_all add: e)
  moreover have "nat n < 256 ^ 32" using assms(3,4) by (simp add: MAX_UINT256_def nat_less_iff)
  ultimately show "text_hex_nat (take 64 (drop 10 (encode_call L sig a n))) = address_value a"
    "int (text_hex_nat (drop 74 (encode_call L sig a n))) = n"
    using address_value_less [OF assms(2)] assms(3) by (simp_all only: text_hex_nat_be_bytes) simp_all
  show "is_hex_data (encode_call L sig a n)" if "\<forall>b \<in> set bs. b < 256"
    using nat_bytes_hex_hex [OF that] nat_bytes_hex_hex [of "be_bytes 32 _"] be_bytes_less
    by (simp add: e is_hex_data_def)
qed

end
