(* ===== verification/Idempotency.thy ===== *)
theory Idempotency
  imports Execution_Models
begin

text \<open>
  The idempotency store (\<^verbatim>\<open>mercury/policy/idempotency.py\<close>). Each operation holds the store's lock
  for its whole body, so it is one atomic step on the dictionary of records.
\<close>

datatype idempotency_status = IN_FLIGHT | COMPLETED

record idempotency_record =
  ik_key :: string
  ik_status :: idempotency_status
  ik_result :: "execution_result option"

definition mk_idempotency_record :: "idempotency_record \<Rightarrow> exn + idempotency_record" where
  "mk_idempotency_record r = finish ''IdempotencyRecord'' (min_len ''key'' (ik_key r)) r"

type_synonym idem_store = "string \<rightharpoonup> idempotency_record"

text \<open>\<open>reserve\<close> returns a record, raises \<open>DuplicateTransactionError\<close> with the existing record,
  or lets the record's own validation error escape.\<close>

datatype reserve_outcome =
    Reserved idempotency_record
  | Duplicate idempotency_record
  | ReserveRaised exn

definition store_get :: "idem_store \<Rightarrow> string \<Rightarrow> idempotency_record option" where
  "store_get st key = st key"

definition store_reserve :: "idem_store \<Rightarrow> string \<Rightarrow> reserve_outcome \<times> idem_store" where
  "store_reserve st key = (case st key of
       Some existing \<Rightarrow> (Duplicate existing, st)
     | None \<Rightarrow> (case mk_idempotency_record \<lparr>ik_key = key, ik_status = IN_FLIGHT, ik_result = None\<rparr> of
           Inl e \<Rightarrow> (ReserveRaised e, st)
         | Inr r \<Rightarrow> (Reserved r, st(key \<mapsto> r))))"

definition store_release :: "idem_store \<Rightarrow> string \<Rightarrow> idem_store" where
  "store_release st key = (case st key of
       Some existing \<Rightarrow> if ik_status existing = IN_FLIGHT then st(key := None) else st
     | None \<Rightarrow> st)"

definition store_complete ::
  "idem_store \<Rightarrow> string \<Rightarrow> execution_result \<Rightarrow> exn + idempotency_record \<times> idem_store" where
  "store_complete st key result =
     rbind (mk_idempotency_record \<lparr>ik_key = key, ik_status = COMPLETED, ik_result = Some result\<rparr>)
       (\<lambda>r. Inr (r, st(key \<mapsto> r)))"

section \<open>The contract of a store\<close>

text \<open>
  Abstractly a key is free, reserved, or done with a result. The contract of a store is the
  effect of each operation on that phase; a client reasons with the phases only.
\<close>

datatype phase = Free | Held | Done execution_result

definition record_phase :: "idempotency_record option \<Rightarrow> phase" where
  "record_phase r = (case r of
       None \<Rightarrow> Free
     | Some x \<Rightarrow> (case ik_result x of None \<Rightarrow> Held | Some res \<Rightarrow> Done res))"

locale idempotency_store =
  fixes phase_of :: "'s \<Rightarrow> string \<Rightarrow> phase"
    and reserve :: "'s \<Rightarrow> string \<Rightarrow> reserve_outcome \<times> 's"
    and release :: "'s \<Rightarrow> string \<Rightarrow> 's"
    and complete :: "'s \<Rightarrow> string \<Rightarrow> execution_result \<Rightarrow> exn + idempotency_record \<times> 's"
    and ok :: "'s \<Rightarrow> bool"
  assumes reserve_free:
      "ok s \<Longrightarrow> phase_of s k = Free \<Longrightarrow> k \<noteq> [] \<Longrightarrow>
        \<exists>r s'. reserve s k = (Reserved r, s') \<and> ok s' \<and> phase_of s' = (phase_of s)(k := Held)"
    and reserve_taken:
      "ok s \<Longrightarrow> phase_of s k \<noteq> Free \<Longrightarrow>
        \<exists>r. reserve s k = (Duplicate r, s) \<and> record_phase (Some r) = phase_of s k"
    and reserve_empty: "ok s \<Longrightarrow> phase_of s [] = Free \<Longrightarrow> \<exists>e. reserve s [] = (ReserveRaised e, s)"
    and release_phase:
      "ok s \<Longrightarrow> ok (release s k) \<and>
        phase_of (release s k) = (if phase_of s k = Held then (phase_of s)(k := Free) else phase_of s)"
    and complete_phase:
      "ok s \<Longrightarrow> k \<noteq> [] \<Longrightarrow>
        \<exists>r s'. complete s k res = Inr (r, s') \<and> ok s' \<and> phase_of s' = (phase_of s)(k := Done res)"
begin

lemma reserve_reserved:
  assumes "ok s" and "reserve s k = (Reserved r, s')"
  shows "phase_of s k = Free \<and> ok s' \<and> phase_of s' = (phase_of s)(k := Held)"
proof (cases "phase_of s k = Free")
  case True
  moreover have "k \<noteq> []" using True assms reserve_empty by fastforce
  ultimately show ?thesis using reserve_free [OF assms(1), of k] assms(2) by auto
next
  case False
  with reserve_taken [OF assms(1) False] assms(2) show ?thesis by auto
qed

lemma second_reserve_refused:
  assumes "ok s" and "reserve s k = (Reserved r, s')"
  shows "\<exists>r'. reserve s' k = (Duplicate r', s') \<and> record_phase (Some r') = Held"
proof -
  from reserve_reserved [OF assms] have "ok s'" and h: "phase_of s' k = Held" by simp_all
  then obtain r' where "reserve s' k = (Duplicate r', s')" "record_phase (Some r') = phase_of s' k"
    using reserve_taken [of s' k] by auto
  with h show ?thesis by auto
qed

lemma reserve_release:
  assumes "ok s" and "reserve s k = (Reserved r, s')"
  shows "phase_of (release s' k) = phase_of s"
proof -
  from reserve_reserved [OF assms] have "ok s'" and p: "phase_of s k = Free"
    and p': "phase_of s' = (phase_of s)(k := Held)" by simp_all
  then show ?thesis using release_phase [of s' k] by (auto simp: fun_upd_idem)
qed

lemma done_survives_release: "ok s \<Longrightarrow> phase_of s k = Done res \<Longrightarrow> phase_of (release s k') k = Done res"
  using release_phase [of s k'] by auto

lemma complete_then_reserve:
  assumes "ok s" and "k \<noteq> []" and "complete s k res = Inr (r, s')"
  shows "\<exists>r'. reserve s' k = (Duplicate r', s') \<and> ik_result r' = Some res"
proof -
  from complete_phase [OF assms(1,2), of res] assms(3)
  have "ok s'" and d: "phase_of s' k = Done res" by auto
  then obtain r' where "reserve s' k = (Duplicate r', s')" "record_phase (Some r') = Done res"
    using reserve_taken [of s' k] by auto
  then show ?thesis by (auto simp: record_phase_def split: option.splits)
qed

end

section \<open>The in-memory store meets the contract\<close>

text \<open>Every record sits under its own, non-empty key, and is completed exactly when it has a result.\<close>

definition wf_record :: "string \<Rightarrow> idempotency_record \<Rightarrow> bool" where
  "wf_record k r \<longleftrightarrow>
     k \<noteq> [] \<and> ik_key r = k \<and> (ik_status r = COMPLETED \<longleftrightarrow> ik_result r \<noteq> None)"

definition wf_store :: "idem_store \<Rightarrow> bool" where
  "wf_store st \<longleftrightarrow> (\<forall>k r. st k = Some r \<longrightarrow> wf_record k r)"

definition store_phase :: "idem_store \<Rightarrow> string \<Rightarrow> phase" where
  "store_phase st k = record_phase (st k)"

lemma wf_store_empty [simp]: "wf_store Map.empty"
  by (simp add: wf_store_def)

lemma store_phase_Free [simp]: "store_phase st k = Free \<longleftrightarrow> st k = None"
  by (auto simp: store_phase_def record_phase_def split: option.splits)

lemma wf_storeD: "wf_store st \<Longrightarrow> st k = Some r \<Longrightarrow> wf_record k r"
  by (simp add: wf_store_def)

lemma wf_store_upd: "wf_store st \<Longrightarrow> wf_record k r \<Longrightarrow> wf_store (st(k \<mapsto> r))"
  by (simp add: wf_store_def)

lemma wf_store_del: "wf_store st \<Longrightarrow> wf_store (st(k := None))"
  by (simp add: wf_store_def)

lemma wf_record_status:
  "wf_record k r \<Longrightarrow> ik_status r = IN_FLIGHT \<longleftrightarrow> ik_result r = None"
  by (cases "ik_status r") (auto simp: wf_record_def)

lemma store_phase_Held:
  assumes "wf_store st"
  shows "store_phase st k = Held \<longleftrightarrow> (\<exists>r. st k = Some r \<and> ik_status r = IN_FLIGHT)"
proof (cases "st k")
  case (Some r)
  with wf_record_status [OF wf_storeD [OF assms Some]] show ?thesis
    by (auto simp: store_phase_def record_phase_def split: option.splits)
qed (simp add: store_phase_def record_phase_def)

lemma store_phase_upd:
  "store_phase (st(k \<mapsto> r)) = (store_phase st)(k := record_phase (Some r))"
  by (auto simp: store_phase_def)

lemma store_reserve_phase:
  assumes "store_reserve st k = (Reserved r, st')"
  shows "st k = None" and "st' = st(k \<mapsto> r)"
    and "r = \<lparr>ik_key = k, ik_status = IN_FLIGHT, ik_result = None\<rparr>" and "k \<noteq> []"
  using assms
  by (auto simp: store_reserve_def mk_idempotency_record_def finish_def split: option.splits if_splits)

lemma store_reserve_free:
  assumes "st k = None" and "k \<noteq> []"
  shows "store_reserve st k = (let r = \<lparr>ik_key = k, ik_status = IN_FLIGHT, ik_result = None\<rparr>
           in (Reserved r, st(k \<mapsto> r)))"
  using assms by (simp add: store_reserve_def mk_idempotency_record_def finish_def Let_def)

lemma store_reserve_fresh:
  "\<not> (\<exists>r. fst (store_reserve st k) = Reserved r) \<Longrightarrow> snd (store_reserve st k) = st"
  by (auto simp: store_reserve_def split: option.splits sum.splits)

lemma wf_record_fresh: "k \<noteq> [] \<Longrightarrow> wf_record k \<lparr>ik_key = k, ik_status = IN_FLIGHT, ik_result = None\<rparr>"
  by (simp add: wf_record_def)

lemma wf_store_reserve:
  assumes "wf_store st" and "store_reserve st k = (out, st')"
  shows "wf_store st'"
proof (cases out)
  case (Reserved r)
  with assms(2) have "store_reserve st k = (Reserved r, st')" by simp
  from store_reserve_phase [OF this] assms(1) show ?thesis
    by (simp add: wf_store_upd wf_record_fresh)
qed (use assms store_reserve_fresh [of st k] in auto)

lemma wf_store_release: "wf_store st \<Longrightarrow> wf_store (store_release st k)"
  by (auto simp: store_release_def wf_store_del split: option.splits)

lemma store_complete_Inr:
  "store_complete st k res = Inr (r, st') \<longleftrightarrow> k \<noteq> [] \<and>
     r = \<lparr>ik_key = k, ik_status = COMPLETED, ik_result = Some res\<rparr> \<and> st' = st(k \<mapsto> r)"
  by (auto simp: store_complete_def mk_idempotency_record_def result_simps)

lemma wf_store_complete: "wf_store st \<Longrightarrow> store_complete st k res = Inr (r, st') \<Longrightarrow> wf_store st'"
  by (simp add: store_complete_Inr wf_store_upd wf_record_def)

lemma store_phase_release:
  assumes "wf_store st"
  shows "store_phase (store_release st k) =
    (if store_phase st k = Held then (store_phase st)(k := Free) else store_phase st)"
proof (rule ext)
  fix k'
  show "store_phase (store_release st k) k' =
    (if store_phase st k = Held then (store_phase st)(k := Free) else store_phase st) k'"
    unfolding store_phase_Held [OF assms]
    by (auto simp: store_release_def store_phase_def record_phase_def split: option.splits)
qed

interpretation mem_store: idempotency_store store_phase store_reserve store_release store_complete wf_store
proof unfold_locales
  fix s k
  assume "wf_store s" and "store_phase s k = Free" and "k \<noteq> []"
  then show "\<exists>r s'. store_reserve s k = (Reserved r, s') \<and> wf_store s' \<and>
      store_phase s' = (store_phase s)(k := Held)"
    by (simp add: store_reserve_free Let_def wf_store_upd wf_record_fresh store_phase_upd)
       (simp add: record_phase_def)
next
  fix s k
  assume "wf_store s" and "store_phase s k \<noteq> Free"
  then show "\<exists>r. store_reserve s k = (Duplicate r, s) \<and> record_phase (Some r) = store_phase s k"
    by (cases "s k") (simp_all add: store_reserve_def store_phase_def record_phase_def)
next
  fix s
  assume "wf_store s" and "store_phase s [] = Free"
  then show "\<exists>e. store_reserve s [] = (ReserveRaised e, s)"
    by (simp add: store_reserve_def mk_idempotency_record_def finish_def)
next
  fix s k
  assume "wf_store s"
  then show "wf_store (store_release s k) \<and> store_phase (store_release s k) =
      (if store_phase s k = Held then (store_phase s)(k := Free) else store_phase s)"
    by (simp add: wf_store_release store_phase_release)
next
  fix s and k :: string and res
  assume "wf_store s" and "k \<noteq> []"
  then show "\<exists>r s'. store_complete s k res = Inr (r, s') \<and> wf_store s' \<and>
      store_phase s' = (store_phase s)(k := Done res)"
    by (simp add: store_complete_Inr wf_store_upd store_phase_upd wf_record_def record_phase_def)
qed

section \<open>Histories of operations\<close>

text \<open>Any interleaving of clients is a sequence of atomic operations on the store.\<close>

datatype store_op =
    OpReserve string
  | OpRelease string
  | OpComplete string execution_result

fun apply_op :: "idem_store \<Rightarrow> store_op \<Rightarrow> idem_store" where
  "apply_op st (OpReserve k) = snd (store_reserve st k)"
| "apply_op st (OpRelease k) = store_release st k"
| "apply_op st (OpComplete k res) = (case store_complete st k res of Inl _ \<Rightarrow> st | Inr (_, st') \<Rightarrow> st')"

definition apply_ops :: "idem_store \<Rightarrow> store_op list \<Rightarrow> idem_store" where
  "apply_ops st ops = foldl apply_op st ops"

lemma apply_ops_simps [simp]:
  "apply_ops st [] = st"
  "apply_ops st (op # ops) = apply_ops (apply_op st op) ops"
  by (simp_all add: apply_ops_def)

lemma wf_apply_op: "wf_store st \<Longrightarrow> wf_store (apply_op st op)"
proof (cases op)
  case (OpReserve k)
  assume "wf_store st"
  then show ?thesis using OpReserve wf_store_reserve [of st k] by (cases "store_reserve st k") auto
qed (auto simp: wf_store_release wf_store_complete split: sum.splits)

lemma wf_apply_ops: "wf_store st \<Longrightarrow> wf_store (apply_ops st ops)"
  by (induction ops arbitrary: st) (auto simp: wf_apply_op)

lemma apply_op_other_key:
  "(case op of OpReserve k' \<Rightarrow> k' | OpRelease k' \<Rightarrow> k' | OpComplete k' _ \<Rightarrow> k') \<noteq> k \<Longrightarrow>
     apply_op st op k = st k"
  by (cases op)
     (auto simp: store_reserve_def store_release_def store_complete_def mk_idempotency_record_def
        finish_def split: option.splits sum.splits)

text \<open>The results that a history records under a key, in the order of the calls.\<close>

fun completions :: "string \<Rightarrow> store_op list \<Rightarrow> execution_result list" where
  "completions k [] = []"
| "completions k (OpComplete k' res # ops) = (if k' = k then res # completions k ops else completions k ops)"
| "completions k (op # ops) = completions k ops"

lemma done_key_stays_done:
  assumes "k \<noteq> []" and "st k = Some \<lparr>ik_key = k, ik_status = COMPLETED, ik_result = Some res0\<rparr>"
  shows "apply_ops st ops k =
    Some \<lparr>ik_key = k, ik_status = COMPLETED, ik_result = Some (last (res0 # completions k ops))\<rparr>"
  using assms
proof (induction ops arbitrary: st res0)
  case (Cons op ops)
  show ?case
  proof (cases op)
    case (OpComplete k' res)
    show ?thesis
    proof (cases "k' = k")
      case True
      have "store_complete st k res = Inr (\<lparr>ik_key = k, ik_status = COMPLETED, ik_result = Some res\<rparr>,
          st(k \<mapsto> \<lparr>ik_key = k, ik_status = COMPLETED, ik_result = Some res\<rparr>))"
        using Cons.prems(1) by (simp add: store_complete_Inr)
      with OpComplete True Cons.prems(1) Cons.IH [of "apply_op st op" res] show ?thesis by (simp add: fun_upd_def)
    next
      case False
      with OpComplete Cons.prems apply_op_other_key [of op k st] Cons.IH [of "apply_op st op" res0] show ?thesis by simp
    qed
  next
    case (OpReserve k')
    have "apply_op st op k = st k" using OpReserve Cons.prems apply_op_other_key [of op k st]
      by (cases "k' = k") (simp_all add: store_reserve_def)
    with OpReserve Cons.prems Cons.IH [of "apply_op st op" res0] show ?thesis by simp
  next
    case (OpRelease k')
    have "apply_op st op k = st k" using OpRelease Cons.prems apply_op_other_key [of op k st]
      by (cases "k' = k") (simp_all add: store_release_def)
    with OpRelease Cons.prems Cons.IH [of "apply_op st op" res0] show ?thesis by simp
  qed
qed simp

end
