(* ===== verification/Transaction_Nodes.thy ===== *)
theory Transaction_Nodes
  imports Transaction_Tools Policy_Rules Idempotency
begin

text \<open>
  The nodes of the transaction pipeline (\<^verbatim>\<open>mercury/graph/nodes_transaction.py\<close>). A node maps the
  state and the world to the new state, or to the exception that escapes it, and the new
  world. The world is the shared idempotency store and a log of the calls made to the
  approver, the signer and the network, with their outcomes.
\<close>

section \<open>Dependencies and world\<close>

text \<open>
  \<open>TransactionGraphDependencies\<close> without the store, which is shared state, and with what the
  module imports: the libraries, the chain table, and pydantic's reading of a plain
  dictionary as the field types of \<open>PreparedTransaction\<close>.
\<close>

record tx_deps =
  d_backend :: transaction_backend
  d_signer :: transaction_signer
  d_policy_engine :: policy_engine
  d_approver :: approver
  d_receipt_timeout_seconds :: rat
  d_receipt_confirmations :: int
  d_libs :: libs
  d_chains :: chain_table
  d_coerce_prepared :: "pydict \<Rightarrow> exn + prepared_transaction"

datatype tx_event =
    Asked approval_request "exn + approval_result"
  | SignerCalled sign_transaction_request "exn + signed_transaction_result"
  | Broadcast signed_transaction_result "exn + string"

record world =
  w_store :: idem_store
  w_log :: "tx_event list"

definition log_event :: "tx_event \<Rightarrow> world \<Rightarrow> world" where
  "log_event ev w = w\<lparr>w_log := w_log w @ [ev]\<rparr>"

lemma log_event_simps [simp]:
  "w_store (log_event ev w) = w_store w" "w_log (log_event ev w) = w_log w @ [ev]"
  by (simp_all add: log_event_def)

type_synonym tx_step = "(exn + mercury_state) \<times> world"

section \<open>Reading the state\<close>

definition prepared_from_state :: "tx_deps \<Rightarrow> mercury_state \<Rightarrow> exn + prepared_transaction" where
  "prepared_from_state d s =
     (case (case s_prepared_transaction s of Some x \<Rightarrow> Some x | None \<Rightarrow> s_raw_input s) of
        Some (Model t) \<Rightarrow> Inr t
      | Some (Plain (PDict raw)) \<Rightarrow>
          rbind (d_coerce_prepared d raw) (mk_prepared_transaction (d_libs d))
      | _ \<Rightarrow> Inl (Exn ValueError ''Transaction graph requires a prepared transaction.''))"

definition executable_from_state :: "mercury_state \<Rightarrow> exn + executable_transaction" where
  "executable_from_state s = (case s_executable_transaction s of
       Some t \<Rightarrow> Inr t
     | None \<Rightarrow> Inl (Exn ValueError ''Transaction graph requires an executable transaction.''))"

definition reject_decision :: "mercury_error_info \<Rightarrow> exn + policy_decision" where
  "reject_decision info = mk_policy_decision REJECTED_BY_POLICY (err_message info)"

definition result_chain :: "mercury_state \<Rightarrow> string" where
  "result_chain s = (case s_prepared_transaction s of
       Some (Model p) \<Rightarrow> prep_chain p
     | _ \<Rightarrow> (case s_executable_transaction s of Some t \<Rightarrow> exec_chain t | None \<Rightarrow> ''unknown''))"

definition result_wallet_id :: "mercury_state \<Rightarrow> string" where
  "result_wallet_id s = (case s_prepared_transaction s of
       Some (Model p) \<Rightarrow> prep_wallet_id p
     | _ \<Rightarrow> (case s_executable_transaction s of Some t \<Rightarrow> exec_wallet_id t | None \<Rightarrow> ''unknown''))"

definition result_chain_id :: "mercury_state \<Rightarrow> int" where
  "result_chain_id s =
     (let cid = (case s_executable_transaction s of Some t \<Rightarrow> exec_chain_id t | None \<Rightarrow> 1)
      in case s_prepared_transaction s of Some (Model p) \<Rightarrow> int_or (prep_chain_id p) cid | _ \<Rightarrow> cid)"

definition result_from_state ::
  "libs \<Rightarrow> mercury_state \<Rightarrow> execution_status \<Rightarrow> string option \<Rightarrow> int option \<Rightarrow> int option
     \<Rightarrow> mercury_error_info option \<Rightarrow> exn + execution_result" where
  "result_from_state L s status tx_hash block_number gas_used err = mk_execution_result L
     \<lparr>res_chain = result_chain s, res_chain_id = result_chain_id s,
      res_wallet_id = result_wallet_id s, res_wallet_address = s_wallet_address s,
      res_tx_hash = tx_hash, res_status = status, res_block_number = block_number,
      res_gas_used = gas_used, res_policy_decision = s_policy_decision s, res_error = err\<rparr>"

definition result_from_receipt ::
  "libs \<Rightarrow> mercury_state \<Rightarrow> transaction_receipt \<Rightarrow> exn + execution_result" where
  "result_from_receipt L s r = result_from_state L s (rc_status r) (Some (rc_tx_hash r))
     (rc_block_number r) (rc_gas_used r) None"

definition with_result :: "mercury_state \<Rightarrow> exn + execution_result \<Rightarrow> exn + mercury_state" where
  "with_result s r = rbind r (\<lambda>res. Inr (s\<lparr>s_execution_result := Some res\<rparr>))"

definition idempotency_key_from_state :: "mercury_state \<Rightarrow> string option" where
  "idempotency_key_from_state s = (case s_executable_transaction s of
       Some t \<Rightarrow> (case exec_idempotency_key t of Some k \<Rightarrow> if k = [] then None else Some k | None \<Rightarrow> None)
     | None \<Rightarrow> None)"

section \<open>Nonce, gas and simulation\<close>

definition resolve_nonce :: "tx_deps \<Rightarrow> mercury_state \<Rightarrow> exn + mercury_state" where
  "resolve_nonce d s = rcatch
     (rbind (prepared_from_state d s) (\<lambda>t.
      rbind (sg_get_wallet_address (d_signer d) (prep_wallet_id t)) (\<lambda>wallet.
      rbind (case prep_chain_id t of
               Some i \<Rightarrow> if i \<noteq> 0 then Inr i else be_resolve_chain_id (d_backend d) t
             | None \<Rightarrow> be_resolve_chain_id (d_backend d) t) (\<lambda>chain_id.
      rbind (case prep_nonce t of
               Some n \<Rightarrow> Inr n
             | None \<Rightarrow> be_lookup_nonce (d_backend d) t (wa_address wallet)) (\<lambda>nonce.
      Inr (s\<lparr>s_prepared_transaction := Some (Model (t\<lparr>prep_chain_id := Some chain_id,
               prep_from_address := Some (case prep_from_address t of
                   Some a \<Rightarrow> py_or a (wa_address wallet) | None \<Rightarrow> wa_address wallet),
               prep_nonce := Some nonce\<rparr>)),
             s_wallet_address := Some (wa_address wallet),
             s_chain_name := Some (prep_chain t)\<rparr>))))))
     (\<lambda>e. Inr (s\<lparr>s_error := Some (normalize_exn (d_libs d) e ''resolve_nonce'')\<rparr>))"

definition populate_gas :: "tx_deps \<Rightarrow> mercury_state \<Rightarrow> exn + mercury_state" where
  "populate_gas d s = (if s_error s \<noteq> None then Inr s else rcatch
     (rbind (prepared_from_state d s) (\<lambda>p.
      case (prep_chain_id p, prep_nonce p) of
        (Some cid, Some nonce) \<Rightarrow>
          rbind (be_populate_gas (d_backend d) p) (\<lambda>gas.
          rbind (mk_executable_transaction (d_libs d)
            \<lparr>exec_wallet_id = prep_wallet_id p, exec_chain = prep_chain p, exec_chain_id = cid,
             exec_from_address = prep_from_address p, exec_to = prep_to p,
             exec_value_wei = prep_value_wei p, exec_data = prep_data p, exec_nonce = nonce,
             exec_gas = gas, exec_idempotency_key = prep_idempotency_key p,
             exec_metadata = prep_metadata p\<rparr>) (\<lambda>t.
          Inr (s\<lparr>s_executable_transaction := Some t\<rparr>)))
      | _ \<Rightarrow> Inl (Exn ValueError ''Transaction nonce and chain_id must be resolved before gas.'')))
     (\<lambda>e. Inr (s\<lparr>s_error := Some (normalize_exn (d_libs d) e ''populate_gas'')\<rparr>)))"

definition simulate_transaction :: "tx_deps \<Rightarrow> mercury_state \<Rightarrow> exn + mercury_state" where
  "simulate_transaction d s = (if s_error s \<noteq> None then Inr s else rcatch
     (rbind (executable_from_state s) (\<lambda>t.
      rbind (be_simulate (d_backend d) t) (\<lambda>sim.
      Inr (s\<lparr>s_simulation_result := Some sim\<rparr>))))
     (\<lambda>e. let info = normalize_exn_code (d_libs d) e ''simulation_failed'' ''simulate_transaction''
          in rbind (mk_simulation_result \<lparr>sim_status = SIM_FAILED, sim_gas_estimate = None,
                      sim_reason = Some (err_message info)\<rparr>) (\<lambda>sim.
             Inr (s\<lparr>s_simulation_result := Some sim\<rparr>))))"

section \<open>Policy and approval\<close>

definition evaluate_policy :: "tx_deps \<Rightarrow> mercury_state \<Rightarrow> exn + mercury_state" where
  "evaluate_policy d s = (case s_error s of
       Some info \<Rightarrow> rbind (reject_decision info) (\<lambda>dec. Inr (s\<lparr>s_policy_decision := Some dec\<rparr>))
     | None \<Rightarrow> rcatch
         (rbind (executable_from_state s) (\<lambda>t.
          rbind (evaluate (d_libs d) (d_chains d) (d_policy_engine d) t (s_simulation_result s)) (\<lambda>dec.
          Inr (s\<lparr>s_policy_decision := Some dec\<rparr>))))
         (\<lambda>e. rbind (reject_decision (normalize_exn (d_libs d) e ''evaluate_policy'')) (\<lambda>dec.
              Inr (s\<lparr>s_policy_decision := Some dec\<rparr>))))"

definition ask_approver ::
  "tx_deps \<Rightarrow> mercury_state \<Rightarrow> world \<Rightarrow> (exn + approval_result) \<times> world" where
  "ask_approver d s w = (case rbind (executable_from_state s) build_approval_request of
       Inl e \<Rightarrow> (Inl e, w)
     | Inr r \<Rightarrow> (let out = d_approver d r in (out, log_event (Asked r out) w)))"

definition approval_failed :: "tx_deps \<Rightarrow> mercury_state \<Rightarrow> exn \<Rightarrow> exn + mercury_state" where
  "approval_failed d s e = with_result s (result_from_state (d_libs d) s APPROVAL_DENIED None None None
     (Some (normalize_exn (d_libs d) e ''request_approval'')))"

definition record_approval :: "tx_deps \<Rightarrow> mercury_state \<Rightarrow> approval_result \<Rightarrow> exn + mercury_state" where
  "record_approval d s a =
     (if apr_status a \<noteq> APPROVED then
        rbind (result_from_state (d_libs d) s APPROVAL_DENIED None None None
                 (Some (approval_denied (apr_reason a) [] (Some ''request_approval'')))) (\<lambda>res.
        Inr (s\<lparr>s_approval_result := Some a, s_execution_result := Some res\<rparr>))
      else Inr (s\<lparr>s_approval_result := Some a\<rparr>))"

definition request_approval :: "tx_deps \<Rightarrow> mercury_state \<Rightarrow> world \<Rightarrow> tx_step" where
  "request_approval d s w = (case ask_approver d s w of
       (Inl e, w') \<Rightarrow> (approval_failed d s e, w')
     | (Inr a, w') \<Rightarrow> (rcatch (record_approval d s a) (approval_failed d s), w'))"

section \<open>Idempotency, signing and broadcast\<close>

definition idempotency_failed :: "tx_deps \<Rightarrow> mercury_state \<Rightarrow> exn \<Rightarrow> exn + mercury_state" where
  "idempotency_failed d s e = with_result s (result_from_state (d_libs d) s REJECTED None None None
     (Some (normalize_exn (d_libs d) e ''check_idempotency'')))"

definition replay_or_conflict ::
  "tx_deps \<Rightarrow> mercury_state \<Rightarrow> idempotency_record \<Rightarrow> exn + mercury_state" where
  "replay_or_conflict d s r = (case ik_result r of
       Some res \<Rightarrow> Inr (s\<lparr>s_execution_result := Some res\<rparr>)
     | None \<Rightarrow> with_result s (result_from_state (d_libs d) s REJECTED None None None
         (Some (idempotency_conflict [] (Some ''check_idempotency'')))))"

definition check_idempotency :: "tx_deps \<Rightarrow> mercury_state \<Rightarrow> world \<Rightarrow> tx_step" where
  "check_idempotency d s w = (case executable_from_state s of
       Inl e \<Rightarrow> (idempotency_failed d s e, w)
     | Inr t \<Rightarrow> (case exec_idempotency_key t of
           None \<Rightarrow> (idempotency_failed d s
               (Exn ValueError ''Idempotency key is required before signing.''), w)
         | Some key \<Rightarrow> (case store_reserve (w_store w) key of
               (Reserved r, st) \<Rightarrow> (Inr s, w\<lparr>w_store := st\<rparr>)
             | (Duplicate r, st) \<Rightarrow> (replay_or_conflict d s r, w\<lparr>w_store := st\<rparr>)
             | (ReserveRaised e, st) \<Rightarrow> (idempotency_failed d s e, w\<lparr>w_store := st\<rparr>))))"

definition release_after_pre_broadcast_failure :: "mercury_state \<Rightarrow> world \<Rightarrow> world" where
  "release_after_pre_broadcast_failure s w = (case idempotency_key_from_state s of
       None \<Rightarrow> w
     | Some key \<Rightarrow> w\<lparr>w_store := store_release (w_store w) key\<rparr>)"

definition call_signer ::
  "tx_deps \<Rightarrow> mercury_state \<Rightarrow> world \<Rightarrow> (exn + signed_transaction_result) \<times> world" where
  "call_signer d s w = (case rbind (executable_from_state s) (build_sign_request (d_libs d)) of
       Inl e \<Rightarrow> (Inl e, w)
     | Inr r \<Rightarrow> (let out = sg_sign_transaction (d_signer d) r in (out, log_event (SignerCalled r out) w)))"

definition sign_transaction :: "tx_deps \<Rightarrow> mercury_state \<Rightarrow> world \<Rightarrow> tx_step" where
  "sign_transaction d s w = (case call_signer d s w of
       (Inr stx, w') \<Rightarrow> (Inr (s\<lparr>s_signed_transaction := Some stx\<rparr>), w')
     | (Inl e, w') \<Rightarrow>
         (with_result s (result_from_state (d_libs d) s FAILED None None None
            (Some (normalize_exn_code (d_libs d) e ''signing_failed'' ''sign_transaction''))),
          release_after_pre_broadcast_failure s w'))"

definition call_broadcast :: "tx_deps \<Rightarrow> mercury_state \<Rightarrow> world \<Rightarrow> (exn + string) \<times> world" where
  "call_broadcast d s w = (case s_signed_transaction s of
       None \<Rightarrow> (Inl (Exn KeyError (quote_text ''signed_transaction'')), w)
     | Some stx \<Rightarrow> (let out = be_broadcast (d_backend d) stx in (out, log_event (Broadcast stx out) w)))"

definition broadcast_transaction :: "tx_deps \<Rightarrow> mercury_state \<Rightarrow> world \<Rightarrow> tx_step" where
  "broadcast_transaction d s w =
     (if s_execution_result s \<noteq> None then (Inr s, w)
      else (case call_broadcast d s w of
          (Inr h, w') \<Rightarrow> (Inr (s\<lparr>s_tx_hash := Some h\<rparr>), w')
        | (Inl e, w') \<Rightarrow>
            (with_result s (result_from_state (d_libs d) s FAILED None None None
               (Some (normalize_exn_code (d_libs d) e ''broadcast_failed'' ''broadcast_transaction''))),
             release_after_pre_broadcast_failure s w')))"

section \<open>Receipt and rejection\<close>

definition complete_with ::
  "executable_transaction \<Rightarrow> execution_result \<Rightarrow> world \<Rightarrow> exn + world" where
  "complete_with t res w = (case exec_idempotency_key t of
       None \<Rightarrow> Inr w
     | Some key \<Rightarrow> rbind (store_complete (w_store w) key res) (\<lambda>(r, st). Inr (w\<lparr>w_store := st\<rparr>)))"

definition receipt_result ::
  "tx_deps \<Rightarrow> mercury_state \<Rightarrow> exn + executable_transaction \<times> execution_result" where
  "receipt_result d s =
     rbind (executable_from_state s) (\<lambda>t.
     rbind (case s_tx_hash s of Some h \<Rightarrow> Inr h | None \<Rightarrow> Inl (Exn KeyError (quote_text ''tx_hash''))) (\<lambda>h.
     rbind (be_wait_for_receipt (d_backend d) (exec_chain t) h (d_receipt_timeout_seconds d)
              (d_receipt_confirmations d)) (\<lambda>r.
     rbind (result_from_receipt (d_libs d) s r) (\<lambda>res. Inr (t, res)))))"

definition monitor_body :: "tx_deps \<Rightarrow> mercury_state \<Rightarrow> world \<Rightarrow> exn + execution_result \<times> world" where
  "monitor_body d s w =
     rbind (receipt_result d s) (\<lambda>(t, res).
     rbind (complete_with t res w) (\<lambda>w'. Inr (res, w')))"

definition finalize_after_monitor_failure ::
  "mercury_state \<Rightarrow> execution_result \<Rightarrow> world \<Rightarrow> exn + world" where
  "finalize_after_monitor_failure s res w = (case idempotency_key_from_state s of
       None \<Rightarrow> Inr w
     | Some key \<Rightarrow>
         if (case s_tx_hash s of Some h \<Rightarrow> py_strip h \<noteq> [] | None \<Rightarrow> False)
         then rbind (store_complete (w_store w) key res) (\<lambda>(r, st). Inr (w\<lparr>w_store := st\<rparr>))
         else Inr (w\<lparr>w_store := store_release (w_store w) key\<rparr>))"

definition monitor_failed :: "tx_deps \<Rightarrow> mercury_state \<Rightarrow> world \<Rightarrow> exn \<Rightarrow> tx_step" where
  "monitor_failed d s w e =
     (case result_from_state (d_libs d) s FAILED (s_tx_hash s) None None
             (Some (normalize_exn (d_libs d) e ''monitor_receipt'')) of
        Inl e' \<Rightarrow> (Inl e', w)
      | Inr res \<Rightarrow> (case finalize_after_monitor_failure s res w of
            Inl e' \<Rightarrow> (Inl e', w)
          | Inr w' \<Rightarrow> (Inr (s\<lparr>s_execution_result := Some res\<rparr>), w')))"

definition monitor_receipt :: "tx_deps \<Rightarrow> mercury_state \<Rightarrow> world \<Rightarrow> tx_step" where
  "monitor_receipt d s w =
     (if s_execution_result s \<noteq> None then (Inr s, w)
      else (case monitor_body d s w of
          Inr (res, w') \<Rightarrow> (Inr (s\<lparr>s_execution_result := Some res\<rparr>), w')
        | Inl e \<Rightarrow> monitor_failed d s w e))"

definition rejection_error :: "mercury_state \<Rightarrow> mercury_error_info" where
  "rejection_error s = (case s_policy_decision s of
       Some dec \<Rightarrow> policy_rejected (pd_reason dec) [] (Some ''reject_transaction'')
     | None \<Rightarrow> (case s_error s of
           Some info \<Rightarrow> info
         | None \<Rightarrow> policy_rejected ''Transaction rejected.'' [] (Some ''reject_transaction'')))"

definition reject_transaction :: "tx_deps \<Rightarrow> mercury_state \<Rightarrow> exn + mercury_state" where
  "reject_transaction d s =
     (if s_execution_result s \<noteq> None then Inr s
      else with_result s (result_from_state (d_libs d) s REJECTED None None None (Some (rejection_error s))))"

lemmas pipeline_node_defs [node_defs] =
  resolve_nonce_def populate_gas_def simulate_transaction_def evaluate_policy_def
  request_approval_def check_idempotency_def sign_transaction_def broadcast_transaction_def
  monitor_receipt_def reject_transaction_def

end
