(* ===== verification/Transaction_Graph.thy ===== *)
theory Transaction_Graph
  imports Transaction_Nodes
begin

text \<open>
  The transaction pipeline as a graph (\<^verbatim>\<open>mercury/graph/router.py\<close> and
  \<^verbatim>\<open>_add_transaction_pipeline\<close> of \<^verbatim>\<open>mercury/graph/agent.py\<close>): its nodes, its edges, and the run
  of one request through it.
\<close>

section \<open>Nodes and edges\<close>

datatype tx_node =
    ResolveNonce | PopulateGas | SimulateTransaction | EvaluatePolicy | RequestApproval
  | CheckIdempotency | SignTransaction | BroadcastTransaction | MonitorReceipt | RejectTransaction

fun run_node :: "tx_deps \<Rightarrow> tx_node \<Rightarrow> mercury_state \<Rightarrow> world \<Rightarrow> tx_step" where
  "run_node d ResolveNonce s w = (resolve_nonce d s, w)"
| "run_node d PopulateGas s w = (populate_gas d s, w)"
| "run_node d SimulateTransaction s w = (simulate_transaction d s, w)"
| "run_node d EvaluatePolicy s w = (evaluate_policy d s, w)"
| "run_node d RequestApproval s w = request_approval d s w"
| "run_node d CheckIdempotency s w = check_idempotency d s w"
| "run_node d SignTransaction s w = sign_transaction d s w"
| "run_node d BroadcastTransaction s w = broadcast_transaction d s w"
| "run_node d MonitorReceipt s w = monitor_receipt d s w"
| "run_node d RejectTransaction s w = (reject_transaction d s, w)"

definition route_after_transaction_policy :: "mercury_state \<Rightarrow> tx_node" where
  "route_after_transaction_policy s = (case s_policy_decision s of
       None \<Rightarrow> RejectTransaction
     | Some dec \<Rightarrow> (case pd_status dec of
           REJECTED_BY_POLICY \<Rightarrow> RejectTransaction
         | NEEDS_APPROVAL \<Rightarrow> RequestApproval
         | ALLOWED \<Rightarrow> CheckIdempotency))"

definition route_after_transaction_approval :: "mercury_state \<Rightarrow> tx_node" where
  "route_after_transaction_approval s = (case s_approval_result s of
       None \<Rightarrow> RejectTransaction
     | Some a \<Rightarrow> if apr_status a \<noteq> APPROVED then RejectTransaction else CheckIdempotency)"

definition route_after_idempotency :: "mercury_state \<Rightarrow> tx_node" where
  "route_after_idempotency s =
     (if s_execution_result s \<noteq> None then RejectTransaction else SignTransaction)"

fun next_node :: "tx_node \<Rightarrow> mercury_state \<Rightarrow> tx_node option" where
  "next_node ResolveNonce s = Some PopulateGas"
| "next_node PopulateGas s = Some SimulateTransaction"
| "next_node SimulateTransaction s = Some EvaluatePolicy"
| "next_node EvaluatePolicy s = Some (route_after_transaction_policy s)"
| "next_node RequestApproval s = Some (route_after_transaction_approval s)"
| "next_node CheckIdempotency s = Some (route_after_idempotency s)"
| "next_node SignTransaction s = Some BroadcastTransaction"
| "next_node BroadcastTransaction s = Some MonitorReceipt"
| "next_node MonitorReceipt s = None"
| "next_node RejectTransaction s = None"

section \<open>Runs\<close>

fun node_rank :: "tx_node \<Rightarrow> nat" where
  "node_rank ResolveNonce = 9"
| "node_rank PopulateGas = 8"
| "node_rank SimulateTransaction = 7"
| "node_rank EvaluatePolicy = 6"
| "node_rank RequestApproval = 5"
| "node_rank CheckIdempotency = 4"
| "node_rank SignTransaction = 3"
| "node_rank BroadcastTransaction = 2"
| "node_rank MonitorReceipt = 1"
| "node_rank RejectTransaction = 0"

lemma next_node_rank: "next_node n s = Some n' \<Longrightarrow> node_rank n' < node_rank n"
  by (cases n)
     (auto simp: route_after_transaction_policy_def route_after_transaction_approval_def
        route_after_idempotency_def split: option.splits policy_status.splits if_splits)

text \<open>The edges form no cycle, so a run visits each node at most once and ends.\<close>

function run_from :: "tx_deps \<Rightarrow> tx_node \<Rightarrow> mercury_state \<Rightarrow> world \<Rightarrow> tx_step" where
  "run_from d n s w = (case run_node d n s w of
       (Inl e, w') \<Rightarrow> (Inl e, w')
     | (Inr s', w') \<Rightarrow> (case next_node n s' of
           None \<Rightarrow> (Inr s', w')
         | Some n' \<Rightarrow> run_from d n' s' w'))"
  by pat_completeness auto
termination
  by (relation "measure (\<lambda>(d, n, s, w). node_rank n)") (auto simp: next_node_rank)

declare run_from.simps [simp del]

definition run_pipeline :: "tx_deps \<Rightarrow> mercury_state \<Rightarrow> world \<Rightarrow> tx_step" where
  "run_pipeline d s w = run_from d ResolveNonce s w"

lemma run_from_unfold:
  "run_from d ResolveNonce s w = (case resolve_nonce d s of
     Inl e \<Rightarrow> (Inl e, w) | Inr s' \<Rightarrow> run_from d PopulateGas s' w)"
  "run_from d PopulateGas s w = (case populate_gas d s of
     Inl e \<Rightarrow> (Inl e, w) | Inr s' \<Rightarrow> run_from d SimulateTransaction s' w)"
  "run_from d SimulateTransaction s w = (case simulate_transaction d s of
     Inl e \<Rightarrow> (Inl e, w) | Inr s' \<Rightarrow> run_from d EvaluatePolicy s' w)"
  "run_from d EvaluatePolicy s w = (case evaluate_policy d s of
     Inl e \<Rightarrow> (Inl e, w) | Inr s' \<Rightarrow> run_from d (route_after_transaction_policy s') s' w)"
  "run_from d RequestApproval s w = (case request_approval d s w of
     (Inl e, w') \<Rightarrow> (Inl e, w')
   | (Inr s', w') \<Rightarrow> run_from d (route_after_transaction_approval s') s' w')"
  "run_from d CheckIdempotency s w = (case check_idempotency d s w of
     (Inl e, w') \<Rightarrow> (Inl e, w') | (Inr s', w') \<Rightarrow> run_from d (route_after_idempotency s') s' w')"
  "run_from d SignTransaction s w = (case sign_transaction d s w of
     (Inl e, w') \<Rightarrow> (Inl e, w') | (Inr s', w') \<Rightarrow> run_from d BroadcastTransaction s' w')"
  "run_from d BroadcastTransaction s w = (case broadcast_transaction d s w of
     (Inl e, w') \<Rightarrow> (Inl e, w') | (Inr s', w') \<Rightarrow> run_from d MonitorReceipt s' w')"
  "run_from d MonitorReceipt s w = monitor_receipt d s w"
  "run_from d RejectTransaction s w = (reject_transaction d s, w)"
  by (subst run_from.simps, simp split: sum.splits prod.splits)+

section \<open>What each node does\<close>

text \<open>The fields later nodes fill are empty when a request enters the pipeline.\<close>

definition cleared :: "mercury_state \<Rightarrow> bool" where
  "cleared s \<longleftrightarrow> s_executable_transaction s = None \<and> s_simulation_result s = None \<and>
     s_policy_decision s = None \<and> s_approval_result s = None \<and> s_signed_transaction s = None \<and>
     s_tx_hash s = None \<and> s_execution_result s = None"

definition same_tx :: "mercury_state \<Rightarrow> mercury_state \<Rightarrow> bool" where
  "same_tx s s' \<longleftrightarrow> s_executable_transaction s' = s_executable_transaction s \<and>
     s_signed_transaction s' = s_signed_transaction s \<and> s_tx_hash s' = s_tx_hash s"

lemma with_result_Inr:
  "with_result s r = Inr s' \<longleftrightarrow> (\<exists>res. r = Inr res \<and> s' = s\<lparr>s_execution_result := Some res\<rparr>)"
  by (auto simp: with_result_def rbind_eq_Inr)

lemma result_from_state_status:
  "result_from_state L s st h b g e = Inr res \<Longrightarrow>
     res_status res = st \<and> res_tx_hash res = h \<and> res_error res = e \<and>
     res_policy_decision res = s_policy_decision s"
  by (auto simp: result_from_state_def mk_execution_result_def)

lemma resolve_nonce_total: "\<exists>s'. resolve_nonce d s = Inr s'"
  unfolding resolve_nonce_def rcatch_def by (auto split: sum.splits)

lemma resolve_nonce_keeps:
  assumes "resolve_nonce d s = Inr s'"
  shows "cleared s' = cleared s"
  using assms unfolding resolve_nonce_def rcatch_def
  by (auto simp: rbind_eq_Inr cleared_def split: sum.splits)

lemma populate_gas_total: "\<exists>s'. populate_gas d s = Inr s'"
  unfolding populate_gas_def rcatch_def by (auto split: sum.splits)

text \<open>Gas population writes an executable transaction or an error, never both.\<close>

lemma populate_gas_result:
  assumes "populate_gas d s = Inr s'" and "cleared s"
  shows "cleared (s'\<lparr>s_executable_transaction := None\<rparr>)"
    and "s_error s' = None \<longrightarrow> s_executable_transaction s' \<noteq> None"
    and "s_executable_transaction s' \<noteq> None \<longrightarrow> s_error s' = None"
proof -
  have "(s' = s \<and> s_error s \<noteq> None) \<or> (s_error s = None \<and> (\<exists>t. s' = s\<lparr>s_executable_transaction := Some t\<rparr>))
      \<or> (\<exists>e. s' = s\<lparr>s_error := Some e\<rparr>)"
    using assms(1) unfolding populate_gas_def rcatch_def
    by (auto simp: rbind_eq_Inr split: sum.splits if_splits prod.splits option.splits)
  with assms(2) show "cleared (s'\<lparr>s_executable_transaction := None\<rparr>)"
    and "s_error s' = None \<longrightarrow> s_executable_transaction s' \<noteq> None"
    and "s_executable_transaction s' \<noteq> None \<longrightarrow> s_error s' = None"
    by (auto simp: cleared_def)
qed

lemma failed_simulation:
  "mk_simulation_result \<lparr>sim_status = SIM_FAILED, sim_gas_estimate = None, sim_reason = m\<rparr> =
     Inr \<lparr>sim_status = SIM_FAILED, sim_gas_estimate = None, sim_reason = m\<rparr>"
  by (simp add: mk_simulation_result_def)

text \<open>A passed simulation in the state is the backend's own answer for the executable transaction.\<close>

lemma simulate_result:
  assumes "simulate_transaction d s = Inr s'" and "s_simulation_result s = None"
  shows "\<exists>sim. s' = s\<lparr>s_simulation_result := sim\<rparr>"
    and "s_simulation_result s' = Some sim \<Longrightarrow> sim_passed sim \<Longrightarrow>
      \<exists>t. s_executable_transaction s = Some t \<and> be_simulate (d_backend d) t = Inr sim"
proof -
  let ?body = "rbind (executable_from_state s) (\<lambda>t. be_simulate (d_backend d) t)"
  have cases: "s' = s \<or>
      (\<exists>t sim. s_executable_transaction s = Some t \<and> be_simulate (d_backend d) t = Inr sim \<and>
         s' = s\<lparr>s_simulation_result := Some sim\<rparr>) \<or>
      (\<exists>sim. sim_status sim = SIM_FAILED \<and> s' = s\<lparr>s_simulation_result := Some sim\<rparr>)"
  proof (cases "s_error s = None")
    case True
    show ?thesis
    proof (cases ?body)
      case (Inl e)
      then have "rbind (executable_from_state s) (\<lambda>t. rbind (be_simulate (d_backend d) t)
          (\<lambda>sim. Inr (s\<lparr>s_simulation_result := Some sim\<rparr>))) = Inl e"
        by (auto simp: rbind_eq_Inl)
      with assms(1) True obtain m where "s' = s\<lparr>s_simulation_result := Some
          \<lparr>sim_status = SIM_FAILED, sim_gas_estimate = None, sim_reason = Some m\<rparr>\<rparr>"
        by (fastforce simp: simulate_transaction_def Let_def failed_simulation
            simp del: normalize_exception.simps)
      then show ?thesis by (metis simulation_result.select_convs(1))
    next
      case (Inr sim)
      then obtain t where "s_executable_transaction s = Some t" "be_simulate (d_backend d) t = Inr sim"
        by (auto simp: rbind_eq_Inr executable_from_state_def split: option.splits)
      with assms(1) True show ?thesis
        by (auto simp: simulate_transaction_def executable_from_state_def)
    qed
  qed (use assms(1) in \<open>simp add: simulate_transaction_def\<close>)
  then show "\<exists>sim. s' = s\<lparr>s_simulation_result := sim\<rparr>"
    by (elim disjE exE conjE) (auto intro: exI [of _ "s_simulation_result s"])
  show "\<exists>t. s_executable_transaction s = Some t \<and> be_simulate (d_backend d) t = Inr sim"
    if "s_simulation_result s' = Some sim" and "sim_passed sim"
    using cases assms(2) that by (auto simp: sim_passed_def)
qed

lemma reject_decision_status: "reject_decision i = Inr dec \<Longrightarrow> pd_status dec = REJECTED_BY_POLICY"
  by (auto simp: reject_decision_def mk_policy_decision_def)

text \<open>A decision that is not a rejection is the engine's answer for the state's transaction.\<close>

lemma evaluate_policy_result:
  assumes "evaluate_policy d s = Inr s'"
  shows "\<exists>dec. s' = s\<lparr>s_policy_decision := Some dec\<rparr> \<and> (pd_status dec \<noteq> REJECTED_BY_POLICY \<longrightarrow>
    s_error s = None \<and> (\<exists>t. s_executable_transaction s = Some t \<and>
      evaluate (d_libs d) (d_chains d) (d_policy_engine d) t (s_simulation_result s) = Inr dec))"
proof (cases "s_error s")
  case (Some info)
  with assms show ?thesis
    by (auto simp: evaluate_policy_def rbind_eq_Inr dest: reject_decision_status)
next
  case None
  show ?thesis
  proof (cases "rbind (executable_from_state s)
      (\<lambda>t. evaluate (d_libs d) (d_chains d) (d_policy_engine d) t (s_simulation_result s))")
    case (Inl e)
    then have "rbind (executable_from_state s) (\<lambda>t.
        rbind (evaluate (d_libs d) (d_chains d) (d_policy_engine d) t (s_simulation_result s)) (\<lambda>dec.
        Inr (s\<lparr>s_policy_decision := Some dec\<rparr>))) = Inl e"
      by (auto simp: rbind_eq_Inl)
    with assms None show ?thesis
      by (auto simp: evaluate_policy_def rbind_eq_Inr dest: reject_decision_status)
  next
    case (Inr dec)
    then obtain t where "s_executable_transaction s = Some t"
      "evaluate (d_libs d) (d_chains d) (d_policy_engine d) t (s_simulation_result s) = Inr dec"
      by (auto simp: rbind_eq_Inr executable_from_state_def split: option.splits)
    with assms None show ?thesis
      by (auto simp: evaluate_policy_def executable_from_state_def)
  qed
qed

text \<open>Approval: the approver's answer to the request built from the transaction, logged.\<close>

definition approved_by_human :: "tx_deps \<Rightarrow> executable_transaction \<Rightarrow> approval_request \<Rightarrow> approval_result \<Rightarrow> bool" where
  "approved_by_human d t r a \<longleftrightarrow>
     build_approval_request t = Inr r \<and> d_approver d r = Inr a \<and> apr_approved a"

lemma request_approval_world:
  assumes "request_approval d s w = (o', w')"
  shows "w' = w \<or> (\<exists>r a. w' = log_event (Asked r a) w)"
  using assms
  by (auto simp: request_approval_def ask_approver_def Let_def split: sum.splits prod.splits)

lemma request_approval_result:
  assumes "request_approval d s w = (Inr s', w')" and "s_approval_result s = None"
  shows "(\<exists>t r a. s_executable_transaction s = Some t \<and> approved_by_human d t r a \<and>
            s' = s\<lparr>s_approval_result := Some a\<rparr> \<and> w' = log_event (Asked r (Inr a)) w) \<or>
         (route_after_transaction_approval s' = RejectTransaction \<and> same_tx s s' \<and>
            (\<exists>res. s_execution_result s' = Some res \<and> res_status res = APPROVAL_DENIED))"
proof (cases "rbind (executable_from_state s) build_approval_request")
  case (Inl e)
  with assms show ?thesis
    by (auto simp: request_approval_def ask_approver_def approval_failed_def with_result_Inr
        route_after_transaction_approval_def same_tx_def dest: result_from_state_status)
next
  case (Inr r)
  then obtain t where t: "s_executable_transaction s = Some t" "build_approval_request t = Inr r"
    by (auto simp: rbind_eq_Inr executable_from_state_def split: option.splits)
  have asked: "ask_approver d s w = (d_approver d r, log_event (Asked r (d_approver d r)) w)"
    using Inr by (simp add: ask_approver_def Let_def)
  show ?thesis
  proof (cases "d_approver d r")
    case (Inl e)
    with assms asked show ?thesis
      by (auto simp: request_approval_def approval_failed_def with_result_Inr
          route_after_transaction_approval_def same_tx_def dest: result_from_state_status)
  next
    case (Inr a)
    show ?thesis
    proof (cases "apr_status a = APPROVED")
      case True
      with Inr t asked assms show ?thesis
        by (auto simp: request_approval_def record_approval_def approved_by_human_def apr_approved_def)
    next
      case False
      let ?r = "result_from_state (d_libs d) s APPROVAL_DENIED None None None
        (Some (approval_denied (apr_reason a) [] (Some ''request_approval'')))"
      from False Inr asked assms have "rcatch (rbind ?r (\<lambda>res.
          Inr (s\<lparr>s_approval_result := Some a, s_execution_result := Some res\<rparr>))) (approval_failed d s) = Inr s'"
        by (simp add: request_approval_def record_approval_def)
      with False assms(2) show ?thesis
        by (cases ?r) (auto simp: approval_failed_def with_result_Inr route_after_transaction_approval_def
            same_tx_def dest: result_from_state_status)
    qed
  qed
qed

lemma reject_transaction_result:
  assumes "reject_transaction d s = Inr s'"
  shows "(s_execution_result s \<noteq> None \<and> s' = s) \<or>
    (s_execution_result s = None \<and> (\<exists>res. s' = s\<lparr>s_execution_result := Some res\<rparr> \<and> res_status res = REJECTED))"
  using assms
  by (auto simp: reject_transaction_def with_result_Inr split: if_splits dest: result_from_state_status)

end
