(* ===== verification/Pipeline_Run.thy ===== *)
theory Pipeline_Run
  imports Transaction_Graph
begin

text \<open>
  One request through the pipeline: what has been checked when the idempotency key is
  reserved, what a run that stops earlier leaves behind, and the possible traces from the
  reservation to the end with their effect on the store.
\<close>

section \<open>Up to the idempotency check\<close>

definition checks_passed ::
  "tx_deps \<Rightarrow> executable_transaction \<Rightarrow> simulation_result \<Rightarrow> policy_decision \<Rightarrow> bool" where
  "checks_passed d t sim dec \<longleftrightarrow> be_simulate (d_backend d) t = Inr sim \<and> sim_passed sim \<and>
     evaluate (d_libs d) (d_chains d) (d_policy_engine d) t (Some sim) = Inr dec \<and>
     pd_status dec \<noteq> REJECTED_BY_POLICY"

definition approval_evidence ::
  "tx_deps \<Rightarrow> executable_transaction \<Rightarrow> policy_decision \<Rightarrow> world \<Rightarrow> world \<Rightarrow> bool" where
  "approval_evidence d t dec w0 w \<longleftrightarrow> (pd_status dec = ALLOWED \<and> w = w0) \<or>
     (\<exists>r a. approved_by_human d t r a \<and> w = log_event (Asked r (Inr a)) w0)"

definition ready :: "tx_deps \<Rightarrow> world \<Rightarrow> mercury_state \<Rightarrow> world \<Rightarrow> bool" where
  "ready d w0 s w \<longleftrightarrow> (\<exists>t sim dec. s_executable_transaction s = Some t \<and> checks_passed d t sim dec \<and>
     s_policy_decision s = Some dec \<and> approval_evidence d t dec w0 w \<and>
     s_execution_result s = None \<and> s_signed_transaction s = None \<and> s_tx_hash s = None)"

definition stopped_early :: "world \<Rightarrow> tx_step \<Rightarrow> bool" where
  "stopped_early w0 out \<longleftrightarrow> (snd out = w0 \<or> (\<exists>r a. snd out = log_event (Asked r a) w0)) \<and>
     (\<forall>s. fst out = Inr s \<longrightarrow> (\<exists>res. s_execution_result s = Some res \<and>
        res_status res \<in> {REJECTED, APPROVAL_DENIED}))"

lemma evaluate_simulation_passed:
  assumes "evaluate L C E t sim = Inr dec" and "pd_status dec \<noteq> REJECTED_BY_POLICY"
  shows "\<exists>r. sim = Some r \<and> sim_passed r"
proof -
  from assms have "rejection_reason L C E t sim = Inr None"
    by (auto simp: evaluate_def rbind_eq_Inr mk_policy_decision_def split: option.splits)
  then have "simulation_failure_reason sim = None"
    by (auto simp: rejection_reason_def rbind_eq_Inr)
  then show ?thesis by (simp add: simulation_reason_None)
qed

text \<open>Rejecting keeps the world and leaves a rejected or denied result.\<close>

lemma run_reject_stopped:
  assumes "snd out = w1" and "w1 = w0 \<or> (\<exists>r a. w1 = log_event (Asked r a) w0)"
    and "run_from d RejectTransaction s w1 = out"
    and "\<And>res. s_execution_result s = Some res \<Longrightarrow> res_status res = APPROVAL_DENIED"
  shows "stopped_early w0 out"
proof -
  have "\<exists>res. s_execution_result s' = Some res \<and> res_status res \<in> {REJECTED, APPROVAL_DENIED}"
    if "fst out = Inr s'" for s'
  proof -
    from assms(3) that have "reject_transaction d s = Inr s'" by (auto simp: run_from_unfold)
    from reject_transaction_result [OF this] assms(4) show ?thesis by auto
  qed
  with assms(1,2) show ?thesis by (auto simp: stopped_early_def)
qed

lemma run_approval_cases:
  assumes "s_executable_transaction s = Some t" and "checks_passed d t sim dec"
    and "s_policy_decision s = Some dec" and "s_approval_result s = None"
    and "s_execution_result s = None" and "s_signed_transaction s = None" and "s_tx_hash s = None"
    and run: "run_from d RequestApproval s w0 = out"
  shows "stopped_early w0 out \<or> (\<exists>s' w'. ready d w0 s' w' \<and> run_from d CheckIdempotency s' w' = out)"
proof -
  obtain r w' where q: "request_approval d s w0 = (r, w')" by fastforce
  note world = request_approval_world [OF q]
  show ?thesis
  proof (cases r)
    case (Inl e)
    with q run have "out = (Inl e, w')" by (simp add: run_from_unfold)
    with world show ?thesis by (auto simp: stopped_early_def)
  next
    case (Inr s')
    with q run have out: "run_from d (route_after_transaction_approval s') s' w' = out"
      by (simp add: run_from_unfold)
    from request_approval_result [of d s w0 s' w'] q Inr assms(4)
    consider (yes) t' rq a where "s_executable_transaction s = Some t'" "approved_by_human d t' rq a"
        "s' = s\<lparr>s_approval_result := Some a\<rparr>" "w' = log_event (Asked rq (Inr a)) w0"
      | (no) res where "route_after_transaction_approval s' = RejectTransaction"
        "s_execution_result s' = Some res" "res_status res = APPROVAL_DENIED"
      by blast
    then show ?thesis
    proof cases
      case yes
      then have "route_after_transaction_approval s' = CheckIdempotency"
        by (simp add: route_after_transaction_approval_def approved_by_human_def apr_approved_def)
      moreover have "ready d w0 s' w'"
        unfolding ready_def approval_evidence_def using yes assms by auto
      ultimately show ?thesis using out by auto
    next
      case no
      then have "run_from d RejectTransaction s' w' = out" and "snd out = w'"
        using out by (auto simp: run_from_unfold)
      with no world show ?thesis using run_reject_stopped [of out w' w0 d s'] by simp
    qed
  qed
qed

lemma run_policy_cases:
  assumes "evaluate_policy d s = Inr s'" and "run_from d (route_after_transaction_policy s') s' w0 = out"
    and "s_approval_result s = None" and "s_execution_result s = None"
    and "s_signed_transaction s = None" and "s_tx_hash s = None"
    and sim: "\<And>t sim. s_executable_transaction s = Some t \<Longrightarrow> s_simulation_result s = Some sim \<Longrightarrow>
      sim_passed sim \<Longrightarrow> be_simulate (d_backend d) t = Inr sim"
  shows "stopped_early w0 out \<or> (\<exists>s' w'. ready d w0 s' w' \<and> run_from d CheckIdempotency s' w' = out)"
proof -
  from evaluate_policy_result [OF assms(1)] obtain dec where s': "s' = s\<lparr>s_policy_decision := Some dec\<rparr>"
    and dec: "pd_status dec \<noteq> REJECTED_BY_POLICY \<longrightarrow> (\<exists>t. s_executable_transaction s = Some t \<and>
      evaluate (d_libs d) (d_chains d) (d_policy_engine d) t (s_simulation_result s) = Inr dec)"
    by blast
  have passed: "\<exists>t sim. s_executable_transaction s' = Some t \<and> checks_passed d t sim dec"
    if nr: "pd_status dec \<noteq> REJECTED_BY_POLICY"
  proof -
    from dec nr obtain t where t: "s_executable_transaction s = Some t"
      "evaluate (d_libs d) (d_chains d) (d_policy_engine d) t (s_simulation_result s) = Inr dec" by blast
    with evaluate_simulation_passed [OF t(2) nr] sim s' nr show ?thesis
      by (auto simp: checks_passed_def)
  qed
  show ?thesis
  proof (cases "pd_status dec")
    case REJECTED_BY_POLICY
    then have "run_from d RejectTransaction s' w0 = out"
      using assms(2) s' by (simp add: route_after_transaction_policy_def)
    moreover from this have "snd out = w0" by (auto simp: run_from_unfold)
    ultimately show ?thesis using run_reject_stopped [of out w0 w0 d s'] s' assms(4) by simp
  next
    case NEEDS_APPROVAL
    then have "run_from d RequestApproval s' w0 = out"
      using assms(2) s' by (simp add: route_after_transaction_policy_def)
    moreover obtain t sim where "s_executable_transaction s' = Some t" "checks_passed d t sim dec"
      using passed NEEDS_APPROVAL by auto
    ultimately show ?thesis using run_approval_cases [of s' t d sim dec w0 out] s' assms by simp
  next
    case ALLOWED
    then have "run_from d CheckIdempotency s' w0 = out"
      using assms(2) s' by (simp add: route_after_transaction_policy_def)
    moreover have "ready d w0 s' w0"
      using passed ALLOWED s' assms by (auto simp: ready_def approval_evidence_def)
    ultimately show ?thesis by blast
  qed
qed

text \<open>Every run stops before reserving a key or reaches the reservation with all checks passed.\<close>

lemma run_front_cases:
  assumes "cleared s0" and "run_pipeline d s0 w0 = out"
  shows "stopped_early w0 out \<or> (\<exists>s w. ready d w0 s w \<and> run_from d CheckIdempotency s w = out)"
proof -
  obtain s1 where s1: "resolve_nonce d s0 = Inr s1" using resolve_nonce_total by blast
  obtain s2 where s2: "populate_gas d s1 = Inr s2" using populate_gas_total by blast
  have c1: "cleared s1" using resolve_nonce_keeps [OF s1] assms(1) by simp
  note c2 = populate_gas_result(1) [OF s2 c1]
  have out: "run_from d SimulateTransaction s2 w0 = out"
    using assms(2) s1 s2 by (simp add: run_pipeline_def run_from_unfold)
  show ?thesis
  proof (cases "simulate_transaction d s2")
    case (Inl e)
    with out show ?thesis by (auto simp: run_from_unfold stopped_early_def)
  next
    case (Inr s3)
    have none: "s_simulation_result s2 = None" using c2 by (simp add: cleared_def)
    note sim = simulate_result [OF Inr none]
    from sim(1) c2 have c3: "s_approval_result s3 = None" "s_execution_result s3 = None"
      "s_signed_transaction s3 = None" "s_tx_hash s3 = None"
      "s_executable_transaction s3 = s_executable_transaction s2"
      by (auto simp: cleared_def)
    from out Inr have out3: "run_from d EvaluatePolicy s3 w0 = out" by (simp add: run_from_unfold)
    show ?thesis
    proof (cases "evaluate_policy d s3")
      case (Inl e)
      with out3 show ?thesis by (auto simp: run_from_unfold stopped_early_def)
    next
      case (Inr s4)
      with out3 have "run_from d (route_after_transaction_policy s4) s4 w0 = out"
        by (simp add: run_from_unfold)
      from run_policy_cases [OF Inr this c3(1-4)] sim(2) c3(5) show ?thesis by fastforce
    qed
  qed
qed

section \<open>From the reservation to the end\<close>

definition fresh_record :: "string \<Rightarrow> idempotency_record" where
  "fresh_record k = \<lparr>ik_key = k, ik_status = IN_FLIGHT, ik_result = None\<rparr>"

definition done_record :: "string \<Rightarrow> execution_result \<Rightarrow> idempotency_record" where
  "done_record k res = \<lparr>ik_key = k, ik_status = COMPLETED, ik_result = Some res\<rparr>"

text \<open>A run that failed before the transaction was submitted.\<close>

definition failed_unsent :: "exn + mercury_state \<Rightarrow> bool" where
  "failed_unsent o' \<longleftrightarrow> (\<forall>s. o' = Inr s \<longrightarrow>
     (\<exists>res. s_execution_result s = Some res \<and> res_status res = FAILED \<and> res_tx_hash res = None))"

text \<open>
  The traces of a run that holds the key \<open>k\<close> over the store \<open>st\<close> without it: events,
  outcome, final store.
\<close>

inductive pipeline_tail ::
  "tx_deps \<Rightarrow> executable_transaction \<Rightarrow> string \<Rightarrow> idem_store
     \<Rightarrow> tx_event list \<Rightarrow> exn + mercury_state \<Rightarrow> idem_store \<Rightarrow> bool"
  for d t k st where
  not_built:
    "build_sign_request (d_libs d) t = Inl e \<Longrightarrow> failed_unsent o' \<Longrightarrow> pipeline_tail d t k st [] o' st"
| sign_failed:
    "build_sign_request (d_libs d) t = Inr r \<Longrightarrow> sg_sign_transaction (d_signer d) r = Inl e \<Longrightarrow>
     failed_unsent o' \<Longrightarrow> pipeline_tail d t k st [SignerCalled r (Inl e)] o' st"
| broadcast_failed:
    "build_sign_request (d_libs d) t = Inr r \<Longrightarrow> sg_sign_transaction (d_signer d) r = Inr x \<Longrightarrow>
     be_broadcast (d_backend d) x = Inl e \<Longrightarrow> failed_unsent o' \<Longrightarrow>
     pipeline_tail d t k st [SignerCalled r (Inr x), Broadcast x (Inl e)] o' st"
| submitted:
    "build_sign_request (d_libs d) t = Inr r \<Longrightarrow> sg_sign_transaction (d_signer d) r = Inr x \<Longrightarrow>
     be_broadcast (d_backend d) x = Inr h \<Longrightarrow> s_execution_result s' = Some res \<Longrightarrow>
     pipeline_tail d t k st [SignerCalled r (Inr x), Broadcast x (Inr h)] (Inr s')
       (st(k \<mapsto> done_record k res))"
| submitted_blank_hash:
    "build_sign_request (d_libs d) t = Inr r \<Longrightarrow> sg_sign_transaction (d_signer d) r = Inr x \<Longrightarrow>
     be_broadcast (d_backend d) x = Inr h \<Longrightarrow> py_strip h = [] \<Longrightarrow> s_execution_result s' \<noteq> None \<Longrightarrow>
     pipeline_tail d t k st [SignerCalled r (Inr x), Broadcast x (Inr h)] (Inr s') st"
| submitted_raised:
    "build_sign_request (d_libs d) t = Inr r \<Longrightarrow> sg_sign_transaction (d_signer d) r = Inr x \<Longrightarrow>
     be_broadcast (d_backend d) x = Inr h \<Longrightarrow>
     pipeline_tail d t k st [SignerCalled r (Inr x), Broadcast x (Inr h)] (Inl e)
       (st(k \<mapsto> fresh_record k))"

inductive_cases pipeline_tailE: "pipeline_tail d t k st evs o' st'"

text \<open>The state of a request that holds its key.\<close>

definition holds_key :: "mercury_state \<Rightarrow> executable_transaction \<Rightarrow> string \<Rightarrow> bool" where
  "holds_key s t k \<longleftrightarrow> s_executable_transaction s = Some t \<and> exec_idempotency_key t = Some k \<and> k \<noteq> []"

lemma release_fresh [simp]:
  "st k = None \<Longrightarrow> store_release (st(k \<mapsto> fresh_record k)) k = st"
  by (auto simp: store_release_def fresh_record_def)

lemma holds_key_state:
  assumes "holds_key s t k"
  shows "idempotency_key_from_state s = Some k" "executable_from_state s = Inr t"
  using assms by (simp_all add: holds_key_def idempotency_key_from_state_def executable_from_state_def)

lemma store_complete_done:
  "k \<noteq> [] \<Longrightarrow> store_complete st k res = Inr (done_record k res, st(k \<mapsto> done_record k res))"
  by (simp add: store_complete_Inr done_record_def)

lemma failed_unsent_result:
  "failed_unsent (with_result s (result_from_state L s FAILED None None None e))"
  by (auto simp: failed_unsent_def with_result_Inr dest: result_from_state_status)

lemma failed_unsent_Inl [simp]: "failed_unsent (Inl e)"
  by (simp add: failed_unsent_def)

text \<open>Monitoring keeps the log and records the result under the key, or holds the key.\<close>

lemma monitor_body_holds:
  assumes "holds_key s t k" and "monitor_body d s w = Inr (res, w')"
  shows "w' = w\<lparr>w_store := (w_store w)(k \<mapsto> done_record k res)\<rparr>"
proof -
  from assms obtain res' where rr: "receipt_result d s = Inr (t, res')"
    and c: "complete_with t res' w = Inr w'" and "res = res'"
    by (auto simp: monitor_body_def rbind_eq_Inr receipt_result_def holds_key_state)
  with assms(1) show ?thesis
    by (simp add: complete_with_def holds_key_def store_complete_done)
qed

definition monitor_outcome :: "string \<Rightarrow> string \<Rightarrow> world \<Rightarrow> tx_step \<Rightarrow> bool" where
  "monitor_outcome k h w out \<longleftrightarrow> w_log (snd out) = w_log w \<and>
     ((\<exists>s' res. fst out = Inr s' \<and> s_execution_result s' = Some res \<and>
         w_store (snd out) = (w_store w)(k \<mapsto> done_record k res)) \<or>
      (\<exists>s'. fst out = Inr s' \<and> s_execution_result s' \<noteq> None \<and> py_strip h = [] \<and>
         w_store (snd out) = store_release (w_store w) k) \<or>
      (\<exists>e. fst out = Inl e \<and> w_store (snd out) = w_store w))"

lemma monitor_holds:
  assumes h: "holds_key s t k" and none: "s_execution_result s = None" and hash: "s_tx_hash s = Some h"
  shows "monitor_outcome k h w (monitor_receipt d s w)"
proof (cases "monitor_body d s w")
  case (Inr p)
  obtain res w1 where p: "p = (res, w1)" by fastforce
  with Inr monitor_body_holds [OF h, of d w res w1]
  have "w1 = w\<lparr>w_store := (w_store w)(k \<mapsto> done_record k res)\<rparr>" by simp
  with Inr p none show ?thesis by (simp add: monitor_receipt_def monitor_outcome_def)
next
  case (Inl e)
  have "k \<noteq> []" using h by (simp add: holds_key_def)
  then have "monitor_outcome k h w (monitor_failed d s w e)"
    using holds_key_state(1) [OF h] hash
    by (auto simp: monitor_failed_def monitor_outcome_def finalize_after_monitor_failure_def
        store_complete_done simp del: normalize_exception.simps split: sum.splits)
  with Inl none show ?thesis by (simp add: monitor_receipt_def)
qed

lemma monitor_done: "s_execution_result s \<noteq> None \<Longrightarrow> monitor_receipt d s w = (Inr s, w)"
  by (simp add: monitor_receipt_def)

text \<open>The part of a run after the signature.\<close>

lemma broadcast_tail:
  assumes h: "holds_key s t k" and none: "s_execution_result s = None"
    and x: "s_signed_transaction s = Some x" and free: "st k = None"
    and store: "w_store w = st(k \<mapsto> fresh_record k)"
    and run: "run_from d BroadcastTransaction s w = (o', w')"
  shows "(\<exists>e. be_broadcast (d_backend d) x = Inl e \<and> failed_unsent o' \<and> w_store w' = st \<and>
           w_log w' = w_log w @ [Broadcast x (Inl e)]) \<or>
         (\<exists>h'. be_broadcast (d_backend d) x = Inr h' \<and>
           w_log w' = w_log w @ [Broadcast x (Inr h')] \<and>
           ((\<exists>s' res. o' = Inr s' \<and> s_execution_result s' = Some res \<and> w_store w' = st(k \<mapsto> done_record k res)) \<or>
            (\<exists>s'. o' = Inr s' \<and> s_execution_result s' \<noteq> None \<and> py_strip h' = [] \<and> w_store w' = st) \<or>
            (\<exists>e. o' = Inl e \<and> w_store w' = st(k \<mapsto> fresh_record k))))"
proof (cases "be_broadcast (d_backend d) x")
  case (Inl e)
  let ?w = "log_event (Broadcast x (Inl e)) w"
  let ?r = "with_result s (result_from_state (d_libs d) s FAILED None None None
    (Some (normalize_exn_code (d_libs d) e ''broadcast_failed'' ''broadcast_transaction'')))"
  have b: "broadcast_transaction d s w = (?r, ?w\<lparr>w_store := st\<rparr>)"
    using Inl none x holds_key_state(1) [OF h] store free
    by (simp add: broadcast_transaction_def call_broadcast_def release_after_pre_broadcast_failure_def
        Let_def del: normalize_exception.simps)
  have "o' = ?r \<and> w' = ?w\<lparr>w_store := st\<rparr>"
  proof (cases ?r)
    case (Inr s')
    then have "s_execution_result s' \<noteq> None" by (auto simp: with_result_Inr)
    with Inr run b show ?thesis by (simp add: run_from_unfold monitor_done del: normalize_exception.simps)
  qed (use run b in \<open>simp add: run_from_unfold del: normalize_exception.simps\<close>)
  with Inl failed_unsent_result show ?thesis by auto
next
  case (Inr h')
  let ?s = "s\<lparr>s_tx_hash := Some h'\<rparr>" and ?w = "log_event (Broadcast x (Inr h')) w"
  have "run_from d BroadcastTransaction s w = monitor_receipt d ?s ?w"
    using Inr none x by (simp add: run_from_unfold broadcast_transaction_def call_broadcast_def Let_def)
  moreover have "holds_key ?s t k" using h by (simp add: holds_key_def)
  ultimately have "monitor_outcome k h' ?w (o', w')"
    using monitor_holds [of ?s t k h' ?w d] none run by simp
  with Inr store free show ?thesis by (auto simp: monitor_outcome_def)
qed

lemma sign_tail:
  assumes h: "holds_key s t k" and none: "s_execution_result s = None"
    and free: "st k = None" and store: "w_store w = st(k \<mapsto> fresh_record k)"
    and run: "run_from d SignTransaction s w = (o', w')"
  shows "\<exists>evs. w_log w' = w_log w @ evs \<and> pipeline_tail d t k st evs o' (w_store w')"
proof -
  have failed: "o' = with_result s r \<and> w' = release_after_pre_broadcast_failure s w1"
    if "sign_transaction d s w = (with_result s r, release_after_pre_broadcast_failure s w1)" for r w1
  proof (cases "with_result s r")
    case (Inr s')
    then have "s_execution_result s' \<noteq> None" by (auto simp: with_result_Inr)
    with Inr run that show ?thesis
      by (simp add: run_from_unfold monitor_done broadcast_transaction_def)
  qed (use run that in \<open>simp add: run_from_unfold\<close>)
  have released: "w_store (release_after_pre_broadcast_failure s w1) = st \<and>
      w_log (release_after_pre_broadcast_failure s w1) = w_log w1" if "w_store w1 = w_store w" for w1
    using that holds_key_state(1) [OF h] store free by (simp add: release_after_pre_broadcast_failure_def)
  show ?thesis
  proof (cases "build_sign_request (d_libs d) t")
    case (Inl e)
    then have "call_signer d s w = (Inl e, w)" using holds_key_state(2) [OF h] by (simp add: call_signer_def)
    then have "failed_unsent o' \<and> w_store w' = st \<and> w_log w' = w_log w"
      using failed released [of w] failed_unsent_result by (simp add: sign_transaction_def del: normalize_exception.simps)
    with Inl show ?thesis by (auto intro: pipeline_tail.not_built)
  next
    case (Inr r)
    show ?thesis
    proof (cases "sg_sign_transaction (d_signer d) r")
      case (Inl e)
      let ?w = "log_event (SignerCalled r (Inl e)) w"
      have "call_signer d s w = (Inl e, ?w)"
        using Inr Inl holds_key_state(2) [OF h] by (simp add: call_signer_def Let_def)
      then have "failed_unsent o' \<and> w_store w' = st \<and> w_log w' = w_log ?w"
        using failed released [of ?w] failed_unsent_result by (simp add: sign_transaction_def del: normalize_exception.simps)
      with Inr Inl show ?thesis by (auto intro: pipeline_tail.sign_failed)
    next
      case x: (Inr x)
      let ?s = "s\<lparr>s_signed_transaction := Some x\<rparr>" and ?w = "log_event (SignerCalled r (Inr x)) w"
      have "call_signer d s w = (Inr x, ?w)"
        using Inr x holds_key_state(2) [OF h] by (simp add: call_signer_def Let_def)
      then have "run_from d BroadcastTransaction ?s ?w = (o', w')"
        using run by (simp add: run_from_unfold(7) sign_transaction_def)
      moreover have "holds_key ?s t k" using h by (simp add: holds_key_def)
      ultimately show ?thesis
        using broadcast_tail [of ?s t k x st ?w d o' w'] none free store Inr x
        by (auto intro: pipeline_tail.intros)
    qed
  qed
qed

section \<open>The reservation\<close>

lemma rejected_result:
  assumes "run_from d (route_after_idempotency s') s' w = (o', w')" and "s_execution_result s' = Some res"
  shows "o' = Inr s' \<and> w' = w"
  using assms by (simp add: route_after_idempotency_def run_from_unfold reject_transaction_def)

text \<open>A request that reaches the check holds a free key and goes on, or ends there.\<close>

lemma check_free:
  assumes "holds_key s t k" and "w_store w k = None" and "s_execution_result s = None"
  shows "run_from d CheckIdempotency s w =
    run_from d SignTransaction s (w\<lparr>w_store := (w_store w)(k \<mapsto> fresh_record k)\<rparr>)"
proof -
  have "check_idempotency d s w = (Inr s, w\<lparr>w_store := (w_store w)(k \<mapsto> fresh_record k)\<rparr>)"
    using assms(1,2) holds_key_state(2) [OF assms(1)]
    by (simp add: check_idempotency_def holds_key_def store_reserve_free Let_def fresh_record_def)
  with assms(3) show ?thesis by (simp add: run_from_unfold(6) route_after_idempotency_def)
qed

lemma check_taken:
  assumes "s_executable_transaction s = Some t" and "exec_idempotency_key t = Some k"
    and "w_store w k = Some r" and "s_execution_result s = None"
    and "run_from d CheckIdempotency s w = (o', w')"
  shows "w' = w" and "ik_result r = Some res \<Longrightarrow> \<exists>s'. o' = Inr s' \<and> s_execution_result s' = Some res"
    and "ik_result r = None \<Longrightarrow> o' = Inr s' \<Longrightarrow> \<exists>res. s_execution_result s' = Some res \<and>
      res_status res = REJECTED \<and> res_tx_hash res = None \<and>
      res_error res = Some (idempotency_conflict [] (Some ''check_idempotency''))"
proof -
  have c: "check_idempotency d s w = (replay_or_conflict d s r, w)"
    using assms(1-3) by (simp add: check_idempotency_def executable_from_state_def store_reserve_def)
  have r: "\<exists>res. s_execution_result s' = Some res" if "replay_or_conflict d s r = Inr s'" for s'
    using that by (auto simp: replay_or_conflict_def with_result_Inr split: option.splits)
  have o': "o' = replay_or_conflict d s r \<and> w' = w"
  proof (cases "replay_or_conflict d s r")
    case (Inr s')
    with r obtain res where "s_execution_result s' = Some res" by blast
    with Inr c assms(5) rejected_result show ?thesis by (fastforce simp: run_from_unfold(6))
  qed (use c assms(5) in \<open>simp add: run_from_unfold(6)\<close>)
  then show "w' = w" by simp
  show "\<exists>s'. o' = Inr s' \<and> s_execution_result s' = Some res" if "ik_result r = Some res"
    using that o' by (simp add: replay_or_conflict_def)
  show "\<exists>res. s_execution_result s' = Some res \<and> res_status res = REJECTED \<and> res_tx_hash res = None \<and>
      res_error res = Some (idempotency_conflict [] (Some ''check_idempotency''))"
    if "ik_result r = None" "o' = Inr s'"
    using that o' by (auto simp: replay_or_conflict_def with_result_Inr dest: result_from_state_status)
qed

lemma check_no_key:
  assumes "s_executable_transaction s = Some t" and "key_missing (exec_idempotency_key t)"
    and "w_store w [] = None" and "run_from d CheckIdempotency s w = (o', w')"
  shows "w' = w" and "o' = Inr s' \<Longrightarrow> \<exists>res. s_execution_result s' = Some res \<and> res_status res = REJECTED"
proof -
  have "\<exists>e. check_idempotency d s w = (idempotency_failed d s e, w)"
  proof (cases "exec_idempotency_key t")
    case None
    with assms(1) show ?thesis by (auto simp: check_idempotency_def executable_from_state_def)
  next
    case (Some k)
    with assms(2) have "k = []" by (simp add: key_missing_def)
    with Some assms(1,3) show ?thesis
      by (auto simp: check_idempotency_def executable_from_state_def store_reserve_def
          mk_idempotency_record_def finish_def)
  qed
  then obtain e where c: "check_idempotency d s w = (idempotency_failed d s e, w)" by blast
  have o': "o' = idempotency_failed d s e \<and> w' = w"
  proof (cases "idempotency_failed d s e")
    case (Inr s')
    then obtain res where "s_execution_result s' = Some res"
      by (auto simp: idempotency_failed_def with_result_Inr)
    with Inr c assms(4) rejected_result show ?thesis by (fastforce simp: run_from_unfold(6))
  qed (use c assms(4) in \<open>simp add: run_from_unfold(6)\<close>)
  then show "w' = w" by simp
  show "\<exists>res. s_execution_result s' = Some res \<and> res_status res = REJECTED" if "o' = Inr s'"
    using that o' by (auto simp: idempotency_failed_def with_result_Inr dest: result_from_state_status)
qed

section \<open>Whole runs\<close>

definition is_asked :: "tx_event \<Rightarrow> bool" where
  "is_asked ev \<longleftrightarrow> (case ev of Asked _ _ \<Rightarrow> True | _ \<Rightarrow> False)"

lemma is_asked_simps [simp]:
  "is_asked (Asked r a)" "\<not> is_asked (SignerCalled q x)" "\<not> is_asked (Broadcast y b)"
  by (simp_all add: is_asked_def)

text \<open>From the reservation on, no node replaces the transaction.\<close>

lemma node_keeps_executable:
  assumes "run_node d n s w = (Inr s', w')" and "node_rank n \<le> 4"
  shows "s_executable_transaction s' = s_executable_transaction s"
  using assms
  by (cases n) (auto simp: check_idempotency_def idempotency_failed_def replay_or_conflict_def with_result_Inr
      sign_transaction_def broadcast_transaction_def monitor_receipt_def monitor_failed_def reject_transaction_def Let_def
      simp del: normalize_exception.simps
      split: sum.splits option.splits prod.splits reserve_outcome.splits if_splits)

lemma run_keeps_executable:
  "run_from d n s w = (Inr s', w') \<Longrightarrow> node_rank n \<le> 4 \<Longrightarrow> s_executable_transaction s' = s_executable_transaction s"
proof (induction "node_rank n" arbitrary: n s w rule: less_induct)
  case less
  from less.prems(1) obtain s1 w1 where node: "run_node d n s w = (Inr s1, w1)"
    by (simp add: run_from.simps [of _ n] split: sum.splits prod.splits)
  note kept = node_keeps_executable [OF node less.prems(2)]
  show ?case
  proof (cases "next_node n s1")
    case None
    with less.prems(1) node kept show ?thesis by (simp add: run_from.simps [of _ n])
  next
    case (Some n')
    with less.prems(1) node have "run_from d n' s1 w1 = (Inr s', w')" by (simp add: run_from.simps [of _ n])
    from less.hyps [OF next_node_rank [OF Some] this] next_node_rank [OF Some] less.prems(2) kept
    show ?thesis by simp
  qed
qed

text \<open>The three ways a run can go.\<close>

inductive run_shape :: "tx_deps \<Rightarrow> world \<Rightarrow> exn + mercury_state \<Rightarrow> world \<Rightarrow> bool" for d w0 where
  early: "stopped_early w0 (o', w') \<Longrightarrow> run_shape d w0 o' w'"
| refused:
    "approval_evidence d t dec w0 w \<Longrightarrow> checks_passed d t sim dec \<Longrightarrow>
     key_missing (exec_idempotency_key t) \<or>
       (\<exists>k r. exec_idempotency_key t = Some k \<and> w_store w0 k = Some r \<and>
         (\<forall>res. ik_result r = Some res \<longrightarrow> (\<exists>s'. o' = Inr s' \<and> s_execution_result s' = Some res))) \<Longrightarrow>
     (\<forall>s'. o' = Inr s' \<longrightarrow> s_execution_result s' \<noteq> None) \<Longrightarrow>
     (\<forall>s'. o' = Inr s' \<longrightarrow> s_executable_transaction s' = Some t) \<Longrightarrow>
     run_shape d w0 o' w"
| executed:
    "approval_evidence d t dec w0 w \<Longrightarrow> checks_passed d t sim dec \<Longrightarrow>
     exec_idempotency_key t = Some k \<Longrightarrow> k \<noteq> [] \<Longrightarrow> w_store w0 k = None \<Longrightarrow>
     pipeline_tail d t k (w_store w0) evs o' (w_store w') \<Longrightarrow> w_log w' = w_log w @ evs \<Longrightarrow>
     (\<forall>s'. o' = Inr s' \<longrightarrow> s_executable_transaction s' = Some t) \<Longrightarrow>
     run_shape d w0 o' w'"

inductive_cases run_shapeE: "run_shape d w0 o' w'"

lemma approval_evidence_store: "approval_evidence d t dec w0 w \<Longrightarrow> w_store w = w_store w0"
  by (auto simp: approval_evidence_def)

lemma approval_evidence_log:
  "approval_evidence d t dec w0 w \<Longrightarrow> \<exists>as. w_log w = w_log w0 @ as \<and> length as \<le> 1 \<and> (\<forall>ev \<in> set as. is_asked ev)"
  by (auto simp: approval_evidence_def is_asked_def)

lemma approval_evidence_asked:
  "approval_evidence d t dec w0 w \<Longrightarrow> w_log w0 = [] \<Longrightarrow> ev \<in> set (w_log w) \<Longrightarrow> is_asked ev"
  by (auto simp: approval_evidence_def)

lemma run_pipeline_shape:
  assumes "cleared s0" and "wf_store (w_store w0)" and "run_pipeline d s0 w0 = (o', w')"
  shows "run_shape d w0 o' w'"
  using run_front_cases [OF assms(1,3)]
proof
  assume "\<exists>s w. ready d w0 s w \<and> run_from d CheckIdempotency s w = (o', w')"
  then obtain s w where rd: "ready d w0 s w" and run: "run_from d CheckIdempotency s w = (o', w')" by blast
  from rd obtain t sim dec where t: "s_executable_transaction s = Some t"
    and c: "checks_passed d t sim dec" and ev: "approval_evidence d t dec w0 w"
    and none: "s_execution_result s = None" by (auto simp: ready_def)
  note st = approval_evidence_store [OF ev]
  have kept: "\<forall>s'. o' = Inr s' \<longrightarrow> s_executable_transaction s' = Some t"
    using run_keeps_executable [of d CheckIdempotency s w] run t by auto
  have nil: "w_store w [] = None"
    using assms(2) wf_storeD [of "w_store w0" "[]"] st by (cases "w_store w []") (auto simp: wf_record_def)
  show ?thesis
  proof (cases "key_missing (exec_idempotency_key t)")
    case True
    note nk = check_no_key [OF t True nil run]
    have "\<forall>s'. o' = Inr s' \<longrightarrow> s_execution_result s' \<noteq> None" using nk(2) by fastforce
    with run_shape.refused [OF ev c, of o'] True nk(1) kept show ?thesis by simp
  next
    case False
    then obtain k where k: "exec_idempotency_key t = Some k" "k \<noteq> []"
      by (cases "exec_idempotency_key t") (auto simp: key_missing_def)
    show ?thesis
    proof (cases "w_store w k")
      case None
      have h: "holds_key s t k" using t k by (simp add: holds_key_def)
      from check_free [OF h None none] run
      have "run_from d SignTransaction s (w\<lparr>w_store := (w_store w)(k \<mapsto> fresh_record k)\<rparr>) = (o', w')"
        by simp
      then obtain evs where
        "w_log w' = w_log w @ evs" "pipeline_tail d t k (w_store w) evs o' (w_store w')"
        using sign_tail [where st = "w_store w" and d = d and o' = o' and w' = w' and
            w = "w\<lparr>w_store := (w_store w)(k \<mapsto> fresh_record k)\<rparr>", OF h none None] by auto
      with run_shape.executed [OF ev c k] None st kept show ?thesis by simp
    next
      case (Some r)
      note tk = check_taken [OF t k(1) Some none run]
      have "\<forall>s'. o' = Inr s' \<longrightarrow> s_execution_result s' \<noteq> None"
        using tk(2,3) by (cases "ik_result r") auto
      with run_shape.refused [OF ev c] k Some st tk(1,2) kept show ?thesis by auto
    qed
  qed
qed (rule run_shape.early)

lemma tail_signer_call:
  "pipeline_tail d t k st evs o' st' \<Longrightarrow> SignerCalled r x \<in> set evs \<Longrightarrow> build_sign_request (d_libs d) t = Inr r"
  by (auto elim!: pipeline_tailE)

lemma tail_events:
  "pipeline_tail d t k st evs o' st' \<Longrightarrow>
     evs = [] \<or> (\<exists>r e. evs = [SignerCalled r (Inl e)]) \<or>
     (\<exists>r x b. evs = [SignerCalled r (Inr x), Broadcast x b])"
  by (auto elim!: pipeline_tailE)

lemma tail_store:
  "pipeline_tail d t k st evs o' st' \<Longrightarrow> \<forall>x h. Broadcast x (Inr h) \<notin> set evs \<Longrightarrow> st' = st"
  by (auto elim!: pipeline_tailE)

lemma tail_submitted:
  "pipeline_tail d t k st evs (Inr s') st' \<Longrightarrow> Broadcast x (Inr h) \<in> set evs \<Longrightarrow>
     \<exists>r res. build_sign_request (d_libs d) t = Inr r \<and> sg_sign_transaction (d_signer d) r = Inr x \<and>
       evs = [SignerCalled r (Inr x), Broadcast x (Inr h)] \<and> s_execution_result s' = Some res \<and>
       (st' = st(k \<mapsto> done_record k res) \<or> py_strip h = [] \<and> st' = st)"
  by (auto elim!: pipeline_tailE)

text \<open>A request to the signer that carries value or calldata.\<close>

definition sign_request_moves_value :: "sign_transaction_request \<Rightarrow> bool" where
  "sign_request_moves_value r \<longleftrightarrow> (let t = evm_transaction (sr_prepared_transaction r) in
     dget_none t ''data'' \<noteq> PStr ''0x'' \<or> (\<exists>v > 0. dget_none t ''value'' = PInt v))"

lemma sign_request_value_moving:
  assumes "build_sign_request L t = Inr r" and "sign_request_moves_value r"
  shows "is_value_moving t"
  using assms
  by (auto simp: build_sign_request_def to_prepared_evm_transaction_def mk_prepared_evm_transaction_def
      mk_sign_transaction_request_def sign_request_moves_value_def is_value_moving_def rbind_eq_Inr finish_def
      dget_none_def Let_def split: if_splits)

lemma signed_run_evidence:
  assumes "cleared s0" and "wf_store (w_store w0)" and "run_pipeline d s0 w0 = (o', w')"
    and "SignerCalled r x \<in> set (w_log w')" and "w_log w0 = []"
  shows "\<exists>t sim dec k. build_sign_request (d_libs d) t = Inr r \<and> checks_passed d t sim dec \<and>
    (is_value_moving t \<longrightarrow> (\<exists>q a. approved_by_human d t q a \<and> Asked q (Inr a) \<in> set (w_log w'))) \<and>
    exec_idempotency_key t = Some k \<and> k \<noteq> [] \<and> w_store w0 k = None"
  using run_pipeline_shape [OF assms(1-3)]
proof cases
  case early
  with assms(4,5) show ?thesis by (auto simp: stopped_early_def)
next
  case (refused t dec sim)
  then show ?thesis using approval_evidence_asked [OF refused(1) _ assms(4)] assms(5) by simp
next
  case (executed t dec w1 sim k evs)
  from approval_evidence_log [OF executed(1)] assms(5) have "SignerCalled r x \<notin> set (w_log w1)"
    by (auto simp: is_asked_def)
  with assms(4) executed have "build_sign_request (d_libs d) t = Inr r"
    using tail_signer_call [OF executed(6), of r x] by simp
  moreover have "\<exists>q a. approved_by_human d t q a \<and> Asked q (Inr a) \<in> set (w_log w')" if v: "is_value_moving t"
  proof -
    have "pd_status dec \<noteq> ALLOWED" using v executed(2) evaluate_allowed by (auto simp: checks_passed_def)
    with executed(1) obtain q a where qa: "approved_by_human d t q a" "w1 = log_event (Asked q (Inr a)) w0"
      by (auto simp: approval_evidence_def)
    with executed(7) have "Asked q (Inr a) \<in> set (w_log w')" by simp
    with qa(1) show ?thesis by blast
  qed
  ultimately show ?thesis using executed(2-5) by blast
qed

lemma signed_run_consent:
  assumes "cleared s0" and "wf_store (w_store w0)" and "run_pipeline d s0 w0 = (o', w')"
    and "SignerCalled r x \<in> set (w_log w')" and "w_log w0 = []" and "sign_request_moves_value r"
  shows "\<exists>q a. Asked q (Inr a) \<in> set (w_log w') \<and> d_approver d q = Inr a \<and> apr_approved a"
  using signed_run_evidence [OF assms(1-5)] sign_request_value_moving [OF _ assms(6)]
  by (auto simp: approved_by_human_def)

end
