(* ===== verification/Graph_Entry.thy ===== *)
theory Graph_Entry
  imports Pipeline_Run
begin

text \<open>
  What a preparation graph hands to the transaction pipeline, and where what the signer receives comes
  from: the executable transaction keeps every field the builder decided. The interface
  \<open>prepared_graph\<close> states what a preparation graph promises; the safety of the three preparation
  graphs follows from it.
\<close>

section \<open>From the prepared to the executable transaction\<close>

text \<open>The fields of a prepared transaction that the executable transaction carries on.\<close>

definition carries :: "prepared_transaction \<Rightarrow> executable_transaction \<Rightarrow> bool" where
  "carries t x \<longleftrightarrow> exec_from_address x = prep_from_address t \<and> exec_to x = prep_to t \<and>
     exec_value_wei x = prep_value_wei t \<and> exec_data x = prep_data t \<and> exec_metadata x = prep_metadata t"

definition comes_from :: "prepared_transaction \<Rightarrow> executable_transaction \<Rightarrow> bool" where
  "comes_from t x \<longleftrightarrow> carries t x \<and> exec_wallet_id x = prep_wallet_id t \<and> exec_chain x = prep_chain t \<and>
     Some (exec_chain_id x) = prep_chain_id t \<and> exec_idempotency_key x = prep_idempotency_key t"

definition complete :: "libs \<Rightarrow> prepared_transaction \<Rightarrow> bool" where
  "complete L t \<longleftrightarrow> wf_prepared L t \<and> prep_from_address t \<noteq> None \<and> prep_chain_id t \<noteq> None"

definition up_to_nonce :: "prepared_transaction \<Rightarrow> prepared_transaction \<Rightarrow> bool" where
  "up_to_nonce t p \<longleftrightarrow> (\<exists>n. p = t\<lparr>prep_nonce := n\<rparr>)"

definition origin :: "prepared_transaction \<Rightarrow> mercury_state \<Rightarrow> bool" where
  "origin t s \<longleftrightarrow> (\<exists>p. s_prepared_transaction s = Some (Model p) \<and> up_to_nonce t p) \<and>
     (\<forall>x. s_executable_transaction s = Some x \<longrightarrow> comes_from t x)"

lemma up_to_nonce_simps:
  assumes "up_to_nonce t p"
  shows "prep_wallet_id p = prep_wallet_id t" "prep_chain p = prep_chain t" "prep_chain_id p = prep_chain_id t"
    "prep_from_address p = prep_from_address t" "prep_to p = prep_to t" "prep_value_wei p = prep_value_wei t"
    "prep_data p = prep_data t" "prep_metadata p = prep_metadata t"
    "prep_idempotency_key p = prep_idempotency_key t"
  using assms by (auto simp: up_to_nonce_def)

lemma completeD:
  assumes "web3_laws L" and "complete L t"
  obtains a i where "prep_from_address t = Some a" "normal_address L a" "a \<noteq> []" "normal_address L (prep_to t)"
    "prep_chain_id t = Some i" "0 < i"
proof -
  from assms obtain a i where "prep_from_address t = Some a" "prep_chain_id t = Some i"
    by (auto simp: complete_def)
  moreover have "opt_normal L (prep_from_address t)" "normal_address L (prep_to t)" "\<forall>i. prep_chain_id t = Some i \<longrightarrow> 0 < i"
    using assms wf_prepared_iff [OF assms(1), of t] by (simp_all add: complete_def)
  ultimately show thesis using that normal_address_nonempty by auto
qed

lemma resolve_origin:
  assumes "web3_laws (d_libs d)" and "complete (d_libs d) t" and "origin t s" and "resolve_nonce d s = Inr s'"
  shows "origin t s'"
proof -
  obtain a i where t: "prep_from_address t = Some a" "a \<noteq> []" "prep_chain_id t = Some i" "0 < i"
    using completeD [OF assms(1,2)] by metis
  from assms(3) obtain p where p: "s_prepared_transaction s = Some (Model p)" "up_to_nonce t p"
    by (auto simp: origin_def)
  note f = up_to_nonce_simps [OF p(2)]
  have id: "p\<lparr>prep_chain_id := Some i, prep_from_address := Some a, prep_nonce := n\<rparr> = p\<lparr>prep_nonce := n\<rparr>" for n
    using f t by (cases p) simp
  have up: "up_to_nonce t (p\<lparr>prep_nonce := n\<rparr>)" for n using p(2) by (auto simp: up_to_nonce_def)
  show ?thesis
    using assms(3,4) p(1) f(3,4) t
    by (auto simp: resolve_nonce_def rcatch_def rbind_eq_Inr prepared_from_state_def origin_def py_or_def id up
        simp del: normalize_exception.simps split: sum.splits)
qed

lemma populate_origin:
  assumes "web3_laws (d_libs d)" and "complete (d_libs d) t" and "origin t s" and "populate_gas d s = Inr s'"
  shows "origin t s'"
proof -
  obtain a i where t: "prep_from_address t = Some a" "normal_address (d_libs d) a"
    "normal_address (d_libs d) (prep_to t)" "prep_chain_id t = Some i"
    using completeD [OF assms(1,2)] by metis
  from assms(3) obtain p where p: "s_prepared_transaction s = Some (Model p)" "up_to_nonce t p"
    by (auto simp: origin_def)
  note f = up_to_nonce_simps [OF p(2)]
  show ?thesis
    using assms(3,4) p(1) t f addr_norm_normal [OF t(2)] addr_norm_normal [OF t(3)]
    by (auto simp: populate_gas_def rcatch_def rbind_eq_Inr prepared_from_state_def origin_def comes_from_def carries_def
        mk_executable_transaction_def simp del: normalize_exception.simps split: sum.splits if_splits option.splits)
qed

lemma origin_cong:
  "s_prepared_transaction s' = s_prepared_transaction s \<Longrightarrow>
   s_executable_transaction s' = s_executable_transaction s \<Longrightarrow> origin t s' = origin t s"
  by (simp add: origin_def)

lemma later_nodes_keep:
  assumes "run_node d n s w = (Inr s', w')" and "n \<noteq> ResolveNonce" and "n \<noteq> PopulateGas"
  shows "s_prepared_transaction s' = s_prepared_transaction s \<and>
    s_executable_transaction s' = s_executable_transaction s"
  using assms
proof (cases n)
  case SimulateTransaction
  with assms(1) show ?thesis
    by (auto simp: simulate_transaction_def rcatch_def rbind_eq_Inr Let_def simp del: normalize_exception.simps
        split: if_splits sum.splits)
next
  case EvaluatePolicy
  with assms(1) show ?thesis
    by (auto simp: evaluate_policy_def rcatch_def rbind_eq_Inr simp del: normalize_exception.simps
        split: option.splits sum.splits)
next
  case RequestApproval
  with assms(1) show ?thesis
    by (auto simp: request_approval_def approval_failed_def record_approval_def with_result_Inr rcatch_def rbind_eq_Inr
        simp del: normalize_exception.simps split: prod.splits sum.splits if_splits)
next
  case CheckIdempotency
  with assms(1) show ?thesis
    by (auto simp: check_idempotency_def idempotency_failed_def replay_or_conflict_def with_result_Inr
        simp del: normalize_exception.simps split: sum.splits option.splits prod.splits reserve_outcome.splits)
next
  case SignTransaction
  with assms(1) show ?thesis
    by (auto simp: sign_transaction_def with_result_Inr simp del: normalize_exception.simps
        split: prod.splits sum.splits)
next
  case BroadcastTransaction
  with assms(1) show ?thesis
    by (auto simp: broadcast_transaction_def with_result_Inr simp del: normalize_exception.simps
        split: if_splits prod.splits sum.splits)
next
  case MonitorReceipt
  with assms(1) show ?thesis
    by (auto simp: monitor_receipt_def monitor_failed_def simp del: normalize_exception.simps
        split: if_splits sum.splits prod.splits)
next
  case RejectTransaction
  with assms(1) show ?thesis
    by (auto dest: reject_transaction_result)
qed auto

lemma node_origin:
  assumes "web3_laws (d_libs d)" and "complete (d_libs d) t" and "origin t s" and "run_node d n s w = (Inr s', w')"
  shows "origin t s'"
proof (cases "n = ResolveNonce \<or> n = PopulateGas")
  case True
  then have "resolve_nonce d s = Inr s' \<or> populate_gas d s = Inr s'" using assms(4) by auto
  then show ?thesis using resolve_origin [OF assms(1-3)] populate_origin [OF assms(1-3)] by blast
next
  case False
  then have "origin t s' = origin t s" using later_nodes_keep [OF assms(4)] by (intro origin_cong) simp_all
  with assms(3) show ?thesis by simp
qed

text \<open>Only the signing node calls the signer, and with the request built from the state's transaction.\<close>

lemma release_log [simp]: "w_log (release_after_pre_broadcast_failure s w) = w_log w"
  by (simp add: release_after_pre_broadcast_failure_def split: option.splits)

lemma node_signer_call:
  assumes "run_node d n s w = (o', w')" and "SignerCalled r x \<in> set (w_log w')"
  shows "SignerCalled r x \<in> set (w_log w) \<or>
    (\<exists>t. s_executable_transaction s = Some t \<and> build_sign_request (d_libs d) t = Inr r)"
proof (cases n)
  case RequestApproval
  with assms show ?thesis using request_approval_world [of d s w o' w'] by auto
next
  case CheckIdempotency
  with assms have "w_log w' = w_log w"
    by (auto simp: check_idempotency_def split: sum.splits option.splits prod.splits reserve_outcome.splits)
  with assms(2) show ?thesis by simp
next
  case SignTransaction
  with assms show ?thesis
    by (auto simp: sign_transaction_def call_signer_def Let_def rbind_eq_Inr executable_from_state_def
        simp del: normalize_exception.simps split: sum.splits option.splits)
next
  case BroadcastTransaction
  with assms show ?thesis
    by (auto simp: broadcast_transaction_def call_broadcast_def Let_def simp del: normalize_exception.simps
        split: if_splits sum.splits option.splits)
next
  case MonitorReceipt
  with assms have "w_log w' = w_log w"
    by (auto simp: monitor_receipt_def monitor_body_def complete_with_def monitor_failed_def
        finalize_after_monitor_failure_def rbind_eq_Inr rbind_eq_Inl simp del: normalize_exception.simps
        split: if_splits sum.splits option.splits prod.splits)
  with assms(2) show ?thesis by simp
qed (use assms in auto)

text \<open>Only the approval node asks the approver, and with the request built from the state's transaction.\<close>

lemma node_asked_call:
  assumes "run_node d n s w = (o', w')" and "Asked q a \<in> set (w_log w')"
  shows "Asked q a \<in> set (w_log w) \<or>
    (\<exists>t. s_executable_transaction s = Some t \<and> build_approval_request t = Inr q)"
proof (cases n)
  case RequestApproval
  with assms show ?thesis
    by (auto simp: request_approval_def ask_approver_def Let_def rbind_eq_Inr executable_from_state_def
        simp del: normalize_exception.simps split: sum.splits option.splits prod.splits)
next
  case CheckIdempotency
  with assms have "w_log w' = w_log w"
    by (auto simp: check_idempotency_def split: sum.splits option.splits prod.splits reserve_outcome.splits)
  with assms(2) show ?thesis by simp
next
  case SignTransaction
  with assms show ?thesis
    by (auto simp: sign_transaction_def call_signer_def Let_def simp del: normalize_exception.simps
        split: sum.splits option.splits)
next
  case BroadcastTransaction
  with assms show ?thesis
    by (auto simp: broadcast_transaction_def call_broadcast_def Let_def simp del: normalize_exception.simps
        split: if_splits sum.splits option.splits)
next
  case MonitorReceipt
  with assms have "w_log w' = w_log w"
    by (auto simp: monitor_receipt_def monitor_body_def complete_with_def monitor_failed_def
        finalize_after_monitor_failure_def rbind_eq_Inr rbind_eq_Inl simp del: normalize_exception.simps
        split: if_splits sum.splits option.splits prod.splits)
  with assms(2) show ?thesis by simp
qed (use assms in auto)

text \<open>
  An event whose argument a node builds from the state's transaction is built from a transaction that comes from
  the prepared one.
\<close>

lemma event_origin:
  assumes "web3_laws (d_libs d)" and "complete (d_libs d) t"
    and node: "\<And>n s w o' w'. run_node d n s w = (o', w') \<Longrightarrow> ev \<in> set (w_log w') \<Longrightarrow>
      ev \<in> set (w_log w) \<or> (\<exists>y. s_executable_transaction s = Some y \<and> Q y)"
    and "run_from d n s w = (o', w')" and "origin t s" and "ev \<in> set (w_log w')"
  shows "ev \<in> set (w_log w) \<or> (\<exists>y. comes_from t y \<and> Q y)"
  using assms(4-6)
proof (induction "node_rank n" arbitrary: n s w rule: less_induct)
  case less
  obtain o1 w1 where run: "run_node d n s w = (o1, w1)" by fastforce
  have here: "ev \<in> set (w_log w) \<or> (\<exists>y. comes_from t y \<and> Q y)" if "ev \<in> set (w_log w1)"
    using node [OF run that] less.prems(2) by (auto simp: origin_def)
  show ?case
  proof (cases o1)
    case (Inl e)
    with run less.prems(1,3) here show ?thesis by (simp add: run_from.simps [of _ n])
  next
    case (Inr s1)
    note keep = node_origin [OF assms(1,2) less.prems(2) run [unfolded Inr]]
    show ?thesis
    proof (cases "next_node n s1")
      case None
      with run Inr less.prems(1,3) here show ?thesis by (simp add: run_from.simps [of _ n])
    next
      case (Some n')
      with run Inr less.prems(1) have "run_from d n' s1 w1 = (o', w')" by (simp add: run_from.simps [of _ n])
      from less.hyps [OF next_node_rank [OF Some] this keep less.prems(3)] here show ?thesis by blast
    qed
  qed
qed

lemma signed_origin:
  assumes "web3_laws (d_libs d)" and "complete (d_libs d) t" and "run_from d n s w = (o', w')" and "origin t s"
    and "SignerCalled r x \<in> set (w_log w')"
  shows "SignerCalled r x \<in> set (w_log w) \<or> (\<exists>y. comes_from t y \<and> build_sign_request (d_libs d) y = Inr r)"
  by (rule event_origin [OF assms(1,2) _ assms(3-5)]) (rule node_signer_call)

lemma asked_origin:
  assumes "web3_laws (d_libs d)" and "complete (d_libs d) t" and "run_from d n s w = (o', w')" and "origin t s"
    and "Asked q a \<in> set (w_log w')"
  shows "Asked q a \<in> set (w_log w) \<or> (\<exists>y. comes_from t y \<and> build_approval_request y = Inr q)"
  by (rule event_origin [OF assms(1,2) _ assms(3-5)]) (rule node_asked_call)

section \<open>The interface of a preparation graph\<close>

text \<open>
  A preparation graph either leaves the world alone and ends, or hands a state with a complete
  transaction that its builder made for the request to the pipeline.
\<close>

definition fresh :: "mercury_state \<Rightarrow> bool" where
  "fresh s \<longleftrightarrow> cleared s \<and> s_prepared_transaction s = None"

locale prepared_graph =
  fixes run :: "tx_deps \<Rightarrow> mercury_state \<Rightarrow> world \<Rightarrow> tx_step"
    and built :: "tx_deps \<Rightarrow> mercury_state \<Rightarrow> prepared_transaction \<Rightarrow> bool"
  assumes run_cases: "web3_laws (d_libs d) \<Longrightarrow> fresh s \<Longrightarrow> run d s w = (o', w') \<Longrightarrow>
      w' = w \<or> (\<exists>s' t. run_pipeline d s' w = (o', w') \<and> built d s t \<and> complete (d_libs d) t \<and>
        cleared s' \<and> s_prepared_transaction s' = Some (Model t))"
begin

lemma run_origin:
  assumes "web3_laws (d_libs d)" and "fresh s" and "run d s w = (o', w')" and "w_log w' \<noteq> w_log w"
  shows "\<exists>s' t. run_pipeline d s' w = (o', w') \<and> built d s t \<and> complete (d_libs d) t \<and> cleared s' \<and> origin t s'"
proof -
  have "w' \<noteq> w" using assms(4) by auto
  then obtain s' t where run: "run_pipeline d s' w = (o', w')" and t: "built d s t" "complete (d_libs d) t"
    and s': "cleared s'" "s_prepared_transaction s' = Some (Model t)"
    using run_cases [OF assms(1-3)] by blast
  have "up_to_nonce t t" unfolding up_to_nonce_def by (rule exI [of _ "prep_nonce t"]) simp
  then have "origin t s'" using s' by (simp add: origin_def cleared_def)
  with run t s'(1) show ?thesis by blast
qed

lemma signed_was_built:
  assumes "web3_laws (d_libs d)" and "fresh s" and "run d s w = (o', w')"
    and "SignerCalled r x \<in> set (w_log w')" and "w_log w = []"
  shows "\<exists>t y. built d s t \<and> complete (d_libs d) t \<and> comes_from t y \<and> build_sign_request (d_libs d) y = Inr r"
proof -
  have "w_log w' \<noteq> w_log w" using assms(4,5) by auto
  from run_origin [OF assms(1-3) this] obtain s' t where run: "run_pipeline d s' w = (o', w')"
    and t: "built d s t" "complete (d_libs d) t" and s': "origin t s'" by blast
  from signed_origin [OF assms(1) t(2) run [unfolded run_pipeline_def] s' assms(4)] t assms(5)
  show ?thesis by auto
qed

text \<open>A signature over value or calldata has a consent for a request built from the same prepared transaction.\<close>

lemma signed_was_approved:
  assumes "web3_laws (d_libs d)" and "fresh s" and "run d s w = (o', w')"
    and "SignerCalled r x \<in> set (w_log w')" and "w_log w = []" and "wf_store (w_store w)" and "sign_request_moves_value r"
  shows "\<exists>t y z q a. built d s t \<and> complete (d_libs d) t \<and> comes_from t y \<and> build_sign_request (d_libs d) y = Inr r \<and>
    comes_from t z \<and> build_approval_request z = Inr q \<and> d_approver d q = Inr a \<and> apr_approved a"
proof -
  have "w_log w' \<noteq> w_log w" using assms(4,5) by auto
  from run_origin [OF assms(1-3) this] obtain s' t where run: "run_pipeline d s' w = (o', w')"
    and t: "built d s t" "complete (d_libs d) t" and s': "cleared s'" "origin t s'" by blast
  from signed_run_consent [OF s'(1) assms(6) run assms(4,5,7)] obtain q a
    where qa: "Asked q (Inr a) \<in> set (w_log w')" "d_approver d q = Inr a" "apr_approved a" by blast
  from asked_origin [OF assms(1) t(2) run [unfolded run_pipeline_def] s'(2) qa(1)] assms(5)
  obtain z where z: "comes_from t z" "build_approval_request z = Inr q" by auto
  from signed_origin [OF assms(1) t(2) run [unfolded run_pipeline_def] s'(2) assms(4)] assms(5)
  obtain y where "comes_from t y" "build_sign_request (d_libs d) y = Inr r" by auto
  with z t qa(2,3) show ?thesis by blast
qed

lemma unbuilt_is_silent:
  assumes "web3_laws (d_libs d)" and "fresh s" and "run d s w = (o', w')" and "\<forall>t. \<not> built d s t"
  shows "w' = w"
  using run_cases [OF assms(1-3)] assms(4) by blast

end

end
