(* ===== verification/Prepare_Nodes.thy ===== *)
theory Prepare_Nodes
  imports Transaction_Builders Graph_Entry
begin

text \<open>
  The preparation nodes for ERC20 and native transfers (\<^verbatim>\<open>mercury/graph/nodes_erc20.py\<close>,
  \<^verbatim>\<open>nodes_native.py\<close>, \<^verbatim>\<open>preparation_helpers.py\<close>, \<^verbatim>\<open>request_metadata.py\<close>), the node that answers an
  unsupported request (\<^verbatim>\<open>nodes.py\<close>, \<^verbatim>\<open>responses.py\<close>), and the graphs of \<^verbatim>\<open>agent.py\<close> that lead from them
  into the transaction pipeline.
\<close>

section \<open>Payloads, errors and metadata\<close>

text \<open>\<open>state.get("parsed_intent", state.get("raw_input"))\<close>\<close>

definition intent_source :: "mercury_state \<Rightarrow> pyval option" where
  "intent_source s = (case s_parsed_intent s of
       Some v \<Rightarrow> Some v
     | None \<Rightarrow> (case s_raw_input s of Some (Plain v) \<Rightarrow> Some v | _ \<Rightarrow> None))"

definition payload_from_state :: "string \<Rightarrow> mercury_state \<Rightarrow> exn + pydict" where
  "payload_from_state msg s = (case intent_source s of
       Some (PDict raw) \<Rightarrow> (case dget_none raw ''intent'' of PDict intent \<Rightarrow> Inr intent | _ \<Rightarrow> Inr raw)
     | _ \<Rightarrow> Inl (value_error msg))"

definition erc20_payload_from_state :: "mercury_state \<Rightarrow> exn + pydict" where
  "erc20_payload_from_state = payload_from_state ''ERC20 graph requires a structured transaction intent.''"

definition native_payload_from_state :: "mercury_state \<Rightarrow> exn + pydict" where
  "native_payload_from_state = payload_from_state ''Native graph requires a structured transaction intent.''"

text \<open>\<open>str(payload.get("kind", "")).lower()\<close>\<close>

definition payload_kind :: "libs \<Rightarrow> pydict \<Rightarrow> string" where
  "payload_kind L p = py_lower (py_str L (case dget p ''kind'' of Some v \<Rightarrow> v | None \<Rightarrow> PStr []))"

definition preparation_error :: "libs \<Rightarrow> exn \<Rightarrow> string \<Rightarrow> mercury_error_info" where
  "preparation_error L e stage = (case e of
       ValidationError m es \<Rightarrow> validation_failed_from_pydantic L m es (Some stage)
     | _ \<Rightarrow> normalize_exn L e stage)"

definition state_for_preparation_error :: "libs \<Rightarrow> mercury_state \<Rightarrow> exn \<Rightarrow> string \<Rightarrow> mercury_state" where
  "state_for_preparation_error L s e stage = s\<lparr>s_error := Some (preparation_error L e stage)\<rparr>"

definition merge_intent_metadata_into_prepared ::
  "prepared_transaction \<Rightarrow> pydict \<Rightarrow> prepared_transaction" where
  "merge_intent_metadata_into_prepared prepared intent_payload =
     (case dget_none intent_payload ''metadata'' of
        PDict raw \<Rightarrow> if raw = [] then prepared
          else prepared\<lparr>prep_metadata := dmerge (prep_metadata prepared) raw\<rparr>
      | _ \<Rightarrow> prepared)"

definition state_with_prepared :: "mercury_state \<Rightarrow> prepared_transaction \<Rightarrow> mercury_state" where
  "state_with_prepared s t = s\<lparr>s_prepared_transaction := Some (Model t), s_chain_name := Some (prep_chain t),
     s_wallet_address := Some (case prep_from_address t of Some a \<Rightarrow> a | None \<Rightarrow> [])\<rparr>"

section \<open>ERC20 preparation\<close>

record erc20_graph_deps =
  eg_provider_factory :: read_factory
  eg_address_resolver :: address_resolver

definition build_erc20 :: "libs \<Rightarrow> erc20_graph_deps \<Rightarrow> pydict \<Rightarrow> exn + prepared_transaction" where
  "build_erc20 L g payload = (let kind = payload_kind L payload in
     if kind = ''erc20_transfer'' then
       rbind (transfer_intent_of L payload) (\<lambda>i.
       prepare_erc20_transfer L (eg_provider_factory g) (eg_address_resolver g) (ti_chain i) (ti_wallet_id i)
         (ti_token_address i) (ti_recipient_address i) (ti_amount i) (ti_idempotency_key i)
         (ti_amount_in_smallest_units i))
     else if kind = ''erc20_approval'' then
       rbind (approval_intent_of L payload) (\<lambda>i.
       prepare_erc20_approval L (eg_provider_factory g) (eg_address_resolver g) (ai_chain i) (ai_wallet_id i)
         (ai_token_address i) (ai_spender_address i) (ai_amount i) (ai_idempotency_key i)
         (ai_spender_known i) (ai_allow_unlimited i) (ai_amount_in_smallest_units i))
     else Inl (value_error (''Unsupported ERC20 transaction intent: '' @ kind @ ''.'')))"

definition prepare_erc20_transaction :: "libs \<Rightarrow> erc20_graph_deps \<Rightarrow> mercury_state \<Rightarrow> mercury_state" where
  "prepare_erc20_transaction L g s =
     (case rbind (erc20_payload_from_state s) (\<lambda>payload.
             rbind (build_erc20 L g payload) (\<lambda>t. Inr (merge_intent_metadata_into_prepared t payload))) of
        Inl e \<Rightarrow> state_for_preparation_error L s e ''prepare_erc20_transaction''
      | Inr t \<Rightarrow> state_with_prepared s t)"

datatype entry_route = ToPrepare | ToUnsupported

definition route_erc20_intent :: "libs \<Rightarrow> mercury_state \<Rightarrow> entry_route" where
  "route_erc20_intent L s = (case erc20_payload_from_state s of
       Inl _ \<Rightarrow> ToUnsupported
     | Inr payload \<Rightarrow> if payload_kind L payload \<in> {''erc20_transfer'', ''erc20_approval''}
         then ToPrepare else ToUnsupported)"

definition route_after_erc20_prepare :: "mercury_state \<Rightarrow> tx_node" where
  "route_after_erc20_prepare s = (if s_error s \<noteq> None then RejectTransaction else ResolveNonce)"

section \<open>Native preparation\<close>

record native_graph_deps =
  ng_address_resolver :: address_resolver

definition build_native :: "libs \<Rightarrow> chain_table \<Rightarrow> native_graph_deps \<Rightarrow> pydict \<Rightarrow> exn + prepared_transaction" where
  "build_native L C g payload =
     rbind (native_intent_of L payload) (\<lambda>i.
     prepare_native_transfer L C (ng_address_resolver g) (ni_chain i) (ni_wallet_id i) (ni_recipient_address i)
       (ni_amount i) (ni_idempotency_key i))"

definition prepare_native_transaction ::
  "libs \<Rightarrow> chain_table \<Rightarrow> native_graph_deps \<Rightarrow> mercury_state \<Rightarrow> mercury_state" where
  "prepare_native_transaction L C g s =
     (case rbind (native_payload_from_state s) (\<lambda>payload.
             rbind (build_native L C g payload) (\<lambda>t. Inr (merge_intent_metadata_into_prepared t payload))) of
        Inl e \<Rightarrow> state_for_preparation_error L s e ''prepare_native_transaction''
      | Inr t \<Rightarrow> state_with_prepared s t)"

definition route_native_intent :: "libs \<Rightarrow> mercury_state \<Rightarrow> entry_route" where
  "route_native_intent L s = (case native_payload_from_state s of
       Inl _ \<Rightarrow> ToUnsupported
     | Inr payload \<Rightarrow> if payload_kind L payload = ''native_transfer'' then ToPrepare else ToUnsupported)"

definition route_after_native_prepare :: "mercury_state \<Rightarrow> tx_node" where
  "route_after_native_prepare s = (if s_error s \<noteq> None then RejectTransaction else ResolveNonce)"

section \<open>Unsupported requests\<close>

definition sanitize_error :: "string \<Rightarrow> string" where
  "sanitize_error error = redact_error_message error"

datatype error_or_text = ErrorInfo mercury_error_info | ErrorText string

fun error_text :: "error_or_text \<Rightarrow> string" where
  "error_text (ErrorInfo i) = err_message i"
| "error_text (ErrorText t) = sanitize_error t"

definition format_error_response :: "error_or_text \<Rightarrow> string" where
  "format_error_response error = ''I could not complete the read-only request: '' @ error_text error"

definition format_unsupported_response :: "error_or_text \<Rightarrow> string" where
  "format_unsupported_response reason = ''Unsupported operation: '' @ error_text reason"

fun type_name :: "pyval \<Rightarrow> string" where
  "type_name PNone = ''NoneType''"
| "type_name (PBool b) = ''bool''"
| "type_name (PInt i) = ''int''"
| "type_name (PFloat q) = ''float''"
| "type_name (PStr s) = ''str''"
| "type_name (PList vs) = ''list''"
| "type_name (PDict d) = ''dict''"

text \<open>\<open>state.get("parsed_intent", {}).get(key)\<close>: the parsed intent is read as a dictionary, another value
  has no \<open>get\<close>.\<close>

definition intent_dict :: "mercury_state \<Rightarrow> exn + pydict" where
  "intent_dict s = (case s_parsed_intent s of
       None \<Rightarrow> Inr []
     | Some (PDict d) \<Rightarrow> Inr d
     | Some v \<Rightarrow> Inl (Exn OtherException (quote_text (type_name v) @ '' object has no attribute '' @ quote_text ''get'')))"

definition with_response :: "mercury_state \<Rightarrow> string \<Rightarrow> mercury_state" where
  "with_response s response_text =
     s\<lparr>s_response_text := Some response_text, s_messages := s_messages s @ [response_text]\<rparr>"

definition unsupported_response :: "mercury_state \<Rightarrow> exn + mercury_state" where
  "unsupported_response s =
     rbind (case s_error s of
         Some info \<Rightarrow> Inr (ErrorInfo info)
       | None \<Rightarrow> rbind (intent_dict s) (\<lambda>d. Inr (ErrorText (case dget_none d ''reason'' of
             PStr r \<Rightarrow> r | _ \<Rightarrow> ''Unsupported wallet intent.'')))) (\<lambda>reason.
     Inr (with_response s (format_unsupported_response reason)))"

section \<open>The graphs\<close>

definition run_erc20_graph :: "erc20_graph_deps \<Rightarrow> tx_deps \<Rightarrow> mercury_state \<Rightarrow> world \<Rightarrow> tx_step" where
  "run_erc20_graph g d s w = (case route_erc20_intent (d_libs d) s of
       ToUnsupported \<Rightarrow> (unsupported_response s, w)
     | ToPrepare \<Rightarrow> (let s' = prepare_erc20_transaction (d_libs d) g s
         in run_from d (route_after_erc20_prepare s') s' w))"

definition run_native_graph :: "native_graph_deps \<Rightarrow> tx_deps \<Rightarrow> mercury_state \<Rightarrow> world \<Rightarrow> tx_step" where
  "run_native_graph g d s w = (case route_native_intent (d_libs d) s of
       ToUnsupported \<Rightarrow> (unsupported_response s, w)
     | ToPrepare \<Rightarrow> (let s' = prepare_native_transaction (d_libs d) (d_chains d) g s
         in run_from d (route_after_native_prepare s') s' w))"

section \<open>The graphs as preparation graphs\<close>

definition erc20_built :: "erc20_graph_deps \<Rightarrow> tx_deps \<Rightarrow> mercury_state \<Rightarrow> prepared_transaction \<Rightarrow> bool" where
  "erc20_built g d s t \<longleftrightarrow> (\<exists>payload t0. erc20_payload_from_state s = Inr payload \<and>
     build_erc20 (d_libs d) g payload = Inr t0 \<and> t = merge_intent_metadata_into_prepared t0 payload)"

definition native_built :: "native_graph_deps \<Rightarrow> tx_deps \<Rightarrow> mercury_state \<Rightarrow> prepared_transaction \<Rightarrow> bool" where
  "native_built g d s t \<longleftrightarrow> (\<exists>payload t0. native_payload_from_state s = Inr payload \<and>
     build_native (d_libs d) (d_chains d) g payload = Inr t0 \<and> t = merge_intent_metadata_into_prepared t0 payload)"

lemma merge_fields [simp]:
  "prep_wallet_id (merge_intent_metadata_into_prepared t p) = prep_wallet_id t"
  "prep_chain (merge_intent_metadata_into_prepared t p) = prep_chain t"
  "prep_chain_id (merge_intent_metadata_into_prepared t p) = prep_chain_id t"
  "prep_from_address (merge_intent_metadata_into_prepared t p) = prep_from_address t"
  "prep_to (merge_intent_metadata_into_prepared t p) = prep_to t"
  "prep_value_wei (merge_intent_metadata_into_prepared t p) = prep_value_wei t"
  "prep_data (merge_intent_metadata_into_prepared t p) = prep_data t"
  "prep_nonce (merge_intent_metadata_into_prepared t p) = prep_nonce t"
  "prep_idempotency_key (merge_intent_metadata_into_prepared t p) = prep_idempotency_key t"
  by (auto simp: merge_intent_metadata_into_prepared_def split: pyval.splits)

lemma complete_merge:
  assumes "web3_laws L"
  shows "complete L (merge_intent_metadata_into_prepared t p) = complete L t"
  by (simp add: complete_def wf_prepared_iff [OF assms])

lemma mk_prepared_complete:
  assumes "web3_laws L" and "mk_prepared_transaction L t0 = Inr t"
    and "prep_from_address t0 \<noteq> None" and "prep_chain_id t0 \<noteq> None"
  shows "complete L t"
  using mk_prepared_wf [OF assms(1,2)] assms(2-4)
  by (auto simp: complete_def mk_prepared_transaction_def)

lemma build_erc20_complete: "web3_laws L \<Longrightarrow> build_erc20 L g payload = Inr t \<Longrightarrow> complete L t"
  by (auto simp: build_erc20_def prepare_erc20_transfer_def prepare_erc20_approval_def prepared_erc20_transaction_def
      Let_def rbind_eq_Inr intro: mk_prepared_complete split: if_splits)

lemma build_native_complete: "web3_laws L \<Longrightarrow> build_native L C g payload = Inr t \<Longrightarrow> complete L t"
  by (auto simp: build_native_def prepare_native_transfer_def rbind_eq_Inr intro: mk_prepared_complete split: if_splits)

lemma cleared_prepared [simp]: "cleared (state_with_prepared s t) = cleared s"
  "s_prepared_transaction (state_with_prepared s t) = Some (Model t)"
  by (simp_all add: cleared_def state_with_prepared_def)

text \<open>A graph whose preparation fails ends in the rejection node; one whose preparation succeeds enters the pipeline.\<close>

lemma entry_cases:
  assumes "fresh s" and "run_from d (if s_error s' \<noteq> None then RejectTransaction else ResolveNonce) s' w = (o', w')"
    and "s_error s' \<noteq> None \<or> (\<exists>t. s' = state_with_prepared s t \<and> P t \<and> complete L t)"
  shows "w' = w \<or> (\<exists>s' t. run_pipeline d s' w = (o', w') \<and> P t \<and> complete L t \<and>
      cleared s' \<and> s_prepared_transaction s' = Some (Model t))"
proof (cases "s_error s' = None")
  case True
  with assms(3) obtain t where t: "s' = state_with_prepared s t" "P t" "complete L t" by blast
  moreover have "run_pipeline d s' w = (o', w')" using assms(2) True by (simp add: run_pipeline_def)
  moreover have "cleared s'" "s_prepared_transaction s' = Some (Model t)" using assms(1) t(1) by (simp_all add: fresh_def)
  ultimately show ?thesis by blast
next
  case False
  with assms(2) show ?thesis by (auto simp: run_from_unfold(10))
qed

lemma prepare_erc20_outcome:
  assumes "web3_laws (d_libs d)"
  shows "s_error (prepare_erc20_transaction (d_libs d) g s) \<noteq> None \<or>
    (\<exists>t. prepare_erc20_transaction (d_libs d) g s = state_with_prepared s t \<and> erc20_built g d s t \<and> complete (d_libs d) t)"
  using build_erc20_complete [OF assms]
  by (auto simp: prepare_erc20_transaction_def state_for_preparation_error_def erc20_built_def rbind_eq_Inr
      complete_merge [OF assms] simp del: normalize_exception.simps split: sum.splits)

lemma prepare_native_outcome:
  assumes "web3_laws (d_libs d)"
  shows "s_error (prepare_native_transaction (d_libs d) (d_chains d) g s) \<noteq> None \<or>
    (\<exists>t. prepare_native_transaction (d_libs d) (d_chains d) g s = state_with_prepared s t \<and> native_built g d s t \<and>
      complete (d_libs d) t)"
  using build_native_complete [OF assms]
  by (auto simp: prepare_native_transaction_def state_for_preparation_error_def native_built_def rbind_eq_Inr
      complete_merge [OF assms] simp del: normalize_exception.simps split: sum.splits)

interpretation erc20_graph: prepared_graph "run_erc20_graph g" "erc20_built g" for g
proof
  fix d s w o' w'
  assume laws: "web3_laws (d_libs d)" and s: "fresh s" and run: "run_erc20_graph g d s w = (o', w')"
  show "w' = w \<or> (\<exists>s' t. run_pipeline d s' w = (o', w') \<and> erc20_built g d s t \<and> complete (d_libs d) t \<and>
      cleared s' \<and> s_prepared_transaction s' = Some (Model t))"
    using run entry_cases [OF s _ prepare_erc20_outcome [OF laws]]
    by (simp add: run_erc20_graph_def route_after_erc20_prepare_def Let_def split: entry_route.splits)
qed

interpretation native_graph: prepared_graph "run_native_graph g" "native_built g" for g
proof
  fix d s w o' w'
  assume laws: "web3_laws (d_libs d)" and s: "fresh s" and run: "run_native_graph g d s w = (o', w')"
  show "w' = w \<or> (\<exists>s' t. run_pipeline d s' w = (o', w') \<and> native_built g d s t \<and> complete (d_libs d) t \<and>
      cleared s' \<and> s_prepared_transaction s' = Some (Model t))"
    using run entry_cases [OF s _ prepare_native_outcome [OF laws]]
    by (simp add: run_native_graph_def route_after_native_prepare_def Let_def split: entry_route.splits)
qed

end
