(* ===== verification/Read_Graph.thy ===== *)
theory Read_Graph
  imports Tool_Registry Prepare_Nodes
begin

text \<open>
  The read-only graph: its nodes (\<^verbatim>\<open>graph/nodes.py\<close>), its routes (\<^verbatim>\<open>graph/router.py\<close>), the texts of
  its answers (\<^verbatim>\<open>graph/responses.py\<close>) and the graph that \<open>build_graph\<close> makes of them (\<^verbatim>\<open>graph/agent.py\<close>).
  The em dash of the texts is given by its UTF-8 bytes.
\<close>

section \<open>Parsing and chain resolution\<close>

definition slot_value :: "input_slot option \<Rightarrow> exn + pyval" where
  "slot_value r = (case r of None \<Rightarrow> Inr PNone | Some (Plain v) \<Rightarrow> Inr v | Some (Model _) \<Rightarrow> Inr (PBool True))"

text \<open>A model in \<open>raw_input\<close> is neither a dictionary nor a text, like any other object.\<close>

definition parse_intent :: "libs \<Rightarrow> chain_table \<Rightarrow> mercury_state \<Rightarrow> mercury_state" where
  "parse_intent L C s =
     (case rbind (slot_value (s_raw_input s)) (\<lambda>raw. parse_readonly_intent L C raw (s_messages s)) of
        Inl e \<Rightarrow> s\<lparr>s_error := Some (normalize_exn L e ''parse_intent'')\<rparr>
      | Inr i \<Rightarrow> s\<lparr>s_parsed_intent := Some (PDict (intent_json i)),
                    s_read_result := Some [(''intent_kind'', CallVal (dget_none (intent_json i) ''kind''))]\<rparr>)"

definition with_chain_config :: "mercury_state \<Rightarrow> chain_config \<Rightarrow> mercury_state" where
  "with_chain_config s c = s\<lparr>s_chain_name := Some (cc_name c), s_chain_config := Some c,
     s_chain_reference := Some (to_reference c)\<rparr>"

definition chain_failure :: "libs \<Rightarrow> mercury_state \<Rightarrow> exn \<Rightarrow> mercury_state" where
  "chain_failure L s e = s\<lparr>s_error := Some (normalize_exn L e ''resolve_chain'')\<rparr>"

definition named_chain_failure :: "libs \<Rightarrow> mercury_state \<Rightarrow> string \<Rightarrow> exn \<Rightarrow> mercury_state" where
  "named_chain_failure L s name e = (chain_failure L s e)\<lparr>s_chain_name := Some name\<rparr>"

definition resolve_plain_chain :: "libs \<Rightarrow> chain_table \<Rightarrow> mercury_state \<Rightarrow> pydict \<Rightarrow> exn + mercury_state" where
  "resolve_plain_chain L C s d =
     rbind (case dget_none d ''chain'' of
         PStr c \<Rightarrow> if c = [] then rbind (get_default_chain C) (\<lambda>c. Inr (cc_name c)) else Inr c
       | _ \<Rightarrow> rbind (get_default_chain C) (\<lambda>c. Inr (cc_name c))) (\<lambda>name.
     case get_chain_by_name C name of
       Inl e \<Rightarrow> Inr (named_chain_failure L s name e)
     | Inr c \<Rightarrow> Inr (with_chain_config s c))"

text \<open>The loop over the distinct names, which stops at the first one that is not served.\<close>

definition unserved_chain :: "chain_table \<Rightarrow> string \<Rightarrow> (string \<times> exn) option" where
  "unserved_chain C name = (case get_chain_by_name C name of
       Inl e \<Rightarrow> Some (name, e)
     | Inr _ \<Rightarrow> (case mercury_chain_to_alchemy_network name of Inl e \<Rightarrow> Some (name, e) | Inr _ \<Rightarrow> None))"

definition resolve_named_chains :: "libs \<Rightarrow> chain_table \<Rightarrow> mercury_state \<Rightarrow> string list \<Rightarrow> exn + mercury_state" where
  "resolve_named_chains L C s names =
     (case first_some (map (unserved_chain C) (sort (remdups names))) of
        Some (name, e) \<Rightarrow> Inr (named_chain_failure L s name e)
      | None \<Rightarrow> rbind (get_chain_by_name C (hd names)) (\<lambda>c. Inr (with_chain_config s c)))"

definition resolve_chain_for_token_prices :: "libs \<Rightarrow> chain_table \<Rightarrow> mercury_state \<Rightarrow> pydict \<Rightarrow> exn + mercury_state" where
  "resolve_chain_for_token_prices L C s d = (let tokens = only_list (dget_none d ''tokens'') in
     if tokens = [] then Inr (chain_failure L s (value_error ''token_prices intent is missing tokens.''))
     else (let names = map lower_strip (filter (\<lambda>c. py_strip c \<noteq> [])
               (map (\<lambda>e. str_or_empty (dget_none e ''chain'')) (dict_rows tokens))) in
       if names = [] then Inr (chain_failure L s (value_error ''token_prices tokens must include a chain per entry.''))
       else resolve_named_chains L C s names))"

definition resolve_chain_for_portfolio_tokens :: "libs \<Rightarrow> chain_table \<Rightarrow> mercury_state \<Rightarrow> pydict \<Rightarrow> exn + mercury_state" where
  "resolve_chain_for_portfolio_tokens L C s d = (let items = only_list (dget_none d ''chains'') in
     if items = [] then Inr (chain_failure L s (value_error ''portfolio_tokens intent is missing chains.''))
     else (let names = map lower_strip (filter (\<lambda>c. py_strip c \<noteq> []) (map str_or_empty items)) in
       if names = []
       then Inr (chain_failure L s (value_error ''portfolio_tokens chains must include at least one chain name.''))
       else resolve_named_chains L C s names))"

definition resolve_chain_for_transfer_history :: "libs \<Rightarrow> chain_table \<Rightarrow> mercury_state \<Rightarrow> pydict \<Rightarrow> exn + mercury_state" where
  "resolve_chain_for_transfer_history L C s d =
     rbind (case stripped_text (dget_none d ''chain'') of
         Some c \<Rightarrow> Inr (py_lower c)
       | None \<Rightarrow> rbind (get_default_chain C) (\<lambda>c. Inr (cc_name c))) (\<lambda>name.
     case get_chain_by_name C name of
       Inl e \<Rightarrow> Inr (named_chain_failure L s name e)
     | Inr c \<Rightarrow> (case mercury_chain_to_alchemy_network name of
           Inl e \<Rightarrow> Inr (named_chain_failure L s name e)
         | Inr _ \<Rightarrow> Inr (with_chain_config s c)))"

definition resolve_chain :: "libs \<Rightarrow> chain_table \<Rightarrow> mercury_state \<Rightarrow> exn + mercury_state" where
  "resolve_chain L C s = rbind (intent_dict s) (\<lambda>d. let kind = dget_none d ''kind'' in
     if kind = PStr (kind_value TOKEN_PRICES) then resolve_chain_for_token_prices L C s d
     else if kind = PStr (kind_value PORTFOLIO_TOKENS) then resolve_chain_for_portfolio_tokens L C s d
     else if kind = PStr (kind_value TRANSFER_HISTORY) then resolve_chain_for_transfer_history L C s d
     else resolve_plain_chain L C s d)"

section \<open>Routes\<close>

definition ROUTE_UNSUPPORTED :: string where "ROUTE_UNSUPPORTED = ''unsupported_response''"
definition ROUTE_RESOLVE_CHAIN :: string where "ROUTE_RESOLVE_CHAIN = ''resolve_chain''"
definition ROUTE_FORMAT_RESPONSE :: string where "ROUTE_FORMAT_RESPONSE = ''format_response''"

fun read_route :: "read_kind \<Rightarrow> string" where
  "read_route NATIVE_BALANCE = ''get_native_balance''"
| "read_route ERC20_BALANCE = ''get_erc20_balance''"
| "read_route ERC20_ALLOWANCE = ''get_erc20_allowance''"
| "read_route ERC20_METADATA = ''get_erc20_metadata''"
| "read_route CONTRACT_READ = ''read_contract''"
| "read_route KNOWN_ADDRESS = ''resolve_known_address''"
| "read_route TOKEN_PRICES = ''get_token_prices''"
| "read_route PORTFOLIO_TOKENS = ''get_portfolio_tokens''"
| "read_route TRANSFER_HISTORY = ''get_transfer_history''"

definition READ_KINDS :: "read_kind list" where
  "READ_KINDS = [NATIVE_BALANCE, ERC20_BALANCE, ERC20_ALLOWANCE, ERC20_METADATA, CONTRACT_READ, KNOWN_ADDRESS,
     TOKEN_PRICES, PORTFOLIO_TOKENS, TRANSFER_HISTORY]"

definition READ_ROUTES :: "(string \<times> string) list" where
  "READ_ROUTES = map (\<lambda>k. (kind_value k, read_route k)) READ_KINDS"

definition route_after_parse :: "mercury_state \<Rightarrow> exn + string" where
  "route_after_parse s = (if s_error s \<noteq> None then Inr ROUTE_UNSUPPORTED
     else rbind (intent_dict s) (\<lambda>d.
       Inr (if dget_none d ''kind'' = PStr ''unsupported'' then ROUTE_UNSUPPORTED else ROUTE_RESOLVE_CHAIN)))"

definition route_read_tool :: "mercury_state \<Rightarrow> exn + string" where
  "route_read_tool s = rbind (intent_dict s) (\<lambda>d. Inr (case dget_none d ''kind'' of
       PStr k \<Rightarrow> (case dget READ_ROUTES k of Some r \<Rightarrow> r | None \<Rightarrow> ROUTE_FORMAT_RESPONSE)
     | _ \<Rightarrow> ROUTE_FORMAT_RESPONSE))"

definition route_after_chain :: "mercury_state \<Rightarrow> exn + string" where
  "route_after_chain s = (if s_error s \<noteq> None then Inr ROUTE_FORMAT_RESPONSE else route_read_tool s)"

section \<open>The tool node\<close>

definition dreq :: "pydict \<Rightarrow> string \<Rightarrow> exn + pyval" where
  "dreq d k = (case dget d k of Some v \<Rightarrow> Inr v | None \<Rightarrow> Inl (Exn KeyError (repr_str k)))"

definition bool_entry :: "pydict \<Rightarrow> string \<Rightarrow> string \<times> pyval" where
  "bool_entry d k = (k, PBool (case dget d k of Some v \<Rightarrow> truthy v | None \<Rightarrow> True))"

definition list_or_empty :: "pyval \<Rightarrow> pyval" where
  "list_or_empty v = (if truthy v then v else PList [])"

definition page_key_input :: "pydict \<Rightarrow> pydict" where
  "page_key_input d = opt_entry ''page_key'' (stripped_text (dget_none d ''page_key''))"

text \<open>The keys the intent must have, in the order they are read.\<close>

fun required_entries :: "pydict \<Rightarrow> string list \<Rightarrow> exn + pydict" where
  "required_entries d [] = Inr []"
| "required_entries d (k # ks) = rbind (dreq d k) (\<lambda>v. rbind (required_entries d ks) (\<lambda>es. Inr ((k, v) # es)))"

definition portfolio_input :: "pydict \<Rightarrow> exn + pydict" where
  "portfolio_input d = rbind (dreq d ''wallet_address'') (\<lambda>w.
     Inr ([(''wallet_address'', w), (''chains'', list_or_empty (dget_none d ''chains'')),
       bool_entry d ''with_metadata'', bool_entry d ''with_prices'', bool_entry d ''include_native_tokens'',
       bool_entry d ''include_erc20_tokens''] @ page_key_input d))"

definition transfer_input :: "string \<Rightarrow> pydict \<Rightarrow> exn + pydict" where
  "transfer_input chain d = rbind (dreq d ''wallet_address'') (\<lambda>w. rbind (dreq d ''direction'') (\<lambda>dir.
     Inr ([(''chain'', PStr chain), (''wallet_address'', w), (''direction'', dir), (''categories'', dget_none d ''categories''),
       (''from_block'', dget_none d ''from_block''), (''to_block'', dget_none d ''to_block''),
       (''max_count'', dget_none d ''max_count''), bool_entry d ''with_metadata'', bool_entry d ''exclude_zero_value'']
       @ page_key_input d)))"

definition tool_input_of_kind :: "read_kind \<Rightarrow> string \<Rightarrow> pydict \<Rightarrow> exn + pydict" where
  "tool_input_of_kind k chain d = (let base = (\<lambda>ks. rbind (required_entries d ks) (\<lambda>es. Inr ((''chain'', PStr chain) # es))) in
     case k of
       NATIVE_BALANCE \<Rightarrow> base [''wallet_address'']
     | ERC20_BALANCE \<Rightarrow> base [''token_address'', ''wallet_address'']
     | ERC20_ALLOWANCE \<Rightarrow> base [''token_address'', ''owner_address'', ''spender_address'']
     | ERC20_METADATA \<Rightarrow> base [''token_address'']
     | CONTRACT_READ \<Rightarrow> rbind (base [''contract_address'', ''abi_fragment'', ''function_name'']) (\<lambda>es.
         Inr (es @ [(''args'', (case dget d ''args'' of Some v \<Rightarrow> v | None \<Rightarrow> PList []))]))
     | KNOWN_ADDRESS \<Rightarrow> base [''category'', ''key'']
     | TOKEN_PRICES \<Rightarrow> Inr [(''tokens'', list_or_empty (dget_none d ''tokens''))]
     | PORTFOLIO_TOKENS \<Rightarrow> portfolio_input d
     | TRANSFER_HISTORY \<Rightarrow> transfer_input chain d)"

definition kind_of_value :: "pyval \<Rightarrow> read_kind option" where
  "kind_of_value v = find (\<lambda>k. v = PStr (kind_value k)) READ_KINDS"

definition tool_input_for_state :: "libs \<Rightarrow> chain_table \<Rightarrow> mercury_state \<Rightarrow> exn + pydict" where
  "tool_input_for_state L C s = rbind (intent_dict s) (\<lambda>d. rbind (get_default_chain C) (\<lambda>c.
     let chain = (case s_chain_name s of Some n \<Rightarrow> n | None \<Rightarrow> cc_name c); kind = dget_none d ''kind'' in
     case kind_of_value kind of
       Some k \<Rightarrow> tool_input_of_kind k chain d
     | None \<Rightarrow> Inl (value_error (''Unsupported read-only intent kind: '' @ py_str L kind @ ''.''))))"

definition execute_read_tool :: "libs \<Rightarrow> chain_table \<Rightarrow> tool_registry \<Rightarrow> string \<Rightarrow> mercury_state \<Rightarrow> exn + mercury_state" where
  "execute_read_tool L C reg tool_name s = rbind (tool_input_for_state L C s) (\<lambda>tool_input.
     let s' = s\<lparr>s_selected_tool_name := Some tool_name, s_tool_input := Some tool_input\<rparr> in
     case registry_execute reg tool_name tool_input of
       Inl e \<Rightarrow> Inr (s'\<lparr>s_error := Some (normalize_exn L e (''read_tool:'' @ tool_name))\<rparr>)
     | Inr r \<Rightarrow> Inr (s'\<lparr>s_tool_result := Some r, s_read_result := Some r\<rparr>))"

section \<open>Answers\<close>

definition EM_DASH :: string where
  "EM_DASH = [CHR 0xE2, CHR 0x80, CHR 0x94]"

text \<open>The text of a value in an answer; \<open>repr\<close> of bytes.\<close>

definition repr_byte :: "char \<Rightarrow> nat \<Rightarrow> string" where
  "repr_byte q b = (let c = char_of b in
     if c = q \<or> b = 92 then [CHR 0x5C, c]
     else if b = 10 then [CHR 0x5C, CHR ''n'']
     else if b = 13 then [CHR 0x5C, CHR ''r'']
     else if b = 9 then [CHR 0x5C, CHR ''t'']
     else if 32 \<le> b \<and> b < 127 then [c]
     else [CHR 0x5C, CHR ''x'', hex_digit (b div 16), hex_digit (b mod 16)])"

definition repr_bytes :: "nat list \<Rightarrow> string" where
  "repr_bytes bs = (let q = (if 39 \<in> set bs \<and> 34 \<notin> set bs then CHR 0x22 else CHR 0x27) in
     ''b'' @ [q] @ concat (map (repr_byte q) bs) @ [q])"

fun result_repr :: "libs \<Rightarrow> call_value \<Rightarrow> string" where
  "result_repr L (CallVal v) = py_repr L v"
| "result_repr L (CallBytes bs) = repr_bytes bs"

fun result_text :: "libs \<Rightarrow> call_value \<Rightarrow> string" where
  "result_text L (CallVal v) = py_str L v"
| "result_text L (CallBytes bs) = repr_bytes bs"

definition result_item :: "tool_result \<Rightarrow> string \<Rightarrow> exn + call_value" where
  "result_item r k = (case dget r k of Some v \<Rightarrow> Inr v | None \<Rightarrow> Inl (Exn KeyError (repr_str k)))"

text \<open>\<open>tool_result.get(key, default)\<close>; only the item \<open>result\<close>, which is not read this way, can be bytes.\<close>

definition result_get :: "tool_result \<Rightarrow> string \<Rightarrow> pyval \<Rightarrow> pyval" where
  "result_get r k dflt = (case dget r k of Some (CallVal v) \<Rightarrow> v | Some (CallBytes _) \<Rightarrow> PNone | None \<Rightarrow> dflt)"

definition symbol_text :: "tool_result \<Rightarrow> string" where
  "symbol_text r = (case result_get r ''symbol'' PNone of PStr s \<Rightarrow> py_or s ''tokens'' | _ \<Rightarrow> ''tokens'')"

text \<open>A text with holes for items of the result, filled from left to right.\<close>

datatype piece = Txt string | Item string | ReprItem string

fun fill :: "libs \<Rightarrow> tool_result \<Rightarrow> piece list \<Rightarrow> exn + string" where
  "fill L r [] = Inr []"
| "fill L r (Txt t # ps) = rbind (fill L r ps) (\<lambda>s. Inr (t @ s))"
| "fill L r (Item k # ps) = rbind (result_item r k) (\<lambda>v. rbind (fill L r ps) (\<lambda>s. Inr (result_text L v @ s)))"
| "fill L r (ReprItem k # ps) = rbind (result_item r k) (\<lambda>v. rbind (fill L r ps) (\<lambda>s. Inr (result_repr L v @ s)))"

definition py_or_val :: "pyval \<Rightarrow> pyval \<Rightarrow> pyval" where
  "py_or_val a b = (if truthy a then a else b)"

definition get_or :: "pydict \<Rightarrow> string \<Rightarrow> pyval \<Rightarrow> pyval" where
  "get_or d k dflt = (case dget d k of Some v \<Rightarrow> v | None \<Rightarrow> dflt)"

definition chain_label :: "pydict \<Rightarrow> pyval" where
  "chain_label row = py_or_val (dget_none row ''mercury_chain'') (get_or row ''network'' (PStr []))"

definition price_bit :: "libs \<Rightarrow> pydict \<Rightarrow> string" where
  "price_bit L p = py_strip (py_str L (dget_none p ''value'') @ '' '' @ py_str L (get_or p ''currency'' (PStr [])))"

definition price_bits :: "libs \<Rightarrow> pydict \<Rightarrow> string list" where
  "price_bits L row = map (price_bit L) (dict_rows (only_list (dget_none row ''prices'')))"

definition token_price_summary :: "libs \<Rightarrow> pydict \<Rightarrow> string" where
  "token_price_summary L row = (let head = py_str L (get_or row ''address'' (PStr [])) @ '' on '' @ py_str L (chain_label row) @ '': '';
       err = dget_none row ''error'' in
     if truthy err then head @ ''error ('' @ py_str L err @ '')''
     else if only_list (dget_none row ''prices'') = [] then head @ ''no quoted prices''
     else head @ py_or (py_join '', '' (price_bits L row)) ''no quoted prices'')"

definition format_token_prices_response :: "libs \<Rightarrow> tool_result \<Rightarrow> string" where
  "format_token_prices_response L r = (let rows = dict_rows (only_list (result_get r ''tokens'' PNone)) in
     if rows = [] then ''Token prices: no results returned.''
     else ''Token prices '' @ EM_DASH @ '' '' @ py_join ''; '' (map (token_price_summary L) rows) @ ''.'')"

definition has_page_key :: "tool_result \<Rightarrow> bool" where
  "has_page_key r = (stripped_text (result_get r ''page_key'' PNone) \<noteq> None)"

definition portfolio_summary :: "libs \<Rightarrow> pydict \<Rightarrow> exn + string" where
  "portfolio_summary L row = (let
       token = dget_none row ''token_address'';
       meta = as_dict (dget_none row ''metadata'');
       sym = (case meta of Some m \<Rightarrow> str_or_empty (dget_none m ''symbol'') | None \<Rightarrow> []);
       label = (if sym \<noteq> [] then sym else py_str L (py_or_val token (PStr ''native'')));
       head = label @ '' on '' @ py_str L (chain_label row) @ '': '';
       err = dget_none row ''error'' in
     rbind (compute_portfolio_balance_display (balance_text L (get_or row ''balance'' (PStr []))) (as_str token) meta) (\<lambda>bal.
     Inr (if truthy err then head @ ''error ('' @ py_str L err @ '')''
          else head @ ''balance '' @ bal @
            (if price_bits L row = [] then [] else '', prices: '' @ py_join '', '' (price_bits L row)))))"

definition format_portfolio_tokens_response :: "libs \<Rightarrow> tool_result \<Rightarrow> exn + string" where
  "format_portfolio_tokens_response L r = (let wallet = result_get r ''wallet_address'' (PStr []);
       tokens = only_list (result_get r ''tokens'' PNone) in
     if tokens = []
     then Inr ((if truthy wallet then ''Portfolio for '' @ py_str L wallet @ '': no tokens returned.''
                else ''Portfolio: no tokens returned.'') @
               (if has_page_key r then '' (more pages available; pass page_key for next request.)'' else []))
     else rbind (rmap (portfolio_summary L) (dict_rows tokens)) (\<lambda>summaries.
       Inr ((if summaries = [] then ''Portfolio for '' @ py_str L wallet @ '': no token rows parsed.''
             else ''Portfolio for '' @ py_str L wallet @ '' '' @ EM_DASH @ '' '' @ py_join ''; '' summaries @ ''.'') @
            (if has_page_key r then '' (next page: include page_key in the intent.)'' else []))))"

definition transfer_bit :: "libs \<Rightarrow> pydict \<Rightarrow> string" where
  "transfer_bit L row = (let it = (\<lambda>k. py_str L (get_or row k (PStr []))) in
     py_strip (''block '' @ it ''block_num'' @ '' '' @ it ''category'' @ '' '' @ it ''hash''))"

definition format_transfer_history_response :: "libs \<Rightarrow> tool_result \<Rightarrow> string" where
  "format_transfer_history_response L r = (let wallet = result_get r ''wallet_address'' (PStr []);
       label = py_str L (py_or_val (result_get r ''mercury_chain'' PNone) (result_get r ''network'' (PStr [])));
       transfers = only_list (result_get r ''transfers'' PNone) in
     if transfers = []
     then (if truthy wallet then ''Transfer history for '' @ py_str L wallet @ '' on '' @ label @ '': no transfers returned.''
           else ''Transfer history on '' @ label @ '': no transfers returned.'') @
          (if has_page_key r then '' (more pages available; pass page_key within Alchemy TTL.)'' else [])
     else ''Transfer history for '' @ py_str L wallet @ '' on '' @ label @ '' '' @ EM_DASH @ '' '' @
            py_join ''; '' (map (transfer_bit L) (dict_rows (take 12 transfers))) @ ''.'' @
          (if 12 < length transfers
           then '' ('' @ nat_text (length transfers) @ '' transfers returned; showing first 12.)'' else []) @
          (if has_page_key r then '' Next page: include page_key in the intent (incoming/outgoing only; expires ~10 minutes per Alchemy).''
           else []))"

definition format_success_response :: "libs \<Rightarrow> string \<Rightarrow> tool_result \<Rightarrow> exn + string" where
  "format_success_response L intent_kind r = (case kind_of_value (PStr intent_kind) of
       Some NATIVE_BALANCE \<Rightarrow> fill L r [Item ''wallet_address'', Txt '' has '', Item ''formatted'', Txt '' '', Item ''symbol'',
         Txt '' on '', Item ''chain'', Txt ''.'']
     | Some ERC20_BALANCE \<Rightarrow> fill L r [Item ''wallet_address'', Txt '' has '', Item ''formatted'', Txt '' '',
         Txt (symbol_text r), Txt '' on '', Item ''chain'', Txt ''.'']
     | Some ERC20_ALLOWANCE \<Rightarrow> fill L r [Item ''spender_address'', Txt '' is allowed to spend '', Item ''formatted'', Txt '' '',
         Txt (symbol_text r), Txt '' from '', Item ''owner_address'', Txt '' on '', Item ''chain'', Txt ''.'']
     | Some ERC20_METADATA \<Rightarrow> fill L r [Txt (py_str L (py_or_val (result_get r ''name'' PNone) (PStr ''ERC20 token''))), Txt '' ('',
         Txt (symbol_text r), Txt '') on '', Item ''chain'', Txt '' has '', Item ''decimals'', Txt '' decimals.'']
     | Some CONTRACT_READ \<Rightarrow> fill L r [Item ''function_name'', Txt '' returned '', ReprItem ''result'', Txt '' on '', Item ''chain'',
         Txt ''.'']
     | Some KNOWN_ADDRESS \<Rightarrow> fill L r [Item ''key'', Txt '' ('', Item ''category'', Txt '') on chain_id='', Item ''chain_id'', Txt '' '',
         Item ''chain'', Txt '' resolves to '', Item ''address'', Txt ''.'']
     | Some TOKEN_PRICES \<Rightarrow> Inr (format_token_prices_response L r)
     | Some PORTFOLIO_TOKENS \<Rightarrow> format_portfolio_tokens_response L r
     | Some TRANSFER_HISTORY \<Rightarrow> Inr (format_transfer_history_response L r)
     | None \<Rightarrow> Inr ''Read-only request completed.'')"

definition format_response :: "libs \<Rightarrow> mercury_state \<Rightarrow> exn + mercury_state" where
  "format_response L s =
     rbind (case s_error s of
         Some e \<Rightarrow> Inr (format_error_response (ErrorInfo e))
       | None \<Rightarrow> rbind (intent_dict s) (\<lambda>d. format_success_response L (py_str L (get_or d ''kind'' (PStr [])))
           (case s_tool_result s of Some r \<Rightarrow> r | None \<Rightarrow> []))) (\<lambda>text.
     Inr (with_response s text))"

section \<open>The graph\<close>

definition run_read_graph :: "libs \<Rightarrow> chain_table \<Rightarrow> tool_registry \<Rightarrow> mercury_state \<Rightarrow> exn + mercury_state" where
  "run_read_graph L C reg s = (let s1 = parse_intent L C s in
     rbind (route_after_parse s1) (\<lambda>r1.
     if r1 = ROUTE_UNSUPPORTED then unsupported_response s1
     else rbind (resolve_chain L C s1) (\<lambda>s2.
       rbind (route_after_chain s2) (\<lambda>r2.
       if r2 = ROUTE_FORMAT_RESPONSE then format_response L s2
       else rbind (execute_read_tool L C reg r2 s2) (format_response L)))))"

end
