(* ===== verification/Swap_Preparation.thy ===== *)
theory Swap_Preparation
  imports Swap_Providers Prepare_Nodes
begin

text \<open>
  Swap preparation (\<^verbatim>\<open>mercury/tools/swaps.py\<close>), its node and routes (\<^verbatim>\<open>mercury/graph/nodes_swaps.py\<close>) and the
  swap graph of \<^verbatim>\<open>agent.py\<close>: a quote, then an approval when the allowance is short, otherwise the execution.
\<close>

section \<open>Preparation\<close>

definition NATIVE_SELL_DECIMALS :: int where
  "NATIVE_SELL_DECIMALS = 18"

definition check_swap_allowance :: "libs \<Rightarrow> read_factory \<Rightarrow> swap_quote \<Rightarrow> exn + swap_allowance_check" where
  "check_swap_allowance L F q = (case rt_spender_address (q_route q) of
       None \<Rightarrow> Inl (value_error ''Swap quote is missing spender address.'')
     | Some spender \<Rightarrow>
         rbind (check_erc20_approval_preconditions L F (rq_chain (q_request q)) (rt_from_token (q_route q))
           (rq_wallet_address (q_request q)) spender (rq_amount_in (q_request q)) True False False) (\<lambda>p.
         mk_swap_allowance_check
           \<lparr>al_spender_address = ap_spender_address p, al_required_amount_raw = am_raw_amount (ap_amount p),
            al_current_allowance_raw = ap_current_allowance_raw p,
            al_allowance_sufficient = ap_allowance_sufficient p\<rparr>))"

definition prepared_swap_transaction_from_execution ::
  "libs \<Rightarrow> py_env \<Rightarrow> swap_execution \<Rightarrow> exn + prepared_transaction" where
  "prepared_swap_transaction_from_execution L V x =
     (case (sw_execution_type x, sw_transaction x) of
        (EVM_TRANSACTION, Some t) \<Rightarrow> swap_prepared L (sw_quote x) t
          (swap_metadata V (provider_value (sw_provider x))
             [(''amount_in'', PStr (rq_amount_in (q_request (sw_quote x))))] (sw_quote x))
      | _ \<Rightarrow> Inl (value_error ''Only EVM swap executions can become prepared transactions.''))"

definition swap_destination :: "chain_table \<Rightarrow> swap_intent \<Rightarrow> exn + (string option \<times> int option)" where
  "swap_destination C i = (case si_to_chain i of
       Some name \<Rightarrow> rbind (get_chain_by_name C name) (\<lambda>dest.
         if (case si_to_chain_id i of Some n \<Rightarrow> cc_chain_id dest \<noteq> n | None \<Rightarrow> False)
         then Inl (value_error ''Destination chain name does not match destination chain id.'')
         else Inr (Some (cc_name dest), Some (cc_chain_id dest)))
     | None \<Rightarrow> (case si_to_chain_id i of
           Some n \<Rightarrow> rbind (get_chain_by_id C n) (\<lambda>dest. Inr (Some (cc_name dest), Some (cc_chain_id dest)))
         | None \<Rightarrow> Inr (None, None)))"

record sell_side =
  sl_native :: bool
  sl_wrapped :: "string option"
  sl_amount :: erc20_amount
  sl_token :: string

definition swap_sell_side :: "libs \<Rightarrow> read_factory \<Rightarrow> chain_config \<Rightarrow> swap_intent \<Rightarrow> exn + sell_side" where
  "swap_sell_side L F chain i =
     rbind (normalize_evm_address L ZERO_ADDRESS) (\<lambda>native.
     if si_from_token i = native then
       (case wrapped_native_token_address chain of
          None \<Rightarrow> Inl (value_error (''Cannot prepare a native token swap on chain '' @ repr_str (cc_name chain) @
            '': wrapped native token metadata is not configured for this chain.''))
        | Some w \<Rightarrow>
            rbind (normalize_evm_address L w) (\<lambda>wrapped.
            rbind (from_human L (si_amount_in i) NATIVE_SELL_DECIMALS) (\<lambda>a.
            Inr \<lparr>sl_native = True, sl_wrapped = Some wrapped, sl_amount = a, sl_token = native\<rparr>)))
     else
       rbind (get_erc20_metadata L F (cc_name chain) (si_from_token i)) (\<lambda>m.
       rbind (from_human L (si_amount_in i) (md_decimals m)) (\<lambda>a.
       Inr \<lparr>sl_native = False, sl_wrapped = None, sl_amount = a, sl_token = md_token_address m\<rparr>)))"

definition swap_request ::
  "libs \<Rightarrow> chain_table \<Rightarrow> read_factory \<Rightarrow> address_resolver \<Rightarrow> swap_intent \<Rightarrow> exn + swap_quote_request" where
  "swap_request L C F R i =
     rbind (R (si_wallet_id i)) (\<lambda>wallet.
     rbind (get_chain_by_name C (si_chain i)) (\<lambda>chain.
     rbind (swap_destination C i) (\<lambda>(to_chain, to_chain_id).
     rbind (swap_sell_side L F chain i) (\<lambda>sl.
     if am_raw_amount (sl_amount sl) \<le> 0 then Inl (value_error ''Swap amount must be greater than zero.'')
     else mk_swap_quote_request L C
       \<lparr>rq_wallet_id = si_wallet_id i, rq_wallet_address = wa_address wallet, rq_chain = cc_name chain,
        rq_chain_id = cc_chain_id chain, rq_from_token = sl_token sl, rq_to_token = si_to_token i,
        rq_amount_in = si_amount_in i, rq_amount_in_raw = am_raw_amount (sl_amount sl),
        rq_max_slippage_bps = si_max_slippage_bps i, rq_min_amount_out = si_min_amount_out i,
        rq_recipient_address = si_recipient_address i, rq_idempotency_key = si_idempotency_key i,
        rq_to_chain = to_chain, rq_to_chain_id = to_chain_id, rq_from_token_is_native = sl_native sl,
        rq_wrapped_from_token = sl_wrapped sl\<rparr>))))"

definition quote_only :: "swap_quote \<Rightarrow> policy_decision \<Rightarrow> prepared_swap" where
  "quote_only q dec = \<lparr>ps_quote = q, ps_execution = None, ps_quote_policy_decision = dec,
     ps_execution_policy_decision = None, ps_allowance = None, ps_approval_transaction = None,
     ps_swap_transaction = None, ps_order_submission_key = None\<rparr>"

definition approval_step ::
  "libs \<Rightarrow> read_factory \<Rightarrow> address_resolver \<Rightarrow> swap_quote \<Rightarrow> swap_allowance_check \<Rightarrow> exn + prepared_transaction" where
  "approval_step L F R q al = (let r = q_request q in
     prepare_erc20_approval L F R (rq_chain r) (rq_wallet_id r) (rt_from_token (q_route q)) (al_spender_address al)
       (rq_amount_in r) (Some (rq_idempotency_key r @ '':approval'')) True False False)"

definition execution_step ::
  "libs \<Rightarrow> chain_table \<Rightarrow> py_env \<Rightarrow> swap_router \<Rightarrow> swap_policy_config \<Rightarrow> swap_quote \<Rightarrow> policy_decision
     \<Rightarrow> swap_allowance_check option \<Rightarrow> exn + prepared_swap" where
  "execution_step L C V ro policy q qdec al =
     rbind (provider_for ro (Some (q_provider q))) (\<lambda>p.
     rbind (pr_build_execution p q) (\<lambda>x.
     rbind (evaluate_swap_execution_policy L C policy (dt_utc (env_execution_check_time V)) x) (\<lambda>xdec.
     let base = (quote_only q qdec)\<lparr>ps_execution := Some x, ps_execution_policy_decision := Some xdec,
       ps_allowance := al\<rparr> in
     if pd_status xdec = REJECTED_BY_POLICY then Inr base
     else if sw_execution_type x = EIP712_ORDER \<and> sw_provider x = COWSWAP
       then Inr (base\<lparr>ps_order_submission_key := Some (rq_idempotency_key (q_request q) @ '':cow_order'')\<rparr>)
     else rbind (prepared_swap_transaction_from_execution L V x) (\<lambda>t.
       Inr (base\<lparr>ps_swap_transaction := Some t\<rparr>)))))"

definition prepare_swap ::
  "libs \<Rightarrow> chain_table \<Rightarrow> py_env \<Rightarrow> swap_router \<Rightarrow> read_factory \<Rightarrow> address_resolver \<Rightarrow> swap_policy_config \<Rightarrow> swap_intent
     \<Rightarrow> exn + prepared_swap" where
  "prepare_swap L C V ro F R policy i =
     rbind (swap_request L C F R i) (\<lambda>r.
     rbind (router_get_quote ro r (si_provider_preference i)) (\<lambda>q.
     rbind (evaluate_swap_quote_policy L C policy (dt_utc (env_quote_check_time V)) q) (\<lambda>qdec.
     if pd_status qdec = REJECTED_BY_POLICY then Inr (quote_only q qdec)
     else if rq_from_token_is_native (q_request q) then execution_step L C V ro policy q qdec None
     else
     rbind (check_swap_allowance L F q) (\<lambda>al.
     if \<not> al_allowance_sufficient al then
       rbind (approval_step L F R q al) (\<lambda>t.
       Inr ((quote_only q qdec)\<lparr>ps_allowance := Some al, ps_approval_transaction := Some t\<rparr>))
     else execution_step L C V ro policy q qdec (Some al)))))"

section \<open>The swap node and its routes\<close>

definition rd_min_opt_str :: "pydict \<Rightarrow> string \<Rightarrow> (string \<Rightarrow> string field) \<Rightarrow> string option field" where
  "rd_min_opt_str d fld f = rbind (rd_opt_str1 d fld) (\<lambda>v. case v of
       None \<Rightarrow> Inr None
     | Some s \<Rightarrow> rbind (f s) (\<lambda>a. Inr (Some a)))"

definition from_token_field :: "libs \<Rightarrow> string \<Rightarrow> string \<Rightarrow> string field" where
  "from_token_field L fld v = (case normalize_swap_input_from_token L v of
       Inr a \<Rightarrow> Inr a | Inl e \<Rightarrow> Inl [(fld, FieldValueError (exn_text L e))])"

definition rd_int_range :: "libs \<Rightarrow> pydict \<Rightarrow> string \<Rightarrow> (int option \<Rightarrow> field_errors) \<Rightarrow> int option field" where
  "rd_int_range L d fld errs = rbind (rd_opt_int L d fld) (\<lambda>v. if errs v = [] then Inr v else Inl (errs v))"

definition rd_provider :: "pydict \<Rightarrow> string \<Rightarrow> swap_provider_name option field" where
  "rd_provider d fld = (case dget_none d fld of
       PNone \<Rightarrow> Inr None
     | PStr s \<Rightarrow> (case provider_of_value s of
           Some p \<Rightarrow> Inr (Some p)
         | None \<Rightarrow> Inl [(fld, WrongType ''enum'')])
     | _ \<Rightarrow> Inl [(fld, WrongType ''enum'')])"

definition swap_intent_of :: "libs \<Rightarrow> chain_table \<Rightarrow> pydict \<Rightarrow> exn + swap_intent" where
  "swap_intent_of L C d = (let wallet = rd_str1 d ''wallet_id''; chain = rd_str1 d ''chain'';
       from_token = rbind (rd_str1 d ''from_token'') (from_token_field L ''from_token'');
       to_token = rd_addr L d ''to_token''; amount = rd_str1 d ''amount_in'';
       min_out = rd_opt_str1 d ''min_amount_out'';
       slippage = rd_int_range L d ''max_slippage_bps'' (bps_errs ''max_slippage_bps'');
       preference = rd_provider d ''provider_preference'';
       recipient = rd_min_opt_str d ''recipient_address'' (norm_addr_field L ''recipient_address'');
       key = rd_str1 d ''idempotency_key'';
       to_chain = rd_min_opt_str d ''to_chain'' (\<lambda>s. Inr (lower_strip s));
       to_chain_id = rd_int_range L d ''to_chain_id''
         (\<lambda>v. opt_check (\<lambda>n. 0 < n) v ''to_chain_id'' (GreaterThan 0)) in
     rbind (finish ''SwapIntent''
       (fld_errs wallet @ fld_errs chain @ fld_errs from_token @ fld_errs to_token @ fld_errs amount @ fld_errs min_out
        @ fld_errs slippage @ fld_errs preference @ fld_errs recipient @ fld_errs key @ fld_errs to_chain
        @ fld_errs to_chain_id)
       \<lparr>si_wallet_id = sval wallet, si_chain = lower_strip (sval chain), si_from_token = sval from_token,
        si_to_token = sval to_token, si_amount_in = sval amount, si_min_amount_out = oval min_out,
        si_max_slippage_bps = oval slippage, si_provider_preference = oval preference,
        si_recipient_address = oval recipient, si_idempotency_key = sval key, si_to_chain = oval to_chain,
        si_to_chain_id = oval to_chain_id\<rparr>) (\<lambda>i.
     rbind (model_check ''SwapIntent''
       (if si_from_token i = si_to_token i then Some ''Swap tokens must be different.'' else None) i)
       (\<lambda>i. model_check ''SwapIntent'' (destination_error L C (si_to_chain i) (si_to_chain_id i)) i)))"

record swap_graph_deps =
  sg_router :: swap_router
  sg_provider_factory :: read_factory
  sg_address_resolver :: address_resolver
  sg_policy_config :: swap_policy_config
  sg_env :: py_env

definition swap_payload_from_state :: "mercury_state \<Rightarrow> exn + pydict" where
  "swap_payload_from_state = payload_from_state ''Swap graph requires a structured swap intent.''"

definition build_swap :: "libs \<Rightarrow> chain_table \<Rightarrow> swap_graph_deps \<Rightarrow> pydict \<Rightarrow> exn + prepared_swap" where
  "build_swap L C g payload =
     rbind (swap_intent_of L C payload) (\<lambda>i.
     prepare_swap L C (sg_env g) (sg_router g) (sg_provider_factory g) (sg_address_resolver g) (sg_policy_config g) i)"

definition typed_order_ready :: "prepared_swap \<Rightarrow> bool" where
  "typed_order_ready p = (case (ps_execution p, ps_execution_policy_decision p) of
       (Some x, Some dec) \<Rightarrow> sw_execution_type x = EIP712_ORDER \<and> pd_status dec = NEEDS_APPROVAL
     | _ \<Rightarrow> False)"

definition swap_stop_decision :: "prepared_swap \<Rightarrow> exn + policy_decision" where
  "swap_stop_decision p = (let dec = (case ps_execution_policy_decision p of
         Some x \<Rightarrow> x | None \<Rightarrow> ps_quote_policy_decision p) in
     if pd_status dec \<noteq> REJECTED_BY_POLICY
     then mk_policy_decision REJECTED_BY_POLICY ''Swap did not produce a transaction for execution.'' else Inr dec)"

definition prepare_swap_transaction ::
  "libs \<Rightarrow> chain_table \<Rightarrow> swap_graph_deps \<Rightarrow> mercury_state \<Rightarrow> exn + mercury_state" where
  "prepare_swap_transaction L C g s =
     (case rbind (swap_payload_from_state s) (\<lambda>payload. rbind (build_swap L C g payload) (\<lambda>p. Inr (payload, p))) of
        Inl e \<Rightarrow> Inr (state_for_preparation_error L s e ''prepare_swap_transaction'')
      | Inr (payload, p) \<Rightarrow> (let r = q_request (ps_quote p);
            s' = s\<lparr>s_prepared_swap := Some p, s_chain_name := Some (rq_chain r),
                   s_wallet_address := Some (rq_wallet_address r)\<rparr> in
          case next_transaction p of
            Some t \<Rightarrow> Inr (s'\<lparr>s_prepared_transaction := Some (Model (merge_intent_metadata_into_prepared t payload))\<rparr>)
          | None \<Rightarrow> if typed_order_ready p
              then Inr (s'\<lparr>s_policy_decision := ps_execution_policy_decision p\<rparr>)
              else rbind (swap_stop_decision p) (\<lambda>dec. Inr (s'\<lparr>s_policy_decision := Some dec\<rparr>))))"

definition end_swap_typed_order_pipeline :: "mercury_state \<Rightarrow> mercury_state" where
  "end_swap_typed_order_pipeline s = s"

definition route_swap_intent :: "libs \<Rightarrow> mercury_state \<Rightarrow> entry_route" where
  "route_swap_intent L s = (case swap_payload_from_state s of
       Inl _ \<Rightarrow> ToUnsupported
     | Inr payload \<Rightarrow> if payload_kind L payload = ''swap'' then ToPrepare else ToUnsupported)"

datatype swap_route_target = SwapReject | SwapResolveNonce | SwapTypedOrderReady

definition route_after_swap_prepare :: "mercury_state \<Rightarrow> swap_route_target" where
  "route_after_swap_prepare s =
     (if s_error s \<noteq> None then SwapReject
      else if s_prepared_transaction s \<noteq> None then SwapResolveNonce
      else (case s_prepared_swap s of
          Some p \<Rightarrow> if typed_order_ready p then SwapTypedOrderReady else SwapReject
        | None \<Rightarrow> SwapReject))"

definition run_swap_graph :: "swap_graph_deps \<Rightarrow> tx_deps \<Rightarrow> mercury_state \<Rightarrow> world \<Rightarrow> tx_step" where
  "run_swap_graph g d s w = (case route_swap_intent (d_libs d) s of
       ToUnsupported \<Rightarrow> (unsupported_response s, w)
     | ToPrepare \<Rightarrow> (case prepare_swap_transaction (d_libs d) (d_chains d) g s of
           Inl e \<Rightarrow> (Inl e, w)
         | Inr s' \<Rightarrow> (case route_after_swap_prepare s' of
               SwapReject \<Rightarrow> run_from d RejectTransaction s' w
             | SwapResolveNonce \<Rightarrow> run_from d ResolveNonce s' w
             | SwapTypedOrderReady \<Rightarrow> (Inr (end_swap_typed_order_pipeline s'), w))))"

section \<open>What a prepared swap holds\<close>

lemma execution_step_Inr:
  assumes "execution_step L C V ro policy q qdec al = Inr ps"
  shows "ps_quote ps = q" "ps_quote_policy_decision ps = qdec" "ps_allowance ps = al" "ps_approval_transaction ps = None"
    "ps_swap_transaction ps = Some t \<Longrightarrow> \<exists>p x xdec tx. p \<in> set (ro_providers ro) \<and> pr_name p = q_provider q \<and>
       pr_build_execution p q = Inr x \<and>
       evaluate_swap_execution_policy L C policy (dt_utc (env_execution_check_time V)) x = Inr xdec \<and>
       pd_status xdec \<noteq> REJECTED_BY_POLICY \<and> ps_execution ps = Some x \<and> ps_execution_policy_decision ps = Some xdec \<and>
       sw_execution_type x = EVM_TRANSACTION \<and> sw_transaction x = Some tx \<and>
       swap_prepared L (sw_quote x) tx (swap_metadata V (provider_value (sw_provider x))
         [(''amount_in'', PStr (rq_amount_in (q_request (sw_quote x))))] (sw_quote x)) = Inr t"
proof -
  from assms obtain p x xdec where p: "provider_for ro (Some (q_provider q)) = Inr p" and x: "pr_build_execution p q = Inr x"
    and dec: "evaluate_swap_execution_policy L C policy (dt_utc (env_execution_check_time V)) x = Inr xdec"
    by (auto simp: execution_step_def rbind_eq_Inr)
  let ?base = "(quote_only q qdec)\<lparr>ps_execution := Some x, ps_execution_policy_decision := Some xdec, ps_allowance := al\<rparr>"
  have cases: "ps = ?base \<or> (\<exists>k. ps = ?base\<lparr>ps_order_submission_key := k\<rparr>) \<or>
      (pd_status xdec \<noteq> REJECTED_BY_POLICY \<and> (\<exists>t. prepared_swap_transaction_from_execution L V x = Inr t \<and>
         ps = ?base\<lparr>ps_swap_transaction := Some t\<rparr>))"
    using assms p x dec by (auto simp: execution_step_def Let_def rbind_eq_Inr split: if_splits)
  then show "ps_quote ps = q" "ps_quote_policy_decision ps = qdec" "ps_allowance ps = al" "ps_approval_transaction ps = None"
    by (auto simp: quote_only_def)
  assume t: "ps_swap_transaction ps = Some t"
  with cases have r: "pd_status xdec \<noteq> REJECTED_BY_POLICY" "prepared_swap_transaction_from_execution L V x = Inr t"
    "ps_execution ps = Some x" "ps_execution_policy_decision ps = Some xdec"
    by (auto simp: quote_only_def)
  have "p \<in> set (ro_providers ro)" "pr_name p = q_provider q" using provider_for_Inr [OF p] by simp_all
  with r x dec show "\<exists>p x xdec tx. p \<in> set (ro_providers ro) \<and> pr_name p = q_provider q \<and> pr_build_execution p q = Inr x \<and>
       evaluate_swap_execution_policy L C policy (dt_utc (env_execution_check_time V)) x = Inr xdec \<and>
       pd_status xdec \<noteq> REJECTED_BY_POLICY \<and> ps_execution ps = Some x \<and> ps_execution_policy_decision ps = Some xdec \<and>
       sw_execution_type x = EVM_TRANSACTION \<and> sw_transaction x = Some tx \<and>
       swap_prepared L (sw_quote x) tx (swap_metadata V (provider_value (sw_provider x))
         [(''amount_in'', PStr (rq_amount_in (q_request (sw_quote x))))] (sw_quote x)) = Inr t"
    by (auto simp: prepared_swap_transaction_from_execution_def split: swap_execution_type.splits option.splits)
qed

text \<open>The ways a preparation can end: a rejected quote, an approval to send first, or an execution.\<close>

lemma prepare_swap_cases:
  assumes "prepare_swap L C V ro F R policy i = Inr ps"
  obtains r q qdec where "swap_request L C F R i = Inr r" "router_get_quote ro r (si_provider_preference i) = Inr q"
    "evaluate_swap_quote_policy L C policy (dt_utc (env_quote_check_time V)) q = Inr qdec" "ps_quote ps = q"
    "ps_quote_policy_decision ps = qdec"
    "(pd_status qdec = REJECTED_BY_POLICY \<and> ps = quote_only q qdec) \<or>
     (pd_status qdec \<noteq> REJECTED_BY_POLICY \<and> rq_from_token_is_native (q_request q) \<and>
        execution_step L C V ro policy q qdec None = Inr ps) \<or>
     (\<exists>al t. pd_status qdec \<noteq> REJECTED_BY_POLICY \<and> \<not> rq_from_token_is_native (q_request q) \<and> check_swap_allowance L F q = Inr al \<and>
        \<not> al_allowance_sufficient al \<and> approval_step L F R q al = Inr t \<and>
        ps = (quote_only q qdec)\<lparr>ps_allowance := Some al, ps_approval_transaction := Some t\<rparr>) \<or>
     (\<exists>al. pd_status qdec \<noteq> REJECTED_BY_POLICY \<and> \<not> rq_from_token_is_native (q_request q) \<and> check_swap_allowance L F q = Inr al \<and>
        al_allowance_sufficient al \<and> execution_step L C V ro policy q qdec (Some al) = Inr ps)"
proof -
  from assms obtain r q qdec where r: "swap_request L C F R i = Inr r"
    and q: "router_get_quote ro r (si_provider_preference i) = Inr q"
    and dec: "evaluate_swap_quote_policy L C policy (dt_utc (env_quote_check_time V)) q = Inr qdec"
    by (auto simp: prepare_swap_def rbind_eq_Inr)
  have "(pd_status qdec = REJECTED_BY_POLICY \<and> ps = quote_only q qdec) \<or>
     (pd_status qdec \<noteq> REJECTED_BY_POLICY \<and> rq_from_token_is_native (q_request q) \<and>
        execution_step L C V ro policy q qdec None = Inr ps) \<or>
     (\<exists>al t. pd_status qdec \<noteq> REJECTED_BY_POLICY \<and> \<not> rq_from_token_is_native (q_request q) \<and> check_swap_allowance L F q = Inr al \<and>
        \<not> al_allowance_sufficient al \<and> approval_step L F R q al = Inr t \<and>
        ps = (quote_only q qdec)\<lparr>ps_allowance := Some al, ps_approval_transaction := Some t\<rparr>) \<or>
     (\<exists>al. pd_status qdec \<noteq> REJECTED_BY_POLICY \<and> \<not> rq_from_token_is_native (q_request q) \<and> check_swap_allowance L F q = Inr al \<and>
        al_allowance_sufficient al \<and> execution_step L C V ro policy q qdec (Some al) = Inr ps)"
    using assms r q dec by (auto simp: prepare_swap_def rbind_eq_Inr split: if_splits)
  moreover have "ps_quote ps = q \<and> ps_quote_policy_decision ps = qdec"
    using calculation execution_step_Inr(1,2) by (fastforce simp: quote_only_def)
  ultimately show thesis using that r q dec by blast
qed

section \<open>The swap graph as a preparation graph\<close>

definition swap_built :: "swap_graph_deps \<Rightarrow> tx_deps \<Rightarrow> mercury_state \<Rightarrow> prepared_transaction \<Rightarrow> bool" where
  "swap_built g d s t \<longleftrightarrow> (\<exists>payload ps t0. swap_payload_from_state s = Inr payload \<and>
     build_swap (d_libs d) (d_chains d) g payload = Inr ps \<and> next_transaction ps = Some t0 \<and>
     t = merge_intent_metadata_into_prepared t0 payload)"

lemma approval_step_complete: "web3_laws L \<Longrightarrow> approval_step L F R q al = Inr t \<Longrightarrow> complete L t"
  by (auto simp: approval_step_def prepare_erc20_approval_def prepared_erc20_transaction_def Let_def rbind_eq_Inr
      intro: mk_prepared_complete split: if_splits)

lemma swap_prepared_complete: "web3_laws L \<Longrightarrow> swap_prepared L q t m = Inr p \<Longrightarrow> complete L p"
  by (auto simp: swap_prepared_def Let_def intro: mk_prepared_complete)

lemma prepare_swap_complete:
  assumes "web3_laws L" and "prepare_swap L C V ro F R policy i = Inr ps" and "next_transaction ps = Some t"
  shows "complete L t"
proof (rule prepare_swap_cases [OF assms(2)])
  fix r q qdec
  have ex: "complete L t" if "execution_step L C V ro policy q qdec al = Inr ps" for al
  proof -
    have "ps_swap_transaction ps = Some t"
      using assms(3) execution_step_Inr(4) [OF that] by (simp add: next_transaction_def)
    from execution_step_Inr(5) [OF that this] show ?thesis using swap_prepared_complete [OF assms(1)] by blast
  qed
  assume "(pd_status qdec = REJECTED_BY_POLICY \<and> ps = quote_only q qdec) \<or>
     (pd_status qdec \<noteq> REJECTED_BY_POLICY \<and> rq_from_token_is_native (q_request q) \<and>
        execution_step L C V ro policy q qdec None = Inr ps) \<or>
     (\<exists>al t. pd_status qdec \<noteq> REJECTED_BY_POLICY \<and> \<not> rq_from_token_is_native (q_request q) \<and> check_swap_allowance L F q = Inr al \<and>
        \<not> al_allowance_sufficient al \<and> approval_step L F R q al = Inr t \<and>
        ps = (quote_only q qdec)\<lparr>ps_allowance := Some al, ps_approval_transaction := Some t\<rparr>) \<or>
     (\<exists>al. pd_status qdec \<noteq> REJECTED_BY_POLICY \<and> \<not> rq_from_token_is_native (q_request q) \<and> check_swap_allowance L F q = Inr al \<and>
        al_allowance_sufficient al \<and> execution_step L C V ro policy q qdec (Some al) = Inr ps)"
  then show "complete L t"
    using assms(3) ex approval_step_complete [OF assms(1)] by (auto simp: next_transaction_def quote_only_def)
qed

lemma prepare_swap_node:
  assumes "web3_laws (d_libs d)" and "fresh s" and "prepare_swap_transaction (d_libs d) (d_chains d) g s = Inr s'"
    and "s_error s' = None" and "s_prepared_transaction s' \<noteq> None"
  shows "\<exists>t. swap_built g d s t \<and> complete (d_libs d) t \<and> cleared s' \<and> s_prepared_transaction s' = Some (Model t)"
proof -
  from assms(3,4) obtain payload ps where b: "swap_payload_from_state s = Inr payload"
    "build_swap (d_libs d) (d_chains d) g payload = Inr ps"
    by (auto simp: prepare_swap_transaction_def state_for_preparation_error_def rbind_eq_Inr
        simp del: normalize_exception.simps split: sum.splits)
  have "\<exists>t. next_transaction ps = Some t"
    using assms(2,3,5) b
    by (auto simp: prepare_swap_transaction_def fresh_def rbind_eq_Inr Let_def split: option.splits if_splits)
  then obtain t where t: "next_transaction ps = Some t" by blast
  then have s': "s_prepared_transaction s' = Some (Model (merge_intent_metadata_into_prepared t payload))" "cleared s'"
    using assms(2,3) b by (auto simp: prepare_swap_transaction_def fresh_def cleared_def Let_def)
  have "complete (d_libs d) t"
    using b(2) t prepare_swap_complete [OF assms(1)] by (auto simp: build_swap_def rbind_eq_Inr)
  with s' b t show ?thesis by (auto simp: swap_built_def complete_merge [OF assms(1)])
qed

interpretation swap_graph: prepared_graph "run_swap_graph g" "swap_built g" for g
proof
  fix d s w o' w'
  assume laws: "web3_laws (d_libs d)" and s: "fresh s" and run: "run_swap_graph g d s w = (o', w')"
  have "w' = w \<or> (\<exists>s'. prepare_swap_transaction (d_libs d) (d_chains d) g s = Inr s' \<and> s_error s' = None \<and>
      s_prepared_transaction s' \<noteq> None \<and> run_pipeline d s' w = (o', w'))"
    using run
    by (auto simp: run_swap_graph_def route_after_swap_prepare_def run_from_unfold(10) run_pipeline_def
        split: entry_route.splits sum.splits if_splits option.splits)
  then show "w' = w \<or> (\<exists>s' t. run_pipeline d s' w = (o', w') \<and> swap_built g d s t \<and> complete (d_libs d) t \<and>
      cleared s' \<and> s_prepared_transaction s' = Some (Model t))"
    using prepare_swap_node [OF laws s] by blast
qed

end
