(* ===== verification/Intent_Validation.thy ===== *)
theory Intent_Validation
  imports Read_Intents Swap_Preparation
begin

text \<open>
  Validation of requests before any graph runs: ENS names in address fields (\<^verbatim>\<open>providers/ens.py\<close>) and
  \<open>validate_invoke_intent\<close> (\<^verbatim>\<open>graph/intent_validation.py\<close>), which replaces the payload by its canonical form.
  The ENS client is a parameter. Two characters of the hint texts lie outside Latin-1 and are given
  by their UTF-8 bytes.
\<close>

section \<open>ENS names\<close>

definition looks_like_potential_ens_name :: "libs \<Rightarrow> string \<Rightarrow> bool" where
  "looks_like_potential_ens_name L raw = (let candidate = py_strip raw in
     if candidate = [] \<or> CHR ''.'' \<notin> set candidate then False
     else if is_address L candidate then False
     else if prefix ''0x'' (py_lower candidate) then False
     else list_all (\<lambda>label. py_strip label \<noteq> []) (split_on (CHR ''.'') candidate))"

text \<open>What \<open>ens.address\<close> answers: the exceptions it documents, no record, or an address.\<close>

datatype ens_answer = EnsInvalidName | EnsResolverNotFound | EnsUnsupportedFunction | EnsOtherError | EnsRaises exn
  | EnsNoRecord | EnsResolved string

type_synonym ens_client = "string \<Rightarrow> int \<Rightarrow> ens_answer"
type_synonym ens_cache = "((string \<times> int \<times> string) \<times> string) list"

definition ens_error :: "string \<Rightarrow> exn" where
  "ens_error t = Exn EnsResolutionError t"

fun ens_result :: "libs \<Rightarrow> string \<Rightarrow> ens_answer \<Rightarrow> exn + string" where
  "ens_result L name EnsInvalidName = Inl (ens_error (''Invalid ENS name: '' @ repr_str name @ ''.''))"
| "ens_result L name EnsResolverNotFound = Inl (ens_error (''No ENS resolver for name: '' @ repr_str name @ ''.''))"
| "ens_result L name EnsUnsupportedFunction =
     Inl (ens_error (''ENS resolver cannot resolve an address for: '' @ repr_str name @ ''.''))"
| "ens_result L name EnsOtherError = Inl (ens_error (''ENS resolution failed for '' @ repr_str name @ ''.''))"
| "ens_result L name (EnsRaises e) = Inl e"
| "ens_result L name EnsNoRecord =
     Inl (ens_error (''No address record found for ENS name '' @ repr_str name @ '' on this chain.''))"
| "ens_result L name (EnsResolved a) = normalize_evm_address L a"

definition resolve_evm_identifier ::
  "libs \<Rightarrow> chain_table \<Rightarrow> exn + ens_client \<Rightarrow> string \<Rightarrow> string \<Rightarrow> ens_cache \<Rightarrow> (exn + string) \<times> ens_cache" where
  "resolve_evm_identifier L C client raw chain_name cache = (let candidate = py_strip raw in
     if candidate = [] then (Inl (ens_error ''Address or ENS name must not be empty.''), cache)
     else if is_address L candidate then (normalize_evm_address L candidate, cache)
     else if \<not> looks_like_potential_ens_name L candidate then (Inl (Exn InvalidEVMAddressError ''Invalid EVM address.''), cache)
     else case get_chain_by_name C chain_name of
         Inl (Exn UnsupportedChainError t) \<Rightarrow> (Inl (ens_error t), cache)
       | Inl e \<Rightarrow> (Inl e, cache)
       | Inr chain \<Rightarrow> (let coin_type = evm_chain_id_to_ens_coin_type (cc_chain_id chain);
             key = (py_lower candidate, coin_type, ''forward'') in
           case dget cache key of
             Some a \<Rightarrow> (Inr a, cache)
           | None \<Rightarrow> (case rbind client (\<lambda>ens. ens_result L candidate (ens candidate coin_type)) of
                 Inl e \<Rightarrow> (Inl e, cache)
               | Inr out \<Rightarrow> (Inr out, dset key out cache))))"

definition effective_chain_name_for_resolution :: "chain_table \<Rightarrow> pydict \<Rightarrow> exn + string" where
  "effective_chain_name_for_resolution C merged = (case dget_none merged ''chain'' of
       PStr s \<Rightarrow> if py_strip s \<noteq> [] then Inr (lower_strip s) else rbind (get_default_chain C) (\<lambda>c. Inr (cc_name c))
     | _ \<Rightarrow> rbind (get_default_chain C) (\<lambda>c. Inr (cc_name c)))"

section \<open>Payloads\<close>

definition STAGE :: string where
  "STAGE = ''validate_invoke_intent''"

definition unwrap_intent_payload :: "pydict \<Rightarrow> pydict" where
  "unwrap_intent_payload raw = (case dget_none raw ''intent'' of PDict d \<Rightarrow> d | _ \<Rightarrow> raw)"

definition merge_canonical_into_raw_input :: "pydict \<Rightarrow> pydict \<Rightarrow> pydict" where
  "merge_canonical_into_raw_input raw canonical = (case dget_none raw ''intent'' of
       PDict _ \<Rightarrow> dset ''intent'' (PDict canonical) raw
     | _ \<Rightarrow> dmerge raw canonical)"

definition default_from :: "pydict \<Rightarrow> string \<Rightarrow> pydict \<Rightarrow> pydict" where
  "default_from raw key d = (case dget raw key of Some v \<Rightarrow> dsetdefault key v d | None \<Rightarrow> d)"

definition merged_invoke_validation_payload :: "pydict \<Rightarrow> pydict" where
  "merged_invoke_validation_payload raw = (case dget_none raw ''intent'' of
       PDict inner \<Rightarrow> fold (default_from raw) [''wallet_id'', ''chain'', ''idempotency_key'', ''metadata''] inner
     | _ \<Rightarrow> raw)"

section \<open>Canonical forms of value-moving intents\<close>

definition transfer_intent_json :: "erc20_transfer_intent \<Rightarrow> pydict" where
  "transfer_intent_json i = [(''chain'', PStr (ti_chain i)), (''wallet_id'', PStr (ti_wallet_id i)),
     (''token_address'', PStr (ti_token_address i)), (''recipient_address'', PStr (ti_recipient_address i)),
     (''amount'', PStr (ti_amount i)), (''amount_in_smallest_units'', PBool (ti_amount_in_smallest_units i)),
     (''idempotency_key'', opt_val PStr (ti_idempotency_key i))]"

definition approval_intent_json :: "erc20_approval_intent \<Rightarrow> pydict" where
  "approval_intent_json i = [(''chain'', PStr (ai_chain i)), (''wallet_id'', PStr (ai_wallet_id i)),
     (''token_address'', PStr (ai_token_address i)), (''spender_address'', PStr (ai_spender_address i)),
     (''amount'', PStr (ai_amount i)), (''amount_in_smallest_units'', PBool (ai_amount_in_smallest_units i)),
     (''idempotency_key'', opt_val PStr (ai_idempotency_key i)), (''spender_known'', PBool (ai_spender_known i)),
     (''allow_unlimited'', PBool (ai_allow_unlimited i))]"

definition native_intent_json :: "native_transfer_intent \<Rightarrow> pydict" where
  "native_intent_json i = [(''chain'', PStr (ni_chain i)), (''wallet_id'', PStr (ni_wallet_id i)),
     (''recipient_address'', PStr (ni_recipient_address i)), (''amount'', PStr (ni_amount i)),
     (''idempotency_key'', opt_val PStr (ni_idempotency_key i))]"

definition swap_intent_json :: "swap_intent \<Rightarrow> pydict" where
  "swap_intent_json i = [(''wallet_id'', PStr (si_wallet_id i)), (''chain'', PStr (si_chain i)),
     (''from_token'', PStr (si_from_token i)), (''to_token'', PStr (si_to_token i)), (''amount_in'', PStr (si_amount_in i)),
     (''min_amount_out'', opt_val PStr (si_min_amount_out i)), (''max_slippage_bps'', opt_val PInt (si_max_slippage_bps i)),
     (''provider_preference'', opt_val (\<lambda>p. PStr (provider_value p)) (si_provider_preference i)),
     (''recipient_address'', opt_val PStr (si_recipient_address i)), (''idempotency_key'', PStr (si_idempotency_key i)),
     (''to_chain'', opt_val PStr (si_to_chain i)), (''to_chain_id'', opt_val PInt (si_to_chain_id i))]"

datatype value_kind = Erc20TransferKind | Erc20ApprovalKind | NativeTransferKind | SwapKind

definition VALUE_MOVING_MODEL :: "(string \<times> value_kind) list" where
  "VALUE_MOVING_MODEL = [(''erc20_transfer'', Erc20TransferKind), (''erc20_approval'', Erc20ApprovalKind),
     (''native_transfer'', NativeTransferKind), (''swap'', SwapKind)]"

fun value_canonical :: "libs \<Rightarrow> chain_table \<Rightarrow> value_kind \<Rightarrow> pydict \<Rightarrow> exn + pydict" where
  "value_canonical L C Erc20TransferKind d = rbind (transfer_intent_of L d) (\<lambda>i. Inr (transfer_intent_json i))"
| "value_canonical L C Erc20ApprovalKind d = rbind (approval_intent_of L d) (\<lambda>i. Inr (approval_intent_json i))"
| "value_canonical L C NativeTransferKind d = rbind (native_intent_of L d) (\<lambda>i. Inr (native_intent_json i))"
| "value_canonical L C SwapKind d = rbind (swap_intent_of L C d) (\<lambda>i. Inr (swap_intent_json i))"

section \<open>Hints for the caller\<close>

definition plain_symbol :: "string \<Rightarrow> bool" where
  "plain_symbol raw = (let trimmed = py_strip raw in
     if list_ex (\<lambda>c. 127 < code_point c) trimmed then False
     else if prefix ''0x'' (py_lower trimmed) then False
     else if py_isdigit trimmed then False
     else if length (filter is_alpha_char trimmed) < 2 then False
     else let allowed = filter (\<lambda>c. c \<noteq> CHR ''_'') trimmed in
       allowed \<noteq> [] \<and> list_all is_alnum_char allowed \<and> 3 \<le> length allowed \<and> length allowed \<le> 16)"

definition looks_like_plain_symbol :: "pyval \<Rightarrow> bool" where
  "looks_like_plain_symbol raw = (case raw of PStr s \<Rightarrow> plain_symbol s | _ \<Rightarrow> False)"

definition KNOWN_ADDRESS_TOKEN_FIELDS :: "string list" where
  "KNOWN_ADDRESS_TOKEN_FIELDS = [''token_address'', ''from_token'', ''to_token'']"

text \<open>\<open>tuple(entry.get("loc", ()))\<close>; pydantic's locations are sequences.\<close>

definition loc_parts :: "pydict \<Rightarrow> pyval list" where
  "loc_parts entry = (case dget_none entry ''loc'' of PList ps \<Rightarrow> ps | _ \<Rightarrow> [])"

definition ELLIPSIS :: string where
  "ELLIPSIS = [CHR 0xE2, CHR 0x80, CHR 0xA6]"

definition ARROW :: string where
  "ARROW = [CHR 0xE2, CHR 0x86, CHR 0x92]"

definition unknown_symbol_hint :: "string \<Rightarrow> string \<Rightarrow> string \<Rightarrow> pydict" where
  "unknown_symbol_hint fld provided chain = [(''field'', PStr fld), (''provided'', PStr provided),
     (''chain'', PStr (lower_strip chain)), (''message'', PStr (
        ''`token_address`/token fields expect a checksummed 0x address. If ``'' @ provided @
        ''`` is a ticker symbol, resolve it with ``kind: known_address`` (``category``: ``token``, ``key``: ``'' @
        ELLIPSIS @ ''``).''))]"

definition known_symbol_hint :: "string \<Rightarrow> string \<Rightarrow> string \<Rightarrow> string \<Rightarrow> pydict" where
  "known_symbol_hint fld raw chain address = [(''field'', PStr fld), (''provided'', PStr (py_strip raw)),
     (''resolved_checksum_address'', PStr address), (''chain'', PStr (lower_strip chain)), (''message'', PStr (
        ''Interpreted `'' @ raw @ ''` as a token symbol '' @ ARROW @ '' checksum address `'' @ address @
        ''` on-catalog. Replace `'' @ fld @ ''` with that `0x` address (or resolve via ``kind: known_address``).''))]
     @ (if prefix ''token'' fld \<or> fld \<in> {''from_token'', ''to_token''}
        then [(''intent_kind_tip'', PStr ''erc20_balance for balances; swaps still require hex `token` addresses.'')] else [])"

definition entry_hint :: "libs \<Rightarrow> pydict \<Rightarrow> string \<Rightarrow> pyval \<Rightarrow> pydict option" where
  "entry_hint L doc chain v = (case v of
       PDict entry \<Rightarrow> (let parts = loc_parts entry in
         if parts = [] then None
         else let fld = py_str L (last parts); inp = dget_none entry ''input'' in
           if fld \<notin> set KNOWN_ADDRESS_TOKEN_FIELDS then None
           else case inp of
               PStr s \<Rightarrow> if \<not> plain_symbol s then None
                 else (case lookup_address L doc chain CatToken (py_strip s) of
                     Inl _ \<Rightarrow> Some (unknown_symbol_hint fld (py_strip s) chain)
                   | Inr address \<Rightarrow> Some (known_symbol_hint fld s chain address))
             | _ \<Rightarrow> None)
     | _ \<Rightarrow> None)"

definition known_address_resolution_suggestion :: "libs \<Rightarrow> pydict \<Rightarrow> pyval list \<Rightarrow> pydict \<Rightarrow> pydict option" where
  "known_address_resolution_suggestion L doc errors merged = (case dget_none merged ''chain'' of
       PStr chain \<Rightarrow> if py_strip chain = [] then None else first_some (map (entry_hint L doc chain) errors)
     | _ \<Rightarrow> None)"

definition str_default :: "libs \<Rightarrow> pydict \<Rightarrow> string \<Rightarrow> string" where
  "str_default L d key = (case dget d key of Some v \<Rightarrow> py_str L v | None \<Rightarrow> [])"

definition known_address_resolution_from_merged_fields :: "libs \<Rightarrow> pydict \<Rightarrow> pydict \<Rightarrow> pydict option" where
  "known_address_resolution_from_merged_fields L doc merged = (case dget_none merged ''chain'' of
       PStr chain \<Rightarrow> if py_strip chain = [] then None
         else (let kind = lower_strip (str_default L merged ''kind'');
             fields = filter (\<lambda>f. \<not> (kind = ''erc20_balance'' \<and> f \<noteq> ''token_address'') \<and>
               looks_like_plain_symbol (dget_none merged f)) KNOWN_ADDRESS_TOKEN_FIELDS;
             synthetic = map (\<lambda>f. PDict [(''loc'', PList [PStr f]), (''input'', dget_none merged f)]) fields in
           if synthetic = [] then None else known_address_resolution_suggestion L doc synthetic merged)
     | _ \<Rightarrow> None)"

definition abi_fragment_hint :: pydict where
  "abi_fragment_hint = [(''abi_fragment_expected'', PStr ''list[dict] (JSON ABI entries)''),
     (''abi_fragment_example_balanceOf'', PList [PDict [(''type'', PStr ''function''), (''name'', PStr ''balanceOf''),
        (''stateMutability'', PStr ''view''),
        (''inputs'', PList [PDict [(''name'', PStr ''account''), (''type'', PStr ''address'')]]),
        (''outputs'', PList [PDict [(''type'', PStr ''uint256'')]])]]),
     (''alternate_intent_suggestion'', PStr
        ''For ERC-20 balances use ``kind: erc20_balance`` with ``token_address`` and ``wallet_address``.'')]"

definition enrich_invoke_validation_error ::
  "libs \<Rightarrow> pydict \<Rightarrow> mercury_error_info \<Rightarrow> pydict \<Rightarrow> mercury_error_info" where
  "enrich_invoke_validation_error L doc info merged = (let details = err_details info;
       kind = (let v = dget_none merged ''kind'' in lower_strip (if truthy v then py_str L v else []));
       abi = (if kind = ''contract_read'' \<and> (case dget_none merged ''abi_fragment'' of PStr _ \<Rightarrow> True | _ \<Rightarrow> False)
              then abi_fragment_hint else []);
       suggestion = (case dget_none details ''errors'' of
           PList errors \<Rightarrow> if errors = [] then None else known_address_resolution_suggestion L doc errors merged
         | _ \<Rightarrow> None);
       hint = (case suggestion of Some s \<Rightarrow> Some s | None \<Rightarrow> known_address_resolution_from_merged_fields L doc merged);
       extras = abi @ (case hint of Some s \<Rightarrow> [(''known_address_catalog_suggestion'', PDict s)] | None \<Rightarrow> []) in
     if extras = [] then info else info\<lparr>err_details := dmerge details extras\<rparr>)"

definition validation_failed_from_pydantic_invoke ::
  "libs \<Rightarrow> pydict \<Rightarrow> string \<Rightarrow> field_errors \<Rightarrow> pydict \<Rightarrow> mercury_error_info" where
  "validation_failed_from_pydantic_invoke L doc model es merged = (let
       info = validation_failed_from_pydantic L model es (Some STAGE) in
     enrich_invoke_validation_error L doc (info\<lparr>err_details := dset ''remediation'' (PStr
       ''Compare your payload with the required fields for this intent kind (addresses, amounts, chain, wallet_id, and idempotency_key where applicable).'')
       (err_details info)\<rparr>) merged)"

section \<open>Validation\<close>

definition ENS_RESOLVABLE_FIELDS_BY_KIND :: "(string \<times> string list) list" where
  "ENS_RESOLVABLE_FIELDS_BY_KIND = [
     (''native_transfer'', [''recipient_address'']), (''erc20_transfer'', [''recipient_address'']),
     (''erc20_approval'', [''spender_address'']), (''swap'', [''recipient_address'']),
     (''native_balance'', [''wallet_address'']), (''portfolio_tokens'', [''wallet_address'']),
     (''get_portfolio_tokens'', [''wallet_address'']), (''transfer_history'', [''wallet_address'']),
     (''get_transfer_history'', [''wallet_address'']), (''erc20_balance'', [''wallet_address'']),
     (''erc20_allowance'', [''owner_address'', ''spender_address'']), (''contract_read'', [''contract_address''])]"

type_synonym ens_resolver = "string \<Rightarrow> string \<Rightarrow> ens_cache \<Rightarrow> (exn + string) \<times> ens_cache"

text \<open>The loop over the fields: an ENS failure stops it with an error, any other exception escapes.\<close>

fun resolve_ens_fields :: "libs \<Rightarrow> ens_resolver \<Rightarrow> string \<Rightarrow> string list \<Rightarrow> pydict \<Rightarrow> ens_cache
    \<Rightarrow> (exn + (mercury_error_info option \<times> pydict)) \<times> ens_cache" where
  "resolve_ens_fields L resolver chain_name [] merged cache = (Inr (None, merged), cache)"
| "resolve_ens_fields L resolver chain_name (fld # flds) merged cache = (case dget_none merged fld of
     PStr s \<Rightarrow> (let trimmed = py_strip s in
       if trimmed = [] \<or> \<not> looks_like_potential_ens_name L trimmed
       then resolve_ens_fields L resolver chain_name flds merged cache
       else case resolver trimmed chain_name cache of
           (Inr a, cache') \<Rightarrow> resolve_ens_fields L resolver chain_name flds (dset fld (PStr a) merged) cache'
         | (Inl (Exn EnsResolutionError t), cache') \<Rightarrow>
             (Inr (Some (validation_failed t [(''field'', PStr fld), (''provided'', PStr trimmed),
                (''chain'', PStr chain_name), (''resolution'', PStr ''ens_forward'')] (Some STAGE)), merged), cache')
         | (Inl e, cache') \<Rightarrow> (Inl e, cache'))
   | _ \<Rightarrow> resolve_ens_fields L resolver chain_name flds merged cache)"

definition apply_ens_resolution_to_merged ::
  "libs \<Rightarrow> chain_table \<Rightarrow> ens_resolver option \<Rightarrow> string \<Rightarrow> pydict \<Rightarrow> ens_cache
     \<Rightarrow> (exn + (mercury_error_info option \<times> pydict)) \<times> ens_cache" where
  "apply_ens_resolution_to_merged L C resolver kind merged cache =
     (case (resolver, dget ENS_RESOLVABLE_FIELDS_BY_KIND kind) of
        (Some r, Some flds) \<Rightarrow> (case effective_chain_name_for_resolution C merged of
            Inl e \<Rightarrow> (Inl e, cache)
          | Inr chain_name \<Rightarrow> resolve_ens_fields L r chain_name flds merged cache)
      | _ \<Rightarrow> (Inr (None, merged), cache))"

text \<open>The two ways validation ends without an exception: an error for the caller, or the state with the canonical payload.\<close>

datatype validated = Invalid mercury_error_info | Valid mercury_state

definition extract_raw_blob :: "mercury_state \<Rightarrow> pyval" where
  "extract_raw_blob s = (case s_raw_input s of
       Some (Plain v) \<Rightarrow> v
     | Some (Model _) \<Rightarrow> PNone
     | None \<Rightarrow> PDict [])"

definition success_state :: "mercury_state \<Rightarrow> pydict \<Rightarrow> mercury_state" where
  "success_state s raw = s\<lparr>s_raw_input := Some (Plain (PDict raw))\<rparr>"

definition validate_merged ::
  "libs \<Rightarrow> chain_table \<Rightarrow> pydict \<Rightarrow> mercury_state \<Rightarrow> pydict \<Rightarrow> string \<Rightarrow> pydict \<Rightarrow> exn + validated" where
  "validate_merged L C doc s raw kind merged =
     (case dget VALUE_MOVING_MODEL (lower_strip kind) of
        Some vk \<Rightarrow> (case value_canonical L C vk merged of
            Inr canonical \<Rightarrow> Inr (Valid (success_state s (merge_canonical_into_raw_input raw canonical)))
          | Inl (ValidationError m es) \<Rightarrow> Inr (Invalid (validation_failed_from_pydantic_invoke L doc m es merged))
          | Inl e \<Rightarrow> Inl e)
      | None \<Rightarrow> (case dget KIND_ALIASES (lower_strip kind) of
          None \<Rightarrow> Inr (Invalid (unsupported_intent (Some (''Unsupported wallet intent: '' @ kind @ ''.'')) [] (Some STAGE)))
        | Some _ \<Rightarrow> (case parse_readonly_intent L C (PDict merged) [] of
              Inl e \<Rightarrow> Inr (Invalid (enrich_invoke_validation_error L doc (normalize_exn L e STAGE) merged))
            | Inr (UnsupportedIntent reason) \<Rightarrow>
                Inr (Invalid (enrich_invoke_validation_error L doc (unsupported_intent (Some reason) [] (Some STAGE)) merged))
            | Inr i \<Rightarrow> Inr (Valid (success_state s (merge_canonical_into_raw_input raw (intent_json i)))))))"

definition validate_invoke_intent ::
  "libs \<Rightarrow> chain_table \<Rightarrow> pydict \<Rightarrow> ens_resolver option \<Rightarrow> mercury_state \<Rightarrow> ens_cache \<Rightarrow> (exn + validated) \<times> ens_cache" where
  "validate_invoke_intent L C doc resolver s cache = (case extract_raw_blob s of
       PStr _ \<Rightarrow> (Inr (Invalid (unsupported_intent (Some
          ''String intents cannot be validated for invoke; provide a structured JSON object with a ``kind`` field.'')
          [(''remediation'', PStr ''Replace text intents with a structured intent payload.'')] (Some STAGE))), cache)
     | PDict raw \<Rightarrow> (case raw_kind (unwrap_intent_payload raw) of
           PStr kind \<Rightarrow> (let merged = merged_invoke_validation_payload raw in
             case apply_ens_resolution_to_merged L C resolver (lower_strip kind) merged cache of
               (Inl e, cache') \<Rightarrow> (Inl e, cache')
             | (Inr (Some err, merged'), cache') \<Rightarrow> (Inr (Invalid (enrich_invoke_validation_error L doc err merged')), cache')
             | (Inr (None, merged'), cache') \<Rightarrow> (validate_merged L C doc s raw kind merged', cache'))
         | _ \<Rightarrow> (Inr (Invalid (validation_failed ''Structured intents must include a string ``kind`` field.'' [] (Some STAGE))), cache))
     | _ \<Rightarrow> (Inr (Invalid (validation_failed ''Invoke intent must be a JSON object.'' [] (Some STAGE))), cache))"

end
