(* ===== verification/Runtime.thy ===== *)
theory Runtime
  imports Read_Graph Intent_Validation
begin

text \<open>
  The runtime that services invoke (\<^verbatim>\<open>graph/runtime.py\<close>): it validates the intent, picks the graph that
  matches the kind and runs it; and the wiring of the default runtime (\<^verbatim>\<open>service/dependencies.py\<close>). Logging,
  and the streaming that only feeds the log, are left out: both ways of running a graph give its final state.
\<close>

record graph_runtime =
  rt_known_addresses :: pydict
  rt_ens_resolver :: "ens_resolver option"
  rt_registry :: tool_registry
  rt_erc20 :: erc20_graph_deps
  rt_native :: native_graph_deps
  rt_swap :: swap_graph_deps
  rt_tx :: tx_deps

section \<open>Choosing the graph\<close>

datatype graph_label = ReadGraph | Erc20Graph | NativeGraph | SwapGraph

fun graph_label_text :: "graph_label \<Rightarrow> string" where
  "graph_label_text ReadGraph = ''read''"
| "graph_label_text Erc20Graph = ''erc20_transaction''"
| "graph_label_text NativeGraph = ''native_transaction''"
| "graph_label_text SwapGraph = ''swap_transaction''"

definition graph_of_kind :: "string \<Rightarrow> graph_label" where
  "graph_of_kind kind = (if kind \<in> {''erc20_transfer'', ''erc20_approval''} then Erc20Graph
     else if kind = ''native_transfer'' then NativeGraph
     else if kind = ''swap'' then SwapGraph
     else ReadGraph)"

definition graph_selection_for_state :: "libs \<Rightarrow> mercury_state \<Rightarrow> graph_label" where
  "graph_selection_for_state L s = (case s_raw_input s of
       Some (Plain (PDict raw)) \<Rightarrow> graph_of_kind (lower_strip (str_default L (unwrap_intent_payload raw) ''kind''))
     | _ \<Rightarrow> ReadGraph)"

definition intent_kind_from_state :: "libs \<Rightarrow> mercury_state \<Rightarrow> string" where
  "intent_kind_from_state L s = (case s_raw_input s of
       Some (Plain (PDict raw)) \<Rightarrow>
         py_or (lower_strip (py_str L (dget_none (unwrap_intent_payload raw) ''kind''))) ''unset''
     | Some (Plain (PStr _)) \<Rightarrow> ''literal_text''
     | _ \<Rightarrow> ''unset'')"

definition runnable_config_for_state :: "libs \<Rightarrow> mercury_state \<Rightarrow> graph_label \<Rightarrow> pydict" where
  "runnable_config_for_state L s g = (let request_id = (case s_request_id s of Some r \<Rightarrow> py_or r ''no-thread'' | None \<Rightarrow> ''no-thread'') in
     [(''run_name'', PStr (''MercuryGraph.'' @ graph_label_text g)),
      (''tags'', PList [PStr ''mercury'', PStr (graph_label_text g)]),
      (''metadata'', PDict [(''request_id'', PStr request_id), (''graph'', PStr (graph_label_text g)),
         (''intent_kind'', PStr (intent_kind_from_state L s))]),
      (''configurable'', PDict [(''thread_id'', PStr request_id)])])"

section \<open>Invoking\<close>

definition invalid_intent_state :: "mercury_state \<Rightarrow> mercury_error_info \<Rightarrow> mercury_state" where
  "invalid_intent_state s info = (let text = (if err_code info = ''unsupported_intent''
       then format_unsupported_response (ErrorInfo info) else format_error_response (ErrorInfo info)) in
     s\<lparr>s_error := Some info, s_response_text := Some text, s_messages := [text]\<rparr>)"

definition run_graph :: "graph_runtime \<Rightarrow> graph_label \<Rightarrow> mercury_state \<Rightarrow> world \<Rightarrow> tx_step" where
  "run_graph R g s w = (case g of
       Erc20Graph \<Rightarrow> run_erc20_graph (rt_erc20 R) (rt_tx R) s w
     | NativeGraph \<Rightarrow> run_native_graph (rt_native R) (rt_tx R) s w
     | SwapGraph \<Rightarrow> run_swap_graph (rt_swap R) (rt_tx R) s w
     | ReadGraph \<Rightarrow> (run_read_graph (d_libs (rt_tx R)) (d_chains (rt_tx R)) (rt_registry R) s, w))"

definition runtime_validate :: "graph_runtime \<Rightarrow> mercury_state \<Rightarrow> ens_cache \<Rightarrow> (exn + validated) \<times> ens_cache" where
  "runtime_validate R s cache = validate_invoke_intent (d_libs (rt_tx R)) (d_chains (rt_tx R)) (rt_known_addresses R)
     (rt_ens_resolver R) s cache"

definition run_validated :: "graph_runtime \<Rightarrow> mercury_state \<Rightarrow> exn + validated \<Rightarrow> world \<Rightarrow> tx_step" where
  "run_validated R s v w = (case v of
       Inl e \<Rightarrow> (Inl e, w)
     | Inr (Invalid info) \<Rightarrow> (Inr (invalid_intent_state s info), w)
     | Inr (Valid s') \<Rightarrow> run_graph R (graph_selection_for_state (d_libs (rt_tx R)) s') s' w)"

definition runtime_invoke :: "graph_runtime \<Rightarrow> mercury_state \<Rightarrow> world \<Rightarrow> ens_cache \<Rightarrow> tx_step \<times> ens_cache" where
  "runtime_invoke R s w cache = (case runtime_validate R s cache of
     (v, cache') \<Rightarrow> (run_validated R s v w, cache'))"

section \<open>The default runtime\<close>

text \<open>
  What the wiring takes from outside: the cached settings (\<open>get_settings()\<close>, from which the chain registry reads
  whatever settings the runtime is built with), the environment, the 1Claw client, web3, the ENS module, the account
  library, the HTTP clients and the interpreter's clock.
\<close>

record service_env =
  se_libs :: libs
  se_settings :: mercury_settings
  se_known_addresses :: pydict
  se_environ :: "string \<Rightarrow> string option"
  se_oneclaw :: "string \<Rightarrow> string \<Rightarrow> string \<Rightarrow> string option \<Rightarrow> string \<Rightarrow> exn + string option"
  se_connect :: "string \<Rightarrow> eth_client"
  se_connect_read :: "string \<Rightarrow> read_provider"
  se_ens :: "string \<Rightarrow> ens_client"
  se_account :: eth_account
  se_http :: "string \<Rightarrow> json_http_client"
  se_py :: py_env
  se_coerce_prepared :: "pydict \<Rightarrow> exn + prepared_transaction"

definition dependency_unavailable :: "string \<Rightarrow> exn" where
  "dependency_unavailable t = Exn OtherException t"

definition get_secret_store :: "service_env \<Rightarrow> mercury_settings \<Rightarrow> exn + (string \<Rightarrow> exn + secret_value)" where
  "get_secret_store E st = (case se_environ E (oneclaw_api_key_secret_source st) of
       None \<Rightarrow> Inl (dependency_unavailable ''1Claw API key source is not configured.'')
     | Some key \<Rightarrow>
         if py_strip key = [] then Inl (dependency_unavailable ''1Claw API key source is not configured.'')
         else if py_strip (oneclaw_base_url st) = [] then Inl (value_error ''1Claw base URL must not be empty.'')
         else if py_strip (oneclaw_vault_id st) = [] then Inl (value_error ''1Claw vault ID must not be empty.'')
         else Inr (oneclaw_get_secret (se_oneclaw E (oneclaw_base_url st) key (oneclaw_vault_id st) (oneclaw_agent_id st))))"

definition service_chains :: "service_env \<Rightarrow> chain_table" where
  "service_chains E = chain_configs (se_libs E) (se_known_addresses E) (se_settings E)"

definition read_provider_create ::
  "chain_table \<Rightarrow> (string \<Rightarrow> exn + secret_value) \<Rightarrow> (string \<Rightarrow> read_provider) \<Rightarrow> read_factory" where
  "read_provider_create C store connect chain_name =
     rbind (get_chain_by_name C chain_name) (\<lambda>chain.
     rbind (resolve_rpc_url C (cc_name chain) store) (\<lambda>url.
     Inr ((connect url)\<lparr>rp_chain := chain\<rparr>)))"

definition get_signer :: "service_env \<Rightarrow> (string \<Rightarrow> exn + secret_value) \<Rightarrow> transaction_signer" where
  "get_signer E store = \<lparr>sg_get_wallet_address = signer_get_wallet_address (se_libs E) (se_account E) store,
     sg_sign_transaction = signer_sign_transaction (se_libs E) (se_account E) store\<rparr>"

definition get_swap_router :: "service_env \<Rightarrow> mercury_settings \<Rightarrow> (string \<Rightarrow> exn + secret_value) \<Rightarrow> swap_router" where
  "get_swap_router E st store = (let cfg = (\<lambda>p. default_for st p (Some store)); L = se_libs E; V = se_py E;
       http = (\<lambda>p. se_http E (provider_base_url p)) in
     \<lparr>ro_providers = [lifi_provider L V (cfg LIFI) (http LIFI), cow_provider L V (cfg COWSWAP) (http COWSWAP),
        uniswap_provider L V (cfg UNISWAP) (http UNISWAP)], ro_order = default_provider_order\<rparr>)"

definition ens_resolver_of :: "service_env \<Rightarrow> chain_table \<Rightarrow> (string \<Rightarrow> exn + secret_value) \<Rightarrow> ens_resolver" where
  "ens_resolver_of E C store raw chain_name cache =
     resolve_evm_identifier (se_libs E) C
       (rbind (get_chain_by_name C ''ethereum'') (\<lambda>c. rbind (resolve_rpc_url C (cc_name c) store) (\<lambda>url. Inr (se_ens E url))))
       raw chain_name cache"

definition alchemy_deps_of :: "service_env \<Rightarrow> mercury_settings \<Rightarrow> (string \<Rightarrow> exn + secret_value) \<Rightarrow> alchemy_deps option" where
  "alchemy_deps_of E st store = (let path = py_strip (alchemy_api_secret_path st) in
     if path = [] then None
     else Some \<lparr>ad_secret_store = store, ad_api_key_secret_path = path, ad_http = se_http E\<rparr>)"

definition transaction_deps_of :: "service_env \<Rightarrow> chain_table \<Rightarrow> (string \<Rightarrow> exn + secret_value) \<Rightarrow> tx_deps" where
  "transaction_deps_of E C store = \<lparr>
     d_backend = web3_backend (se_libs E) C (provider_create C store (se_connect E)),
     d_signer = get_signer E store, d_policy_engine = default_engine,
     d_approver = request_metadata_approver (se_libs E), d_receipt_timeout_seconds = 120, d_receipt_confirmations = 0,
     d_libs = se_libs E, d_chains = C, d_coerce_prepared = se_coerce_prepared E\<rparr>"

definition build_standalone_graph_runtime :: "service_env \<Rightarrow> mercury_settings \<Rightarrow> exn + graph_runtime" where
  "build_standalone_graph_runtime E st = rbind (get_secret_store E st) (\<lambda>store.
     let C = service_chains E; F = read_provider_create C store (se_connect_read E);
         wallet = sg_get_wallet_address (get_signer E store); alchemy = alchemy_deps_of E st store in
     Inr \<lparr>rt_known_addresses = se_known_addresses E, rt_ens_resolver = Some (ens_resolver_of E C store),
       rt_registry = registry_from_provider_factory (se_libs E) C (se_known_addresses E) F alchemy alchemy alchemy,
       rt_erc20 = \<lparr>eg_provider_factory = F, eg_address_resolver = wallet\<rparr>,
       rt_native = \<lparr>ng_address_resolver = wallet\<rparr>,
       rt_swap = \<lparr>sg_router = get_swap_router E st store, sg_provider_factory = F, sg_address_resolver = wallet,
         sg_policy_config = default_swap_policy, sg_env = se_py E\<rparr>,
       rt_tx = transaction_deps_of E C store\<rparr>)"

end
