(* ===== verification/Invoke_Service.thy ===== *)
theory Invoke_Service
  imports Runtime
begin

text \<open>
  The in-process API (\<^verbatim>\<open>mercury/invoke.py\<close>) with its request and response models (\<^verbatim>\<open>service/models.py\<close>), the error
  responses of the HTTP service (\<^verbatim>\<open>service/errors.py\<close>) and its health endpoints (\<^verbatim>\<open>service/api.py\<close>). The JSON form
  of the models of other components is pydantic's \<open>model_dump\<close>, a parameter \<open>M\<close>; a generated request ID is one too.
  Logging is left out.
\<close>

section \<open>Requests\<close>

record invoke_request =
  iq_request_id :: "string option"
  iq_user_id :: string
  iq_wallet_id :: string
  iq_intent :: pyval
  iq_chain :: "string option"
  iq_idempotency_key :: "string option"
  iq_approval_response :: "pydict option"
  iq_metadata :: pydict

definition REQUEST_FIELDS :: "string list" where
  "REQUEST_FIELDS = [''request_id'', ''user_id'', ''wallet_id'', ''intent'', ''chain'', ''idempotency_key'', ''approval_response'',
     ''metadata'']"

definition rd_wallet :: "pydict \<Rightarrow> string field" where
  "rd_wallet d = rbind (rd_str1 d ''wallet_id'') (\<lambda>s. case validate_wallet_id s of
       Inl (Exn _ t) \<Rightarrow> field_value_error ''wallet_id'' t
     | Inl (ValidationError _ _) \<Rightarrow> field_value_error ''wallet_id'' []
     | Inr w \<Rightarrow> Inr w)"

definition rd_intent :: "pydict \<Rightarrow> pyval field" where
  "rd_intent d = (case dget d ''intent'' of
       None \<Rightarrow> Inl [(''intent'', MissingField)]
     | Some (PDict i) \<Rightarrow> Inr (PDict i)
     | Some (PStr t) \<Rightarrow> Inr (PStr t)
     | Some _ \<Rightarrow> Inl [(''intent.dict'', WrongType ''dict''), (''intent.str'', WrongType ''string'')])"

definition rd_opt_dict :: "pydict \<Rightarrow> string \<Rightarrow> pydict option field" where
  "rd_opt_dict d fld = (case dget_none d fld of
       PNone \<Rightarrow> Inr None
     | PDict v \<Rightarrow> Inr (Some v)
     | _ \<Rightarrow> Inl [(fld, WrongType ''dict'')])"

definition rd_metadata :: "pydict \<Rightarrow> pydict field" where
  "rd_metadata d = (case dget d ''metadata'' of
       None \<Rightarrow> Inr []
     | Some (PDict v) \<Rightarrow> Inr v
     | Some _ \<Rightarrow> Inl [(''metadata'', WrongType ''dict'')])"

definition extra_errs :: "pydict \<Rightarrow> field_errors" where
  "extra_errs d = map (\<lambda>(k, v). (k, WrongType ''extra'')) (filter (\<lambda>(k, v). k \<notin> set REQUEST_FIELDS) d)"

definition invoke_request_of :: "pydict \<Rightarrow> exn + invoke_request" where
  "invoke_request_of d = (let rid = rd_opt_str1 d ''request_id''; u = rd_str1 d ''user_id''; w = rd_wallet d; i = rd_intent d;
       c = rbind (rd_opt_str1 d ''chain'') (\<lambda>c. Inr (Option.bind c (\<lambda>s. or_blank (lower_strip s))));
       k = rd_opt_str1 d ''idempotency_key''; a = rd_opt_dict d ''approval_response''; m = rd_metadata d in
     finish ''MercuryInvokeRequest''
       (fld_errs rid @ fld_errs u @ fld_errs w @ fld_errs i @ fld_errs c @ fld_errs k @ fld_errs a @ fld_errs m @ extra_errs d)
       \<lparr>iq_request_id = oval rid, iq_user_id = sval u, iq_wallet_id = sval w, iq_intent = fld_val PNone i, iq_chain = oval c,
        iq_idempotency_key = oval k, iq_approval_response = oval a, iq_metadata = fld_val [] m\<rparr>)"

text \<open>\<open>a or b\<close> of optional texts.\<close>

definition opt_or :: "string option \<Rightarrow> string option \<Rightarrow> string option" where
  "opt_or a b = (if a = None \<or> a = Some [] then b else a)"

definition effective_request_id :: "invoke_request \<Rightarrow> string option \<Rightarrow> string \<Rightarrow> string" where
  "effective_request_id q header generated =
     (case opt_or (iq_request_id q) (opt_or header (Some generated)) of Some r \<Rightarrow> r | None \<Rightarrow> generated)"

definition effective_idempotency_key :: "invoke_request \<Rightarrow> string option \<Rightarrow> string option" where
  "effective_idempotency_key q header = opt_or (iq_idempotency_key q) header"

section \<open>The state of a request\<close>

definition default_opt :: "string \<Rightarrow> string option \<Rightarrow> pydict \<Rightarrow> pydict" where
  "default_opt k v d = (case v of Some s \<Rightarrow> dsetdefault k (PStr s) d | None \<Rightarrow> d)"

definition request_metadata :: "invoke_request \<Rightarrow> pydict" where
  "request_metadata q = (let m = dset ''user_id'' (PStr (iq_user_id q)) (iq_metadata q) in
     case iq_approval_response q of Some a \<Rightarrow> dset ''approval_response'' (PDict a) m | None \<Rightarrow> m)"

definition intent_with_boundary_fields :: "invoke_request \<Rightarrow> string option \<Rightarrow> pyval" where
  "intent_with_boundary_fields q key = (case iq_intent q of
       PDict intent \<Rightarrow> PDict (dsetdefault ''metadata'' (PDict (request_metadata q))
         (default_opt ''idempotency_key'' key
           (dsetdefault ''wallet_id'' (PStr (iq_wallet_id q)) (default_opt ''chain'' (iq_chain q) intent))))
     | v \<Rightarrow> v)"

definition state_from_request :: "invoke_request \<Rightarrow> string \<Rightarrow> string option \<Rightarrow> mercury_state" where
  "state_from_request q request_id key = empty_state\<lparr>s_request_id := Some request_id,
     s_raw_input := Some (Plain (intent_with_boundary_fields q key))\<rparr>"

section \<open>The state as JSON\<close>

datatype state_model = MessageModel string | ChainConfigModel chain_config | ChainReferenceModel chain_reference
  | PolicyDecisionModel policy_decision | PreparedTransactionModel prepared_transaction | PreparedSwapModel prepared_swap
  | ExecutableTransactionModel executable_transaction | SimulationResultModel simulation_result
  | SignedTransactionModel signed_transaction_result | ExecutionResultModel execution_result

fun approval_status_value :: "approval_status \<Rightarrow> string" where
  "approval_status_value APPROVED = ''approved''"
| "approval_status_value DENIED = ''denied''"
| "approval_status_value REQUIRED = ''required''"

definition approval_json :: "approval_result \<Rightarrow> pydict" where
  "approval_json a = [(''status'', PStr (approval_status_value (apr_status a))), (''reason'', PStr (apr_reason a)),
     (''approved_by'', opt_val PStr (apr_approved_by a))]"

definition error_info_json :: "mercury_error_info \<Rightarrow> pydict" where
  "error_info_json e = [(''code'', PStr (err_code e)), (''category'', PStr (err_category e)), (''message'', PStr (err_message e)),
     (''retryable'', PBool (err_retryable e)), (''recoverable'', PBool (err_recoverable e)),
     (''user_action'', opt_val PStr (err_user_action e)), (''llm_action'', opt_val PStr (err_llm_action e)),
     (''details'', PDict (err_details e))]"

fun call_value_json :: "call_value \<Rightarrow> pyval" where
  "call_value_json (CallVal v) = v"
| "call_value_json (CallBytes bs) = PStr ''<bytes>''"

definition result_json :: "tool_result \<Rightarrow> pyval" where
  "result_json r = PDict (map (\<lambda>(k, v). (k, call_value_json v)) r)"

definition slot_json :: "(state_model \<Rightarrow> pyval) \<Rightarrow> input_slot \<Rightarrow> pyval" where
  "slot_json M x = (case x of Plain v \<Rightarrow> v | Model t \<Rightarrow> M (PreparedTransactionModel t))"

definition present :: "string \<Rightarrow> ('a \<Rightarrow> pyval) \<Rightarrow> 'a option \<Rightarrow> pydict" where
  "present k f x = (case x of Some v \<Rightarrow> [(k, f v)] | None \<Rightarrow> [])"

definition state_json :: "(state_model \<Rightarrow> pyval) \<Rightarrow> mercury_state \<Rightarrow> pydict" where
  "state_json M s = [(''messages'', PList (map (M \<circ> MessageModel) (s_messages s)))]
     @ present ''request_id'' PStr (s_request_id s) @ present ''raw_input'' (slot_json M) (s_raw_input s)
     @ present ''parsed_intent'' (\<lambda>v. v) (s_parsed_intent s) @ present ''chain_name'' PStr (s_chain_name s)
     @ present ''chain_config'' (M \<circ> ChainConfigModel) (s_chain_config s)
     @ present ''chain_reference'' (M \<circ> ChainReferenceModel) (s_chain_reference s)
     @ present ''selected_tool_name'' PStr (s_selected_tool_name s) @ present ''tool_input'' PDict (s_tool_input s)
     @ present ''tool_result'' result_json (s_tool_result s) @ present ''response_text'' PStr (s_response_text s)
     @ present ''read_result'' result_json (s_read_result s)
     @ present ''policy_decision'' (M \<circ> PolicyDecisionModel) (s_policy_decision s)
     @ present ''prepared_transaction'' (slot_json M) (s_prepared_transaction s)
     @ present ''prepared_swap'' (M \<circ> PreparedSwapModel) (s_prepared_swap s)
     @ present ''executable_transaction'' (M \<circ> ExecutableTransactionModel) (s_executable_transaction s)
     @ present ''simulation_result'' (M \<circ> SimulationResultModel) (s_simulation_result s)
     @ present ''approval_result'' (PDict \<circ> approval_json) (s_approval_result s)
     @ present ''signed_transaction'' (M \<circ> SignedTransactionModel) (s_signed_transaction s)
     @ present ''tx_hash'' PStr (s_tx_hash s)
     @ present ''execution_result'' (M \<circ> ExecutionResultModel) (s_execution_result s)
     @ present ''wallet_address'' PStr (s_wallet_address s) @ present ''error'' (PDict \<circ> error_info_json) (s_error s)"

definition redact_dict :: "pydict \<Rightarrow> pydict" where
  "redact_dict d = (case redact_value (PDict d) of PDict r \<Rightarrow> r | _ \<Rightarrow> [])"

section \<open>Responses\<close>

record mercury_error =
  me_code :: string
  me_category :: string
  me_message :: string
  me_retryable :: bool
  me_recoverable :: bool
  me_user_action :: "string option"
  me_llm_action :: "string option"
  me_details :: pydict

record invoke_response =
  rs_request_id :: string
  rs_status :: string
  rs_chain :: "string option"
  rs_message :: string
  rs_data :: pydict
  rs_tx_hash :: "string option"
  rs_receipt :: "pydict option"
  rs_approval_required :: bool
  rs_approval_payload :: "pydict option"
  rs_error :: "mercury_error option"

text \<open>None of the keys of an error is a sensitive one, so only its values are redacted.\<close>

definition mercury_error_from_info :: "mercury_error_info \<Rightarrow> mercury_error" where
  "mercury_error_from_info i = (let safe = redact_dict (error_info_json i);
       text = (\<lambda>k dflt. case dget safe k of Some (PStr s) \<Rightarrow> s | _ \<Rightarrow> dflt);
       flag = (\<lambda>k dflt. case dget safe k of Some v \<Rightarrow> truthy v | None \<Rightarrow> dflt);
       action = (\<lambda>k. case dget_none safe k of PStr s \<Rightarrow> Some (redact_error_message s) | _ \<Rightarrow> None) in
     \<lparr>me_code = text ''code'' ''internal_error'', me_category = text ''category'' ''internal'',
      me_message = redact_error_message (text ''message'' []), me_retryable = flag ''retryable'' False,
      me_recoverable = flag ''recoverable'' True, me_user_action = action ''user_action'', me_llm_action = action ''llm_action'',
      me_details = (case dget_none safe ''details'' of PDict d \<Rightarrow> redact_dict d | _ \<Rightarrow> [])\<rparr>)"

fun execution_status_value :: "execution_status \<Rightarrow> string" where
  "execution_status_value PENDING = ''pending''"
| "execution_status_value CONFIRMED = ''confirmed''"
| "execution_status_value FAILED = ''failed''"
| "execution_status_value REJECTED = ''rejected''"
| "execution_status_value APPROVAL_DENIED = ''approval_denied''"

definition receipt_payload :: "execution_result \<Rightarrow> pydict option" where
  "receipt_payload x = (case res_tx_hash x of
       None \<Rightarrow> None
     | Some h \<Rightarrow> Some ([(''tx_hash'', PStr h), (''status'', PStr (execution_status_value (res_status x)))]
         @ present ''block_number'' PInt (res_block_number x) @ present ''gas_used'' PInt (res_gas_used x)))"

definition approval_is_required :: "approval_result option \<Rightarrow> bool" where
  "approval_is_required a = (case a of Some r \<Rightarrow> apr_status r = REQUIRED | None \<Rightarrow> False)"

definition message_for_status :: "string \<Rightarrow> string" where
  "message_for_status status = (if status = ''approval_required'' then ''Human approval is required before execution.''
     else ''Mercury request '' @ status @ ''.'')"

definition response_message :: "mercury_state \<Rightarrow> string" where
  "response_message s = (case s_response_text s of
       Some t \<Rightarrow> if t = [] then ''Mercury request completed.'' else redact_text t
     | None \<Rightarrow> ''Mercury request completed.'')"

definition response_chain_name :: "mercury_state \<Rightarrow> string option \<Rightarrow> string option" where
  "response_chain_name s fallback = (case s_chain_name s of
       Some n \<Rightarrow> Some n
     | None \<Rightarrow> (case s_chain_config s of Some c \<Rightarrow> Some (cc_name c) | None \<Rightarrow> fallback))"

definition approval_payload :: "approval_result option \<Rightarrow> pydict option" where
  "approval_payload a = (if approval_is_required a then map_option (redact_dict \<circ> approval_json) a else None)"

definition response_from_state ::
  "(state_model \<Rightarrow> pyval) \<Rightarrow> mercury_state \<Rightarrow> string \<Rightarrow> string option \<Rightarrow> invoke_response" where
  "response_from_state M s request_id fallback = (let safe = redact_dict (state_json M s);
       chain = response_chain_name s fallback; approval = s_approval_result s in
     case s_execution_result s of
       Some x \<Rightarrow> (let status = (if approval_is_required approval then ''approval_required''
             else execution_status_value (res_status x)) in
         \<lparr>rs_request_id = request_id, rs_status = status, rs_chain = Some (res_chain x),
          rs_message = (case res_error x of Some e \<Rightarrow> redact_error_message (err_message e) | None \<Rightarrow> message_for_status status),
          rs_data = [(''execution_result'', redact_value (M (ExecutionResultModel x)))], rs_tx_hash = res_tx_hash x,
          rs_receipt = receipt_payload x, rs_approval_required = approval_is_required approval,
          rs_approval_payload = approval_payload approval, rs_error = map_option mercury_error_from_info (res_error x)\<rparr>)
     | None \<Rightarrow> (case s_error s of
           Some e \<Rightarrow> \<lparr>rs_request_id = request_id, rs_status = ''failed'', rs_chain = chain,
             rs_message = me_message (mercury_error_from_info e), rs_data = safe, rs_tx_hash = None, rs_receipt = None,
             rs_approval_required = False, rs_approval_payload = None, rs_error = Some (mercury_error_from_info e)\<rparr>
         | None \<Rightarrow> \<lparr>rs_request_id = request_id, rs_status = ''succeeded'', rs_chain = chain,
             rs_message = response_message s, rs_data = safe, rs_tx_hash = s_tx_hash s, rs_receipt = None,
             rs_approval_required = approval_is_required approval, rs_approval_payload = approval_payload approval,
             rs_error = None\<rparr>))"

section \<open>Invoking\<close>

text \<open>Any exception of the runtime becomes a \<open>GraphInvocationError\<close> with a redacted text.\<close>

datatype service_error = DependencyUnavailableError string | GraphInvocationError string

definition mercury_invoke ::
  "(state_model \<Rightarrow> pyval) \<Rightarrow> graph_runtime \<Rightarrow> invoke_request \<Rightarrow> string option \<Rightarrow> string option \<Rightarrow> string \<Rightarrow> world \<Rightarrow> ens_cache
     \<Rightarrow> (service_error + invoke_response) \<times> world \<times> ens_cache" where
  "mercury_invoke M R q header_id header_key generated w cache = (let
       request_id = effective_request_id q header_id generated;
       s = state_from_request q request_id (effective_idempotency_key q header_key) in
     case runtime_invoke R s w cache of
       ((Inl e, w'), cache') \<Rightarrow> (Inl (GraphInvocationError (redact_error_message (exn_text (d_libs (rt_tx R)) e))), w', cache')
     | ((Inr s', w'), cache') \<Rightarrow> (Inr (response_from_state M s' request_id (iq_chain q)), w', cache'))"

section \<open>Error responses of the service\<close>

record json_response =
  jr_status_code :: nat
  jr_content :: pydict

definition opt_text :: "string option \<Rightarrow> pyval" where
  "opt_text t = (case t of Some s \<Rightarrow> if s = [] then PNone else PStr (redact_error_message s) | None \<Rightarrow> PNone)"

definition safe_details :: "pyval option \<Rightarrow> pyval" where
  "safe_details d = (case d of
       None \<Rightarrow> PDict []
     | Some v \<Rightarrow> (case redact_value v of
           PNone \<Rightarrow> PDict []
         | PDict r \<Rightarrow> PDict r
         | PList r \<Rightarrow> PList r
         | r \<Rightarrow> PDict [(''value'', r)]))"

definition error_response ::
  "string option \<Rightarrow> nat \<Rightarrow> string \<Rightarrow> string \<Rightarrow> string \<Rightarrow> bool \<Rightarrow> string option \<Rightarrow> string option \<Rightarrow> pyval option \<Rightarrow> json_response" where
  "error_response request_id status_code message code category retryable user_action llm_action details =
     (let safe = PStr (redact_error_message message) in
     \<lparr>jr_status_code = status_code, jr_content = [(''request_id'', opt_val PStr request_id), (''status'', PStr ''error''),
        (''message'', safe), (''error'', PDict [(''code'', PStr code), (''category'', PStr category), (''message'', safe),
          (''retryable'', PBool retryable), (''recoverable'', PBool True), (''user_action'', opt_text user_action),
          (''llm_action'', opt_text llm_action), (''details'', safe_details details)])]\<rparr>)"

definition LLM_INTERNAL :: string where
  "LLM_INTERNAL = ''Retry once with backoff. If it still fails, stop and report an internal error without exposing raw errors or secrets.''"
definition LLM_VALIDATION :: string where
  "LLM_VALIDATION = ''Inspect validation details, correct the payload, and retry.''"
definition LLM_CUSTODY :: string where
  "LLM_CUSTODY = ''Explain the custody constraint and what the user can change.''"
definition LLM_CHAIN :: string where
  "LLM_CHAIN = ''Retry with a supported chain name from the service configuration.''"

definition validation_exception_handler :: "libs \<Rightarrow> string option \<Rightarrow> string \<Rightarrow> field_errors \<Rightarrow> json_response" where
  "validation_exception_handler L rid model es = error_response rid 422 ''Request validation failed.'' ''validation_failed''
     ''validation'' False (Some ''Fix the invalid fields and try again.'') (Some LLM_VALIDATION)
     (Some (redact_value (validation_errors L model es)))"

fun service_error_text :: "service_error \<Rightarrow> string" where
  "service_error_text (DependencyUnavailableError t) = py_or t ''Mercury dependencies are unavailable.''"
| "service_error_text (GraphInvocationError t) = py_or t ''Mercury graph invocation failed.''"

fun service_error_status :: "service_error \<Rightarrow> nat" where
  "service_error_status (DependencyUnavailableError t) = 503"
| "service_error_status (GraphInvocationError t) = 500"

fun service_error_code :: "service_error \<Rightarrow> string" where
  "service_error_code (DependencyUnavailableError t) = ''dependency_unavailable''"
| "service_error_code (GraphInvocationError t) = ''graph_invocation_failed''"

definition service_exception_handler :: "string option \<Rightarrow> service_error \<Rightarrow> json_response" where
  "service_exception_handler rid e = error_response rid (service_error_status e) (redact_error_message (service_error_text e))
     (service_error_code e) ''internal'' (500 \<le> service_error_status e)
     (Some ''Try again; contact support if the problem continues.'') (Some LLM_INTERNAL) None"

definition custody_exception_handler :: "string option \<Rightarrow> string \<Rightarrow> json_response" where
  "custody_exception_handler rid text = error_response rid 400 (redact_error_message text) ''custody_error'' ''policy'' False
     (Some ''Adjust the request or wallet configuration.'') (Some LLM_CUSTODY) None"

definition chain_exception_handler :: "string option \<Rightarrow> string \<Rightarrow> json_response" where
  "chain_exception_handler rid text = error_response rid 400 (redact_error_message text) ''unsupported_chain'' ''config'' False
     (Some ''Choose a supported chain name.'') (Some LLM_CHAIN) None"

definition unhandled_exception_handler :: "string option \<Rightarrow> json_response" where
  "unhandled_exception_handler rid = error_response rid 500 ''Internal server error.'' ''internal_error'' ''internal'' True
     (Some ''Try again; contact support if the problem continues.'') (Some LLM_INTERNAL) None"

definition CUSTODY_ERRORS :: "exn_class set" where
  "CUSTODY_ERRORS = {SecretNotFoundError, EmptySecretValueError, SecretStoreUnavailableError, WalletIdValidationError,
     WalletPrivateKeyError, SigningRequestError, SigningFailedError}"

text \<open>The handler FastAPI picks for an exception that escapes an endpoint.\<close>

definition exception_response :: "string option \<Rightarrow> exn \<Rightarrow> json_response" where
  "exception_response rid e = (case e of
       Exn c t \<Rightarrow> if c \<in> CUSTODY_ERRORS then custody_exception_handler rid t
         else if c = UnsupportedChainError then chain_exception_handler rid t
         else unhandled_exception_handler rid
     | ValidationError _ _ \<Rightarrow> unhandled_exception_handler rid)"

section \<open>Health\<close>

definition healthz :: "mercury_settings \<Rightarrow> pydict" where
  "healthz st = [(''status'', PStr ''ok''), (''service'', PStr (app_name st))]"

definition readyz :: "service_env \<Rightarrow> mercury_settings \<Rightarrow> pydict" where
  "readyz E st = [(''status'', PStr ''ready''), (''service'', PStr (app_name st)), (''default_chain'', PStr (default_chain st)),
     (''supported_chains'', PList (map (PStr \<circ> cc_name) (service_chains E)))]"

end
