(* ===== verification/Intent_Properties.thy ===== *)
theory Intent_Properties
  imports Read_Intents
begin

text \<open>
  A validated read-only intent is a fixed point: parsing the JSON form of an intent gives the intent back. The runtime
  relies on it, because the read graph parses again what validation has put into the state.
\<close>

section \<open>Names\<close>

lemma lower_space [simp]: "is_space (lower_char c) = is_space c"
proof (cases "(65 \<le> code_point c \<and> code_point c \<le> 90) \<or> (192 \<le> code_point c \<and> code_point c \<le> 222 \<and> code_point c \<noteq> 215)")
  case True
  have "(of_char (char_of (code_point c + 32 :: nat) :: char) :: nat) = code_point c + 32" using True by auto
  with True show ?thesis by (auto simp: lower_char_def is_space_def Let_def)
next
  case False
  then have "lower_char c = c" by (auto simp: lower_char_def Let_def)
  then show ?thesis by simp
qed

lemma py_strip_lower: "py_strip (py_lower s) = py_lower (py_strip s)"
proof -
  have "is_space \<circ> lower_char = is_space" by (simp add: fun_eq_iff)
  then have drop: "dropWhile is_space (map lower_char xs) = map lower_char (dropWhile is_space xs)" for xs
    by (simp add: dropWhile_map)
  show ?thesis by (simp only: py_strip_def py_lower_def drop rev_map)
qed

definition name_ok :: "string \<Rightarrow> bool" where
  "name_ok s \<longleftrightarrow> s \<noteq> [] \<and> lower_strip s = s"

lemma lower_strip_idem [simp]: "lower_strip (lower_strip s) = lower_strip s"
  by (simp add: lower_strip_def py_strip_lower)

lemma name_ok_lower_strip: "name_ok (lower_strip s) \<longleftrightarrow> lower_strip s \<noteq> []"
  by (simp add: name_ok_def)

lemma name_ok_strip: "name_ok s \<Longrightarrow> py_strip s \<noteq> []"
  by (auto simp: name_ok_def lower_strip_def py_lower_def)

lemma strip_Nil_lower: "lower_strip s = [] \<longleftrightarrow> py_strip s = []"
  by (simp add: lower_strip_def py_lower_def)

lemma kind_of_alias: "dget KIND_ALIASES (lower_strip (kind_value k)) = Some k"
proof -
  have "list_all (\<lambda>k. dget KIND_ALIASES (lower_strip (kind_value k)) = Some k) [NATIVE_BALANCE, ERC20_BALANCE,
      ERC20_ALLOWANCE, ERC20_METADATA, CONTRACT_READ, KNOWN_ADDRESS, TOKEN_PRICES, PORTFOLIO_TOKENS, TRANSFER_HISTORY]"
    by code_simp
  then show ?thesis by (cases k) simp_all
qed

section \<open>Reading back a field\<close>

lemma model_after_Inr: "model_after m r = Inr x \<longleftrightarrow> r = Inr x"
  by (cases r) (simp_all add: model_after_def)

text \<open>A reader that fails reports at least one error.\<close>

lemma reports [simp]:
  "rd_chain d \<noteq> Inl []" "rd_page_key d \<noteq> Inl []" "rd_addr L d fld \<noteq> Inl []" "rd_opt_addr L d fld \<noteq> Inl []"
  "rd_bool L d fld b \<noteq> Inl []" "rd_opt_int L d fld \<noteq> Inl []" "rd_block L d fld \<noteq> Inl []"
  "rd_str_default d fld s \<noteq> Inl []" "rd_category d \<noteq> Inl []" "rd_str1 d fld \<noteq> Inl []"
  by (auto simp: rd_chain_def rd_page_key_def rd_opt_str_def rd_addr_def rd_str1_def rd_str_def nonempty_def
      norm_addr_field_def rd_opt_addr_def rd_bool_def rd_opt_int_def rd_block_def rd_str_default_def rd_category_def
      rbind_eq_Inl split: option.splits pyval.splits sum.splits if_splits)

lemma rd_items_reports [simp]: "rd_items f fld vs \<noteq> Inl []"
  by (auto simp: rd_items_def Let_def)

lemma rd_list_reports [simp]: "rd_list f d fld dflt \<noteq> Inl []" "rd_opt_list f d fld \<noteq> Inl []"
  by (auto simp: rd_list_def rd_opt_list_def rbind_eq_Inl split: option.splits pyval.splits)

lemma no_errs: "fld_errs f = [] \<Longrightarrow> f \<noteq> Inl [] \<Longrightarrow> \<exists>v. f = Inr v"
  using fld_errs_Nil by blast

lemma rd_chain_back:
  assumes "rd_chain d = Inr c" and "dget_none d' ''chain'' = opt_val PStr c"
  shows "rd_chain d' = Inr c"
  using assms
  by (auto simp: rd_chain_def rd_opt_str_def rbind_eq_Inr or_blank_def split: option.splits pyval.splits if_splits)

lemma rd_chain_name: "rd_chain d = Inr (Some c) \<Longrightarrow> name_ok c"
  by (auto simp: rd_chain_def rbind_eq_Inr or_blank_def name_ok_def bind_eq_Some_conv split: if_splits)

lemma rd_page_key_back:
  assumes "rd_page_key d = Inr c" and "dget_none d' ''page_key'' = opt_val PStr c"
  shows "rd_page_key d' = Inr c"
  using assms
  by (auto simp: rd_page_key_def rd_opt_str_def rbind_eq_Inr or_blank_def split: option.splits pyval.splits if_splits)

lemma rd_page_key_none: "dget_none d' ''page_key'' = PNone \<Longrightarrow> rd_page_key d' = Inr None"
  by (simp add: rd_page_key_def rd_opt_str_def)

lemma rd_addr_normal:
  assumes "web3_laws L" and "rd_addr L d fld = Inr a"
  shows "normal_address L a"
proof -
  from assms(2) obtain v where "norm_addr_field L fld v = Inr a" by (auto simp: rd_addr_def rbind_eq_Inr)
  then have "normalize_evm_address L v = Inr a" by (auto simp: norm_addr_field_def split: sum.splits)
  with assms(1) show ?thesis by (rule normalize_result_normal)
qed

lemma rd_addr_back: "normal_address L a \<Longrightarrow> dget d' fld = Some (PStr a) \<Longrightarrow> rd_addr L d' fld = Inr a"
  by (simp add: rd_addr_def rd_str1_def rd_str_def nonempty_def norm_addr_field_def normalize_normal)

text \<open>What pydantic's lax conversion does to a value that already has the type.\<close>

definition lax_laws :: "libs \<Rightarrow> bool" where
  "lax_laws L \<longleftrightarrow> (\<forall>n. lax_int L (PInt n) = Some n) \<and> (\<forall>b. lax_bool L (PBool b) = Some b)"

lemma rd_bool_back: "lax_laws L \<Longrightarrow> dget d' fld = Some (PBool b) \<Longrightarrow> rd_bool L d' fld x = Inr b"
  by (simp add: rd_bool_def lax_laws_def)

lemma rd_block_back: "lax_laws L \<Longrightarrow> dget_none d' fld = opt_val block_json b \<Longrightarrow> rd_block L d' fld = Inr b"
proof -
  assume l: "lax_laws L" and d: "dget_none d' fld = opt_val block_json b"
  show ?thesis
  proof (cases b)
    case (Some r)
    with l d show ?thesis by (cases r) (simp_all add: rd_block_def lax_laws_def)
  qed (use d in \<open>simp add: rd_block_def\<close>)
qed

lemma rd_items_back:
  assumes "\<And>loc x. x \<in> set xs \<Longrightarrow> f loc (g x) = Inr x"
  shows "rd_items f fld (map g xs) = Inr xs"
proof -
  have fs: "map (\<lambda>i. f (item_loc fld i) (map g xs ! i)) [0..<length (map g xs)] = map Inr xs"
    by (rule nth_equalityI) (simp_all add: assms)
  show ?thesis unfolding rd_items_def fs Let_def by (simp add: comp_def)
qed

lemma rd_items_elem:
  assumes "rd_items f fld vs = Inr xs" and "x \<in> set xs"
  shows "\<exists>loc v. v \<in> set vs \<and> f loc v = Inr x"
proof -
  from assms obtain i where "i < length vs" "f (item_loc fld i) (vs ! i) = Inr x"
    by (auto simp: rd_items_def Let_def split: if_splits sum.splits)
  then show ?thesis by (metis nth_mem)
qed

section \<open>Fixed points\<close>

abbreviation stable :: "libs \<Rightarrow> chain_table \<Rightarrow> read_kind \<Rightarrow> pydict \<Rightarrow> bool" where
  "stable L C k d \<equiv> \<forall>i. intent_of_kind L C k d = Inr i \<longrightarrow> intent_of_kind L C k (intent_json i) = Inr i"

lemma native_balance_stable: "web3_laws L \<Longrightarrow> stable L C NATIVE_BALANCE d"
proof -
  assume laws: "web3_laws L"
  have "intent_of_kind L C NATIVE_BALANCE (intent_json i) = Inr i" if i: "native_balance_of L d = Inr i" for i
  proof -
    from i obtain c w where f: "rd_chain d = Inr c" "rd_addr L d ''wallet_address'' = Inr w" "i = NativeBalanceIntent c w"
      by (auto simp: native_balance_of_def Let_def finish_Inr dest!: no_errs)
    with rd_chain_back [OF f(1)] rd_addr_back [OF rd_addr_normal [OF laws f(2)]] show ?thesis
      by (simp add: native_balance_of_def Let_def finish_Inr intent_head_def dget_none_def)
  qed
  then show ?thesis by simp
qed

lemma erc20_metadata_stable: "web3_laws L \<Longrightarrow> stable L C ERC20_METADATA d"
proof -
  assume laws: "web3_laws L"
  have "intent_of_kind L C ERC20_METADATA (intent_json i) = Inr i" if i: "erc20_metadata_of L d = Inr i" for i
  proof -
    from i obtain c t where f: "rd_chain d = Inr c" "rd_addr L d ''token_address'' = Inr t" "i = ERC20MetadataIntent c t"
      by (auto simp: erc20_metadata_of_def Let_def finish_Inr dest!: no_errs)
    with rd_chain_back [OF f(1)] rd_addr_back [OF rd_addr_normal [OF laws f(2)]] show ?thesis
      by (simp add: erc20_metadata_of_def Let_def finish_Inr intent_head_def dget_none_def)
  qed
  then show ?thesis by simp
qed

lemma erc20_balance_stable: "web3_laws L \<Longrightarrow> stable L C ERC20_BALANCE d"
proof -
  assume laws: "web3_laws L"
  have "intent_of_kind L C ERC20_BALANCE (intent_json i) = Inr i" if i: "erc20_balance_of L d = Inr i" for i
  proof -
    from i obtain c t w where f: "rd_chain d = Inr c" "rd_addr L d ''token_address'' = Inr t"
      "rd_addr L d ''wallet_address'' = Inr w" "i = ERC20BalanceIntent c t w"
      by (auto simp: erc20_balance_of_def Let_def finish_Inr dest!: no_errs)
    with rd_chain_back [OF f(1)] rd_addr_back [OF rd_addr_normal [OF laws f(2)]]
      rd_addr_back [OF rd_addr_normal [OF laws f(3)]] show ?thesis
      by (simp add: erc20_balance_of_def Let_def finish_Inr intent_head_def dget_none_def)
  qed
  then show ?thesis by simp
qed

lemma erc20_allowance_stable: "web3_laws L \<Longrightarrow> stable L C ERC20_ALLOWANCE d"
proof -
  assume laws: "web3_laws L"
  have "intent_of_kind L C ERC20_ALLOWANCE (intent_json i) = Inr i" if i: "erc20_allowance_of L d = Inr i" for i
  proof -
    from i obtain c t ow sp where f: "rd_chain d = Inr c" "rd_addr L d ''token_address'' = Inr t"
      "rd_addr L d ''owner_address'' = Inr ow" "rd_addr L d ''spender_address'' = Inr sp" "i = ERC20AllowanceIntent c t ow sp"
      by (auto simp: erc20_allowance_of_def Let_def finish_Inr dest!: no_errs)
    with rd_chain_back [OF f(1)] rd_addr_back [OF rd_addr_normal [OF laws f(2)]]
      rd_addr_back [OF rd_addr_normal [OF laws f(3)]] rd_addr_back [OF rd_addr_normal [OF laws f(4)]] show ?thesis
      by (simp add: erc20_allowance_of_def Let_def finish_Inr intent_head_def dget_none_def)
  qed
  then show ?thesis by simp
qed

lemma rd_str1_back: "rd_str1 d fld = Inr s \<Longrightarrow> dget d' fld = Some (PStr s) \<Longrightarrow> rd_str1 d' fld = Inr s"
  by (auto simp: rd_str1_def rd_str_def nonempty_def rbind_eq_Inr split: option.splits pyval.splits if_splits)

lemma contract_read_stable: "web3_laws L \<Longrightarrow> stable L C CONTRACT_READ d"
proof -
  assume laws: "web3_laws L"
  have "intent_of_kind L C CONTRACT_READ (intent_json i) = Inr i" if i: "contract_read_of L d = Inr i" for i
  proof -
    have abi: "rbind r (min_items m) \<noteq> Inl []" if "r \<noteq> Inl []" for r :: "pydict list field" and m
      using that by (auto simp: min_items_def rbind_eq_Inl split: if_splits)
    from i obtain c a abi f args where f: "rd_chain d = Inr c" "rd_addr L d ''contract_address'' = Inr a"
      "abi \<noteq> []" "rd_str1 d ''function_name'' = Inr f" "i = ContractReadIntent c a abi f args"
      by (auto simp: contract_read_of_def Let_def finish_Inr abi rbind_eq_Inr min_items_def split: if_splits dest!: no_errs)
    have items: "rd_items item_dict m (map PDict abi) = Inr abi" "rd_items (\<lambda>loc v. Inr v) m args = Inr args" for m
      using rd_items_back [of abi item_dict PDict m] rd_items_back [of args "\<lambda>loc v. Inr v" "\<lambda>v. v" m]
      by (simp_all add: item_dict_def)
    from f rd_chain_back [OF f(1)] rd_addr_back [OF rd_addr_normal [OF laws f(2)]] rd_str1_back [OF f(4)] items show ?thesis
      by (simp add: contract_read_of_def Let_def finish_Inr intent_head_def dget_none_def rd_list_def min_items_def)
  qed
  then show ?thesis by simp
qed

lemma known_address_stable: "stable L C KNOWN_ADDRESS d"
proof -
  have "intent_of_kind L C KNOWN_ADDRESS (intent_json i) = Inr i" if i: "known_address_of d = Inr i" for i
  proof -
    have key: "rbind r (\<lambda>s. if py_strip s = [] then field_value_error m t else Inr (py_strip s)) \<noteq> Inl []"
      if "r \<noteq> Inl []" for r :: "string field" and m t
      using that by (auto simp: field_value_error_def rbind_eq_Inl split: if_splits)
    from i obtain c cat k where f: "rd_chain d = Inr c" "i = KnownAddressIntent c cat k" "py_strip k = k" "k \<noteq> []"
      by (auto simp: known_address_of_def Let_def finish_Inr key rbind_eq_Inr field_value_error_def split: if_splits
          dest!: no_errs)
    then have "rd_str1 (intent_json i) ''key'' = Inr k"
      by (simp add: rd_str1_def rd_str_def nonempty_def intent_head_def)
    moreover have "rd_category (intent_json i) = Inr cat"
      using f(2) by (cases cat) (simp_all add: rd_category_def intent_head_def)
    ultimately show ?thesis using f rd_chain_back [OF f(1), of "intent_json i"]
      by (simp add: known_address_of_def Let_def finish_Inr intent_head_def dget_none_def)
  qed
  then show ?thesis by simp
qed

subsection \<open>Token prices\<close>

definition price_entry_ok :: "libs \<Rightarrow> string \<times> string \<Rightarrow> bool" where
  "price_entry_ok L e \<longleftrightarrow> name_ok (fst e) \<and> normal_address L (snd e)"

lemma required_chain_field:
  "rbind r (\<lambda>s. if lower_strip s = [] then field_value_error m t else Inr (lower_strip s)) = Inr c \<Longrightarrow> name_ok c"
  by (auto simp: rbind_eq_Inr field_value_error_def name_ok_lower_strip split: if_splits)

lemma price_entry_reports:
  "rbind (rd_str1 d x) (\<lambda>s. if lower_strip s = [] then field_value_error m t else Inr (lower_strip s)) \<noteq> Inl []"
  by (auto simp: field_value_error_def rbind_eq_Inl split: if_splits)

lemma price_entry_of_ok:
  assumes "web3_laws L" and "price_entry_of L d = Inr e"
  shows "price_entry_ok L e"
proof -
  let ?c = "rbind (rd_str1 d ''chain'') (\<lambda>s. if lower_strip s = [] then field_value_error ''chain'' ''chain must not be empty.''
             else Inr (lower_strip s))"
  from assms(2) obtain c t where f: "?c = Inr c" "rd_addr L d ''token_address'' = Inr t" "e = (c, t)"
    by (auto simp: price_entry_of_def Let_def price_entry_reports split: if_splits dest!: no_errs)
  with required_chain_field [OF f(1)] rd_addr_normal [OF assms(1) f(2)] show ?thesis by (simp add: price_entry_ok_def)
qed

lemma price_entry_of_json:
  assumes "price_entry_ok L e"
  shows "price_entry_of L [(''chain'', PStr (fst e)), (''token_address'', PStr (snd e))] = Inr e"
  using assms rd_addr_back [of L "snd e" "[(''chain'', PStr (fst e)), (''token_address'', PStr (snd e))]" "''token_address''"]
  by (simp add: price_entry_of_def price_entry_ok_def name_ok_def rd_str1_def rd_str_def nonempty_def Let_def)

lemma item_price_entry_ok:
  assumes "web3_laws L" and "item_price_entry L loc v = Inr e"
  shows "price_entry_ok L e"
proof -
  from assms(2) obtain d where "price_entry_of L d = Inr e"
    by (auto simp: item_price_entry_def prefixed_def split: pyval.splits sum.splits)
  with assms(1) show ?thesis by (rule price_entry_of_ok)
qed

lemma item_price_entry_back: "price_entry_ok L e \<Longrightarrow> item_price_entry L loc (price_entry_json e) = Inr e"
  by (simp add: item_price_entry_def price_entry_json_def prefixed_def price_entry_of_json)

lemma price_entries_ok:
  assumes "web3_laws L" and "price_entries L c t ts = Inr es" and "\<forall>e \<in> set ts. price_entry_ok L e"
  shows "\<forall>e \<in> set es. price_entry_ok L e"
  using assms price_entry_of_ok
  by (auto simp: price_entries_def split: if_splits option.splits sum.splits)

lemma token_prices_stable: "web3_laws L \<Longrightarrow> stable L C TOKEN_PRICES d"
proof -
  assume laws: "web3_laws L"
  have "intent_of_kind L C TOKEN_PRICES (intent_json i) = Inr i" if i: "token_prices_of L d = Inr i" for i
  proof -
    from i obtain c t ts where ts: "rd_list (item_price_entry L) d ''tokens'' (Some []) = Inr ts"
      and n: "normalize_token_list L c t ts = Inr i"
      by (auto simp: token_prices_of_def Let_def finish_Inr rbind_eq_Inr model_after_Inr dest!: no_errs)
    from ts have "\<forall>e \<in> set ts. price_entry_ok L e"
      using item_price_entry_ok [OF laws] rd_items_elem
      by (fastforce simp: rd_list_def split: option.splits pyval.splits)
    with n price_entries_ok [OF laws] obtain es where es: "i = TokenPricesIntent es" "\<forall>e \<in> set es. price_entry_ok L e"
      "normalize_token_list L None None es = Inr i"
      by (auto simp: normalize_token_list_def rbind_eq_Inr price_entries_def [of _ _ _ "_ # _"] price_entries_def [of _ None None]
          split: if_splits)
    have "rd_list (item_price_entry L) (intent_json i) ''tokens'' (Some []) = Inr es"
      using es(1,2) rd_items_back [of es "item_price_entry L" price_entry_json "''tokens''"] item_price_entry_back
      by (simp add: rd_list_def intent_head_def)
    moreover have "rd_chain (intent_json i) = Inr None" "rd_opt_addr L (intent_json i) ''token_address'' = Inr None"
      using es(1) by (simp_all add: rd_chain_def rd_opt_addr_def rd_opt_str_def intent_head_def)
    ultimately show ?thesis using es(3) by (simp add: token_prices_of_def Let_def finish_def model_after_def)
  qed
  then show ?thesis by simp
qed

subsection \<open>Portfolios\<close>

definition names_ok :: "string list \<Rightarrow> bool" where
  "names_ok cs \<longleftrightarrow> distinct cs \<and> (\<forall>c \<in> set cs. name_ok c)"

lemma names_ok_snoc: "names_ok (cs @ [c]) \<longleftrightarrow> names_ok cs \<and> c \<notin> set cs \<and> name_ok c"
  by (auto simp: names_ok_def)

lemma distinct_names_step:
  "names_ok out \<Longrightarrow> names_ok (fold (\<lambda>c out. let name = lower_strip c in
     if name = [] \<or> name \<in> set out then out else out @ [name]) cs out)"
  by (induction cs arbitrary: out) (auto simp: Let_def names_ok_snoc name_ok_lower_strip)

lemma distinct_names_ok: "names_ok (distinct_names cs)"
  unfolding distinct_names_def by (rule distinct_names_step) (simp add: names_ok_def)

lemma distinct_names_fixed:
  assumes "names_ok cs"
  shows "distinct_names cs = cs"
proof -
  have "fold (\<lambda>c out. let name = lower_strip c in
     if name = [] \<or> name \<in> set out then out else out @ [name]) cs out = out @ cs"
    if "names_ok (out @ cs)" for out
    using that
  proof (induction cs arbitrary: out)
    case (Cons c cs)
    then have "names_ok ((out @ [c]) @ cs)" "lower_strip c = c" "c \<noteq> []" "c \<notin> set out"
      by (auto simp: names_ok_def name_ok_def)
    with Cons.IH [of "out @ [c]"] show ?case by simp
  qed simp
  from this [of "[]"] assms show ?thesis by (simp add: distinct_names_def)
qed

lemma mercury_names_ok: "alchemy_network_to_mercury_chain n = Inr m \<Longrightarrow> name_ok m"
proof -
  assume "alchemy_network_to_mercury_chain n = Inr m"
  then have "m \<in> set (map fst MERCURY_TO_ALCHEMY_NETWORK)"
    by (auto simp: alchemy_network_to_mercury_chain_def find_Some_iff split: option.splits) (metis fst_conv imageI nth_mem)
  moreover have "list_all name_ok (map fst MERCURY_TO_ALCHEMY_NETWORK)" by code_simp
  ultimately show ?thesis by (auto simp: list_all_iff)
qed

lemma chains_of_networks_ok:
  "chains_of_networks ns acc = Inr cs \<Longrightarrow> names_ok acc \<Longrightarrow> names_ok cs"
proof (induction ns acc rule: chains_of_networks.induct)
  case (2 n ns acc)
  show ?case
  proof (cases "lower_strip n = []")
    case True
    with 2 show ?thesis by (simp add: Let_def)
  next
    case False
    with "2.prems"(1) obtain m where m: "alchemy_network_to_mercury_chain (lower_strip n) = Inr m"
      by (auto simp: Let_def split: sum.splits exn.splits)
    with False "2.prems"(1) have r: "chains_of_networks ns (if m \<in> set acc then acc else acc @ [m]) = Inr cs"
      by (simp add: Let_def)
    have "names_ok (if m \<in> set acc then acc else acc @ [m])"
      using "2.prems"(2) mercury_names_ok [OF m] by (simp add: names_ok_snoc)
    from "2.IH"(2) [OF refl False m r this] show ?thesis .
  qed
qed simp

lemma resolved_chains_ok: "resolved_chains c cs ns = Inr rs \<Longrightarrow> names_ok rs"
  using chains_of_networks_ok [of _ "[]" rs] distinct_names_ok
  by (auto simp: resolved_chains_def Let_def names_ok_def name_ok_lower_strip strip_Nil_lower
      split: if_splits option.splits)

lemma resolve_portfolio_back:
  assumes "resolve_portfolio_chains L C c cs ns = Inr rs"
  shows "resolve_portfolio_chains L C None (Some rs) None = Inr rs" "rs \<noteq> []"
proof -
  from assms have rs: "resolved_chains c cs ns = Inr rs" "rs \<noteq> []"
    by (auto simp: resolve_portfolio_chains_def rbind_eq_Inr split: if_splits option.splits)
  then show "rs \<noteq> []" by simp
  have "resolved_chains None (Some rs) None = Inr rs"
    using rs distinct_names_fixed [OF resolved_chains_ok [OF rs(1)]] by (simp add: resolved_chains_def)
  with assms rs show "resolve_portfolio_chains L C None (Some rs) None = Inr rs"
    by (auto simp: resolve_portfolio_chains_def split: if_splits option.splits)
qed

lemma portfolio_tokens_stable: "web3_laws L \<Longrightarrow> lax_laws L \<Longrightarrow> stable L C PORTFOLIO_TOKENS d"
proof -
  assume laws: "web3_laws L" "lax_laws L"
  have "intent_of_kind L C PORTFOLIO_TOKENS (intent_json i) = Inr i" if i: "portfolio_tokens_of L C d = Inr i" for i
  proof -
    let ?w = "rd_addr L d ''wallet_address''" and ?k = "rd_page_key d"
    from i obtain p where p: "i = PortfolioTokensIntent p"
      by (auto simp: portfolio_tokens_of_def Let_def rbind_eq_Inr model_after_Inr)
    from i have r: "resolve_portfolio_chains L C (oval (rd_chain d)) (oval (rd_opt_list item_str d ''chains''))
        (oval (rd_opt_list item_str d ''networks'')) = Inr (pf_chains p)"
      and f: "pf_wallet_address p = sval ?w" "pf_page_key p = oval ?k" "fld_errs ?w = []" "fld_errs ?k = []"
      by (auto simp: portfolio_tokens_of_def Let_def rbind_eq_Inr finish_Inr model_after_Inr p)
    have w: "?w = Inr (pf_wallet_address p)" and k: "?k = Inr (pf_page_key p)"
      using no_errs [OF f(3) reports(3)] no_errs [OF f(4) reports(2)] f(1,2) by auto
    note rs = resolve_portfolio_back [OF r]
    have lists: "rd_opt_list item_str (intent_json i) ''chains'' = Inr (Some (pf_chains p))"
      "rd_opt_list item_str (intent_json i) ''networks'' = Inr None"
      using p rd_items_back [of "pf_chains p" item_str PStr "''chains''"]
      by (simp_all add: rd_opt_list_def intent_head_def item_str_def)
    have "rd_chain (intent_json i) = Inr None" using p by (simp add: rd_chain_def rd_opt_str_def intent_head_def)
    moreover have "rd_addr L (intent_json i) ''wallet_address'' = Inr (pf_wallet_address p)"
      using rd_addr_back [OF rd_addr_normal [OF laws(1) w]] p by (simp add: intent_head_def)
    moreover have "rd_page_key (intent_json i) = Inr (pf_page_key p)"
      using rd_page_key_back [OF k] p by (simp add: intent_head_def)
    moreover have "rd_bool L (intent_json i) ''with_metadata'' True = Inr (pf_with_metadata p)"
      "rd_bool L (intent_json i) ''with_prices'' True = Inr (pf_with_prices p)"
      "rd_bool L (intent_json i) ''include_native_tokens'' True = Inr (pf_include_native_tokens p)"
      "rd_bool L (intent_json i) ''include_erc20_tokens'' True = Inr (pf_include_erc20_tokens p)"
      using rd_bool_back [OF laws(2)] p by (simp_all add: intent_head_def)
    ultimately show ?thesis using lists rs p
      by (simp add: portfolio_tokens_of_def Let_def finish_def model_after_def)
  qed
  then show ?thesis by simp
qed

subsection \<open>Transfer history\<close>

lemma direction_back: "direction_of (direction_value x) = Some x"
proof -
  have "list_all (\<lambda>x. direction_of (direction_value x) = Some x) [INCOMING, OUTGOING, BOTH]" by code_simp
  then show ?thesis by (cases x) simp_all
qed

lemma categories_allowed:
  assumes "transfer_categories cats = Inr cs"
  shows "cs \<noteq> [] \<and> (\<forall>c \<in> set cs. c \<in> set ALLOWED_TRANSFER_CATEGORIES)"
  using assms
  by (auto simp: transfer_categories_def Let_def ALLOWED_TRANSFER_CATEGORIES_def TRANSFER_DEFAULT_CATEGORIES_def
      find_None_iff split: option.splits if_splits)

lemma allowed_names: "c \<in> set ALLOWED_TRANSFER_CATEGORIES \<Longrightarrow> name_ok c"
proof -
  have "list_all name_ok ALLOWED_TRANSFER_CATEGORIES" by code_simp
  then show "c \<in> set ALLOWED_TRANSFER_CATEGORIES \<Longrightarrow> name_ok c" by (simp add: list_all_iff)
qed

lemma transfer_categories_back:
  assumes "transfer_categories cats = Inr cs"
  shows "transfer_categories (Some cs) = Inr cs"
proof -
  note ok = categories_allowed [OF assms]
  have f: "filter (\<lambda>c. py_strip c \<noteq> []) cs = cs"
    using ok allowed_names name_ok_strip by (simp add: filter_id_conv)
  have m: "map lower_strip cs = cs"
    using ok allowed_names by (auto simp: name_ok_def intro!: map_idI)
  have "find (\<lambda>c. c \<notin> set ALLOWED_TRANSFER_CATEGORIES) cs = None" using ok by (simp add: find_None_iff)
  with f m ok show ?thesis by (simp add: transfer_categories_def Let_def)
qed

lemma transfer_history_stable: "web3_laws L \<Longrightarrow> lax_laws L \<Longrightarrow> stable L C TRANSFER_HISTORY d"
proof -
  assume laws: "web3_laws L" "lax_laws L"
  have "intent_of_kind L C TRANSFER_HISTORY (intent_json i) = Inr i" if i: "transfer_history_of L d = Inr i" for i
  proof -
    let ?c = "rd_chain d" and ?w = "rd_addr L d ''wallet_address''"
    let ?dir = "sval (rd_str_default d ''direction'' ''both'')" and ?cats = "oval (rd_opt_list item_str d ''categories'')"
    let ?m = "oval (rd_opt_int L d ''max_count'')" and ?k = "oval (rd_page_key d)"
    from i obtain t where t: "i = TransferHistoryIntent t"
      by (auto simp: transfer_history_of_def Let_def rbind_eq_Inr model_after_Inr)
    from i have n: "normalize_transfer_fields ?dir ?cats ?m ?k =
        Inr (th_direction t, th_categories t, th_max_count t, th_page_key t)"
      and f: "th_chain t = oval ?c" "th_wallet_address t = sval ?w"
      and e: "fld_errs ?c = []" "fld_errs ?w = []" "fld_errs (rd_page_key d) = []"
      by (auto simp: transfer_history_of_def Let_def rbind_eq_Inr finish_Inr model_after_Inr t)
    have c: "?c = Inr (th_chain t)" and w: "?w = Inr (th_wallet_address t)" and pk: "rd_page_key d = Inr ?k"
      using no_errs [OF e(1) reports(1)] no_errs [OF e(2) reports(3)] no_errs [OF e(3) reports(2)] f by auto
    from n have cs: "transfer_categories (Some (th_categories t)) = Inr (th_categories t)"
      and mc: "1 \<le> th_max_count t" "th_max_count t \<le> 1000"
      and key: "th_page_key t = (if th_direction t = BOTH then None else ?k)"
      by (auto simp: normalize_transfer_fields_def rbind_eq_Inr Let_def transfer_categories_back
          split: option.splits if_splits)
    have key': "rd_page_key (intent_json i) = Inr (th_page_key t)"
      using rd_page_key_back [OF pk, of "intent_json i"] rd_page_key_none [of "intent_json i"] key t
      by (simp add: intent_head_def split: if_splits)
    have strs: "rd_items item_str ''categories'' (map PStr (th_categories t)) = Inr (th_categories t)"
      using rd_items_back [of "th_categories t" item_str PStr] by (simp add: item_str_def)
    have cats: "rd_opt_list item_str (intent_json i) ''categories'' = Inr (Some (th_categories t))"
      using t strs by (simp add: rd_opt_list_def intent_head_def)
    have "rd_chain (intent_json i) = Inr (th_chain t)" using rd_chain_back [OF c] t by (simp add: intent_head_def)
    moreover have "rd_addr L (intent_json i) ''wallet_address'' = Inr (th_wallet_address t)"
      using rd_addr_back [OF rd_addr_normal [OF laws(1) w]] t by (simp add: intent_head_def)
    moreover have "rd_block L (intent_json i) ''from_block'' = Inr (th_from_block t)"
      "rd_block L (intent_json i) ''to_block'' = Inr (th_to_block t)"
      using rd_block_back [OF laws(2)] t by (simp_all add: intent_head_def)
    moreover have "rd_bool L (intent_json i) ''with_metadata'' True = Inr (th_with_metadata t)"
      "rd_bool L (intent_json i) ''exclude_zero_value'' True = Inr (th_exclude_zero_value t)"
      using rd_bool_back [OF laws(2)] t by (simp_all add: intent_head_def)
    moreover have "rd_str_default (intent_json i) ''direction'' ''both'' = Inr (direction_value (th_direction t))"
      "rd_opt_int L (intent_json i) ''max_count'' = Inr (Some (th_max_count t))"
      using laws(2) t by (simp_all add: rd_str_default_def rd_str_def rd_opt_int_def lax_laws_def intent_head_def)
    moreover have "normalize_transfer_fields (direction_value (th_direction t)) (Some (th_categories t)) (Some (th_max_count t))
        (th_page_key t) = Inr (th_direction t, th_categories t, th_max_count t, th_page_key t)"
      using cs mc key by (simp add: normalize_transfer_fields_def direction_back)
    ultimately show ?thesis using cats key' t
      by (simp add: transfer_history_of_def Let_def finish_def model_after_def)
  qed
  then show ?thesis by simp
qed

section \<open>The round trip\<close>

lemma kind_stable:
  assumes "web3_laws L" and "lax_laws L"
  shows "stable L C k d"
proof (cases k)
  case NATIVE_BALANCE
  show ?thesis unfolding NATIVE_BALANCE by (rule native_balance_stable [OF assms(1)])
next
  case ERC20_BALANCE
  show ?thesis unfolding ERC20_BALANCE by (rule erc20_balance_stable [OF assms(1)])
next
  case ERC20_ALLOWANCE
  show ?thesis unfolding ERC20_ALLOWANCE by (rule erc20_allowance_stable [OF assms(1)])
next
  case ERC20_METADATA
  show ?thesis unfolding ERC20_METADATA by (rule erc20_metadata_stable [OF assms(1)])
next
  case CONTRACT_READ
  show ?thesis unfolding CONTRACT_READ by (rule contract_read_stable [OF assms(1)])
next
  case KNOWN_ADDRESS
  show ?thesis unfolding KNOWN_ADDRESS by (rule known_address_stable)
next
  case TOKEN_PRICES
  show ?thesis unfolding TOKEN_PRICES by (rule token_prices_stable [OF assms(1)])
next
  case PORTFOLIO_TOKENS
  show ?thesis unfolding PORTFOLIO_TOKENS by (rule portfolio_tokens_stable [OF assms])
next
  case TRANSFER_HISTORY
  show ?thesis unfolding TRANSFER_HISTORY by (rule transfer_history_stable [OF assms])
qed

fun intent_kind_of :: "parsed_intent \<Rightarrow> read_kind option" where
  "intent_kind_of (NativeBalanceIntent _ _) = Some NATIVE_BALANCE"
| "intent_kind_of (ERC20BalanceIntent _ _ _) = Some ERC20_BALANCE"
| "intent_kind_of (ERC20AllowanceIntent _ _ _ _) = Some ERC20_ALLOWANCE"
| "intent_kind_of (ERC20MetadataIntent _ _) = Some ERC20_METADATA"
| "intent_kind_of (ContractReadIntent _ _ _ _ _) = Some CONTRACT_READ"
| "intent_kind_of (KnownAddressIntent _ _ _) = Some KNOWN_ADDRESS"
| "intent_kind_of (TokenPricesIntent _) = Some TOKEN_PRICES"
| "intent_kind_of (PortfolioTokensIntent _) = Some PORTFOLIO_TOKENS"
| "intent_kind_of (TransferHistoryIntent _) = Some TRANSFER_HISTORY"
| "intent_kind_of (UnsupportedIntent _) = None"

lemma intent_json_kind: "intent_kind_of i = Some k \<Longrightarrow> dget (intent_json i) ''kind'' = Some (PStr (kind_value k))"
  by (cases i) (auto simp: intent_head_def)

lemma intent_json_unwrapped: "unwrap_payload (intent_json i) = intent_json i"
  by (cases i) (auto simp: unwrap_payload_def intent_head_def)

lemma finish_InrD: "finish m es x = Inr y \<Longrightarrow> y = x"
  by (simp add: finish_Inr)

lemma simple_kinds:
  "native_balance_of L d = Inr i \<Longrightarrow> intent_kind_of i = Some NATIVE_BALANCE"
  "erc20_balance_of L d = Inr i \<Longrightarrow> intent_kind_of i = Some ERC20_BALANCE"
  "erc20_allowance_of L d = Inr i \<Longrightarrow> intent_kind_of i = Some ERC20_ALLOWANCE"
  "erc20_metadata_of L d = Inr i \<Longrightarrow> intent_kind_of i = Some ERC20_METADATA"
  "contract_read_of L d = Inr i \<Longrightarrow> intent_kind_of i = Some CONTRACT_READ"
  "known_address_of d = Inr i \<Longrightarrow> intent_kind_of i = Some KNOWN_ADDRESS"
  unfolding native_balance_of_def erc20_balance_of_def erc20_allowance_of_def erc20_metadata_of_def contract_read_of_def
    known_address_of_def Let_def
  by (drule finish_InrD, simp)+

lemma normalize_token_list_kind: "normalize_token_list L c t ts = Inr i \<Longrightarrow> intent_kind_of i = Some TOKEN_PRICES"
  by (auto simp: normalize_token_list_def rbind_eq_Inr split: if_splits)

lemma model_after_InrE: "model_after m r = Inr x \<Longrightarrow> r = Inr x"
  by (simp add: model_after_def split: sum.splits)

lemma rbind_InrE: "rbind r f = Inr y \<Longrightarrow> (\<And>x. f x = Inr y \<Longrightarrow> P) \<Longrightarrow> P"
  by (auto simp: rbind_eq_Inr)

lemma token_prices_kind:
  assumes "token_prices_of L d = Inr i"
  shows "intent_kind_of i = Some TOKEN_PRICES"
proof -
  from assms obtain c t ts where "model_after ''TokenPricesIntent'' (normalize_token_list L c t ts) = Inr i"
    unfolding token_prices_of_def Let_def by (elim rbind_InrE) (simp only: prod.case split: prod.splits)
  then show ?thesis by (intro normalize_token_list_kind) (rule model_after_InrE)
qed

lemma portfolio_tokens_kind:
  assumes "portfolio_tokens_of L C d = Inr i"
  shows "intent_kind_of i = Some PORTFOLIO_TOKENS"
proof -
  from assms obtain p r where "model_after ''PortfolioTokensIntent'' (rbind r (\<lambda>cns.
       Inr (PortfolioTokensIntent (p\<lparr>pf_chains := cns\<rparr>)))) = Inr i"
    unfolding portfolio_tokens_of_def Let_def by (elim rbind_InrE) blast
  from model_after_InrE [OF this] show ?thesis by (elim rbind_InrE) auto
qed

lemma transfer_history_kind: "transfer_history_of L d = Inr i \<Longrightarrow> intent_kind_of i = Some TRANSFER_HISTORY"
  unfolding transfer_history_of_def Let_def
  by (elim rbind_InrE, drule model_after_InrE, elim rbind_InrE) (auto split: prod.splits)

lemma intent_of_kind_kind: "intent_of_kind L C k d = Inr i \<Longrightarrow> intent_kind_of i = Some k"
  using simple_kinds token_prices_kind portfolio_tokens_kind transfer_history_kind
  by (cases k; simp only: intent_of_kind.simps)

lemma parsed_again:
  assumes "web3_laws L" and "lax_laws L" and "parse_structured_intent L C raw = Inr i"
    and "intent_kind_of i = Some k"
  shows "parse_structured_intent L C (intent_json i) = Inr i"
proof -
  from assms(3,4) obtain kind payload where "intent_of_kind L C kind payload = Inr i"
    by (auto simp: parse_structured_intent_def Let_def split: pyval.splits option.splits sum.splits)
  moreover from this assms(4) have "kind = k" using intent_of_kind_kind by fastforce
  ultimately have "intent_of_kind L C k (intent_json i) = Inr i" using kind_stable [OF assms(1,2)] by blast
  with intent_json_kind [OF assms(4)] kind_of_alias [of k] show ?thesis
    by (simp add: parse_structured_intent_def intent_json_unwrapped raw_kind_def Let_def)
qed

end
