(* ===== verification/Canonical_Requests.thy ===== *)
theory Canonical_Requests
  imports Invoke_Service Intent_Properties
begin

text \<open>
  From a request to the pipeline: the graphs read again the payload that validation has made canonical, and get the
  intent that was validated. The runtime, with the graph it selects, is a preparation graph, so what holds of every
  preparation graph holds of a request.
\<close>

section \<open>Reading a canonical payload\<close>

definition has_all :: "pydict \<Rightarrow> pydict \<Rightarrow> bool" where
  "has_all c d \<longleftrightarrow> (\<forall>k v. dget c k = Some v \<longrightarrow> dget d k = Some v)"

lemma has_allD: "has_all c d \<Longrightarrow> dget c k = Some v \<Longrightarrow> dget d k = Some v"
  by (simp add: has_all_def)

lemma str1_again: "dget d fld = Some (PStr s) \<Longrightarrow> sval (rd_str1 d fld) = s"
  by (simp add: rd_str1_def rd_str_def nonempty_def)

lemma addr_again:
  assumes "web3_laws L" and "rd_addr L m fld = Inr a" and "dget d fld = Some (PStr a)"
  shows "sval (rd_addr L d fld) = a"
  by (simp add: rd_addr_back [OF rd_addr_normal [OF assms(1,2)] assms(3)])

lemma bool_again: "lax_laws L \<Longrightarrow> dget d fld = Some (PBool b) \<Longrightarrow> fld_val b' (rd_bool L d fld b') = b"
  using rd_bool_back [of L d fld b b'] by simp

lemma opt_str1_value: "rd_opt_str1 m fld = Inr v \<Longrightarrow> v \<noteq> Some []"
  by (auto simp: rd_opt_str1_def rbind_eq_Inr split: if_splits)

lemma opt_str1_again:
  assumes "rd_opt_str1 m fld = Inr v" and "dget d fld = Some (opt_val PStr v)"
  shows "oval (rd_opt_str1 d fld) = v"
  using opt_str1_value [OF assms(1)] assms(2)
  by (cases v) (simp_all add: rd_opt_str1_def rd_opt_str_def dget_none_def)

lemma opt_str1_reports [simp]: "rd_opt_str1 d fld \<noteq> Inl []"
  by (auto simp: rd_opt_str1_def rd_opt_str_def rbind_eq_Inl split: pyval.splits if_splits)

lemma addr_read: "fld_errs (rd_addr L m fld) = [] \<Longrightarrow> rd_addr L m fld = Inr (sval (rd_addr L m fld))"
  by (cases "rd_addr L m fld") auto

lemma opt_str1_read: "fld_errs (rd_opt_str1 m fld) = [] \<Longrightarrow> rd_opt_str1 m fld = Inr (oval (rd_opt_str1 m fld))"
  by (cases "rd_opt_str1 m fld") auto

lemma native_again:
  assumes "web3_laws L" and "native_intent_of L m = Inr i" and "native_intent_of L d = Inr j"
    and "has_all (native_intent_json i) d"
  shows "j = i"
proof -
  from assms(2) have i: "i = \<lparr>ni_chain = lower_strip (sval (rd_str1 m ''chain'')), ni_wallet_id = sval (rd_str1 m ''wallet_id''),
      ni_recipient_address = sval (rd_addr L m ''recipient_address''), ni_amount = sval (rd_str1 m ''amount''),
      ni_idempotency_key = oval (rd_opt_str1 m ''idempotency_key'')\<rparr>"
    and e: "fld_errs (rd_addr L m ''recipient_address'') = []" "fld_errs (rd_opt_str1 m ''idempotency_key'') = []"
    by (simp_all add: native_intent_of_def Let_def finish_Inr)
  note d = has_allD [OF assms(4)]
  have "sval (rd_str1 d ''chain'') = ni_chain i" "sval (rd_str1 d ''wallet_id'') = ni_wallet_id i"
    "sval (rd_str1 d ''amount'') = ni_amount i"
    by (rule str1_again, rule d, simp add: native_intent_json_def)+
  moreover have "sval (rd_addr L d ''recipient_address'') = ni_recipient_address i"
    using addr_again [OF assms(1) addr_read [OF e(1)]] d [of "''recipient_address''"] i by (simp add: native_intent_json_def)
  moreover have "oval (rd_opt_str1 d ''idempotency_key'') = ni_idempotency_key i"
    using opt_str1_again [OF opt_str1_read [OF e(2)]] d [of "''idempotency_key''"] i by (simp add: native_intent_json_def)
  moreover have "lower_strip (ni_chain i) = ni_chain i" using i by simp
  ultimately show ?thesis using assms(3) by (simp add: native_intent_of_def Let_def finish_Inr)
qed

lemma transfer_again:
  assumes "web3_laws L" and "lax_laws L" and "transfer_intent_of L m = Inr i" and "transfer_intent_of L d = Inr j"
    and "has_all (transfer_intent_json i) d"
  shows "j = i"
proof -
  from assms(3) have i: "ti_chain i = lower_strip (sval (rd_str1 m ''chain''))"
      "ti_token_address i = sval (rd_addr L m ''token_address'')"
      "ti_recipient_address i = sval (rd_addr L m ''recipient_address'')"
      "ti_idempotency_key i = oval (rd_opt_str1 m ''idempotency_key'')"
    and e: "fld_errs (rd_addr L m ''token_address'') = []" "fld_errs (rd_addr L m ''recipient_address'') = []"
      "fld_errs (rd_opt_str1 m ''idempotency_key'') = []"
    by (simp_all add: transfer_intent_of_def Let_def finish_Inr)
  note d = has_allD [OF assms(5)]
  have "sval (rd_str1 d ''chain'') = ti_chain i" "sval (rd_str1 d ''wallet_id'') = ti_wallet_id i"
    "sval (rd_str1 d ''amount'') = ti_amount i"
    by (rule str1_again, rule d, simp add: transfer_intent_json_def)+
  moreover have "sval (rd_addr L d ''token_address'') = ti_token_address i"
    unfolding i(2) by (rule addr_again [OF assms(1) addr_read [OF e(1)]], rule d) (simp add: transfer_intent_json_def i(2))
  moreover have "sval (rd_addr L d ''recipient_address'') = ti_recipient_address i"
    unfolding i(3) by (rule addr_again [OF assms(1) addr_read [OF e(2)]], rule d) (simp add: transfer_intent_json_def i(3))
  moreover have "fld_val False (rd_bool L d ''amount_in_smallest_units'' False) = ti_amount_in_smallest_units i"
    by (rule bool_again [OF assms(2)], rule d) (simp add: transfer_intent_json_def)
  moreover have "oval (rd_opt_str1 d ''idempotency_key'') = ti_idempotency_key i"
    using opt_str1_again [OF opt_str1_read [OF e(3)]] d [of "''idempotency_key''"] i by (simp add: transfer_intent_json_def)
  moreover have "lower_strip (ti_chain i) = ti_chain i" using i by simp
  ultimately show ?thesis using assms(4) by (simp add: transfer_intent_of_def Let_def finish_Inr)
qed

lemma approval_again:
  assumes "web3_laws L" and "lax_laws L" and "approval_intent_of L m = Inr i" and "approval_intent_of L d = Inr j"
    and "has_all (approval_intent_json i) d"
  shows "j = i"
proof -
  from assms(3) have i: "ai_chain i = lower_strip (sval (rd_str1 m ''chain''))"
      "ai_token_address i = sval (rd_addr L m ''token_address'')"
      "ai_spender_address i = sval (rd_addr L m ''spender_address'')"
      "ai_idempotency_key i = oval (rd_opt_str1 m ''idempotency_key'')"
    and e: "fld_errs (rd_addr L m ''token_address'') = []" "fld_errs (rd_addr L m ''spender_address'') = []"
      "fld_errs (rd_opt_str1 m ''idempotency_key'') = []"
    by (simp_all add: approval_intent_of_def Let_def finish_Inr)
  note d = has_allD [OF assms(5)]
  have "sval (rd_str1 d ''chain'') = ai_chain i" "sval (rd_str1 d ''wallet_id'') = ai_wallet_id i"
    "sval (rd_str1 d ''amount'') = ai_amount i"
    by (rule str1_again, rule d, simp add: approval_intent_json_def)+
  moreover have "sval (rd_addr L d ''token_address'') = ai_token_address i"
    unfolding i(2) by (rule addr_again [OF assms(1) addr_read [OF e(1)]], rule d) (simp add: approval_intent_json_def i(2))
  moreover have "sval (rd_addr L d ''spender_address'') = ai_spender_address i"
    unfolding i(3) by (rule addr_again [OF assms(1) addr_read [OF e(2)]], rule d) (simp add: approval_intent_json_def i(3))
  moreover have "fld_val False (rd_bool L d ''amount_in_smallest_units'' False) = ai_amount_in_smallest_units i"
    "fld_val False (rd_bool L d ''spender_known'' False) = ai_spender_known i"
    "fld_val False (rd_bool L d ''allow_unlimited'' False) = ai_allow_unlimited i"
    by (rule bool_again [OF assms(2)], rule d, simp add: approval_intent_json_def)+
  moreover have "oval (rd_opt_str1 d ''idempotency_key'') = ai_idempotency_key i"
    using opt_str1_again [OF opt_str1_read [OF e(3)]] d [of "''idempotency_key''"] i by (simp add: approval_intent_json_def)
  moreover have "lower_strip (ai_chain i) = ai_chain i" using i by simp
  ultimately show ?thesis using assms(4) by (simp add: approval_intent_of_def Let_def finish_Inr)
qed

lemma from_token_again:
  assumes "fld_errs (rbind (rd_str1 d fld) (from_token_field L fld)) = []" and "dget d fld = Some (PStr a)"
  shows "sval (rbind (rd_str1 d fld) (from_token_field L fld)) = from_token_norm L a"
  using assms
  by (auto simp: rd_str1_def rd_str_def nonempty_def from_token_field_def from_token_norm_def split: if_splits sum.splits)

lemma int_range_again:
  assumes "lax_laws L" and "fld_errs (rd_int_range L d fld errs) = []" and "dget d fld = Some (opt_val PInt v)"
  shows "oval (rd_int_range L d fld errs) = v"
proof -
  have "rd_opt_int L d fld = Inr v" using assms(1,3) by (cases v) (simp_all add: rd_opt_int_def dget_none_def lax_laws_def)
  with assms(2) show ?thesis by (auto simp: rd_int_range_def split: if_splits)
qed

lemma provider_again: "dget d fld = Some (opt_val (\<lambda>p. PStr (provider_value p)) v) \<Longrightarrow> oval (rd_provider d fld) = v"
proof (cases v)
  case (Some p)
  moreover assume "dget d fld = Some (opt_val (\<lambda>p. PStr (provider_value p)) v)"
  moreover have "provider_of_value (provider_value p) = Some p" by (cases p) (simp_all add: provider_of_value_def)
  ultimately show ?thesis by (simp add: rd_provider_def dget_none_def)
qed (simp add: rd_provider_def dget_none_def)

lemma opt_addr_again:
  assumes "web3_laws L" and "fld_errs (rd_min_opt_str m fld (norm_addr_field L fld)) = []"
    and "v = oval (rd_min_opt_str m fld (norm_addr_field L fld))" and "dget d fld = Some (opt_val PStr v)"
  shows "oval (rd_min_opt_str d fld (norm_addr_field L fld)) = v"
proof (cases v)
  case (Some a)
  then obtain s where "normalize_evm_address L s = Inr a"
    using assms(2,3) by (auto simp: rd_min_opt_str_def norm_addr_field_def fld_errs_def fld_val_def rbind_def
        split: sum.splits option.splits)
  with assms(1) have a: "normal_address L a" by (rule normalize_result_normal)
  with assms(4) Some show ?thesis
    by (simp add: rd_min_opt_str_def rd_opt_str1_def rd_opt_str_def dget_none_def norm_addr_field_def normalize_normal
        normal_address_nonempty)
qed (use assms(4) in \<open>simp add: rd_min_opt_str_def rd_opt_str1_def rd_opt_str_def dget_none_def\<close>)

lemma to_chain_again:
  assumes "v = oval (rd_min_opt_str m fld (\<lambda>s. Inr (lower_strip s)))"
    and "fld_errs (rd_min_opt_str d fld (\<lambda>s. Inr (lower_strip s))) = []" and "dget d fld = Some (opt_val PStr v)"
  shows "oval (rd_min_opt_str d fld (\<lambda>s. Inr (lower_strip s))) = v"
proof (cases v)
  case (Some a)
  then have "lower_strip a = a"
    using assms(1) by (auto simp: rd_min_opt_str_def fld_val_def rbind_def split: sum.splits option.splits)
  with assms(2,3) Some show ?thesis
    by (auto simp: rd_min_opt_str_def rd_opt_str1_def rd_opt_str_def dget_none_def split: if_splits)
qed (use assms(3) in \<open>simp add: rd_min_opt_str_def rd_opt_str1_def rd_opt_str_def dget_none_def\<close>)

lemma swap_intent_reads:
  assumes "swap_intent_of L C d = Inr j"
  shows "si_wallet_id j = sval (rd_str1 d ''wallet_id'')" "si_chain j = lower_strip (sval (rd_str1 d ''chain''))"
    "si_from_token j = sval (rbind (rd_str1 d ''from_token'') (from_token_field L ''from_token''))"
    "si_to_token j = sval (rd_addr L d ''to_token'')" "si_amount_in j = sval (rd_str1 d ''amount_in'')"
    "si_min_amount_out j = oval (rd_opt_str1 d ''min_amount_out'')"
    "si_max_slippage_bps j = oval (rd_int_range L d ''max_slippage_bps'' (bps_errs ''max_slippage_bps''))"
    "si_provider_preference j = oval (rd_provider d ''provider_preference'')"
    "si_recipient_address j = oval (rd_min_opt_str d ''recipient_address'' (norm_addr_field L ''recipient_address''))"
    "si_idempotency_key j = sval (rd_str1 d ''idempotency_key'')"
    "si_to_chain j = oval (rd_min_opt_str d ''to_chain'' (\<lambda>s. Inr (lower_strip s)))"
    "si_to_chain_id j = oval (rd_int_range L d ''to_chain_id'' (\<lambda>v. opt_check (\<lambda>n. 0 < n) v ''to_chain_id'' (GreaterThan 0)))"
    "fld_errs (rbind (rd_str1 d ''from_token'') (from_token_field L ''from_token'')) = []"
    "fld_errs (rd_addr L d ''to_token'') = []" "fld_errs (rd_opt_str1 d ''min_amount_out'') = []"
    "fld_errs (rd_int_range L d ''max_slippage_bps'' (bps_errs ''max_slippage_bps'')) = []"
    "fld_errs (rd_min_opt_str d ''recipient_address'' (norm_addr_field L ''recipient_address'')) = []"
    "fld_errs (rd_min_opt_str d ''to_chain'' (\<lambda>s. Inr (lower_strip s))) = []"
    "fld_errs (rd_int_range L d ''to_chain_id'' (\<lambda>v. opt_check (\<lambda>n. 0 < n) v ''to_chain_id'' (GreaterThan 0))) = []"
  using assms unfolding swap_intent_of_def Let_def rbind_eq_Inr finish_Inr model_check_Inr
  by (elim exE conjE, simp only: append_is_Nil_conv swap_intent.simps)+

lemma swap_again:
  assumes "web3_laws L" and "lax_laws L" and "swap_intent_of L C m = Inr i" and "swap_intent_of L C d = Inr j"
    and "has_all (swap_intent_json i) d"
  shows "j = i\<lparr>si_from_token := from_token_norm L (si_from_token i)\<rparr>"
proof -
  note d = has_allD [OF assms(5)] and mi = swap_intent_reads [OF assms(3)] and dj = swap_intent_reads [OF assms(4)]
  have "si_wallet_id j = si_wallet_id i" "si_amount_in j = si_amount_in i" "si_idempotency_key j = si_idempotency_key i"
    unfolding dj by (rule str1_again, rule d, simp add: swap_intent_json_def)+
  moreover have "si_chain j = si_chain i"
    using str1_again [OF d [of "''chain''" "PStr (si_chain i)"]] mi(2) unfolding dj(2) by (simp add: swap_intent_json_def)
  moreover have "si_from_token j = from_token_norm L (si_from_token i)"
    unfolding dj(3) by (rule from_token_again [OF dj(13)], rule d) (simp add: swap_intent_json_def)
  moreover have "si_to_token j = si_to_token i" unfolding dj(4)
    by (rule addr_again [OF assms(1)], unfold mi(4), rule addr_read [OF mi(14)], rule d)
      (simp add: swap_intent_json_def mi(4))
  moreover have "si_min_amount_out j = si_min_amount_out i" unfolding dj(6)
    by (rule opt_str1_again, unfold mi(6), rule opt_str1_read [OF mi(15)], rule d) (simp add: swap_intent_json_def mi(6))
  moreover have "si_max_slippage_bps j = si_max_slippage_bps i" "si_to_chain_id j = si_to_chain_id i"
    using int_range_again [OF assms(2) dj(16)] int_range_again [OF assms(2) dj(19)] d dj(7,12)
    by (simp_all add: swap_intent_json_def)
  moreover have "si_provider_preference j = si_provider_preference i"
    unfolding dj(8) by (rule provider_again, rule d) (simp add: swap_intent_json_def)
  moreover have "si_recipient_address j = si_recipient_address i"
    unfolding dj(9) by (rule opt_addr_again [OF assms(1) mi(17) mi(9)], rule d) (simp add: swap_intent_json_def)
  moreover have "si_to_chain j = si_to_chain i"
    unfolding dj(11) by (rule to_chain_again [OF mi(11) dj(18)], rule d) (simp add: swap_intent_json_def)
  ultimately show ?thesis by simp
qed


section \<open>The runtime as a preparation graph\<close>

fun graph_built :: "graph_runtime \<Rightarrow> graph_label \<Rightarrow> tx_deps \<Rightarrow> mercury_state \<Rightarrow> prepared_transaction \<Rightarrow> bool" where
  "graph_built R Erc20Graph d s t = erc20_built (rt_erc20 R) d s t"
| "graph_built R NativeGraph d s t = native_built (rt_native R) d s t"
| "graph_built R SwapGraph d s t = swap_built (rt_swap R) d s t"
| "graph_built R ReadGraph d s t = False"

interpretation runtime_graph: prepared_graph "\<lambda>d. run_graph (R\<lparr>rt_tx := d\<rparr>) g" "graph_built R g" for R g
proof
  fix d s w o' w'
  assume laws: "web3_laws (d_libs d)" and s: "fresh s" and run: "run_graph (R\<lparr>rt_tx := d\<rparr>) g s w = (o', w')"
  show "w' = w \<or> (\<exists>s' t. run_pipeline d s' w = (o', w') \<and> graph_built R g d s t \<and> complete (d_libs d) t \<and>
      cleared s' \<and> s_prepared_transaction s' = Some (Model t))"
  proof (cases g)
    case Erc20Graph
    with run have "run_erc20_graph (rt_erc20 R) d s w = (o', w')" by (simp add: run_graph_def)
    from erc20_graph.run_cases [OF laws s this] Erc20Graph show ?thesis by simp
  next
    case NativeGraph
    with run have "run_native_graph (rt_native R) d s w = (o', w')" by (simp add: run_graph_def)
    from native_graph.run_cases [OF laws s this] NativeGraph show ?thesis by simp
  next
    case SwapGraph
    with run have "run_swap_graph (rt_swap R) d s w = (o', w')" by (simp add: run_graph_def)
    from swap_graph.run_cases [OF laws s this] SwapGraph show ?thesis by simp
  next
    case ReadGraph
    with run show ?thesis by (simp add: run_graph_def)
  qed
qed

section \<open>What validation leaves in the state\<close>

lemma canonical_keys:
  assumes "value_canonical L C vk m = Inr c"
  shows "wf_dict c" "dget c ''kind'' = None" "dget c ''intent'' = None" "dget c ''metadata'' = None" "dget c ''type'' = None"
  using assms
  by (cases vk; clarsimp simp: rbind_eq_Inr wf_dict_def transfer_intent_json_def approval_intent_json_def
      native_intent_json_def swap_intent_json_def)+

lemma merge_flat:
  assumes "\<forall>d. dget_none raw ''intent'' \<noteq> PDict d"
  shows "merge_canonical_into_raw_input raw c = dmerge raw c" "unwrap_intent_payload raw = raw"
    "merged_invoke_validation_payload raw = raw"
  using assms by (simp_all add: merge_canonical_into_raw_input_def unwrap_intent_payload_def
      merged_invoke_validation_payload_def split: pyval.splits)

lemma merge_has_all: "wf_dict c \<Longrightarrow> has_all c (dmerge raw c)"
  by (simp add: has_all_def dget_dmerge)

lemma validate_Valid:
  assumes "validate_invoke_intent L C doc res s cache = (Inr (Valid s'), cache')"
  obtains raw kind merged canonical where "extract_raw_blob s = PDict raw"
    "raw_kind (unwrap_intent_payload raw) = PStr kind"
    "apply_ens_resolution_to_merged L C res (lower_strip kind) (merged_invoke_validation_payload raw) cache = (Inr (None, merged), cache')"
    "s' = success_state s (merge_canonical_into_raw_input raw canonical)"
    "(\<exists>vk. dget VALUE_MOVING_MODEL (lower_strip kind) = Some vk \<and> value_canonical L C vk merged = Inr canonical) \<or>
     (dget VALUE_MOVING_MODEL (lower_strip kind) = None \<and> (\<exists>i k. parse_readonly_intent L C (PDict merged) [] = Inr i \<and>
        intent_kind_of i = Some k \<and> canonical = intent_json i))"
proof -
  from assms obtain raw where raw: "extract_raw_blob s = PDict raw"
    by (auto simp: validate_invoke_intent_def split: pyval.splits)
  with assms obtain kind where kind: "raw_kind (unwrap_intent_payload raw) = PStr kind"
    by (auto simp: validate_invoke_intent_def split: pyval.splits)
  let ?ens = "apply_ens_resolution_to_merged L C res (lower_strip kind) (merged_invoke_validation_payload raw) cache"
  obtain r c where ens: "?ens = (r, c)" by fastforce
  from assms raw kind ens obtain merged where r: "r = Inr (None, merged)"
    by (auto simp: validate_invoke_intent_def Let_def split: sum.splits option.splits)
  with assms raw kind ens have v: "validate_merged L C doc s raw kind merged = Inr (Valid s')" and c: "c = cache'"
    by (auto simp: validate_invoke_intent_def Let_def)
  show thesis
  proof (cases "dget VALUE_MOVING_MODEL (lower_strip kind)")
    case None
    with v obtain i where i: "parse_readonly_intent L C (PDict merged) [] = Inr i"
      and ok: "\<forall>reason. i \<noteq> UnsupportedIntent reason" and s': "s' = success_state s (merge_canonical_into_raw_input raw (intent_json i))"
      by (auto simp: validate_merged_def split: option.splits sum.splits parsed_intent.splits)
    from ok obtain k where "intent_kind_of i = Some k" by (cases i) simp_all
    with that [OF raw kind ens [unfolded r c] s'] None i show thesis by blast
  next
    case (Some vk)
    with v obtain canonical where "value_canonical L C vk merged = Inr canonical"
      "s' = success_state s (merge_canonical_into_raw_input raw canonical)"
      by (auto simp: validate_merged_def split: sum.splits exn.splits)
    with that [OF raw kind ens [unfolded r c]] Some show thesis by blast
  qed
qed


section \<open>What the graphs build from a canonical payload\<close>

text \<open>
  The transaction for a validated payload of each kind, built from the intent the payload is validated as. The swap
  graph normalises the sell token a second time.
\<close>

fun value_build :: "graph_runtime \<Rightarrow> libs \<Rightarrow> chain_table \<Rightarrow> value_kind \<Rightarrow> pydict \<Rightarrow> exn + prepared_transaction option" where
  "value_build R L C Erc20TransferKind m = rbind (transfer_intent_of L m) (\<lambda>i. rbind
     (prepare_erc20_transfer L (eg_provider_factory (rt_erc20 R)) (eg_address_resolver (rt_erc20 R)) (ti_chain i)
       (ti_wallet_id i) (ti_token_address i) (ti_recipient_address i) (ti_amount i) (ti_idempotency_key i)
       (ti_amount_in_smallest_units i)) (\<lambda>t. Inr (Some t)))"
| "value_build R L C Erc20ApprovalKind m = rbind (approval_intent_of L m) (\<lambda>i. rbind
     (prepare_erc20_approval L (eg_provider_factory (rt_erc20 R)) (eg_address_resolver (rt_erc20 R)) (ai_chain i)
       (ai_wallet_id i) (ai_token_address i) (ai_spender_address i) (ai_amount i) (ai_idempotency_key i)
       (ai_spender_known i) (ai_allow_unlimited i) (ai_amount_in_smallest_units i)) (\<lambda>t. Inr (Some t)))"
| "value_build R L C NativeTransferKind m = rbind (native_intent_of L m) (\<lambda>i. rbind
     (prepare_native_transfer L C (ng_address_resolver (rt_native R)) (ni_chain i) (ni_wallet_id i) (ni_recipient_address i)
       (ni_amount i) (ni_idempotency_key i)) (\<lambda>t. Inr (Some t)))"
| "value_build R L C SwapKind m = rbind (swap_intent_of L C m) (\<lambda>i. let g = rt_swap R in rbind
     (prepare_swap L C (sg_env g) (sg_router g) (sg_provider_factory g) (sg_address_resolver g) (sg_policy_config g)
       (i\<lparr>si_from_token := from_token_norm L (si_from_token i)\<rparr>)) (\<lambda>p. Inr (next_transaction p)))"

lemma value_kind_graph:
  assumes "dget VALUE_MOVING_MODEL k = Some vk"
  shows "(k, vk) \<in> {(''erc20_transfer'', Erc20TransferKind), (''erc20_approval'', Erc20ApprovalKind),
     (''native_transfer'', NativeTransferKind), (''swap'', SwapKind)}"
  using assms by (auto simp: VALUE_MOVING_MODEL_def split: if_splits)

lemma not_value_kind: "dget VALUE_MOVING_MODEL k = None \<Longrightarrow> graph_of_kind k = ReadGraph"
  by (auto simp: VALUE_MOVING_MODEL_def graph_of_kind_def split: if_splits)

lemma payload_kind_strip: "dget p ''kind'' = Some (PStr k) \<Longrightarrow> lower_strip k = py_strip (payload_kind L p)"
  by (simp add: payload_kind_def lower_strip_def py_strip_lower)

lemma kinds_strip: "py_strip ''erc20_transfer'' = ''erc20_transfer''" "py_strip ''erc20_approval'' = ''erc20_approval''"
  by code_simp+

lemma built_from_canonical:
  assumes laws: "web3_laws (d_libs d)" "lax_laws (d_libs d)"
    and canonical: "value_canonical (d_libs d) (d_chains d) vk m = Inr c"
    and kind: "dget raw ''kind'' = Some (PStr kind)" "dget VALUE_MOVING_MODEL (lower_strip kind) = Some vk"
    and payload: "\<And>msg. payload_from_state msg s = Inr (dmerge raw c)"
    and built: "graph_built R (graph_of_kind (lower_strip kind)) d s t"
  shows "\<exists>t0. value_build R (d_libs d) (d_chains d) vk m = Inr (Some t0) \<and> t = merge_intent_metadata_into_prepared t0 raw"
proof -
  note c = canonical_keys [OF canonical]
  have all: "has_all c (dmerge raw c)" using c(1) by (rule merge_has_all)
  have meta: "merge_intent_metadata_into_prepared t0 (dmerge raw c) = merge_intent_metadata_into_prepared t0 raw" for t0
    using c(1,4) by (simp add: merge_intent_metadata_into_prepared_def dget_none_def dget_dmerge)
  have "dget (dmerge raw c) ''kind'' = Some (PStr kind)" using c(1,2) kind(1) by (simp add: dget_dmerge)
  note strip = payload_kind_strip [OF this, of "d_libs d"]
  from value_kind_graph [OF kind(2)] consider
      (transfer) "lower_strip kind = ''erc20_transfer''" "vk = Erc20TransferKind"
    | (approval) "lower_strip kind = ''erc20_approval''" "vk = Erc20ApprovalKind"
    | (native) "lower_strip kind = ''native_transfer''" "vk = NativeTransferKind"
    | (swap) "lower_strip kind = ''swap''" "vk = SwapKind"
    by auto
  then show ?thesis
  proof cases
    case transfer
    with built payload meta obtain t0 where b: "build_erc20 (d_libs d) (rt_erc20 R) (dmerge raw c) = Inr t0"
      and t: "t = merge_intent_metadata_into_prepared t0 raw"
      by (auto simp: graph_of_kind_def erc20_built_def erc20_payload_from_state_def)
    from canonical transfer(2) obtain i where i: "transfer_intent_of (d_libs d) m = Inr i" "c = transfer_intent_json i"
      by (auto simp: rbind_eq_Inr)
    have "payload_kind (d_libs d) (dmerge raw c) \<noteq> ''erc20_approval''" using strip transfer(1) kinds_strip by auto
    with b obtain j where j: "transfer_intent_of (d_libs d) (dmerge raw c) = Inr j"
      and p: "prepare_erc20_transfer (d_libs d) (eg_provider_factory (rt_erc20 R)) (eg_address_resolver (rt_erc20 R))
         (ti_chain j) (ti_wallet_id j) (ti_token_address j) (ti_recipient_address j) (ti_amount j) (ti_idempotency_key j)
         (ti_amount_in_smallest_units j) = Inr t0"
      by (auto simp: build_erc20_def Let_def rbind_eq_Inr split: if_splits)
    have "j = i" using transfer_again [OF laws i(1) j] all i(2) by simp
    with p i(1) transfer(2) t show ?thesis by simp
  next
    case approval
    with built payload meta obtain t0 where b: "build_erc20 (d_libs d) (rt_erc20 R) (dmerge raw c) = Inr t0"
      and t: "t = merge_intent_metadata_into_prepared t0 raw"
      by (auto simp: graph_of_kind_def erc20_built_def erc20_payload_from_state_def)
    from canonical approval(2) obtain i where i: "approval_intent_of (d_libs d) m = Inr i" "c = approval_intent_json i"
      by (auto simp: rbind_eq_Inr)
    have "payload_kind (d_libs d) (dmerge raw c) \<noteq> ''erc20_transfer''" using strip approval(1) kinds_strip by auto
    with b obtain j where j: "approval_intent_of (d_libs d) (dmerge raw c) = Inr j"
      and p: "prepare_erc20_approval (d_libs d) (eg_provider_factory (rt_erc20 R)) (eg_address_resolver (rt_erc20 R))
         (ai_chain j) (ai_wallet_id j) (ai_token_address j) (ai_spender_address j) (ai_amount j) (ai_idempotency_key j)
         (ai_spender_known j) (ai_allow_unlimited j) (ai_amount_in_smallest_units j) = Inr t0"
      by (auto simp: build_erc20_def Let_def rbind_eq_Inr split: if_splits)
    have "j = i" using approval_again [OF laws i(1) j] all i(2) by simp
    with p i(1) approval(2) t show ?thesis by simp
  next
    case native
    with built payload meta obtain t0 where b: "build_native (d_libs d) (d_chains d) (rt_native R) (dmerge raw c) = Inr t0"
      and t: "t = merge_intent_metadata_into_prepared t0 raw"
      by (auto simp: graph_of_kind_def native_built_def native_payload_from_state_def)
    from canonical native(2) obtain i where i: "native_intent_of (d_libs d) m = Inr i" "c = native_intent_json i"
      by (auto simp: rbind_eq_Inr)
    from b obtain j where j: "native_intent_of (d_libs d) (dmerge raw c) = Inr j"
      and p: "prepare_native_transfer (d_libs d) (d_chains d) (ng_address_resolver (rt_native R)) (ni_chain j)
         (ni_wallet_id j) (ni_recipient_address j) (ni_amount j) (ni_idempotency_key j) = Inr t0"
      by (auto simp: build_native_def rbind_eq_Inr)
    have "j = i" using native_again [OF laws(1) i(1) j] all i(2) by simp
    with p i(1) native(2) t show ?thesis by simp
  next
    case swap
    with built payload meta obtain ps t0 where b: "build_swap (d_libs d) (d_chains d) (rt_swap R) (dmerge raw c) = Inr ps"
      "next_transaction ps = Some t0" and t: "t = merge_intent_metadata_into_prepared t0 raw"
      by (auto simp: graph_of_kind_def swap_built_def swap_payload_from_state_def)
    from canonical swap(2) obtain i where i: "swap_intent_of (d_libs d) (d_chains d) m = Inr i" "c = swap_intent_json i"
      by (auto simp: rbind_eq_Inr)
    from b(1) obtain j where j: "swap_intent_of (d_libs d) (d_chains d) (dmerge raw c) = Inr j"
      and p: "prepare_swap (d_libs d) (d_chains d) (sg_env (rt_swap R)) (sg_router (rt_swap R)) (sg_provider_factory (rt_swap R))
         (sg_address_resolver (rt_swap R)) (sg_policy_config (rt_swap R)) j = Inr ps"
      by (auto simp: build_swap_def rbind_eq_Inr)
    have "j = i\<lparr>si_from_token := from_token_norm (d_libs d) (si_from_token i)\<rparr>"
      using swap_again [OF laws i(1) j] all i(2) by simp
    with p b(2) i(1) swap(2) t show ?thesis by simp
  qed
qed


section \<open>From the request to the graph\<close>

definition flat :: "pydict \<Rightarrow> bool" where
  "flat raw \<longleftrightarrow> (case dget_none raw ''intent'' of PDict _ \<Rightarrow> False | _ \<Rightarrow> True)"

lemma flat_iff: "flat raw \<longleftrightarrow> (\<forall>d. dget_none raw ''intent'' \<noteq> PDict d)"
  by (auto simp: flat_def split: pyval.splits)

lemma read_kind_graph: "graph_of_kind (lower_strip (kind_value k)) = ReadGraph"
proof -
  have "list_all (\<lambda>k. graph_of_kind (lower_strip (kind_value k)) = ReadGraph) READ_KINDS"
    unfolding READ_KINDS_def by code_simp
  then show ?thesis by (cases k) (simp_all add: READ_KINDS_def)
qed

lemma intent_json_keys:
  assumes "intent_kind_of i = Some k"
  shows "wf_dict (intent_json i)" "dget (intent_json i) ''intent'' = None"
  using assms by (cases i; clarsimp simp: wf_dict_def intent_head_def)+

lemma graph_of_no_kind [simp]: "graph_of_kind (lower_strip []) = ReadGraph"
  by (simp add: graph_of_kind_def lower_strip_def py_strip_def py_lower_def)

text \<open>Only a payload that is not nested and names its kind itself reaches a graph that builds a transaction.\<close>

lemma selected_value:
  assumes kind: "raw_kind (unwrap_intent_payload raw) = PStr kind"
    and c: "(\<exists>vk. dget VALUE_MOVING_MODEL (lower_strip kind) = Some vk \<and> value_canonical L C vk merged = Inr c) \<or>
       (\<exists>i k. intent_kind_of i = Some k \<and> c = intent_json i)"
    and sel: "graph_selection_for_state L' (success_state s (merge_canonical_into_raw_input raw c)) = g" "g \<noteq> ReadGraph"
  shows "flat raw" "dget raw ''kind'' = Some (PStr kind)" "g = graph_of_kind (lower_strip kind)"
    "\<exists>vk. dget VALUE_MOVING_MODEL (lower_strip kind) = Some vk \<and> value_canonical L C vk merged = Inr c"
proof -
  let ?raw' = "merge_canonical_into_raw_input raw c"
  have sel': "graph_of_kind (lower_strip (str_default L' (unwrap_intent_payload ?raw') ''kind'')) = g"
    using sel(1) by (simp add: graph_selection_for_state_def success_state_def)
  have no_read: False if "intent_kind_of i = Some k" "dget (unwrap_intent_payload ?raw') ''kind'' = dget (intent_json i) ''kind''" for i k
    using sel' sel(2) intent_json_kind [OF that(1)] that(2) read_kind_graph by (simp add: str_default_def)
  show flat: "flat raw"
  proof (rule ccontr)
    assume "\<not> flat raw"
    then have u: "unwrap_intent_payload ?raw' = c"
      by (auto simp: flat_def merge_canonical_into_raw_input_def unwrap_intent_payload_def dget_none_def split: pyval.splits option.splits)
    from c show False
    proof (elim disjE exE conjE)
      fix vk assume "value_canonical L C vk merged = Inr c"
      from canonical_keys(2) [OF this] u sel' sel(2) show False by (simp add: str_default_def)
    next
      fix i k assume "intent_kind_of i = Some k" "c = intent_json i"
      with no_read [of i k] u show False by simp
    qed
  qed
  then have f: "\<forall>d. dget_none raw ''intent'' \<noteq> PDict d" by (simp add: flat_iff)
  have unwrap: "unwrap_intent_payload (dmerge raw c) = dmerge raw c" if "wf_dict c" "dget c ''intent'' = None"
    using f that by (intro merge_flat(2)) (simp add: dget_none_def dget_dmerge)
  show v: "\<exists>vk. dget VALUE_MOVING_MODEL (lower_strip kind) = Some vk \<and> value_canonical L C vk merged = Inr c"
    using c
  proof (elim disjE exE conjE)
    fix i k assume i: "intent_kind_of i = Some k" "c = intent_json i"
    note keys = intent_json_keys [OF i(1)]
    have "dget (unwrap_intent_payload ?raw') ''kind'' = dget (intent_json i) ''kind''"
      using unwrap keys i intent_json_kind [OF i(1)] by (simp add: merge_flat(1) [OF f] dget_dmerge)
    with no_read [OF i(1)] show ?thesis by blast
  qed blast
  then obtain vk where "value_canonical L C vk merged = Inr c" by blast
  note keys = canonical_keys [OF this]
  have k: "dget (unwrap_intent_payload ?raw') ''kind'' = dget raw ''kind''"
    using unwrap keys by (simp add: merge_flat(1) [OF f] dget_dmerge)
  with sel' sel(2) obtain u where u: "dget raw ''kind'' = Some u" by (cases "dget raw ''kind''") (simp_all add: str_default_def)
  with kind show kind': "dget raw ''kind'' = Some (PStr kind)" by (simp add: raw_kind_def merge_flat(2) [OF f])
  with k sel' show "g = graph_of_kind (lower_strip kind)" by (simp add: str_default_def)
qed

lemma request_state:
  "s_parsed_intent (state_from_request q i key) = None" "fresh (state_from_request q i key)"
  "extract_raw_blob (state_from_request q i key) = intent_with_boundary_fields q key"
  by (simp_all add: state_from_request_def empty_state_def fresh_def cleared_def extract_raw_blob_def)

lemma success_fresh [simp]: "fresh (success_state s raw) = fresh s"
  by (simp add: success_state_def fresh_def cleared_def)

lemma success_payload:
  assumes "s_parsed_intent s = None" and "flat raw" and "wf_dict c" and "dget c ''intent'' = None"
  shows "payload_from_state msg (success_state s (dmerge raw c)) = Inr (dmerge raw c)"
  using assms by (auto simp: payload_from_state_def intent_source_def success_state_def flat_iff dget_none_def dget_dmerge
      split: pyval.splits option.splits)

text \<open>What a request that touches the world went through.\<close>

definition accepted :: "graph_runtime \<Rightarrow> ens_cache \<Rightarrow> pydict \<Rightarrow> value_kind \<Rightarrow> pydict \<Rightarrow> bool" where
  "accepted R cache raw vk merged \<longleftrightarrow> (let L = d_libs (rt_tx R); C = d_chains (rt_tx R) in
     flat raw \<and> (\<exists>kind cache'. dget raw ''kind'' = Some (PStr kind) \<and> dget VALUE_MOVING_MODEL (lower_strip kind) = Some vk \<and>
       apply_ens_resolution_to_merged L C (rt_ens_resolver R) (lower_strip kind) raw cache = (Inr (None, merged), cache')) \<and>
     (\<exists>c. value_canonical L C vk merged = Inr c))"

lemma invoke_graph:
  assumes "lax_laws (d_libs (rt_tx R))" and "web3_laws (d_libs (rt_tx R))"
    and "mercury_invoke M R q hid hkey gen w cache = (out, w', cache')" and "w' \<noteq> w"
  obtains raw vk merged s g o' where "intent_with_boundary_fields q (effective_idempotency_key q hkey) = PDict raw"
    "accepted R cache raw vk merged" "fresh s" "run_graph (R\<lparr>rt_tx := rt_tx R\<rparr>) g s w = (o', w')"
    "\<And>t. graph_built R g (rt_tx R) s t \<Longrightarrow> \<exists>t0. value_build R (d_libs (rt_tx R)) (d_chains (rt_tx R)) vk merged = Inr (Some t0) \<and>
       t = merge_intent_metadata_into_prepared t0 raw"
proof -
  let ?L = "d_libs (rt_tx R)" and ?C = "d_chains (rt_tx R)"
  let ?s = "state_from_request q (effective_request_id q hid gen) (effective_idempotency_key q hkey)"
  obtain v c1 where v: "runtime_validate R ?s cache = (v, c1)" by fastforce
  with assms(3) have run: "\<exists>o'. run_validated R ?s v w = (o', w')"
    by (auto simp: mercury_invoke_def runtime_invoke_def Let_def split: prod.splits sum.splits)
  with assms(4) obtain s where s: "v = Inr (Valid s)"
    by (auto simp: run_validated_def split: sum.splits validated.splits)
  with run obtain o' where o': "run_graph R (graph_selection_for_state ?L s) s w = (o', w')"
    by (auto simp: run_validated_def)
  note valid = v [unfolded runtime_validate_def s]
  obtain raw kind merged c where raw: "extract_raw_blob ?s = PDict raw"
    and kind: "raw_kind (unwrap_intent_payload raw) = PStr kind"
    and ens: "apply_ens_resolution_to_merged ?L ?C (rt_ens_resolver R) (lower_strip kind) (merged_invoke_validation_payload raw) cache
       = (Inr (None, merged), c1)"
    and s': "s = success_state ?s (merge_canonical_into_raw_input raw c)"
    and c: "(\<exists>vk. dget VALUE_MOVING_MODEL (lower_strip kind) = Some vk \<and> value_canonical ?L ?C vk merged = Inr c) \<or>
     (dget VALUE_MOVING_MODEL (lower_strip kind) = None \<and> (\<exists>i k. parse_readonly_intent ?L ?C (PDict merged) [] = Inr i \<and>
        intent_kind_of i = Some k \<and> c = intent_json i))"
    by (rule validate_Valid [OF valid]) (rule that)
  let ?g = "graph_selection_for_state ?L s"
  have g: "?g \<noteq> ReadGraph" using o' assms(4) by (auto simp: run_graph_def)
  have c': "(\<exists>vk. dget VALUE_MOVING_MODEL (lower_strip kind) = Some vk \<and> value_canonical ?L ?C vk merged = Inr c) \<or>
       (\<exists>i k. intent_kind_of i = Some k \<and> c = intent_json i)" using c by blast
  note sel = selected_value [OF kind c' refl, of ?L ?s, folded s', OF g]
  from sel(4) obtain vk where vk: "dget VALUE_MOVING_MODEL (lower_strip kind) = Some vk" "value_canonical ?L ?C vk merged = Inr c"
    by blast
  note f = sel(1) [unfolded flat_iff] and keys = canonical_keys [OF vk(2)]
  have payload: "payload_from_state msg s = Inr (dmerge raw c)" for msg
    unfolding s' merge_flat(1) [OF f] by (rule success_payload [OF request_state(1) sel(1) keys(1,3)])
  have "accepted R cache raw vk merged"
    unfolding accepted_def Let_def using sel(1,2) vk ens [unfolded merge_flat(3) [OF f]] by blast
  moreover have "fresh s" using s' request_state(2) by simp
  moreover have "run_graph (R\<lparr>rt_tx := rt_tx R\<rparr>) ?g s w = (o', w')" using o' by simp
  moreover have "\<exists>t0. value_build R ?L ?C vk merged = Inr (Some t0) \<and> t = merge_intent_metadata_into_prepared t0 raw"
    if "graph_built R ?g (rt_tx R) s t" for t
    using built_from_canonical [OF assms(2,1) vk(2) sel(2) vk(1) payload, of R t] that sel(3) by simp
  ultimately show thesis using that [of raw vk merged s ?g o'] raw request_state(3) by simp
qed

end
