(* ===== verification/Pipeline_Safety.thy ===== *)
theory Pipeline_Safety
  imports Pipeline_Run
begin

text \<open>
  Many requests over one store. Any number of requests run through the pipeline at once; a
  step of the system lets one of them run its next node. A node touches the store through
  single locked operations, so the interleavings of nodes are the interleavings of the
  store's operations. The main result: for each idempotency key at most one request ever
  submits a transaction, and it submits once.
\<close>

section \<open>The system\<close>

record system =
  sy_at :: "nat \<Rightarrow> tx_node option \<times> mercury_state"
  sy_store :: idem_store
  sy_log :: "(nat \<times> tx_event) list"

text \<open>A request whose node raises stops there with the state it had.\<close>

definition after_node :: "tx_node \<Rightarrow> mercury_state \<Rightarrow> exn + mercury_state \<Rightarrow> tx_node option \<times> mercury_state" where
  "after_node n s out = (case out of Inr s' \<Rightarrow> (next_node n s', s') | Inl e \<Rightarrow> (None, s))"

inductive sys_step :: "(nat \<Rightarrow> tx_deps) \<Rightarrow> system \<Rightarrow> system \<Rightarrow> bool" for D where
  run_request:
    "sy_at y i = (Some n, s) \<Longrightarrow>
     run_node (D i) n s \<lparr>w_store = sy_store y, w_log = []\<rparr> = (out, w) \<Longrightarrow>
     sys_step D y \<lparr>sy_at = (sy_at y)(i := after_node n s out), sy_store = w_store w,
       sy_log = sy_log y @ map (Pair i) (w_log w)\<rparr>"

definition sys_init :: "system \<Rightarrow> bool" where
  "sys_init y \<longleftrightarrow> (\<forall>i. \<exists>s. sy_at y i = (Some ResolveNonce, s) \<and> cleared s) \<and>
     sy_store y = Map.empty \<and> sy_log y = []"

inductive sys_reach :: "(nat \<Rightarrow> tx_deps) \<Rightarrow> system \<Rightarrow> bool" for D where
  init: "sys_init y \<Longrightarrow> sys_reach D y"
| step: "sys_reach D y \<Longrightarrow> sys_step D y y' \<Longrightarrow> sys_reach D y'"

definition request_key :: "system \<Rightarrow> nat \<Rightarrow> string option" where
  "request_key y i = idempotency_key_from_state (snd (sy_at y i))"

definition sent :: "system \<Rightarrow> nat \<Rightarrow> bool" where
  "sent y i \<longleftrightarrow> (\<exists>x h. (i, Broadcast x (Inr h)) \<in> set (sy_log y))"

definition is_broadcast :: "tx_event \<Rightarrow> bool" where
  "is_broadcast ev \<longleftrightarrow> (case ev of Broadcast _ _ \<Rightarrow> True | _ \<Rightarrow> False)"

definition broadcasts :: "system \<Rightarrow> nat \<Rightarrow> nat" where
  "broadcasts y i = length (filter (\<lambda>(j, ev). j = i \<and> is_broadcast ev) (sy_log y))"

section \<open>What a request may assume at each node\<close>

fun node_ok :: "tx_node \<Rightarrow> mercury_state \<Rightarrow> bool" where
  "node_ok ResolveNonce s = cleared s"
| "node_ok PopulateGas s = cleared s"
| "node_ok SimulateTransaction s = cleared (s\<lparr>s_executable_transaction := None\<rparr>)"
| "node_ok EvaluatePolicy s = (s_approval_result s = None \<and> s_execution_result s = None)"
| "node_ok RequestApproval s = (s_approval_result s = None \<and> s_execution_result s = None)"
| "node_ok CheckIdempotency s = (s_execution_result s = None)"
| "node_ok SignTransaction s = (s_execution_result s = None \<and> (\<exists>t k. holds_key s t k))"
| "node_ok BroadcastTransaction s = (s_execution_result s = None \<longrightarrow>
     s_signed_transaction s \<noteq> None \<and> (\<exists>t k. holds_key s t k))"
| "node_ok MonitorReceipt s = (s_execution_result s = None \<longrightarrow>
     (\<exists>h. s_tx_hash s = Some h \<and> py_strip h \<noteq> []) \<and> (\<exists>t k. holds_key s t k))"
| "node_ok RejectTransaction s = True"

definition place_ok :: "tx_node option \<times> mercury_state \<Rightarrow> bool" where
  "place_ok a \<longleftrightarrow> (case fst a of None \<Rightarrow> True | Some n \<Rightarrow> node_ok n (snd a))"

text \<open>The requests that hold their key: between the reservation and the result.\<close>

definition holding :: "tx_node option \<times> mercury_state \<Rightarrow> bool" where
  "holding a \<longleftrightarrow> (case fst a of
       Some SignTransaction \<Rightarrow> True
     | Some BroadcastTransaction \<Rightarrow> s_execution_result (snd a) = None
     | Some MonitorReceipt \<Rightarrow> s_execution_result (snd a) = None
     | _ \<Rightarrow> False)"

abbreviation key_of :: "mercury_state \<Rightarrow> string option" where
  "key_of s \<equiv> idempotency_key_from_state s"

text \<open>The effect of one node: the place it leads to, its events and the store.\<close>

inductive node_effect ::
  "tx_node \<Rightarrow> mercury_state \<Rightarrow> idem_store \<Rightarrow> tx_event list \<Rightarrow> tx_node option \<times> mercury_state
     \<Rightarrow> idem_store \<Rightarrow> bool" where
  quiet: "\<not> holding (Some n, s) \<Longrightarrow> \<not> holding a \<Longrightarrow> \<forall>ev \<in> set evs. \<not> is_broadcast ev \<Longrightarrow>
     n = MonitorReceipt \<longrightarrow> fst a = None \<Longrightarrow> node_effect n s st evs a st"
| reserve: "key_of s = Some k \<Longrightarrow> st k = None \<Longrightarrow>
     node_effect CheckIdempotency s st [] (Some SignTransaction, s) (st(k \<mapsto> r))"
| signed_ok: "key_of s = Some k \<Longrightarrow> holding (Some BroadcastTransaction, s') \<Longrightarrow> \<forall>ev \<in> set evs. \<not> is_broadcast ev \<Longrightarrow>
     node_effect SignTransaction s st evs (Some BroadcastTransaction, s') st"
| release: "n \<in> {SignTransaction, BroadcastTransaction} \<Longrightarrow> holding (Some n, s) \<Longrightarrow> key_of s = Some k \<Longrightarrow>
     \<not> holding a \<Longrightarrow> \<forall>x h. Broadcast x (Inr h) \<notin> set evs \<Longrightarrow>
     length (filter is_broadcast evs) \<le> (if n = BroadcastTransaction then 1 else 0) \<Longrightarrow>
     n = BroadcastTransaction \<longrightarrow> fst a \<in> {Some MonitorReceipt, None} \<Longrightarrow>
     node_effect n s st evs a (store_release st k)"
| submit: "key_of s = Some k \<Longrightarrow> holding (Some BroadcastTransaction, s) \<Longrightarrow>
     node_effect BroadcastTransaction s st [Broadcast x (Inr h)] (Some MonitorReceipt, s') st"
| finish: "holding (Some MonitorReceipt, s) \<Longrightarrow> key_of s = Some k \<Longrightarrow> fst a = None \<Longrightarrow>
     st' = st \<or> (\<exists>r. st' = st(k \<mapsto> r)) \<Longrightarrow> node_effect MonitorReceipt s st [] a st'"

definition node_summary ::
  "tx_node \<Rightarrow> mercury_state \<Rightarrow> idem_store \<Rightarrow> tx_event list \<Rightarrow> tx_node option \<times> mercury_state
     \<Rightarrow> idem_store \<Rightarrow> bool" where
  "node_summary n s st evs a st' \<longleftrightarrow> node_effect n s st evs a st' \<and> place_ok a \<and>
     (\<forall>k. key_of s = Some k \<longrightarrow> key_of (snd a) = Some k)"

lemma not_broadcast_simps [simp]:
  "\<not> is_broadcast (Asked r a)" "\<not> is_broadcast (SignerCalled q x)" "is_broadcast (Broadcast y b)"
  by (simp_all add: is_broadcast_def)

lemma holding_simps [simp]:
  "\<not> holding (None, s)" "holding (Some SignTransaction, s)"
  "holding (Some BroadcastTransaction, s) \<longleftrightarrow> s_execution_result s = None"
  "holding (Some MonitorReceipt, s) \<longleftrightarrow> s_execution_result s = None"
  "\<not> holding (Some ResolveNonce, s)" "\<not> holding (Some PopulateGas, s)"
  "\<not> holding (Some SimulateTransaction, s)" "\<not> holding (Some EvaluatePolicy, s)"
  "\<not> holding (Some RequestApproval, s)" "\<not> holding (Some CheckIdempotency, s)"
  "\<not> holding (Some RejectTransaction, s)"
  by (simp_all add: holding_def)

lemma place_ok_simps [simp]: "place_ok (None, s)" "place_ok (Some n, s) \<longleftrightarrow> node_ok n s"
  by (simp_all add: place_ok_def)

lemma after_node_simps [simp]:
  "after_node n s (Inl e) = (None, s)" "after_node n s (Inr s') = (next_node n s', s')"
  by (simp_all add: after_node_def)

lemma key_of_upd [simp]:
  "key_of (s\<lparr>s_signed_transaction := x\<rparr>) = key_of s" "key_of (s\<lparr>s_tx_hash := h\<rparr>) = key_of s"
  "key_of (s\<lparr>s_execution_result := r\<rparr>) = key_of s"
  by (simp_all add: idempotency_key_from_state_def)

lemma cleared_key: "cleared s \<Longrightarrow> key_of s = None"
  by (simp add: cleared_def idempotency_key_from_state_def)

lemma with_result_after:
  assumes "after_node n s (with_result s r) = a"
  shows "key_of (snd a) = key_of s" and "fst a \<noteq> None \<longrightarrow> s_execution_result (snd a) \<noteq> None"
  using assms by (cases r; auto simp: with_result_def idempotency_key_from_state_def)+

section \<open>Every node has one of the effects\<close>

lemma resolve_summary:
  assumes "cleared s"
  shows "node_summary ResolveNonce s st [] (after_node ResolveNonce s (resolve_nonce d s)) st"
proof -
  obtain s' where s': "resolve_nonce d s = Inr s'" using resolve_nonce_total by blast
  with resolve_nonce_keeps [OF s'] assms show ?thesis
    by (auto simp: node_summary_def cleared_key intro!: node_effect.quiet)
qed

lemma populate_summary:
  assumes "cleared s"
  shows "node_summary PopulateGas s st [] (after_node PopulateGas s (populate_gas d s)) st"
proof -
  obtain s' where s': "populate_gas d s = Inr s'" using populate_gas_total by blast
  with populate_gas_result(1) [OF s' assms] assms show ?thesis
    by (auto simp: node_summary_def cleared_key intro!: node_effect.quiet)
qed

lemma simulate_summary:
  assumes "cleared (s\<lparr>s_executable_transaction := None\<rparr>)"
  shows "node_summary SimulateTransaction s st [] (after_node SimulateTransaction s (simulate_transaction d s)) st"
proof (cases "simulate_transaction d s")
  case (Inr s')
  have "s_simulation_result s = None" using assms by (simp add: cleared_def)
  from simulate_result(1) [OF Inr this] obtain sim where "s' = s\<lparr>s_simulation_result := sim\<rparr>" by blast
  with Inr assms show ?thesis
    by (auto simp: node_summary_def cleared_def idempotency_key_from_state_def intro!: node_effect.quiet)
qed (simp add: node_summary_def node_effect.quiet)

lemma policy_summary:
  assumes "node_ok EvaluatePolicy s"
  shows "node_summary EvaluatePolicy s st [] (after_node EvaluatePolicy s (evaluate_policy d s)) st"
proof (cases "evaluate_policy d s")
  case (Inr s')
  from evaluate_policy_result [OF Inr] obtain dec where s': "s' = s\<lparr>s_policy_decision := Some dec\<rparr>" by blast
  then have r: "route_after_transaction_policy s' \<in> {RejectTransaction, RequestApproval, CheckIdempotency}"
    by (cases "pd_status dec") (simp_all add: route_after_transaction_policy_def)
  then have "\<not> holding (Some (route_after_transaction_policy s'), s')" by auto
  moreover have "node_ok (route_after_transaction_policy s') s'" using r s' assms by auto
  moreover have "key_of s' = key_of s" using s' by (simp add: idempotency_key_from_state_def)
  ultimately show ?thesis using Inr by (auto simp: node_summary_def intro!: node_effect.quiet)
qed (simp add: node_summary_def node_effect.quiet)

lemma approval_summary:
  assumes "node_ok RequestApproval s" and "request_approval d s \<lparr>w_store = st, w_log = []\<rparr> = (out, w)"
  shows "node_summary RequestApproval s st (w_log w) (after_node RequestApproval s out) (w_store w)"
proof -
  have w: "w_store w = st" "\<forall>ev \<in> set (w_log w). \<not> is_broadcast ev"
    using request_approval_world [OF assms(2)] by auto
  show ?thesis
  proof (cases out)
    case (Inr s')
    have r: "route_after_transaction_approval s' \<in> {RejectTransaction, CheckIdempotency}"
      by (auto simp: route_after_transaction_approval_def split: option.splits)
    then have "\<not> holding (Some (route_after_transaction_approval s'), s')" by auto
    moreover have "node_ok (route_after_transaction_approval s') s' \<and> key_of s' = key_of s"
      using request_approval_result [of d s "\<lparr>w_store = st, w_log = []\<rparr>" s' w] assms Inr r
      by (auto simp: same_tx_def idempotency_key_from_state_def)
    ultimately show ?thesis using Inr w by (auto simp: node_summary_def intro!: node_effect.quiet)
  qed (use w in \<open>simp add: node_summary_def node_effect.quiet\<close>)
qed

lemma reject_summary:
  "node_summary RejectTransaction s st [] (after_node RejectTransaction s (reject_transaction d s)) st"
proof (cases "reject_transaction d s")
  case (Inr s')
  from reject_transaction_result [OF Inr] have "key_of s' = key_of s"
    by (auto simp: idempotency_key_from_state_def)
  with Inr show ?thesis by (simp add: node_summary_def node_effect.quiet)
qed (simp add: node_summary_def node_effect.quiet)

lemma quiet_check:
  assumes "\<And>s'. r = Inr s' \<Longrightarrow> s_execution_result s' \<noteq> None \<and> key_of s' = key_of s"
  shows "node_summary CheckIdempotency s st [] (after_node CheckIdempotency s r) st"
  using assms
  by (cases r) (auto simp: node_summary_def route_after_idempotency_def intro!: node_effect.quiet)

lemma check_summary:
  assumes "node_ok CheckIdempotency s" and "check_idempotency d s \<lparr>w_store = st, w_log = []\<rparr> = (out, w)"
  shows "node_summary CheckIdempotency s st (w_log w) (after_node CheckIdempotency s out) (w_store w)"
proof -
  have failed: "s_execution_result s' \<noteq> None \<and> key_of s' = key_of s"
    if "idempotency_failed d s e = Inr s'" for e s'
    using that by (auto simp: idempotency_failed_def with_result_Inr idempotency_key_from_state_def)
  have replay: "s_execution_result s' \<noteq> None \<and> key_of s' = key_of s"
    if "replay_or_conflict d s r = Inr s'" for r s'
    using that by (auto simp: replay_or_conflict_def with_result_Inr idempotency_key_from_state_def
        split: option.splits)
  show ?thesis
  proof (cases "s_executable_transaction s")
    case None
    with assms(2) quiet_check failed show ?thesis
      by (auto simp: check_idempotency_def executable_from_state_def)
  next
    case (Some t)
    show ?thesis
    proof (cases "exec_idempotency_key t")
      case None
      with Some assms(2) quiet_check failed show ?thesis
        by (auto simp: check_idempotency_def executable_from_state_def)
    next
      case k: (Some k)
      obtain ro st' where ro: "store_reserve st k = (ro, st')" by fastforce
      show ?thesis
      proof (cases ro)
        case (Reserved r)
        note res = store_reserve_phase [OF ro [unfolded Reserved]]
        have "holds_key s t k" using Some k res by (simp add: holds_key_def)
        moreover from this have "key_of s = Some k" by (rule holds_key_state)
        moreover have "out = Inr s" "w_store w = st(k \<mapsto> r)" "w_log w = []"
          using assms(2) Some k ro Reserved res by (auto simp: check_idempotency_def executable_from_state_def)
        ultimately show ?thesis using assms(1) res
          by (auto simp: node_summary_def route_after_idempotency_def intro!: node_effect.reserve)
      next
        case (Duplicate r)
        then have "st' = st" using ro store_reserve_fresh [of st k] by auto
        with assms(2) Some k ro Duplicate quiet_check replay show ?thesis
          by (auto simp: check_idempotency_def executable_from_state_def)
      next
        case (ReserveRaised e)
        then have "st' = st" using ro store_reserve_fresh [of st k] by auto
        with assms(2) Some k ro ReserveRaised quiet_check failed show ?thesis
          by (auto simp: check_idempotency_def executable_from_state_def)
      qed
    qed
  qed
qed

lemma holds_key_upd [simp]:
  "holds_key (s\<lparr>s_signed_transaction := x\<rparr>) = holds_key s"
  "holds_key (s\<lparr>s_tx_hash := h\<rparr>) = holds_key s"
  by (simp_all add: fun_eq_iff holds_key_def)

lemma release_key:
  assumes "key_of s = Some k"
  shows "release_after_pre_broadcast_failure s w = w\<lparr>w_store := store_release (w_store w) k\<rparr>"
  using assms by (simp add: release_after_pre_broadcast_failure_def)

lemma sign_summary:
  assumes "node_ok SignTransaction s" and "sign_transaction d s \<lparr>w_store = st, w_log = []\<rparr> = (out, w)"
  shows "node_summary SignTransaction s st (w_log w) (after_node SignTransaction s out) (w_store w)"
proof -
  from assms(1) obtain t k where h: "holds_key s t k" and none: "s_execution_result s = None" by auto
  note key = holds_key_state(1) [OF h]
  obtain r w1 where c: "call_signer d s \<lparr>w_store = st, w_log = []\<rparr> = (r, w1)" by fastforce
  then have w1: "w_store w1 = st" "\<forall>ev \<in> set (w_log w1). \<not> is_broadcast ev"
    by (auto simp: call_signer_def Let_def split: sum.splits)
  show ?thesis
  proof (cases r)
    case (Inr x)
    with assms(2) c have "out = Inr (s\<lparr>s_signed_transaction := Some x\<rparr>)" "w = w1"
      by (auto simp: sign_transaction_def)
    with w1 none h key show ?thesis
      by (auto simp: node_summary_def intro!: node_effect.signed_ok)
  next
    case (Inl e)
    let ?r = "result_from_state (d_libs d) s FAILED None None None
      (Some (normalize_exn_code (d_libs d) e ''signing_failed'' ''sign_transaction''))"
    from Inl assms(2) c have "out = with_result s ?r" "w = w1\<lparr>w_store := store_release st k\<rparr>"
      using w1(1) release_key [OF key]
      by (auto simp: sign_transaction_def simp del: normalize_exception.simps)
    with w1(2) key show ?thesis
      by (cases ?r) (auto simp: node_summary_def with_result_def idempotency_key_from_state_def
          filter_empty_conv simp del: normalize_exception.simps intro!: node_effect.release)
  qed
qed

lemma broadcast_summary:
  assumes "node_ok BroadcastTransaction s"
    and "broadcast_transaction d s \<lparr>w_store = st, w_log = []\<rparr> = (out, w)"
    and hash: "\<And>x h. be_broadcast (d_backend d) x = Inr h \<Longrightarrow> py_strip h \<noteq> []"
  shows "node_summary BroadcastTransaction s st (w_log w) (after_node BroadcastTransaction s out) (w_store w)"
proof (cases "s_execution_result s")
  case (Some res)
  with assms(2) have "out = Inr s" "w = \<lparr>w_store = st, w_log = []\<rparr>" by (auto simp: broadcast_transaction_def)
  with Some show ?thesis by (auto simp: node_summary_def intro!: node_effect.quiet)
next
  case None
  with assms(1) obtain t k x where h: "holds_key s t k" and x: "s_signed_transaction s = Some x" by auto
  note key = holds_key_state(1) [OF h]
  show ?thesis
  proof (cases "be_broadcast (d_backend d) x")
    case (Inr h')
    with None x assms(2) have "out = Inr (s\<lparr>s_tx_hash := Some h'\<rparr>)" "w_store w = st"
      "w_log w = [Broadcast x (Inr h')]"
      by (auto simp: broadcast_transaction_def call_broadcast_def Let_def)
    with None hash [OF Inr] h key show ?thesis
      by (auto simp: node_summary_def intro!: node_effect.submit)
  next
    case (Inl e)
    let ?r = "result_from_state (d_libs d) s FAILED None None None
      (Some (normalize_exn_code (d_libs d) e ''broadcast_failed'' ''broadcast_transaction''))"
    from Inl None x assms(2) have "out = with_result s ?r" "w_store w = store_release st k"
      "w_log w = [Broadcast x (Inl e)]"
      using release_key [OF key]
      by (auto simp: broadcast_transaction_def call_broadcast_def Let_def simp del: normalize_exception.simps)
    with None key show ?thesis
      by (cases ?r) (auto simp: node_summary_def with_result_def idempotency_key_from_state_def
          simp del: normalize_exception.simps intro!: node_effect.release)
  qed
qed

lemma monitor_state:
  assumes "monitor_receipt d s w = (Inr s', w')"
  shows "key_of s' = key_of s"
  using assms
  by (auto simp: monitor_receipt_def monitor_failed_def idempotency_key_from_state_def
      simp del: normalize_exception.simps split: if_splits sum.splits prod.splits)

lemma monitor_summary:
  assumes "node_ok MonitorReceipt s" and "monitor_receipt d s \<lparr>w_store = st, w_log = []\<rparr> = (out, w)"
  shows "node_summary MonitorReceipt s st (w_log w) (after_node MonitorReceipt s out) (w_store w)"
proof (cases "s_execution_result s")
  case (Some res)
  with assms(2) have "out = Inr s" "w = \<lparr>w_store = st, w_log = []\<rparr>" by (auto simp: monitor_receipt_def)
  with Some show ?thesis by (auto simp: node_summary_def intro!: node_effect.quiet)
next
  case None
  with assms(1) obtain t k h where hk: "holds_key s t k" and h: "s_tx_hash s = Some h" "py_strip h \<noteq> []" by auto
  have "monitor_outcome k h \<lparr>w_store = st, w_log = []\<rparr> (out, w)"
    using monitor_holds [OF hk None h(1)] assms(2) by metis
  then have "w_log w = []" "w_store w = st \<or> (\<exists>r. w_store w = st(k \<mapsto> r))"
    using h(2) by (auto simp: monitor_outcome_def)
  moreover have "key_of (snd (after_node MonitorReceipt s out)) = key_of s"
    using monitor_state [of d s _ _ w] assms(2) by (cases out) auto
  moreover have "fst (after_node MonitorReceipt s out) = None" by (cases out) auto
  ultimately show ?thesis
    using None holds_key_state(1) [OF hk]
    by (auto simp: node_summary_def place_ok_def intro!: node_effect.finish)
qed

lemma run_node_summary:
  assumes "node_ok n s" and "run_node d n s \<lparr>w_store = st, w_log = []\<rparr> = (out, w)"
    and "\<And>x h. be_broadcast (d_backend d) x = Inr h \<Longrightarrow> py_strip h \<noteq> []"
  shows "node_summary n s st (w_log w) (after_node n s out) (w_store w)"
  using assms
  by (cases n)
     (auto simp del: node_ok.simps(4-9) intro: resolve_summary populate_summary simulate_summary policy_summary
        approval_summary check_summary sign_summary broadcast_summary monitor_summary reject_summary)

section \<open>The invariant of the system\<close>

definition holds :: "system \<Rightarrow> nat \<Rightarrow> string \<Rightarrow> bool" where
  "holds y i k \<longleftrightarrow> holding (sy_at y i) \<and> request_key y i = Some k"

definition past_broadcast :: "system \<Rightarrow> nat \<Rightarrow> bool" where
  "past_broadcast y i \<longleftrightarrow> fst (sy_at y i) \<in> {Some MonitorReceipt, None}"

text \<open>
  Held keys are in the store and have one holder; a sent request is past its broadcast, its
  key stays in the store and no other request holds it or has been sent with it.
\<close>

definition key_settled :: "system \<Rightarrow> nat \<Rightarrow> string \<Rightarrow> bool" where
  "key_settled y i k \<longleftrightarrow> sy_store y k \<noteq> None \<and> (\<forall>j. holds y j k \<longrightarrow> j = i) \<and>
     (\<forall>j. sent y j \<longrightarrow> request_key y j = Some k \<longrightarrow> j = i)"

definition keys_held :: "system \<Rightarrow> bool" where
  "keys_held y \<longleftrightarrow> (\<forall>i k. holds y i k \<longrightarrow> sy_store y k \<noteq> None \<and> (\<forall>j. holds y j k \<longrightarrow> j = i))"

definition sent_settled :: "system \<Rightarrow> bool" where
  "sent_settled y \<longleftrightarrow> (\<forall>i. sent y i \<longrightarrow> past_broadcast y i \<and>
     (\<exists>k. request_key y i = Some k \<and> key_settled y i k))"

definition sys_ok :: "system \<Rightarrow> bool" where
  "sys_ok y \<longleftrightarrow> (\<forall>i. place_ok (sy_at y i)) \<and> keys_held y \<and> sent_settled y \<and>
     (\<forall>i. broadcasts y i \<le> (if past_broadcast y i then 1 else 0))"

lemma sys_init_ok: "sys_init y \<Longrightarrow> sys_ok y"
proof -
  assume y: "sys_init y"
  then have at: "fst (sy_at y i) = Some ResolveNonce" "cleared (snd (sy_at y i))" for i
    unfolding sys_init_def by (metis fst_conv snd_conv)+
  then have "\<not> holding (sy_at y i)" "place_ok (sy_at y i)" for i
    by (simp_all add: holding_def place_ok_def)
  with y show ?thesis
    by (simp add: sys_ok_def sys_init_def holds_def sent_def broadcasts_def keys_held_def sent_settled_def)
qed

text \<open>The successor system, seen from the request that moved and from the others.\<close>

definition moved :: "system \<Rightarrow> nat \<Rightarrow> tx_node option \<times> mercury_state \<Rightarrow> idem_store \<Rightarrow> tx_event list \<Rightarrow> system" where
  "moved y i a st evs = \<lparr>sy_at = (sy_at y)(i := a), sy_store = st, sy_log = sy_log y @ map (Pair i) evs\<rparr>"

lemma moved_simps [simp]:
  "sy_at (moved y i a st evs) j = (if j = i then a else sy_at y j)"
  "sy_store (moved y i a st evs) = st"
  "request_key (moved y i a st evs) j = (if j = i then key_of (snd a) else request_key y j)"
  "holds (moved y i a st evs) j k = (if j = i then holding a \<and> key_of (snd a) = Some k else holds y j k)"
  "past_broadcast (moved y i a st evs) j =
     (if j = i then fst a \<in> {Some MonitorReceipt, None} else past_broadcast y j)"
  by (simp_all add: moved_def request_key_def holds_def past_broadcast_def)

lemma sent_moved [simp]:
  "sent (moved y i a st evs) j \<longleftrightarrow> sent y j \<or> (j = i \<and> (\<exists>x h. Broadcast x (Inr h) \<in> set evs))"
  by (auto simp: sent_def moved_def)

lemma broadcasts_moved [simp]:
  "broadcasts (moved y i a st evs) j =
     broadcasts y j + (if j = i then length (filter is_broadcast evs) else 0)"
  by (auto simp: broadcasts_def moved_def filter_map comp_def)

text \<open>How the store changes, for the keys other requests hold or were sent with.\<close>

lemma keys_held_moved:
  assumes y: "keys_held y"
    and own: "\<And>k. holding a \<Longrightarrow> key_of (snd a) = Some k \<Longrightarrow> st' k \<noteq> None"
    and alone: "\<And>j k. holding a \<Longrightarrow> key_of (snd a) = Some k \<Longrightarrow> holds y j k \<Longrightarrow> j = i"
    and others: "\<And>j k. j \<noteq> i \<Longrightarrow> holds y j k \<Longrightarrow> st' k \<noteq> None"
  shows "keys_held (moved y i a st' evs)"
  unfolding keys_held_def
proof (intro allI impI)
  fix j k
  assume h: "holds (moved y i a st' evs) j k"
  have "st' k \<noteq> None" using h own [of k] others [of j k] by (cases "j = i") simp_all
  moreover have "j' = j" if "holds (moved y i a st' evs) j' k" for j'
  proof (cases "j = i \<or> j' = i")
    case True
    then consider "j = i" "j' = i" | "j = i" "j' \<noteq> i" | "j \<noteq> i" "j' = i" by blast
    then show ?thesis
    proof cases
      case 2
      with h that have "holding a" "key_of (snd a) = Some k" "holds y j' k" by simp_all
      with alone 2 show ?thesis by blast
    next
      case 3
      with h that have "holding a" "key_of (snd a) = Some k" "holds y j k" by simp_all
      with alone 3 show ?thesis by blast
    qed simp
  next
    case False
    with h that have "holds y j k" "holds y j' k" by simp_all
    with y show ?thesis unfolding keys_held_def by blast
  qed
  ultimately show "sy_store (moved y i a st' evs) k \<noteq> None \<and>
      (\<forall>j'. holds (moved y i a st' evs) j' k \<longrightarrow> j' = j)" by simp
qed

lemma sent_settled_moved:
  assumes "sent_settled y" and "\<forall>x h. Broadcast x (Inr h) \<notin> set evs"
    and "sent y i \<Longrightarrow> fst a \<in> {Some MonitorReceipt, None}"
    and "\<And>k. request_key y i = Some k \<Longrightarrow> key_of (snd a) = Some k"
    and "\<And>j k. sent y j \<Longrightarrow> request_key y j = Some k \<Longrightarrow> st' k \<noteq> None"
    and "\<And>j k. sent y j \<Longrightarrow> request_key y j = Some k \<Longrightarrow> holding a \<Longrightarrow> key_of (snd a) = Some k \<Longrightarrow> i = j"
  shows "sent_settled (moved y i a st' evs)"
  unfolding sent_settled_def
proof (intro allI impI)
  fix j
  assume "sent (moved y i a st' evs) j"
  then have j: "sent y j" using assms(2) by simp
  with assms(1) obtain k where k: "request_key y j = Some k" "key_settled y j k" "past_broadcast y j"
    by (auto simp: sent_settled_def)
  have "key_settled (moved y i a st' evs) j k"
    unfolding key_settled_def
  proof (intro conjI allI impI)
    show "sy_store (moved y i a st' evs) k \<noteq> None" using assms(5) [OF j k(1)] by simp
    show "j' = j" if "holds (moved y i a st' evs) j' k" for j'
      using that assms(6) [OF j k(1)] k(2) by (auto simp: key_settled_def split: if_splits)
    show "j' = j" if sent: "sent (moved y i a st' evs) j'"
      and key: "request_key (moved y i a st' evs) j' = Some k" for j'
    proof -
      have sj: "sent y j'" using sent assms(2) by simp
      with assms(1) obtain k' where "request_key y j' = Some k'" by (auto simp: sent_settled_def)
      with key assms(4) have "request_key y j' = Some k" by (auto split: if_splits)
      with sj k(2) show ?thesis by (simp add: key_settled_def)
    qed
  qed
  then show "past_broadcast (moved y i a st' evs) j \<and>
      (\<exists>k. request_key (moved y i a st' evs) j = Some k \<and> key_settled (moved y i a st' evs) j k)"
    using assms(3,4) j k by auto
qed

lemma no_broadcast_filter: "\<forall>ev \<in> set evs. \<not> is_broadcast ev \<Longrightarrow> filter is_broadcast evs = []"
  by (simp add: filter_empty_conv)

lemma no_broadcast_sent: "\<forall>ev \<in> set evs. \<not> is_broadcast ev \<Longrightarrow> \<forall>x h. Broadcast x (Inr h) \<notin> set evs"
  by fastforce

lemma holds_at: "sy_at y i = (Some n, s) \<Longrightarrow> holds y i k \<longleftrightarrow> holding (Some n, s) \<and> key_of s = Some k"
  by (simp add: holds_def request_key_def)

lemma node_effect_holds:
  assumes "node_summary n s st evs a st'" and "holding a"
  shows "n = CheckIdempotency \<or> (\<exists>k. holding (Some n, s) \<and> key_of s = Some k \<and> key_of (snd a) = Some k \<and> st' = st)"
  using assms unfolding node_summary_def by (auto elim!: node_effect.cases)

lemma node_effect_store:
  assumes "node_effect n s st evs a st'" and "st k \<noteq> None"
    and "holding (Some n, s) \<and> key_of s = Some k \<Longrightarrow> n \<notin> {SignTransaction, BroadcastTransaction} \<or> holding a"
  shows "st' k \<noteq> None"
  using assms
  by cases (auto simp: store_release_def split: option.splits if_splits)

lemma reserve_effect:
  assumes "node_effect CheckIdempotency s st evs a st'" and "holding a"
  shows "\<exists>k. key_of s = Some k \<and> st k = None \<and> st' k \<noteq> None \<and> snd a = s"
  using assms by cases auto

lemma keys_held_step:
  assumes y: "keys_held y" and at: "sy_at y i = (Some n, s)"
    and sum: "node_summary n s (sy_store y) evs a st'"
  shows "keys_held (moved y i a st' evs)"
proof (rule keys_held_moved [OF y])
  have eff: "node_effect n s (sy_store y) evs a st'" using sum by (simp add: node_summary_def)
  have held: "holds y j k \<Longrightarrow> sy_store y k \<noteq> None \<and> (\<forall>j'. holds y j' k \<longrightarrow> j' = j)" for j k
    using y by (simp add: keys_held_def)
  have own: "st' k \<noteq> None \<and> (\<forall>j. holds y j k \<longrightarrow> j = i)" if h: "holding a" "key_of (snd a) = Some k" for k
  proof (cases "n = CheckIdempotency")
    case True
    with reserve_effect [of s "sy_store y" evs a st'] eff h have "sy_store y k = None" "st' k \<noteq> None" by auto
    with held show ?thesis by blast
  next
    case False
    with node_effect_holds [OF sum h(1)] h(2) have "holds y i k" "st' = sy_store y"
      using holds_at [OF at] by auto
    with held show ?thesis by blast
  qed
  show "st' k \<noteq> None" if "holding a" "key_of (snd a) = Some k" for k using own that by blast
  show "j = i" if "holding a" "key_of (snd a) = Some k" "holds y j k" for j k using own that by blast
  show "st' k \<noteq> None" if "j \<noteq> i" "holds y j k" for j k
    using node_effect_store [OF eff, of k] held that holds_at [OF at] by blast
qed

lemma sent_settled_step:
  assumes y: "keys_held y" "sent_settled y" and at: "sy_at y i = (Some n, s)"
    and sum: "node_summary n s (sy_store y) evs a st'"
    and quiet: "\<forall>x h. Broadcast x (Inr h) \<notin> set evs"
  shows "sent_settled (moved y i a st' evs)"
proof (rule sent_settled_moved [OF y(2) quiet])
  have eff: "node_effect n s (sy_store y) evs a st'" using sum by (simp add: node_summary_def)
  have settled: "key_settled y j k" if "sent y j" "request_key y j = Some k" for j k
    using that y(2) by (auto simp: sent_settled_def)
  have past: "n = MonitorReceipt" if "sent y i"
    using that y(2) at by (auto simp: sent_settled_def past_broadcast_def)
  show "fst a \<in> {Some MonitorReceipt, None}" if "sent y i"
    using eff past [OF that] by cases auto
  show "key_of (snd a) = Some k" if "request_key y i = Some k" for k
    using that sum at by (auto simp: node_summary_def request_key_def)
  show "st' k \<noteq> None" if "sent y j" "request_key y j = Some k" for j k
  proof (rule node_effect_store [OF eff])
    show "sy_store y k \<noteq> None" using settled [OF that] by (simp add: key_settled_def)
    show "n \<notin> {SignTransaction, BroadcastTransaction} \<or> holding a" if "holding (Some n, s) \<and> key_of s = Some k"
    proof -
      have "i = j" using that settled [OF \<open>sent y j\<close> \<open>request_key y j = Some k\<close>] holds_at [OF at]
        by (auto simp: key_settled_def)
      with past \<open>sent y j\<close> show ?thesis by simp
    qed
  qed
  show "i = j" if j: "sent y j" "request_key y j = Some k" and h: "holding a" "key_of (snd a) = Some k" for j k
  proof (cases "n = CheckIdempotency")
    case True
    with reserve_effect [of s "sy_store y" evs a st'] eff h settled [OF j] show ?thesis
      by (auto simp: key_settled_def)
  next
    case False
    with node_effect_holds [OF sum h(1)] h(2) have "holds y i k" using holds_at [OF at] by auto
    with settled [OF j] show ?thesis by (simp add: key_settled_def)
  qed
qed

text \<open>The submission itself: the sender is the only holder of its key.\<close>

lemma sent_settled_submit:
  assumes y: "keys_held y" "sent_settled y" and at: "sy_at y i = (Some BroadcastTransaction, s)"
    and s: "s_execution_result s = None" "key_of s = Some k" "key_of s' = Some k"
  shows "sent_settled (moved y i (Some MonitorReceipt, s') (sy_store y) [Broadcast x (Inr h)])"
    (is "sent_settled ?y'")
  unfolding sent_settled_def
proof (intro allI impI)
  fix j
  assume "sent ?y' j"
  have hi: "holds y i k" using holds_at [OF at] s by simp
  then have ki: "request_key y i = Some k" by (simp add: holds_def)
  have ni: "\<not> sent y i" using y(2) at by (auto simp: sent_settled_def past_broadcast_def)
  have only: "\<not> (sent y j' \<and> request_key y j' = Some k)" for j'
  proof
    assume j': "sent y j' \<and> request_key y j' = Some k"
    with y(2) have "key_settled y j' k" by (auto simp: sent_settled_def)
    with hi have "i = j'" unfolding key_settled_def by blast
    with ni j' show False by simp
  qed
  show "past_broadcast ?y' j \<and> (\<exists>k. request_key ?y' j = Some k \<and> key_settled ?y' j k)"
  proof (cases "j = i")
    case True
    have "sy_store y k \<noteq> None" "\<forall>j. holds y j k \<longrightarrow> j = i"
      using y(1) hi by (auto simp: keys_held_def)
    with True s only show ?thesis by (auto simp: key_settled_def split: if_splits)
  next
    case False
    with \<open>sent ?y' j\<close> have "sent y j" by simp
    with y(2) obtain k' where "past_broadcast y j" "request_key y j = Some k'" "key_settled y j k'"
      by (auto simp: sent_settled_def)
    moreover from this have "k' \<noteq> k" using only [of j] \<open>sent y j\<close> by auto
    ultimately show ?thesis using False s
      by (auto simp: key_settled_def split: if_splits)
  qed
qed

lemma broadcasts_step:
  assumes "node_effect n s st evs a st'" and "b \<le> (if n = MonitorReceipt then 1 else (0::nat))"
  shows "b + length (filter is_broadcast evs) \<le> (if fst a \<in> {Some MonitorReceipt, None} then 1 else 0)"
  using assms by cases (auto simp: filter_empty_conv split: if_splits)

lemma effect_sends:
  assumes "node_effect n s st evs a st'" and "Broadcast x (Inr h) \<in> set evs"
  shows "n = BroadcastTransaction \<and> s_execution_result s = None \<and> (\<exists>k. key_of s = Some k) \<and>
    fst a = Some MonitorReceipt \<and> st' = st \<and> evs = [Broadcast x (Inr h)]"
  using assms by cases fastforce+

lemma sys_ok_step:
  assumes ok: "sys_ok y" and at: "sy_at y i = (Some n, s)"
    and sum: "node_summary n s (sy_store y) evs a st'"
  shows "sys_ok (moved y i a st' evs)"
proof -
  have eff: "node_effect n s (sy_store y) evs a st'" "place_ok a" using sum by (simp_all add: node_summary_def)
  have H: "keys_held y" and S: "sent_settled y" using ok by (simp_all add: sys_ok_def)
  have "sent_settled (moved y i a st' evs)"
  proof (cases "\<exists>x h. Broadcast x (Inr h) \<in> set evs")
    case True
    then obtain x h where e: "Broadcast x (Inr h) \<in> set evs" by blast
    note snd = effect_sends [OF eff(1) e]
    then obtain k where k: "key_of s = Some k" by blast
    obtain s' where a: "a = (Some MonitorReceipt, s')" using snd by (cases a) auto
    have "key_of s' = Some k" using sum k a by (simp add: node_summary_def)
    with sent_settled_submit [OF H S, of i s k s' x h] snd at k a show ?thesis by simp
  next
    case False
    with sent_settled_step [OF H S at sum] show ?thesis by blast
  qed
  moreover have "broadcasts y i + length (filter is_broadcast evs)
      \<le> (if fst a \<in> {Some MonitorReceipt, None} then 1 else 0)"
  proof (rule broadcasts_step [OF eff(1)])
    show "broadcasts y i \<le> (if n = MonitorReceipt then 1 else 0)"
    proof -
      have "broadcasts y i \<le> (if past_broadcast y i then 1 else 0)" using ok unfolding sys_ok_def by blast
      then show ?thesis using at by (simp add: past_broadcast_def)
    qed
  qed
  ultimately show ?thesis
    using ok eff(2) keys_held_step [OF H at sum] unfolding sys_ok_def by (auto split: if_splits)
qed

lemma sys_step_ok:
  assumes "\<And>i. backend_contract (d_backend (D i))" and "sys_ok y" and "sys_step D y y'"
  shows "sys_ok y'"
  using assms(3)
proof cases
  case (run_request i n s out w)
  have "place_ok (sy_at y i)" using assms(2) unfolding sys_ok_def by blast
  then have "node_ok n s" using run_request(2) by simp
  moreover have "py_strip h \<noteq> []" if "be_broadcast (d_backend (D i)) x = Inr h" for x h
    using backend_contract.broadcast_hash_not_blank [OF assms(1) that] .
  ultimately have "node_summary n s (sy_store y) (w_log w) (after_node n s out) (w_store w)"
    using run_node_summary run_request(3) by blast
  from sys_ok_step [OF assms(2) run_request(2) this] run_request(1) show ?thesis
    by (simp add: moved_def)
qed

lemma sys_reach_ok:
  assumes "sys_reach D y" and "\<And>i. backend_contract (d_backend (D i))"
  shows "sys_ok y"
  using assms(1)
  by (induction rule: sys_reach.induct) (use assms(2) sys_init_ok sys_step_ok in blast)+

section \<open>Single runs inside the system\<close>

text \<open>A node only appends to the log, whatever the log already holds.\<close>

definition frame_log :: "tx_event list \<Rightarrow> tx_step \<Rightarrow> tx_step" where
  "frame_log l x = (fst x, (snd x)\<lparr>w_log := l @ w_log (snd x)\<rparr>)"

lemma run_node_frame: "run_node d n s \<lparr>w_store = st, w_log = l\<rparr> = frame_log l (run_node d n s \<lparr>w_store = st, w_log = []\<rparr>)"
proof (cases n)
  case RequestApproval
  then show ?thesis
    by (auto simp: frame_log_def request_approval_def ask_approver_def Let_def log_event_def split: sum.splits)
next
  case CheckIdempotency
  then show ?thesis
    by (auto simp: frame_log_def check_idempotency_def split: sum.splits option.splits prod.splits reserve_outcome.splits)
next
  case SignTransaction
  then show ?thesis
    by (auto simp: frame_log_def sign_transaction_def call_signer_def Let_def log_event_def
        release_after_pre_broadcast_failure_def simp del: normalize_exception.simps
        split: sum.splits option.splits)
next
  case BroadcastTransaction
  then show ?thesis
    by (auto simp: frame_log_def broadcast_transaction_def call_broadcast_def Let_def log_event_def
        release_after_pre_broadcast_failure_def simp del: normalize_exception.simps
        split: sum.splits option.splits)
next
  case MonitorReceipt
  then show ?thesis
    by (auto simp: frame_log_def monitor_receipt_def monitor_body_def complete_with_def monitor_failed_def
        finalize_after_monitor_failure_def rbind_def simp del: normalize_exception.simps
        split: sum.splits option.splits prod.splits)
qed (simp_all add: frame_log_def)

lemma world_log_update: "w\<lparr>w_log := l\<rparr> = \<lparr>w_store = w_store w, w_log = l\<rparr>"
  by (cases w) simp

text \<open>A run of one request is a sequence of steps of the system.\<close>

lemma run_from_reach:
  assumes "sys_reach D y" and "sy_at y i = (Some n, s)"
    and "run_from (D i) n s \<lparr>w_store = sy_store y, w_log = l\<rparr> = (Inr s', w')"
  shows "\<exists>y' evs. sys_reach D y' \<and> w_log w' = l @ evs \<and> sy_log y' = sy_log y @ map (Pair i) evs \<and>
    sy_store y' = w_store w' \<and> sy_at y' i = (None, s') \<and> (\<forall>j. j \<noteq> i \<longrightarrow> sy_at y' j = sy_at y j)"
  using assms
proof (induction "node_rank n" arbitrary: n s y l rule: less_induct)
  case less
  obtain out w where r: "run_node (D i) n s \<lparr>w_store = sy_store y, w_log = []\<rparr> = (out, w)" by fastforce
  let ?y = "\<lparr>sy_at = (sy_at y)(i := after_node n s out), sy_store = w_store w,
       sy_log = sy_log y @ map (Pair i) (w_log w)\<rparr>"
  have reach: "sys_reach D ?y"
    using sys_reach.step [OF less.prems(1) sys_step.run_request [where D = D, OF less.prems(2) r]] .
  have run: "run_node (D i) n s \<lparr>w_store = sy_store y, w_log = l\<rparr> = (out, w\<lparr>w_log := l @ w_log w\<rparr>)"
    using run_node_frame [of "D i" n s "sy_store y" l] r by (simp add: frame_log_def)
  obtain s1 where out: "out = Inr s1"
    using less.prems(3) run by (cases out) (simp_all add: run_from.simps [of _ n])
  show ?case
  proof (cases "next_node n s1")
    case None
    with less.prems(3) run out have "s' = s1" "w' = w\<lparr>w_log := l @ w_log w\<rparr>"
      by (simp_all add: run_from.simps [of _ n])
    with reach out None show ?thesis
      by (intro exI [of _ ?y] exI [of _ "w_log w"]) simp
  next
    case (Some n')
    have at: "sy_at ?y i = (Some n', s1)" using out Some by simp
    have "run_from (D i) n' s1 \<lparr>w_store = sy_store ?y, w_log = l @ w_log w\<rparr> = (Inr s', w')"
      using less.prems(3) run out Some world_log_update [where w = w] by (simp add: run_from.simps [of _ n])
    from less.hyps [OF next_node_rank [OF Some] reach at this] obtain y' evs where
      "sys_reach D y'" "w_log w' = l @ w_log w @ evs"
      "sy_log y' = sy_log y @ map (Pair i) (w_log w @ evs)" "sy_store y' = w_store w'"
      "sy_at y' i = (None, s')" "\<forall>j. j \<noteq> i \<longrightarrow> sy_at y' j = sy_at y j"
      by auto
    then show ?thesis by (intro exI [of _ y'] exI [of _ "w_log w @ evs"]) simp
  qed
qed

end
