(* ===== verification/Pipeline_Properties.thy ===== *)
theory Pipeline_Properties
  imports Pipeline_Safety
begin

text \<open>
  The guarantees of the transaction pipeline: what must hold before the signer is called,
  which calls a run can make and in which order, what it leaves in the idempotency store (under the key of what it submitted),
  and what holds of any interleaving of requests. A concrete wallet, backend and signer serve as the instance on which
  the hypotheses are discharged.
\<close>

section \<open>A concrete request\<close>

definition demo_address :: "char \<Rightarrow> string" where
  "demo_address c = ''0x'' @ replicate 40 c"

definition demo_chains :: chain_table where
  "demo_chains = [\<lparr>cc_name = ''ethereum'', cc_chain_id = 1, native_symbol = ''ETH'',
     rpc_secret_path = ''rpc/eth'', block_explorer_url = ''https://etherscan.io'',
     wrapped_native_token_address = None\<rparr>]"

definition demo_gas :: gas_fees where
  "demo_gas = \<lparr>gas_limit = 21000, max_fee_per_gas = Some 30, max_priority_fee_per_gas = Some 2,
     gas_price = None\<rparr>"

definition demo_prepared :: prepared_transaction where
  "demo_prepared = \<lparr>prep_wallet_id = ''w1'', prep_chain = ''ethereum'', prep_chain_id = None,
     prep_from_address = None, prep_to = demo_address (CHR ''1''), prep_value_wei = 5,
     prep_data = ''0x'', prep_nonce = None, prep_gas = None, prep_idempotency_key = Some ''k1'',
     prep_metadata = [(''approval_response'', PDict [(''status'', PStr ''approved'')])]\<rparr>"

definition demo_signed :: signed_transaction_result where
  "demo_signed = \<lparr>st_wallet_id = ''w1'', st_chain_id = 1, st_signer_address = demo_address (CHR ''2''),
     st_raw_transaction_hex = ''0xaa'', st_tx_hash = ''0xbb''\<rparr>"

definition demo_backend :: transaction_backend where
  "demo_backend = \<lparr>be_resolve_chain_id = (\<lambda>_. Inr 1), be_lookup_nonce = (\<lambda>_ _. Inr 7),
     be_populate_gas = (\<lambda>_. Inr demo_gas),
     be_simulate = (\<lambda>_. Inr \<lparr>sim_status = PASSED, sim_gas_estimate = Some 21000, sim_reason = None\<rparr>),
     be_broadcast = (\<lambda>_. Inr ''0xbb''),
     be_wait_for_receipt = (\<lambda>_ _ _ _. Inr \<lparr>rc_tx_hash = ''0xbb'', rc_status = CONFIRMED,
       rc_block_number = Some 100, rc_gas_used = Some 21000\<rparr>)\<rparr>"

definition demo_signer :: transaction_signer where
  "demo_signer = \<lparr>sg_get_wallet_address = (\<lambda>w. Inr \<lparr>wa_wallet_id = w, wa_address = demo_address (CHR ''2'')\<rparr>),
     sg_sign_transaction = (\<lambda>_. Inr demo_signed)\<rparr>"

text \<open>The broadcast is left open, to have a request that is sent and one whose broadcast fails.\<close>

definition demo_deps_bc :: "(signed_transaction_result \<Rightarrow> exn + string) \<Rightarrow> tx_deps" where
  "demo_deps_bc bc = \<lparr>d_backend = demo_backend\<lparr>be_broadcast := bc\<rparr>, d_signer = demo_signer, d_policy_engine = default_engine,
     d_approver = request_metadata_approver lower_libs, d_receipt_timeout_seconds = 120,
     d_receipt_confirmations = 0, d_libs = lower_libs, d_chains = demo_chains,
     d_coerce_prepared = (\<lambda>_. Inr demo_prepared)\<rparr>"

definition demo_deps :: tx_deps where
  "demo_deps = demo_deps_bc (\<lambda>_. Inr ''0xbb'')"

definition demo_deps_down :: tx_deps where
  "demo_deps_down = demo_deps_bc (\<lambda>_. Inl (Exn ConnectionError ''connection refused''))"

definition demo_state :: mercury_state where
  "demo_state = empty_state\<lparr>s_prepared_transaction := Some (Model demo_prepared)\<rparr>"

definition demo_world :: world where
  "demo_world = \<lparr>w_store = Map.empty, w_log = []\<rparr>"

lemma demo_cleared: "cleared demo_state"
  by (simp add: cleared_def demo_state_def empty_state_def)

lemma demo_wf: "wf_store (w_store demo_world)"
  by (simp add: demo_world_def)

text \<open>The run of the concrete request, node by node.\<close>

definition demo_executable :: executable_transaction where
  "demo_executable = \<lparr>exec_wallet_id = ''w1'', exec_chain = ''ethereum'', exec_chain_id = 1,
     exec_from_address = Some (demo_address (CHR ''2'')), exec_to = demo_address (CHR ''1''),
     exec_value_wei = 5, exec_data = ''0x'', exec_nonce = 7, exec_gas = demo_gas,
     exec_idempotency_key = Some ''k1'', exec_metadata = prep_metadata demo_prepared\<rparr>"

definition demo_sim :: simulation_result where
  "demo_sim = \<lparr>sim_status = PASSED, sim_gas_estimate = Some 21000, sim_reason = None\<rparr>"

definition demo_decision :: policy_decision where
  "demo_decision = \<lparr>pd_status = NEEDS_APPROVAL,
     pd_reason = ''Human approval is required for value-moving transactions.''\<rparr>"

lemma demo_normal: "is_hex_char c \<Longrightarrow> lower_char c = c \<Longrightarrow> normal_address lower_libs (demo_address c)"
proof -
  assume c: "is_hex_char c" "lower_char c = c"
  have "lower_char (CHR ''0'') = CHR ''0''" "lower_char (CHR ''x'') = CHR ''x''" by code_simp+
  with c show ?thesis
    by (simp add: normal_address_def lower_libs_def demo_address_def is_evm_hex_def py_lower_def
        list_all_iff)
qed

lemma demo_normal_12: "normal_address lower_libs (demo_address (CHR ''1''))"
  "normal_address lower_libs (demo_address (CHR ''2''))"
  by (rule demo_normal; code_simp)+

lemma demo_chain: "get_chain_by_name demo_chains ''ethereum'' = Inr (hd demo_chains)"
  by code_simp

lemma demo_wf_executable: "wf_executable lower_libs demo_executable"
  unfolding wf_executable_iff [OF web3_laws_lower_libs]
  by (simp add: demo_executable_def demo_normal_12 is_hex_data_def)

lemma demo_evaluate: "evaluate lower_libs demo_chains default_engine demo_executable (Some demo_sim) = Inr demo_decision"
proof -
  have "policy_accepts lower_libs demo_chains default_engine demo_executable (Some demo_sim)"
    unfolding policy_accepts_def chain_ok_def identity_ok_def
    using demo_chain normalize_normal [OF demo_normal_12(1)]
    by (simp add: demo_executable_def demo_chains_def demo_sim_def sim_passed_def key_missing_def
        default_engine_def has_action_def demo_prepared_def)
  then have "rejection_reason lower_libs demo_chains default_engine demo_executable (Some demo_sim) = Inr None"
    by (simp add: rejection_reason_None [OF web3_laws_lower_libs])
  then show ?thesis
    by (simp add: evaluate_def approval_reason_def erc20_approval_reason_def demo_decision_def
        native_transfer_approval_reason_def swap_approval_reason_def has_action_def is_value_moving_def
        demo_executable_def demo_prepared_def mk_policy_decision_def)
qed

definition demo_request :: approval_request where
  "demo_request = \<lparr>ar_wallet_id = ''w1'', ar_chain = ''ethereum'', ar_chain_id = 1,
     ar_from_address = Some (demo_address (CHR ''2'')), ar_to = demo_address (CHR ''1''), ar_value_wei = 5,
     ar_data = ''0x'', ar_idempotency_key = ''k1'', ar_metadata = prep_metadata demo_prepared\<rparr>"

definition demo_approval :: approval_result where
  "demo_approval = \<lparr>apr_status = APPROVED, apr_reason = ''Approved via request metadata.'', apr_approved_by = None\<rparr>"

lemma demo_approved: "approved_by_human (demo_deps_bc bc) demo_executable demo_request demo_approval"
proof -
  have "build_approval_request demo_executable = Inr demo_request"
    by (simp add: build_approval_request_def mk_approval_request_def demo_request_def demo_executable_def
        demo_address_def)
  moreover have "py_lower (py_strip ''approved'') = ''approved''" by code_simp
  then have "approval_status_text lower_libs [(''status'', PStr ''approved'')] = ''approved''"
    by (simp add: approval_status_text_def)
  then have "request_metadata_approver lower_libs demo_request = Inr demo_approval"
    by (simp add: request_metadata_approver_def demo_request_def demo_prepared_def Let_def
        approval_key_matches_def mk_approval_result_def demo_approval_def str_or_def)
  ultimately show ?thesis
    by (simp add: approved_by_human_def demo_deps_bc_def apr_approved_def demo_approval_def)
qed

definition demo_sign_request :: sign_transaction_request where
  "demo_sign_request = \<lparr>sr_wallet = \<lparr>wr_wallet_id = ''w1'', wr_expected_address = Some (demo_address (CHR ''2''))\<rparr>,
     sr_chain_id = 1, sr_prepared_transaction = \<lparr>evm_chain_id = 1, evm_transaction =
       [(''chainId'', PInt 1), (''nonce'', PInt 7), (''to'', PStr (demo_address (CHR ''1''))),
        (''value'', PInt 5), (''data'', PStr ''0x''), (''gas'', PInt 21000), (''maxFeePerGas'', PInt 30),
        (''maxPriorityFeePerGas'', PInt 2), (''from'', PStr (demo_address (CHR ''2'')))]\<rparr>\<rparr>"

lemma demo_sign_built: "build_sign_request lower_libs demo_executable = Inr demo_sign_request"
  using demo_normal_12(2)
  by (simp add: build_sign_request_def mk_wallet_ref_def to_prepared_evm_transaction_def normalize_normal
      mk_prepared_evm_transaction_def mk_sign_transaction_request_def demo_executable_def
      gas_transaction_fields_def demo_gas_def demo_sign_request_def finish_def check_def min_len_def
      opt_addr_errs_def addr_errs_def)

definition demo_result :: execution_result where
  "demo_result = \<lparr>res_chain = ''ethereum'', res_chain_id = 1, res_wallet_id = ''w1'',
     res_wallet_address = Some (demo_address (CHR ''2'')), res_tx_hash = Some ''0xbb'', res_status = CONFIRMED,
     res_block_number = Some 100, res_gas_used = Some 21000, res_policy_decision = Some demo_decision,
     res_error = None\<rparr>"

definition demo_resolved :: prepared_transaction where
  "demo_resolved = demo_prepared\<lparr>prep_chain_id := Some 1,
     prep_from_address := Some (demo_address (CHR ''2'')), prep_nonce := Some 7\<rparr>"

definition demo_checked :: mercury_state where
  "demo_checked = demo_state\<lparr>s_prepared_transaction := Some (Model demo_resolved),
     s_wallet_address := Some (demo_address (CHR ''2'')), s_chain_name := Some ''ethereum'',
     s_executable_transaction := Some demo_executable, s_simulation_result := Some demo_sim,
     s_policy_decision := Some demo_decision, s_approval_result := Some demo_approval\<rparr>"

definition demo_final :: mercury_state where
  "demo_final = demo_checked\<lparr>s_signed_transaction := Some demo_signed, s_tx_hash := Some ''0xbb'',
     s_execution_result := Some demo_result\<rparr>"

definition demo_log :: "tx_event list" where
  "demo_log = [Asked demo_request (Inr demo_approval), SignerCalled demo_sign_request (Inr demo_signed),
     Broadcast demo_signed (Inr ''0xbb'')]"

definition demo_world_final :: world where
  "demo_world_final = \<lparr>w_store = [''k1'' \<mapsto> done_record ''k1'' demo_result], w_log = demo_log\<rparr>"

lemma demo_resolve:
  "resolve_nonce (demo_deps_bc bc) demo_state = Inr (demo_state\<lparr>s_prepared_transaction := Some (Model demo_resolved),
     s_wallet_address := Some (demo_address (CHR ''2'')), s_chain_name := Some ''ethereum''\<rparr>)"
  by (simp add: resolve_nonce_def prepared_from_state_def demo_state_def demo_prepared_def demo_deps_bc_def
      demo_signer_def demo_backend_def demo_resolved_def)

lemma demo_populate:
  assumes "s_prepared_transaction s = Some (Model demo_resolved)" and "s_error s = None"
  shows "populate_gas (demo_deps_bc bc) s = Inr (s\<lparr>s_executable_transaction := Some demo_executable\<rparr>)"
proof -
  have m: "mk_executable_transaction lower_libs demo_executable = Inr demo_executable"
    using demo_wf_executable by (simp add: wf_executable_def)
  show ?thesis
    using assms m by (simp add: populate_gas_def prepared_from_state_def demo_resolved_def demo_prepared_def
        demo_deps_bc_def demo_backend_def demo_executable_def)
qed

lemma demo_simulate:
  assumes "s_executable_transaction s = Some demo_executable" and "s_error s = None"
  shows "simulate_transaction (demo_deps_bc bc) s = Inr (s\<lparr>s_simulation_result := Some demo_sim\<rparr>)"
  using assms by (simp add: simulate_transaction_def executable_from_state_def demo_deps_bc_def demo_backend_def
      demo_sim_def)

lemma demo_policy:
  assumes "s_executable_transaction s = Some demo_executable" and "s_error s = None"
    and "s_simulation_result s = Some demo_sim"
  shows "evaluate_policy (demo_deps_bc bc) s = Inr (s\<lparr>s_policy_decision := Some demo_decision\<rparr>)"
  using assms demo_evaluate by (simp add: evaluate_policy_def executable_from_state_def demo_deps_bc_def)

lemma demo_approve:
  assumes "s_executable_transaction s = Some demo_executable"
  shows "request_approval (demo_deps_bc bc) s w =
    (Inr (s\<lparr>s_approval_result := Some demo_approval\<rparr>), log_event (Asked demo_request (Inr demo_approval)) w)"
  using assms demo_approved
  by (simp add: request_approval_def ask_approver_def executable_from_state_def approved_by_human_def
      record_approval_def apr_approved_def Let_def)

lemma demo_front:
  "run_pipeline (demo_deps_bc bc) demo_state demo_world =
     run_from (demo_deps_bc bc) CheckIdempotency demo_checked
       (log_event (Asked demo_request (Inr demo_approval)) demo_world)"
proof -
  have e: "s_error demo_state = None" by (simp add: demo_state_def empty_state_def)
  show ?thesis
    by (simp add: run_pipeline_def run_from_unfold(1-5) demo_resolve demo_populate demo_simulate demo_policy
        demo_approve e route_after_transaction_policy_def route_after_transaction_approval_def
        demo_decision_def demo_approval_def demo_checked_def)
qed

lemma demo_result_valid: "mk_execution_result lower_libs demo_result = Inr demo_result"
proof -
  have "is_hex_data ''0xbb''" by code_simp
  then have "wf_result lower_libs demo_result"
    unfolding wf_result_iff [OF web3_laws_lower_libs]
    by (simp add: demo_result_def demo_normal_12)
  then show ?thesis by (simp add: wf_result_def)
qed

definition demo_sent :: mercury_state where
  "demo_sent = demo_checked\<lparr>s_signed_transaction := Some demo_signed, s_tx_hash := Some ''0xbb''\<rparr>"

lemma demo_receipt:
  "receipt_result demo_deps demo_sent = Inr (demo_executable, demo_result)"
proof -
  have "result_from_receipt lower_libs demo_sent \<lparr>rc_tx_hash = ''0xbb'', rc_status = CONFIRMED,
      rc_block_number = Some 100, rc_gas_used = Some 21000\<rparr> = mk_execution_result lower_libs demo_result"
    by (simp add: result_from_receipt_def result_from_state_def result_chain_def result_chain_id_def
        result_wallet_id_def demo_sent_def demo_checked_def demo_resolved_def demo_prepared_def demo_result_def
        int_or_def Let_def)
  with demo_result_valid show ?thesis
    by (simp add: receipt_result_def executable_from_state_def demo_deps_def demo_deps_bc_def demo_backend_def)
       (simp add: demo_sent_def demo_checked_def)
qed

lemma demo_run: "run_pipeline demo_deps demo_state demo_world = (Inr demo_final, demo_world_final)"
proof -
  let ?w = "log_event (Asked demo_request (Inr demo_approval)) demo_world"
  have h: "holds_key demo_checked demo_executable ''k1''"
    by (simp add: holds_key_def demo_checked_def demo_executable_def)
  have none: "s_execution_result demo_checked = None" "s_signed_transaction demo_checked = None"
    by (simp_all add: demo_checked_def demo_state_def empty_state_def)
  have exec: "executable_from_state demo_checked = Inr demo_executable"
    by (simp add: executable_from_state_def demo_checked_def)
  have free: "w_store ?w ''k1'' = None" by (simp add: demo_world_def)
  let ?w1 = "?w\<lparr>w_store := (w_store ?w)(''k1'' \<mapsto> fresh_record ''k1'')\<rparr>"
  let ?w2 = "log_event (SignerCalled demo_sign_request (Inr demo_signed)) ?w1"
  let ?w3 = "log_event (Broadcast demo_signed (Inr ''0xbb'')) ?w2"
  have sign: "sign_transaction demo_deps demo_checked ?w1 =
      (Inr (demo_checked\<lparr>s_signed_transaction := Some demo_signed\<rparr>), ?w2)"
    using demo_sign_built exec
    by (simp add: sign_transaction_def call_signer_def Let_def demo_deps_def demo_deps_bc_def demo_signer_def)
  have bcast: "broadcast_transaction demo_deps (demo_checked\<lparr>s_signed_transaction := Some demo_signed\<rparr>) ?w2 =
      (Inr demo_sent, ?w3)"
    using none by (simp add: broadcast_transaction_def call_broadcast_def Let_def demo_deps_def demo_deps_bc_def
        demo_backend_def demo_sent_def)
  have "monitor_body demo_deps demo_sent ?w3 =
      Inr (demo_result, ?w3\<lparr>w_store := (w_store ?w3)(''k1'' \<mapsto> done_record ''k1'' demo_result)\<rparr>)"
    by (simp add: monitor_body_def demo_receipt complete_with_def demo_executable_def store_complete_done)
  moreover have "s_execution_result demo_sent = None" using none by (simp add: demo_sent_def)
  ultimately have mon: "monitor_receipt demo_deps demo_sent ?w3 = (Inr demo_final, demo_world_final)"
    by (simp add: monitor_receipt_def demo_final_def demo_sent_def demo_world_final_def demo_log_def
        demo_world_def log_event_def)
  show ?thesis
    unfolding demo_front [of "\<lambda>_. Inr ''0xbb''", folded demo_deps_def]
      check_free [OF h free none(1)]
    by (simp only: run_from_unfold(7-9) sign bcast mon prod.case sum.case)
qed

section \<open>Guarantees\<close>

text \<open>C5: the signer is called only for a transaction whose simulation passed, which the policy
  engine did not reject, which a human approved when it moves value, and whose idempotency
  key was free and is reserved by this run.\<close>

theorem signer_called_only_after_checks:
  assumes "cleared s0" and "wf_store st0"
    and "run_pipeline d s0 \<lparr>w_store = st0, w_log = []\<rparr> = (out, w)"
    and "SignerCalled r x \<in> set (w_log w)"
  shows "\<exists>t sim dec k. build_sign_request (d_libs d) t = Inr r \<and>
    be_simulate (d_backend d) t = Inr sim \<and> sim_passed sim \<and>
    evaluate (d_libs d) (d_chains d) (d_policy_engine d) t (Some sim) = Inr dec \<and>
    pd_status dec \<noteq> REJECTED_BY_POLICY \<and>
    (is_value_moving t \<longrightarrow> (\<exists>q a. build_approval_request t = Inr q \<and> d_approver d q = Inr a \<and>
       apr_approved a \<and> Asked q (Inr a) \<in> set (w_log w))) \<and>
    exec_idempotency_key t = Some k \<and> k \<noteq> [] \<and> st0 k = None"
  using signed_run_evidence [OF assms(1) _ assms(3,4)] assms(2)
  by (fastforce simp: checks_passed_def approved_by_human_def)

lemma demo_world_eq: "demo_world = \<lparr>w_store = Map.empty, w_log = []\<rparr>"
  by (simp add: demo_world_def)

lemmas demo_run_eq = demo_run [unfolded demo_world_eq]

theorem signer_called_only_after_checks_witness:
  "\<exists>t sim dec k. build_sign_request (d_libs demo_deps) t = Inr demo_sign_request \<and>
    be_simulate (d_backend demo_deps) t = Inr sim \<and> sim_passed sim \<and>
    evaluate (d_libs demo_deps) (d_chains demo_deps) (d_policy_engine demo_deps) t (Some sim) = Inr dec \<and>
    pd_status dec \<noteq> REJECTED_BY_POLICY \<and>
    (is_value_moving t \<longrightarrow> (\<exists>q a. build_approval_request t = Inr q \<and> d_approver demo_deps q = Inr a \<and>
       apr_approved a \<and> Asked q (Inr a) \<in> set (w_log demo_world_final))) \<and>
    exec_idempotency_key t = Some k \<and> k \<noteq> [] \<and> (Map.empty :: idem_store) k = None"
  by (rule signer_called_only_after_checks [OF demo_cleared wf_store_empty demo_run_eq])
     (simp add: demo_world_final_def demo_log_def)

text \<open>C8: the calls of one run: at most one question to the approver, then at most one call of
  the signer, then at most one broadcast, of the transaction the signer returned in this run.\<close>

theorem pipeline_call_order:
  assumes "cleared s0" and "wf_store st0"
    and "run_pipeline d s0 \<lparr>w_store = st0, w_log = []\<rparr> = (out, w)"
  shows "\<exists>asked rest. w_log w = asked @ rest \<and> length asked \<le> 1 \<and> (\<forall>ev \<in> set asked. is_asked ev) \<and>
    (rest = [] \<or> (\<exists>r e. rest = [SignerCalled r (Inl e)]) \<or>
     (\<exists>r x b. rest = [SignerCalled r (Inr x), Broadcast x b]))"
proof -
  let ?w0 = "\<lparr>w_store = st0, w_log = []\<rparr>"
  have "run_shape d ?w0 out w" using run_pipeline_shape [OF assms(1) _ assms(3)] assms(2) by simp
  then show ?thesis
  proof cases
    case early
    then have "w_log w = [] \<or> (\<exists>r a. w_log w = [Asked r a])" by (auto simp: stopped_early_def)
    then show ?thesis by (intro exI [of _ "w_log w"] exI [of _ "[]"]) (auto simp: is_asked_def)
  next
    case (refused t dec sim)
    from approval_evidence_log [OF refused(1)] show ?thesis
      by (intro exI [of _ "w_log w"] exI [of _ "[]"]) auto
  next
    case (executed t dec w1 sim k evs)
    from approval_evidence_log [OF executed(1)] tail_events [OF executed(6)] executed(7)
    show ?thesis by (intro exI [of _ "w_log w1"] exI [of _ evs]) auto
  qed
qed

theorem pipeline_call_order_witness:
  "\<exists>asked rest. w_log demo_world_final = asked @ rest \<and> length asked \<le> 1 \<and> (\<forall>ev \<in> set asked. is_asked ev) \<and>
    (rest = [] \<or> (\<exists>r e. rest = [SignerCalled r (Inl e)]) \<or>
     (\<exists>r x b. rest = [SignerCalled r (Inr x), Broadcast x b]))"
  by (rule pipeline_call_order [OF demo_cleared wf_store_empty demo_run_eq])

text \<open>C6: a run that submits nothing leaves the idempotency store as it found it: a reserved key
  is released again after a signing or broadcast failure.\<close>

theorem unsent_run_restores_store:
  assumes "cleared s0" and "wf_store st0"
    and "run_pipeline d s0 \<lparr>w_store = st0, w_log = []\<rparr> = (out, w)"
    and "\<forall>x h. Broadcast x (Inr h) \<notin> set (w_log w)"
  shows "w_store w = st0"
proof -
  let ?w0 = "\<lparr>w_store = st0, w_log = []\<rparr>"
  have "run_shape d ?w0 out w" using run_pipeline_shape [OF assms(1) _ assms(3)] assms(2) by simp
  then show ?thesis
  proof cases
    case early
    then show ?thesis by (auto simp: stopped_early_def)
  next
    case (refused t dec sim)
    then show ?thesis using approval_evidence_store by fastforce
  next
    case (executed t dec w1 sim k evs)
    with assms(4) tail_store [OF executed(6)] show ?thesis by simp
  qed
qed

lemma demo_down_log:
  "\<exists>out w. run_pipeline demo_deps_down demo_state demo_world = (out, w) \<and>
     (\<forall>x h. Broadcast x (Inr h) \<notin> set (w_log w)) \<and> length (w_log w) = 3"
proof -
  let ?d = demo_deps_down
  let ?w = "log_event (Asked demo_request (Inr demo_approval)) demo_world"
  let ?w1 = "?w\<lparr>w_store := (w_store ?w)(''k1'' \<mapsto> fresh_record ''k1'')\<rparr>"
  let ?w2 = "log_event (SignerCalled demo_sign_request (Inr demo_signed)) ?w1"
  let ?s = "demo_checked\<lparr>s_signed_transaction := Some demo_signed\<rparr>"
  have h: "holds_key demo_checked demo_executable ''k1''" "holds_key ?s demo_executable ''k1''"
    by (simp_all add: holds_key_def demo_checked_def demo_executable_def)
  have none: "s_execution_result demo_checked = None" "s_execution_result ?s = None"
    by (simp_all add: demo_checked_def demo_state_def empty_state_def)
  have free: "w_store ?w ''k1'' = None" by (simp add: demo_world_def)
  have sign: "sign_transaction ?d demo_checked ?w1 = (Inr ?s, ?w2)"
    using demo_sign_built holds_key_state(2) [OF h(1)]
    by (simp add: sign_transaction_def call_signer_def Let_def demo_deps_down_def demo_deps_bc_def demo_signer_def)
  obtain out w where run: "run_from ?d BroadcastTransaction ?s ?w2 = (out, w)" by fastforce
  have "run_pipeline ?d demo_state demo_world = (out, w)"
    unfolding demo_deps_down_def demo_front
    unfolding demo_deps_down_def [symmetric] check_free [OF h(1) free none(1)]
    by (simp only: run_from_unfold(7) sign run prod.case sum.case)
  moreover have "w_log w = w_log ?w2 @ [Broadcast demo_signed (Inl (Exn ConnectionError ''connection refused''))]"
    using broadcast_tail [where st = "w_store ?w" and x = demo_signed, OF h(2) none(2) _ free _ run]
    by (simp add: demo_deps_down_def demo_deps_bc_def)
  ultimately show ?thesis by (auto simp: demo_world_def)
qed

theorem unsent_run_restores_store_witness:
  "\<exists>out w. run_pipeline demo_deps_down demo_state \<lparr>w_store = Map.empty, w_log = []\<rparr> = (out, w) \<and>
     length (w_log w) = 3 \<and> w_store w = Map.empty"
proof -
  from demo_down_log obtain out w where
    run: "run_pipeline demo_deps_down demo_state \<lparr>w_store = Map.empty, w_log = []\<rparr> = (out, w)" and
    no: "\<forall>x h. Broadcast x (Inr h) \<notin> set (w_log w)" and l: "length (w_log w) = 3"
    by (auto simp: demo_world_def)
  from unsent_run_restores_store [OF demo_cleared wf_store_empty run no] run l show ?thesis by simp
qed

text \<open>C7: a run that submits a transaction and returns submitted what the signer made of the transaction
  in the state it returns; that transaction has a key which was free, and under this key, in front of the unchanged rest
  of the store, stands exactly the result the run returns. Only when the node answered the broadcast with a blank
  transaction hash may the key be released instead, which leaves the store as it was.\<close>

theorem sent_run_records_result:
  assumes "cleared s0" and "wf_store st0"
    and "run_pipeline d s0 \<lparr>w_store = st0, w_log = []\<rparr> = (Inr s, w)"
    and "Broadcast x (Inr h) \<in> set (w_log w)"
  shows "\<exists>t k r res. s_executable_transaction s = Some t \<and> exec_idempotency_key t = Some k \<and> k \<noteq> [] \<and> st0 k = None \<and>
    build_sign_request (d_libs d) t = Inr r \<and> sg_sign_transaction (d_signer d) r = Inr x \<and>
    SignerCalled r (Inr x) \<in> set (w_log w) \<and> s_execution_result s = Some res \<and>
    (w_store w = st0(k \<mapsto> \<lparr>ik_key = k, ik_status = COMPLETED, ik_result = Some res\<rparr>) \<or>
     py_strip h = [] \<and> w_store w = st0)"
proof -
  let ?w0 = "\<lparr>w_store = st0, w_log = []\<rparr>"
  have "run_shape d ?w0 (Inr s) w" using run_pipeline_shape [OF assms(1) _ assms(3)] assms(2) by simp
  then show ?thesis
  proof cases
    case early
    with assms(4) show ?thesis by (auto simp: stopped_early_def)
  next
    case (refused t dec sim)
    then show ?thesis using approval_evidence_asked [OF refused(1) _ assms(4)] by simp
  next
    case (executed t dec w1 sim k evs)
    from approval_evidence_log [OF executed(1)] have "Broadcast x (Inr h) \<notin> set (w_log w1)"
      by (auto simp: is_asked_def)
    with assms(4) executed(7) have "Broadcast x (Inr h) \<in> set evs" by simp
    from tail_submitted [OF executed(6) this] executed(3,4,5,7,8) show ?thesis
      by (auto simp: done_record_def)
  qed
qed

theorem sent_run_records_result_witness:
  "\<exists>t k r res. s_executable_transaction demo_final = Some t \<and> exec_idempotency_key t = Some k \<and> k \<noteq> [] \<and>
    (Map.empty :: idem_store) k = None \<and>
    build_sign_request (d_libs demo_deps) t = Inr r \<and> sg_sign_transaction (d_signer demo_deps) r = Inr demo_signed \<and>
    SignerCalled r (Inr demo_signed) \<in> set (w_log demo_world_final) \<and> s_execution_result demo_final = Some res \<and>
    (w_store demo_world_final = Map.empty(k \<mapsto> \<lparr>ik_key = k, ik_status = COMPLETED, ik_result = Some res\<rparr>) \<or>
     py_strip ''0xbb'' = [] \<and> w_store demo_world_final = Map.empty)"
proof (rule sent_run_records_result [OF demo_cleared wf_store_empty demo_run_eq])
  show "Broadcast demo_signed (Inr ''0xbb'') \<in> set (w_log demo_world_final)"
    by (simp add: demo_world_final_def demo_log_def)
qed

section \<open>Interleaved requests\<close>

text \<open>C4: over any interleaving of any number of requests that share the store, at most one
  request per idempotency key submits a transaction, every request that submits has a key,
  and it broadcasts exactly once.\<close>

theorem at_most_one_submission_per_key:
  assumes "\<And>i. backend_contract (d_backend (D i))" and "sys_reach D y"
    and "sent y i" and "sent y j" and "request_key y i = request_key y j"
  shows "i = j \<and> request_key y i \<noteq> None \<and> broadcasts y i = 1"
proof -
  have ok: "sys_ok y" using sys_reach_ok assms(1,2) by blast
  then have "sent_settled y" by (simp add: sys_ok_def)
  then obtain k where k: "request_key y i = Some k" "key_settled y i k" "past_broadcast y i"
    using assms(3) by (auto simp: sent_settled_def)
  with assms(4,5) have "j = i" by (simp add: key_settled_def)
  moreover have "broadcasts y i \<le> (if past_broadcast y i then 1 else 0)"
    using ok unfolding sys_ok_def by blast
  moreover have "broadcasts y i \<noteq> 0"
    using assms(3) by (force simp: sent_def broadcasts_def filter_empty_conv)
  ultimately show ?thesis using k(1,3) by simp
qed

lemma demo_contract: "backend_contract (d_backend demo_deps)"
proof -
  have "is_hex_data ''0xbb''" by code_simp
  then show ?thesis
    by unfold_locales (auto simp: demo_deps_def demo_deps_bc_def demo_backend_def
        mk_transaction_receipt_def result_simps)
qed

definition demo_system :: system where
  "demo_system = \<lparr>sy_at = (\<lambda>_. (Some ResolveNonce, demo_state)), sy_store = Map.empty, sy_log = []\<rparr>"

theorem at_most_one_submission_per_key_witness:
  "\<exists>y. sys_reach (\<lambda>_. demo_deps) y \<and> sent y 0 \<and> request_key y 0 = Some ''k1'' \<and> broadcasts y 0 = 1"
proof -
  have "sys_reach (\<lambda>_. demo_deps) demo_system"
    by (rule sys_reach.init) (simp add: sys_init_def demo_system_def demo_cleared)
  moreover have "run_from demo_deps ResolveNonce demo_state \<lparr>w_store = sy_store demo_system, w_log = []\<rparr> =
      (Inr demo_final, demo_world_final)"
    using demo_run_eq by (simp add: run_pipeline_def demo_system_def)
  ultimately obtain y evs where y: "sys_reach (\<lambda>_. demo_deps) y" and
    evs: "w_log demo_world_final = evs" "sy_log y = map (Pair 0) evs" and at: "sy_at y 0 = (None, demo_final)"
    using run_from_reach [of "\<lambda>_. demo_deps" demo_system 0 ResolveNonce demo_state "[]" demo_final demo_world_final]
    by (auto simp: demo_system_def)
  have sent: "sent y 0" using evs by (auto simp: sent_def demo_world_final_def demo_log_def)
  have "request_key y 0 = Some ''k1''"
    using at by (simp add: request_key_def idempotency_key_from_state_def demo_final_def demo_checked_def
        demo_executable_def)
  with at_most_one_submission_per_key [of "\<lambda>_. demo_deps", OF demo_contract y sent sent] y sent
  show ?thesis by auto
qed

end
