(* ===== verification/Component_Properties.thy ===== *)
theory Component_Properties
  imports Pipeline_Properties
begin

text \<open>
  The guarantees of the components around the pipeline: the policy engine and its rules, the approver and the
  web3 backend.
\<close>

section \<open>Policy\<close>

text \<open>C11: the policy engine lets a transaction pass (to approval or straight to signing) exactly when
  every condition of its declarative reading holds: supported and matching chain, identity
  and key, passed simulation, gas within the limit, and the rules of the ERC20, native and
  swap actions; otherwise it rejects or raises.\<close>

theorem policy_engine_equivalence:
  assumes "web3_laws L"
  shows "(\<exists>dec. evaluate L C E t sim = Inr dec \<and> pd_status dec \<noteq> REJECTED_BY_POLICY)
    \<longleftrightarrow> policy_accepts L C E t sim"
  by (rule evaluate_accepts [OF assms])

theorem policy_engine_equivalence_witness:
  "policy_accepts lower_libs demo_chains default_engine demo_executable (Some demo_sim)"
proof -
  have "\<exists>dec. evaluate lower_libs demo_chains default_engine demo_executable (Some demo_sim) = Inr dec \<and>
      pd_status dec \<noteq> REJECTED_BY_POLICY"
    by (simp add: demo_evaluate demo_decision_def)
  then show ?thesis
    using policy_engine_equivalence [OF web3_laws_lower_libs] by blast
qed

text \<open>No transaction that moves value or carries one of the known actions is allowed without a
  human decision, whatever the libraries, the chain table and the configuration of the engine.\<close>

theorem value_moving_never_auto_allowed:
  assumes "evaluate L C E t sim = Inr dec"
    and "is_value_moving t \<or> (\<exists>a \<in> set known_actions. has_action t a)"
  shows "pd_status dec = NEEDS_APPROVAL \<or> pd_status dec = REJECTED_BY_POLICY"
  using evaluate_allowed [OF assms(1)] assms(2) by (cases "pd_status dec") auto

theorem value_moving_never_auto_allowed_witness:
  "pd_status demo_decision = NEEDS_APPROVAL \<or> pd_status demo_decision = REJECTED_BY_POLICY"
  by (rule value_moving_never_auto_allowed [OF demo_evaluate])
     (simp add: is_value_moving_def demo_executable_def)

text \<open>The engine reads no more of an approval's calldata than its selector and its length.\<close>

lemma approval_data_unread:
  assumes "has_action t ERC20_APPROVAL" and "standard_calldata ERC20_APPROVAL_SELECTOR_PREFIX (exec_data t)"
    and "standard_calldata ERC20_APPROVAL_SELECTOR_PREFIX D"
  shows "evaluate L C E (t\<lparr>exec_data := D\<rparr>) sim = evaluate L C E t sim"
proof -
  let ?t = "t\<lparr>exec_data := D\<rparr>"
  have act: "has_action ?t a = has_action t a" for a by (simp add: has_action_def)
  have only: "\<not> has_action t ERC20_TRANSFER" "\<not> has_action t NATIVE_TRANSFER_ACTION" "\<not> has_action t ''swap''"
    using assms(1) by (simp_all add: has_action_def ERC20_TRANSFER_def ERC20_APPROVAL_def NATIVE_TRANSFER_ACTION_def)
  have moving: "is_value_moving ?t" "is_value_moving t"
    using assms(2,3) by (auto simp: is_value_moving_def standard_calldata_def MIN_STANDARD_ERC20_CALLDATA_LENGTH_def)
  have same: "exec_to ?t = exec_to t" "exec_value_wei ?t = exec_value_wei t" "metadata_address L ?t k = metadata_address L t k"
    "is_unlimited ?t = is_unlimited t" for k
    by (simp_all add: metadata_address_def is_unlimited_def)
  have std: "standard_calldata ERC20_APPROVAL_SELECTOR_PREFIX (exec_data ?t) =
      standard_calldata ERC20_APPROVAL_SELECTOR_PREFIX (exec_data t)" using assms(2,3) by simp
  have "erc20_approval_policy L u ?t = erc20_approval_policy L u t" for u
    unfolding erc20_approval_policy_def std same ..
  then have "erc20_policy_reason L u v ?t = erc20_policy_reason L u v t" for u v
    using act only by (simp add: erc20_policy_reason_def)
  moreover have "native_transfer_policy_reason L ?t = native_transfer_policy_reason L t"
    "swap_transaction_policy_reason L (pe_swap_policy_config E) ?t = swap_transaction_policy_reason L (pe_swap_policy_config E) t"
    using act only by (simp_all add: native_transfer_policy_reason_def swap_transaction_policy_reason_def)
  moreover have "invalid_transaction_reason L ?t = invalid_transaction_reason L t"
    "unsupported_chain_reason L C ?t = unsupported_chain_reason L C t"
    "excessive_gas_reason (pe_max_gas_limit E) ?t = excessive_gas_reason (pe_max_gas_limit E) t"
    using moving
    by (auto simp: invalid_transaction_reason_def unsupported_chain_reason_def excessive_gas_reason_def
        split: sum.split option.split)
  moreover have "approval_reason ?t = approval_reason t"
    using act only moving
    by (simp add: approval_reason_def erc20_approval_reason_def native_transfer_approval_reason_def swap_approval_reason_def)
  ultimately show ?thesis by (simp add: evaluate_def rejection_reason_def cong: option.case_cong)
qed

lemma approval_needs_human:
  assumes "has_action t ERC20_APPROVAL" and "evaluate L C E t sim = Inr dec" and "pd_status dec \<noteq> REJECTED_BY_POLICY"
  shows "pd_status dec = NEEDS_APPROVAL"
proof -
  have made: "pd_status x = st" if "mk_policy_decision st r = Inr x" for st r x
    using that by (auto simp: mk_policy_decision_def finish_def split: if_splits)
  have "erc20_approval_reason t \<noteq> None" using assms(1) by (simp add: erc20_approval_reason_def)
  then obtain a where a: "approval_reason t = Some a" by (auto simp: approval_reason_def)
  from assms(2) obtain reason where "rejection_reason L C E t sim = Inr reason"
    and r: "(case reason of Some r \<Rightarrow> mk_policy_decision REJECTED_BY_POLICY r
      | None \<Rightarrow> mk_policy_decision NEEDS_APPROVAL a) = Inr dec"
    unfolding evaluate_def a rbind_eq_Inr option.case by blast
  with made assms(3) show ?thesis by (cases reason) auto
qed

text \<open>C12: an ERC20 approval that the default engine does not reject calls the token contract with standard approve
  calldata, sends no native value, names in its metadata a spender other than the zero address, is not declared unlimited in
  its metadata (neither by the flag nor by an amount of 2^256 - 1), and still needs a human's approval. The metadata is all
  that the limit is enforced on: any other calldata with the approve selector and the standard length, whatever spender and amount it
  encodes, gets the same decision.\<close>

theorem erc20_approval_policy_sound:
  assumes "web3_laws L" and "has_action t ERC20_APPROVAL"
    and "evaluate L C default_engine t sim = Inr dec" and "pd_status dec \<noteq> REJECTED_BY_POLICY"
  shows "dget_none (exec_metadata t) ''unlimited_approval'' \<noteq> PBool True \<and>
    dget_none (exec_metadata t) ''amount_raw'' \<noteq> PInt (2 ^ 256 - 1) \<and> exec_value_wei t = 0 \<and>
    prefix ''0x095ea7b3'' (py_lower (exec_data t)) \<and> 138 \<le> length (exec_data t) \<and>
    (\<exists>token. metadata_address L t ''token_address'' = Inr token \<and>
       normalize_evm_address L (exec_to t) = Inr token) \<and>
    (\<exists>s. metadata_address L t ''spender_address'' = Inr s \<and> s \<noteq> to_checksum_address L ZERO_ADDRESS) \<and>
    pd_status dec = NEEDS_APPROVAL \<and>
    (\<forall>D. prefix ''0x095ea7b3'' (py_lower D) \<and> 138 \<le> length D \<longrightarrow>
       evaluate L C default_engine (t\<lparr>exec_data := D\<rparr>) sim = Inr dec)"
proof -
  have "policy_accepts L C default_engine t sim" using evaluate_not_rejected(1) assms by blast
  with assms(2) have ok: "approval_ok L True t" by (simp add: policy_accepts_def default_engine_def)
  note defs = standard_calldata_def ERC20_APPROVAL_SELECTOR_PREFIX_def MIN_STANDARD_ERC20_CALLDATA_LENGTH_def
  from ok have std: "standard_calldata ERC20_APPROVAL_SELECTOR_PREFIX (exec_data t)"
    by (simp add: approval_ok_def token_call_ok_def)
  have "evaluate L C default_engine (t\<lparr>exec_data := D\<rparr>) sim = Inr dec"
    if "prefix ''0x095ea7b3'' (py_lower D) \<and> 138 \<le> length D" for D
    using approval_data_unread [OF assms(2) std, of D] std that assms(3) by (simp add: defs)
  moreover have "dget_none (exec_metadata t) ''amount_raw'' \<noteq> PInt (2 ^ 256 - 1)"
    "dget_none (exec_metadata t) ''unlimited_approval'' \<noteq> PBool True"
    using ok by (auto simp: approval_ok_def is_unlimited_def MAX_UINT256_def)
  ultimately show ?thesis using ok std approval_needs_human [OF assms(2-4)]
    by (simp add: approval_ok_def token_call_ok_def defs)
qed

definition demo_approve_tx :: executable_transaction where
  "demo_approve_tx = demo_executable\<lparr>exec_value_wei := 0,
     exec_data := ''0x095ea7b3'' @ replicate 128 (CHR ''1''),
     exec_metadata := [(''action'', PStr ''erc20_approval''),
       (''token_address'', PStr (demo_address (CHR ''1''))),
       (''spender_address'', PStr (demo_address (CHR ''2''))), (''amount_raw'', PInt 10)]\<rparr>"

lemma demo_not_zero: "demo_address (CHR ''2'') \<noteq> to_checksum_address lower_libs ZERO_ADDRESS"
proof -
  have "to_checksum_address lower_libs ZERO_ADDRESS = ZERO_ADDRESS" by (simp add: lower_libs_def lower_ZERO)
  moreover have "demo_address (CHR ''2'') ! 2 \<noteq> ZERO_ADDRESS ! 2"
    by (simp add: demo_address_def ZERO_ADDRESS_def)
  ultimately show ?thesis by metis
qed

lemma demo_approve_accepted:
  "policy_accepts lower_libs demo_chains default_engine demo_approve_tx (Some demo_sim)"
proof -
  have "py_lower ''0x095ea7b3'' = ''0x095ea7b3''" by code_simp
  then have "standard_calldata ERC20_APPROVAL_SELECTOR_PREFIX (exec_data demo_approve_tx)"
    by (simp add: standard_calldata_def ERC20_APPROVAL_SELECTOR_PREFIX_def py_lower_def
        MIN_STANDARD_ERC20_CALLDATA_LENGTH_def demo_approve_tx_def)
  then have "approval_ok lower_libs True demo_approve_tx"
    using demo_not_zero demo_normal_12
    by (simp add: approval_ok_def token_call_ok_def demo_approve_tx_def metadata_address_def normalize_normal
        is_unlimited_def MAX_UINT256_def demo_executable_def)
  then show ?thesis
    unfolding policy_accepts_def chain_ok_def identity_ok_def
    using demo_chain normalize_normal [OF demo_normal_12(1)]
    by (simp add: demo_executable_def demo_chains_def demo_sim_def sim_passed_def key_missing_def
        default_engine_def has_action_def demo_approve_tx_def ERC20_TRANSFER_def ERC20_APPROVAL_def
        NATIVE_TRANSFER_ACTION_def)
qed

theorem erc20_approval_policy_sound_witness:
  "\<exists>dec. evaluate lower_libs demo_chains default_engine demo_approve_tx (Some demo_sim) = Inr dec \<and>
    pd_status dec = NEEDS_APPROVAL \<and>
    evaluate lower_libs demo_chains default_engine
      (demo_approve_tx\<lparr>exec_data := ''0x095ea7b3'' @ replicate 128 (CHR ''f'')\<rparr>) (Some demo_sim) = Inr dec"
proof -
  obtain dec where dec: "evaluate lower_libs demo_chains default_engine demo_approve_tx (Some demo_sim) = Inr dec"
    "pd_status dec \<noteq> REJECTED_BY_POLICY"
    using evaluate_accepts [OF web3_laws_lower_libs] demo_approve_accepted by blast
  have "has_action demo_approve_tx ERC20_APPROVAL"
    by (simp add: has_action_def demo_approve_tx_def ERC20_APPROVAL_def)
  moreover have "py_lower ''0x095ea7b3'' = ''0x095ea7b3''" by code_simp
  then have "prefix ''0x095ea7b3'' (py_lower (''0x095ea7b3'' @ replicate 128 (CHR ''f'')))"
    by (simp add: py_lower_def)
  ultimately show ?thesis using erc20_approval_policy_sound [OF web3_laws_lower_libs _ dec] dec(1) by simp
qed

text \<open>A native transfer that the policy lets through moves a positive amount with empty calldata
  to the recipient named in its metadata, who is neither the zero address nor the sender.\<close>

theorem native_transfer_policy_sound:
  assumes "web3_laws L" and "has_action t NATIVE_TRANSFER_ACTION"
    and "evaluate L C E t sim = Inr dec" and "pd_status dec \<noteq> REJECTED_BY_POLICY"
  shows "0 < exec_value_wei t \<and> exec_data t = ''0x'' \<and>
    (\<exists>r. metadata_address L t ''recipient_address'' = Inr r \<and> normalize_evm_address L (exec_to t) = Inr r \<and>
       r \<noteq> to_checksum_address L ZERO_ADDRESS \<and>
       (\<forall>f. exec_from_address t = Some f \<longrightarrow> normalize_evm_address L f \<noteq> Inr r))"
proof -
  have "policy_accepts L C E t sim" using evaluate_not_rejected(1) assms by blast
  with assms(2) have "native_ok L t" by (simp add: policy_accepts_def)
  then show ?thesis by (fastforce simp: native_ok_def not_sender_def)
qed

definition demo_native_tx :: executable_transaction where
  "demo_native_tx = demo_executable\<lparr>exec_metadata := [(''action'', PStr ''native_transfer''),
     (''recipient_address'', PStr (demo_address (CHR ''1'')))]\<rparr>"

lemma demo_one_not_zero: "demo_address (CHR ''1'') \<noteq> to_checksum_address lower_libs ZERO_ADDRESS"
proof -
  have "to_checksum_address lower_libs ZERO_ADDRESS = ZERO_ADDRESS" by (simp add: lower_libs_def lower_ZERO)
  moreover have "demo_address (CHR ''1'') ! 2 \<noteq> ZERO_ADDRESS ! 2"
    by (simp add: demo_address_def ZERO_ADDRESS_def)
  ultimately show ?thesis by metis
qed

lemma demo_native_accepted:
  "policy_accepts lower_libs demo_chains default_engine demo_native_tx (Some demo_sim)"
proof -
  have "demo_address (CHR ''1'') \<noteq> demo_address (CHR ''2'')"
    by (simp add: demo_address_def replicate_eq_replicate)
  then have "native_ok lower_libs demo_native_tx"
    using demo_one_not_zero demo_normal_12
    by (simp add: native_ok_def not_sender_def demo_native_tx_def metadata_address_def normalize_normal
        demo_executable_def)
  then show ?thesis
    unfolding policy_accepts_def chain_ok_def identity_ok_def
    using demo_chain normalize_normal [OF demo_normal_12(1)]
    by (simp add: demo_executable_def demo_chains_def demo_sim_def sim_passed_def key_missing_def
        default_engine_def has_action_def demo_native_tx_def ERC20_TRANSFER_def ERC20_APPROVAL_def
        NATIVE_TRANSFER_ACTION_def)
qed

theorem native_transfer_policy_sound_witness:
  "0 < exec_value_wei demo_native_tx \<and> exec_data demo_native_tx = ''0x'' \<and>
    (\<exists>r. metadata_address lower_libs demo_native_tx ''recipient_address'' = Inr r \<and>
       normalize_evm_address lower_libs (exec_to demo_native_tx) = Inr r \<and>
       r \<noteq> to_checksum_address lower_libs ZERO_ADDRESS \<and>
       (\<forall>f. exec_from_address demo_native_tx = Some f \<longrightarrow> normalize_evm_address lower_libs f \<noteq> Inr r))"
proof -
  obtain dec where "evaluate lower_libs demo_chains default_engine demo_native_tx (Some demo_sim) = Inr dec"
    "pd_status dec \<noteq> REJECTED_BY_POLICY"
    using evaluate_accepts [OF web3_laws_lower_libs] demo_native_accepted by blast
  moreover have "has_action demo_native_tx NATIVE_TRANSFER_ACTION"
    by (simp add: has_action_def demo_native_tx_def NATIVE_TRANSFER_ACTION_def)
  ultimately show ?thesis using native_transfer_policy_sound [OF web3_laws_lower_libs] by blast
qed

section \<open>Swap policy\<close>

lemma swap_quote_accepted:
  assumes "swap_quote_rejection_reason L C P now q = Inr None"
  shows "q_provider q \<in> set (allowed_providers P)"
    "\<forall>b. q_slippage_bps q = Some b \<longrightarrow> b \<le> max_slippage_bps P"
    "\<forall>e. q_expires_at q = Some e \<longrightarrow> dt_le e now = Inr False"
    "swap_route_reason L C P q = None"
  using assms
  by (auto simp: swap_quote_rejection_reason_def expired_def result_simps split: if_splits option.splits)

lemma swap_route_accepted:
  assumes "swap_route_reason L C P q = None"
  shows "\<exists>c. get_chain_by_name C (rq_chain (q_request q)) = Inr c \<and> cc_chain_id c = rq_chain_id (q_request q)"
    "rt_from_chain_id (q_route q) = rq_chain_id (q_request q)"
    "rt_route_kind (q_route q) \<noteq> BRIDGE \<longrightarrow> rt_to_chain_id (q_route q) = rq_chain_id (q_request q)"
    "rt_route_kind (q_route q) = BRIDGE \<longrightarrow> allow_bridges P \<and> (\<exists>c. get_chain_by_id C (rt_to_chain_id (q_route q)) = Inr c)"
    "rt_spender_address (q_route q) \<noteq> None"
    "\<forall>m. q_min_amount_out_raw q = Some m \<longrightarrow> m \<le> q_expected_amount_out_raw q"
    "rq_min_amount_out (q_request q) \<noteq> None \<longrightarrow> q_min_amount_out_raw q \<noteq> None"
  using assms unfolding swap_route_reason_def Let_def
  by (auto split: sum.splits if_splits option.splits)

text \<open>A swap execution is never allowed without a human decision, and one that may go on has an
  allowlisted provider, slippage within the limit, an unexpired quote, a route on the
  requested and supported chain with a spender, an expected output not below the minimum,
  and, for a bridge, a supported destination with bridges enabled.\<close>

theorem swap_execution_policy_sound:
  assumes "evaluate_swap_execution_policy L C P now x = Inr dec"
    and "pd_status dec \<noteq> REJECTED_BY_POLICY" and "q = sw_quote x"
  shows "pd_status dec = NEEDS_APPROVAL \<and> q_provider q \<in> set (allowed_providers P) \<and>
    (\<forall>b. q_slippage_bps q = Some b \<longrightarrow> b \<le> max_slippage_bps P) \<and>
    (\<forall>e. q_expires_at q = Some e \<longrightarrow> dt_le e now = Inr False) \<and>
    (\<exists>c. get_chain_by_name C (rq_chain (q_request q)) = Inr c \<and> cc_chain_id c = rq_chain_id (q_request q)) \<and>
    rt_from_chain_id (q_route q) = rq_chain_id (q_request q) \<and> rt_spender_address (q_route q) \<noteq> None \<and>
    (\<forall>m. q_min_amount_out_raw q = Some m \<longrightarrow> m \<le> q_expected_amount_out_raw q) \<and>
    (rt_route_kind (q_route q) \<noteq> BRIDGE \<longrightarrow> rt_to_chain_id (q_route q) = rq_chain_id (q_request q)) \<and>
    (rt_route_kind (q_route q) = BRIDGE \<longrightarrow>
       allow_bridges P \<and> (\<exists>c. get_chain_by_id C (rt_to_chain_id (q_route q)) = Inr c)) \<and>
    swap_execution_rejection_reason x = None"
proof -
  from assms(1) obtain reason where r: "swap_quote_rejection_reason L C P now (sw_quote x) = Inr reason"
    by (auto simp: evaluate_swap_execution_policy_def rbind_eq_Inr)
  have none: "reason = None" and x: "swap_execution_rejection_reason x = None"
    and st: "pd_status dec = NEEDS_APPROVAL"
    using assms(1,2) r
    by (auto simp: evaluate_swap_execution_policy_def mk_policy_decision_def split: option.splits)
  note a = swap_quote_accepted [OF r [unfolded none]]
  show ?thesis
    unfolding assms(3) using x st a(1-3) swap_route_accepted [OF a(4)] by simp
qed

definition demo_quote_request :: swap_quote_request where
  "demo_quote_request = \<lparr>rq_wallet_id = ''w1'', rq_wallet_address = demo_address (CHR ''2''),
     rq_chain = ''ethereum'', rq_chain_id = 1, rq_from_token = demo_address (CHR ''3''),
     rq_to_token = demo_address (CHR ''4''), rq_amount_in = ''1'', rq_amount_in_raw = 1000,
     rq_max_slippage_bps = Some 50, rq_min_amount_out = None, rq_recipient_address = None,
     rq_idempotency_key = ''k2'', rq_to_chain = None, rq_to_chain_id = None,
     rq_from_token_is_native = False, rq_wrapped_from_token = None\<rparr>"

definition demo_quote :: swap_quote where
  "demo_quote = \<lparr>q_provider = LIFI, q_request = demo_quote_request,
     q_route = \<lparr>rt_provider = LIFI, rt_route_id = ''r1'', rt_route_kind = SWAP, rt_from_chain_id = 1,
       rt_to_chain_id = 1, rt_from_token = demo_address (CHR ''3''), rt_to_token = demo_address (CHR ''4''),
       rt_spender_address = Some (demo_address (CHR ''5'')), rt_steps = []\<rparr>,
     q_amount_in_raw = 1000, q_expected_amount_out_raw = 990, q_min_amount_out_raw = Some 980,
     q_slippage_bps = Some 50, q_expires_at = Some (dt_utc 200),
     q_recipient_address = demo_address (CHR ''2''), q_raw_quote = []\<rparr>"

definition demo_swap :: swap_execution where
  "demo_swap = \<lparr>sw_provider = LIFI, sw_execution_type = EVM_TRANSACTION, sw_quote = demo_quote,
     sw_transaction = Some \<lparr>sx_chain_id = 1, sx_to = demo_address (CHR ''5''), sx_data = ''0xabcd'',
       sx_value_wei = 0\<rparr>, sw_order = None, sw_unsupported_reason = None, sw_raw_execution = []\<rparr>"

definition demo_swap_decision :: policy_decision where
  "demo_swap_decision = \<lparr>pd_status = NEEDS_APPROVAL, pd_reason = ''Human approval is required for swap execution.''\<rparr>"

lemma demo_swap_policy:
  "evaluate_swap_execution_policy lower_libs demo_chains default_swap_policy (dt_utc 100) demo_swap =
     Inr demo_swap_decision"
  using demo_chain
  by (simp add: evaluate_swap_execution_policy_def swap_quote_rejection_reason_def demo_swap_def demo_quote_def
      default_swap_policy_def expired_def swap_route_reason_def Let_def demo_quote_request_def
      demo_chains_def swap_execution_rejection_reason_def mk_policy_decision_def demo_swap_decision_def)

theorem swap_execution_policy_sound_witness:
  "pd_status demo_swap_decision = NEEDS_APPROVAL \<and> q_provider demo_quote \<in> set (allowed_providers default_swap_policy) \<and>
    50 \<le> max_slippage_bps default_swap_policy \<and> dt_le (dt_utc 200) (dt_utc 100) = Inr False \<and>
    rt_from_chain_id (q_route demo_quote) = 1 \<and> rt_to_chain_id (q_route demo_quote) = 1"
proof -
  have "pd_status demo_swap_decision \<noteq> REJECTED_BY_POLICY" "demo_quote = sw_quote demo_swap"
    by (simp_all add: demo_swap_decision_def demo_swap_def)
  from swap_execution_policy_sound [OF demo_swap_policy this] show ?thesis
    by (simp add: demo_quote_def demo_quote_request_def)
qed

section \<open>Approval\<close>

text \<open>The request-metadata approver approves only when the request carries an approval response
  whose status reads approved and whose idempotency key, when given, is the transaction's.\<close>

theorem approval_needs_explicit_consent:
  assumes "request_metadata_approver L r = Inr a" and "apr_approved a"
  shows "\<exists>raw. dget_none (ar_metadata r) ''approval_response'' = PDict raw \<and>
    approval_status_text L raw = ''approved'' \<and>
    (dget_none raw ''idempotency_key'' = PNone \<or>
     py_str L (dget_none raw ''idempotency_key'') = ar_idempotency_key r)"
proof -
  obtain raw where raw: "dget_none (ar_metadata r) ''approval_response'' = PDict raw"
    "approval_status_text L raw = ''approved''" "approval_key_matches L raw (ar_idempotency_key r)"
    using by_metadata.approves_only_consented [OF assms] unfolding metadata_consents_def by blast
  from raw(3) have "dget_none raw ''idempotency_key'' = PNone \<or>
     py_str L (dget_none raw ''idempotency_key'') = ar_idempotency_key r"
    by (auto simp: approval_key_matches_def split: pyval.splits)
  with raw show ?thesis by blast
qed

theorem approval_needs_explicit_consent_witness:
  "\<exists>raw. dget_none (ar_metadata demo_request) ''approval_response'' = PDict raw \<and>
    approval_status_text lower_libs raw = ''approved'' \<and>
    (dget_none raw ''idempotency_key'' = PNone \<or>
     py_str lower_libs (dget_none raw ''idempotency_key'') = ar_idempotency_key demo_request)"
  by (rule approval_needs_explicit_consent [of _ _ demo_approval])
     (use demo_approved in \<open>simp_all add: approved_by_human_def demo_deps_bc_def\<close>)

section \<open>The web3 backend\<close>

text \<open>C23: a simulation that passes ran on the transaction's own chain, its call succeeded, and the
  sender's balance covers the value plus the gas limit at the maximal fee.\<close>

theorem passed_simulation_covers_cost:
  assumes "web3_simulate L F t = Inr r" and "sim_passed r" and "exec_from_address t = Some a"
  shows "\<exists>p b. F (exec_chain t) = Inr p \<and> cc_chain_id (pv_chain p) = exec_chain_id t \<and>
    ec_call (pv_client p) (executable_fields t) = Inr () \<and> ec_get_balance (pv_client p) a = Inr b \<and>
    exec_value_wei t + gas_limit (exec_gas t) * fee_cap (exec_gas t) \<le> b"
proof -
  from web3_simulate_passed [OF assms(1,2)] obtain p where p: "F (exec_chain t) = Inr p"
    and s: "simulate_steps p t = Inr r" by blast
  from simulate_steps_passed [OF s assms(2)] assms(3) p show ?thesis by (auto simp: required_wei_def)
qed

definition demo_client :: eth_client where
  "demo_client = \<lparr>ec_transaction_count = (\<lambda>_. Inr 7), ec_estimate_gas = (\<lambda>_. Inr 21000),
     ec_max_priority_fee = Inr 2, ec_latest_base_fee = Inr 14, ec_gas_price = Inr 16,
     ec_call = (\<lambda>_. Inr ()), ec_get_balance = (\<lambda>_. Inr 1000000),
     ec_send_raw_transaction = (\<lambda>_. Inr [187]),
     ec_wait_for_receipt = (\<lambda>_ _. Inr \<lparr>rr_transaction_hash = Some [187], rr_status = Some 1,
       rr_block_number = Some 100, rr_gas_used = Some 21000\<rparr>),
     ec_block_numbers = []\<rparr>"

definition demo_factory :: provider_factory where
  "demo_factory _ = Inr \<lparr>pv_chain = hd demo_chains, pv_client = demo_client\<rparr>"

theorem passed_simulation_covers_cost_witness:
  "\<exists>p b. demo_factory (exec_chain demo_executable) = Inr p \<and> cc_chain_id (pv_chain p) = exec_chain_id demo_executable \<and>
    ec_call (pv_client p) (executable_fields demo_executable) = Inr () \<and>
    ec_get_balance (pv_client p) (demo_address (CHR ''2'')) = Inr b \<and>
    exec_value_wei demo_executable + gas_limit (exec_gas demo_executable) * fee_cap (exec_gas demo_executable) \<le> b"
proof (rule passed_simulation_covers_cost [of lower_libs])
  show "web3_simulate lower_libs demo_factory demo_executable = Inr demo_sim"
    by (simp add: web3_simulate_def demo_factory_def simulate_steps_def demo_chains_def demo_executable_def
        demo_client_def required_wei_def fee_cap_def int_or_def demo_gas_def mk_simulation_result_def
        demo_sim_def Let_def finish_def check_def opt_check_def)
  show "sim_passed demo_sim" by (simp add: sim_passed_def demo_sim_def)
  show "exec_from_address demo_executable = Some (demo_address (CHR ''2''))"
    by (simp add: demo_executable_def)
qed

text \<open>Gas that the backend populates is a valid fee record (positive limit and fees, one fee mode),
  and in the EIP-1559 mode the fee cap covers twice the block's base fee plus the tip.\<close>

theorem populated_gas_valid:
  assumes "web3_populate_gas F t = Inr g" and "prep_gas t = None"
  shows "mk_gas_fees g = Inr g \<and> (\<forall>f. max_fee_per_gas g = Some f \<longrightarrow>
    (\<exists>p tip base. F (prep_chain t) = Inr p \<and> max_priority_fee_per_gas g = Some tip \<and>
       ec_latest_base_fee (pv_client p) = Inr base \<and> f = base * 2 + tip))"
proof -
  from assms obtain p limit where p: "F (prep_chain t) = Inr p"
    and g: "rcatch (eip1559_fees (pv_client p) limit) (\<lambda>_. legacy_fees (pv_client p) limit) = Inr g"
    by (auto simp: web3_populate_gas_def rbind_eq_Inr)
  from g consider "eip1559_fees (pv_client p) limit = Inr g" | "legacy_fees (pv_client p) limit = Inr g"
    by (cases "eip1559_fees (pv_client p) limit") auto
  then show ?thesis
  proof cases
    case 1
    then obtain tip base where "ec_latest_base_fee (pv_client p) = Inr base"
      "mk_gas_fees \<lparr>gas_limit = limit, max_fee_per_gas = Some (base * 2 + tip),
         max_priority_fee_per_gas = Some tip, gas_price = None\<rparr> = Inr g"
      by (auto simp: eip1559_fees_def rbind_eq_Inr)
    with p mk_gas_fees_Inr show ?thesis by fastforce
  next
    case 2
    then obtain price where m: "mk_gas_fees \<lparr>gas_limit = limit, max_fee_per_gas = None,
        max_priority_fee_per_gas = None, gas_price = Some price\<rparr> = Inr g"
      by (auto simp: legacy_fees_def rbind_eq_Inr)
    with mk_gas_fees_Inr [OF m] show ?thesis by auto
  qed
qed

definition demo_populated :: gas_fees where
  "demo_populated = \<lparr>gas_limit = 21000, max_fee_per_gas = Some 30, max_priority_fee_per_gas = Some 2, gas_price = None\<rparr>"

theorem populated_gas_valid_witness:
  "mk_gas_fees demo_populated = Inr demo_populated \<and>
    (\<exists>p tip base. demo_factory (prep_chain demo_prepared) = Inr p \<and>
       max_priority_fee_per_gas demo_populated = Some tip \<and>
       ec_latest_base_fee (pv_client p) = Inr base \<and> 30 = base * 2 + tip)"
proof -
  have "web3_populate_gas demo_factory demo_prepared = Inr demo_populated"
    by (simp add: web3_populate_gas_def demo_factory_def demo_prepared_def demo_client_def eip1559_fees_def
        mk_gas_fees_def gas_errors_def finish_def check_def opt_check_def validate_fee_mode_def has_eip1559_def
        demo_populated_def)
  moreover have "prep_gas demo_prepared = None" by (simp add: demo_prepared_def)
  moreover have "max_fee_per_gas demo_populated = Some 30" by (simp add: demo_populated_def)
  ultimately show ?thesis using populated_gas_valid by blast
qed

end
