(* ===== verification/Custody_Properties.thy ===== *)
theory Custody_Properties
  imports Component_Properties
begin

text \<open>
  The guarantees of custody (where a wallet's key may be read from, which key a signature is made with,
  what an error may reveal), of completed keys of the idempotency store over any history of
  operations, and of the chain registry.
\<close>

section \<open>Wallet paths\<close>

lemma wallet_path_of_valid:
  assumes "wallet_private_key_path w = Inr p"
  obtains c where "validate_wallet_id w = Inr c" "p = wallet_path c"
  using assms by (auto simp: wallet_private_key_path_def rbind_eq_Inr)

text \<open>C15: every secret path made from a wallet ID stays in the wallet namespace: it has exactly
  the three separators of the template, its middle segment is the stripped ID, not empty,
  without ''..'' and at most 128 characters, URL quoting leaves it as it is, and two wallet
  IDs share a path only when they are the same up to surrounding white space.\<close>

theorem wallet_paths_confined:
  assumes "wallet_private_key_path w = Inr p"
  shows "p = ''mercury/wallets/'' @ py_strip w @ ''/private_key'' \<and> count_list p (CHR ''/'') = 3 \<and>
    py_strip w \<noteq> [] \<and> \<not> py_contains ''..'' (py_strip w) \<and> length (py_strip w) \<le> 128 \<and>
    secret_url_path_suffix p = Inr p \<and>
    (\<forall>w'. wallet_private_key_path w' = Inr p \<longrightarrow> py_strip w' = py_strip w)"
proof -
  from assms obtain c where c: "validate_wallet_id w = Inr c" and p: "p = wallet_path c"
    by (rule wallet_path_of_valid)
  have same: "py_strip w' = py_strip w" if w': "wallet_private_key_path w' = Inr p" for w'
  proof -
    from w' obtain c' where "validate_wallet_id w' = Inr c'" "p = wallet_path c'"
      by (rule wallet_path_of_valid)
    with c p show ?thesis by (metis validate_wallet_id_Inr(1) wallet_path_inj)
  qed
  note v = validate_wallet_id_Inr [OF c]
  have "count_list p (CHR ''/'') = 3" using v(6) p by (simp add: count_slash)
  moreover have "secret_url_path_suffix p = Inr p" using v(3) p by (simp add: wallet_path_suffix)
  ultimately show ?thesis using v(1,2,4,5) p same by (simp add: wallet_path_def)
qed

definition demo_wallet_path :: string where
  "demo_wallet_path = ''mercury/wallets/w1/private_key''"

lemma demo_wallet_id: "validate_wallet_id ''w1'' = Inr ''w1''"
  by code_simp

theorem wallet_paths_confined_witness:
  "count_list demo_wallet_path (CHR ''/'') = 3 \<and> secret_url_path_suffix demo_wallet_path = Inr demo_wallet_path"
proof -
  have "wallet_private_key_path ''w1'' = Inr demo_wallet_path"
    by (simp add: wallet_private_key_path_def demo_wallet_id wallet_path_def demo_wallet_path_def)
  from wallet_paths_confined [OF this] show ?thesis by blast
qed

section \<open>Signing\<close>

text \<open>C14: a signature is made with the key stored for the wallet that was asked for: the secret read is the one at
  that wallet's path, it is a 32 byte hex key, the signer address is derived from that key
  and equals the expected address where one is given, the bytes come from
  signing the request's own fields with that key, and the chain ID is the request's.\<close>

theorem signature_bound_to_wallet_key:
  assumes "web3_laws L" and "signer_sign_transaction L A get_secret r = Inr s"
  shows "\<exists>secret key raw h.
    get_secret (wallet_path (py_strip (wr_wallet_id (sr_wallet r)))) = Inr secret \<and>
    is_private_key_hex (py_strip (sv_value secret)) \<and> key = hex_text (py_strip (sv_value secret)) \<and>
    rbind (acct_address A key) (normalize_evm_address L) = Inr (st_signer_address s) \<and>
    (\<forall>a. wr_expected_address (sr_wallet r) = Some a \<longrightarrow>
       normalize_evm_address L a = Inr (st_signer_address s)) \<and>
    acct_sign_transaction A (evm_transaction (sr_prepared_transaction r)) key = Inr (raw, h) \<and>
    st_raw_transaction_hex s = to_hex (HexBytes raw) \<and> st_tx_hash s = to_hex (HexBytes h) \<and>
    st_chain_id s = sr_chain_id r"
proof -
  from assms(2) obtain w key a raw h where
    w: "validate_wallet_id (wr_wallet_id (sr_wallet r)) = Inr w" and
    key: "load_private_key get_secret w = Inr key" and
    d: "derive_address L A w key = Inr a" and
    sg: "acct_sign_transaction A (evm_transaction (sr_prepared_transaction r)) key = Inr (raw, h)" and
    s: "mk_signed_transaction_result L
         \<lparr>st_wallet_id = w, st_chain_id = sr_chain_id r, st_signer_address = a,
          st_raw_transaction_hex = to_hex (HexBytes raw), st_tx_hash = to_hex (HexBytes h)\<rparr> = Inr s"
    by (auto simp: signer_sign_transaction_def result_simps)
  from w have "w = py_strip (wr_wallet_id (sr_wallet r))" by (rule validate_wallet_id_Inr(1))
  moreover from load_private_key_Inr [OF key] obtain c secret where
    "validate_wallet_id w = Inr c" "get_secret (wallet_path c) = Inr secret"
    "is_private_key_hex (py_strip (sv_value secret))" "key = hex_text (py_strip (sv_value secret))"
    by blast
  moreover from this w have "c = w" by (metis validate_wallet_id_Inr(1) py_strip_idem)
  moreover have "st_raw_transaction_hex s = to_hex (HexBytes raw)" "st_tx_hash s = to_hex (HexBytes h)"
    using s by (auto simp: mk_signed_transaction_result_def rbind_eq_Inr split: sum.splits)
  moreover have "rbind (acct_address A key) (normalize_evm_address L) = Inr a"
    using d by (simp add: derive_address_def split: sum.splits)
  moreover have "a = st_signer_address s"
    using signer_transaction_Inr(1,2) [OF assms] w key d by (simp add: wallet_address_of_def)
  ultimately show ?thesis using sg signer_transaction_Inr(3,4) [OF assms] by metis
qed

definition demo_key :: string where
  "demo_key = ''0x'' @ replicate 64 (CHR ''1'')"

definition demo_account :: eth_account where
  "demo_account = \<lparr>acct_address = (\<lambda>_. Inr (demo_address (CHR ''2''))),
     acct_sign_transaction = (\<lambda>_ _. Inr ([170], [187])), acct_sign_typed_data = (\<lambda>_ _. Inr ([1], [2]))\<rparr>"

definition demo_vault :: "string \<Rightarrow> exn + secret_value" where
  "demo_vault = fake_get_secret [(demo_wallet_path, demo_key)]"


lemma demo_vault_wallet: "load_private_key demo_vault ''w1'' = Inr demo_key"
proof -
  have "demo_vault demo_wallet_path = Inr \<lparr>sv_path = demo_wallet_path, sv_value = demo_key\<rparr>" by code_simp
  moreover have "normalize_private_key demo_key ''w1'' = Inr demo_key" by code_simp
  moreover have "wallet_private_key_path ''w1'' = Inr demo_wallet_path" by code_simp
  ultimately show ?thesis by (simp add: load_private_key_def)
qed

lemma demo_signs: "signer_sign_transaction lower_libs demo_account demo_vault demo_sign_request = Inr demo_signed"
proof -
  have n: "normalize_evm_address lower_libs (demo_address (CHR ''2'')) = Inr (demo_address (CHR ''2''))"
    by (rule normalize_normal [OF demo_normal_12(2)])
  have h: "to_hex (HexBytes [170]) = ''0xaa''" "to_hex (HexBytes [187]) = ''0xbb''" by code_simp+
  have d: "is_hex_data ''0xaa''" "is_hex_data ''0xbb''" by code_simp+
  show ?thesis
    using n h d demo_wallet_id demo_vault_wallet
    by (simp add: signer_sign_transaction_def demo_sign_request_def derive_address_def demo_account_def
        validate_expected_address_def mk_signed_transaction_result_def demo_signed_def finish_def
        check_def min_len_def demo_address_def)
qed

theorem signature_bound_to_wallet_key_witness:
  "\<exists>secret key raw h. demo_vault (wallet_path (py_strip ''w1'')) = Inr secret \<and>
    is_private_key_hex (py_strip (sv_value secret)) \<and> key = hex_text (py_strip (sv_value secret)) \<and>
    acct_sign_transaction demo_account (evm_transaction (sr_prepared_transaction demo_sign_request)) key = Inr (raw, h) \<and>
    st_raw_transaction_hex demo_signed = to_hex (HexBytes raw)"
proof -
  have "wr_wallet_id (sr_wallet demo_sign_request) = ''w1''" by (simp add: demo_sign_request_def)
  then show ?thesis
    using signature_bound_to_wallet_key [OF web3_laws_lower_libs demo_signs] by metis
qed

text \<open>C16: once the secret of a wallet has been read, an error of signing never depends on it: it is one
  of three fixed messages over the wallet ID, or the complaint about the
  caller's own expected address. The signing library is assumed not to raise the wallet's own
  signer errors.\<close>

theorem signing_errors_hide_key:
  assumes "web3_laws L" and "validate_wallet_id (wr_wallet_id (sr_wallet r)) = Inr w"
    and "get_secret (wallet_path w) = Inr secret" and "0 < sr_chain_id r"
    and "\<And>f k x. acct_sign_transaction A f k = Inl x \<Longrightarrow> \<not> is_signer_error x"
    and "signer_sign_transaction L A get_secret r = Inl e"
  shows "e = wallet_key_error w \<or> e = signing_failed_error \<or>
    e = Exn SigningRequestError ''Expected wallet address does not match signing key.'' \<or>
    (\<exists>a. wr_expected_address (sr_wallet r) = Some a \<and> normalize_evm_address L a = Inl e)"
proof (cases "load_private_key get_secret w")
  case (Inl x)
  have "validate_wallet_id w = Inr w"
    using assms(2) validate_wallet_id_Inr(1) [OF assms(2)] by (simp add: validate_wallet_id_def)
  with Inl assms(3) have "x = wallet_key_error w"
    by (auto simp: load_private_key_def wallet_private_key_path_def normalize_private_key_def
        hidden_store_error_def wallet_key_error_def Let_def split: if_splits)
  with Inl assms(2,6) show ?thesis by (simp add: signer_sign_transaction_def)
next
  case (Inr key)
  note loaded = Inr
  show ?thesis
  proof (cases "derive_address L A w key")
    case (Inl x)
    then have "x = wallet_key_error w" by (simp add: derive_address_def split: sum.splits)
    with Inl loaded assms(2,6) show ?thesis by (simp add: signer_sign_transaction_def)
  next
    case (Inr a)
    then have a: "normalize_evm_address L a = Inr a"
      using normalize_idem [OF assms(1)] by (auto simp: derive_address_def rbind_eq_Inr split: sum.splits)
    then have "a \<noteq> []"
      using normalize_result_normal [OF assms(1)] normal_address_nonempty by blast
    moreover have "w \<noteq> []" by (rule validate_wallet_id_Inr(2) [OF assms(2)])
    ultimately have mk: "mk_signed_transaction_result L \<lparr>st_wallet_id = w, st_chain_id = sr_chain_id r,
        st_signer_address = a, st_raw_transaction_hex = to_hex (HexBytes raw),
        st_tx_hash = to_hex (HexBytes h)\<rparr> \<noteq> Inl e" for raw h
      using a assms(4) is_hex_data_to_hex
      by (simp add: mk_signed_transaction_result_def finish_def check_def min_len_def del: to_hex.simps)
    show ?thesis
      using assms(2,5,6) loaded Inr mk
      by (auto simp: signer_sign_transaction_def validate_expected_address_def rbind_eq_Inl
          simp del: to_hex.simps split: sum.splits option.splits if_splits)
  qed
qed

definition demo_bad_vault :: "string \<Rightarrow> exn + secret_value" where
  "demo_bad_vault = fake_get_secret [(demo_wallet_path, ''not a key'')]"

lemma demo_bad_key: "load_private_key demo_bad_vault ''w1'' = Inl (wallet_key_error ''w1'')"
proof -
  have "rbind (demo_bad_vault demo_wallet_path) (\<lambda>s. normalize_private_key (sv_value s) ''w1'') =
      Inl (wallet_key_error ''w1'')" by code_simp
  moreover have "wallet_private_key_path ''w1'' = Inr demo_wallet_path" by code_simp
  ultimately show ?thesis by (simp add: load_private_key_def)
qed

theorem signing_errors_hide_key_witness:
  "\<exists>e. signer_sign_transaction lower_libs demo_account demo_bad_vault demo_sign_request = Inl e \<and>
    (e = wallet_key_error ''w1'' \<or> e = signing_failed_error \<or>
     e = Exn SigningRequestError ''Expected wallet address does not match signing key.'' \<or>
     (\<exists>a. wr_expected_address (sr_wallet demo_sign_request) = Some a \<and> normalize_evm_address lower_libs a = Inl e))"
proof -
  have w: "validate_wallet_id (wr_wallet_id (sr_wallet demo_sign_request)) = Inr ''w1''"
    by (simp add: demo_sign_request_def demo_wallet_id)
  have v: "demo_bad_vault (wallet_path ''w1'') = Inr \<lparr>sv_path = demo_wallet_path, sv_value = ''not a key''\<rparr>"
    by code_simp
  have e: "signer_sign_transaction lower_libs demo_account demo_bad_vault demo_sign_request =
      Inl (wallet_key_error ''w1'')"
    using w by (simp add: signer_sign_transaction_def demo_bad_key)
  have c: "0 < sr_chain_id demo_sign_request" by (simp add: demo_sign_request_def)
  have l: "\<And>f k x. acct_sign_transaction demo_account f k = Inl x \<Longrightarrow> \<not> is_signer_error x"
    by (simp add: demo_account_def)
  show ?thesis using signing_errors_hide_key [OF web3_laws_lower_libs w v c l e] e by blast
qed

section \<open>The idempotency store over any history\<close>

text \<open>C17: a completed key is never reopened. After any sequence of reservations, releases and completions of any
  keys, the key still has a completed record: the one of the last completion of this key in the sequence (a later
  \<open>complete\<close> replaces the recorded result), or the one it had when the sequence has none. Every reservation of
  it is refused with that record and leaves the store alone, and a release of it has no effect.\<close>

theorem completed_key_is_never_reopened:
  assumes "k \<noteq> []" and "store_get st k = Some \<lparr>ik_key = k, ik_status = COMPLETED, ik_result = Some res0\<rparr>"
  shows "\<exists>r. r = \<lparr>ik_key = k, ik_status = COMPLETED, ik_result = Some (last (res0 # completions k ops))\<rparr> \<and>
    store_get (apply_ops st ops) k = Some r \<and>
    store_reserve (apply_ops st ops) k = (Duplicate r, apply_ops st ops) \<and>
    store_release (apply_ops st ops) k = apply_ops st ops"
  using done_key_stays_done [of k st res0 ops] assms
  by (simp add: store_get_def store_reserve_def store_release_def)

theorem completed_key_is_never_reopened_witness:
  "store_get (apply_ops [''k1'' \<mapsto> done_record ''k1'' demo_result]
     [OpRelease ''k1'', OpComplete ''k1'' (demo_result\<lparr>res_gas_used := None\<rparr>), OpReserve ''k1'', OpReserve ''k2'']) ''k1''
    = Some (done_record ''k1'' (demo_result\<lparr>res_gas_used := None\<rparr>))"
  using completed_key_is_never_reopened [of "''k1''" "[''k1'' \<mapsto> done_record ''k1'' demo_result]" demo_result
      "[OpRelease ''k1'', OpComplete ''k1'' (demo_result\<lparr>res_gas_used := None\<rparr>), OpReserve ''k1'', OpReserve ''k2'']"]
  by (simp add: done_record_def store_get_def)

section \<open>The chain registry\<close>

text \<open>The registry's two lookups agree: looking a chain up by ID gives a chain exactly when its own
  name leads to the same chain with that ID, the lookup by name ignores case and
  surrounding space, and a failed lookup raises an unsupported-chain error.\<close>

theorem registry_lookups_agree:
  "(get_chain_by_id (chain_configs L doc s) i = Inr c \<longleftrightarrow>
      get_chain_by_name (chain_configs L doc s) (cc_name c) = Inr c \<and> cc_chain_id c = i) \<and>
   (get_chain_by_name (chain_configs L doc s) n = Inr c \<longleftrightarrow>
      c \<in> set (list_chains L doc s) \<and> cc_name c = py_lower (py_strip n)) \<and>
   (get_chain_by_name (chain_configs L doc s) n = Inl e \<longrightarrow> (\<exists>t. e = Exn UnsupportedChainError t))"
  using reg.by_id_by_name reg.by_name_member reg.by_name_error by (auto simp: list_chains_def)

theorem registry_lookups_agree_witness:
  "\<exists>t. get_chain_by_name (chain_configs lower_libs [] default_settings) ''solana'' = Inl (Exn UnsupportedChainError t)"
proof -
  have "py_lower (py_strip ''solana'') = ''solana''" by code_simp
  then have "get_chain_by_name (chain_configs lower_libs [] default_settings) ''solana'' \<noteq> Inr c" for c
    by (simp add: reg.by_name_member) (auto simp: chain_configs_def)
  then show ?thesis
    using registry_lookups_agree [of lower_libs "[]" default_settings 0 _ "''solana''"]
    by (cases "get_chain_by_name (chain_configs lower_libs [] default_settings) ''solana''") auto
qed

end
