(* ===== verification/Builder_Properties.thy ===== *)
theory Builder_Properties
  imports Custody_Properties Prepare_Nodes
begin

text \<open>
  The guarantees of amounts and of the transaction builders: exact parsing and printing of token
  units, calldata that decodes to the recipient or spender and the amount of the request, amounts that were checked against what
  the token contract answers, and built transactions that meet the policy rules for their action.
\<close>

section \<open>Amounts\<close>

text \<open>C26: printing a raw amount below 10 to the 100th (every uint256 is) with any supported number of decimals
  succeeds, and parsing the printed text with the same decimals gives the amount back.\<close>

theorem parse_format_roundtrip:
  assumes "0 \<le> raw" and "raw \<le> 10 ^ 100" and "0 \<le> d" and "d \<le> 77"
  shows "\<exists>s. format_units raw d = Inr s \<and> parse_units s d = Inr raw"
  using format_units_text [OF assms] parse_units_format [OF assms] by blast

theorem parse_format_roundtrip_witness:
  "\<exists>s. format_units 1500000 6 = Inr s \<and> parse_units s 6 = Inr 1500000"
  by (rule parse_format_roundtrip) simp_all

text \<open>C27: an amount that parse_units returns is never negative and is exactly the parsed decimal number
  times ten to the power of the decimals; no digit is rounded away unless the exponent is below
  the range of the decimal context.\<close>

theorem parse_units_exact:
  assumes "parse_units s d = Inr n"
  shows "\<exists>neg c e. decimal_of_text (drop_plus (py_strip s)) = Some (Finite (neg, c, e)) \<and> 0 \<le> n \<and>
    (- 999999 \<le> e \<longrightarrow> n * 10 ^ nat (- e) = int c * 10 ^ nat e * 10 ^ nat d)"
proof -
  from assms obtain neg c e where p: "decimal_of_text (drop_plus (py_strip s)) = Some (Finite (neg, c, e))"
    "\<not> dec_is_negative (neg, c, e)" "scale_amount (drop_plus (py_strip s)) (neg, c, e) d = Inr n" "0 \<le> d"
    by (rule parse_units_Inr)
  have "n * 10 ^ nat (- e) = int c * 10 ^ nat e * 10 ^ nat d" if "- 999999 \<le> e"
    using scale_amount_exact [OF p(3) decimal_of_text_digits [OF p(1)] p(4)] that p(2)
    by (auto simp: EMAX_def dec_signed_def dec_is_negative_def split: if_splits)
  with p scale_amount_nonneg [OF p(3,2)] show ?thesis by blast
qed

lemma num_digits_small [simp]: "c < 10 \<Longrightarrow> num_digits c = 1"
  by (simp add: num_digits_unfold [of c])

theorem parse_units_exact_witness:
  "\<exists>neg c e. decimal_of_text (drop_plus (py_strip ''1.5'')) = Some (Finite (neg, c, e)) \<and> 0 \<le> (150::int) \<and>
    (- 999999 \<le> e \<longrightarrow> 150 * 10 ^ nat (- e) = int c * 10 ^ nat e * (10::int) ^ nat 2)"
proof (rule parse_units_exact)
  have t: "decimal_of_text ''1.5'' = Some (Finite (False, 15, - int 1))" by code_simp
  have "scale_amount ''1.5'' (False, 15, - int 1) 2 = Inr (int (15 * 10 ^ (nat 2 - 1)))"
  proof (rule scale_amount_total)
    have "num_digits 15 = 2" by (simp add: num_digits_unfold [of 15])
    then show "num_digits 15 \<le> length ''1.5''" by simp
  qed simp_all
  moreover have "py_strip ''1.5'' = ''1.5''" "drop_plus ''1.5'' = ''1.5''" by code_simp+
  ultimately show "parse_units ''1.5'' 2 = Inr 150"
    using t by (simp add: parse_units_def validate_token_decimals_def MAX_DECIMALS_def dec_is_negative_def)
qed

lemma round_half_even_small:
  assumes "2 * c < 10 ^ j" and "j \<le> k"
  shows "round_half_even c k = 0"
proof -
  have "(10::nat) ^ j \<le> 10 ^ k" using assms(2) by (rule power_increasing) simp
  with assms(1) have "2 * c < 10 ^ k" by linarith
  then show ?thesis by (simp add: round_half_even_def Let_def)
qed

lemma tiny_decimal: "decimal_of_text ''1e-2000000'' = Some (Finite (False, 1, -2000000))"
proof -
  have n: "text_nat ''2000000'' = 2000000" "text_nat ''1'' = 1" by (simp_all add: text_nat_def digit_value_def)
  have "py_isdecimal ''2000000''" "py_isdecimal ''1''" by (simp_all add: py_isdecimal_def is_decimal_char_def)
  then have "dec_number ''1e-2000000'' = Some (1, -2000000)"
    using n by (simp add: dec_number_def is_exponent_mark_def signed_int_def unsigned_int_def)
  moreover have "dec_special ''1e-2000000'' = None" "py_strip ''1e-2000000'' = ''1e-2000000''" by code_simp+
  ultimately show ?thesis by (simp add: decimal_of_text_def exact_range_def)
qed

text \<open>A positive amount whose exponent is far below the context's range is read as zero instead of being
  refused for its decimal places: 1e-2000000 with 18 decimals parses to 0.\<close>

theorem tiny_amount_parses_to_zero:
  "parse_units ''1e-2000000'' 18 = Inr 0"
proof -
  let ?s = "''1e-2000000''"
  have t: "py_strip ?s = ?s" "drop_plus ?s = ?s" by code_simp+
  have n: "num_digits 1 = 1" "num_digits 0 = 1" by simp_all
  have "num_digits (1 * 10 ^ 18) = 1 + 18" using n by (subst num_digits_mult_pow) simp_all
  then have m: "num_digits 1000000000000000000 = 19" by simp
  have "round_half_even 1 999974 = 0" "round_half_even 1000000000000000000 999962 = 0"
    by (rule round_half_even_small [of _ 20]; simp)+
  then have "dec_fix 28 (False, 1, -2000000) = Inr (False, 0, -1000026)"
    and "dec_fix 40 (False, 1000000000000000000, -2000000) = Inr (False, 0, -1000038)"
    using n m by (simp_all add: dec_fix_def EMAX_def)
  moreover have "dec_eq (False, 0, e) (dec_to_integral (False, 0, e))" "dec_int (False, 0, e) = 0" for e
    by (simp_all add: dec_integral_divides dec_int_def dec_signed_def)
  ultimately have "scale_amount ?s (False, 1, -2000000) 18 = Inr 0"
    by (simp add: scale_amount_def dec_normalize_def DEFAULT_PREC_def fractional_digits_def dec_mult_def dec_pow10_def)
  then show ?thesis
    using t tiny_decimal
    by (simp add: parse_units_def validate_token_decimals_def MAX_DECIMALS_def dec_is_negative_def)
qed

section \<open>Preconditions\<close>

lemma amount_Inr:
  assumes "mk_erc20_amount L a = Inr b"
  shows "b = a" "0 \<le> am_raw_amount b" "parse_units (am_human_amount b) (am_decimals b) = Inr (am_raw_amount b)"
  using assms by (auto simp: mk_erc20_amount_def validate_amount_pair_def rbind_eq_Inr split: sum.splits if_splits)

lemma reject_zero_Inr:
  "reject_zero_address L a label = Inr () \<longleftrightarrow>
     (\<exists>n. normalize_evm_address L a = Inr n \<and> n \<noteq> to_checksum_address L ZERO_ADDRESS)"
  by (auto simp: reject_zero_address_def rbind_eq_Inr)

lemma transfer_preconditions_Inr:
  assumes "web3_laws L"
    and "check_erc20_transfer_preconditions L F chain token owner recipient amount units = Inr p"
  shows "normalize_evm_address L owner = Inr (tp_owner_address p)"
    "normalize_evm_address L recipient = Inr (tp_recipient_address p)"
    "normalize_evm_address L token = Inr (tp_token_address p)"
    "tp_recipient_address p \<noteq> to_checksum_address L ZERO_ADDRESS"
    "tp_owner_address p \<noteq> tp_recipient_address p"
    "0 < am_raw_amount (tp_amount p)" "am_raw_amount (tp_amount p) \<le> tp_balance_raw p"
  using assms(2) normalize_idem [OF assms(1)]
  by (auto simp: check_erc20_transfer_preconditions_def rbind_eq_Inr mk_transfer_preconditions_def
      reject_zero_Inr dest!: metadata_Inr(2) split: if_splits)

lemma approval_preconditions_Inr:
  assumes "web3_laws L"
    and "check_erc20_approval_preconditions L F chain token owner spender amount known unlimited units = Inr p"
  shows "normalize_evm_address L owner = Inr (ap_owner_address p)"
    "normalize_evm_address L spender = Inr (ap_spender_address p)"
    "normalize_evm_address L token = Inr (ap_token_address p)"
    "ap_spender_address p \<noteq> to_checksum_address L ZERO_ADDRESS"
    "ap_unlimited_approval p \<longleftrightarrow> am_raw_amount (ap_amount p) = MAX_UINT256"
    "ap_unlimited_approval p \<longrightarrow> unlimited"
    "ap_allowance_sufficient p \<longleftrightarrow> am_raw_amount (ap_amount p) \<le> ap_current_allowance_raw p"
  using assms(2) normalize_idem [OF assms(1)]
  by (auto simp: check_erc20_approval_preconditions_def rbind_eq_Inr mk_approval_preconditions_def
      reject_zero_Inr Let_def dest!: metadata_Inr(2) split: if_splits)

section \<open>Built transactions\<close>

lemma normal_addr_norm: "web3_laws L \<Longrightarrow> normalize_evm_address L v = Inr a \<Longrightarrow> addr_norm L a = a"
  using normalize_result_normal addr_norm_normal by blast

lemma prepared_erc20_Inr:
  assumes "web3_laws L" and "prepared_erc20_transaction L w chain cid f to data key m = Inr t"
    and "normalize_evm_address L f0 = Inr f" and "normalize_evm_address L to0 = Inr to"
  shows "prep_from_address t = Some f" "prep_to t = to" "prep_value_wei t = 0" "prep_data t = data"
    "prep_metadata t = m" "prep_wallet_id t = w" "prep_chain t = chain" "prep_chain_id t = Some cid"
    "prep_idempotency_key t = key"
  using assms(2) normal_addr_norm [OF assms(1,3)] normal_addr_norm [OF assms(1,4)]
  by (auto simp: prepared_erc20_transaction_def mk_prepared_transaction_def)

lemma encode_call_standard:
  assumes "abi_laws L" and "is_evm_hex a" and "0 \<le> n" and "n \<le> MAX_UINT256"
  shows "standard_calldata ERC20_TRANSFER_SELECTOR_PREFIX (encode_call L ''transfer(address,uint256)'' a n)"
    "standard_calldata ERC20_APPROVAL_SELECTOR_PREFIX (encode_call L ''approve(address,uint256)'' a n)"
proof -
  have sel: "take 4 (keccak_text L ''transfer(address,uint256)'') = [0xa9, 0x05, 0x9c, 0xbb]"
    "take 4 (keccak_text L ''approve(address,uint256)'') = [0x09, 0x5e, 0xa7, 0xb3]"
    using assms(1) by (simp_all add: abi_laws_def)
  have std: "standard_calldata pre (encode_call L sig a n)"
    if "take 4 (keccak_text L sig) = bs" "length bs = 4" "pre = ''0x'' @ nat_bytes_hex bs" "py_lower pre = pre"
    for sig bs pre
  proof -
    note w = encode_call_words(1,4) [OF assms that(1,2)]
    have "py_lower (encode_call L sig a n) =
        py_lower (take 10 (encode_call L sig a n)) @ py_lower (drop 10 (encode_call L sig a n))"
      by (metis append_take_drop_id map_append py_lower_def)
    then have "prefix pre (py_lower (encode_call L sig a n))" using w(1) that(3,4) by simp
    with w(2) show ?thesis by (simp add: standard_calldata_def MIN_STANDARD_ERC20_CALLDATA_LENGTH_def)
  qed
  have p: "ERC20_TRANSFER_SELECTOR_PREFIX = ''0x'' @ nat_bytes_hex [0xa9, 0x05, 0x9c, 0xbb]"
    "ERC20_APPROVAL_SELECTOR_PREFIX = ''0x'' @ nat_bytes_hex [0x09, 0x5e, 0xa7, 0xb3]"
    by code_simp+
  have low: "py_lower ERC20_TRANSFER_SELECTOR_PREFIX = ERC20_TRANSFER_SELECTOR_PREFIX"
    "py_lower ERC20_APPROVAL_SELECTOR_PREFIX = ERC20_APPROVAL_SELECTOR_PREFIX"
    by code_simp+
  show "standard_calldata ERC20_TRANSFER_SELECTOR_PREFIX (encode_call L ''transfer(address,uint256)'' a n)"
    by (rule std [OF sel(1) _ p(1) low(1)]) simp
  show "standard_calldata ERC20_APPROVAL_SELECTOR_PREFIX (encode_call L ''approve(address,uint256)'' a n)"
    by (rule std [OF sel(2) _ p(2) low(2)]) simp
qed

text \<open>The two words behind the selector of standard calldata.\<close>

definition call_address :: "string \<Rightarrow> nat" where
  "call_address data = text_hex_nat (take 64 (drop 10 data))"

definition call_amount :: "string \<Rightarrow> int" where
  "call_amount data = int (text_hex_nat (drop 74 data))"

lemma encode_call_decodes:
  assumes "abi_laws L" and "is_evm_hex a" and "0 \<le> n" and "n \<le> MAX_UINT256"
    and "sig \<in> {''transfer(address,uint256)'', ''approve(address,uint256)''}"
  shows "call_address (encode_call L sig a n) = address_value a" "call_amount (encode_call L sig a n) = n"
proof -
  have "take 4 (keccak_text L sig) \<in> {[0xa9, 0x05, 0x9c, 0xbb], [0x09, 0x5e, 0xa7, 0xb3]}"
    using assms(1,5) by (auto simp: abi_laws_def)
  then obtain bs where bs: "take 4 (keccak_text L sig) = bs" "length bs = 4"
    by (auto simp del: length_take)
  show "call_address (encode_call L sig a n) = address_value a" "call_amount (encode_call L sig a n) = n"
    using encode_call_words(2,3) [OF assms(1-4) bs] by (simp_all add: call_address_def call_amount_def)
qed

lemma metadata_address_normal:
  "dget_none (exec_metadata x) k = PStr a \<Longrightarrow> normal_address L a \<Longrightarrow> metadata_address L x k = Inr a"
  by (simp add: metadata_address_def normalize_normal)

text \<open>The specification of what a builder reads: the integer the token contract itself answers to a call, and
  the raw amount that the text of a request stands for: read as an integer in smallest units, or as a decimal number of tokens.\<close>

definition on_chain :: "read_factory \<Rightarrow> string \<Rightarrow> string \<Rightarrow> string \<Rightarrow> pyval list \<Rightarrow> int \<Rightarrow> bool" where
  "on_chain F chain contract fn args n \<longleftrightarrow> (\<exists>p v. F chain = Inr p \<and>
     call_contract_function p contract ERC20_READ_ABI fn args = Inr v \<and> int_of_call v = Inr n)"

definition requested_amount :: "string \<Rightarrow> int \<Rightarrow> bool \<Rightarrow> int \<Rightarrow> bool" where
  "requested_amount amount decimals units raw \<longleftrightarrow>
     (if units then parse_integer_raw_amount amount = Inr raw else parse_units amount decimals = Inr raw)"

lemma erc20_amount_Inr: "mk_erc20_amount L a = Inr b \<Longrightarrow> b = a"
  by (auto simp: mk_erc20_amount_def validate_amount_pair_def rbind_eq_Inr split: sum.splits if_splits)

lemma precondition_amount:
  "erc20_amount_for_precondition L amount d units = Inr a \<Longrightarrow> requested_amount amount d units (am_raw_amount a)"
  by (auto simp: erc20_amount_for_precondition_def raw_amount_of_def from_human_def requested_amount_def rbind_eq_Inr
      dest!: erc20_amount_Inr split: if_splits)

lemma approval_amount_requested:
  assumes "approval_amount L amount d unlimited units = Inr a"
  shows "if lower_strip amount \<in> {''max'', ''unlimited''} then unlimited \<and> am_raw_amount a = MAX_UINT256
    else requested_amount amount d units (am_raw_amount a)"
  using assms
  by (auto simp: approval_amount_def is_unlimited_word_def raw_amount_of_def from_human_def requested_amount_def rbind_eq_Inr
      dest!: erc20_amount_Inr split: if_splits)

lemma metadata_decimals:
  assumes "get_erc20_metadata L F chain token = Inr m"
  shows "on_chain F chain (md_token_address m) ''decimals'' [] (md_decimals m)"
  using assms
  by (auto simp: get_erc20_metadata_def token_decimals_def rbind_eq_Inr validate_decimals_Inr on_chain_def)

lemma transfer_reads:
  assumes "web3_laws L"
    and "check_erc20_transfer_preconditions L F chain token owner recipient amount units = Inr p"
  shows "\<exists>d. on_chain F chain (tp_token_address p) ''decimals'' [] d \<and>
      requested_amount amount d units (am_raw_amount (tp_amount p))"
    "on_chain F (tp_chain p) (tp_token_address p) ''balanceOf'' [PStr (tp_owner_address p)] (tp_balance_raw p)"
proof -
  from assms(2) obtain ow tok m b where ow: "normalize_evm_address L owner = Inr ow"
    and tok: "normalize_evm_address L token = Inr tok"
    and m: "get_erc20_metadata L F chain tok = Inr m"
    and a: "erc20_amount_for_precondition L amount (md_decimals m) units = Inr (tp_amount p)"
    and b: "get_erc20_balance L F (md_chain m) (md_token_address m) ow = Inr b"
    and p: "tp_owner_address p = ow" "tp_token_address p = md_token_address m" "tp_chain p = md_chain m"
      "tp_balance_raw p = bal_raw_amount b"
    by (auto simp: check_erc20_transfer_preconditions_def rbind_eq_Inr mk_transfer_preconditions_def split: if_splits)
  from metadata_decimals [OF m] precondition_amount [OF a] p(2)
  show "\<exists>d. on_chain F chain (tp_token_address p) ''decimals'' [] d \<and>
      requested_amount amount d units (am_raw_amount (tp_amount p))" by auto
  have "bal_token_address b = md_token_address m" "bal_wallet_address b = ow"
    using balance_Inr(1) [OF b] normalize_idem [OF assms(1) metadata_Inr(2) [OF m]] normalize_idem [OF assms(1) ow] by auto
  with balance_Inr(1) [OF b] p
  show "on_chain F (tp_chain p) (tp_token_address p) ''balanceOf'' [PStr (tp_owner_address p)] (tp_balance_raw p)"
    by (auto simp: on_chain_def)
qed

lemma approval_reads:
  assumes "web3_laws L"
    and "check_erc20_approval_preconditions L F chain token owner spender amount known unlimited units = Inr p"
  shows "\<exists>d. on_chain F chain (ap_token_address p) ''decimals'' [] d \<and>
      (if lower_strip amount \<in> {''max'', ''unlimited''} then unlimited \<and> am_raw_amount (ap_amount p) = MAX_UINT256
       else requested_amount amount d units (am_raw_amount (ap_amount p)))"
    "on_chain F (ap_chain p) (ap_token_address p) ''allowance'' [PStr (ap_owner_address p), PStr (ap_spender_address p)]
       (ap_current_allowance_raw p)"
    "\<exists>pv. F chain = Inr pv \<and> ap_chain p = cc_name (rp_chain pv)"
proof -
  from assms(2) obtain ow sp tok m al where ow: "normalize_evm_address L owner = Inr ow"
    and sp: "normalize_evm_address L spender = Inr sp" and tok: "normalize_evm_address L token = Inr tok"
    and m: "get_erc20_metadata L F chain tok = Inr m"
    and a: "approval_amount L amount (md_decimals m) unlimited units = Inr (ap_amount p)"
    and al: "get_erc20_allowance L F (md_chain m) (md_token_address m) ow sp = Inr al"
    and p: "ap_owner_address p = ow" "ap_spender_address p = sp" "ap_token_address p = md_token_address m"
      "ap_chain p = md_chain m" "ap_current_allowance_raw p = alw_raw_amount al"
    by (auto simp: check_erc20_approval_preconditions_def rbind_eq_Inr mk_approval_preconditions_def Let_def split: if_splits)
  from metadata_decimals [OF m] approval_amount_requested [OF a] p(3)
  show "\<exists>d. on_chain F chain (ap_token_address p) ''decimals'' [] d \<and>
      (if lower_strip amount \<in> {''max'', ''unlimited''} then unlimited \<and> am_raw_amount (ap_amount p) = MAX_UINT256
       else requested_amount amount d units (am_raw_amount (ap_amount p)))" by auto
  have "alw_token_address al = md_token_address m" "alw_owner_address al = ow" "alw_spender_address al = sp"
    using allowance_Inr(1) [OF al] normalize_idem [OF assms(1) metadata_Inr(2) [OF m]] normalize_idem [OF assms(1) ow]
      normalize_idem [OF assms(1) sp] by auto
  with allowance_Inr(1) [OF al] p
  show "on_chain F (ap_chain p) (ap_token_address p) ''allowance'' [PStr (ap_owner_address p), PStr (ap_spender_address p)]
       (ap_current_allowance_raw p)" by (auto simp: on_chain_def)
  from metadata_Inr(1) [OF m] p(4) show "\<exists>pv. F chain = Inr pv \<and> ap_chain p = cc_name (rp_chain pv)" by auto
qed

lemma transfer_built:
  assumes "web3_laws L" and "abi_laws L"
    and "prepare_erc20_transfer L F R chain wid token recipient amount key units = Inr t"
  shows "\<exists>w owner to_addr d bal. R wid = Inr w \<and> normalize_evm_address L (wa_address w) = Inr owner \<and>
    prep_wallet_id t = wid \<and> prep_from_address t = Some owner \<and> normalize_evm_address L token = Inr (prep_to t) \<and>
    prep_value_wei t = 0 \<and> prep_idempotency_key t = key \<and>
    normalize_evm_address L recipient = Inr to_addr \<and> call_address (prep_data t) = address_value to_addr \<and>
    on_chain F chain (prep_to t) ''decimals'' [] d \<and> requested_amount amount d units (call_amount (prep_data t)) \<and>
    on_chain F (prep_chain t) (prep_to t) ''balanceOf'' [PStr owner] bal \<and>
    0 < call_amount (prep_data t) \<and> call_amount (prep_data t) \<le> bal \<and>
    (\<forall>x. carries t x \<longrightarrow> has_action x ERC20_TRANSFER \<and> transfer_ok L True x)"
proof -
  from assms(3) obtain w p data where w: "R wid = Inr w" and
    p: "check_erc20_transfer_preconditions L F chain token (wa_address w) recipient amount units = Inr p" and
    data: "encode_erc20_transfer_data L (tp_recipient_address p) (am_raw_amount (tp_amount p)) = Inr data" and
    t: "prepared_erc20_transaction L wid (tp_chain p) (tp_chain_id p) (tp_owner_address p) (tp_token_address p)
      data key (transfer_metadata p) = Inr t"
    by (auto simp: prepare_erc20_transfer_def rbind_eq_Inr)
  note pre = transfer_preconditions_Inr [OF assms(1) p]
  note f = prepared_erc20_Inr [OF assms(1) t pre(1) pre(3)]
  have n: "normal_address L (tp_recipient_address p)" "normal_address L (tp_token_address p)"
    "normal_address L (tp_owner_address p)"
    using pre(1-3) normalize_result_normal [OF assms(1)] by blast+
  then have hex: "is_evm_hex (tp_recipient_address p)" by (simp add: normal_address_def)
  from data have d: "data = encode_call L ''transfer(address,uint256)'' (tp_recipient_address p) (am_raw_amount (tp_amount p))"
    and u: "am_raw_amount (tp_amount p) \<le> MAX_UINT256" "0 \<le> am_raw_amount (tp_amount p)"
    using n(1) by (auto simp: encode_erc20_transfer_data_def rbind_eq_Inr validate_uint256_def normalize_normal)
  have std: "standard_calldata ERC20_TRANSFER_SELECTOR_PREFIX data"
    unfolding d by (rule encode_call_standard(1) [OF assms(2) hex u(2,1)])
  have "has_action x ERC20_TRANSFER \<and> transfer_ok L True x" if "carries t x" for x
  proof -
    have m: "exec_metadata x = transfer_metadata p" and e: "exec_to x = tp_token_address p" "exec_value_wei x = 0"
      "exec_data x = data" "exec_from_address x = Some (tp_owner_address p)"
      using that f by (simp_all add: carries_def)
    have "metadata_address L x ''token_address'' = Inr (tp_token_address p)"
      "metadata_address L x ''recipient_address'' = Inr (tp_recipient_address p)"
      using n by (auto simp: m transfer_metadata_def intro!: metadata_address_normal)
    then show ?thesis
      using m e n std pre(4,5)
      by (auto simp: has_action_def transfer_metadata_def transfer_ok_def token_call_ok_def not_sender_def normalize_normal)
  qed
  moreover have "call_address (prep_data t) = address_value (tp_recipient_address p)"
    "call_amount (prep_data t) = am_raw_amount (tp_amount p)"
    using encode_call_decodes [OF assms(2) hex u(2,1)] by (simp_all add: f(4) d)
  moreover note reads = transfer_reads [OF assms(1) p]
  ultimately show ?thesis using w pre f by auto
qed

text \<open>C24: a built ERC20 transfer comes from the wallet's own address, calls the token without native value, and its
  calldata decodes to the requested recipient and exactly the requested amount: the text of the request read as an integer
  in smallest units, or as a decimal number with the decimals that the token contract answers. The amount is positive and
  at most what the contract answers for \<open>balanceOf\<close> of the sender, and the executable transaction made of it satisfies
  the transfer rule of the policy, self-transfers excluded.\<close>

theorem erc20_transfer_built_correctly:
  assumes "web3_laws L" and "abi_laws L"
    and "prepare_erc20_transfer L F R chain wid token recipient amount key units = Inr t"
  shows "\<exists>w owner to_addr d bal. R wid = Inr w \<and> normalize_evm_address L (wa_address w) = Inr owner \<and>
    prep_wallet_id t = wid \<and> prep_from_address t = Some owner \<and> normalize_evm_address L token = Inr (prep_to t) \<and>
    prep_value_wei t = 0 \<and> prep_idempotency_key t = key \<and>
    normalize_evm_address L recipient = Inr to_addr \<and> call_address (prep_data t) = address_value to_addr \<and>
    on_chain F chain (prep_to t) ''decimals'' [] d \<and> requested_amount amount d units (call_amount (prep_data t)) \<and>
    on_chain F (prep_chain t) (prep_to t) ''balanceOf'' [PStr owner] bal \<and>
    0 < call_amount (prep_data t) \<and> call_amount (prep_data t) \<le> bal \<and>
    (\<forall>x. carries t x \<longrightarrow> has_action x ERC20_TRANSFER \<and> transfer_ok L True x)"
  by (rule transfer_built [OF assms])

text \<open>A token with no decimals whose every balance is 7 and every allowance is 3.\<close>

definition demo_read_factory :: read_factory where
  "demo_read_factory c = Inr \<lparr>rp_chain = hd demo_chains, rp_get_balance = (\<lambda>_. Inr 10),
     rp_call = (\<lambda>_ _ f _. if f = ''decimals'' then Inr (CallVal (PInt 0))
       else if f = ''balanceOf'' then Inr (CallVal (PInt 7))
       else if f = ''allowance'' then Inr (CallVal (PInt 3)) else Inr (CallVal (PStr ''TOK'')))\<rparr>"

definition demo_resolver :: address_resolver where
  "demo_resolver w = Inr \<lparr>wa_wallet_id = w, wa_address = demo_address (CHR ''2'')\<rparr>"

definition demo_token :: string where
  "demo_token = demo_address (CHR ''3'')"

lemma demo_normal_3: "normal_address lower_libs demo_token"
  unfolding demo_token_def by (rule demo_normal) code_simp+

lemma demo_neq: "a \<noteq> b \<Longrightarrow> demo_address a \<noteq> demo_address b"
  by (simp add: demo_address_def)

lemma demo_not_zero_c:
  assumes "c \<noteq> CHR ''0''"
  shows "demo_address c \<noteq> to_checksum_address lower_libs ZERO_ADDRESS"
proof -
  have "ZERO_ADDRESS = demo_address (CHR ''0'')" by code_simp
  moreover have "to_checksum_address lower_libs ZERO_ADDRESS = ZERO_ADDRESS" by (simp add: lower_libs_def lower_ZERO)
  ultimately show ?thesis using demo_neq [OF assms] by metis
qed

definition demo_amount :: erc20_amount where
  "demo_amount = \<lparr>am_human_amount = ''5'', am_decimals = 0, am_raw_amount = 5\<rparr>"

lemma demo_five: "raw_amount_of lower_libs ''5'' 0 = Inr demo_amount"
proof -
  have f: "format_units 5 0 = Inr ''5''" and p: "parse_integer_raw_amount ''5'' = Inr 5" by code_simp+
  have "parse_units ''5'' 0 = Inr 5" by (rule parse_units_format [OF _ _ _ _ f]) simp_all
  with f p show ?thesis
    by (simp add: raw_amount_of_def mk_erc20_amount_def validate_amount_pair_def finish_def check_def min_len_def
        decimals_errs_def MAX_DECIMALS_def MAX_UINT256_def demo_amount_def)
qed

lemma demo_reads:
  "get_erc20_metadata lower_libs demo_read_factory c demo_token =
     Inr \<lparr>md_chain = ''ethereum'', md_chain_id = 1, md_token_address = demo_token, md_decimals = 0,
       md_symbol = Some ''TOK'', md_name = Some ''TOK''\<rparr>"
  "\<exists>b. get_erc20_balance lower_libs demo_read_factory c demo_token (demo_address (CHR ''2'')) = Inr b \<and> bal_raw_amount b = 7"
  "\<exists>b. get_erc20_allowance lower_libs demo_read_factory c demo_token (demo_address (CHR ''2'')) (demo_address (CHR ''1''))
     = Inr b \<and> alw_raw_amount b = 3"
proof -
  have f: "format_units 7 0 = Inr ''7''" "format_units 3 0 = Inr ''3''" by code_simp+
  show "get_erc20_metadata lower_libs demo_read_factory c demo_token =
     Inr \<lparr>md_chain = ''ethereum'', md_chain_id = 1, md_token_address = demo_token, md_decimals = 0,
       md_symbol = Some ''TOK'', md_name = Some ''TOK''\<rparr>"
    "\<exists>b. get_erc20_balance lower_libs demo_read_factory c demo_token (demo_address (CHR ''2'')) = Inr b \<and> bal_raw_amount b = 7"
    "\<exists>b. get_erc20_allowance lower_libs demo_read_factory c demo_token (demo_address (CHR ''2'')) (demo_address (CHR ''1''))
     = Inr b \<and> alw_raw_amount b = 3"
    using f normalize_normal [OF demo_normal_3] normalize_normal [OF demo_normal_12(1)] normalize_normal [OF demo_normal_12(2)]
    by (simp_all add: get_erc20_metadata_def get_erc20_balance_def get_erc20_allowance_def demo_read_factory_def
        token_decimals_def call_contract_function_def py_int_def validate_token_decimals_def MAX_DECIMALS_def
        optional_text_call_def demo_chains_def)
qed

lemmas demo_norms = normalize_normal [OF demo_normal_3] normalize_normal [OF demo_normal_12(1)]
  normalize_normal [OF demo_normal_12(2)] addr_norm_normal [OF demo_normal_3] normal_address_nonempty [OF demo_normal_3]
  addr_norm_normal [OF demo_normal_12(1)] normal_address_nonempty [OF demo_normal_12(1)]
  demo_not_zero_c [of "CHR ''1''"] demo_neq [of "CHR ''2''" "CHR ''1''"]

lemma demo_calldata:
  "is_hex_data (encode_call lower_libs ''transfer(address,uint256)'' (demo_address (CHR ''1'')) 5)"
  "is_hex_data (encode_call lower_libs ''approve(address,uint256)'' (demo_address (CHR ''1'')) 5)"
proof -
  have a: "is_evm_hex (demo_address (CHR ''1''))" using demo_normal_12(1) by (simp add: normal_address_def)
  note e = encode_call_words(5) [OF abi_laws_lower_libs a, of 5]
  show "is_hex_data (encode_call lower_libs ''transfer(address,uint256)'' (demo_address (CHR ''1'')) 5)"
    by (rule e [where bs = "[0xa9, 0x05, 0x9c, 0xbb]"]) (simp_all add: MAX_UINT256_def lower_libs_def)
  show "is_hex_data (encode_call lower_libs ''approve(address,uint256)'' (demo_address (CHR ''1'')) 5)"
    by (rule e [where bs = "[0x09, 0x5e, 0xa7, 0xb3]"]) (simp_all add: MAX_UINT256_def lower_libs_def)
qed

lemmas builder_eval = reject_zero_address_def erc20_amount_for_precondition_def mk_transfer_preconditions_def
  mk_approval_preconditions_def finish_def check_def validate_uint256_def MAX_UINT256_def
  prepared_erc20_transaction_def mk_prepared_transaction_def min_len_def opt_check_def opt_addr_errs_def
  addr_errs_def prepared_errors_def

definition demo_erc20_prepared :: prepared_transaction where
  "demo_erc20_prepared = \<lparr>prep_wallet_id = ''w1'', prep_chain = ''ethereum'', prep_chain_id = Some 1,
     prep_from_address = Some (demo_address (CHR ''2'')), prep_to = demo_token, prep_value_wei = 0,
     prep_data = encode_call lower_libs ''transfer(address,uint256)'' (demo_address (CHR ''1'')) 5, prep_nonce = None,
     prep_gas = None, prep_idempotency_key = Some ''k1'', prep_metadata =
       [(''action'', PStr ERC20_TRANSFER), (''token_address'', PStr demo_token),
        (''recipient_address'', PStr (demo_address (CHR ''1''))), (''amount'', PStr ''5''), (''amount_raw'', PInt 5),
        (''decimals'', PInt 0), (''symbol'', PStr ''TOK''), (''name'', PStr ''TOK''), (''balance_raw'', PInt 7)]\<rparr>"

lemma demo_transfer_built:
  "prepare_erc20_transfer lower_libs demo_read_factory demo_resolver ''ethereum'' ''w1'' demo_token
     (demo_address (CHR ''1'')) ''5'' (Some ''k1'') True = Inr demo_erc20_prepared"
proof -
  obtain b where "get_erc20_balance lower_libs demo_read_factory ''ethereum'' demo_token (demo_address (CHR ''2'')) = Inr b"
    "bal_raw_amount b = 7" using demo_reads(2) by blast
  then show ?thesis
    using demo_calldata(1) demo_five demo_reads(1) demo_norms addr_norm_normal [OF demo_normal_12(2)]
    by (simp add: prepare_erc20_transfer_def demo_resolver_def check_erc20_transfer_preconditions_def demo_amount_def
        encode_erc20_transfer_data_def builder_eval demo_erc20_prepared_def transfer_metadata_def)
qed

theorem erc20_transfer_built_correctly_witness:
  "\<exists>t. prepare_erc20_transfer lower_libs demo_read_factory demo_resolver ''ethereum'' ''w1'' demo_token
      (demo_address (CHR ''1'')) ''5'' (Some ''k1'') True = Inr t \<and>
    call_address (prep_data t) = address_value (demo_address (CHR ''1'')) \<and> 0 < call_amount (prep_data t)"
proof -
  from erc20_transfer_built_correctly [OF web3_laws_lower_libs abi_laws_lower_libs demo_transfer_built]
    demo_transfer_built demo_norms(2) show ?thesis by auto
qed

lemma approval_built:
  assumes "web3_laws L" and "abi_laws L"
    and "prepare_erc20_approval L F R chain wid token spender amount key known unlimited units = Inr t"
  shows "\<exists>w owner s raw cur. R wid = Inr w \<and> normalize_evm_address L (wa_address w) = Inr owner \<and>
    prep_from_address t = Some owner \<and> normalize_evm_address L token = Inr (prep_to t) \<and> prep_value_wei t = 0 \<and>
    normalize_evm_address L spender = Inr s \<and> call_address (prep_data t) = address_value s \<and>
    call_amount (prep_data t) = raw \<and> dget_none (prep_metadata t) ''current_allowance_raw'' = PInt cur \<and>
    (raw = 0 \<or> cur < raw) \<and> 0 \<le> raw \<and> (raw = MAX_UINT256 \<longrightarrow> unlimited) \<and>
    (\<forall>x. carries t x \<longrightarrow> has_action x ERC20_APPROVAL \<and> approval_ok L (\<not> unlimited) x)"
proof -
  from assms(3) obtain w p data where w: "R wid = Inr w" and
    p: "check_erc20_approval_preconditions L F chain token (wa_address w) spender amount known unlimited units = Inr p" and
    needed: "\<not> (ap_allowance_sufficient p \<and> 0 < am_raw_amount (ap_amount p))" and
    data: "encode_erc20_approval_data L (ap_spender_address p) (am_raw_amount (ap_amount p)) = Inr data" and
    t: "prepared_erc20_transaction L wid (ap_chain p) (ap_chain_id p) (ap_owner_address p) (ap_token_address p)
      data key (approval_metadata p) = Inr t"
    by (auto simp: prepare_erc20_approval_def rbind_eq_Inr split: if_splits)
  note pre = approval_preconditions_Inr [OF assms(1) p]
  note f = prepared_erc20_Inr [OF assms(1) t pre(1) pre(3)]
  have n: "normal_address L (ap_spender_address p)" "normal_address L (ap_token_address p)"
    using pre(1-3) normalize_result_normal [OF assms(1)] by blast+
  then have hex: "is_evm_hex (ap_spender_address p)" by (simp add: normal_address_def)
  from data have d: "data = encode_call L ''approve(address,uint256)'' (ap_spender_address p) (am_raw_amount (ap_amount p))"
    and u: "am_raw_amount (ap_amount p) \<le> MAX_UINT256" "0 \<le> am_raw_amount (ap_amount p)"
    using n(1) by (auto simp: encode_erc20_approval_data_def rbind_eq_Inr validate_uint256_def normalize_normal)
  have std: "standard_calldata ERC20_APPROVAL_SELECTOR_PREFIX data"
    unfolding d by (rule encode_call_standard(2) [OF assms(2) hex u(2,1)])
  have "has_action x ERC20_APPROVAL \<and> approval_ok L (\<not> unlimited) x" if "carries t x" for x
  proof -
    have m: "exec_metadata x = approval_metadata p" and e: "exec_to x = ap_token_address p" "exec_value_wei x = 0"
      "exec_data x = data"
      using that f by (simp_all add: carries_def)
    have "metadata_address L x ''token_address'' = Inr (ap_token_address p)"
      "metadata_address L x ''spender_address'' = Inr (ap_spender_address p)"
      using n by (auto simp: m approval_metadata_def intro!: metadata_address_normal)
    moreover have "\<not> (\<not> unlimited \<and> is_unlimited x)"
      using pre(5,6) by (auto simp: m is_unlimited_def approval_metadata_def)
    ultimately show ?thesis
      using m e n std pre(4)
      by (auto simp: has_action_def approval_metadata_def approval_ok_def token_call_ok_def normalize_normal)
  qed
  moreover have "dget_none (prep_metadata t) ''current_allowance_raw'' = PInt (ap_current_allowance_raw p)"
    by (simp add: f(5) approval_metadata_def)
  moreover have "call_address (prep_data t) = address_value (ap_spender_address p)"
    "call_amount (prep_data t) = am_raw_amount (ap_amount p)"
    using encode_call_decodes [OF assms(2) hex u(2,1)] by (simp_all add: f(4) d)
  moreover have "am_raw_amount (ap_amount p) = 0 \<or> ap_current_allowance_raw p < am_raw_amount (ap_amount p)"
    using needed pre(7) u(2) by auto
  ultimately show ?thesis using w pre(1-3,5,6) f(1-3) u(2) by auto
qed

lemma approval_built_reads:
  assumes "web3_laws L" and "abi_laws L"
    and "prepare_erc20_approval L F R chain wid token spender amount key known unlimited units = Inr t"
  shows "\<exists>owner s d cur. prep_from_address t = Some owner \<and> normalize_evm_address L spender = Inr s \<and>
    prep_wallet_id t = wid \<and> prep_idempotency_key t = key \<and> on_chain F chain (prep_to t) ''decimals'' [] d \<and>
    (if lower_strip amount \<in> {''max'', ''unlimited''} then call_amount (prep_data t) = MAX_UINT256
     else requested_amount amount d units (call_amount (prep_data t))) \<and>
    on_chain F (prep_chain t) (prep_to t) ''allowance'' [PStr owner, PStr s] cur \<and>
    (call_amount (prep_data t) = 0 \<or> cur < call_amount (prep_data t))"
proof -
  from assms(3) obtain w :: wallet_address_result and p data where
    p: "check_erc20_approval_preconditions L F chain token (wa_address w) spender amount known unlimited units = Inr p" and
    needed: "\<not> (ap_allowance_sufficient p \<and> 0 < am_raw_amount (ap_amount p))" and
    data: "encode_erc20_approval_data L (ap_spender_address p) (am_raw_amount (ap_amount p)) = Inr data" and
    t: "prepared_erc20_transaction L wid (ap_chain p) (ap_chain_id p) (ap_owner_address p) (ap_token_address p)
      data key (approval_metadata p) = Inr t"
    by (auto simp: prepare_erc20_approval_def rbind_eq_Inr split: if_splits)
  note pre = approval_preconditions_Inr [OF assms(1) p]
  note f = prepared_erc20_Inr [OF assms(1) t pre(1) pre(3)]
  have n: "normal_address L (ap_spender_address p)" using pre(2) normalize_result_normal [OF assms(1)] by blast
  then have hex: "is_evm_hex (ap_spender_address p)" by (simp add: normal_address_def)
  from data n have "data = encode_call L ''approve(address,uint256)'' (ap_spender_address p) (am_raw_amount (ap_amount p))"
    and u: "0 \<le> am_raw_amount (ap_amount p)" "am_raw_amount (ap_amount p) \<le> MAX_UINT256"
    by (auto simp: encode_erc20_approval_data_def rbind_eq_Inr validate_uint256_def normalize_normal)
  with encode_call_decodes(2) [OF assms(2) hex u] f(4) have amt: "call_amount (prep_data t) = am_raw_amount (ap_amount p)" by simp
  have "am_raw_amount (ap_amount p) = 0 \<or> ap_current_allowance_raw p < am_raw_amount (ap_amount p)"
    using needed pre(7) u(1) by auto
  moreover obtain d where d: "on_chain F chain (ap_token_address p) ''decimals'' [] d"
    "if lower_strip amount \<in> {''max'', ''unlimited''} then unlimited \<and> am_raw_amount (ap_amount p) = MAX_UINT256
       else requested_amount amount d units (am_raw_amount (ap_amount p))" using approval_reads(1) [OF assms(1) p] by blast
  ultimately show ?thesis using approval_reads(2) [OF assms(1) p] f pre(2) amt
    by (intro exI [of _ "ap_owner_address p"] exI [of _ "ap_spender_address p"] exI [of _ d]
        exI [of _ "ap_current_allowance_raw p"]) (simp split: if_splits)
qed

text \<open>C25: a built ERC20 approval comes from the wallet's own address, calls the token without native value, and
  its calldata decodes to the requested spender and exactly the requested amount (the maximal one for the words max and
  unlimited, otherwise the text read as an integer in smallest units, or as a decimal number with the decimals that the token contract
  answers). The amount is above what the contract answers for \<open>allowance\<close> of the sender and this spender, in this order, or it is
  zero, a revocation; it is the unlimited one only when the caller allowed it; and the executable transaction made of it
  satisfies the approval rule of the policy, unlimited approvals rejected unless allowed.\<close>

theorem erc20_approval_built_correctly:
  assumes "web3_laws L" and "abi_laws L"
    and "prepare_erc20_approval L F R chain wid token spender amount key known unlimited units = Inr t"
  shows "\<exists>w owner s d cur. R wid = Inr w \<and> normalize_evm_address L (wa_address w) = Inr owner \<and>
    prep_wallet_id t = wid \<and> prep_from_address t = Some owner \<and> normalize_evm_address L token = Inr (prep_to t) \<and>
    prep_value_wei t = 0 \<and> prep_idempotency_key t = key \<and>
    normalize_evm_address L spender = Inr s \<and> call_address (prep_data t) = address_value s \<and>
    on_chain F chain (prep_to t) ''decimals'' [] d \<and>
    (if lower_strip amount \<in> {''max'', ''unlimited''} then call_amount (prep_data t) = MAX_UINT256
     else requested_amount amount d units (call_amount (prep_data t))) \<and>
    on_chain F (prep_chain t) (prep_to t) ''allowance'' [PStr owner, PStr s] cur \<and>
    (call_amount (prep_data t) = 0 \<or> cur < call_amount (prep_data t)) \<and>
    (call_amount (prep_data t) = MAX_UINT256 \<longrightarrow> unlimited) \<and>
    (\<forall>x. carries t x \<longrightarrow> has_action x ERC20_APPROVAL \<and> approval_ok L (\<not> unlimited) x)"
proof -
  from approval_built [OF assms] obtain w owner s where a: "R wid = Inr w" "normalize_evm_address L (wa_address w) = Inr owner"
    "prep_from_address t = Some owner" "normalize_evm_address L token = Inr (prep_to t)" "prep_value_wei t = 0"
    "normalize_evm_address L spender = Inr s" "call_address (prep_data t) = address_value s"
    "call_amount (prep_data t) = MAX_UINT256 \<longrightarrow> unlimited"
    "\<forall>x. carries t x \<longrightarrow> has_action x ERC20_APPROVAL \<and> approval_ok L (\<not> unlimited) x" by blast
  from approval_built_reads [OF assms] a(3,6) show ?thesis
    by (elim exE conjE) (use a in \<open>intro exI conjI; (assumption | simp only: sum.inject option.inject)\<close>)
qed

theorem erc20_approval_built_correctly_witness:
  "\<exists>t. prepare_erc20_approval lower_libs demo_read_factory demo_resolver ''ethereum'' ''w1'' demo_token
      (demo_address (CHR ''1'')) ''5'' (Some ''k1'') False False True = Inr t \<and>
    call_address (prep_data t) = address_value (demo_address (CHR ''1'')) \<and> call_amount (prep_data t) \<noteq> MAX_UINT256"
proof -
  have "\<not> is_unlimited_word ''5''" by code_simp
  moreover obtain b where "alw_raw_amount b = 3" "get_erc20_allowance lower_libs demo_read_factory ''ethereum''
      demo_token (demo_address (CHR ''2'')) (demo_address (CHR ''1'')) = Inr b" using demo_reads(3) by blast
  ultimately obtain t where t: "prepare_erc20_approval lower_libs demo_read_factory demo_resolver ''ethereum'' ''w1''
      demo_token (demo_address (CHR ''1'')) ''5'' (Some ''k1'') False False True = Inr t"
    using demo_calldata(2) demo_five demo_reads(1) demo_norms
    by (simp add: prepare_erc20_approval_def demo_resolver_def check_erc20_approval_preconditions_def demo_amount_def
        approval_amount_def encode_erc20_approval_data_def builder_eval)
  with erc20_approval_built_correctly [OF web3_laws_lower_libs abi_laws_lower_libs t] demo_norms(2) show ?thesis
    by auto
qed

text \<open>C28: a built native transfer comes from the wallet's own address, goes to the requested recipient on the resolved
  chain, under the key of the request, moves exactly the parsed amount in wei, which is positive, carries no calldata, and the
  executable transaction made of it satisfies the native transfer rule of the policy.\<close>

theorem native_transfer_built_correctly:
  assumes "web3_laws L" and "prepare_native_transfer L C R chain wid recipient amount key = Inr t"
  shows "\<exists>cfg w. get_chain_by_name C chain = Inr cfg \<and> prep_chain t = cc_name cfg \<and>
    prep_chain_id t = Some (cc_chain_id cfg) \<and> R wid = Inr w \<and>
    prep_wallet_id t = wid \<and> prep_idempotency_key t = key \<and>
    normalize_evm_address L (wa_address w) = Inr (the (prep_from_address t)) \<and> prep_from_address t \<noteq> None \<and>
    normalize_evm_address L recipient = Inr (prep_to t) \<and> prep_from_address t \<noteq> Some (prep_to t) \<and>
    parse_units (py_strip amount) 18 = Inr (prep_value_wei t) \<and> 0 < prep_value_wei t \<and> prep_data t = ''0x'' \<and>
    (\<forall>x. carries t x \<longrightarrow> has_action x ''native_transfer'' \<and> native_ok L x)"
proof -
  from assms(2) obtain cfg w r self v where q: "get_chain_by_name C chain = Inr cfg" "R wid = Inr w"
    "normalize_evm_address L recipient = Inr r" "r \<noteq> to_checksum_address L ZERO_ADDRESS"
    "normalize_evm_address L (wa_address w) = Inr self" "r \<noteq> self" "parse_units (py_strip amount) 18 = Inr v" "0 < v" and
    t: "mk_prepared_transaction L
       \<lparr>prep_wallet_id = wid, prep_chain = cc_name cfg, prep_chain_id = Some (cc_chain_id cfg),
        prep_from_address = Some (wa_address w), prep_to = r, prep_value_wei = v,
        prep_data = ''0x'', prep_nonce = None, prep_gas = None, prep_idempotency_key = key,
        prep_metadata = [(''action'', PStr ''native_transfer''), (''recipient_address'', PStr r),
          (''amount_eth'', PStr (py_strip amount))]\<rparr> = Inr t"
    by (auto simp: prepare_native_transfer_def rbind_eq_Inr normalize_ZERO [OF assms(1)] split: if_splits)
  have n: "normal_address L r" "normal_address L self"
    using q(3,5) normalize_result_normal [OF assms(1)] by blast+
  have self: "addr_norm L (wa_address w) = self" using q(5) by (simp add: addr_norm_def)
  then have f: "prep_from_address t = Some self" "prep_to t = r" "prep_value_wei t = v" "prep_data t = ''0x''"
    "prep_chain t = cc_name cfg" "prep_chain_id t = Some (cc_chain_id cfg)"
    "prep_wallet_id t = wid" "prep_idempotency_key t = key"
    "prep_metadata t = [(''action'', PStr ''native_transfer''), (''recipient_address'', PStr r),
          (''amount_eth'', PStr (py_strip amount))]"
    using t addr_norm_normal [OF n(1)] by (auto simp: mk_prepared_transaction_def)
  have "has_action x ''native_transfer'' \<and> native_ok L x" if "carries t x" for x
  proof -
    have "metadata_address L x ''recipient_address'' = Inr r"
      using n that f by (auto simp: carries_def intro!: metadata_address_normal)
    then show ?thesis
      using that f q(4,6,8) n by (auto simp: carries_def has_action_def native_ok_def not_sender_def normalize_normal)
  qed
  with f q show ?thesis by auto
qed

lemma parse_one: "parse_units ''1'' 18 = Inr 1000000000000000000"
proof -
  have t: "decimal_of_text ''1'' = Some (Finite (False, 1, - int 0))" "py_strip ''1'' = ''1''" "drop_plus ''1'' = ''1''"
    by code_simp+
  have "scale_amount ''1'' (False, 1, - int 0) 18 = Inr (int (1 * 10 ^ (nat 18 - 0)))"
    by (rule scale_amount_total) simp_all
  with t show ?thesis
    by (simp add: parse_units_def validate_token_decimals_def MAX_DECIMALS_def dec_is_negative_def)
qed

theorem native_transfer_built_correctly_witness:
  "\<exists>t. prepare_native_transfer lower_libs demo_chains demo_resolver ''ethereum'' ''w1'' (demo_address (CHR ''1''))
      ''1'' (Some ''k1'') = Inr t \<and> prep_value_wei t = 1000000000000000000 \<and> prep_chain_id t = Some 1 \<and>
    prep_to t = demo_address (CHR ''1'')"
proof -
  have s: "py_strip ''1'' = ''1''" by code_simp
  obtain t where t: "prepare_native_transfer lower_libs demo_chains demo_resolver ''ethereum'' ''w1''
      (demo_address (CHR ''1'')) ''1'' (Some ''k1'') = Inr t"
    using demo_chain parse_one s demo_norms normalize_ZERO [OF web3_laws_lower_libs]
    by (simp add: prepare_native_transfer_def demo_resolver_def builder_eval is_hex_data_def demo_chains_def)
  with native_transfer_built_correctly [OF web3_laws_lower_libs t] demo_norms(2) parse_one s demo_chain show ?thesis
    by (auto simp: demo_chains_def)
qed

end
