(* ===== verification/Entry_Properties.thy ===== *)
theory Entry_Properties
  imports Builder_Properties
begin

text \<open>
  The guarantees of a run from its prepared transaction on: a transaction that passes every check does reach the signer, and
  one whose key has a recorded result gets that result back; what the signer receives in a run of the ERC20 graph was
  built from the request, and a failed preparation ends in a rejection.
\<close>

section \<open>Progress\<close>

lemma node_log_grows:
  assumes "run_node d n s w = (o', w')"
  shows "set (w_log w) \<subseteq> set (w_log w')"
proof -
  obtain o1 w1 where r: "run_node d n s \<lparr>w_store = w_store w, w_log = []\<rparr> = (o1, w1)" by fastforce
  have "run_node d n s w = run_node d n s \<lparr>w_store = w_store w, w_log = w_log w\<rparr>" by (cases w) simp
  also have "\<dots> = (o1, w1\<lparr>w_log := w_log w @ w_log w1\<rparr>)"
    using run_node_frame [of d n s "w_store w" "w_log w"] r by (simp add: frame_log_def)
  finally show ?thesis using assms by auto
qed

lemma log_grows:
  assumes "run_from d n s w = (o', w')"
  shows "set (w_log w) \<subseteq> set (w_log w')"
  using assms
proof (induction "node_rank n" arbitrary: n s w rule: less_induct)
  case less
  obtain o1 w1 where run: "run_node d n s w = (o1, w1)" by fastforce
  note here = node_log_grows [OF run]
  show ?case
  proof (cases "\<exists>s1 n'. o1 = Inr s1 \<and> next_node n s1 = Some n'")
    case True
    then obtain s1 n' where "o1 = Inr s1" and n': "next_node n s1 = Some n'" by blast
    with run less.prems have "run_from d n' s1 w1 = (o', w')" by (simp add: run_from.simps [of _ n])
    from less.hyps [OF next_node_rank [OF n'] this] here show ?thesis by blast
  next
    case False
    then have "o' = o1 \<and> w' = w1"
      using run less.prems by (cases o1) (auto simp: run_from.simps [of _ n] split: option.splits)
    with here show ?thesis by simp
  qed
qed

definition exec_of :: "prepared_transaction \<Rightarrow> int \<Rightarrow> gas_fees \<Rightarrow> executable_transaction" where
  "exec_of p n g = \<lparr>exec_wallet_id = prep_wallet_id p, exec_chain = prep_chain p,
     exec_chain_id = the (prep_chain_id p), exec_from_address = prep_from_address p, exec_to = prep_to p,
     exec_value_wei = prep_value_wei p, exec_data = prep_data p, exec_nonce = n, exec_gas = g,
     exec_idempotency_key = prep_idempotency_key p, exec_metadata = prep_metadata p\<rparr>"

lemma exec_of_wf:
  assumes "web3_laws L" and "complete L p" and "0 \<le> n" and "prep_idempotency_key p = Some k" and "k \<noteq> []"
  shows "wf_executable L (exec_of p n g)"
  using assms unfolding complete_def wf_prepared_iff [OF assms(1)] wf_executable_iff [OF assms(1)]
  by (auto simp: exec_of_def)

lemma requests_built:
  assumes "web3_laws L" and "wf_executable L t" and "exec_idempotency_key t = Some k" and "k \<noteq> []"
  shows "\<exists>q. build_approval_request t = Inr q" and "\<exists>r. build_sign_request L t = Inr r"
proof -
  have w: "exec_wallet_id t \<noteq> []" "exec_chain t \<noteq> []" "0 < exec_chain_id t" "opt_normal L (exec_from_address t)"
    "normal_address L (exec_to t)" "0 \<le> exec_value_wei t" "is_hex_data (exec_data t)"
    using assms(2) unfolding wf_executable_iff [OF assms(1)] by simp_all
  then have "exec_to t \<noteq> []" "2 \<le> length (exec_data t)"
    using normal_address_nonempty by (auto simp: is_hex_data_def prefix_def)
  with w assms(3,4) show "\<exists>q. build_approval_request t = Inr q"
    by (simp add: build_approval_request_def mk_approval_request_def finish_def check_def min_len_def)
  have "opt_addr_errs L ''expected_address'' (exec_from_address t) = []"
    using w(4) by (cases "exec_from_address t") (auto simp: normalize_normal addr_norm_normal)
  with w(1,3) show "\<exists>r. build_sign_request L t = Inr r"
    by (simp add: build_sign_request_def mk_wallet_ref_def to_prepared_evm_transaction_def
        mk_prepared_evm_transaction_def mk_sign_transaction_request_def finish_def check_def min_len_def)
qed

text \<open>Behind the checks: an executable transaction that passes them is handed to the signer.\<close>

lemma checked_is_signed:
  assumes "s_executable_transaction s = Some t" and "exec_idempotency_key t = Some k" and "k \<noteq> []"
    and "s_execution_result s = None" and "w_store w k = None" and "build_sign_request (d_libs d) t = Inr r"
  shows "\<exists>x. SignerCalled r x \<in> set (w_log (snd (run_from d CheckIdempotency s w)))"
proof -
  have h: "holds_key s t k" using assms(1-3) by (simp add: holds_key_def)
  let ?w = "w\<lparr>w_store := (w_store w)(k \<mapsto> fresh_record k)\<rparr>"
  let ?x = "sg_sign_transaction (d_signer d) r"
  obtain o1 w1 where sg: "sign_transaction d s ?w = (o1, w1)" by fastforce
  have ev: "SignerCalled r ?x \<in> set (w_log w1)"
    using sg assms(1,6)
    by (auto simp: sign_transaction_def call_signer_def executable_from_state_def Let_def
        simp del: normalize_exception.simps split: sum.splits)
  obtain o2 w2 where run: "run_from d SignTransaction s ?w = (o2, w2)" by fastforce
  have "set (w_log w1) \<subseteq> set (w_log w2)"
  proof (cases o1)
    case (Inl e)
    with run sg show ?thesis by (simp add: run_from_unfold(7))
  next
    case (Inr s1)
    with run sg have "run_from d BroadcastTransaction s1 w1 = (o2, w2)" by (simp add: run_from_unfold(7))
    then show ?thesis by (rule log_grows)
  qed
  with ev run show ?thesis using check_free [OF h assms(5,4)] by auto
qed

lemma accepted_reaches_check:
  assumes "web3_laws (d_libs d)" and "wf_executable (d_libs d) t" and "s_executable_transaction s = Some t"
    and "s_error s = None" and "s_execution_result s = None" and "exec_idempotency_key t = Some k" and "k \<noteq> []"
    and "be_simulate (d_backend d) t = Inr sim"
    and "policy_accepts (d_libs d) (d_chains d) (d_policy_engine d) t (Some sim)"
    and "\<And>q. build_approval_request t = Inr q \<Longrightarrow> \<exists>a. d_approver d q = Inr a \<and> apr_approved a"
  shows "\<exists>s' w'. run_from d SimulateTransaction s w = run_from d CheckIdempotency s' w' \<and>
    s_executable_transaction s' = Some t \<and> s_execution_result s' = None \<and>
    (w' = w \<or> (\<exists>q a. w' = log_event (Asked q (Inr a)) w))"
proof -
  obtain dec where dec: "evaluate (d_libs d) (d_chains d) (d_policy_engine d) t (Some sim) = Inr dec"
    "pd_status dec \<noteq> REJECTED_BY_POLICY" using evaluate_accepts [OF assms(1)] assms(9) by blast
  let ?s1 = "s\<lparr>s_simulation_result := Some sim\<rparr>"
  let ?s2 = "?s1\<lparr>s_policy_decision := Some dec\<rparr>"
  have front: "run_from d SimulateTransaction s w = run_from d (route_after_transaction_policy ?s2) ?s2 w"
    using assms(3,4,8) dec(1)
    by (simp add: run_from_unfold(3,4) simulate_transaction_def evaluate_policy_def executable_from_state_def)
  obtain q where q: "build_approval_request t = Inr q" using requests_built(1) [OF assms(1,2,6,7)] by blast
  with assms(10) obtain a where a: "d_approver d q = Inr a" "apr_status a = APPROVED" by (auto simp: apr_approved_def)
  let ?s3 = "?s2\<lparr>s_approval_result := Some a\<rparr>"
  have asked: "run_from d RequestApproval ?s2 w = run_from d CheckIdempotency ?s3 (log_event (Asked q (Inr a)) w)"
    using q a assms(3)
    by (simp add: run_from_unfold(5) request_approval_def ask_approver_def executable_from_state_def record_approval_def
        route_after_transaction_approval_def Let_def)
  have kept: "s_executable_transaction ?s2 = Some t \<and> s_execution_result ?s2 = None"
    "s_executable_transaction ?s3 = Some t \<and> s_execution_result ?s3 = None" using assms(3,5) by simp_all
  show ?thesis
  proof (cases "pd_status dec")
    case ALLOWED
    with front have "run_from d SimulateTransaction s w = run_from d CheckIdempotency ?s2 w"
      by (simp add: route_after_transaction_policy_def)
    with kept(1) show ?thesis by blast
  next
    case NEEDS_APPROVAL
    with front asked have "run_from d SimulateTransaction s w =
        run_from d CheckIdempotency ?s3 (log_event (Asked q (Inr a)) w)"
      by (simp add: route_after_transaction_policy_def)
    with kept(2) show ?thesis by blast
  qed (use dec(2) in simp)
qed

lemma complete_reaches_check:
  assumes "web3_laws (d_libs d)" and "s_error s = None" and "s_execution_result s = None"
    and "s_prepared_transaction s = Some (Model p)" and "complete (d_libs d) p" and "prep_nonce p = None"
    and "sg_get_wallet_address (d_signer d) (prep_wallet_id p) = Inr wa"
    and "be_lookup_nonce (d_backend d) p (wa_address wa) = Inr n" and "0 \<le> n"
    and "be_populate_gas (d_backend d) (p\<lparr>prep_nonce := Some n\<rparr>) = Inr g"
    and "be_simulate (d_backend d) (exec_of p n g) = Inr sim"
    and "policy_accepts (d_libs d) (d_chains d) (d_policy_engine d) (exec_of p n g) (Some sim)"
    and "\<And>q. build_approval_request (exec_of p n g) = Inr q \<Longrightarrow> \<exists>a. d_approver d q = Inr a \<and> apr_approved a"
    and "prep_idempotency_key p = Some k" and "k \<noteq> []"
  shows "wf_executable (d_libs d) (exec_of p n g)" and "exec_idempotency_key (exec_of p n g) = Some k"
    and "\<exists>s' w'. run_pipeline d s w = run_from d CheckIdempotency s' w' \<and>
      s_executable_transaction s' = Some (exec_of p n g) \<and> s_execution_result s' = None \<and>
      (w' = w \<or> (\<exists>q a. w' = log_event (Asked q (Inr a)) w))"
proof -
  let ?t = "exec_of p n g" and ?p = "p\<lparr>prep_nonce := Some n\<rparr>"
  obtain a i where p: "prep_from_address p = Some a" "a \<noteq> []" "prep_chain_id p = Some i" "0 < i"
    using completeD [OF assms(1,5)] by metis
  have id: "p\<lparr>prep_chain_id := Some i, prep_from_address := Some a, prep_nonce := m\<rparr> = p\<lparr>prep_nonce := m\<rparr>" for m
    using p by (cases p) simp
  let ?s1 = "s\<lparr>s_prepared_transaction := Some (Model ?p), s_wallet_address := Some (wa_address wa),
    s_chain_name := Some (prep_chain p)\<rparr>"
  have "resolve_nonce d s = Inr ?s1"
    using assms(4,6-8) p by (simp add: resolve_nonce_def prepared_from_state_def id py_or_def)
  moreover show wf: "wf_executable (d_libs d) ?t" by (rule exec_of_wf [OF assms(1,5,9,14,15)])
  then have "populate_gas d ?s1 = Inr (?s1\<lparr>s_executable_transaction := Some ?t\<rparr>)"
    using assms(2,10) p by (simp add: populate_gas_def prepared_from_state_def wf_executable_def exec_of_def)
  ultimately have run: "run_pipeline d s w = run_from d SimulateTransaction (?s1\<lparr>s_executable_transaction := Some ?t\<rparr>) w"
    by (simp add: run_pipeline_def run_from_unfold(1,2))
  show key: "exec_idempotency_key ?t = Some k" using assms(14) by (simp add: exec_of_def)
  show "\<exists>s' w'. run_pipeline d s w = run_from d CheckIdempotency s' w' \<and>
      s_executable_transaction s' = Some ?t \<and> s_execution_result s' = None \<and>
      (w' = w \<or> (\<exists>q a. w' = log_event (Asked q (Inr a)) w))"
    unfolding run using assms(2,3)
    by (intro accepted_reaches_check [OF assms(1) wf _ _ _ key assms(15,11,12,13)]) simp_all
qed

lemma complete_reaches_signer:
  assumes "web3_laws (d_libs d)" and "s_error s = None" and "s_execution_result s = None"
    and "s_prepared_transaction s = Some (Model p)" and "complete (d_libs d) p" and "prep_nonce p = None"
    and "sg_get_wallet_address (d_signer d) (prep_wallet_id p) = Inr wa"
    and "be_lookup_nonce (d_backend d) p (wa_address wa) = Inr n" and "0 \<le> n"
    and "be_populate_gas (d_backend d) (p\<lparr>prep_nonce := Some n\<rparr>) = Inr g"
    and "be_simulate (d_backend d) (exec_of p n g) = Inr sim"
    and "policy_accepts (d_libs d) (d_chains d) (d_policy_engine d) (exec_of p n g) (Some sim)"
    and "\<And>q. build_approval_request (exec_of p n g) = Inr q \<Longrightarrow> \<exists>a. d_approver d q = Inr a \<and> apr_approved a"
    and "prep_idempotency_key p = Some k" and "k \<noteq> []" and "w_store w k = None"
  shows "\<exists>r x. build_sign_request (d_libs d) (exec_of p n g) = Inr r \<and>
    SignerCalled r x \<in> set (w_log (snd (run_pipeline d s w)))"
proof -
  note c = complete_reaches_check [OF assms(1-15)]
  obtain r where r: "build_sign_request (d_libs d) (exec_of p n g) = Inr r"
    using requests_built(2) [OF assms(1) c(1,2) assms(15)] by blast
  obtain s' w' where c3: "run_pipeline d s w = run_from d CheckIdempotency s' w'"
      "s_executable_transaction s' = Some (exec_of p n g)" "s_execution_result s' = None"
      "w' = w \<or> (\<exists>q a. w' = log_event (Asked q (Inr a)) w)" using c(3) [of w] by blast
  from c3(4) assms(16) have "w_store w' k = None" by auto
  from checked_is_signed [OF c3(2) c(2) assms(15) c3(3) this r] r c3(1) show ?thesis by auto
qed

lemma complete_replays:
  assumes "web3_laws (d_libs d)" and "s_error s = None" and "s_execution_result s = None"
    and "s_prepared_transaction s = Some (Model p)" and "complete (d_libs d) p" and "prep_nonce p = None"
    and "sg_get_wallet_address (d_signer d) (prep_wallet_id p) = Inr wa"
    and "be_lookup_nonce (d_backend d) p (wa_address wa) = Inr n" and "0 \<le> n"
    and "be_populate_gas (d_backend d) (p\<lparr>prep_nonce := Some n\<rparr>) = Inr g"
    and "be_simulate (d_backend d) (exec_of p n g) = Inr sim"
    and "policy_accepts (d_libs d) (d_chains d) (d_policy_engine d) (exec_of p n g) (Some sim)"
    and "\<And>q. build_approval_request (exec_of p n g) = Inr q \<Longrightarrow> \<exists>a. d_approver d q = Inr a \<and> apr_approved a"
    and "prep_idempotency_key p = Some k" and "k \<noteq> []"
    and "w_store w k = Some r" and "ik_result r = Some res"
  shows "\<exists>s' w'. run_pipeline d s w = (Inr s', w') \<and> s_execution_result s' = Some res \<and> w_store w' = w_store w \<and>
    (w_log w' = w_log w \<or> (\<exists>q a. w_log w' = w_log w @ [Asked q (Inr a)]))"
proof -
  note c = complete_reaches_check [OF assms(1-15)]
  obtain s1 w1 where c3: "run_pipeline d s w = run_from d CheckIdempotency s1 w1"
      "s_executable_transaction s1 = Some (exec_of p n g)" "s_execution_result s1 = None"
      "w1 = w \<or> (\<exists>q a. w1 = log_event (Asked q (Inr a)) w)" using c(3) [of w] by blast
  from c3(4) assms(16) have st: "w_store w1 k = Some r" by auto
  obtain o' w' where run: "run_from d CheckIdempotency s1 w1 = (o', w')" by fastforce
  from check_taken(1,2) [OF c3(2) c(2) st c3(3) run] assms(17) obtain s' where
    "w' = w1" "o' = Inr s'" "s_execution_result s' = Some res" by blast
  with c3(1,4) run show ?thesis by auto
qed

text \<open>C13: a request that passes every check before the reservation, as in the progress theorem, and
  whose key has a recorded result gets exactly that result back: the store is unchanged, and the only call made is at most
  one question to the approver, so neither the signer is called nor anything broadcast. (The nonce, gas and
  simulation reads come before the key is looked up; they have no effect on the store or the chain.)\<close>

theorem replay_returns_recorded_result:
  assumes "web3_laws (d_libs d)" and "s_error s = None" and "s_execution_result s = None"
    and "s_prepared_transaction s = Some (Model p)" and "complete (d_libs d) p" and "prep_nonce p = None"
    and "sg_get_wallet_address (d_signer d) (prep_wallet_id p) = Inr wa"
    and "be_lookup_nonce (d_backend d) p (wa_address wa) = Inr n" and "0 \<le> n"
    and "be_populate_gas (d_backend d) (p\<lparr>prep_nonce := Some n\<rparr>) = Inr g"
    and "be_simulate (d_backend d) (exec_of p n g) = Inr sim"
    and "policy_accepts (d_libs d) (d_chains d) (d_policy_engine d) (exec_of p n g) (Some sim)"
    and "\<And>q. build_approval_request (exec_of p n g) = Inr q \<Longrightarrow> \<exists>a. d_approver d q = Inr a \<and> apr_approved a"
    and "prep_idempotency_key p = Some k" and "k \<noteq> []"
    and "w_store w k = Some r" and "ik_result r = Some res"
  shows "\<exists>s' w'. run_pipeline d s w = (Inr s', w') \<and> s_execution_result s' = Some res \<and> w_store w' = w_store w \<and>
    (w_log w' = w_log w \<or> (\<exists>q a. w_log w' = w_log w @ [Asked q (Inr a)]))"
  by (rule complete_replays [OF assms])

text \<open>C18: progress: a complete transaction whose nonce and gas can be resolved, whose simulation passes, which the
  policy accepts, which the approver approves and whose idempotency key is free does reach the signer, with
  the request made from its own fields.\<close>

theorem approved_transaction_reaches_signer:
  assumes "web3_laws (d_libs d)" and "s_error s = None" and "s_execution_result s = None"
    and "s_prepared_transaction s = Some (Model p)" and "complete (d_libs d) p" and "prep_nonce p = None"
    and "sg_get_wallet_address (d_signer d) (prep_wallet_id p) = Inr wa"
    and "be_lookup_nonce (d_backend d) p (wa_address wa) = Inr n" and "0 \<le> n"
    and "be_populate_gas (d_backend d) (p\<lparr>prep_nonce := Some n\<rparr>) = Inr g"
    and "be_simulate (d_backend d) (exec_of p n g) = Inr sim"
    and "policy_accepts (d_libs d) (d_chains d) (d_policy_engine d) (exec_of p n g) (Some sim)"
    and "\<And>q. build_approval_request (exec_of p n g) = Inr q \<Longrightarrow> \<exists>a. d_approver d q = Inr a \<and> apr_approved a"
    and "prep_idempotency_key p = Some k" and "k \<noteq> []" and "w_store w k = None"
  shows "\<exists>r x. build_sign_request (d_libs d) (exec_of p n g) = Inr r \<and>
    SignerCalled r x \<in> set (w_log (snd (run_pipeline d s w)))"
  by (rule complete_reaches_signer [OF assms])

definition demo_native_payload :: pydict where
  "demo_native_payload = [(''kind'', PStr ''native_transfer''), (''chain'', PStr ''ethereum''), (''wallet_id'', PStr ''w1''),
     (''recipient_address'', PStr (demo_address (CHR ''1''))), (''amount'', PStr ''1''), (''idempotency_key'', PStr ''k1'')]"

definition demo_native_prepared :: prepared_transaction where
  "demo_native_prepared = \<lparr>prep_wallet_id = ''w1'', prep_chain = ''ethereum'', prep_chain_id = Some 1,
     prep_from_address = Some (demo_address (CHR ''2'')), prep_to = demo_address (CHR ''1''),
     prep_value_wei = 1000000000000000000, prep_data = ''0x'', prep_nonce = None, prep_gas = None,
     prep_idempotency_key = Some ''k1'', prep_metadata = [(''action'', PStr ''native_transfer''),
       (''recipient_address'', PStr (demo_address (CHR ''1''))), (''amount_eth'', PStr ''1'')]\<rparr>"

definition demo_consenting :: tx_deps where
  "demo_consenting = demo_deps\<lparr>d_approver := (\<lambda>_. Inr demo_approval)\<rparr>"

lemma demo_native_complete: "complete lower_libs demo_native_prepared"
  unfolding complete_def wf_prepared_iff [OF web3_laws_lower_libs]
  by (simp add: demo_native_prepared_def demo_normal_12 is_hex_data_def)

lemma demo_exec_accepted:
  "policy_accepts lower_libs demo_chains default_engine (exec_of demo_native_prepared 7 demo_gas) (Some demo_sim)"
proof -
  have "native_ok lower_libs (exec_of demo_native_prepared 7 demo_gas)"
    using demo_norms demo_one_not_zero
    by (simp add: native_ok_def not_sender_def exec_of_def demo_native_prepared_def metadata_address_def)
  then show ?thesis
    unfolding policy_accepts_def chain_ok_def identity_ok_def
    using demo_chain demo_norms
    by (simp add: exec_of_def demo_native_prepared_def demo_chains_def demo_sim_def sim_passed_def key_missing_def
        default_engine_def has_action_def ERC20_TRANSFER_def ERC20_APPROVAL_def NATIVE_TRANSFER_ACTION_def)
qed

lemmas demo_consenting_defs = demo_consenting_def demo_deps_def demo_deps_bc_def demo_signer_def demo_backend_def

lemma demo_facts:
  "web3_laws (d_libs demo_consenting)" "complete (d_libs demo_consenting) demo_native_prepared"
  "sg_get_wallet_address (d_signer demo_consenting) (prep_wallet_id demo_native_prepared) =
     Inr \<lparr>wa_wallet_id = ''w1'', wa_address = demo_address (CHR ''2'')\<rparr>"
  "be_lookup_nonce (d_backend demo_consenting) demo_native_prepared a = Inr 7"
  "be_populate_gas (d_backend demo_consenting) q = Inr demo_gas"
  "be_simulate (d_backend demo_consenting) t = Inr demo_sim"
  "policy_accepts (d_libs demo_consenting) (d_chains demo_consenting) (d_policy_engine demo_consenting)
     (exec_of demo_native_prepared 7 demo_gas) (Some demo_sim)"
  "\<exists>a. d_approver demo_consenting r = Inr a \<and> apr_approved a"
  using demo_native_complete demo_exec_accepted web3_laws_lower_libs
  by (simp_all add: demo_consenting_defs demo_native_prepared_def demo_sim_def apr_approved_def demo_approval_def)

theorem replay_returns_recorded_result_witness:
  "\<exists>s' w'. run_pipeline demo_consenting (empty_state\<lparr>s_prepared_transaction := Some (Model demo_native_prepared)\<rparr>)
      \<lparr>w_store = [''k1'' \<mapsto> done_record ''k1'' demo_result], w_log = []\<rparr> = (Inr s', w') \<and>
    s_execution_result s' = Some demo_result \<and> w_store w' = [''k1'' \<mapsto> done_record ''k1'' demo_result] \<and>
    (w_log w' = [] \<or> (\<exists>q a. w_log w' = [Asked q (Inr a)]))"
proof -
  let ?w = "\<lparr>w_store = [''k1'' \<mapsto> done_record ''k1'' demo_result], w_log = []\<rparr>"
  have "\<exists>s' w'. run_pipeline demo_consenting (empty_state\<lparr>s_prepared_transaction := Some (Model demo_native_prepared)\<rparr>) ?w
      = (Inr s', w') \<and> s_execution_result s' = Some demo_result \<and> w_store w' = w_store ?w \<and>
    (w_log w' = w_log ?w \<or> (\<exists>q a. w_log w' = w_log ?w @ [Asked q (Inr a)]))"
    by (rule replay_returns_recorded_result [OF demo_facts(1) _ _ _ demo_facts(2) _ demo_facts(3-4) _
          demo_facts(5-7) demo_facts(8), where k = "''k1''" and r = "done_record ''k1'' demo_result"])
      (simp_all add: empty_state_def demo_native_prepared_def done_record_def)
  then show ?thesis by simp
qed

theorem approved_transaction_reaches_signer_witness:
  "\<exists>r x. build_sign_request lower_libs (exec_of demo_native_prepared 7 demo_gas) = Inr r \<and>
    SignerCalled r x \<in> set (w_log (snd (run_pipeline demo_consenting
      (empty_state\<lparr>s_prepared_transaction := Some (Model demo_native_prepared)\<rparr>) demo_world)))"
proof -
  have l: "d_libs demo_consenting = lower_libs" by (simp add: demo_consenting_defs)
  have "\<exists>r x. build_sign_request (d_libs demo_consenting) (exec_of demo_native_prepared 7 demo_gas) = Inr r \<and>
    SignerCalled r x \<in> set (w_log (snd (run_pipeline demo_consenting
      (empty_state\<lparr>s_prepared_transaction := Some (Model demo_native_prepared)\<rparr>) demo_world)))"
    by (rule approved_transaction_reaches_signer [OF demo_facts(1) _ _ _ demo_facts(2) _ demo_facts(3-4) _
          demo_facts(5-7) demo_facts(8), where k = "''k1''"])
      (simp_all add: empty_state_def demo_native_prepared_def demo_world_def)
  then show ?thesis by (simp add: l)
qed

section \<open>What is signed was requested\<close>

text \<open>Whatever the signer receives in a run of the ERC20 graph was built from the request: the request has a
  structured payload of kind transfer or approval, the builder made a transaction from it, and the signed
  transaction has the builder's wallet, sender, recipient contract, value, calldata, chain and
  idempotency key.\<close>

theorem signed_erc20_was_requested:
  assumes "web3_laws (d_libs d)" and "fresh s" and "run_erc20_graph g d s \<lparr>w_store = st, w_log = []\<rparr> = (o', w')"
    and "SignerCalled r x \<in> set (w_log w')"
  shows "\<exists>payload t y. erc20_payload_from_state s = Inr payload \<and>
    payload_kind (d_libs d) payload \<in> {''erc20_transfer'', ''erc20_approval''} \<and>
    build_erc20 (d_libs d) g payload = Inr t \<and> build_sign_request (d_libs d) y = Inr r \<and>
    exec_wallet_id y = prep_wallet_id t \<and> exec_from_address y = prep_from_address t \<and> exec_to y = prep_to t \<and>
    exec_value_wei y = prep_value_wei t \<and> exec_data y = prep_data t \<and> Some (exec_chain_id y) = prep_chain_id t \<and>
    exec_idempotency_key y = prep_idempotency_key t"
proof -
  have kind: "payload_kind L payload \<in> {''erc20_transfer'', ''erc20_approval''}" if "build_erc20 L g payload = Inr t"
    for L payload t using that by (auto simp: build_erc20_def Let_def split: if_splits)
  have "\<exists>t y. erc20_built g d s t \<and> complete (d_libs d) t \<and> comes_from t y \<and> build_sign_request (d_libs d) y = Inr r"
    by (rule erc20_graph.signed_was_built [OF assms]) simp
  with kind show ?thesis by (fastforce simp: erc20_built_def comes_from_def carries_def)
qed

text \<open>Whatever the signer receives in a run of the native graph was built from the request, with the builder's
  wallet, sender, recipient, amount, chain and idempotency key, and without calldata.\<close>

theorem signed_native_was_requested:
  assumes "web3_laws (d_libs d)" and "fresh s" and "run_native_graph g d s \<lparr>w_store = st, w_log = []\<rparr> = (o', w')"
    and "SignerCalled r x \<in> set (w_log w')"
  shows "\<exists>payload t y. native_payload_from_state s = Inr payload \<and>
    build_native (d_libs d) (d_chains d) g payload = Inr t \<and> build_sign_request (d_libs d) y = Inr r \<and>
    exec_wallet_id y = prep_wallet_id t \<and> exec_from_address y = prep_from_address t \<and> exec_to y = prep_to t \<and>
    exec_value_wei y = prep_value_wei t \<and> exec_data y = ''0x'' \<and> Some (exec_chain_id y) = prep_chain_id t \<and>
    exec_idempotency_key y = prep_idempotency_key t"
proof -
  have data: "prep_data t = ''0x''" if "build_native L C g payload = Inr t" for L C payload t
    using that by (auto simp: build_native_def prepare_native_transfer_def rbind_eq_Inr mk_prepared_transaction_def
        split: if_splits)
  have "\<exists>t y. native_built g d s t \<and> complete (d_libs d) t \<and> comes_from t y \<and> build_sign_request (d_libs d) y = Inr r"
    by (rule native_graph.signed_was_built [OF assms]) simp
  with data show ?thesis by (fastforce simp: native_built_def comes_from_def carries_def)
qed

definition demo_native_deps :: native_graph_deps where
  "demo_native_deps = \<lparr>ng_address_resolver = demo_resolver\<rparr>"

definition demo_native_state :: mercury_state where
  "demo_native_state = empty_state\<lparr>s_raw_input := Some (Plain (PDict demo_native_payload))\<rparr>"

lemma demo_native_built: "build_native lower_libs demo_chains demo_native_deps demo_native_payload = Inr demo_native_prepared"
proof -
  have s: "py_strip ''1'' = ''1''" "lower_strip ''ethereum'' = ''ethereum''" by code_simp+
  then show ?thesis
    using demo_chain parse_one demo_norms normalize_ZERO [OF web3_laws_lower_libs] demo_one_not_zero
    by (simp add: build_native_def native_intent_of_def demo_native_payload_def rd_str1_def rd_str_def nonempty_def
        rd_addr_def norm_addr_field_def rd_opt_str1_def rd_opt_str_def Let_def finish_def prepare_native_transfer_def
        demo_native_deps_def demo_resolver_def demo_native_prepared_def mk_prepared_transaction_def prepared_errors_def
        check_def min_len_def opt_check_def opt_addr_errs_def addr_errs_def is_hex_data_def demo_chains_def
        addr_norm_normal [OF demo_normal_12(2)])
qed

lemma demo_native_signs:
  "\<exists>r x. SignerCalled r x \<in> set (w_log (snd (run_native_graph demo_native_deps demo_consenting demo_native_state
     \<lparr>w_store = Map.empty, w_log = []\<rparr>)))"
proof -
  let ?s = "state_with_prepared demo_native_state demo_native_prepared"
  have l: "d_libs demo_consenting = lower_libs" "d_chains demo_consenting = demo_chains"
    by (simp_all add: demo_consenting_defs)
  have p: "native_payload_from_state demo_native_state = Inr demo_native_payload"
    by (simp add: native_payload_from_state_def payload_from_state_def intent_source_def demo_native_state_def
        empty_state_def demo_native_payload_def)
  have k: "payload_kind lower_libs demo_native_payload = ''native_transfer''"
  proof -
    have "py_lower ''native_transfer'' = ''native_transfer''" by code_simp
    then show ?thesis by (simp add: payload_kind_def demo_native_payload_def)
  qed
  have m: "merge_intent_metadata_into_prepared demo_native_prepared demo_native_payload = demo_native_prepared"
    by (simp add: merge_intent_metadata_into_prepared_def demo_native_payload_def)
  have e: "s_error ?s = None" "s_execution_result ?s = None"
    by (simp_all add: state_with_prepared_def demo_native_state_def empty_state_def)
  have run: "run_native_graph demo_native_deps demo_consenting demo_native_state \<lparr>w_store = Map.empty, w_log = []\<rparr> =
      run_pipeline demo_consenting ?s \<lparr>w_store = Map.empty, w_log = []\<rparr>"
    using p k m e(1) demo_native_built
    by (simp add: run_native_graph_def route_native_intent_def prepare_native_transaction_def l
        route_after_native_prepare_def run_pipeline_def)
  have "\<exists>r x. build_sign_request (d_libs demo_consenting) (exec_of demo_native_prepared 7 demo_gas) = Inr r \<and>
      SignerCalled r x \<in> set (w_log (snd (run_pipeline demo_consenting ?s \<lparr>w_store = Map.empty, w_log = []\<rparr>)))"
    by (rule complete_reaches_signer [OF demo_facts(1) e cleared_prepared(2) demo_facts(2) _ demo_facts(3-4) _
          demo_facts(5-7) demo_facts(8), where k = "''k1''"])
      (simp_all add: demo_native_prepared_def)
  then show ?thesis unfolding run by blast
qed

theorem signed_native_was_requested_witness:
  "\<exists>r y payload t. native_payload_from_state demo_native_state = Inr payload \<and>
    build_native lower_libs demo_chains demo_native_deps payload = Inr t \<and> build_sign_request lower_libs y = Inr r \<and>
    exec_to y = prep_to t \<and> exec_value_wei y = prep_value_wei t \<and> exec_data y = ''0x''"
proof -
  have l: "d_libs demo_consenting = lower_libs" "d_chains demo_consenting = demo_chains"
    by (simp_all add: demo_consenting_defs)
  have f: "fresh demo_native_state" by (simp add: fresh_def cleared_def demo_native_state_def empty_state_def)
  obtain r x where ev: "SignerCalled r x \<in> set (w_log (snd (run_native_graph demo_native_deps demo_consenting
      demo_native_state \<lparr>w_store = Map.empty, w_log = []\<rparr>)))" using demo_native_signs by blast
  from signed_native_was_requested [OF demo_facts(1) f prod.collapse [symmetric] ev] show ?thesis
    unfolding l by blast
qed

definition demo_erc20_payload :: pydict where
  "demo_erc20_payload = [(''kind'', PStr ''erc20_transfer''), (''chain'', PStr ''ethereum''), (''wallet_id'', PStr ''w1''),
     (''token_address'', PStr demo_token), (''recipient_address'', PStr (demo_address (CHR ''1''))),
     (''amount'', PStr ''5''), (''amount_in_smallest_units'', PBool True), (''idempotency_key'', PStr ''k1'')]"

definition demo_erc20_deps :: erc20_graph_deps where
  "demo_erc20_deps = \<lparr>eg_provider_factory = demo_read_factory, eg_address_resolver = demo_resolver\<rparr>"

definition demo_erc20_state :: mercury_state where
  "demo_erc20_state = empty_state\<lparr>s_raw_input := Some (Plain (PDict demo_erc20_payload))\<rparr>"

lemma demo_erc20_kind: "payload_kind lower_libs demo_erc20_payload = ''erc20_transfer''"
proof -
  have "py_lower ''erc20_transfer'' = ''erc20_transfer''" by code_simp
  then show ?thesis by (simp add: payload_kind_def demo_erc20_payload_def)
qed

lemma demo_erc20_built: "build_erc20 lower_libs demo_erc20_deps demo_erc20_payload = Inr demo_erc20_prepared"
proof -
  have s: "lower_strip ''ethereum'' = ''ethereum''" by code_simp
  have "transfer_intent_of lower_libs demo_erc20_payload = Inr \<lparr>ti_chain = ''ethereum'', ti_wallet_id = ''w1'',
      ti_token_address = demo_token, ti_recipient_address = demo_address (CHR ''1''), ti_amount = ''5'',
      ti_amount_in_smallest_units = True, ti_idempotency_key = Some ''k1''\<rparr>"
    using s demo_norms
    by (simp add: transfer_intent_of_def demo_erc20_payload_def rd_str1_def rd_str_def nonempty_def rd_addr_def
        norm_addr_field_def rd_opt_str1_def rd_opt_str_def rd_bool_def Let_def finish_def)
       (simp add: lower_libs_def)
  then show ?thesis
    using demo_transfer_built by (simp add: build_erc20_def demo_erc20_kind Let_def demo_erc20_deps_def)
qed

lemma demo_erc20_complete: "complete lower_libs demo_erc20_prepared"
  by (rule build_erc20_complete [OF web3_laws_lower_libs demo_erc20_built])

lemma demo_erc20_accepted:
  "policy_accepts lower_libs demo_chains default_engine (exec_of demo_erc20_prepared 7 demo_gas) (Some demo_sim)"
proof -
  have "carries demo_erc20_prepared (exec_of demo_erc20_prepared 7 demo_gas)" by (simp add: carries_def exec_of_def)
  then have "transfer_ok lower_libs True (exec_of demo_erc20_prepared 7 demo_gas)"
    using transfer_built [OF web3_laws_lower_libs abi_laws_lower_libs demo_transfer_built] by blast
  then show ?thesis
    unfolding policy_accepts_def chain_ok_def identity_ok_def
    using demo_chain demo_norms
    by (simp add: exec_of_def demo_erc20_prepared_def demo_chains_def demo_sim_def sim_passed_def key_missing_def
        default_engine_def has_action_def ERC20_TRANSFER_def ERC20_APPROVAL_def NATIVE_TRANSFER_ACTION_def)
qed

lemma demo_erc20_signs:
  "\<exists>r x. SignerCalled r x \<in> set (w_log (snd (run_erc20_graph demo_erc20_deps demo_consenting demo_erc20_state
     \<lparr>w_store = Map.empty, w_log = []\<rparr>)))"
proof -
  let ?s = "state_with_prepared demo_erc20_state demo_erc20_prepared"
  have l: "d_libs demo_consenting = lower_libs" "d_chains demo_consenting = demo_chains"
    "d_policy_engine demo_consenting = default_engine"
    by (simp_all add: demo_consenting_defs)
  have p: "erc20_payload_from_state demo_erc20_state = Inr demo_erc20_payload"
    by (simp add: erc20_payload_from_state_def payload_from_state_def intent_source_def demo_erc20_state_def
        empty_state_def demo_erc20_payload_def)
  have m: "merge_intent_metadata_into_prepared demo_erc20_prepared demo_erc20_payload = demo_erc20_prepared"
    by (simp add: merge_intent_metadata_into_prepared_def demo_erc20_payload_def)
  have e: "s_error ?s = None" "s_execution_result ?s = None"
    by (simp_all add: state_with_prepared_def demo_erc20_state_def empty_state_def)
  have run: "run_erc20_graph demo_erc20_deps demo_consenting demo_erc20_state \<lparr>w_store = Map.empty, w_log = []\<rparr> =
      run_pipeline demo_consenting ?s \<lparr>w_store = Map.empty, w_log = []\<rparr>"
    using p m e(1) demo_erc20_built demo_erc20_kind
    by (simp add: run_erc20_graph_def route_erc20_intent_def prepare_erc20_transaction_def l
        route_after_erc20_prepare_def run_pipeline_def)
  have c: "complete (d_libs demo_consenting) demo_erc20_prepared" by (simp add: l demo_erc20_complete)
  have w: "sg_get_wallet_address (d_signer demo_consenting) (prep_wallet_id demo_erc20_prepared) =
      Inr \<lparr>wa_wallet_id = ''w1'', wa_address = demo_address (CHR ''2'')\<rparr>"
    and n: "be_lookup_nonce (d_backend demo_consenting) demo_erc20_prepared a = Inr 7" for a
    by (simp_all add: demo_consenting_defs demo_erc20_prepared_def)
  have "\<exists>r x. build_sign_request (d_libs demo_consenting) (exec_of demo_erc20_prepared 7 demo_gas) = Inr r \<and>
      SignerCalled r x \<in> set (w_log (snd (run_pipeline demo_consenting ?s \<lparr>w_store = Map.empty, w_log = []\<rparr>)))"
    by (rule complete_reaches_signer [OF demo_facts(1) e cleared_prepared(2) c _ w n _
          demo_facts(5,6) _ demo_facts(8), where k = "''k1''"])
      (simp_all add: demo_erc20_accepted l, simp_all add: demo_erc20_prepared_def)
  then show ?thesis unfolding run by blast
qed

theorem signed_erc20_was_requested_witness:
  "\<exists>r y payload t. erc20_payload_from_state demo_erc20_state = Inr payload \<and>
    build_erc20 lower_libs demo_erc20_deps payload = Inr t \<and> build_sign_request lower_libs y = Inr r \<and>
    exec_to y = prep_to t \<and> exec_value_wei y = prep_value_wei t \<and> exec_data y = prep_data t"
proof -
  have l: "d_libs demo_consenting = lower_libs" by (simp add: demo_consenting_defs)
  have f: "fresh demo_erc20_state" by (simp add: fresh_def cleared_def demo_erc20_state_def empty_state_def)
  obtain r x where ev: "SignerCalled r x \<in> set (w_log (snd (run_erc20_graph demo_erc20_deps demo_consenting
      demo_erc20_state \<lparr>w_store = Map.empty, w_log = []\<rparr>)))" using demo_erc20_signs by blast
  from signed_erc20_was_requested [OF demo_facts(1) f prod.collapse [symmetric] ev] show ?thesis
    unfolding l by blast
qed

section \<open>Failed preparation\<close>

text \<open>A preparation error in the state ends in a rejection that carries it.\<close>

lemma preparation_error_is_rejected:
  assumes "s_execution_result s = None" and "s_policy_decision s = None" and "s_wallet_address s = None"
    and "s_prepared_transaction s = None" and "s_executable_transaction s = None"
  shows "\<exists>s' res. run_from d RejectTransaction (state_for_preparation_error (d_libs d) s e stage) w = (Inr s', w) \<and>
    s_execution_result s' = Some res \<and> res_status res = REJECTED \<and> res_tx_hash res = None \<and>
    res_error res = Some (preparation_error (d_libs d) e stage)"
proof -
  let ?s = "state_for_preparation_error (d_libs d) s e stage" and ?err = "preparation_error (d_libs d) e stage"
  have "\<exists>res. result_from_state (d_libs d) ?s REJECTED None None None (Some ?err) = Inr res"
    using assms
    by (simp add: result_from_state_def mk_execution_result_def result_errors_def finish_def check_def min_len_def
        opt_check_def opt_addr_errs_def result_chain_def result_chain_id_def result_wallet_id_def
        state_for_preparation_error_def)
  then obtain res where res: "result_from_state (d_libs d) ?s REJECTED None None None (Some ?err) = Inr res" by blast
  have "rejection_error ?s = ?err"
    using assms(2) by (simp add: rejection_error_def state_for_preparation_error_def)
  then have "reject_transaction d ?s = Inr (?s\<lparr>s_execution_result := Some res\<rparr>)"
    using res assms(1) by (simp add: reject_transaction_def with_result_def state_for_preparation_error_def)
  with result_from_state_status [OF res] show ?thesis by (simp add: run_from_unfold(10))
qed

definition demo_bad_payload :: pydict where
  "demo_bad_payload = [(''kind'', PStr ''erc20_transfer'')]"

end
