(* ===== verification/Swap_Properties.thy ===== *)
theory Swap_Properties
  imports Swap_Preparation Entry_Properties
begin

text \<open>
  The guarantees of swaps: quotes of untrusted providers are for the request, the allowance of the quoted spender decides between an
  exact approval and the swap itself, which is only made behind the policy, and what is signed was prepared.
\<close>

section \<open>Quotes\<close>

text \<open>C19: whatever the three providers answer over HTTP, a quote the router returns comes from the preferred
  provider where one is named, and is for the request: same sell amount, chains, tokens and recipient.\<close>

theorem quotes_match_request:
  assumes "set (ro_providers ro) \<subseteq> {lifi_provider L V cfg1 http1, cow_provider L V cfg2 http2, uniswap_provider L V cfg3 http3}"
    and "router_get_quote ro r preference = Inr q"
  shows "q_request q = r \<and> q_amount_in_raw q = rq_amount_in_raw r \<and> rt_from_chain_id (q_route q) = rq_chain_id r \<and>
    rt_to_chain_id (q_route q) = request_to_chain_id r \<and> rt_from_token (q_route q) = rq_from_token r \<and>
    rt_to_token (q_route q) = rq_to_token r \<and> q_recipient_address q = effective_recipient r \<and>
    (\<forall>n. preference = Some n \<longrightarrow> q_provider q = n)"
proof -
  from assms(2) obtain p where p: "provider_for ro preference = Inr p" and q: "pr_get_quote p r = Inr q"
    by (auto simp: router_get_quote_def rbind_eq_Inr)
  have "swap_adapter p"
    using provider_for_Inr(1) [OF p] assms(1) lifi.swap_adapter_axioms cow.swap_adapter_axioms uniswap.swap_adapter_axioms
    by auto
  with q provider_for_Inr(2) [OF p] show ?thesis
    using swap_adapter.quote_faithful [of p r q] swap_adapter.quote_matches_request [of p r q] by simp
qed

definition demo_env :: py_env where
  "demo_env = \<lparr>env_now = 100, env_quote_check_time = 100, env_execution_check_time = 100,
     env_from_timestamp = (\<lambda>t. Inr (dt_utc (\<lfloor>t\<rfloor> * 1000000))), env_from_iso = (\<lambda>_. None), env_isoformat = (\<lambda>_. ''iso''),
     env_local_offset = (\<lambda>_. 0), env_float = (\<lambda>q. q), env_float_of_text = (\<lambda>_. NotFloat)\<rparr>"

text \<open>A LiFi answer for selling some units of the token.\<close>

definition demo_lifi_answer :: "int \<Rightarrow> pydict" where
  "demo_lifi_answer n = [(''id'', PStr ''r1''), (''action'', PDict [(''fromChainId'', PInt 1), (''toChainId'', PInt 1)]),
     (''estimate'', PDict [(''fromAmount'', PInt n), (''toAmount'', PInt 9), (''toAmountMin'', PInt 8),
        (''approvalAddress'', PStr (demo_address (CHR ''1'')))]),
     (''transactionRequest'', PDict [(''to'', PStr (demo_address (CHR ''1''))), (''data'', PStr ''0xabcd'')])]"

definition demo_http :: "int \<Rightarrow> json_http_client" where
  "demo_http n = \<lparr>jc_get = (\<lambda>_ _ _. Inr (demo_lifi_answer n)), jc_post = (\<lambda>_ _ _. Inl (swap_err ''down''))\<rparr>"

definition demo_lifi :: "int \<Rightarrow> swap_provider" where
  "demo_lifi n = lifi_provider lower_libs demo_env (default_for default_settings LIFI None) (demo_http n)"

definition demo_router :: "int \<Rightarrow> swap_router" where
  "demo_router n = \<lparr>ro_providers = [demo_lifi n], ro_order = default_provider_order\<rparr>"

definition demo_sell_request :: "string \<Rightarrow> int \<Rightarrow> swap_quote_request" where
  "demo_sell_request t n = \<lparr>rq_wallet_id = ''w1'', rq_wallet_address = demo_address (CHR ''2''),
     rq_chain = ''ethereum'', rq_chain_id = 1, rq_from_token = demo_token,
     rq_to_token = demo_address (CHR ''4''), rq_amount_in = t, rq_amount_in_raw = n,
     rq_max_slippage_bps = Some 50, rq_min_amount_out = None, rq_recipient_address = None,
     rq_idempotency_key = ''k2'', rq_to_chain = None, rq_to_chain_id = None,
     rq_from_token_is_native = False, rq_wrapped_from_token = None\<rparr>"

definition demo_sell_quote :: "string \<Rightarrow> int \<Rightarrow> swap_quote" where
  "demo_sell_quote t n = \<lparr>q_provider = LIFI, q_request = demo_sell_request t n,
     q_route = \<lparr>rt_provider = LIFI, rt_route_id = ''r1'', rt_route_kind = SWAP, rt_from_chain_id = 1,
       rt_to_chain_id = 1, rt_from_token = demo_token, rt_to_token = demo_address (CHR ''4''),
       rt_spender_address = Some (demo_address (CHR ''1'')), rt_steps = []\<rparr>,
     q_amount_in_raw = n, q_expected_amount_out_raw = 9, q_min_amount_out_raw = Some 8,
     q_slippage_bps = Some 50, q_expires_at = Some (dt_utc 300000100),
     q_recipient_address = demo_address (CHR ''2''), q_raw_quote = demo_lifi_answer n\<rparr>"

text \<open>The two amounts sold: one within the allowance of 3 and one above it.\<close>

definition demo_sold :: "string \<Rightarrow> int \<Rightarrow> bool" where
  "demo_sold t n \<longleftrightarrow> (t, n) \<in> {(''2'', 2), (''5'', 5)}"

lemma demo_sold_facts:
  assumes "demo_sold t n"
  shows "py_str_int n = Inr t" "0 < n" "t \<noteq> []" "\<not> is_unlimited_word t" "n < MAX_UINT256"
    "from_human lower_libs t 0 = Inr \<lparr>am_human_amount = t, am_decimals = 0, am_raw_amount = n\<rparr>"
proof -
  have f: "format_units 2 0 = Inr ''2''" "format_units 5 0 = Inr ''5''" by code_simp+
  have "parse_units ''2'' 0 = Inr 2" "parse_units ''5'' 0 = Inr 5"
    by (rule parse_units_format [OF _ _ _ _ f(1)] parse_units_format [OF _ _ _ _ f(2)]; simp)+
  with assms show "from_human lower_libs t 0 = Inr \<lparr>am_human_amount = t, am_decimals = 0, am_raw_amount = n\<rparr>"
    by (auto simp: demo_sold_def from_human_def mk_erc20_amount_def validate_amount_pair_def finish_def check_def min_len_def
        decimals_errs_def MAX_DECIMALS_def)
  have "py_str_int 2 = Inr ''2''" "py_str_int 5 = Inr ''5''" "\<not> is_unlimited_word ''2''" "\<not> is_unlimited_word ''5''"
    by code_simp+
  with assms show "py_str_int n = Inr t" "0 < n" "t \<noteq> []" "\<not> is_unlimited_word t" "n < MAX_UINT256"
    by (auto simp: demo_sold_def MAX_UINT256_def)
qed

lemma demo_normal_4: "normal_address lower_libs (demo_address (CHR ''4''))"
  by (rule demo_normal) code_simp+

lemma demo_strips: "py_strip (demo_address (CHR ''1'')) = demo_address (CHR ''1'')"
  "py_strip (demo_address (CHR ''4'')) = demo_address (CHR ''4'')" "py_strip demo_token = demo_token"
  "demo_address c \<noteq> []" "demo_token \<noteq> []"
  by (code_simp | simp add: demo_address_def demo_token_def)+

lemmas demo_swap_norms = demo_norms normalize_normal [OF demo_normal_4] addr_norm_normal [OF demo_normal_4]
  addr_norm_normal [OF demo_normal_12(2)]

lemma demo_quote_fetched:
  assumes "demo_sold t n"
  shows "pr_get_quote (demo_lifi n) (demo_sell_request t n) = Inr (demo_sell_quote t n)"
proof -
  have r: "py_strip ''r1'' = ''r1''" by code_simp
  have "lifi_normalize_quote lower_libs demo_env (demo_sell_request t n) (demo_lifi_answer n) = Inr (demo_sell_quote t n)"
    using r demo_swap_norms demo_strips demo_sold_facts(1-3) [OF assms]
    by (simp add: lifi_normalize_quote_def demo_lifi_answer_def flatten_estimate_view_def require_int_def lifi_required_def
        lifi_amount_int_def coerce_non_negative_int_def optional_amount_key_def lifi_expiry_def parse_expiry_value_def
        five_minutes_from_now_def demo_env_def action_token_address_def demo_sell_request_def mk_swap_route_def finish_def
        check_def min_len_def opt_req_addr_errs_def lifi_route_id_def first_text_def text_at_def lifi_spender_def
        lifi_steps_def mk_swap_quote_def opt_check_def bps_errs_def quote_consistency_error_def effective_recipient_def
        demo_sell_quote_def Let_def model_check_def addr_errs_def)
  then show ?thesis
    using demo_sold_facts(1) [OF assms] demo_swap_norms
    by (simp add: demo_lifi_def lifi_provider_def lifi_get_quote_def lifi_headers_def key_headers_def provider_api_key_def
        default_for_def demo_http_def) (simp add: demo_sell_request_def)
qed

lemma demo_routed:
  assumes "demo_sold t n" and "pref \<in> {None, Some LIFI}"
  shows "router_get_quote (demo_router n) (demo_sell_request t n) pref = Inr (demo_sell_quote t n)"
    "provider_for (demo_router n) (Some LIFI) = Inr (demo_lifi n)"
proof -
  have n: "pr_name (demo_lifi n) = LIFI" by (simp add: demo_lifi_def lifi_provider_def)
  then show "provider_for (demo_router n) (Some LIFI) = Inr (demo_lifi n)"
    by (simp add: provider_for_def provider_named_def demo_router_def)
  show "router_get_quote (demo_router n) (demo_sell_request t n) pref = Inr (demo_sell_quote t n)"
    using assms n demo_quote_fetched [OF assms(1)]
    by (auto simp: router_get_quote_def provider_for_def provider_named_def demo_router_def default_provider_order_def)
qed

theorem quotes_match_request_witness:
  "q_request (demo_sell_quote ''2'' 2) = demo_sell_request ''2'' 2 \<and> q_amount_in_raw (demo_sell_quote ''2'' 2) = 2 \<and>
    rt_from_token (q_route (demo_sell_quote ''2'' 2)) = demo_token \<and> q_provider (demo_sell_quote ''2'' 2) = LIFI"
proof -
  have "demo_sold ''2'' 2" by (simp add: demo_sold_def)
  then have "router_get_quote (demo_router 2) (demo_sell_request ''2'' 2) (Some LIFI) = Inr (demo_sell_quote ''2'' 2)"
    using demo_routed(1) by simp
  moreover have "set (ro_providers (demo_router 2)) \<subseteq>
     {lifi_provider lower_libs demo_env (default_for default_settings LIFI None) (demo_http 2),
      cow_provider lower_libs demo_env (default_for default_settings COWSWAP None) (demo_http 2),
      uniswap_provider lower_libs demo_env (default_for default_settings UNISWAP None) (demo_http 2)}"
    by (simp add: demo_router_def demo_lifi_def)
  ultimately have "q_request (demo_sell_quote ''2'' 2) = demo_sell_request ''2'' 2 \<and>
      q_amount_in_raw (demo_sell_quote ''2'' 2) = rq_amount_in_raw (demo_sell_request ''2'' 2) \<and>
      rt_from_token (q_route (demo_sell_quote ''2'' 2)) = rq_from_token (demo_sell_request ''2'' 2) \<and>
      q_provider (demo_sell_quote ''2'' 2) = LIFI"
    using quotes_match_request by simp
  then show ?thesis by (simp add: demo_sell_request_def)
qed

section \<open>Approval and execution\<close>

text \<open>The names of the chain table are in the form the models normalise to (the registry's are).\<close>

definition chain_names_normal :: "chain_table \<Rightarrow> bool" where
  "chain_names_normal C \<longleftrightarrow> (\<forall>c \<in> set C. chain_norm (cc_name c) = cc_name c)"

lemma get_chain_in: "get_chain_by_name C n = Inr c \<Longrightarrow> c \<in> set C"
  by (auto simp: get_chain_by_name_def Let_def split: option.splits dest!: map_of_SomeD)

lemma metadata_cong:
  "normalize_evm_address L a = normalize_evm_address L b \<Longrightarrow> get_erc20_metadata L F c a = get_erc20_metadata L F c b"
  by (simp add: get_erc20_metadata_def)

text \<open>The request of a token sale is priced with the token's own decimals and names the wallet's own address.\<close>

lemma swap_request_sell:
  assumes "web3_laws L" and "chain_names_normal C" and "swap_request L C F R i = Inr r" and "\<not> rq_from_token_is_native r"
  shows "\<exists>m a. get_erc20_metadata L F (rq_chain r) (rq_from_token r) = Inr m \<and>
      from_human L (rq_amount_in r) (md_decimals m) = Inr a \<and> am_raw_amount a = rq_amount_in_raw r"
    "\<exists>w. R (rq_wallet_id r) = Inr w \<and> normalize_evm_address L (wa_address w) = Inr (rq_wallet_address r)"
    "0 < rq_amount_in_raw r"
proof -
  from assms(3) obtain w chain tc tid sl where w: "R (si_wallet_id i) = Inr w" and chain: "get_chain_by_name C (si_chain i) = Inr chain"
    and sl: "swap_sell_side L F chain i = Inr sl" and pos: "0 < am_raw_amount (sl_amount sl)" and
    mk: "mk_swap_quote_request L C
       \<lparr>rq_wallet_id = si_wallet_id i, rq_wallet_address = wa_address w, rq_chain = cc_name chain,
        rq_chain_id = cc_chain_id chain, rq_from_token = sl_token sl, rq_to_token = si_to_token i,
        rq_amount_in = si_amount_in i, rq_amount_in_raw = am_raw_amount (sl_amount sl),
        rq_max_slippage_bps = si_max_slippage_bps i, rq_min_amount_out = si_min_amount_out i,
        rq_recipient_address = si_recipient_address i, rq_idempotency_key = si_idempotency_key i,
        rq_to_chain = tc, rq_to_chain_id = tid, rq_from_token_is_native = sl_native sl,
        rq_wrapped_from_token = sl_wrapped sl\<rparr> = Inr r"
    by (auto simp: swap_request_def rbind_eq_Inr split: if_splits)
  have f: "rq_chain r = cc_name chain" "rq_wallet_id r = si_wallet_id i" "rq_amount_in r = si_amount_in i"
    "rq_amount_in_raw r = am_raw_amount (sl_amount sl)" "rq_from_token_is_native r = sl_native sl"
    "rq_from_token r = from_token_norm L (sl_token sl)" "normalize_swap_input_from_token L (sl_token sl) = Inr (rq_from_token r)"
    "normalize_evm_address L (wa_address w) = Inr (rq_wallet_address r)" "native_sell_error L r = None"
    using mk assms(2) get_chain_in [OF chain]
    by (auto simp: mk_swap_quote_request_def quote_request_errors_def rbind_eq_Inr chain_names_normal_def)
  from sl f(5) assms(4) obtain m a where m: "get_erc20_metadata L F (cc_name chain) (si_from_token i) = Inr m"
    and a: "from_human L (si_amount_in i) (md_decimals m) = Inr a" "sl_amount sl = a" "sl_token sl = md_token_address m"
    by (auto simp: swap_sell_side_def rbind_eq_Inr split: if_splits option.splits)
  note mt = metadata_Inr(2) [OF m]
  then have mn: "normalize_evm_address L (md_token_address m) = Inr (md_token_address m)"
    using normalize_idem [OF assms(1)] by blast
  have "rq_from_token r \<noteq> to_checksum_address L ZERO_ADDRESS"
    using f(9) assms(4) by (auto simp: native_sell_error_def normalize_ZERO [OF assms(1)] split: if_splits)
  then have "normalize_evm_address L (py_strip (md_token_address m)) = Inr (rq_from_token r)"
    using f(7) a(3) by (auto simp: normalize_swap_input_from_token_def normalize_ZERO [OF assms(1)] Let_def split: if_splits)
  moreover have "normalize_evm_address L (py_strip v) = normalize_evm_address L v" for v
    by (simp add: normalize_evm_address_def)
  ultimately have "rq_from_token r = md_token_address m" using mn by simp
  then have "get_erc20_metadata L F (rq_chain r) (rq_from_token r) = Inr m"
    using m mt mn metadata_cong [of L "md_token_address m" "si_from_token i"] f(1) by simp
  with a f show "\<exists>m a. get_erc20_metadata L F (rq_chain r) (rq_from_token r) = Inr m \<and>
      from_human L (rq_amount_in r) (md_decimals m) = Inr a \<and> am_raw_amount a = rq_amount_in_raw r" by auto
  from w f show "\<exists>w. R (rq_wallet_id r) = Inr w \<and> normalize_evm_address L (wa_address w) = Inr (rq_wallet_address r)" by auto
  from pos f(4) show "0 < rq_amount_in_raw r" by simp
qed

lemma human_approval_amount:
  "approval_amount L amount d False False = Inr a \<Longrightarrow> from_human L amount d = Inr a"
  by (auto simp: approval_amount_def rbind_eq_Inr split: if_splits)

lemma human_preconditions:
  assumes "web3_laws L" and "check_erc20_approval_preconditions L F c tok own sp amount known False False = Inr p"
    and "get_erc20_metadata L F c tok = Inr m" and "from_human L amount (md_decimals m) = Inr a"
  shows "ap_amount p = a"
proof -
  from assms(2) obtain token m' where tok: "normalize_evm_address L tok = Inr token"
    and m': "get_erc20_metadata L F c token = Inr m'" "approval_amount L amount (md_decimals m') False False = Inr (ap_amount p)"
    by (auto simp: check_erc20_approval_preconditions_def rbind_eq_Inr mk_approval_preconditions_def Let_def split: if_splits)
  have "get_erc20_metadata L F c token = get_erc20_metadata L F c tok"
    using tok normalize_idem [OF assms(1) tok] by (intro metadata_cong) simp
  with m'(1) assms(3) have "m' = m" by simp
  with human_approval_amount [OF m'(2)] assms(4) show ?thesis by simp
qed

lemma approval_calldata_amount:
  assumes "web3_laws L" and "abi_laws L"
    and "prepare_erc20_approval L F R c wid tok sp amount key known unlimited units = Inr t"
  shows "\<exists>w p. R wid = Inr w \<and>
    check_erc20_approval_preconditions L F c tok (wa_address w) sp amount known unlimited units = Inr p \<and>
    call_amount (prep_data t) = am_raw_amount (ap_amount p) \<and> prep_idempotency_key t = key"
proof -
  from assms(3) obtain w p data where w: "R wid = Inr w" and
    p: "check_erc20_approval_preconditions L F c tok (wa_address w) sp amount known unlimited units = Inr p" and
    data: "encode_erc20_approval_data L (ap_spender_address p) (am_raw_amount (ap_amount p)) = Inr data" and
    t: "prepared_erc20_transaction L wid (ap_chain p) (ap_chain_id p) (ap_owner_address p) (ap_token_address p)
      data key (approval_metadata p) = Inr t"
    by (auto simp: prepare_erc20_approval_def rbind_eq_Inr split: if_splits)
  note pre = approval_preconditions_Inr [OF assms(1) p]
  have n: "normal_address L (ap_spender_address p)" using pre(2) normalize_result_normal [OF assms(1)] by blast
  then have hex: "is_evm_hex (ap_spender_address p)" by (simp add: normal_address_def)
  from data n have "data = encode_call L ''approve(address,uint256)'' (ap_spender_address p) (am_raw_amount (ap_amount p))"
    "0 \<le> am_raw_amount (ap_amount p)" "am_raw_amount (ap_amount p) \<le> MAX_UINT256"
    by (auto simp: encode_erc20_approval_data_def rbind_eq_Inr validate_uint256_def normalize_normal)
  with encode_call_decodes(2) [OF assms(2) hex] prepared_erc20_Inr(4,9) [OF assms(1) t pre(1,3)] w p show ?thesis by auto
qed

lemma swap_allowance_Inr:
  assumes "web3_laws L" and "check_swap_allowance L F q = Inr al"
    and "get_erc20_metadata L F (rq_chain (q_request q)) (rt_from_token (q_route q)) = Inr m"
    and "from_human L (rq_amount_in (q_request q)) (md_decimals m) = Inr a"
  shows "al_required_amount_raw al = am_raw_amount a"
    "al_allowance_sufficient al \<longleftrightarrow> am_raw_amount a \<le> al_current_allowance_raw al"
    "\<exists>sp. rt_spender_address (q_route q) = Some sp \<and> normalize_evm_address L sp = Inr (al_spender_address al)"
proof -
  from assms(2) obtain sp p where sp: "rt_spender_address (q_route q) = Some sp" and
    p: "check_erc20_approval_preconditions L F (rq_chain (q_request q)) (rt_from_token (q_route q))
      (rq_wallet_address (q_request q)) sp (rq_amount_in (q_request q)) True False False = Inr p" and
    al: "al = \<lparr>al_spender_address = ap_spender_address p, al_required_amount_raw = am_raw_amount (ap_amount p),
       al_current_allowance_raw = ap_current_allowance_raw p, al_allowance_sufficient = ap_allowance_sufficient p\<rparr>"
    by (auto simp: check_swap_allowance_def rbind_eq_Inr mk_swap_allowance_check_def split: option.splits)
  note pre = approval_preconditions_Inr [OF assms(1) p]
  have "ap_amount p = a" by (rule human_preconditions [OF assms(1) p assms(3,4)])
  with al pre sp show "al_required_amount_raw al = am_raw_amount a"
    "al_allowance_sufficient al \<longleftrightarrow> am_raw_amount a \<le> al_current_allowance_raw al"
    "\<exists>sp. rt_spender_address (q_route q) = Some sp \<and> normalize_evm_address L sp = Inr (al_spender_address al)"
    by auto
qed

text \<open>What a swap preparation knows of its quote and allowance.\<close>

lemma prepared_swap_facts:
  assumes "web3_laws L" and "chain_names_normal C" and "\<forall>p \<in> set (ro_providers ro). swap_adapter p"
    and "swap_request L C F R i = Inr r" and "router_get_quote ro r pref = Inr q"
  shows "q_request q = r" "q_amount_in_raw q = rq_amount_in_raw r" "rt_from_token (q_route q) = rq_from_token r"
    "\<lbrakk>\<not> rq_from_token_is_native r; check_swap_allowance L F q = Inr al\<rbrakk> \<Longrightarrow>
      al_required_amount_raw al = q_amount_in_raw q \<and>
      (al_allowance_sufficient al \<longleftrightarrow> q_amount_in_raw q \<le> al_current_allowance_raw al) \<and>
      (\<exists>sp. rt_spender_address (q_route q) = Some sp \<and> normalize_evm_address L sp = Inr (al_spender_address al))"
proof -
  from assms(5) obtain p where p: "provider_for ro pref = Inr p" and q: "pr_get_quote p r = Inr q"
    by (auto simp: router_get_quote_def rbind_eq_Inr)
  have ad: "swap_adapter p" using provider_for_Inr(1) [OF p] assms(3) by blast
  show e: "q_request q = r" "q_amount_in_raw q = rq_amount_in_raw r" "rt_from_token (q_route q) = rq_from_token r"
    using swap_adapter.quote_faithful [OF ad q] swap_adapter.quote_matches_request [OF ad q] by simp_all
  assume n: "\<not> rq_from_token_is_native r" and al: "check_swap_allowance L F q = Inr al"
  from swap_request_sell(1) [OF assms(1,2,4) n] obtain m a where
    "get_erc20_metadata L F (rq_chain r) (rq_from_token r) = Inr m" "from_human L (rq_amount_in r) (md_decimals m) = Inr a"
    "am_raw_amount a = rq_amount_in_raw r" by blast
  with swap_allowance_Inr [OF assms(1) al] e
  show "al_required_amount_raw al = q_amount_in_raw q \<and>
      (al_allowance_sufficient al \<longleftrightarrow> q_amount_in_raw q \<le> al_current_allowance_raw al) \<and>
      (\<exists>sp. rt_spender_address (q_route q) = Some sp \<and> normalize_evm_address L sp = Inr (al_spender_address al))"
    by simp
qed

text \<open>The allowance of a quote: what the contract of the token that is sold answers for \<open>allowance\<close>, asked with the
  requesting wallet's address as the owner and the quoted spender.\<close>

definition quoted_allowance :: "libs \<Rightarrow> read_factory \<Rightarrow> swap_quote \<Rightarrow> int \<Rightarrow> bool" where
  "quoted_allowance L F q cur \<longleftrightarrow> (\<exists>pv sp s tok. F (rq_chain (q_request q)) = Inr pv \<and>
     rt_spender_address (q_route q) = Some sp \<and> normalize_evm_address L sp = Inr s \<and>
     normalize_evm_address L (rt_from_token (q_route q)) = Inr tok \<and>
     on_chain F (cc_name (rp_chain pv)) tok ''allowance'' [PStr (rq_wallet_address (q_request q)), PStr s] cur)"

lemma allowance_check_read:
  assumes "web3_laws L" and "check_swap_allowance L F q = Inr al"
    and "normalize_evm_address L a = Inr (rq_wallet_address (q_request q))"
  shows "quoted_allowance L F q (al_current_allowance_raw al)"
proof -
  from assms(2) obtain sp p where sp: "rt_spender_address (q_route q) = Some sp" and
    p: "check_erc20_approval_preconditions L F (rq_chain (q_request q)) (rt_from_token (q_route q))
      (rq_wallet_address (q_request q)) sp (rq_amount_in (q_request q)) True False False = Inr p" and
    al: "al_current_allowance_raw al = ap_current_allowance_raw p"
    by (auto simp: check_swap_allowance_def rbind_eq_Inr mk_swap_allowance_check_def split: option.splits)
  note pre = approval_preconditions_Inr [OF assms(1) p] and reads = approval_reads [OF assms(1) p]
  have "ap_owner_address p = rq_wallet_address (q_request q)" using pre(1) normalize_idem [OF assms(1,3)] by simp
  with reads(2,3) pre(2,3) sp al show ?thesis unfolding quoted_allowance_def by fastforce
qed

lemma execution_step_executes: "execution_step L C V ro policy q qdec al = Inr ps \<Longrightarrow> ps_execution ps \<noteq> None"
  by (auto simp: execution_step_def quote_only_def rbind_eq_Inr Let_def split: if_splits)

text \<open>C20: preparation makes a swap transaction only behind the policy and the allowance. The quote passed the quote policy;
  the execution that a provider of the router built from this quote was evaluated by the execution policy, with the decision that
  a human has to approve; and for a token sale the allowance that the token contract answers for the wallet's
  address and the quoted spender covers the sold amount. No approval is made beside it, and the transaction is the
  provider's call, from the requesting wallet, on the requested chain, under the request's idempotency key.\<close>

theorem swap_transaction_needs_allowance:
  assumes "web3_laws L" and "chain_names_normal C" and "\<forall>p \<in> set (ro_providers ro). swap_adapter p"
    and "prepare_swap L C V ro F R policy i = Inr ps" and "ps_swap_transaction ps = Some t"
  shows "\<exists>p x tx dec. p \<in> set (ro_providers ro) \<and> pr_name p = q_provider (ps_quote ps) \<and>
    pr_build_execution p (ps_quote ps) = Inr x \<and> sw_transaction x = Some tx \<and> sw_quote x = ps_quote ps \<and>
    evaluate_swap_quote_policy L C policy (dt_utc (env_quote_check_time V)) (ps_quote ps) = Inr (ps_quote_policy_decision ps) \<and>
    pd_status (ps_quote_policy_decision ps) \<noteq> REJECTED_BY_POLICY \<and>
    evaluate_swap_execution_policy L C policy (dt_utc (env_execution_check_time V)) x = Inr dec \<and>
    pd_status dec = NEEDS_APPROVAL \<and>
    ps_execution ps = Some x \<and> ps_execution_policy_decision ps = Some dec \<and> ps_approval_transaction ps = None \<and>
    (rq_from_token_is_native (q_request (ps_quote ps)) \<or>
     (\<exists>cur. quoted_allowance L F (ps_quote ps) cur \<and> q_amount_in_raw (ps_quote ps) \<le> cur)) \<and>
    prep_to t = addr_norm L (sx_to tx) \<and> prep_data t = sx_data tx \<and> prep_value_wei t = sx_value_wei tx \<and>
    prep_chain_id t = Some (rq_chain_id (q_request (ps_quote ps))) \<and>
    prep_wallet_id t = rq_wallet_id (q_request (ps_quote ps)) \<and>
    prep_from_address t = Some (addr_norm L (rq_wallet_address (q_request (ps_quote ps)))) \<and>
    prep_idempotency_key t = Some (rq_idempotency_key (q_request (ps_quote ps)))"
proof (rule prepare_swap_cases [OF assms(4)])
  fix r q qdec
  assume r: "swap_request L C F R i = Inr r" and q: "router_get_quote ro r (si_provider_preference i) = Inr q"
    and psq: "ps_quote ps = q" "ps_quote_policy_decision ps = qdec"
    and qpol: "evaluate_swap_quote_policy L C policy (dt_utc (env_quote_check_time V)) q = Inr qdec"
    and cases: "(pd_status qdec = REJECTED_BY_POLICY \<and> ps = quote_only q qdec) \<or>
     (pd_status qdec \<noteq> REJECTED_BY_POLICY \<and> rq_from_token_is_native (q_request q) \<and>
        execution_step L C V ro policy q qdec None = Inr ps) \<or>
     (\<exists>al t. pd_status qdec \<noteq> REJECTED_BY_POLICY \<and> \<not> rq_from_token_is_native (q_request q) \<and> check_swap_allowance L F q = Inr al \<and>
        \<not> al_allowance_sufficient al \<and> approval_step L F R q al = Inr t \<and>
        ps = (quote_only q qdec)\<lparr>ps_allowance := Some al, ps_approval_transaction := Some t\<rparr>) \<or>
     (\<exists>al. pd_status qdec \<noteq> REJECTED_BY_POLICY \<and> \<not> rq_from_token_is_native (q_request q) \<and> check_swap_allowance L F q = Inr al \<and>
        al_allowance_sufficient al \<and> execution_step L C V ro policy q qdec (Some al) = Inr ps)"
  note facts = prepared_swap_facts [OF assms(1-3) r q]
  obtain al where ex: "execution_step L C V ro policy q qdec al = Inr ps" and qd: "pd_status qdec \<noteq> REJECTED_BY_POLICY" and
    al: "rq_from_token_is_native (q_request q) \<or> (\<exists>a. check_swap_allowance L F q = Inr a \<and>
      q_amount_in_raw q \<le> al_current_allowance_raw a)"
    using cases assms(5) facts(1,4) by (auto simp: quote_only_def)
  have read: "rq_from_token_is_native (q_request q) \<or> (\<exists>cur. quoted_allowance L F q cur \<and> q_amount_in_raw q \<le> cur)"
  proof (cases "rq_from_token_is_native (q_request q)")
    case False
    with al obtain a where a: "check_swap_allowance L F q = Inr a" "q_amount_in_raw q \<le> al_current_allowance_raw a" by blast
    from swap_request_sell(2) [OF assms(1,2) r] False facts(1) obtain w :: wallet_address_result where
      "normalize_evm_address L (wa_address w) = Inr (rq_wallet_address (q_request q))" by auto
    from allowance_check_read [OF assms(1) a(1) this] a(2) show ?thesis by blast
  qed simp
  from execution_step_Inr(5) [OF ex assms(5)] obtain p x xdec tx where p: "p \<in> set (ro_providers ro)" "pr_name p = q_provider q"
    and x: "pr_build_execution p q = Inr x" and dec: "evaluate_swap_execution_policy L C policy (dt_utc (env_execution_check_time V)) x = Inr xdec"
      "pd_status xdec \<noteq> REJECTED_BY_POLICY" "ps_execution ps = Some x" "ps_execution_policy_decision ps = Some xdec"
    and tx: "sw_execution_type x = EVM_TRANSACTION" "sw_transaction x = Some tx" and
    t: "swap_prepared L (sw_quote x) tx (swap_metadata V (provider_value (sw_provider x))
         [(''amount_in'', PStr (rq_amount_in (q_request (sw_quote x))))] (sw_quote x)) = Inr t" by blast
  have ad: "swap_adapter p" using p(1) assms(3) by blast
  have xq: "sw_quote x = q" using swap_adapter.execution_faithful [OF ad x] by simp
  have cid: "sx_chain_id tx = rq_chain_id (q_request q)"
    using swap_adapter.execution_for_quote_chain [OF ad x tx(1)] tx(2) by auto
  have st: "pd_status xdec = NEEDS_APPROVAL"
    using dec(1,2) by (auto simp: evaluate_swap_execution_policy_def rbind_eq_Inr mk_policy_decision_def split: option.splits)
  have "prep_to t = addr_norm L (sx_to tx)" "prep_data t = sx_data tx" "prep_value_wei t = sx_value_wei tx"
    "prep_chain_id t = Some (sx_chain_id tx)" "prep_wallet_id t = rq_wallet_id (q_request q)"
    "prep_from_address t = Some (addr_norm L (rq_wallet_address (q_request q)))"
    "prep_idempotency_key t = Some (rq_idempotency_key (q_request q))"
    using t xq by (auto simp: swap_prepared_def Let_def mk_prepared_transaction_def)
  with execution_step_Inr(4) [OF ex] dec st tx(2) xq qd qpol psq cid p x read show ?thesis by auto
qed

definition demo_swap_intent :: "string \<Rightarrow> swap_intent" where
  "demo_swap_intent t = \<lparr>si_wallet_id = ''w1'', si_chain = ''ethereum'', si_from_token = demo_token,
     si_to_token = demo_address (CHR ''4''), si_amount_in = t, si_min_amount_out = None, si_max_slippage_bps = Some 50,
     si_provider_preference = None, si_recipient_address = None, si_idempotency_key = ''k2'', si_to_chain = None,
     si_to_chain_id = None\<rparr>"

lemma demo_names_normal: "chain_names_normal demo_chains"
  by code_simp

lemma demo_adapters: "\<forall>p \<in> set (ro_providers (demo_router n)). swap_adapter p"
  using lifi.swap_adapter_axioms by (simp add: demo_router_def demo_lifi_def)

lemma demo_token_not_native:
  "demo_token \<noteq> to_checksum_address lower_libs ZERO_ADDRESS"
  "normalize_swap_input_from_token lower_libs demo_token = Inr demo_token"
proof -
  show "demo_token \<noteq> to_checksum_address lower_libs ZERO_ADDRESS"
    using demo_not_zero_c [of "CHR ''3''"] by (simp add: demo_token_def)
  have "py_lower (py_strip demo_token) \<noteq> py_lower ZERO_ADDRESS"
    "py_lower (py_strip demo_token) \<noteq> py_lower NATIVE_FROM_TOKEN_SENTINEL_ALIAS" by code_simp+
  with demo_strips(3) demo_norms(1) show "normalize_swap_input_from_token lower_libs demo_token = Inr demo_token"
    by (simp add: normalize_swap_input_from_token_def Let_def)
qed

lemma demo_requested:
  assumes "demo_sold t n"
  shows "swap_request lower_libs demo_chains demo_read_factory demo_resolver (demo_swap_intent t) = Inr (demo_sell_request t n)"
proof -
  have c: "chain_norm ''ethereum'' = ''ethereum''" by code_simp
  show ?thesis
    using c demo_chain demo_reads(1) demo_sold_facts(2,3,6) [OF assms] demo_swap_norms demo_strips demo_token_not_native
      normalize_ZERO [OF web3_laws_lower_libs]
    by (simp add: swap_request_def demo_swap_intent_def demo_resolver_def swap_destination_def swap_sell_side_def
        mk_swap_quote_request_def quote_request_errors_def finish_def check_def min_len_def bps_errs_def opt_min_len_def
        opt_req_addr_errs_def opt_check_def destination_error_def native_sell_error_def model_check_def demo_chains_def
        demo_sell_request_def from_token_errs_def from_token_norm_def)
qed

lemma demo_quote_allowed:
  "\<exists>dec. evaluate_swap_quote_policy lower_libs demo_chains default_swap_policy (dt_utc 100) (demo_sell_quote t n) = Inr dec \<and>
     pd_status dec \<noteq> REJECTED_BY_POLICY"
  using demo_chain
  by (simp add: evaluate_swap_quote_policy_def swap_quote_rejection_reason_def demo_sell_quote_def
      default_swap_policy_def expired_def swap_route_reason_def Let_def demo_sell_request_def demo_chains_def mk_policy_decision_def)

lemma demo_allowance:
  assumes "demo_sold t n"
  shows "check_swap_allowance lower_libs demo_read_factory (demo_sell_quote t n) =
    Inr \<lparr>al_spender_address = demo_address (CHR ''1''), al_required_amount_raw = n, al_current_allowance_raw = 3,
         al_allowance_sufficient = (n \<le> 3)\<rparr>"
proof -
  obtain b where "alw_raw_amount b = 3" "get_erc20_allowance lower_libs demo_read_factory ''ethereum''
      demo_token (demo_address (CHR ''2'')) (demo_address (CHR ''1'')) = Inr b" using demo_reads(3) by blast
  then show ?thesis
    using demo_reads(1) demo_sold_facts(2-6) [OF assms] demo_norms
    by (simp add: check_swap_allowance_def demo_sell_quote_def demo_sell_request_def check_erc20_approval_preconditions_def
        approval_amount_def mk_swap_allowance_check_def builder_eval)
qed

lemma demo_execution:
  "\<exists>x dec t'. pr_build_execution (demo_lifi n) (demo_sell_quote t n) = Inr x \<and>
     evaluate_swap_execution_policy lower_libs demo_chains default_swap_policy (dt_utc 100) x = Inr dec \<and>
     pd_status dec \<noteq> REJECTED_BY_POLICY \<and> sw_execution_type x = EVM_TRANSACTION \<and>
     prepared_swap_transaction_from_execution lower_libs demo_env x = Inr t'"
proof -
  have h: "is_hex_data ''0xabcd''" "py_strip ''0xabcd'' = ''0xabcd''" by code_simp+
  show ?thesis
    using h demo_swap_norms demo_strips demo_chain
    by (simp add: demo_lifi_def lifi_provider_def lifi_build_execution_def demo_sell_quote_def demo_lifi_answer_def evm_execution_def
        require_string_def parse_uint256_def mk_swap_evm_transaction_def finish_def check_def demo_sell_request_def
        mk_swap_execution_def opt_min_len_def min_len_def execution_payload_error_def model_check_def addr_errs_def
        evaluate_swap_execution_policy_def swap_quote_rejection_reason_def default_swap_policy_def expired_def
        swap_route_reason_def Let_def demo_chains_def swap_execution_rejection_reason_def mk_policy_decision_def
        prepared_swap_transaction_from_execution_def swap_prepared_def mk_prepared_transaction_def prepared_errors_def
        opt_check_def opt_addr_errs_def)
qed

abbreviation demo_prepare :: "string \<Rightarrow> int \<Rightarrow> exn + prepared_swap" where
  "demo_prepare t n \<equiv> prepare_swap lower_libs demo_chains demo_env (demo_router n) demo_read_factory demo_resolver
     default_swap_policy (demo_swap_intent t)"

lemma demo_prepare_eq:
  assumes "demo_sold t n"
  shows "\<exists>qdec. pd_status qdec \<noteq> REJECTED_BY_POLICY \<and> demo_prepare t n =
    (let q = demo_sell_quote t n; al = \<lparr>al_spender_address = demo_address (CHR ''1''), al_required_amount_raw = n,
        al_current_allowance_raw = 3, al_allowance_sufficient = (n \<le> 3)\<rparr> in
     if \<not> n \<le> 3 then
       rbind (approval_step lower_libs demo_read_factory demo_resolver q al) (\<lambda>t.
       Inr ((quote_only q qdec)\<lparr>ps_allowance := Some al, ps_approval_transaction := Some t\<rparr>))
     else execution_step lower_libs demo_chains demo_env (demo_router n) default_swap_policy q qdec (Some al))"
proof -
  obtain qdec where d: "pd_status qdec \<noteq> REJECTED_BY_POLICY"
    "evaluate_swap_quote_policy lower_libs demo_chains default_swap_policy (dt_utc 100) (demo_sell_quote t n) = Inr qdec"
    using demo_quote_allowed by blast
  have e: "env_quote_check_time demo_env = 100" "si_provider_preference (demo_swap_intent t) = None"
    "rq_from_token_is_native (q_request (demo_sell_quote t n)) = False"
    by (simp_all add: demo_env_def demo_swap_intent_def demo_sell_quote_def demo_sell_request_def)
  have "router_get_quote (demo_router n) (demo_sell_request t n) None = Inr (demo_sell_quote t n)"
    using demo_routed(1) [OF assms] by simp
  with d e show ?thesis
    by (intro exI [of _ qdec]) (simp add: prepare_swap_def demo_requested [OF assms] demo_allowance [OF assms] Let_def)
qed

lemma demo_swapped: "\<exists>ps t. demo_prepare ''2'' 2 = Inr ps \<and> ps_swap_transaction ps = Some t"
proof -
  have sold: "demo_sold ''2'' 2" by (simp add: demo_sold_def)
  have p: "provider_for (demo_router 2) (Some LIFI) = Inr (demo_lifi 2)" using demo_routed(2) [OF sold, of None] by simp
  have e: "env_execution_check_time demo_env = 100" "q_provider (demo_sell_quote ''2'' 2) = LIFI"
    by (simp_all add: demo_env_def demo_sell_quote_def)
  obtain x dec t where x: "pr_build_execution (demo_lifi 2) (demo_sell_quote ''2'' 2) = Inr x"
    "evaluate_swap_execution_policy lower_libs demo_chains default_swap_policy (dt_utc 100) x = Inr dec"
    "pd_status dec \<noteq> REJECTED_BY_POLICY" "sw_execution_type x = EVM_TRANSACTION"
    "prepared_swap_transaction_from_execution lower_libs demo_env x = Inr t" using demo_execution by blast
  have "\<exists>ps. execution_step lower_libs demo_chains demo_env (demo_router 2) default_swap_policy (demo_sell_quote ''2'' 2) qdec al
      = Inr ps \<and> ps_swap_transaction ps = Some t" for qdec al
    using p e x by (simp add: execution_step_def Let_def)
  moreover obtain qdec where "demo_prepare ''2'' 2 = execution_step lower_libs demo_chains demo_env (demo_router 2) default_swap_policy
      (demo_sell_quote ''2'' 2) qdec (Some \<lparr>al_spender_address = demo_address (CHR ''1''), al_required_amount_raw = 2,
        al_current_allowance_raw = 3, al_allowance_sufficient = True\<rparr>)"
    using demo_prepare_eq [OF sold] by (auto simp: Let_def)
  ultimately show ?thesis by metis
qed

theorem swap_transaction_needs_allowance_witness:
  "\<exists>ps t cur. demo_prepare ''2'' 2 = Inr ps \<and> ps_swap_transaction ps = Some t \<and> ps_approval_transaction ps = None \<and>
    prep_idempotency_key t = Some (rq_idempotency_key (q_request (ps_quote ps))) \<and>
    (rq_from_token_is_native (q_request (ps_quote ps)) \<or>
     quoted_allowance lower_libs demo_read_factory (ps_quote ps) cur \<and> q_amount_in_raw (ps_quote ps) \<le> cur)"
proof -
  obtain ps t where ps: "demo_prepare ''2'' 2 = Inr ps" "ps_swap_transaction ps = Some t" using demo_swapped by blast
  from swap_transaction_needs_allowance [OF web3_laws_lower_libs demo_names_normal demo_adapters ps] ps show ?thesis
    by blast
qed

lemma short_allowance_approval:
  assumes "web3_laws L" and "abi_laws L" and "chain_names_normal C" and "\<forall>p \<in> set (ro_providers ro). swap_adapter p"
    and "prepare_swap L C V ro F R policy i = Inr ps" and "ps_approval_transaction ps = Some t"
  shows "\<exists>al sp. ps_allowance ps = Some al \<and> ps_swap_transaction ps = None \<and> ps_execution ps = None \<and>
    ps_order_submission_key ps = None \<and> al_current_allowance_raw al < q_amount_in_raw (ps_quote ps) \<and>
    prep_value_wei t = 0 \<and> prep_from_address t = Some (rq_wallet_address (q_request (ps_quote ps))) \<and>
    rt_spender_address (q_route (ps_quote ps)) = Some sp \<and> normalize_evm_address L sp = Inr (al_spender_address al) \<and>
    call_address (prep_data t) = address_value (al_spender_address al) \<and>
    call_amount (prep_data t) = q_amount_in_raw (ps_quote ps) \<and> call_amount (prep_data t) \<noteq> MAX_UINT256 \<and>
    normalize_evm_address L (rt_from_token (q_route (ps_quote ps))) = Inr (prep_to t) \<and>
    prep_idempotency_key t = Some (rq_idempotency_key (q_request (ps_quote ps)) @ '':approval'')"
proof (rule prepare_swap_cases [OF assms(5)])
  fix r q qdec
  assume r: "swap_request L C F R i = Inr r" and q: "router_get_quote ro r (si_provider_preference i) = Inr q"
    and psq: "ps_quote ps = q"
    and cases: "(pd_status qdec = REJECTED_BY_POLICY \<and> ps = quote_only q qdec) \<or>
     (pd_status qdec \<noteq> REJECTED_BY_POLICY \<and> rq_from_token_is_native (q_request q) \<and>
        execution_step L C V ro policy q qdec None = Inr ps) \<or>
     (\<exists>al t. pd_status qdec \<noteq> REJECTED_BY_POLICY \<and> \<not> rq_from_token_is_native (q_request q) \<and> check_swap_allowance L F q = Inr al \<and>
        \<not> al_allowance_sufficient al \<and> approval_step L F R q al = Inr t \<and>
        ps = (quote_only q qdec)\<lparr>ps_allowance := Some al, ps_approval_transaction := Some t\<rparr>) \<or>
     (\<exists>al. pd_status qdec \<noteq> REJECTED_BY_POLICY \<and> \<not> rq_from_token_is_native (q_request q) \<and> check_swap_allowance L F q = Inr al \<and>
        al_allowance_sufficient al \<and> execution_step L C V ro policy q qdec (Some al) = Inr ps)"
  obtain al where n: "\<not> rq_from_token_is_native (q_request q)" and al: "check_swap_allowance L F q = Inr al"
    "\<not> al_allowance_sufficient al" and step: "approval_step L F R q al = Inr t" and
    ps: "ps = (quote_only q qdec)\<lparr>ps_allowance := Some al, ps_approval_transaction := Some t\<rparr>"
    using cases assms(6) execution_step_Inr(4) by (fastforce simp: quote_only_def)
  note facts = prepared_swap_facts [OF assms(1,3,4) r q]
  note a = facts(4) [OF n [unfolded facts(1)] al(1)]
  note app = step [unfolded approval_step_def Let_def]
  from approval_built [OF assms(1,2) app] swap_request_sell(2) [OF assms(1,3) r n [unfolded facts(1)]] facts(1)
  have from_wallet: "prep_value_wei t = 0" "prep_from_address t = Some (rq_wallet_address (q_request q))" by auto
  from approval_built [OF assms(1,2) app] obtain s where b: "normalize_evm_address L (al_spender_address al) = Inr s"
    "call_address (prep_data t) = address_value s" "call_amount (prep_data t) = MAX_UINT256 \<longrightarrow> False"
    "normalize_evm_address L (rt_from_token (q_route q)) = Inr (prep_to t)" by auto
  have "s = al_spender_address al" using a b(1) normalize_idem [OF assms(1)] by auto
  moreover from approval_calldata_amount [OF assms(1,2) app] obtain w :: wallet_address_result and p where
    p: "check_erc20_approval_preconditions L F (rq_chain (q_request q)) (rt_from_token (q_route q)) (wa_address w)
      (al_spender_address al) (rq_amount_in (q_request q)) True False False = Inr p"
    "call_amount (prep_data t) = am_raw_amount (ap_amount p)"
    "prep_idempotency_key t = Some (rq_idempotency_key (q_request q) @ '':approval'')" by blast
  moreover from swap_request_sell(1) [OF assms(1,3) r n [unfolded facts(1)]] obtain m am where
    "get_erc20_metadata L F (rq_chain (q_request q)) (rt_from_token (q_route q)) = Inr m"
    "from_human L (rq_amount_in (q_request q)) (md_decimals m) = Inr am" "am_raw_amount am = q_amount_in_raw q"
    unfolding facts(1-3) by blast
  then have "call_amount (prep_data t) = q_amount_in_raw q" using human_preconditions [OF assms(1) p(1)] p(2) by simp
  ultimately show ?thesis using ps psq a al(2) b from_wallet by (auto simp: quote_only_def)
qed

text \<open>C21: a token sale whose quote the policy did not reject reads the allowance of the quoted spender, and is decided by it.
  When the allowance is below the sold amount, preparation makes an approval and nothing else, no swap transaction, no
  execution and no typed order; the approval is exact: from the wallet's address, without native value, to the token that is sold, its
  calldata decodes to the quoted spender and to the sold amount, which is not the unlimited one, and its key is the
  request's with the suffix \<open>:approval\<close>. When the allowance covers the amount, no approval is made and an execution is built.\<close>

theorem swap_approval_is_exact:
  assumes "web3_laws L" and "abi_laws L" and "chain_names_normal C" and "\<forall>p \<in> set (ro_providers ro). swap_adapter p"
    and "prepare_swap L C V ro F R policy i = Inr ps"
    and "pd_status (ps_quote_policy_decision ps) \<noteq> REJECTED_BY_POLICY"
    and "\<not> rq_from_token_is_native (q_request (ps_quote ps))"
  shows "\<exists>cur. quoted_allowance L F (ps_quote ps) cur \<and>
    (if cur < q_amount_in_raw (ps_quote ps)
     then ps_swap_transaction ps = None \<and> ps_execution ps = None \<and> ps_order_submission_key ps = None \<and>
       (\<exists>t sp s. ps_approval_transaction ps = Some t \<and>
          rt_spender_address (q_route (ps_quote ps)) = Some sp \<and> normalize_evm_address L sp = Inr s \<and>
          call_address (prep_data t) = address_value s \<and>
          call_amount (prep_data t) = q_amount_in_raw (ps_quote ps) \<and> call_amount (prep_data t) \<noteq> MAX_UINT256 \<and>
          normalize_evm_address L (rt_from_token (q_route (ps_quote ps))) = Inr (prep_to t) \<and> prep_value_wei t = 0 \<and>
          prep_from_address t = Some (rq_wallet_address (q_request (ps_quote ps))) \<and>
          prep_idempotency_key t = Some (rq_idempotency_key (q_request (ps_quote ps)) @ '':approval''))
     else ps_approval_transaction ps = None \<and> ps_execution ps \<noteq> None)"
proof (rule prepare_swap_cases [OF assms(5)])
  fix r q qdec
  assume r: "swap_request L C F R i = Inr r" and q: "router_get_quote ro r (si_provider_preference i) = Inr q"
    and psq: "ps_quote ps = q" "ps_quote_policy_decision ps = qdec"
    and cases: "(pd_status qdec = REJECTED_BY_POLICY \<and> ps = quote_only q qdec) \<or>
     (pd_status qdec \<noteq> REJECTED_BY_POLICY \<and> rq_from_token_is_native (q_request q) \<and>
        execution_step L C V ro policy q qdec None = Inr ps) \<or>
     (\<exists>al t. pd_status qdec \<noteq> REJECTED_BY_POLICY \<and> \<not> rq_from_token_is_native (q_request q) \<and> check_swap_allowance L F q = Inr al \<and>
        \<not> al_allowance_sufficient al \<and> approval_step L F R q al = Inr t \<and>
        ps = (quote_only q qdec)\<lparr>ps_allowance := Some al, ps_approval_transaction := Some t\<rparr>) \<or>
     (\<exists>al. pd_status qdec \<noteq> REJECTED_BY_POLICY \<and> \<not> rq_from_token_is_native (q_request q) \<and> check_swap_allowance L F q = Inr al \<and>
        al_allowance_sufficient al \<and> execution_step L C V ro policy q qdec (Some al) = Inr ps)"
  note facts = prepared_swap_facts [OF assms(1,3,4) r q]
  have n: "\<not> rq_from_token_is_native r" using assms(7) psq(1) facts(1) by simp
  have "pd_status qdec \<noteq> REJECTED_BY_POLICY" "\<not> rq_from_token_is_native (q_request q)" using assms(6,7) psq by simp_all
  with cases obtain al where al: "check_swap_allowance L F q = Inr al" and
    way: "(\<not> al_allowance_sufficient al \<and> (\<exists>t. ps = (quote_only q qdec)\<lparr>ps_allowance := Some al, ps_approval_transaction := Some t\<rparr>)) \<or>
      (al_allowance_sufficient al \<and> execution_step L C V ro policy q qdec (Some al) = Inr ps)" by blast
  note a = facts(4) [OF n al]
  from swap_request_sell(2) [OF assms(1,3) r n] facts(1) obtain w :: wallet_address_result where
    "normalize_evm_address L (wa_address w) = Inr (rq_wallet_address (q_request q))" by auto
  note cur = allowance_check_read [OF assms(1) al this]
  from way show ?thesis
  proof
    assume s: "\<not> al_allowance_sufficient al \<and>
      (\<exists>t. ps = (quote_only q qdec)\<lparr>ps_allowance := Some al, ps_approval_transaction := Some t\<rparr>)"
    then obtain t where t: "ps_approval_transaction ps = Some t" by auto
    from s a have "al_current_allowance_raw al < q_amount_in_raw q" by simp
    with short_allowance_approval [OF assms(1-5) t] cur psq(1) t show ?thesis
      by (intro exI [of _ "al_current_allowance_raw al"]) auto
  next
    assume "al_allowance_sufficient al \<and> execution_step L C V ro policy q qdec (Some al) = Inr ps"
    then have ex: "execution_step L C V ro policy q qdec (Some al) = Inr ps" and "al_allowance_sufficient al" by simp_all
    with a have "\<not> al_current_allowance_raw al < q_amount_in_raw q" by simp
    with execution_step_Inr(4) [OF ex] execution_step_executes [OF ex] cur psq(1) show ?thesis
      by (intro exI [of _ "al_current_allowance_raw al"]) simp
  qed
qed

definition demo_swap_approval :: prepared_transaction where
  "demo_swap_approval = \<lparr>prep_wallet_id = ''w1'', prep_chain = ''ethereum'', prep_chain_id = Some 1,
     prep_from_address = Some (demo_address (CHR ''2'')), prep_to = demo_token, prep_value_wei = 0,
     prep_data = encode_call lower_libs ''approve(address,uint256)'' (demo_address (CHR ''1'')) 5, prep_nonce = None,
     prep_gas = None, prep_idempotency_key = Some ''k2:approval'', prep_metadata =
       [(''action'', PStr ERC20_APPROVAL), (''token_address'', PStr demo_token),
        (''spender_address'', PStr (demo_address (CHR ''1''))), (''amount'', PStr ''5''), (''amount_raw'', PInt 5),
        (''decimals'', PInt 0), (''symbol'', PStr ''TOK''), (''name'', PStr ''TOK''), (''current_allowance_raw'', PInt 3),
        (''allowance_sufficient'', PBool False), (''unlimited_approval'', PBool False), (''spender_known'', PBool True)]\<rparr>"

abbreviation demo_short_allowance :: swap_allowance_check where
  "demo_short_allowance \<equiv> \<lparr>al_spender_address = demo_address (CHR ''1''), al_required_amount_raw = 5,
     al_current_allowance_raw = 3, al_allowance_sufficient = False\<rparr>"

lemma demo_approval_step: "approval_step lower_libs demo_read_factory demo_resolver (demo_sell_quote ''5'' 5)
    demo_short_allowance = Inr demo_swap_approval"
proof -
  have sold: "demo_sold ''5'' 5" by (simp add: demo_sold_def)
  obtain b where "alw_raw_amount b = 3" "get_erc20_allowance lower_libs demo_read_factory ''ethereum''
      demo_token (demo_address (CHR ''2'')) (demo_address (CHR ''1'')) = Inr b" using demo_reads(3) by blast
  then show ?thesis
    using demo_calldata(2) demo_reads(1) demo_sold_facts(2-6) [OF sold] demo_norms addr_norm_normal [OF demo_normal_12(2)]
    by (simp add: approval_step_def prepare_erc20_approval_def demo_resolver_def demo_sell_quote_def demo_sell_request_def
        check_erc20_approval_preconditions_def approval_amount_def encode_erc20_approval_data_def builder_eval
        demo_swap_approval_def approval_metadata_def)
qed

lemma demo_approved_first: "\<exists>ps. demo_prepare ''5'' 5 = Inr ps \<and> ps_quote ps = demo_sell_quote ''5'' 5 \<and>
    ps_approval_transaction ps = Some demo_swap_approval \<and> pd_status (ps_quote_policy_decision ps) \<noteq> REJECTED_BY_POLICY"
proof -
  have sold: "demo_sold ''5'' 5" by (simp add: demo_sold_def)
  show ?thesis using demo_prepare_eq [OF sold] demo_approval_step by (auto simp: Let_def quote_only_def)
qed

theorem swap_approval_is_exact_witness:
  "\<exists>ps t. demo_prepare ''5'' 5 = Inr ps \<and> ps_approval_transaction ps = Some t \<and> ps_swap_transaction ps = None \<and>
    call_amount (prep_data t) = q_amount_in_raw (ps_quote ps) \<and> call_amount (prep_data t) \<noteq> MAX_UINT256"
proof -
  obtain ps t where ps: "demo_prepare ''5'' 5 = Inr ps" "ps_approval_transaction ps = Some t"
    "pd_status (ps_quote_policy_decision ps) \<noteq> REJECTED_BY_POLICY" and q: "ps_quote ps = demo_sell_quote ''5'' 5"
    using demo_approved_first by blast
  have "\<not> rq_from_token_is_native (q_request (ps_quote ps))" by (simp add: q demo_sell_quote_def demo_sell_request_def)
  from swap_approval_is_exact [OF web3_laws_lower_libs abi_laws_lower_libs demo_names_normal demo_adapters ps(1,3) this] ps
  show ?thesis by (auto split: if_splits)
qed

section \<open>The user's minimum\<close>

definition with_minimum :: "string option \<Rightarrow> swap_execution \<Rightarrow> swap_execution" where
  "with_minimum m x = x\<lparr>sw_quote := (sw_quote x)\<lparr>q_request := (q_request (sw_quote x))\<lparr>rq_min_amount_out := m\<rparr>\<rparr>\<rparr>"

lemma with_minimum_simps:
  "q_route (sw_quote (with_minimum m x)) = q_route (sw_quote x)" "rq_min_amount_out (q_request (sw_quote (with_minimum m x))) = m"
  "rq_chain (q_request (sw_quote (with_minimum m x))) = rq_chain (q_request (sw_quote x))"
  "rq_chain_id (q_request (sw_quote (with_minimum m x))) = rq_chain_id (q_request (sw_quote x))"
  "rq_wallet_address (q_request (sw_quote (with_minimum m x))) = rq_wallet_address (q_request (sw_quote x))"
  "q_min_amount_out_raw (sw_quote (with_minimum m x)) = q_min_amount_out_raw (sw_quote x)"
  "q_expected_amount_out_raw (sw_quote (with_minimum m x)) = q_expected_amount_out_raw (sw_quote x)"
  "q_recipient_address (sw_quote (with_minimum m x)) = q_recipient_address (sw_quote x)"
  by (simp_all add: with_minimum_def)

text \<open>The policy decides the same whatever minimum output the user asked for: it only looks at whether the provider
  gave some minimum, so an execution is accepted even when the provider's minimum is below the user's.\<close>

theorem user_minimum_not_compared:
  "evaluate_swap_execution_policy L C policy now (with_minimum (Some a) x) =
   evaluate_swap_execution_policy L C policy now (with_minimum (Some b) x)"
proof -
  have "swap_route_reason L C policy (sw_quote (with_minimum (Some a) x)) =
      swap_route_reason L C policy (sw_quote (with_minimum (Some b) x))"
    by (simp only: swap_route_reason_def Let_def with_minimum_simps option.distinct simp_thms if_False if_True)
  then have "swap_quote_rejection_reason L C policy now (sw_quote (with_minimum (Some a) x)) =
      swap_quote_rejection_reason L C policy now (sw_quote (with_minimum (Some b) x))"
    unfolding swap_quote_rejection_reason_def by (simp only:) (simp add: with_minimum_def)
  moreover have "swap_execution_rejection_reason (with_minimum (Some a) x) = swap_execution_rejection_reason (with_minimum (Some b) x)"
    by (simp add: swap_execution_rejection_reason_def swap_cow_typed_order_rejection_reason_def with_minimum_def
        split: swap_execution_type.split option.split)
  ultimately show ?thesis by (simp add: evaluate_swap_execution_policy_def cong: option.case_cong)
qed

section \<open>Signed swaps\<close>

text \<open>Whatever the signer receives in a run of the swap graph was prepared for the request: it is the approval or the
  swap transaction of the prepared swap, with its wallet, sender, target, value, calldata, chain and key. A typed
  order never reaches the signer.\<close>

theorem signed_swap_was_prepared:
  assumes "web3_laws (d_libs d)" and "fresh s" and "run_swap_graph g d s \<lparr>w_store = st, w_log = []\<rparr> = (o', w')"
    and "SignerCalled r x \<in> set (w_log w')"
  shows "\<exists>payload ps t y. swap_payload_from_state s = Inr payload \<and>
    build_swap (d_libs d) (d_chains d) g payload = Inr ps \<and>
    (ps_approval_transaction ps = Some t \<or> (ps_approval_transaction ps = None \<and> ps_swap_transaction ps = Some t)) \<and>
    build_sign_request (d_libs d) y = Inr r \<and> exec_wallet_id y = prep_wallet_id t \<and>
    exec_from_address y = prep_from_address t \<and> exec_to y = prep_to t \<and> exec_value_wei y = prep_value_wei t \<and>
    exec_data y = prep_data t \<and> Some (exec_chain_id y) = prep_chain_id t \<and>
    exec_idempotency_key y = prep_idempotency_key t"
proof -
  have next_cases: "ps_approval_transaction ps = Some t \<or> (ps_approval_transaction ps = None \<and> ps_swap_transaction ps = Some t)"
    if "next_transaction ps = Some t" for ps t using that by (auto simp: next_transaction_def split: option.splits)
  have "\<exists>t y. swap_built g d s t \<and> complete (d_libs d) t \<and> comes_from t y \<and> build_sign_request (d_libs d) y = Inr r"
    by (rule swap_graph.signed_was_built [OF assms]) simp
  with next_cases show ?thesis by (fastforce simp: swap_built_def comes_from_def carries_def)
qed

definition demo_swap_payload :: pydict where
  "demo_swap_payload = [(''kind'', PStr ''swap''), (''chain'', PStr ''ethereum''), (''wallet_id'', PStr ''w1''),
     (''from_token'', PStr demo_token), (''to_token'', PStr (demo_address (CHR ''4''))), (''amount_in'', PStr ''5''),
     (''max_slippage_bps'', PInt 50), (''idempotency_key'', PStr ''k2'')]"

definition demo_swap_deps :: swap_graph_deps where
  "demo_swap_deps = \<lparr>sg_router = demo_router 5, sg_provider_factory = demo_read_factory, sg_address_resolver = demo_resolver,
     sg_policy_config = default_swap_policy, sg_env = demo_env\<rparr>"

definition demo_swap_state :: mercury_state where
  "demo_swap_state = empty_state\<lparr>s_raw_input := Some (Plain (PDict demo_swap_payload))\<rparr>"

lemma demo_swap_intent_read: "swap_intent_of lower_libs demo_chains demo_swap_payload = Inr (demo_swap_intent ''5'')"
proof -
  have s: "lower_strip ''ethereum'' = ''ethereum''" by code_simp
  have i: "lax_int lower_libs (PInt 50) = Some 50" by (simp add: lower_libs_def)
  have d: "demo_token \<noteq> demo_address (CHR ''4'')" by (simp add: demo_token_def demo_neq)
  show ?thesis
    using s i d demo_swap_norms demo_token_not_native demo_strips(4) [of "CHR ''4''"]
    by (simp add: swap_intent_of_def demo_swap_payload_def demo_swap_intent_def rd_str1_def rd_str_def nonempty_def rd_addr_def
        norm_addr_field_def rd_opt_str1_def rd_opt_str_def rd_min_opt_str_def from_token_field_def rd_int_range_def rd_opt_int_def
        rd_provider_def Let_def finish_def bps_errs_def opt_check_def model_check_def destination_error_def)
qed

lemma demo_approval_accepted:
  "policy_accepts lower_libs demo_chains default_engine (exec_of demo_swap_approval 7 demo_gas) (Some demo_sim)"
proof -
  have "carries demo_swap_approval (exec_of demo_swap_approval 7 demo_gas)" by (simp add: carries_def exec_of_def)
  then have "approval_ok lower_libs True (exec_of demo_swap_approval 7 demo_gas)"
    using approval_built [OF web3_laws_lower_libs abi_laws_lower_libs
        demo_approval_step [unfolded approval_step_def Let_def]] by (simp only: not_False_eq_True) blast
  then show ?thesis
    unfolding policy_accepts_def chain_ok_def identity_ok_def
    using demo_chain demo_norms
    by (simp add: exec_of_def demo_swap_approval_def demo_chains_def demo_sim_def sim_passed_def key_missing_def
        default_engine_def has_action_def ERC20_TRANSFER_def ERC20_APPROVAL_def NATIVE_TRANSFER_ACTION_def)
qed

lemma demo_swap_signs:
  "\<exists>r x. SignerCalled r x \<in> set (w_log (snd (run_swap_graph demo_swap_deps demo_consenting demo_swap_state
     \<lparr>w_store = Map.empty, w_log = []\<rparr>)))"
proof -
  have l: "d_libs demo_consenting = lower_libs" "d_chains demo_consenting = demo_chains"
    "d_policy_engine demo_consenting = default_engine"
    by (simp_all add: demo_consenting_defs)
  obtain ps where ps: "demo_prepare ''5'' 5 = Inr ps" "ps_quote ps = demo_sell_quote ''5'' 5"
    "ps_approval_transaction ps = Some demo_swap_approval" using demo_approved_first by blast
  let ?r = "q_request (ps_quote ps)"
  let ?s = "demo_swap_state\<lparr>s_prepared_swap := Some ps, s_chain_name := Some (rq_chain ?r),
    s_wallet_address := Some (rq_wallet_address ?r), s_prepared_transaction := Some (Model demo_swap_approval)\<rparr>"
  have p: "swap_payload_from_state demo_swap_state = Inr demo_swap_payload"
    by (simp add: swap_payload_from_state_def payload_from_state_def intent_source_def demo_swap_state_def
        empty_state_def demo_swap_payload_def)
  have k: "payload_kind lower_libs demo_swap_payload = ''swap''"
  proof -
    have "py_lower ''swap'' = ''swap''" by code_simp
    then show ?thesis by (simp add: payload_kind_def demo_swap_payload_def)
  qed
  have m: "merge_intent_metadata_into_prepared demo_swap_approval demo_swap_payload = demo_swap_approval"
    by (simp add: merge_intent_metadata_into_prepared_def demo_swap_payload_def)
  have e: "s_error ?s = None" "s_execution_result ?s = None" "s_prepared_transaction ?s = Some (Model demo_swap_approval)"
    by (simp_all add: demo_swap_state_def empty_state_def)
  have b: "build_swap lower_libs demo_chains demo_swap_deps demo_swap_payload = Inr ps"
    using ps(1) by (simp add: build_swap_def demo_swap_intent_read demo_swap_deps_def)
  have n: "next_transaction ps = Some demo_swap_approval" using ps(3) by (simp add: next_transaction_def)
  have node: "prepare_swap_transaction lower_libs demo_chains demo_swap_deps demo_swap_state = Inr ?s"
    using p b n m by (simp add: prepare_swap_transaction_def Let_def)
  have run: "run_swap_graph demo_swap_deps demo_consenting demo_swap_state \<lparr>w_store = Map.empty, w_log = []\<rparr> =
      run_pipeline demo_consenting ?s \<lparr>w_store = Map.empty, w_log = []\<rparr>"
    using p k node e(1) by (simp add: run_swap_graph_def route_swap_intent_def l route_after_swap_prepare_def run_pipeline_def)
  have c: "complete (d_libs demo_consenting) demo_swap_approval"
    by (simp add: l approval_step_complete [OF web3_laws_lower_libs demo_approval_step])
  have w: "sg_get_wallet_address (d_signer demo_consenting) (prep_wallet_id demo_swap_approval) =
      Inr \<lparr>wa_wallet_id = ''w1'', wa_address = demo_address (CHR ''2'')\<rparr>"
    and no: "be_lookup_nonce (d_backend demo_consenting) demo_swap_approval a = Inr 7" for a
    by (simp_all add: demo_consenting_defs demo_swap_approval_def)
  have "\<exists>r x. build_sign_request (d_libs demo_consenting) (exec_of demo_swap_approval 7 demo_gas) = Inr r \<and>
      SignerCalled r x \<in> set (w_log (snd (run_pipeline demo_consenting ?s \<lparr>w_store = Map.empty, w_log = []\<rparr>)))"
    by (rule complete_reaches_signer [OF demo_facts(1) e c _ w no _
          demo_facts(5,6) _ demo_facts(8), where k = "''k2:approval''"])
      (simp_all add: demo_approval_accepted l, simp_all add: demo_swap_approval_def)
  then show ?thesis unfolding run by blast
qed

theorem signed_swap_was_prepared_witness:
  "\<exists>r y payload ps t. swap_payload_from_state demo_swap_state = Inr payload \<and>
    build_swap lower_libs demo_chains demo_swap_deps payload = Inr ps \<and> build_sign_request lower_libs y = Inr r \<and>
    (ps_approval_transaction ps = Some t \<or> ps_swap_transaction ps = Some t) \<and>
    exec_to y = prep_to t \<and> exec_value_wei y = prep_value_wei t \<and> exec_data y = prep_data t"
proof -
  have l: "d_libs demo_consenting = lower_libs" "d_chains demo_consenting = demo_chains"
    by (simp_all add: demo_consenting_defs)
  have f: "fresh demo_swap_state" by (simp add: fresh_def cleared_def demo_swap_state_def empty_state_def)
  obtain r x where ev: "SignerCalled r x \<in> set (w_log (snd (run_swap_graph demo_swap_deps demo_consenting
      demo_swap_state \<lparr>w_store = Map.empty, w_log = []\<rparr>)))" using demo_swap_signs by blast
  from signed_swap_was_prepared [OF demo_facts(1) f prod.collapse [symmetric] ev] show ?thesis
    unfolding l by blast
qed

end
