(* ===== verification/Request_Properties.thy ===== *)
theory Request_Properties
  imports Canonical_Requests Swap_Properties
begin

text \<open>
  The properties of requests: what a request must have gone through before the signer is called for it, what the
  read graph answers, and what the response gives away.
\<close>

section \<open>Consent\<close>

text \<open>The metadata a request ends up with: the intent's own entry hides the one made from the request.\<close>

definition effective_metadata :: "invoke_request \<Rightarrow> pyval" where
  "effective_metadata q = (case iq_intent q of
       PDict d \<Rightarrow> (case dget d ''metadata'' of Some v \<Rightarrow> v | None \<Rightarrow> PDict (request_metadata q))
     | _ \<Rightarrow> PNone)"

lemma default_opt_other: "k' \<noteq> k \<Longrightarrow> dget (default_opt k v d) k' = dget d k'"
  by (simp add: default_opt_def dget_dsetdefault split: option.splits)

lemma boundary_metadata:
  assumes "intent_with_boundary_fields q key = PDict raw"
  shows "dget_none raw ''metadata'' = effective_metadata q"
proof -
  from assms obtain d where d: "iq_intent q = PDict d"
    and raw: "raw = dsetdefault ''metadata'' (PDict (request_metadata q)) (default_opt ''idempotency_key'' key
           (dsetdefault ''wallet_id'' (PStr (iq_wallet_id q)) (default_opt ''chain'' (iq_chain q) d)))"
    by (auto simp: intent_with_boundary_fields_def split: pyval.splits)
  have "dget (default_opt ''idempotency_key'' key (dsetdefault ''wallet_id'' (PStr (iq_wallet_id q))
      (default_opt ''chain'' (iq_chain q) d))) ''metadata'' = dget d ''metadata''"
    by (simp add: default_opt_other dget_dsetdefault)
  then have "dget raw ''metadata'' = (case dget d ''metadata'' of Some v \<Rightarrow> Some v | None \<Rightarrow> Some (PDict (request_metadata q)))"
    unfolding raw by (simp add: dget_dsetdefault split: option.splits)
  with d show ?thesis by (simp add: dget_none_def effective_metadata_def split: option.splits)
qed

lemma dmerge_entry: "dget (dmerge a b) k = Some v \<Longrightarrow> dget a k = Some v \<or> (k, v) \<in> set b"
  unfolding dmerge_def by (induction b arbitrary: a) (fastforce split: if_splits)+

lemma mk_prepared_metadata: "mk_prepared_transaction L t0 = Inr t \<Longrightarrow> prep_metadata t = prep_metadata t0"
  by (auto simp: mk_prepared_transaction_def check_def split: if_splits)

lemma erc20_metadata_entries:
  "prepare_erc20_transfer L F A c wid tok rcp amt k u = Inr t \<Longrightarrow> dget (prep_metadata t) ''approval_response'' = None"
  "prepare_erc20_approval L F A c wid tok spd amt k kn un u = Inr t \<Longrightarrow> dget (prep_metadata t) ''approval_response'' = None"
  by (auto simp: prepare_erc20_transfer_def prepare_erc20_approval_def prepared_erc20_transaction_def Let_def rbind_eq_Inr
      transfer_metadata_def approval_metadata_def dest!: mk_prepared_metadata split: if_splits option.splits)

lemma native_metadata_entries:
  "prepare_native_transfer L C A c wid rcp amt k = Inr t \<Longrightarrow> dget (prep_metadata t) ''approval_response'' = None"
  by (auto simp: prepare_native_transfer_def rbind_eq_Inr dest!: mk_prepared_metadata split: if_splits)

lemma swap_metadata_entries:
  assumes "prepare_swap L C V ro F R policy i = Inr ps" and "next_transaction ps = Some t"
  shows "dget (prep_metadata t) ''approval_response'' = None"
proof (rule prepare_swap_cases [OF assms(1)])
  fix r q qdec
  have ex: "dget (prep_metadata t) ''approval_response'' = None" if "execution_step L C V ro policy q qdec al = Inr ps" for al
  proof -
    have "ps_swap_transaction ps = Some t"
      using assms(2) execution_step_Inr(4) [OF that] by (simp add: next_transaction_def)
    from execution_step_Inr(5) [OF that this] show ?thesis
      by (auto simp: swap_prepared_def swap_metadata_def Let_def dest!: mk_prepared_metadata)
  qed
  have ap: "dget (prep_metadata t) ''approval_response'' = None" if "approval_step L F R q al = Inr t" for al
    using that erc20_metadata_entries(2) by (auto simp: approval_step_def Let_def)
  assume "(pd_status qdec = REJECTED_BY_POLICY \<and> ps = quote_only q qdec) \<or>
     (pd_status qdec \<noteq> REJECTED_BY_POLICY \<and> rq_from_token_is_native (q_request q) \<and>
        execution_step L C V ro policy q qdec None = Inr ps) \<or>
     (\<exists>al t. pd_status qdec \<noteq> REJECTED_BY_POLICY \<and> \<not> rq_from_token_is_native (q_request q) \<and> check_swap_allowance L F q = Inr al \<and>
        \<not> al_allowance_sufficient al \<and> approval_step L F R q al = Inr t \<and>
        ps = (quote_only q qdec)\<lparr>ps_allowance := Some al, ps_approval_transaction := Some t\<rparr>) \<or>
     (\<exists>al. pd_status qdec \<noteq> REJECTED_BY_POLICY \<and> \<not> rq_from_token_is_native (q_request q) \<and> check_swap_allowance L F q = Inr al \<and>
        al_allowance_sufficient al \<and> execution_step L C V ro policy q qdec (Some al) = Inr ps)"
  then show "dget (prep_metadata t) ''approval_response'' = None"
    using assms(2) ex ap by (auto simp: next_transaction_def quote_only_def)
qed

lemma built_without_consent:
  assumes "value_build R L C vk m = Inr (Some t)"
  shows "dget (prep_metadata t) ''approval_response'' = None"
  using assms erc20_metadata_entries native_metadata_entries swap_metadata_entries
  by (cases vk) (fastforce simp: rbind_eq_Inr Let_def)+

section \<open>What reaches the signer\<close>

lemma signed_is_validated:
  assumes "web3_laws (d_libs (rt_tx R))" and "lax_laws (d_libs (rt_tx R))"
    and "mercury_invoke M R q hid hkey gen \<lparr>w_store = st, w_log = []\<rparr> cache = (out, w', cache')"
    and "SignerCalled r x \<in> set (w_log w')"
  shows "\<exists>raw vk merged t y. intent_with_boundary_fields q (effective_idempotency_key q hkey) = PDict raw \<and>
    accepted R cache raw vk merged \<and> value_build R (d_libs (rt_tx R)) (d_chains (rt_tx R)) vk merged = Inr (Some t) \<and>
    comes_from (merge_intent_metadata_into_prepared t raw) y \<and> build_sign_request (d_libs (rt_tx R)) y = Inr r"
proof -
  have "w' \<noteq> \<lparr>w_store = st, w_log = []\<rparr>" using assms(4) by auto
  then show ?thesis
  proof (rule invoke_graph [OF assms(2,1,3)])
    fix raw vk merged s g o'
    assume raw: "intent_with_boundary_fields q (effective_idempotency_key q hkey) = PDict raw"
      and acc: "accepted R cache raw vk merged" and s: "fresh s"
      and run: "run_graph (R\<lparr>rt_tx := rt_tx R\<rparr>) g s \<lparr>w_store = st, w_log = []\<rparr> = (o', w')"
      and built: "\<And>t. graph_built R g (rt_tx R) s t \<Longrightarrow> \<exists>t0. value_build R (d_libs (rt_tx R)) (d_chains (rt_tx R)) vk merged
         = Inr (Some t0) \<and> t = merge_intent_metadata_into_prepared t0 raw"
    have "\<exists>t y. graph_built R g (rt_tx R) s t \<and> complete (d_libs (rt_tx R)) t \<and> comes_from t y \<and>
        build_sign_request (d_libs (rt_tx R)) y = Inr r"
      by (rule runtime_graph.signed_was_built [OF assms(1) s run assms(4)]) simp
    then obtain t y where t: "graph_built R g (rt_tx R) s t" "comes_from t y"
      "build_sign_request (d_libs (rt_tx R)) y = Inr r" by blast
    with built [OF t(1)] raw acc show ?thesis by blast
  qed
qed

lemma signed_is_consented:
  assumes "web3_laws (d_libs (rt_tx R))" and "lax_laws (d_libs (rt_tx R))" and "wf_store st"
    and "d_approver (rt_tx R) = request_metadata_approver (d_libs (rt_tx R))"
    and "mercury_invoke M R q hid hkey gen \<lparr>w_store = st, w_log = []\<rparr> cache = (out, w', cache')"
    and "SignerCalled r x \<in> set (w_log w')" and "sign_request_moves_value r"
  shows "\<exists>raw vk merged t y meta ap. intent_with_boundary_fields q (effective_idempotency_key q hkey) = PDict raw \<and>
    accepted R cache raw vk merged \<and> value_build R (d_libs (rt_tx R)) (d_chains (rt_tx R)) vk merged = Inr (Some t) \<and>
    comes_from (merge_intent_metadata_into_prepared t raw) y \<and> build_sign_request (d_libs (rt_tx R)) y = Inr r \<and>
    effective_metadata q = PDict meta \<and> (''approval_response'', PDict ap) \<in> set meta \<and>
    approval_status_text (d_libs (rt_tx R)) ap = ''approved'' \<and>
    approval_key_matches (d_libs (rt_tx R)) ap (case prep_idempotency_key t of None \<Rightarrow> [] | Some k \<Rightarrow> k)"
proof -
  let ?L = "d_libs (rt_tx R)"
  have "w' \<noteq> \<lparr>w_store = st, w_log = []\<rparr>" using assms(6) by auto
  then show ?thesis
  proof (rule invoke_graph [OF assms(2,1,5)])
    fix raw vk merged s g o'
    assume raw: "intent_with_boundary_fields q (effective_idempotency_key q hkey) = PDict raw"
      and acc: "accepted R cache raw vk merged" and s: "fresh s"
      and run: "run_graph (R\<lparr>rt_tx := rt_tx R\<rparr>) g s \<lparr>w_store = st, w_log = []\<rparr> = (o', w')"
      and built: "\<And>t. graph_built R g (rt_tx R) s t \<Longrightarrow> \<exists>t0. value_build R ?L (d_chains (rt_tx R)) vk merged
         = Inr (Some t0) \<and> t = merge_intent_metadata_into_prepared t0 raw"
    have "\<exists>t y z q a. graph_built R g (rt_tx R) s t \<and> complete ?L t \<and> comes_from t y \<and> build_sign_request ?L y = Inr r \<and>
        comes_from t z \<and> build_approval_request z = Inr q \<and> d_approver (rt_tx R) q = Inr a \<and> apr_approved a"
      by (rule runtime_graph.signed_was_approved [OF assms(1) s run assms(6) _ _ assms(7)]) (simp_all add: assms(3))
    then obtain t y z p a where t: "graph_built R g (rt_tx R) s t" "comes_from t y" "build_sign_request ?L y = Inr r"
      and z: "comes_from t z" "build_approval_request z = Inr p" and a: "d_approver (rt_tx R) p = Inr a" "apr_approved a"
      by blast
    from built [OF t(1)] obtain t0 where t0: "value_build R ?L (d_chains (rt_tx R)) vk merged = Inr (Some t0)"
      "t = merge_intent_metadata_into_prepared t0 raw" by blast
    have p: "ar_metadata p = prep_metadata t" "ar_idempotency_key p = (case prep_idempotency_key t0 of None \<Rightarrow> [] | Some k \<Rightarrow> k)"
      using z t0(2) by (auto simp: build_approval_request_def mk_approval_request_def check_def comes_from_def carries_def
          split: if_splits)
    have "metadata_consents ?L p" using by_metadata.approves_only_consented [OF a(1) [unfolded assms(4)] a(2)] .
    then obtain ap where ap: "dget (prep_metadata t) ''approval_response'' = Some (PDict ap)"
      "approval_status_text ?L ap = ''approved''" "approval_key_matches ?L ap (ar_idempotency_key p)"
      unfolding metadata_consents_def p(1) by (auto simp: dget_none_def split: option.splits)
    from ap(1) built_without_consent [OF t0(1)]
    obtain meta where meta: "dget_none raw ''metadata'' = PDict meta" "(''approval_response'', PDict ap) \<in> set meta"
      unfolding t0(2) merge_intent_metadata_into_prepared_def
      by (auto split: pyval.splits if_splits dest!: dmerge_entry)
    with boundary_metadata [OF raw] raw acc t0 t ap(2,3) p(2) show ?thesis by metis
  qed
qed


section \<open>A request that is signed\<close>

definition demo_consent :: pydict where
  "demo_consent = [(''status'', PStr ''approved''), (''idempotency_key'', PStr ''k1'')]"

definition demo_runtime :: graph_runtime where
  "demo_runtime = \<lparr>rt_known_addresses = [], rt_ens_resolver = None,
     rt_registry = registry_from_provider_factory lower_libs demo_chains [] demo_read_factory None None None,
     rt_erc20 = demo_erc20_deps, rt_native = demo_native_deps, rt_swap = demo_swap_deps, rt_tx = demo_deps\<rparr>"

definition demo_request :: invoke_request where
  "demo_request = \<lparr>iq_request_id = None, iq_user_id = ''u1'', iq_wallet_id = ''w1'', iq_intent = PDict demo_native_payload,
     iq_chain = None, iq_idempotency_key = None, iq_approval_response = Some demo_consent, iq_metadata = []\<rparr>"

definition demo_meta :: pydict where
  "demo_meta = [(''user_id'', PStr ''u1''), (''approval_response'', PDict demo_consent)]"

definition demo_raw :: pydict where
  "demo_raw = demo_native_payload @ [(''metadata'', PDict demo_meta)]"

definition demo_request_prepared :: prepared_transaction where
  "demo_request_prepared = demo_native_prepared\<lparr>prep_metadata := prep_metadata demo_native_prepared @ demo_meta\<rparr>"

lemma demo_boundary: "intent_with_boundary_fields demo_request (effective_idempotency_key demo_request None) = PDict demo_raw"
  by (simp add: intent_with_boundary_fields_def effective_idempotency_key_def opt_or_def default_opt_def dsetdefault_def
      demo_request_def demo_native_payload_def request_metadata_def demo_raw_def demo_meta_def dset_def)

definition demo_native_intent :: native_transfer_intent where
  "demo_native_intent = \<lparr>ni_chain = ''ethereum'', ni_wallet_id = ''w1'', ni_recipient_address = demo_address (CHR ''1''),
     ni_amount = ''1'', ni_idempotency_key = Some ''k1''\<rparr>"

lemma demo_native_read: "native_intent_of lower_libs demo_raw = Inr demo_native_intent"
proof -
  have "lower_strip ''ethereum'' = ''ethereum''" by code_simp
  then show ?thesis
    using demo_norms
    by (simp add: native_intent_of_def demo_raw_def demo_native_payload_def rd_str1_def rd_str_def nonempty_def
        rd_addr_def norm_addr_field_def rd_opt_str1_def rd_opt_str_def Let_def finish_def demo_native_intent_def)
qed

lemma demo_canonical: "value_canonical lower_libs demo_chains NativeTransferKind demo_raw = Inr (native_intent_json demo_native_intent)"
  by (simp add: demo_native_read)

lemma demo_merge: "dmerge demo_raw (native_intent_json demo_native_intent) = demo_raw"
  by (simp add: dmerge_def dset_def native_intent_json_def demo_native_intent_def demo_raw_def demo_native_payload_def)

lemma demo_kind: "lower_strip ''native_transfer'' = ''native_transfer''" "py_lower ''native_transfer'' = ''native_transfer''"
  by code_simp+

lemma demo_validated:
  "runtime_validate demo_runtime (state_from_request demo_request rid (effective_idempotency_key demo_request None)) [] =
     (Inr (Valid (success_state (state_from_request demo_request rid (effective_idempotency_key demo_request None)) demo_raw)), [])"
proof -
  have f: "\<forall>d. dget_none demo_raw ''intent'' \<noteq> PDict d" by (simp add: demo_raw_def demo_native_payload_def)
  have k: "raw_kind demo_raw = PStr ''native_transfer''"
    by (simp add: raw_kind_def demo_raw_def demo_native_payload_def)
  have v: "dget VALUE_MOVING_MODEL ''native_transfer'' = Some NativeTransferKind" by (simp add: VALUE_MOVING_MODEL_def)
  show ?thesis
    unfolding runtime_validate_def validate_invoke_intent_def request_state(3) demo_boundary
    using demo_canonical demo_merge demo_kind v
    by (simp add: merge_flat [OF f] k demo_runtime_def demo_deps_def demo_deps_bc_def apply_ens_resolution_to_merged_def
        validate_merged_def)
qed

lemma demo_request_accepted:
  "policy_accepts lower_libs demo_chains default_engine (exec_of demo_request_prepared 7 demo_gas) (Some demo_sim)"
proof -
  have "native_ok lower_libs (exec_of demo_request_prepared 7 demo_gas)"
    using demo_norms demo_one_not_zero
    by (simp add: native_ok_def not_sender_def exec_of_def demo_request_prepared_def demo_native_prepared_def metadata_address_def
        demo_meta_def)
  then show ?thesis
    unfolding policy_accepts_def chain_ok_def identity_ok_def
    using demo_chain demo_norms
    by (simp add: exec_of_def demo_request_prepared_def demo_native_prepared_def demo_chains_def demo_sim_def sim_passed_def
        key_missing_def default_engine_def has_action_def ERC20_TRANSFER_def ERC20_APPROVAL_def NATIVE_TRANSFER_ACTION_def
        demo_meta_def)
qed

lemma demo_request_approved:
  assumes "build_approval_request (exec_of demo_request_prepared 7 demo_gas) = Inr p"
  shows "\<exists>a. request_metadata_approver lower_libs p = Inr a \<and> apr_approved a"
proof -
  have p: "ar_metadata p = prep_metadata demo_native_prepared @ demo_meta" "ar_idempotency_key p = ''k1''"
    using assms by (auto simp: build_approval_request_def mk_approval_request_def finish_def exec_of_def demo_request_prepared_def
        demo_native_prepared_def split: if_splits)
  have "approval_status_text lower_libs demo_consent = ''approved''"
  proof -
    have "py_lower (py_strip ''approved'') = ''approved''" by code_simp
    then show ?thesis by (simp add: approval_status_text_def demo_consent_def)
  qed
  then show ?thesis
    using p by (simp add: request_metadata_approver_def demo_meta_def demo_native_prepared_def approval_key_matches_def
        mk_approval_result_def finish_def min_len_def str_or_def apr_approved_def demo_consent_def)
qed

lemma demo_request_complete: "complete lower_libs demo_request_prepared"
  using demo_native_complete
  unfolding complete_def wf_prepared_iff [OF web3_laws_lower_libs] by (simp add: demo_request_prepared_def)

lemma demo_request_pipeline:
  assumes "s_error s = None" and "s_execution_result s = None" and "s_prepared_transaction s = Some (Model demo_request_prepared)"
  shows "\<exists>r x. build_sign_request lower_libs (exec_of demo_request_prepared 7 demo_gas) = Inr r \<and>
    SignerCalled r x \<in> set (w_log (snd (run_pipeline demo_deps s \<lparr>w_store = Map.empty, w_log = []\<rparr>)))"
proof -
  have l: "d_libs demo_deps = lower_libs" "d_chains demo_deps = demo_chains" "d_policy_engine demo_deps = default_engine"
    "d_approver demo_deps = request_metadata_approver lower_libs"
    by (simp_all add: demo_deps_def demo_deps_bc_def)
  show ?thesis
    by (rule complete_reaches_signer [of demo_deps s demo_request_prepared "\<lparr>wa_wallet_id = ''w1'', wa_address = demo_address (CHR ''2'')\<rparr>"
          7 demo_gas demo_sim "''k1''" "\<lparr>w_store = Map.empty, w_log = []\<rparr>", unfolded l])
      (use demo_request_complete demo_request_accepted demo_request_approved web3_laws_lower_libs assms in
        \<open>simp_all add: demo_deps_def demo_deps_bc_def demo_signer_def demo_backend_def demo_request_prepared_def
           demo_native_prepared_def demo_sim_def\<close>)
qed


lemma demo_request_built: "build_native lower_libs demo_chains demo_native_deps demo_raw = Inr demo_native_prepared"
proof -
  have s: "lower_strip ''ethereum'' = ''ethereum''" by code_simp
  then have "native_intent_of lower_libs demo_native_payload = Inr demo_native_intent"
    using demo_norms
    by (simp add: native_intent_of_def demo_native_payload_def rd_str1_def rd_str_def nonempty_def
        rd_addr_def norm_addr_field_def rd_opt_str1_def rd_opt_str_def Let_def finish_def demo_native_intent_def)
  with demo_native_built demo_native_read show ?thesis by (simp add: build_native_def)
qed

lemma demo_request_run:
  assumes "s = success_state (state_from_request demo_request rid key) demo_raw"
  shows "run_graph demo_runtime (graph_selection_for_state lower_libs s) s w = run_pipeline demo_deps (state_with_prepared s demo_request_prepared) w"
proof -
  have f: "\<forall>d. dget_none demo_raw ''intent'' \<noteq> PDict d" by (simp add: demo_raw_def demo_native_payload_def)
  have k: "dget demo_raw ''kind'' = Some (PStr ''native_transfer'')" by (simp add: demo_raw_def demo_native_payload_def)
  have g: "graph_selection_for_state lower_libs s = NativeGraph"
    unfolding assms
    by (simp add: graph_selection_for_state_def success_state_def merge_flat [OF f] str_default_def k demo_kind graph_of_kind_def)
  have p: "native_payload_from_state s = Inr demo_raw"
    unfolding assms using f
    by (auto simp: native_payload_from_state_def payload_from_state_def intent_source_def success_state_def
        request_state(1) split: pyval.splits)
  have pk: "payload_kind lower_libs demo_raw = ''native_transfer''" by (simp add: payload_kind_def k demo_kind)
  have m: "merge_intent_metadata_into_prepared demo_native_prepared demo_raw = demo_request_prepared"
    by (simp add: merge_intent_metadata_into_prepared_def demo_raw_def demo_native_payload_def demo_meta_def dmerge_def
        dset_def demo_request_prepared_def demo_native_prepared_def)
  have e: "s_error (state_with_prepared s t) = None" for t
    by (simp add: assms state_with_prepared_def success_state_def state_from_request_def empty_state_def)
  show ?thesis
    using p pk m e demo_request_built
    by (simp add: g run_graph_def demo_runtime_def run_native_graph_def route_native_intent_def prepare_native_transaction_def
        demo_deps_def demo_deps_bc_def route_after_native_prepare_def run_pipeline_def)
qed

lemma demo_request_signs:
  "\<exists>r x. build_sign_request lower_libs (exec_of demo_request_prepared 7 demo_gas) = Inr r \<and>
    SignerCalled r x \<in> set (w_log (fst (snd (mercury_invoke M demo_runtime demo_request None None gen
      \<lparr>w_store = Map.empty, w_log = []\<rparr> []))))"
proof -
  let ?w = "\<lparr>w_store = Map.empty, w_log = []\<rparr>"
  let ?r = "state_from_request demo_request (effective_request_id demo_request None gen) (effective_idempotency_key demo_request None)"
  let ?s = "success_state ?r demo_raw"
  let ?t = "state_with_prepared ?s demo_request_prepared"
  have l: "d_libs (rt_tx demo_runtime) = lower_libs" by (simp add: demo_runtime_def demo_deps_def demo_deps_bc_def)
  have w: "fst (snd (mercury_invoke M demo_runtime demo_request None None gen ?w [])) = snd (run_pipeline demo_deps ?t ?w)"
    by (simp add: mercury_invoke_def runtime_invoke_def demo_validated run_validated_def l demo_request_run [OF refl] Let_def
        split: prod.splits sum.splits)
  have t: "s_error ?t = None" "s_execution_result ?t = None" "s_prepared_transaction ?t = Some (Model demo_request_prepared)"
    by (simp_all add: state_with_prepared_def success_state_def state_from_request_def empty_state_def)
  show ?thesis unfolding w by (rule demo_request_pipeline [OF t])
qed

lemma demo_request_value:
  assumes "build_sign_request lower_libs (exec_of demo_request_prepared 7 demo_gas) = Inr r"
  shows "sign_request_moves_value r"
  using assms
  by (auto simp: build_sign_request_def to_prepared_evm_transaction_def mk_prepared_evm_transaction_def
      mk_sign_transaction_request_def sign_request_moves_value_def rbind_eq_Inr finish_def
      dget_none_def Let_def exec_of_def demo_request_prepared_def demo_native_prepared_def split: if_splits)

lemma demo_runtime_laws:
  "web3_laws (d_libs (rt_tx demo_runtime))" "lax_laws (d_libs (rt_tx demo_runtime))"
  "d_approver (rt_tx demo_runtime) = request_metadata_approver (d_libs (rt_tx demo_runtime))"
  using web3_laws_lower_libs
  by (simp_all add: demo_runtime_def demo_deps_def demo_deps_bc_def lax_laws_def lower_libs_def)

text \<open>C1: a signature is only made for a request that was validated, and over what was validated: if the signer is
  called while a request is handled, the payload is not nested and names a value-moving kind, it has a canonical form
  after its ENS names are resolved, the transaction was built from the intent of that payload, and the signed transaction
  has the wallet, chain, sender, recipient, value, calldata and idempotency key the builder gave it. No other payload
  reaches the signer.\<close>

theorem signed_request_was_validated:
  assumes "web3_laws (d_libs (rt_tx R))" and "lax_laws (d_libs (rt_tx R))"
    and "mercury_invoke M R q hid hkey gen \<lparr>w_store = st, w_log = []\<rparr> cache = (out, w', cache')"
    and "SignerCalled r x \<in> set (w_log w')"
  shows "\<exists>raw vk merged t y. intent_with_boundary_fields q (effective_idempotency_key q hkey) = PDict raw \<and>
    accepted R cache raw vk merged \<and> value_build R (d_libs (rt_tx R)) (d_chains (rt_tx R)) vk merged = Inr (Some t) \<and>
    comes_from (merge_intent_metadata_into_prepared t raw) y \<and> build_sign_request (d_libs (rt_tx R)) y = Inr r"
  by (rule signed_is_validated [OF assms])

theorem signed_request_was_validated_witness:
  "\<exists>raw vk merged t. intent_with_boundary_fields demo_request (effective_idempotency_key demo_request None) = PDict raw \<and>
    accepted demo_runtime [] raw vk merged \<and> value_build demo_runtime lower_libs demo_chains vk merged = Inr (Some t)"
proof -
  have l: "d_libs (rt_tx demo_runtime) = lower_libs" "d_chains (rt_tx demo_runtime) = demo_chains"
    by (simp_all add: demo_runtime_def demo_deps_def demo_deps_bc_def)
  obtain out w' cache' where run: "mercury_invoke (\<lambda>_. PNone) demo_runtime demo_request None None ''id'' \<lparr>w_store = Map.empty, w_log = []\<rparr> []
      = (out, w', cache')" by (metis prod.exhaust)
  obtain r x where "SignerCalled r x \<in> set (w_log w')"
    using demo_request_signs [of "\<lambda>_. PNone" "''id''"] unfolding run by auto
  from signed_request_was_validated [OF demo_runtime_laws(1,2) run this] show ?thesis unfolding l by blast
qed

text \<open>C2: a signature that moves value was consented to in the request: with the default approver, if the signer is called
  with value or calldata while a request is handled, the metadata the request ends up with (the intent's own, which hides
  the one made from the request) holds an approval response whose status is approved and whose idempotency key, when it
  has one, is the one of the transaction built from the validated payload. No builder adds such an entry itself.\<close>

theorem signed_request_was_approved:
  assumes "web3_laws (d_libs (rt_tx R))" and "lax_laws (d_libs (rt_tx R))" and "wf_store st"
    and "d_approver (rt_tx R) = request_metadata_approver (d_libs (rt_tx R))"
    and "mercury_invoke M R q hid hkey gen \<lparr>w_store = st, w_log = []\<rparr> cache = (out, w', cache')"
    and "SignerCalled r x \<in> set (w_log w')" and "sign_request_moves_value r"
  shows "\<exists>raw vk merged t y meta ap. intent_with_boundary_fields q (effective_idempotency_key q hkey) = PDict raw \<and>
    accepted R cache raw vk merged \<and> value_build R (d_libs (rt_tx R)) (d_chains (rt_tx R)) vk merged = Inr (Some t) \<and>
    comes_from (merge_intent_metadata_into_prepared t raw) y \<and> build_sign_request (d_libs (rt_tx R)) y = Inr r \<and>
    effective_metadata q = PDict meta \<and> (''approval_response'', PDict ap) \<in> set meta \<and>
    approval_status_text (d_libs (rt_tx R)) ap = ''approved'' \<and>
    approval_key_matches (d_libs (rt_tx R)) ap (case prep_idempotency_key t of None \<Rightarrow> [] | Some k \<Rightarrow> k)"
  by (rule signed_is_consented [OF assms])

theorem signed_request_was_approved_witness:
  "\<exists>raw vk merged t meta ap. accepted demo_runtime [] raw vk merged \<and>
    value_build demo_runtime lower_libs demo_chains vk merged = Inr (Some t) \<and> effective_metadata demo_request = PDict meta \<and>
    (''approval_response'', PDict ap) \<in> set meta \<and> approval_status_text lower_libs ap = ''approved''"
proof -
  have l: "d_libs (rt_tx demo_runtime) = lower_libs" "d_chains (rt_tx demo_runtime) = demo_chains"
    by (simp_all add: demo_runtime_def demo_deps_def demo_deps_bc_def)
  have st: "wf_store Map.empty" using demo_wf by (simp add: demo_world_def)
  obtain out w' cache' where run: "mercury_invoke (\<lambda>_. PNone) demo_runtime demo_request None None ''id'' \<lparr>w_store = Map.empty, w_log = []\<rparr> []
      = (out, w', cache')" by (metis prod.exhaust)
  obtain r x where r: "build_sign_request lower_libs (exec_of demo_request_prepared 7 demo_gas) = Inr r"
    "SignerCalled r x \<in> set (w_log w')"
    using demo_request_signs [of "\<lambda>_. PNone" "''id''"] unfolding run by auto
  from signed_request_was_approved [OF demo_runtime_laws(1,2) st demo_runtime_laws(3) run r(2) demo_request_value [OF r(1)]]
  show ?thesis unfolding l by blast
qed

section \<open>Nested value-moving intents\<close>

definition UNSUPPORTED_NO_KIND :: string where
  "UNSUPPORTED_NO_KIND = format_unsupported_response (ErrorText ''Structured intents must include a kind.'')"

definition no_kind_state :: "mercury_state \<Rightarrow> mercury_state" where
  "no_kind_state s = with_response
     (s\<lparr>s_parsed_intent := Some (PDict (intent_json (UnsupportedIntent ''Structured intents must include a kind.''))),
        s_read_result := Some [(''intent_kind'', CallVal (PStr ''unsupported''))]\<rparr>) UNSUPPORTED_NO_KIND"

lemma no_kind_answer:
  assumes "unwrap_payload raw = c" and "raw_kind c = PNone" and "s_raw_input s = Some (Plain (PDict raw))" and "s_error s = None"
  shows "run_read_graph L C reg s = Inr (no_kind_state s)"
  using assms
  by (simp add: run_read_graph_def parse_intent_def slot_value_def parse_readonly_intent_def coerce_raw_input_def
      parse_structured_intent_def route_after_parse_def intent_dict_def unsupported_response_def UNSUPPORTED_NO_KIND_def Let_def
      dget_none_def no_kind_state_def)

lemma nested_run:
  assumes raw: "intent_with_boundary_fields q (effective_idempotency_key q hkey) = PDict raw"
    and nested: "dget_none raw ''intent'' = PDict inner"
    and kind: "raw_kind inner = PStr kind" "dget VALUE_MOVING_MODEL (lower_strip kind) = Some vk"
    and ens: "apply_ens_resolution_to_merged (d_libs (rt_tx R)) (d_chains (rt_tx R)) (rt_ens_resolver R) (lower_strip kind)
      (merged_invoke_validation_payload raw) cache = (Inr (None, merged), cache')"
    and valid: "value_canonical (d_libs (rt_tx R)) (d_chains (rt_tx R)) vk merged = Inr c"
  shows "runtime_invoke R (state_from_request q rid (effective_idempotency_key q hkey)) w cache =
    ((Inr (no_kind_state (success_state (state_from_request q rid (effective_idempotency_key q hkey))
       (dset ''intent'' (PDict c) raw))), w), cache')"
proof -
  let ?s = "state_from_request q rid (effective_idempotency_key q hkey)"
  let ?s' = "success_state ?s (dset ''intent'' (PDict c) raw)"
  note keys = canonical_keys [OF valid]
  have v: "runtime_validate R ?s cache = (Inr (Valid ?s'), cache')"
    using raw nested kind ens valid
    by (simp add: runtime_validate_def validate_invoke_intent_def request_state(3) unwrap_intent_payload_def validate_merged_def
        merge_canonical_into_raw_input_def)
  have g: "graph_selection_for_state (d_libs (rt_tx R)) ?s' = ReadGraph"
    using keys by (simp add: graph_selection_for_state_def success_state_def unwrap_intent_payload_def dget_none_def str_default_def)
  have u: "unwrap_payload (dset ''intent'' (PDict c) raw) = c" by (simp add: unwrap_payload_def dget_none_def)
  have k: "raw_kind c = PNone" using keys by (simp add: raw_kind_def dget_none_def)
  have s: "s_raw_input ?s' = Some (Plain (PDict (dset ''intent'' (PDict c) raw)))" "s_error ?s' = None"
    by (simp_all add: success_state_def state_from_request_def empty_state_def)
  from v g show ?thesis
    by (simp add: runtime_invoke_def run_validated_def run_graph_def no_kind_answer [OF u k s])
qed

lemma no_kind_state_simps:
  "s_error (no_kind_state s) = s_error s" "s_execution_result (no_kind_state s) = s_execution_result s"
  "s_tx_hash (no_kind_state s) = s_tx_hash s" "s_response_text (no_kind_state s) = Some UNSUPPORTED_NO_KIND"
  by (simp_all add: no_kind_state_def with_response_def)

lemma nested_is_answered:
  assumes "intent_with_boundary_fields q (effective_idempotency_key q hkey) = PDict raw"
    and "dget_none raw ''intent'' = PDict inner"
    and "raw_kind inner = PStr kind" "dget VALUE_MOVING_MODEL (lower_strip kind) = Some vk"
    and "apply_ens_resolution_to_merged (d_libs (rt_tx R)) (d_chains (rt_tx R)) (rt_ens_resolver R) (lower_strip kind)
      (merged_invoke_validation_payload raw) cache = (Inr (None, merged), cache')"
    and "value_canonical (d_libs (rt_tx R)) (d_chains (rt_tx R)) vk merged = Inr c"
  shows "\<exists>resp. mercury_invoke M R q hid hkey gen w cache = (Inr resp, w, cache') \<and> rs_status resp = ''succeeded'' \<and>
    rs_error resp = None \<and> rs_tx_hash resp = None \<and> rs_message resp = redact_text UNSUPPORTED_NO_KIND"
proof -
  have "UNSUPPORTED_NO_KIND \<noteq> []" by (simp add: UNSUPPORTED_NO_KIND_def format_unsupported_response_def)
  then show ?thesis
    unfolding mercury_invoke_def Let_def nested_run [OF assms]
    by (simp add: response_from_state_def Let_def response_message_def no_kind_state_simps success_state_def
        state_from_request_def empty_state_def)
qed

text \<open>C34: a value-moving intent that is nested under the key intent is validated, and then not executed: validation
  accepts it and puts its canonical form, which has no kind, in its place, so the read graph is selected and answers that
  the kind is missing. The world is unchanged, and the response has the status succeeded, no error and no transaction hash.\<close>

theorem nested_intent_not_executed:
  assumes "intent_with_boundary_fields q (effective_idempotency_key q hkey) = PDict raw"
    and "dget_none raw ''intent'' = PDict inner"
    and "raw_kind inner = PStr kind" and "dget VALUE_MOVING_MODEL (lower_strip kind) = Some vk"
    and "apply_ens_resolution_to_merged (d_libs (rt_tx R)) (d_chains (rt_tx R)) (rt_ens_resolver R) (lower_strip kind)
      (merged_invoke_validation_payload raw) cache = (Inr (None, merged), cache')"
    and "value_canonical (d_libs (rt_tx R)) (d_chains (rt_tx R)) vk merged = Inr c"
  shows "\<exists>resp. mercury_invoke M R q hid hkey gen w cache = (Inr resp, w, cache') \<and> rs_status resp = ''succeeded'' \<and>
    rs_error resp = None \<and> rs_tx_hash resp = None \<and>
    rs_message resp = redact_text (format_unsupported_response (ErrorText ''Structured intents must include a kind.''))"
  using nested_is_answered [OF assms, of M hid gen w] unfolding UNSUPPORTED_NO_KIND_def .

definition demo_nested_request :: invoke_request where
  "demo_nested_request = demo_request\<lparr>iq_intent := PDict [(''intent'', PDict demo_native_payload)]\<rparr>"

lemma demo_nested_premises:
  defines "raw \<equiv> [(''intent'', PDict demo_native_payload), (''wallet_id'', PStr ''w1''), (''metadata'', PDict demo_meta)]"
  shows "intent_with_boundary_fields demo_nested_request (effective_idempotency_key demo_nested_request None) = PDict raw"
    "dget_none raw ''intent'' = PDict demo_native_payload" "raw_kind demo_native_payload = PStr ''native_transfer''"
    "dget VALUE_MOVING_MODEL (lower_strip ''native_transfer'') = Some NativeTransferKind"
    "apply_ens_resolution_to_merged (d_libs (rt_tx demo_runtime)) (d_chains (rt_tx demo_runtime)) (rt_ens_resolver demo_runtime)
       (lower_strip ''native_transfer'') (merged_invoke_validation_payload raw) [] = (Inr (None, demo_raw), [])"
    "value_canonical (d_libs (rt_tx demo_runtime)) (d_chains (rt_tx demo_runtime)) NativeTransferKind demo_raw =
       Inr (native_intent_json demo_native_intent)"
proof -
  show "intent_with_boundary_fields demo_nested_request (effective_idempotency_key demo_nested_request None) = PDict raw"
    by (simp add: intent_with_boundary_fields_def effective_idempotency_key_def opt_or_def default_opt_def dsetdefault_def
        demo_nested_request_def demo_request_def request_metadata_def demo_meta_def dset_def raw_def)
  have "merged_invoke_validation_payload raw = demo_raw"
    by (simp add: merged_invoke_validation_payload_def default_from_def dsetdefault_def dset_def demo_raw_def
        demo_native_payload_def raw_def)
  then show "apply_ens_resolution_to_merged (d_libs (rt_tx demo_runtime)) (d_chains (rt_tx demo_runtime)) (rt_ens_resolver demo_runtime)
       (lower_strip ''native_transfer'') (merged_invoke_validation_payload raw) [] = (Inr (None, demo_raw), [])"
    by (simp add: apply_ens_resolution_to_merged_def demo_runtime_def)
qed (simp_all add: raw_def raw_kind_def demo_native_payload_def VALUE_MOVING_MODEL_def demo_kind demo_runtime_def demo_deps_def
    demo_deps_bc_def demo_native_read)

lemma demo_nested_answer:
  "\<exists>resp. mercury_invoke M demo_runtime demo_nested_request None None gen w [] = (Inr resp, w, [])"
  using nested_is_answered [OF demo_nested_premises] by fast

theorem nested_intent_not_executed_witness:
  "\<exists>resp. mercury_invoke (\<lambda>_. PNone) demo_runtime demo_nested_request None None ''id'' demo_world [] = (Inr resp, demo_world, []) \<and>
    rs_status resp = ''succeeded'' \<and> rs_tx_hash resp = None"
  using nested_intent_not_executed [OF demo_nested_premises] by fast

section \<open>Failed preparations\<close>

text \<open>The request is one for the graph, and the graph's builder answers it with an error.\<close>

definition preparation_fails :: "graph_runtime \<Rightarrow> graph_label \<Rightarrow> mercury_state \<Rightarrow> exn \<Rightarrow> string \<Rightarrow> bool" where
  "preparation_fails R g s e stage \<longleftrightarrow> (let L = d_libs (rt_tx R); C = d_chains (rt_tx R) in case g of
       Erc20Graph \<Rightarrow> stage = ''prepare_erc20_transaction'' \<and> (\<exists>payload. erc20_payload_from_state s = Inr payload \<and>
         payload_kind L payload \<in> {''erc20_transfer'', ''erc20_approval''} \<and> build_erc20 L (rt_erc20 R) payload = Inl e)
     | NativeGraph \<Rightarrow> stage = ''prepare_native_transaction'' \<and> (\<exists>payload. native_payload_from_state s = Inr payload \<and>
         payload_kind L payload = ''native_transfer'' \<and> build_native L C (rt_native R) payload = Inl e)
     | SwapGraph \<Rightarrow> stage = ''prepare_swap_transaction'' \<and> (\<exists>payload. swap_payload_from_state s = Inr payload \<and>
         payload_kind L payload = ''swap'' \<and> build_swap L C (rt_swap R) payload = Inl e)
     | ReadGraph \<Rightarrow> False)"

lemma failed_preparation_run:
  assumes "preparation_fails R g s e stage"
  shows "run_graph R g s w =
    run_from (rt_tx R) RejectTransaction (state_for_preparation_error (d_libs (rt_tx R)) s e stage) w"
  using assms
  by (cases g)
     (auto simp: preparation_fails_def Let_def run_graph_def run_erc20_graph_def route_erc20_intent_def prepare_erc20_transaction_def
        route_after_erc20_prepare_def run_native_graph_def route_native_intent_def prepare_native_transaction_def
        route_after_native_prepare_def run_swap_graph_def route_swap_intent_def prepare_swap_transaction_def
        route_after_swap_prepare_def state_for_preparation_error_def)

text \<open>C22: a run of the ERC20, the native or the swap graph whose builder fails (the payload cannot be read as an
  intent, a precondition does not hold, a read of the chain or a quote fails, the quote does not match) ends in a rejection
  that carries the error of the preparation under its stage, without a transaction hash; the approver and the signer are not
  called and nothing is broadcast, so the log of calls and the store are as before. (What the builder itself reads of the chain
  or asks a quote provider is no event of the log.)\<close>

theorem failed_preparation_is_rejected:
  assumes "s_execution_result s = None" and "s_policy_decision s = None" and "s_wallet_address s = None"
    and "s_prepared_transaction s = None" and "s_executable_transaction s = None"
    and "preparation_fails R g s e stage"
  shows "\<exists>s' res. run_graph R g s w = (Inr s', w) \<and> s_execution_result s' = Some res \<and> res_status res = REJECTED \<and>
    res_tx_hash res = None \<and> res_error res = Some (preparation_error (d_libs (rt_tx R)) e stage)"
  unfolding failed_preparation_run [OF assms(6)] by (rule preparation_error_is_rejected [OF assms(1-5)])

theorem failed_preparation_is_rejected_witness:
  "\<exists>s' res. run_graph demo_runtime Erc20Graph
      (empty_state\<lparr>s_raw_input := Some (Plain (PDict demo_bad_payload))\<rparr>) demo_world = (Inr s', demo_world) \<and>
    s_execution_result s' = Some res \<and> res_status res = REJECTED"
proof -
  let ?s = "empty_state\<lparr>s_raw_input := Some (Plain (PDict demo_bad_payload))\<rparr>"
  have l: "py_lower ''erc20_transfer'' = ''erc20_transfer''" by code_simp
  have k: "payload_kind L demo_bad_payload = ''erc20_transfer''" for L
    using l by (simp add: payload_kind_def demo_bad_payload_def)
  have "\<exists>e. transfer_intent_of L demo_bad_payload = Inl e" for L
    by (simp add: transfer_intent_of_def demo_bad_payload_def rd_str1_def rd_str_def Let_def finish_def)
  then obtain e where "transfer_intent_of (d_libs (rt_tx demo_runtime)) demo_bad_payload = Inl e" by blast
  with k have e: "build_erc20 (d_libs (rt_tx demo_runtime)) (rt_erc20 demo_runtime) demo_bad_payload = Inl e"
    by (simp add: build_erc20_def)
  have "erc20_payload_from_state ?s = Inr demo_bad_payload"
    by (simp add: erc20_payload_from_state_def payload_from_state_def intent_source_def empty_state_def demo_bad_payload_def)
  with e k have f: "preparation_fails demo_runtime Erc20Graph ?s e ''prepare_erc20_transaction''"
    by (simp add: preparation_fails_def Let_def)
  have "\<exists>s' res. run_graph demo_runtime Erc20Graph ?s demo_world = (Inr s', demo_world) \<and>
      s_execution_result s' = Some res \<and> res_status res = REJECTED \<and> res_tx_hash res = None \<and>
      res_error res = Some (preparation_error (d_libs (rt_tx demo_runtime)) e ''prepare_erc20_transaction'')"
    by (rule failed_preparation_is_rejected [OF _ _ _ _ _ f]) (simp_all add: empty_state_def)
  then show ?thesis by blast
qed

end
