(* ===== verification/Read_Properties.thy ===== *)
theory Read_Properties
  imports Request_Properties "HOL-Library.Multiset"
begin

text \<open>
  The properties of the read-only side: what validation makes of a read request is read back as the same intent, the
  answers, the merged transfer history, what a response gives away, and the number of nodes a run visits.
\<close>

section \<open>Reading back a validated read intent\<close>

lemmas field_readers = rd_chain_def rd_opt_str_def rd_addr_def rd_str1_def rd_str_def rd_list_def rd_opt_list_def rd_bool_def
  rd_block_def rd_opt_int_def rd_str_default_def rd_page_key_def rd_category_def rd_opt_addr_def dget_none_def

lemma reader_cong:
  assumes "dget d fld = dget d' fld"
  shows "rd_addr L d fld = rd_addr L d' fld" "rd_bool L d fld b = rd_bool L d' fld b" "rd_opt_list g d fld = rd_opt_list g d' fld"
    "rd_block L d fld = rd_block L d' fld" "rd_opt_int L d fld = rd_opt_int L d' fld"
    "rd_str_default d fld t = rd_str_default d' fld t" "rd_str1 d fld = rd_str1 d' fld" "rd_list h d fld x = rd_list h d' fld x"
    "rd_opt_addr L d fld = rd_opt_addr L d' fld"
  using assms by (simp_all add: field_readers)

lemma named_reader_cong:
  "dget d ''chain'' = dget d' ''chain'' \<Longrightarrow> rd_chain d = rd_chain d'"
  "dget d ''page_key'' = dget d' ''page_key'' \<Longrightarrow> rd_page_key d = rd_page_key d'"
  "dget d ''category'' = dget d' ''category'' \<Longrightarrow> rd_category d = rd_category d'"
  by (simp_all add: field_readers)

text \<open>The fields the validation of a kind reads.\<close>

fun kind_fields :: "read_kind \<Rightarrow> string set" where
  "kind_fields NATIVE_BALANCE = {''chain'', ''wallet_address''}"
| "kind_fields ERC20_BALANCE = {''chain'', ''token_address'', ''wallet_address''}"
| "kind_fields ERC20_ALLOWANCE = {''chain'', ''token_address'', ''owner_address'', ''spender_address''}"
| "kind_fields ERC20_METADATA = {''chain'', ''token_address''}"
| "kind_fields CONTRACT_READ = {''chain'', ''contract_address'', ''abi_fragment'', ''function_name'', ''args''}"
| "kind_fields KNOWN_ADDRESS = {''chain'', ''category'', ''key''}"
| "kind_fields TOKEN_PRICES = {''chain'', ''token_address'', ''tokens''}"
| "kind_fields PORTFOLIO_TOKENS = {''chain'', ''wallet_address'', ''chains'', ''networks'', ''with_metadata'', ''with_prices'',
     ''include_native_tokens'', ''include_erc20_tokens'', ''page_key''}"
| "kind_fields TRANSFER_HISTORY = {''chain'', ''wallet_address'', ''direction'', ''categories'', ''from_block'', ''to_block'',
     ''max_count'', ''page_key'', ''with_metadata'', ''exclude_zero_value''}"

lemma json_has_fields: "intent_kind_of i = Some k \<Longrightarrow> fld \<in> kind_fields k \<Longrightarrow> dget (intent_json i) fld \<noteq> None"
  by (cases i) (auto simp: intent_head_def)

lemma intent_reader_cong:
  assumes "has_all (intent_json i) d" and "intent_kind_of i = Some k"
  shows "intent_of_kind L C k d = intent_of_kind L C k (intent_json i)"
proof -
  have f: "dget d fld = dget (intent_json i) fld" if "fld \<in> kind_fields k" for fld
    using json_has_fields [OF assms(2) that] has_allD [OF assms(1)] by auto
  note cong = reader_cong(1) [OF f] reader_cong(2) [OF f] reader_cong(3) [OF f] reader_cong(4) [OF f] reader_cong(5) [OF f]
    reader_cong(6) [OF f] reader_cong(7) [OF f] reader_cong(8) [OF f] reader_cong(9) [OF f]
    named_reader_cong(1) [OF f] named_reader_cong(2) [OF f] named_reader_cong(3) [OF f]
  show ?thesis
    by (cases k; simp only: intent_of_kind.simps native_balance_of_def erc20_balance_of_def erc20_allowance_of_def
        erc20_metadata_of_def contract_read_of_def known_address_of_def token_prices_of_def portfolio_tokens_of_def
        transfer_history_of_def cong kind_fields.simps insertI1 insertI2)
qed

lemma merged_read_parsed_back:
  assumes "web3_laws L" and "lax_laws L" and "parse_structured_intent L C m = Inr i" and "intent_kind_of i = Some k"
  shows "parse_structured_intent L C (merge_canonical_into_raw_input raw (intent_json i)) = Inr i"
proof -
  let ?d = "unwrap_payload (merge_canonical_into_raw_input raw (intent_json i))"
  note keys = intent_json_keys [OF assms(4)]
  have all: "has_all (intent_json i) ?d"
  proof (cases "flat raw")
    case True
    then have f: "\<forall>d. dget_none raw ''intent'' \<noteq> PDict d" by (simp add: flat_iff)
    have "unwrap_payload (dmerge raw (intent_json i)) = dmerge raw (intent_json i)"
      using f keys by (auto simp: unwrap_payload_def dget_none_def dget_dmerge split: pyval.splits option.splits)
    then show ?thesis using merge_has_all [OF keys(1)] by (simp add: merge_flat(1) [OF f])
  next
    case False
    then have "?d = intent_json i"
      by (auto simp: flat_def merge_canonical_into_raw_input_def unwrap_payload_def dget_none_def
          split: pyval.splits option.splits)
    then show ?thesis by (simp add: has_all_def)
  qed
  from has_allD [OF all intent_json_kind [OF assms(4)]] have k: "raw_kind ?d = PStr (kind_value k)" by (simp add: raw_kind_def)
  have "intent_of_kind L C k (intent_json i) = Inr i"
    using parsed_again [OF assms] intent_json_kind [OF assms(4)] kind_of_alias [of k]
    by (simp add: parse_structured_intent_def intent_json_unwrapped raw_kind_def Let_def split: sum.splits)
  with intent_reader_cong [OF all assms(4)] k kind_of_alias [of k] show ?thesis
    by (simp add: parse_structured_intent_def Let_def)
qed

lemma validated_read:
  assumes "web3_laws L" and "lax_laws L" and "validate_invoke_intent L C doc res s cache = (Inr (Valid s'), cache')"
    and "graph_selection_for_state L s' = ReadGraph" and "extract_raw_blob s = PDict raw"
    and "raw_kind (unwrap_intent_payload raw) = PStr kind" and "dget VALUE_MOVING_MODEL (lower_strip kind) = None"
  shows "\<exists>merged i. apply_ens_resolution_to_merged L C res (lower_strip kind) (merged_invoke_validation_payload raw) cache =
      (Inr (None, merged), cache') \<and> parse_readonly_intent L C (PDict merged) [] = Inr i \<and>
    parse_intent L C s' = s'\<lparr>s_parsed_intent := Some (PDict (intent_json i)),
      s_read_result := Some [(''intent_kind'', CallVal (dget_none (intent_json i) ''kind''))]\<rparr>"
proof (rule validate_Valid [OF assms(3)])
  fix raw' kind' merged c
  assume v: "extract_raw_blob s = PDict raw'" "raw_kind (unwrap_intent_payload raw') = PStr kind'"
    and ens: "apply_ens_resolution_to_merged L C res (lower_strip kind') (merged_invoke_validation_payload raw') cache =
      (Inr (None, merged), cache')"
    and s': "s' = success_state s (merge_canonical_into_raw_input raw' c)"
    and c: "(\<exists>vk. dget VALUE_MOVING_MODEL (lower_strip kind') = Some vk \<and> value_canonical L C vk merged = Inr c) \<or>
     (dget VALUE_MOVING_MODEL (lower_strip kind') = None \<and> (\<exists>i k. parse_readonly_intent L C (PDict merged) [] = Inr i \<and>
        intent_kind_of i = Some k \<and> c = intent_json i))"
  from v assms(5,6) have eq: "raw' = raw" "kind' = kind" by auto
  with c assms(7) obtain i k where i: "parse_readonly_intent L C (PDict merged) [] = Inr i" "intent_kind_of i = Some k"
    "c = intent_json i" by auto
  then have "parse_structured_intent L C merged = Inr i" by (simp add: parse_readonly_intent_def coerce_raw_input_def)
  from merged_read_parsed_back [OF assms(1,2) this i(2)] have "parse_intent L C s' = s'\<lparr>s_parsed_intent := Some (PDict (intent_json i)),
      s_read_result := Some [(''intent_kind'', CallVal (dget_none (intent_json i) ''kind''))]\<rparr>"
    using s' i(3) by (simp add: parse_intent_def success_state_def slot_value_def parse_readonly_intent_def coerce_raw_input_def)
  with ens i(1) eq show ?thesis by blast
qed


section \<open>The answer to a balance request\<close>

lemma balance_parsed:
  assumes "parse_readonly_intent L C (PDict raw) ms = Inr (NativeBalanceIntent c w)" and "web3_laws L"
  shows "normal_address L w" "c \<noteq> Some []"
proof -
  from assms(1) obtain k d where "intent_of_kind L C k d = Inr (NativeBalanceIntent c w)"
    by (auto simp: parse_readonly_intent_def coerce_raw_input_def parse_structured_intent_def Let_def
        split: pyval.splits option.splits sum.splits)
  moreover from intent_of_kind_kind [OF this] have "k = NATIVE_BALANCE" by simp
  ultimately have "native_balance_of L d = Inr (NativeBalanceIntent c w)" by simp
  then have e: "fld_errs (rd_chain d) = []" "fld_errs (rd_addr L d ''wallet_address'') = []" "c = oval (rd_chain d)"
    "w = sval (rd_addr L d ''wallet_address'')"
    by (simp_all add: native_balance_of_def Let_def finish_Inr)
  from e(4) addr_read [OF e(2)] show "normal_address L w" using rd_addr_normal [OF assms(2)] by simp
  show "c \<noteq> Some []"
  proof
    assume "c = Some []"
    with e(1,3) have "rd_chain d = Inr (Some [])" by (cases "rd_chain d") auto
    from rd_chain_name [OF this] show False by (simp add: name_ok_def)
  qed
qed

lemma balance_chain:
  assumes "get_default_chain C = Inr dc" and "get_chain_by_name C (case c of None \<Rightarrow> cc_name dc | Some n \<Rightarrow> n) = Inr cfg"
    and "c \<noteq> Some []" and "s_parsed_intent s = Some (PDict (intent_json (NativeBalanceIntent c w)))"
  shows "resolve_chain L C s = Inr (with_chain_config s cfg)"
  using assms
  by (cases c) (auto simp: resolve_chain_def intent_dict_def intent_head_def resolve_plain_chain_def Let_def)

lemma balance_tool:
  assumes "web3_laws L" and "normal_address L w" and "name_ok (cc_name cfg)" and "F (cc_name cfg) = Inr p"
    and "rp_get_balance p w = Inr b" and "format_units b 18 = Inr amt"
  shows "native_balance_tool L F [(''chain'', PStr (cc_name cfg)), (''wallet_address'', PStr w)] =
    Inr (plain_result (native_balance_dump \<lparr>nb_chain = cc_name (rp_chain p), nb_chain_id = cc_chain_id (rp_chain p),
      nb_wallet_address = w, nb_raw_wei = b, nb_formatted = amt, nb_symbol = native_symbol (rp_chain p)\<rparr>))"
proof -
  have "rd_chain_name [(''chain'', PStr (cc_name cfg)), (''wallet_address'', PStr w)] = Inr (cc_name cfg)"
    using assms(3) by (simp add: rd_chain_name_def rd_str1_def rd_str_def nonempty_def name_ok_def)
  moreover have "rd_addr L [(''chain'', PStr (cc_name cfg)), (''wallet_address'', PStr w)] ''wallet_address'' = Inr w"
    by (rule rd_addr_back [OF assms(2)]) simp
  ultimately show ?thesis
    using assms(4-6) normalize_normal [OF assms(2)]
    by (simp add: native_balance_tool_def native_balance_input_def finish_def get_native_balance_def)
qed

lemma balance_text:
  "format_success_response L ''native_balance'' (plain_result (native_balance_dump r)) =
     Inr (nb_wallet_address r @ '' has '' @ nb_formatted r @ '' '' @ nb_symbol r @ '' on '' @ nb_chain r @ ''.'')"
proof -
  have "kind_of_value (PStr ''native_balance'') = Some NATIVE_BALANCE" by (simp add: kind_of_value_def READ_KINDS_def)
  then show ?thesis
    by (simp add: format_success_response_def plain_result_def native_balance_dump_def result_item_def)
qed

lemma balance_answer:
  assumes laws: "web3_laws L" and s: "s_raw_input s = Some (Plain (PDict raw))" "s_error s = None"
    and parsed: "parse_readonly_intent L C (PDict raw) (s_messages s) = Inr (NativeBalanceIntent c w)"
    and chain: "get_default_chain C = Inr dc" "get_chain_by_name C (case c of None \<Rightarrow> cc_name dc | Some n \<Rightarrow> n) = Inr cfg"
    and tool: "dget reg ''get_native_balance'' = Some (native_balance_tool L F)" "name_ok (cc_name cfg)" "F (cc_name cfg) = Inr p"
      "rp_get_balance p w = Inr b" "format_units b 18 = Inr amt"
  shows "\<exists>s'. run_read_graph L C reg s = Inr s' \<and> s_error s' = None \<and>
    s_response_text s' = Some (w @ '' has '' @ amt @ '' '' @ native_symbol (rp_chain p) @ '' on '' @ cc_name (rp_chain p) @ ''.'')"
proof -
  let ?i = "intent_json (NativeBalanceIntent c w)"
  let ?s1 = "s\<lparr>s_parsed_intent := Some (PDict ?i), s_read_result := Some [(''intent_kind'', CallVal (dget_none ?i ''kind''))]\<rparr>"
  note w = balance_parsed [OF parsed laws]
  have p: "parse_intent L C s = ?s1" using s(1) parsed by (simp add: parse_intent_def slot_value_def)
  have k: "dget_none ?i ''kind'' = PStr ''native_balance''" "dget ?i ''kind'' = Some (PStr ''native_balance'')"
    by (simp_all add: intent_head_def)
  have r1: "route_after_parse ?s1 = Inr ROUTE_RESOLVE_CHAIN" using s(2) k by (simp add: route_after_parse_def intent_dict_def)
  have c: "resolve_chain L C ?s1 = Inr (with_chain_config ?s1 cfg)" by (rule balance_chain [OF chain w(2)]) simp
  let ?s2 = "with_chain_config ?s1 cfg"
  have i: "intent_dict ?s2 = Inr ?i" by (simp add: intent_dict_def with_chain_config_def)
  have "dget READ_ROUTES ''native_balance'' = Some ''get_native_balance''" by (simp add: READ_ROUTES_def READ_KINDS_def)
  then have r2: "route_after_chain ?s2 = Inr ''get_native_balance''"
    using s(2) i k by (simp add: route_after_chain_def route_read_tool_def with_chain_config_def)
  have kv: "kind_of_value (PStr ''native_balance'') = Some NATIVE_BALANCE" by (simp add: kind_of_value_def READ_KINDS_def)
  have t: "tool_input_for_state L C ?s2 = Inr [(''chain'', PStr (cc_name cfg)), (''wallet_address'', PStr w)]"
    using i k chain(1) kv by (simp add: tool_input_for_state_def tool_input_of_kind_def dreq_def with_chain_config_def intent_head_def)
  let ?r = "\<lparr>nb_chain = cc_name (rp_chain p), nb_chain_id = cc_chain_id (rp_chain p), nb_wallet_address = w, nb_raw_wei = b,
    nb_formatted = amt, nb_symbol = native_symbol (rp_chain p)\<rparr>"
  have x: "registry_execute reg ''get_native_balance'' [(''chain'', PStr (cc_name cfg)), (''wallet_address'', PStr w)] =
      Inr (plain_result (native_balance_dump ?r))"
    using tool(1) balance_tool [of L w cfg F p b amt, OF laws w(1) tool(2-5)] by (simp add: registry_execute_def)
  let ?s3 = "?s2\<lparr>s_selected_tool_name := Some ''get_native_balance'',
    s_tool_input := Some [(''chain'', PStr (cc_name cfg)), (''wallet_address'', PStr w)],
    s_tool_result := Some (plain_result (native_balance_dump ?r)), s_read_result := Some (plain_result (native_balance_dump ?r))\<rparr>"
  have e: "execute_read_tool L C reg ''get_native_balance'' ?s2 = Inr ?s3"
    using t x by (simp add: execute_read_tool_def Let_def)
  have i3: "intent_dict ?s3 = Inr ?i" by (simp add: intent_dict_def with_chain_config_def)
  have e3: "s_error ?s3 = None" using s(2) by (simp add: with_chain_config_def)
  have "get_or ?i ''kind'' (PStr []) = PStr ''native_balance''" using k by (simp add: get_or_def)
  with i3 e3 balance_text [of L ?r] have f: "format_response L ?s3 = Inr (with_response ?s3 (w @ '' has '' @ amt @ '' '' @
      native_symbol (rp_chain p) @ '' on '' @ cc_name (rp_chain p) @ ''.''))"
    by (simp add: format_response_def)
  have "run_read_graph L C reg s = Inr (with_response ?s3 (w @ '' has '' @ amt @ '' '' @
      native_symbol (rp_chain p) @ '' on '' @ cc_name (rp_chain p) @ ''.''))"
    using p r1 c r2 e f
    by (simp add: run_read_graph_def ROUTE_RESOLVE_CHAIN_def ROUTE_UNSUPPORTED_def ROUTE_FORMAT_RESPONSE_def)
  then show ?thesis using e3 by (simp add: with_response_def)
qed


text \<open>C33: what validation accepts as a read-only request is what the read graph reads: for a payload of a read-only kind that
  validation accepts, nested or not, the intent the graph parses from the canonical payload is the intent the payload was
  validated as, with no error.\<close>

theorem validated_read_is_parsed_back:
  assumes "web3_laws L" and "lax_laws L" and "validate_invoke_intent L C doc res s cache = (Inr (Valid s'), cache')"
    and "graph_selection_for_state L s' = ReadGraph" and "extract_raw_blob s = PDict raw"
    and "raw_kind (unwrap_intent_payload raw) = PStr kind" and "dget VALUE_MOVING_MODEL (lower_strip kind) = None"
  shows "\<exists>merged i. apply_ens_resolution_to_merged L C res (lower_strip kind) (merged_invoke_validation_payload raw) cache =
      (Inr (None, merged), cache') \<and> parse_readonly_intent L C (PDict merged) [] = Inr i \<and>
    parse_intent L C s' = s'\<lparr>s_parsed_intent := Some (PDict (intent_json i)),
      s_read_result := Some [(''intent_kind'', CallVal (dget_none (intent_json i) ''kind''))]\<rparr>"
  by (rule validated_read [OF assms])

definition demo_balance_raw :: pydict where
  "demo_balance_raw = [(''kind'', PStr ''eth_balance''), (''chain'', PStr '' Ethereum''), (''wallet_address'', PStr (demo_address (CHR ''1'')))]"

definition demo_balance_state :: mercury_state where
  "demo_balance_state = empty_state\<lparr>s_raw_input := Some (Plain (PDict demo_balance_raw))\<rparr>"

definition demo_balance_intent :: parsed_intent where
  "demo_balance_intent = NativeBalanceIntent (Some ''ethereum'') (demo_address (CHR ''1''))"

lemma demo_balance_kind: "lower_strip ''eth_balance'' = ''eth_balance''" "dget KIND_ALIASES ''eth_balance'' = Some NATIVE_BALANCE"
  by code_simp+

lemma demo_balance_parsed: "parse_readonly_intent lower_libs C (PDict demo_balance_raw) ms = Inr demo_balance_intent"
proof -
  have "lower_strip '' Ethereum'' = ''ethereum''" by code_simp
  then have "native_balance_of lower_libs demo_balance_raw = Inr demo_balance_intent"
    using demo_norms
    by (simp add: native_balance_of_def rd_chain_def rd_opt_str_def rd_addr_def rd_str1_def rd_str_def nonempty_def norm_addr_field_def
        or_blank_def finish_def demo_balance_raw_def demo_balance_intent_def Let_def)
  then show ?thesis
    using demo_balance_kind
    by (simp add: parse_readonly_intent_def coerce_raw_input_def parse_structured_intent_def unwrap_payload_def raw_kind_def
        demo_balance_raw_def Let_def)
qed

theorem validated_read_is_parsed_back_witness:
  "\<exists>s' merged i. validate_invoke_intent lower_libs demo_chains [] None demo_balance_state [] = (Inr (Valid s'), []) \<and>
    parse_readonly_intent lower_libs demo_chains (PDict merged) [] = Inr i \<and>
    s_parsed_intent (parse_intent lower_libs demo_chains s') = Some (PDict (intent_json i))"
proof -
  let ?s = "success_state demo_balance_state (dmerge demo_balance_raw (intent_json demo_balance_intent))"
  have f: "\<forall>d. dget_none demo_balance_raw ''intent'' \<noteq> PDict d" by (simp add: demo_balance_raw_def)
  have k: "raw_kind (unwrap_intent_payload demo_balance_raw) = PStr ''eth_balance''"
    by (simp add: merge_flat [OF f]) (simp add: raw_kind_def demo_balance_raw_def)
  have n: "dget VALUE_MOVING_MODEL (lower_strip ''eth_balance'') = None" by (simp add: VALUE_MOVING_MODEL_def demo_balance_kind)
  have b: "extract_raw_blob demo_balance_state = PDict demo_balance_raw" by (simp add: extract_raw_blob_def demo_balance_state_def)
  have v: "validate_invoke_intent lower_libs demo_chains [] None demo_balance_state [] = (Inr (Valid ?s), [])"
    using k n b demo_balance_kind demo_balance_parsed
    by (simp add: validate_invoke_intent_def merge_flat [OF f] apply_ens_resolution_to_merged_def validate_merged_def
        demo_balance_intent_def)
  have "lower_strip ''native_balance'' = ''native_balance''" by code_simp
  then have g: "graph_selection_for_state lower_libs ?s = ReadGraph"
    by (simp add: graph_selection_for_state_def success_state_def unwrap_intent_payload_def str_default_def dmerge_def dset_def
        demo_balance_raw_def demo_balance_intent_def intent_head_def graph_of_kind_def)
  have l: "lax_laws lower_libs" by (simp add: lax_laws_def lower_libs_def)
  from validated_read_is_parsed_back [OF web3_laws_lower_libs l v g b k n] v show ?thesis by force
qed

text \<open>C37: the answer to a balance request is the balance: for a native balance request on a served chain whose provider reports
  the balance of the wallet, the read graph ends without an error, and its text names the wallet, the chain and the symbol of
  the provider's chain, and gives the balance as a decimal number that parses back, at 18 decimals, to the wei the provider
  reported.\<close>

theorem native_balance_answered:
  assumes "web3_laws L" and "s_raw_input s = Some (Plain (PDict raw))" and "s_error s = None"
    and "parse_readonly_intent L C (PDict raw) (s_messages s) = Inr (NativeBalanceIntent c w)"
    and "get_default_chain C = Inr dc" and "get_chain_by_name C (case c of None \<Rightarrow> cc_name dc | Some n \<Rightarrow> n) = Inr cfg"
    and "dget reg ''get_native_balance'' = Some (native_balance_tool L F)" and "name_ok (cc_name cfg)" and "F (cc_name cfg) = Inr p"
    and "rp_get_balance p w = Inr b" and "0 \<le> b" and "b \<le> 10 ^ 100"
  shows "\<exists>s' amt. run_read_graph L C reg s = Inr s' \<and> s_error s' = None \<and> parse_units amt 18 = Inr b \<and>
    s_response_text s' = Some (w @ '' has '' @ amt @ '' '' @ native_symbol (rp_chain p) @ '' on '' @ cc_name (rp_chain p) @ ''.'')"
proof -
  obtain amt where t: "format_units b 18 = Inr amt" using format_units_text [OF assms(11,12), of 18] by auto
  from parse_units_format [OF assms(11,12) _ _ t] have "parse_units amt 18 = Inr b" by simp
  with balance_answer [OF assms(1-10) t] show ?thesis by blast
qed

theorem native_balance_answered_witness:
  "\<exists>s' amt. run_read_graph lower_libs demo_chains (create_readonly_tools lower_libs [] demo_read_factory) demo_balance_state = Inr s' \<and>
    parse_units amt 18 = Inr 10 \<and> s_response_text s' = Some (demo_address (CHR ''1'') @ '' has '' @ amt @ '' ETH on ethereum.'')"
proof -
  have s: "s_raw_input demo_balance_state = Some (Plain (PDict demo_balance_raw))" "s_error demo_balance_state = None"
    by (simp_all add: demo_balance_state_def empty_state_def)
  have d: "get_default_chain demo_chains = Inr (hd demo_chains)" using demo_chain by (simp add: get_default_chain_def DEFAULT_CHAIN_NAME_def)
  have c: "get_chain_by_name demo_chains (case Some ''ethereum'' of None \<Rightarrow> cc_name (hd demo_chains) | Some n \<Rightarrow> n) = Inr (hd demo_chains)"
    using demo_chain by simp
  have t: "dget (create_readonly_tools lower_libs [] demo_read_factory) ''get_native_balance'' = Some (native_balance_tool lower_libs demo_read_factory)"
    by (simp add: create_readonly_tools_def)
  have n: "name_ok (cc_name (hd demo_chains))" by code_simp
  let ?p = "\<lparr>rp_chain = hd demo_chains, rp_get_balance = (\<lambda>_. Inr 10),
     rp_call = (\<lambda>_ _ f _. if f = ''decimals'' then Inr (CallVal (PInt 0))
       else if f = ''balanceOf'' then Inr (CallVal (PInt 7))
       else if f = ''allowance'' then Inr (CallVal (PInt 3)) else Inr (CallVal (PStr ''TOK'')))\<rparr>"
  have p: "demo_read_factory (cc_name (hd demo_chains)) = Inr ?p" by (simp add: demo_read_factory_def)
  have b: "rp_get_balance ?p (demo_address (CHR ''1'')) = Inr 10" by simp
  have h: "native_symbol (hd demo_chains) = ''ETH''" "cc_name (hd demo_chains) = ''ethereum''" by code_simp+
  from native_balance_answered [OF web3_laws_lower_libs s demo_balance_parsed [unfolded demo_balance_intent_def] d c t n p b] h
  show ?thesis by auto
qed

section \<open>Merged transfer histories\<close>

lemma unique_by_hash_filter:
  assumes "h \<noteq> []"
  shows "filter (\<lambda>r. at_hash r = h) (unique_by_hash seen rs) =
    (if h \<in> seen then [] else take 1 (filter (\<lambda>r. at_hash r = h) rs))"
  using assms by (induction seen rs rule: unique_by_hash.induct) (auto split: if_splits)

lemma unique_by_hash_subset: "set (unique_by_hash seen rs) \<subseteq> set rs"
  by (induction seen rs rule: unique_by_hash.induct) auto

lemma unique_by_hash_length: "length (unique_by_hash seen rs) \<le> length rs"
  by (induction seen rs rule: unique_by_hash.induct) auto

lemma sort_key_short: "length xs \<le> 1 \<Longrightarrow> sort_key f xs = xs"
  by (cases xs) (auto simp: le_Suc_eq)

lemma filter_short:
  assumes "length (filter P xs) \<le> 1"
  shows "filter P (sort_key f xs) = filter P xs"
  by (simp add: filter_sort sort_key_short [OF assms])

text \<open>The order of a history: the higher block first, in one block the smaller hash first.\<close>

definition newer_or_equal :: "asset_transfer \<Rightarrow> asset_transfer \<Rightarrow> bool" where
  "newer_or_equal a b \<longleftrightarrow> (let block = \<lambda>r. (case at_block_num r of PInt i \<Rightarrow> i | PBool t \<Rightarrow> of_bool t | _ \<Rightarrow> 0) in
     block b < block a \<or> (block a = block b \<and> at_hash a \<le> at_hash b))"

lemma newer_or_equal_key: "transfer_sort_key a \<le> transfer_sort_key b \<Longrightarrow> newer_or_equal a b"
  by (cases "at_block_num a"; cases "at_block_num b")
     (auto simp: transfer_sort_key_def newer_or_equal_def block_or_zero_def less_eq_prod_def)

lemma unique_by_hash_empty:
  "filter (\<lambda>r. at_hash r = []) (unique_by_hash seen rs) = filter (\<lambda>r. at_hash r = []) rs"
  by (induction seen rs rule: unique_by_hash.induct) auto

text \<open>C40: a merged transfer history (incoming and outgoing) is ordered by block number, the highest first (a transfer without a
  number counts as block 0), and within a block by transaction hash; it has at most the requested number of rows, all of
  them fetched ones. When all fetched rows fit into the requested number, it keeps, for each non-empty transaction hash,
  exactly the first fetched row of that hash, and every row without a hash: a second transfer of the same transaction,
  such as the other leg of a swap, is left out.\<close>

theorem transfers_merged:
  assumes "0 \<le> n"
  shows "sorted_wrt newer_or_equal (merge_and_sort_transfers rows n) \<and>
    length (merge_and_sort_transfers rows n) \<le> nat n \<and> set (merge_and_sort_transfers rows n) \<subseteq> set rows \<and>
    (length rows \<le> nat n \<longrightarrow>
      (\<forall>h. h \<noteq> [] \<longrightarrow>
        filter (\<lambda>r. at_hash r = h) (merge_and_sort_transfers rows n) = take 1 (filter (\<lambda>r. at_hash r = h) rows)) \<and>
      mset (filter (\<lambda>r. at_hash r = []) (merge_and_sort_transfers rows n)) = mset (filter (\<lambda>r. at_hash r = []) rows))"
proof -
  let ?u = "unique_by_hash {} rows"
  have m: "merge_and_sort_transfers rows n = take (nat n) (sort_key transfer_sort_key ?u)"
    using assms by (simp add: merge_and_sort_transfers_def py_take_def)
  have sorted: "sorted (map transfer_sort_key (merge_and_sort_transfers rows n))"
    unfolding m take_map [symmetric] by (rule sorted_wrt_take) simp
  have order: "sorted_wrt newer_or_equal (merge_and_sort_transfers rows n)"
    using sorted newer_or_equal_key by (auto simp: sorted_map elim: sorted_wrt_mono_rel [rotated])
  have kept: "mset (filter (\<lambda>r. at_hash r = []) (merge_and_sort_transfers rows n)) = mset (filter (\<lambda>r. at_hash r = []) rows)"
    if "length rows \<le> nat n"
  proof -
    have "merge_and_sort_transfers rows n = sort_key transfer_sort_key ?u"
      unfolding m using unique_by_hash_length [of "{}" rows] that by simp
    then show ?thesis
      using arg_cong [OF unique_by_hash_empty, of mset "{}" rows] by (simp add: mset_filter)
  qed
  have sub: "set (merge_and_sort_transfers rows n) \<subseteq> set rows"
    using set_take_subset [of "nat n" "sort_key transfer_sort_key ?u"] unique_by_hash_subset [of "{}" rows] by (simp add: m subset_iff)
  have first: "filter (\<lambda>r. at_hash r = h) (merge_and_sort_transfers rows n) = take 1 (filter (\<lambda>r. at_hash r = h) rows)"
    if "length rows \<le> nat n" "h \<noteq> []" for h
  proof -
    have all: "merge_and_sort_transfers rows n = sort_key transfer_sort_key ?u"
      unfolding m using unique_by_hash_length [of "{}" rows] that(1) by simp
    have f: "filter (\<lambda>r. at_hash r = h) ?u = take 1 (filter (\<lambda>r. at_hash r = h) rows)"
      using unique_by_hash_filter [OF that(2), of "{}" rows] by simp
    then have "filter (\<lambda>r. at_hash r = h) (sort_key transfer_sort_key ?u) = filter (\<lambda>r. at_hash r = h) ?u"
      by (intro filter_short) simp
    with f all show ?thesis by simp
  qed
  have "length (merge_and_sort_transfers rows n) \<le> nat n" by (simp add: m)
  with order sub first kept show ?thesis by blast
qed

definition demo_transfer :: "string \<Rightarrow> int \<Rightarrow> string \<Rightarrow> asset_transfer" where
  "demo_transfer h b asset = \<lparr>at_hash = h, at_block_num = PInt b, at_from = None, at_to = None, at_category = ''erc20'',
     at_asset = PStr asset, at_value = PNone, at_raw_contract = PNone, at_metadata = PNone, at_network = ''eth-mainnet'',
     at_mercury_chain = ''ethereum''\<rparr>"

theorem transfers_merged_witness:
  "filter (\<lambda>r. at_hash r = ''0x01'')
     (merge_and_sort_transfers [demo_transfer ''0x01'' 5 ''USDC'', demo_transfer ''0x02'' 7 ''ETH'', demo_transfer ''0x01'' 5 ''WETH''] 100) =
   [demo_transfer ''0x01'' 5 ''USDC'']"
  using transfers_merged [of 100 "[demo_transfer ''0x01'' 5 ''USDC'', demo_transfer ''0x02'' 7 ''ETH'', demo_transfer ''0x01'' 5 ''WETH'']"]
  by (simp add: demo_transfer_def)


section \<open>What a response gives away\<close>

text \<open>The specification of a secret key: the name contains one of these words, each letter in either case and with
  dashes or underscores.\<close>

definition spells :: "char \<Rightarrow> char \<Rightarrow> bool" where
  "spells c w \<longleftrightarrow> c = w \<or> (w = CHR ''_'' \<and> c = CHR ''-'') \<or>
     ((of_char w :: nat) \<in> {97..122} \<and> of_char c + 32 = (of_char w :: nat))"

definition names_secret :: "string \<Rightarrow> bool" where
  "names_secret k \<longleftrightarrow> (\<exists>word \<in> {''api_key'', ''apikey'', ''authorization'', ''bearer'', ''credential'', ''private_key'',
       ''raw_transaction'', ''rpc_url'', ''secret'', ''signature'', ''token''}.
     \<exists>before_word found after_word. k = before_word @ found @ after_word \<and> list_all2 spells found word)"

lemma py_contains_iff: "py_contains p s \<longleftrightarrow> (\<exists>u v. s = u @ p @ v)"
proof (induction s)
  case (Cons c s)
  have "(\<exists>u v. c # s = u @ p @ v) \<longleftrightarrow> prefix p (c # s) \<or> (\<exists>u v. s = u @ p @ v)"
  proof
    assume "\<exists>u v. c # s = u @ p @ v"
    then obtain u v where e: "c # s = u @ p @ v" by blast
    show "prefix p (c # s) \<or> (\<exists>u v. s = u @ p @ v)"
    proof (cases u)
      case Nil
      with e show ?thesis by (auto simp: prefix_def)
    next
      case (Cons d u')
      with e show ?thesis by auto
    qed
  next
    assume "prefix p (c # s) \<or> (\<exists>u v. s = u @ p @ v)"
    then show "\<exists>u v. c # s = u @ p @ v"
    proof
      assume "prefix p (c # s)"
      then obtain v where "c # s = p @ v" by (auto simp: prefix_def)
      then show ?thesis by (metis append_Nil)
    next
      assume "\<exists>u v. s = u @ p @ v"
      then obtain u v where "s = u @ p @ v" by blast
      then have "c # s = (c # u) @ p @ v" by simp
      then show ?thesis by blast
    qed
  qed
  with Cons.IH show ?case by simp
qed simp

definition key_char :: "char \<Rightarrow> char" where
  "key_char c = (if lower_char c = CHR ''-'' then CHR ''_'' else lower_char c)"

lemma key_char_spells:
  assumes "w = CHR ''_'' \<or> (of_char w :: nat) \<in> {97..122}"
  shows "key_char c = w \<longleftrightarrow> spells c w"
proof -
  let ?n = "of_char c :: nat"
  have n: "of_char (lower_char c) = (if (65 \<le> ?n \<and> ?n \<le> 90) \<or> (192 \<le> ?n \<and> ?n \<le> 222 \<and> ?n \<noteq> 215) then ?n + 32 else ?n)"
    by (simp add: lower_char_def Let_def)
  have eq: "a = b \<longleftrightarrow> (of_char a :: nat) = of_char b" for a b :: char by simp
  have k: "of_char (key_char c) = (if of_char (lower_char c) = (45 :: nat) then 95 else of_char (lower_char c) :: nat)"
    unfolding key_char_def eq [of _ "CHR ''-''"] by simp
  have w: "of_char w = (95 :: nat) \<or> (of_char w :: nat) \<in> {97..122}" using assms by auto
  have u: "w = CHR ''_'' \<longleftrightarrow> of_char w = (95 :: nat)" "c = CHR ''-'' \<longleftrightarrow> ?n = 45" unfolding eq by simp_all
  show ?thesis unfolding spells_def eq [of "key_char c"] eq [of c w] u k n using w by auto
qed

lemma key_text: "map (\<lambda>c. if c = CHR ''-'' then CHR ''_'' else c) (py_lower k) = map key_char k"
  by (simp add: py_lower_def key_char_def comp_def)

lemma spelled_in:
  assumes "\<forall>w \<in> set word. w = CHR ''_'' \<or> (of_char w :: nat) \<in> {97..122}"
  shows "py_contains word (map key_char k) \<longleftrightarrow>
    (\<exists>before_word found after_word. k = before_word @ found @ after_word \<and> list_all2 spells found word)"
proof -
  have "map key_char found = word \<longleftrightarrow> list_all2 spells found word" for found
    using assms
  proof (induction found arbitrary: word)
    case (Cons c found)
    show ?case using Cons.IH Cons.prems key_char_spells by (cases word) auto
  qed auto
  then show ?thesis
    by (auto simp: py_contains_iff map_eq_append_conv append_eq_map_conv) metis+
qed

lemma sensitive_key_spec: "is_sensitive_key k \<longleftrightarrow> names_secret k"
proof -
  have "\<forall>word \<in> set SENSITIVE_KEY_PARTS. \<forall>w \<in> set word. w = CHR ''_'' \<or> (of_char w :: nat) \<in> {97..122}"
    by (simp add: SENSITIVE_KEY_PARTS_def)
  moreover have "set SENSITIVE_KEY_PARTS = {''api_key'', ''apikey'', ''authorization'', ''bearer'', ''credential'', ''private_key'',
       ''raw_transaction'', ''rpc_url'', ''secret'', ''signature'', ''token''}" by (simp add: SENSITIVE_KEY_PARTS_def)
  ultimately show ?thesis
    unfolding is_sensitive_key_def Let_def key_text names_secret_def list_ex_iff by (metis spelled_in)
qed

text \<open>Nothing is shown under a secret key, at any depth.\<close>

fun hidden :: "pyval \<Rightarrow> bool" where
  "hidden (PDict d) = list_all (\<lambda>(k, v). (names_secret k \<longrightarrow> v = PStr ''<redacted>'') \<and> hidden v) d"
| "hidden (PList vs) = list_all hidden vs"
| "hidden v = True"

lemma hidden_redact: "hidden (redact_value v)"
  by (induction v rule: redact_value.induct) (auto simp: list_all_iff REDACTION_def simp flip: sensitive_key_spec)

lemma hidden_redact_dict: "hidden (PDict (redact_dict d))"
  using hidden_redact [of "PDict d"] by (simp add: redact_dict_def)

lemma execution_result_key: "\<not> names_secret ''execution_result''"
proof -
  have "\<not> is_sensitive_key ''execution_result''" by code_simp
  then show ?thesis by (simp add: sensitive_key_spec)
qed

lemma response_hidden: "hidden (PDict (rs_data (response_from_state M s rid fb))) \<and>
    (\<forall>p. rs_approval_payload (response_from_state M s rid fb) = Some p \<longrightarrow> hidden (PDict p))"
  using hidden_redact_dict hidden_redact execution_result_key
  by (auto simp: response_from_state_def approval_payload_def Let_def split: option.splits simp del: hidden.simps(1))
     (simp_all add: hidden_redact execution_result_key)

text \<open>C38: no response gives away what stands under a secret key: at every depth of the data of a response, and of its
  approval payload, the value under a key that contains, in any case and with dashes or underscores, one of the words api_key,
  apikey, authorization, bearer, credential, private_key, raw_transaction, rpc_url, secret, signature and token is
  the redaction mark. The rule does not distinguish secrets from results: it also replaces the tokens that a price
  or portfolio request asked for, and every token_address.\<close>

theorem response_hides_sensitive_values:
  assumes "mercury_invoke M R q hid hkey gen w cache = (Inr resp, w', cache')"
  shows "hidden (PDict (rs_data resp)) \<and> (\<forall>p. rs_approval_payload resp = Some p \<longrightarrow> hidden (PDict p))"
proof -
  from assms obtain s rid fb where "resp = response_from_state M s rid fb"
    by (auto simp: mercury_invoke_def Let_def split: prod.splits sum.splits)
  with response_hidden show ?thesis by blast
qed

theorem response_hides_sensitive_values_witness:
  "\<exists>resp. mercury_invoke (\<lambda>_. PNone) demo_runtime demo_nested_request None None ''id'' demo_world [] = (Inr resp, demo_world, []) \<and>
    hidden (PDict (rs_data resp))"
proof -
  obtain resp where r: "mercury_invoke (\<lambda>_. PNone) demo_runtime demo_nested_request None None ''id'' demo_world [] = (Inr resp, demo_world, [])"
    using demo_nested_answer by blast
  from response_hides_sensitive_values [OF r] r show ?thesis by blast
qed

text \<open>The tokens of a price or portfolio answer are such a value.\<close>

lemma dget_map_values: "dget (map (\<lambda>(k, v). (k, f k v)) d) k = map_option (f k) (dget d k)"
  by (induction d) auto

lemma dget_redact: "dget (redact_dict d) k = map_option (\<lambda>v. if is_sensitive_key k then PStr REDACTION else redact_value v) (dget d k)"
  by (simp add: redact_dict_def dget_map_values)

lemma dget_present: "dget (present k f x) k' = (if k' = k then map_option f x else None)"
  by (cases x) (simp_all add: present_def)

lemma token_keys: "\<not> is_sensitive_key ''tool_result''" "is_sensitive_key ''tokens''"
  by code_simp+

lemma tokens_are_redacted:
  assumes "s_execution_result s = None" and "s_tool_result s = Some r" and "dget r ''tokens'' = Some v"
  shows "\<exists>d. dget (rs_data (response_from_state M s rid fb)) ''tool_result'' = Some (PDict d) \<and> dget d ''tokens'' = Some (PStr REDACTION)"
proof -
  obtain d where d: "result_json r = PDict d" "dget d ''tokens'' \<noteq> None"
    using assms(3) by (auto simp: dget_map_values [of "\<lambda>_. call_value_json"] result_json_def)
  have "dget (state_json M s) ''tool_result'' = Some (result_json r)"
    using assms(2) by (simp add: state_json_def dget_present map_add_def)
  then have "dget (redact_dict (state_json M s)) ''tool_result'' = Some (redact_value (result_json r))"
    using token_keys(1) by (simp add: dget_redact)
  moreover have "\<exists>d'. redact_value (result_json r) = PDict d' \<and> dget d' ''tokens'' = Some (PStr REDACTION)"
    using d token_keys(2) by (auto simp: dget_map_values)
  ultimately show ?thesis using assms(1) by (auto simp: response_from_state_def Let_def split: option.splits)
qed

end
