(* ===== verification/Run_Limits.thy ===== *)
theory Run_Limits
  imports Swap_Preparation
begin

text \<open>
  A run of the compiled graph within a limit on the number of nodes. The graph library stops a run that has executed
  more nodes than its recursion limit (25 by default); the transaction pipeline never comes near it.
\<close>

text \<open>The run with fuel, and the nodes it executed; without fuel there is no result.\<close>

fun run_steps :: "nat \<Rightarrow> tx_deps \<Rightarrow> tx_node \<Rightarrow> mercury_state \<Rightarrow> world \<Rightarrow> (tx_step \<times> tx_node list) option" where
  "run_steps 0 d n s w = None"
| "run_steps (Suc fuel) d n s w = (case run_node d n s w of
       (Inl e, w') \<Rightarrow> Some ((Inl e, w'), [n])
     | (Inr s', w') \<Rightarrow> (case next_node n s' of
           None \<Rightarrow> Some ((Inr s', w'), [n])
         | Some n' \<Rightarrow> (case run_steps fuel d n' s' w' of
               Some (r, ns) \<Rightarrow> Some (r, n # ns)
             | None \<Rightarrow> None)))"

abbreviation descending :: "tx_node list \<Rightarrow> bool" where
  "descending \<equiv> sorted_wrt (\<lambda>a b. node_rank b < node_rank a)"

lemma run_steps_enough:
  assumes "node_rank n < fuel"
  shows "\<exists>ns. run_steps fuel d n s w = Some (run_from d n s w, ns) \<and> descending ns \<and> (\<forall>m \<in> set ns. node_rank m \<le> node_rank n)"
  using assms
proof (induction fuel arbitrary: n s w)
  case (Suc fuel)
  obtain o1 w1 where run: "run_node d n s w = (o1, w1)" by fastforce
  show ?case
  proof (cases o1)
    case (Inl e)
    with run show ?thesis by (simp add: run_from.simps [of _ n])
  next
    case (Inr s1)
    show ?thesis
    proof (cases "next_node n s1")
      case None
      with run Inr show ?thesis by (simp add: run_from.simps [of _ n])
    next
      case (Some n')
      note lower = next_node_rank [OF Some]
      with Suc.prems have "node_rank n' < fuel" by simp
      from Suc.IH [OF this, of s1 w1] obtain ns where ns: "run_steps fuel d n' s1 w1 = Some (run_from d n' s1 w1, ns)"
        "descending ns" "\<forall>m \<in> set ns. node_rank m \<le> node_rank n'" by blast
      have "run_from d n s w = run_from d n' s1 w1" using run Inr Some by (simp add: run_from.simps [of _ n])
      with run Inr Some ns lower show ?thesis by (auto intro: order.trans)
    qed
  qed
qed simp

lemma descending_distinct: "descending ns \<Longrightarrow> distinct ns"
  by (induction ns) auto

lemma rank_bound: "node_rank n \<le> 9"
  by (cases n) simp_all

lemma descending_length: "descending (n # ns) \<Longrightarrow> length ns \<le> node_rank n"
proof (induction ns arbitrary: n)
  case (Cons m ns)
  then have "length ns \<le> node_rank m" "node_rank m < node_rank n" by auto
  then show ?case by simp
qed simp

text \<open>C39: the transaction pipeline ends, within the recursion limit of the graph: from any node, in any state and world and
  whatever the backend, signer, policy and approver answer, at most ten nodes are executed, each at most once and in the order
  of the pipeline, and the fuel-limited run gives the result of the run.\<close>

theorem pipeline_within_recursion_limit:
  "\<exists>ns. run_steps (10 + k) d n s w = Some (run_from d n s w, ns) \<and> length ns \<le> 10 \<and> distinct ns \<and>
     sorted_wrt (\<lambda>a b. node_rank b < node_rank a) ns"
proof -
  have "node_rank n < 10 + k" using rank_bound [of n] by simp
  from run_steps_enough [OF this, of d s w] obtain ns where ns: "run_steps (10 + k) d n s w = Some (run_from d n s w, ns)"
    "descending ns" by blast
  have "length ns \<le> 10"
  proof (cases ns)
    case (Cons m ms)
    with ns(2) have "length ms \<le> node_rank m" using descending_length by blast
    with Cons rank_bound [of m] show ?thesis by simp
  qed simp
  with ns descending_distinct [OF ns(2)] show ?thesis by blast
qed

end
