(* ===== verification/Webhook_Dedupe.thy ===== *)
theory Webhook_Dedupe
  imports Mercury_Prelude Complex_Main "HOL-Library.Sublist"
begin

text \<open>
  Deduplication of webhook retries (\<^verbatim>\<open>webhooks/alchemy_dedupe.py\<close>): a dictionary from keys to the time at
  which they expire, purged on every use and cut back to a maximal size. Clock readings and deadlines are floats,
  given by their exact values; \<open>fl\<close> is the rounding of a float addition.
\<close>

section \<open>The store\<close>

type_synonym dedupe_key = "string \<times> string \<times> string \<times> string"

record dedupe_store =
  ds_ttl :: rat
  ds_max :: int
  ds_expires_at :: "(dedupe_key \<times> rat) list"

definition new_dedupe_store :: "rat \<Rightarrow> int \<Rightarrow> dedupe_store" where
  "new_dedupe_store ttl_seconds max_entries =
     \<lparr>ds_ttl = ttl_seconds, ds_max = max_entries, ds_expires_at = []\<rparr>"

definition default_dedupe_store :: dedupe_store where
  "default_dedupe_store = new_dedupe_store 3600 50000"

definition purge_expired :: "rat \<Rightarrow> ('k \<times> rat) list \<Rightarrow> ('k \<times> rat) list" where
  "purge_expired now d = (let dead = map fst (filter (\<lambda>(k, t). t \<le> now) d) in
     filter (\<lambda>(k, t). k \<notin> set dead) d)"

definition enforce_max :: "int \<Rightarrow> rat \<Rightarrow> ('k \<times> rat) list \<Rightarrow> ('k \<times> rat) list" where
  "enforce_max m now d =
     (if int (length d) \<le> m then d
      else let d' = purge_expired now d in
        if int (length d') \<le> m then d'
        else let sorted_items = sort_key snd d'; overflow = int (length d') - m in
          filter (\<lambda>(k, t). k \<notin> set (map fst (take (nat overflow) sorted_items))) d')"

definition mark_if_new :: "(rat \<Rightarrow> rat) \<Rightarrow> rat \<Rightarrow> dedupe_key \<Rightarrow> dedupe_store \<Rightarrow> bool \<times> dedupe_store" where
  "mark_if_new fl now key st = (let d = purge_expired now (ds_expires_at st) in
     case dget d key of
       Some deadline \<Rightarrow>
         if deadline > now then (False, st\<lparr>ds_expires_at := d\<rparr>)
         else (True, st\<lparr>ds_expires_at := enforce_max (ds_max st) now (dset key (fl (now + ds_ttl st)) d)\<rparr>)
     | None \<Rightarrow>
         (True, st\<lparr>ds_expires_at := enforce_max (ds_max st) now (dset key (fl (now + ds_ttl st)) d)\<rparr>))"

section \<open>The invariant of the store\<close>

definition wf_dedupe :: "dedupe_store \<Rightarrow> bool" where
  "wf_dedupe st \<longleftrightarrow> wf_dict (ds_expires_at st) \<and> (0 \<le> ds_max st \<longrightarrow> int (length (ds_expires_at st)) \<le> ds_max st)"

lemma purge_wf: "wf_dict d \<Longrightarrow> purge_expired now d = filter (\<lambda>(k, t). now < t) d"
  unfolding purge_expired_def Let_def
proof (rule filter_cong)
  fix p assume wf: "wf_dict d" and "p \<in> set d"
  moreover obtain k t where p: "p = (k, t)" by fastforce
  ultimately have "dget d k = Some t" by (simp add: wf_dict_def)
  moreover have "k \<in> fst ` {q \<in> set d. (case q of (k, t) \<Rightarrow> t \<le> now)} \<longleftrightarrow> (\<exists>t'. dget d k = Some t' \<and> t' \<le> now)"
    using wf by (force simp: wf_dict_def intro: map_of_is_SomeI dest: map_of_SomeD)
  ultimately show "(case p of (k, t) \<Rightarrow> k \<notin> set (map fst (filter (\<lambda>(k, t). t \<le> now) d))) = (case p of (k, t) \<Rightarrow> now < t)"
    using p by (auto simp: not_le)
qed simp

lemma wf_dict_filter: "wf_dict d \<Longrightarrow> wf_dict (filter P d)"
  by (simp add: wf_dict_def distinct_map_filter)

lemma dget_filter: "wf_dict d \<Longrightarrow> dget (filter P d) k = (case dget d k of Some v \<Rightarrow> if P (k, v) then Some v else None | None \<Rightarrow> None)"
proof (induction d)
  case (Cons p d)
  obtain k0 v0 where p: "p = (k0, v0)" by fastforce
  with Cons.prems have wf: "wf_dict d" and f: "dget d k0 = None" by (auto simp: wf_dict_def map_of_eq_None_iff)
  from Cons.IH [OF wf] f p show ?case by (auto split: option.splits)
qed simp

lemma dget_purge:
  "wf_dict d \<Longrightarrow> dget (purge_expired now d) k = (case dget d k of Some t \<Rightarrow> if now < t then Some t else None | None \<Rightarrow> None)"
  by (simp add: purge_wf dget_filter split: option.split)

lemma wf_purge [simp]: "wf_dict d \<Longrightarrow> wf_dict (purge_expired now d)"
  by (simp add: purge_wf wf_dict_filter)

lemma length_purge: "length (purge_expired now d) \<le> length d"
  by (simp add: purge_expired_def Let_def)

lemma length_filter_keys:
  assumes "distinct (map fst d)" and "set ks \<subseteq> fst ` set d" and "distinct ks"
  shows "length (filter (\<lambda>(k, t). k \<notin> set ks) d) = length d - length ks"
proof -
  have "set ks = fst ` set (filter (\<lambda>(k, t). k \<in> set ks) d)" using assms(2) by force
  moreover have "distinct (map fst (filter (\<lambda>(k, t). k \<in> set ks) d))"
    using assms(1) by (simp add: distinct_map_filter)
  then have "card (fst ` set (filter (\<lambda>(k, t). k \<in> set ks) d)) = length (filter (\<lambda>(k, t). k \<in> set ks) d)"
    using distinct_card [of "map fst (filter (\<lambda>(k, t). k \<in> set ks) d)"] by simp
  ultimately have "length ks = length (filter (\<lambda>(k, t). k \<in> set ks) d)" using assms(3) by (metis distinct_card)
  moreover have "length (filter (\<lambda>(k, t). k \<in> set ks) d) + length (filter (\<lambda>(k, t). k \<notin> set ks) d) = length d"
    using sum_length_filter_compl [of "\<lambda>(k, t). k \<in> set ks" d] by (simp add: case_prod_unfold)
  ultimately show ?thesis by simp
qed

lemma cut_back:
  fixes d :: "('k \<times> rat) list"
  assumes "wf_dict d" and "n \<le> length d"
  shows "length (filter (\<lambda>(k, t). k \<notin> set (map fst (take n (sort_key snd d)))) d) = length d - n"
proof -
  have "distinct (map fst (sort_key snd d))" using assms(1) by (simp add: wf_dict_def distinct_map)
  then have "distinct (map fst (take n (sort_key snd d)))" by (simp flip: take_map)
  moreover have "set (map fst (take n (sort_key snd d))) \<subseteq> fst ` set d"
    using set_take_subset [of n "sort_key snd d"] by auto
  ultimately show ?thesis
    using length_filter_keys [of d "map fst (take n (sort_key snd d))"] assms by (simp add: wf_dict_def)
qed

lemma enforce_max_bound:
  assumes "wf_dict d" and "0 \<le> m"
  shows "int (length (enforce_max m now d)) \<le> m"
proof -
  have "wf_dict (purge_expired now d)" using assms(1) by simp
  from cut_back [OF this, of "nat (int (length (purge_expired now d)) - m)"] assms(2) show ?thesis
    by (auto simp: enforce_max_def Let_def)
qed

lemma wf_enforce_max: "wf_dict d \<Longrightarrow> wf_dict (enforce_max m now d)"
  by (simp add: enforce_max_def Let_def wf_dict_filter)

lemma mark_shape:
  assumes "wf_dedupe st"
  shows "mark_if_new fl now key st = (let d = purge_expired now (ds_expires_at st) in
    if \<exists>t. dget (ds_expires_at st) key = Some t \<and> now < t then (False, st\<lparr>ds_expires_at := d\<rparr>)
    else (True, st\<lparr>ds_expires_at := enforce_max (ds_max st) now (dset key (fl (now + ds_ttl st)) d)\<rparr>))"
  using assms dget_purge [of "ds_expires_at st" now key]
  by (auto simp: mark_if_new_def wf_dedupe_def Let_def split: option.splits if_splits)

lemma wf_mark: "wf_dedupe st \<Longrightarrow> wf_dedupe (snd (mark_if_new fl now key st))"
  using mark_shape [of st fl now key] length_purge [of now "ds_expires_at st"]
  by (auto simp: wf_dedupe_def Let_def enforce_max_bound wf_enforce_max)

lemma mark_fields: "ds_ttl (snd (mark_if_new fl now key st)) = ds_ttl st" "ds_max (snd (mark_if_new fl now key st)) = ds_max st"
  by (auto simp: mark_if_new_def Let_def split: option.splits)

section \<open>What the store remembers\<close>

text \<open>A sequence of calls with their clock readings: the answers of a store, and the store after them.\<close>

fun answers :: "(rat \<Rightarrow> 'k \<Rightarrow> 's \<Rightarrow> bool \<times> 's) \<Rightarrow> (rat \<times> 'k) list \<Rightarrow> 's \<Rightarrow> bool list" where
  "answers mark [] s = []"
| "answers mark ((now, k) # cs) s = fst (mark now k s) # answers mark cs (snd (mark now k s))"

fun after_calls :: "(rat \<Rightarrow> 'k \<Rightarrow> 's \<Rightarrow> bool \<times> 's) \<Rightarrow> (rat \<times> 'k) list \<Rightarrow> 's \<Rightarrow> 's" where
  "after_calls mark [] s = s"
| "after_calls mark ((now, k) # cs) s = after_calls mark cs (snd (mark now k s))"

text \<open>The calls that a store accepts, in their order.\<close>

fun accepted :: "(rat \<Rightarrow> 'k \<Rightarrow> 's \<Rightarrow> bool \<times> 's) \<Rightarrow> (rat \<times> 'k) list \<Rightarrow> 's \<Rightarrow> (rat \<times> 'k) list" where
  "accepted mark [] s = []"
| "accepted mark ((now, k) # cs) s =
     (if fst (mark now k s) then (now, k) # accepted mark cs (snd (mark now k s)) else accepted mark cs (snd (mark now k s)))"

lemma after_calls_append: "after_calls mark (cs @ ds) s = after_calls mark ds (after_calls mark cs s)"
  by (induction mark cs s rule: after_calls.induct) simp_all

lemma accepted_append: "accepted mark (cs @ ds) s = accepted mark cs s @ accepted mark ds (after_calls mark cs s)"
  by (induction mark cs s rule: accepted.induct) simp_all

lemma accepted_subset: "set (accepted mark cs s) \<subseteq> set cs"
  by (induction mark cs s rule: accepted.induct) auto

text \<open>
  The specification, by history alone: a call is accepted when no earlier accepted call of the same key is still
  within its deadline.
\<close>

fun spec_answers :: "(rat \<Rightarrow> rat) \<Rightarrow> (rat \<times> 'k) list \<Rightarrow> (rat \<times> 'k) list \<Rightarrow> bool list" where
  "spec_answers deadline past [] = []"
| "spec_answers deadline past ((now, k) # cs) = (let new = \<not> list_ex (\<lambda>(t, j). j = k \<and> now < deadline t) past in
     new # spec_answers deadline (if new then (now, k) # past else past) cs)"

text \<open>
  The interface the webhook graph relies on: a set of keys that each live until a deadline. \<open>alive s t k\<close> reads
  whether the key is still refused at time \<open>t\<close>; \<open>roomy s now K\<close> that the store has room for all keys of \<open>K\<close>.
\<close>

locale expiring_keys =
  fixes mark :: "rat \<Rightarrow> 'k \<Rightarrow> 's \<Rightarrow> bool \<times> 's"
    and alive :: "'s \<Rightarrow> rat \<Rightarrow> 'k \<Rightarrow> bool"
    and roomy :: "'s \<Rightarrow> rat \<Rightarrow> 'k set \<Rightarrow> bool"
    and deadline :: "rat \<Rightarrow> rat"
  assumes accepts: "roomy s now K \<Longrightarrow> k \<in> K \<Longrightarrow> fst (mark now k s) \<longleftrightarrow> \<not> alive s now k"
    and remembers: "roomy s now K \<Longrightarrow> k \<in> K \<Longrightarrow> now \<le> t \<Longrightarrow>
      alive (snd (mark now k s)) t j \<longleftrightarrow> alive s t j \<or> (j = k \<and> fst (mark now k s) \<and> t < deadline now)"
    and stays_roomy: "roomy s now K \<Longrightarrow> k \<in> K \<Longrightarrow> roomy (snd (mark now k s)) now K"
    and later_roomy: "roomy s now K \<Longrightarrow> now \<le> t \<Longrightarrow> roomy s t K"
begin

lemma meets_spec:
  assumes "roomy s now K" and "snd ` set cs \<subseteq> K" and "sorted (now # map fst cs)"
    and "\<And>t k. now \<le> t \<Longrightarrow> alive s t k \<longleftrightarrow> (\<exists>u. (u, k) \<in> set past \<and> t < deadline u)"
  shows "answers mark cs s = spec_answers deadline past cs"
  using assms
proof (induction cs arbitrary: s now past)
  case (Cons c cs)
  obtain t k where c: "c = (t, k)" by fastforce
  from Cons.prems c have k: "k \<in> K" and t: "now \<le> t" and room: "roomy s t K" using later_roomy by auto
  let ?s = "snd (mark t k s)" and ?new = "fst (mark t k s)"
  have new: "?new \<longleftrightarrow> \<not> list_ex (\<lambda>(u, j). j = k \<and> t < deadline u) past"
    using accepts [OF room k] Cons.prems(4) [OF t] by (auto simp: list_ex_iff)
  have "answers mark cs ?s = spec_answers deadline (if ?new then (t, k) # past else past) cs"
  proof (rule Cons.IH [OF stays_roomy [OF room k]])
    show "alive ?s t' j \<longleftrightarrow> (\<exists>u. (u, j) \<in> set (if ?new then (t, k) # past else past) \<and> t' < deadline u)" if "t \<le> t'" for t' j
      using remembers [OF room k that] Cons.prems(4) [of t' j] t that by auto
  qed (use Cons.prems c in auto)
  with c new show ?case by (simp add: Let_def)
qed simp

lemma after_calls_roomy:
  assumes "roomy s now K" and "snd ` set cs \<subseteq> K" and "sorted (now # map fst cs @ [t])"
  shows "roomy (after_calls mark cs s) t K"
  using assms
proof (induction cs arbitrary: s now)
  case Nil
  then show ?case using later_roomy by simp
next
  case (Cons c cs)
  obtain u k where c: "c = (u, k)" by fastforce
  from Cons.prems c have "k \<in> K" "roomy s u K" using later_roomy by auto
  from Cons.IH [OF stays_roomy [OF this(2,1)]] Cons.prems c show ?case by auto
qed

lemma after_calls_alive:
  assumes "roomy s now K" and "snd ` set cs \<subseteq> K" and "sorted (now # map fst cs @ [t])" and "alive s t j \<or>
    (\<exists>u. (u, j) \<in> set cs) \<and> (\<forall>u. now \<le> u \<longrightarrow> \<not> alive s u j) \<and> (\<forall>u \<in> fst ` set cs. t < deadline u)"
  shows "alive (after_calls mark cs s) t j"
  using assms
proof (induction cs arbitrary: s now)
  case (Cons c cs)
  obtain u k where c: "c = (u, k)" by fastforce
  from Cons.prems c have k: "k \<in> K" and u: "now \<le> u" "u \<le> t" and room: "roomy s u K" using later_roomy by auto
  note r = remembers [OF room k]
  have "alive (after_calls mark cs (snd (mark u k s))) t j"
  proof (rule Cons.IH [OF stays_roomy [OF room k]])
    show "alive (snd (mark u k s)) t j \<or> (\<exists>v. (v, j) \<in> set cs) \<and> (\<forall>v. u \<le> v \<longrightarrow> \<not> alive (snd (mark u k s)) v j) \<and>
        (\<forall>v \<in> fst ` set cs. t < deadline v)"
    proof (cases "alive s t j \<or> j = k")
      case True
      then show ?thesis using r [OF u(2), of j] accepts [OF room k] Cons.prems(4) c u by auto
    next
      case False
      then show ?thesis using r Cons.prems(4) c u by auto
    qed
  qed (use Cons.prems c in auto)
  with c show ?case by simp
qed simp

lemma alive_refused:
  assumes "roomy s now K" and "snd ` set cs \<subseteq> K" and "sorted (now # map fst cs)" and "\<forall>(t, k) \<in> set cs. alive s t k"
  shows "answers mark cs s = replicate (length cs) False"
  using assms
proof (induction cs arbitrary: s now)
  case (Cons c cs)
  obtain u k where c: "c = (u, k)" by fastforce
  from Cons.prems c have k: "k \<in> K" and room: "roomy s u K" using later_roomy by auto
  have no: "\<not> fst (mark u k s)" using accepts [OF room k] Cons.prems(4) c by auto
  have "\<forall>(t, j) \<in> set cs. alive (snd (mark u k s)) t j" using Cons.prems(3,4) c remembers [OF room k] by fastforce
  then have "answers mark cs (snd (mark u k s)) = replicate (length cs) False"
    by (intro Cons.IH [OF stays_roomy [OF room k]]) (use Cons.prems c in auto)
  with c no show ?case by simp
qed simp

text \<open>Among calls that are all within each other's deadlines, a key is accepted at most once, and not when it was alive
  throughout; a key that was dead before is accepted.\<close>

lemma accepted_once:
  assumes "roomy s now K" and "snd ` set cs \<subseteq> K" and "sorted (now # map fst cs)"
    and "\<And>t u. t \<in> fst ` set cs \<Longrightarrow> u \<in> fst ` set cs \<Longrightarrow> u \<le> t \<Longrightarrow> t < deadline u"
  shows "distinct (map snd (accepted mark cs s)) \<and>
    (\<forall>k \<in> snd ` set (accepted mark cs s). \<exists>t \<in> fst ` set cs. \<not> alive s t k)"
  using assms
proof (induction cs arbitrary: s now)
  case (Cons c cs)
  obtain t k where c: "c = (t, k)" by fastforce
  from Cons.prems c have k: "k \<in> K" and room: "roomy s t K" and later: "\<forall>u \<in> fst ` set cs. t \<le> u" using later_roomy by auto
  let ?s = "snd (mark t k s)"
  have ih: "distinct (map snd (accepted mark cs ?s)) \<and>
      (\<forall>j \<in> snd ` set (accepted mark cs ?s). \<exists>u \<in> fst ` set cs. \<not> alive ?s u j)"
    by (rule Cons.IH [OF stays_roomy [OF room k]]) (use Cons.prems c in auto)
  have still: "\<not> alive ?s u j \<Longrightarrow> \<not> alive s u j" if "u \<in> fst ` set cs" for u j
    using remembers [OF room k, of u j] later that by auto
  show ?case
  proof (cases "fst (mark t k s)")
    case True
    have "alive ?s u k" if "u \<in> fst ` set cs" for u
      using remembers [OF room k, of u k] later that True Cons.prems(4) [of u t] c by auto
    with ih have "k \<notin> snd ` set (accepted mark cs ?s)" by blast
    with True ih still c accepts [OF room k] show ?thesis by (fastforce simp: image_iff)
  next
    case False
    with ih still c show ?thesis by fastforce
  qed
qed simp

lemma dead_accepted:
  assumes "roomy s now K" and "snd ` set cs \<subseteq> K" and "sorted (now # map fst cs)"
    and "k \<in> snd ` set cs" and "\<And>u. now \<le> u \<Longrightarrow> \<not> alive s u k"
  shows "k \<in> snd ` set (accepted mark cs s)"
  using assms
proof (induction cs arbitrary: s now)
  case (Cons c cs)
  obtain t j where c: "c = (t, j)" by fastforce
  from Cons.prems c have j: "j \<in> K" and t: "now \<le> t" and room: "roomy s t K" using later_roomy by auto
  show ?case
  proof (cases "j = k")
    case True
    with accepts [OF room j] Cons.prems(5) [OF t] c show ?thesis by simp
  next
    case False
    have "k \<in> snd ` set (accepted mark cs (snd (mark t j s)))"
    proof (rule Cons.IH [OF stays_roomy [OF room j]])
      show "\<not> alive (snd (mark t j s)) u k" if "t \<le> u" for u
        using remembers [OF room j that, of k] False Cons.prems(5) [of u] t that by auto
    qed (use Cons.prems c False in auto)
    with c show ?thesis by auto
  qed
qed simp

end

definition key_alive :: "dedupe_store \<Rightarrow> rat \<Rightarrow> dedupe_key \<Rightarrow> bool" where
  "key_alive st t k \<longleftrightarrow> (case dget (ds_expires_at st) k of Some e \<Rightarrow> t < e | None \<Rightarrow> False)"

definition has_room :: "rat \<Rightarrow> dedupe_store \<Rightarrow> rat \<Rightarrow> dedupe_key set \<Rightarrow> bool" where
  "has_room ttl st now K \<longleftrightarrow> wf_dedupe st \<and> ds_ttl st = ttl \<and> finite K \<and> int (card K) \<le> ds_max st \<and>
     Collect (key_alive st now) \<subseteq> K"

lemma roomy_no_cut:
  assumes "has_room ttl st now K" and "k \<in> K"
  shows "enforce_max (ds_max st) now (dset k e (purge_expired now (ds_expires_at st))) =
    dset k e (purge_expired now (ds_expires_at st))"
proof -
  let ?d = "dset k e (purge_expired now (ds_expires_at st))"
  have wf: "wf_dict (ds_expires_at st)" using assms(1) by (simp add: has_room_def wf_dedupe_def)
  have "fst ` set ?d \<subseteq> K"
  proof
    fix j assume "j \<in> fst ` set ?d"
    then obtain x where "(j, x) \<in> set ?d" by force
    with wf have "dget ?d j = Some x" by (intro map_of_is_SomeI) (auto simp flip: wf_dict_def)
    then show "j \<in> K" using assms wf
      by (auto simp: dget_purge has_room_def key_alive_def split: if_splits option.splits)
  qed
  then have "card (fst ` set ?d) \<le> card K" using assms(1) by (simp add: has_room_def card_mono)
  moreover have "card (fst ` set ?d) = length ?d"
    using wf distinct_card [of "map fst ?d"] by (simp flip: wf_dict_def)
  ultimately show ?thesis using assms(1) by (simp add: enforce_max_def has_room_def)
qed

lemma mark_roomy:
  assumes "has_room ttl st now K" and "k \<in> K"
  shows "mark_if_new fl now k st = (let d = purge_expired now (ds_expires_at st) in
    if key_alive st now k then (False, st\<lparr>ds_expires_at := d\<rparr>)
    else (True, st\<lparr>ds_expires_at := dset k (fl (now + ttl)) d\<rparr>))"
  using mark_shape [of st fl now k] roomy_no_cut [OF assms] assms(1)
  by (auto simp: has_room_def key_alive_def Let_def split: option.splits)

lemma mark_alive:
  assumes "has_room ttl st now K" and "k \<in> K" and "now \<le> t"
  shows "key_alive (snd (mark_if_new fl now k st)) t j \<longleftrightarrow>
    key_alive st t j \<or> (j = k \<and> fst (mark_if_new fl now k st) \<and> t < fl (now + ttl))"
proof -
  have "wf_dict (ds_expires_at st)" using assms(1) by (simp add: has_room_def wf_dedupe_def)
  then show ?thesis
    using assms(3) mark_roomy [OF assms(1,2), of fl]
    by (auto simp: key_alive_def dget_purge Let_def split: option.splits if_splits)
qed

interpretation dedupe: expiring_keys "mark_if_new fl" key_alive "has_room ttl" "\<lambda>now. fl (now + ttl)" for fl ttl
proof
  fix st now K k t j
  assume room: "has_room ttl st now K"
  show later: "has_room ttl st t K" if "now \<le> t" for t
    using room that by (fastforce simp: has_room_def key_alive_def split: option.splits)
  assume k: "k \<in> K"
  show "fst (mark_if_new fl now k st) \<longleftrightarrow> \<not> key_alive st now k" using mark_roomy [OF room k] by (simp add: Let_def)
  show "now \<le> t \<Longrightarrow> key_alive (snd (mark_if_new fl now k st)) t j \<longleftrightarrow>
      key_alive st t j \<or> (j = k \<and> fst (mark_if_new fl now k st) \<and> t < fl (now + ttl))"
    by (rule mark_alive [OF room k])
  have "Collect (key_alive (snd (mark_if_new fl now k st)) now) \<subseteq> K"
    using mark_alive [OF room k, of now] room k by (auto simp: has_room_def)
  then show "has_room ttl (snd (mark_if_new fl now k st)) now K"
    using room by (simp add: has_room_def wf_mark mark_fields)
qed

section \<open>Bound and order of the entries\<close>

lemma enforce_max_negative: "m < 0 \<Longrightarrow> wf_dict d \<Longrightarrow> enforce_max m now d = []"
proof -
  assume m: "m < 0" and wf: "wf_dict d"
  let ?d = "purge_expired now d"
  have "length (sort_key snd ?d) \<le> nat (int (length ?d) - m)" using m by simp
  then have "set (map fst (take (nat (int (length ?d) - m)) (sort_key snd ?d))) = fst ` set ?d" by simp
  then have "filter (\<lambda>(k, t). k \<notin> set (map fst (take (nat (int (length ?d) - m)) (sort_key snd ?d)))) ?d = []"
    by (force simp: filter_empty_conv)
  with m show ?thesis by (simp add: enforce_max_def Let_def)
qed

lemma dset_new: "dget d k = None \<Longrightarrow> dset k v d = d @ [(k, v)]"
  unfolding dset_def by (induction d) (auto split: if_splits)

lemma enforce_subseq: "subseq (enforce_max m now d) d"
proof -
  have d: "subseq (purge_expired now d) d" by (simp add: purge_expired_def Let_def)
  have "subseq (filter P (purge_expired now d)) d" for P
    by (rule subseq_order.trans [OF subseq_filter_left d])
  with d show ?thesis by (simp add: enforce_max_def Let_def)
qed

lemma mark_entries:
  assumes "wf_dedupe st"
  shows "subseq (ds_expires_at (snd (mark_if_new fl now k st)))
    (ds_expires_at st @ (if fst (mark_if_new fl now k st) then [(k, fl (now + ds_ttl st))] else []))"
proof -
  let ?d = "purge_expired now (ds_expires_at st)"
  have wf: "wf_dict (ds_expires_at st)" using assms by (simp add: wf_dedupe_def)
  have sub: "subseq ?d (ds_expires_at st)" by (simp add: purge_expired_def Let_def)
  show ?thesis
  proof (cases "\<exists>t. dget (ds_expires_at st) k = Some t \<and> now < t")
    case True
    with mark_shape [OF assms, of fl now k] sub show ?thesis by (simp add: Let_def)
  next
    case False
    then have "dget ?d k = None" using wf by (auto simp: dget_purge split: option.splits)
    then have "dset k e ?d = ?d @ [(k, e)]" for e by (simp add: dset_new)
    then have "subseq (enforce_max (ds_max st) now (dset k (fl (now + ds_ttl st)) ?d)) (?d @ [(k, fl (now + ds_ttl st))])"
      using enforce_subseq by metis
    moreover have "subseq (?d @ [(k, fl (now + ds_ttl st))]) (ds_expires_at st @ [(k, fl (now + ds_ttl st))])"
      using sub by simp
    ultimately have "subseq (enforce_max (ds_max st) now (dset k (fl (now + ds_ttl st)) ?d))
        (ds_expires_at st @ [(k, fl (now + ds_ttl st))])" by (rule subseq_order.trans)
    with mark_shape [OF assms, of fl now k] False show ?thesis by (simp add: Let_def)
  qed
qed

lemma mark_negative:
  assumes "wf_dedupe st" and "ds_max st < 0" and "ds_expires_at st = []"
  shows "ds_expires_at (snd (mark_if_new fl now k st)) = []"
  using mark_shape [OF assms(1), of fl now k] assms(2,3)
  by (simp add: Let_def purge_expired_def enforce_max_negative)

lemma after_calls_entries:
  assumes "wf_dedupe st" and "ds_max st < 0 \<longrightarrow> ds_expires_at st = []"
  shows "wf_dedupe (after_calls (mark_if_new fl) cs st) \<and> ds_ttl (after_calls (mark_if_new fl) cs st) = ds_ttl st \<and>
    ds_max (after_calls (mark_if_new fl) cs st) = ds_max st \<and>
    (ds_max st < 0 \<longrightarrow> ds_expires_at (after_calls (mark_if_new fl) cs st) = []) \<and>
    subseq (ds_expires_at (after_calls (mark_if_new fl) cs st))
      (ds_expires_at st @ map (\<lambda>(t, k). (k, fl (t + ds_ttl st))) (accepted (mark_if_new fl) cs st))"
  using assms
proof (induction cs arbitrary: st)
  case (Cons c cs)
  obtain t k where c: "c = (t, k)" by (cases c)
  let ?st = "snd (mark_if_new fl t k st)" and ?e = "(k, fl (t + ds_ttl st))"
  let ?rest = "map (\<lambda>(t, k). (k, fl (t + ds_ttl st))) (accepted (mark_if_new fl) cs ?st)"
  have wf: "wf_dedupe ?st" and neg: "ds_max ?st < 0 \<longrightarrow> ds_expires_at ?st = []"
    using wf_mark [OF Cons.prems(1)] mark_negative [OF Cons.prems(1)] Cons.prems(2) by (auto simp: mark_fields)
  note ih = Cons.IH [OF wf neg, unfolded mark_fields]
  from mark_entries [OF Cons.prems(1), of fl t k]
  have "subseq (ds_expires_at ?st @ ?rest) ((ds_expires_at st @ (if fst (mark_if_new fl t k st) then [?e] else [])) @ ?rest)"
    by (simp only: subseq_append)
  with ih have "subseq (ds_expires_at (after_calls (mark_if_new fl) cs ?st))
      ((ds_expires_at st @ (if fst (mark_if_new fl t k st) then [?e] else [])) @ ?rest)"
    by (blast intro: subseq_order.trans)
  with ih c show ?case by (simp split: if_splits)
qed simp

end
