(* ===== verification/Hmac_Sha256.thy ===== *)
theory Hmac_Sha256
  imports Py_Values "HOL-Library.Word"
begin

unbundle bit_operations_syntax

text \<open>
  The parts of Python's \<open>hashlib\<close> and \<open>hmac\<close> that the webhook check uses: SHA-256 on 32-bit words,
  HMAC over it, and the hexadecimal digest. Bytes are 8-bit words.
\<close>

type_synonym byte = "8 word"
type_synonym word32 = "32 word"

section \<open>SHA-256\<close>

definition sha_k :: "word32 list" where
  "sha_k = [
     0x428a2f98, 0x71374491, 0xb5c0fbcf, 0xe9b5dba5, 0x3956c25b, 0x59f111f1, 0x923f82a4, 0xab1c5ed5,
     0xd807aa98, 0x12835b01, 0x243185be, 0x550c7dc3, 0x72be5d74, 0x80deb1fe, 0x9bdc06a7, 0xc19bf174,
     0xe49b69c1, 0xefbe4786, 0x0fc19dc6, 0x240ca1cc, 0x2de92c6f, 0x4a7484aa, 0x5cb0a9dc, 0x76f988da,
     0x983e5152, 0xa831c66d, 0xb00327c8, 0xbf597fc7, 0xc6e00bf3, 0xd5a79147, 0x06ca6351, 0x14292967,
     0x27b70a85, 0x2e1b2138, 0x4d2c6dfc, 0x53380d13, 0x650a7354, 0x766a0abb, 0x81c2c92e, 0x92722c85,
     0xa2bfe8a1, 0xa81a664b, 0xc24b8b70, 0xc76c51a3, 0xd192e819, 0xd6990624, 0xf40e3585, 0x106aa070,
     0x19a4c116, 0x1e376c08, 0x2748774c, 0x34b0bcb5, 0x391c0cb3, 0x4ed8aa4a, 0x5b9cca4f, 0x682e6ff3,
     0x748f82ee, 0x78a5636f, 0x84c87814, 0x8cc70208, 0x90befffa, 0xa4506ceb, 0xbef9a3f7, 0xc67178f2]"

definition sha_h0 :: "word32 list" where
  "sha_h0 = [0x6a09e667, 0xbb67ae85, 0x3c6ef372, 0xa54ff53a, 0x510e527f, 0x9b05688c, 0x1f83d9ab, 0x5be0cd19]"

definition rotr :: "nat \<Rightarrow> word32 \<Rightarrow> word32" where
  "rotr n x = (drop_bit n x OR push_bit (32 - n) x)"

definition sigma0 :: "word32 \<Rightarrow> word32" where
  "sigma0 x = (rotr 7 x XOR rotr 18 x XOR drop_bit 3 x)"

definition sigma1 :: "word32 \<Rightarrow> word32" where
  "sigma1 x = (rotr 17 x XOR rotr 19 x XOR drop_bit 10 x)"

definition Sigma0 :: "word32 \<Rightarrow> word32" where
  "Sigma0 x = (rotr 2 x XOR rotr 13 x XOR rotr 22 x)"

definition Sigma1 :: "word32 \<Rightarrow> word32" where
  "Sigma1 x = (rotr 6 x XOR rotr 11 x XOR rotr 25 x)"

text \<open>The message schedule, newest word first: each new word is made of four of the last sixteen.\<close>

fun schedule :: "nat \<Rightarrow> word32 list \<Rightarrow> word32 list" where
  "schedule 0 ws = ws"
| "schedule (Suc n) ws = schedule n ((sigma1 (ws ! 1) + ws ! 6 + sigma0 (ws ! 14) + ws ! 15) # ws)"

fun sha_round :: "word32 \<times> word32 \<Rightarrow> word32 list \<Rightarrow> word32 list" where
  "sha_round (k, w) [a, b, c, d, e, f, g, h] = (let
       t1 = h + Sigma1 e + ((e AND f) XOR (NOT e AND g)) + k + w;
       t2 = Sigma0 a + ((a AND b) XOR (a AND c) XOR (b AND c))
     in [t1 + t2, a, b, c, d + t1, e, f, g])"
| "sha_round _ s = s"

definition sha_block :: "word32 list \<Rightarrow> word32 list \<Rightarrow> word32 list" where
  "sha_block ws s = map2 (+) s (fold sha_round (zip sha_k (rev (schedule 48 (rev ws)))) s)"

definition word_of_bytes :: "byte list \<Rightarrow> word32" where
  "word_of_bytes bs = fold (\<lambda>b w. push_bit 8 w OR ucast b) bs 0"

definition bytes_of_word :: "word32 \<Rightarrow> byte list" where
  "bytes_of_word w = [ucast (drop_bit 24 w), ucast (drop_bit 16 w), ucast (drop_bit 8 w), ucast w]"

fun chunks :: "nat \<Rightarrow> 'a list \<Rightarrow> 'a list list" where
  "chunks 0 xs = []"
| "chunks n [] = []"
| "chunks n (x # xs) = take n (x # xs) # chunks n (drop n (x # xs))"

text \<open>Padding to whole blocks of 64 bytes, with the length in bits in the last eight bytes.\<close>

definition sha_pad :: "byte list \<Rightarrow> byte list" where
  "sha_pad m = m @ [0x80] @ replicate ((55 + 64 - length m mod 64) mod 64) 0
     @ map (\<lambda>i. ucast (drop_bit (8 * (7 - i)) (8 * of_nat (length m) :: 64 word))) [0..<8]"

definition sha256 :: "byte list \<Rightarrow> byte list" where
  "sha256 m = concat (map bytes_of_word (fold (\<lambda>blk. sha_block (map word_of_bytes (chunks 4 blk)))
     (chunks 64 (sha_pad m)) sha_h0))"

section \<open>HMAC\<close>

definition hmac_key :: "byte list \<Rightarrow> byte list" where
  "hmac_key k = (let k' = (if 64 < length k then sha256 k else k) in k' @ replicate (64 - length k') 0)"

definition hmac_sha256 :: "byte list \<Rightarrow> byte list \<Rightarrow> byte list" where
  "hmac_sha256 k m = sha256 (map ((XOR) 0x5c) (hmac_key k) @ sha256 (map ((XOR) 0x36) (hmac_key k) @ m))"

definition byte_hex :: "byte \<Rightarrow> string" where
  "byte_hex b = [hex_digit (unat b div 16), hex_digit (unat b mod 16)]"

definition hexdigest :: "byte list \<Rightarrow> string" where
  "hexdigest bs = concat (map byte_hex bs)"

text \<open>\<open>s.encode("utf-8")\<close> of a text of Latin-1 characters.\<close>

definition utf8_encode :: "string \<Rightarrow> byte list" where
  "utf8_encode s = concat (map (\<lambda>c. let n = of_char c :: nat in
     if n < 128 then [of_nat n] else [of_nat (192 + n div 64), of_nat (128 + n mod 64)]) s)"

section \<open>The shape of a digest\<close>

lemma sha_round_length: "length s = 8 \<Longrightarrow> length (sha_round p s) = 8"
  by (cases "(p, s)" rule: sha_round.cases) (auto simp: Let_def)

lemma fold_round_length: "length s = 8 \<Longrightarrow> length (fold sha_round ps s) = 8"
  by (induction ps arbitrary: s) (simp_all add: sha_round_length)

lemma sha_block_length: "length s = 8 \<Longrightarrow> length (sha_block ws s) = 8"
  by (simp add: sha_block_def fold_round_length)

lemma fold_block_length: "length s = 8 \<Longrightarrow> length (fold (\<lambda>b. sha_block (f b)) bs s) = 8"
  by (induction bs arbitrary: s) (simp_all add: sha_block_length)

lemma sha256_length: "length (sha256 m) = 32"
proof -
  have "length (concat (map bytes_of_word s)) = 4 * length s" for s
    by (induction s) (simp_all add: bytes_of_word_def)
  then show ?thesis by (simp add: sha256_def fold_block_length sha_h0_def)
qed

lemma hmac_length: "length (hmac_sha256 k m) = 32"
  by (simp add: hmac_sha256_def sha256_length)

lemma hexdigest_length: "length (hexdigest bs) = 2 * length bs"
  by (induction bs) (simp_all add: hexdigest_def byte_hex_def)

end
