(* ===== verification/Webhooks.thy ===== *)
theory Webhooks
  imports Webhook_Dedupe Hmac_Sha256 Custody
begin

text \<open>
  Alchemy address-activity webhooks: the signature check (\<^verbatim>\<open>webhooks/alchemy_verify.py\<close>), the signing key
  (\<^verbatim>\<open>webhooks/keys.py\<close>), reading of payloads (\<^verbatim>\<open>webhooks/alchemy_handler.py\<close>), the webhook graph
  (\<^verbatim>\<open>graph/webhook_graph.py\<close>) and the HTTP handler (\<^verbatim>\<open>service/api.py\<close>). The JSON decoder, the secret store
  and the clock are parameters: \<open>clock n\<close> is the \<open>n\<close>-th reading of the monotonic clock, whose position
  is part of the state of the application.
\<close>

section \<open>Signatures\<close>

definition HEX_DIGITS :: string where
  "HEX_DIGITS = ''0123456789abcdef''"

text \<open>The signature header as it is compared: without space and prefix, in lower case.\<close>

definition signature_text :: "string \<Rightarrow> string" where
  "signature_text signature = (let s = py_strip signature;
     s1 = (if take 2 (py_lower s) = ''0x'' then drop 2 s else s) in py_lower (py_strip s1))"

definition is_valid_signature_for_string_body :: "byte list \<Rightarrow> string \<Rightarrow> string \<Rightarrow> bool" where
  "is_valid_signature_for_string_body body signature signing_key =
     (if signing_key = [] then False
      else if signature = [] then False
      else let sig = signature_text signature in
        if sig = [] \<or> list_ex (\<lambda>c. c \<notin> set HEX_DIGITS) sig then False
        else let digest = hexdigest (hmac_sha256 (utf8_encode signing_key) body) in
          if length sig \<noteq> length digest then False else digest = sig)"

text \<open>The overlay of a test setup wins over the secret store.\<close>

definition key_overlay :: "pyval \<Rightarrow> string option" where
  "key_overlay v = (case v of PStr s \<Rightarrow> if py_strip s \<noteq> [] then Some (py_strip s) else None | _ \<Rightarrow> None)"

definition resolve_alchemy_webhook_signing_key ::
  "pyval \<Rightarrow> mercury_settings \<Rightarrow> (string \<Rightarrow> exn + secret_value) option \<Rightarrow> exn + string" where
  "resolve_alchemy_webhook_signing_key overlay settings store =
     (case key_overlay overlay of
        Some k \<Rightarrow> Inr k
      | None \<Rightarrow> (let path = py_strip (alchemy_webhook_signing_key_secret_path settings) in
          if path = [] then Inl (Exn ValueError ''alchemy_webhook_signing_key_secret_path is empty'')
          else case store of
              None \<Rightarrow> Inl (Exn ValueError ''secret_store is required when no signing key overlay is configured'')
            | Some get_secret \<Rightarrow> rbind (get_secret path) (\<lambda>s. Inr (sv_value s))))"

section \<open>Reading payloads\<close>

definition ADDRESS_ACTIVITY :: string where
  "ADDRESS_ACTIVITY = ''ADDRESS_ACTIVITY''"

definition normalize_activity_address :: "pyval \<Rightarrow> string option" where
  "normalize_activity_address v = (case v of
       PStr s \<Rightarrow> if py_strip s = [] then None else Some (py_lower (py_strip s))
     | _ \<Rightarrow> None)"

definition parse_address_list :: "string option \<Rightarrow> string list" where
  "parse_address_list raw = (case raw of
       None \<Rightarrow> []
     | Some s \<Rightarrow> if py_strip s = [] then []
         else List.map_filter (\<lambda>part. normalize_activity_address (PStr part)) (split_on (CHR '','') s))"

definition add_unseen :: "string list \<Rightarrow> string list \<Rightarrow> string list" where
  "add_unseen order addrs = fold (\<lambda>a out. if a \<in> set out then out else out @ [a]) addrs order"

definition watched_in_metadata :: "pydict \<Rightarrow> string list" where
  "watched_in_metadata payload = (case dget_none payload ''metadata'' of
       PDict meta \<Rightarrow> (case dget_none meta ''watched_addresses'' of
           PStr s \<Rightarrow> parse_address_list (Some s)
         | PList items \<Rightarrow> List.map_filter normalize_activity_address items
         | _ \<Rightarrow> [])
     | _ \<Rightarrow> [])"

definition merge_watched_addresses :: "string option \<Rightarrow> pydict option \<Rightarrow> string list" where
  "merge_watched_addresses query_csv payload = (let order = add_unseen [] (parse_address_list query_csv) in
     case payload of None \<Rightarrow> order | Some p \<Rightarrow> add_unseen order (watched_in_metadata p))"

definition log_index_for_dedupe :: "libs \<Rightarrow> pydict \<Rightarrow> string" where
  "log_index_for_dedupe L row = (let
       log_index = (case dget_none row ''log'' of PDict entry \<Rightarrow> dget_none entry ''logIndex'' | _ \<Rightarrow> PNone);
       trace = dget_none row ''typeTraceAddress'' in
     if log_index \<noteq> PNone then py_lower (py_str L log_index)
     else if trace \<noteq> PNone then py_str L trace
     else ''na'')"

definition row_log :: "pydict \<Rightarrow> pydict" where
  "row_log row = (case dget_none row ''log'' of PDict entry \<Rightarrow> entry | _ \<Rightarrow> [])"

definition row_tx_hash :: "pydict \<Rightarrow> string" where
  "row_tx_hash row = (let log_hash = dget_none (row_log row) ''transactionHash'' in
     case dget_none row ''hash'' of
       PStr h \<Rightarrow> if h \<noteq> [] then h else (case log_hash of PStr th \<Rightarrow> th | _ \<Rightarrow> h)
     | _ \<Rightarrow> (case log_hash of PStr th \<Rightarrow> th | _ \<Rightarrow> []))"

definition row_contract_address :: "pydict \<Rightarrow> string option" where
  "row_contract_address row = (let
       own = (case dget_none row ''rawContract'' of
           PDict rc \<Rightarrow> normalize_activity_address (dget_none rc ''address'')
         | _ \<Rightarrow> None) in
     case own of Some a \<Rightarrow> Some a | None \<Rightarrow> normalize_activity_address (dget_none (row_log row) ''address''))"

definition row_to_alert :: "libs \<Rightarrow> string \<Rightarrow> pydict \<Rightarrow> pydict" where
  "row_to_alert L network row =
     [(''network'', PStr network), (''tx_hash'', PStr (py_lower (row_tx_hash row))),
      (''from_address'', opt_val PStr (normalize_activity_address (dget_none row ''fromAddress''))),
      (''to_address'', opt_val PStr (normalize_activity_address (dget_none row ''toAddress''))),
      (''category'', (case dget_none row ''category'' of PNone \<Rightarrow> PNone | v \<Rightarrow> PStr (py_str L v))),
      (''asset'', (case dget_none row ''asset'' of PStr s \<Rightarrow> PStr s | _ \<Rightarrow> PNone)),
      (''value'', dget_none row ''value''),
      (''contract_address'', opt_val PStr (row_contract_address row)),
      (''removed'', PBool (dget_none (row_log row) ''removed'' = PBool True)),
      (''log_index'', PStr (log_index_for_dedupe L row))]"

definition normalize_activity_rows :: "libs \<Rightarrow> string \<Rightarrow> pyval list option \<Rightarrow> pydict list" where
  "normalize_activity_rows L network activity = (case activity of
       None \<Rightarrow> []
     | Some rows \<Rightarrow> List.map_filter (\<lambda>row. map_option (row_to_alert L network) (as_dict row)) rows)"

definition filter_incoming_for_watched :: "pydict list \<Rightarrow> string list \<Rightarrow> pydict list" where
  "filter_incoming_for_watched alerts watched_lower = (let
       watch = List.map_filter (\<lambda>a. normalize_activity_address (PStr a)) watched_lower in
     if watched_lower = [] \<or> watch = [] then alerts
     else filter (\<lambda>a. dget_none a ''to_address'' \<in> PStr ` set watch) alerts)"

section \<open>The webhook graph\<close>

record webhook_state =
  wh_payload :: pydict
  wh_watched :: "string list"
  wh_webhook_id :: string
  wh_event_id :: string
  wh_network :: "string option"
  wh_skipped :: bool
  wh_skip_reason :: "string option"
  wh_normalized :: "pydict list"
  wh_filtered :: "pydict list"
  wh_new_alerts :: "pydict list"
  wh_duplicate_count :: int
  wh_summary :: "pydict option"

definition initial_webhook_state :: "pydict \<Rightarrow> string list \<Rightarrow> webhook_state" where
  "initial_webhook_state payload watched = \<lparr>wh_payload = payload, wh_watched = watched, wh_webhook_id = [],
     wh_event_id = [], wh_network = None, wh_skipped = False, wh_skip_reason = None, wh_normalized = [],
     wh_filtered = [], wh_new_alerts = [], wh_duplicate_count = 0, wh_summary = None\<rparr>"

definition dget_default :: "pydict \<Rightarrow> string \<Rightarrow> pyval \<Rightarrow> pyval" where
  "dget_default d k v = (case dget d k of Some x \<Rightarrow> x | None \<Rightarrow> v)"

definition classify :: "libs \<Rightarrow> webhook_state \<Rightarrow> webhook_state" where
  "classify L s = (let payload = wh_payload s; event_type = dget_none payload ''type'';
       s' = s\<lparr>wh_webhook_id := py_str L (dget_default payload ''webhookId'' (PStr [])),
              wh_event_id := py_str L (dget_default payload ''id'' (PStr []))\<rparr> in
     if event_type \<noteq> PStr ADDRESS_ACTIVITY then
       s'\<lparr>wh_skipped := True,
          wh_skip_reason := Some (if event_type = PNone then ''ignored_type'' else ''ignored_type:'' @ py_str L event_type),
          wh_normalized := [], wh_filtered := [], wh_new_alerts := [], wh_duplicate_count := 0, wh_network := Some []\<rparr>
     else s'\<lparr>wh_skipped := False, wh_skip_reason := None\<rparr>)"

definition normalize_activity :: "libs \<Rightarrow> webhook_state \<Rightarrow> webhook_state" where
  "normalize_activity L s =
     (if wh_skipped s then s
      else case dget_none (wh_payload s) ''event'' of
          PDict event \<Rightarrow> (let network = py_str L (dget_default event ''network'' (PStr []));
              activity = (case dget_none event ''activity'' of PList rows \<Rightarrow> Some rows | _ \<Rightarrow> None) in
            s\<lparr>wh_normalized := normalize_activity_rows L network activity, wh_network := Some network\<rparr>)
        | _ \<Rightarrow> s\<lparr>wh_normalized := [], wh_network := Some []\<rparr>)"

definition filter_incoming :: "webhook_state \<Rightarrow> webhook_state" where
  "filter_incoming s =
     (if wh_skipped s then s
      else s\<lparr>wh_filtered := filter_incoming_for_watched (wh_normalized s) (wh_watched s)\<rparr>)"

definition alert_key :: "libs \<Rightarrow> string \<Rightarrow> string \<Rightarrow> pydict \<Rightarrow> dedupe_key" where
  "alert_key L wid eid alert = (wid, eid, py_str L (dget_default alert ''tx_hash'' (PStr [])),
     py_str L (dget_default alert ''log_index'' (PStr ''na'')))"

text \<open>The loop over the alerts: each call of the store reads the clock once.\<close>

fun dedupe_alerts ::
  "libs \<Rightarrow> (rat \<Rightarrow> rat) \<Rightarrow> (nat \<Rightarrow> rat) \<Rightarrow> string \<Rightarrow> string \<Rightarrow> pydict list \<Rightarrow> nat \<Rightarrow> dedupe_store
     \<Rightarrow> pydict list \<times> int \<times> nat \<times> dedupe_store" where
  "dedupe_alerts L fl clock wid eid [] n st = ([], 0, n, st)"
| "dedupe_alerts L fl clock wid eid (a # alerts) n st =
     (let (new, st1) = mark_if_new fl (clock n) (alert_key L wid eid a) st;
          (fresh, dups, n', st') = dedupe_alerts L fl clock wid eid alerts (Suc n) st1 in
      if new then (a # fresh, dups, n', st') else (fresh, dups + 1, n', st'))"

definition dedupe :: "libs \<Rightarrow> (rat \<Rightarrow> rat) \<Rightarrow> (nat \<Rightarrow> rat) \<Rightarrow> webhook_state \<Rightarrow> nat \<Rightarrow> dedupe_store
     \<Rightarrow> webhook_state \<times> nat \<times> dedupe_store" where
  "dedupe L fl clock s n st =
     (if wh_skipped s then (s, n, st)
      else let (fresh, dups, n', st') = dedupe_alerts L fl clock (wh_webhook_id s) (wh_event_id s) (wh_filtered s) n st in
        (s\<lparr>wh_new_alerts := fresh, wh_duplicate_count := dups\<rparr>, n', st'))"

definition emit_alert :: "webhook_state \<Rightarrow> webhook_state" where
  "emit_alert s = s\<lparr>wh_summary := Some
     [(''received'', PBool True), (''skipped'', PBool (wh_skipped s)), (''skip_reason'', opt_val PStr (wh_skip_reason s)),
      (''network'', opt_val PStr (wh_network s)), (''normalized_count'', PInt (int (length (wh_normalized s)))),
      (''filtered_count'', PInt (int (length (wh_filtered s)))), (''processed'', PInt (int (length (wh_new_alerts s)))),
      (''duplicate_count'', PInt (wh_duplicate_count s)), (''alerts'', PList (map PDict (wh_new_alerts s)))]\<rparr>"

datatype classify_route = ToEmitAlert | ToNormalizeActivity

definition route_after_classify :: "webhook_state \<Rightarrow> classify_route" where
  "route_after_classify s = (if wh_skipped s then ToEmitAlert else ToNormalizeActivity)"

definition run_webhook_graph :: "libs \<Rightarrow> (rat \<Rightarrow> rat) \<Rightarrow> (nat \<Rightarrow> rat) \<Rightarrow> pydict \<Rightarrow> string list \<Rightarrow> nat \<Rightarrow> dedupe_store
     \<Rightarrow> webhook_state \<times> nat \<times> dedupe_store" where
  "run_webhook_graph L fl clock payload watched n st =
     (let s = classify L (initial_webhook_state payload watched) in
      case route_after_classify s of
        ToEmitAlert \<Rightarrow> (emit_alert s, n, st)
      | ToNormalizeActivity \<Rightarrow>
          (let (s', n', st') = dedupe L fl clock (filter_incoming (normalize_activity L s)) n st in
           (emit_alert s', n', st')))"

section \<open>The HTTP handler\<close>

datatype http_failure = HTTPException nat string | Raised exn

text \<open>The state of the application: the signing key overlay, the dedupe store once it was made, the clock position.\<close>

record webhook_app =
  app_settings :: mercury_settings
  app_key_overlay :: pyval
  app_dedupe :: "dedupe_store option"
  app_clock_pos :: nat

record webhook_request =
  wr_body :: "byte list"
  wr_signature :: "string option"
  wr_watched_addresses :: "string option"

definition alchemy_webhook_dedupe_store :: "webhook_app \<Rightarrow> dedupe_store" where
  "alchemy_webhook_dedupe_store app = (case app_dedupe app of Some st \<Rightarrow> st | None \<Rightarrow> default_dedupe_store)"

definition webhook_signing_key ::
  "(string \<Rightarrow> exn + secret_value) option \<Rightarrow> webhook_app \<Rightarrow> http_failure + string" where
  "webhook_signing_key store app =
     (if key_overlay (app_key_overlay app) = None \<and> store = None
      then Inl (HTTPException 503 ''Secret store is not configured; cannot verify webhook signature.'')
      else case resolve_alchemy_webhook_signing_key (app_key_overlay app) (app_settings app)
               (if key_overlay (app_key_overlay app) = None then store else None) of
          Inr k \<Rightarrow> Inr k
        | Inl e \<Rightarrow> if is_value_error e then Inl (HTTPException 503 ''Alchemy webhook signing key is not configured.'')
            else (case e of
                Exn SecretNotFoundError _ \<Rightarrow> Inl (HTTPException 503 ''Alchemy webhook signing key secret is missing.'')
              | _ \<Rightarrow> Inl (Raised e)))"

text \<open>The decoder answers \<open>None\<close> when the body is no UTF-8 text or no JSON document.\<close>

definition alchemy_address_activity_webhook ::
  "libs \<Rightarrow> (rat \<Rightarrow> rat) \<Rightarrow> (nat \<Rightarrow> rat) \<Rightarrow> (byte list \<Rightarrow> pyval option) \<Rightarrow> (string \<Rightarrow> exn + secret_value) option
     \<Rightarrow> webhook_request \<Rightarrow> webhook_app \<Rightarrow> (http_failure + pydict) \<times> webhook_app" where
  "alchemy_address_activity_webhook L fl clock json_loads store req app =
     (case wr_signature req of
        None \<Rightarrow> (Inl (HTTPException 401 ''Missing X-Alchemy-Signature header.''), app)
      | Some [] \<Rightarrow> (Inl (HTTPException 401 ''Missing X-Alchemy-Signature header.''), app)
      | Some signature \<Rightarrow>
     (case webhook_signing_key store app of
        Inl e \<Rightarrow> (Inl e, app)
      | Inr key \<Rightarrow>
     if \<not> is_valid_signature_for_string_body (wr_body req) signature key
       then (Inl (HTTPException 403 ''Invalid webhook signature.''), app)
     else (case json_loads (wr_body req) of
        None \<Rightarrow> (Inl (HTTPException 400 ''Request body is not valid JSON.''), app)
      | Some (PDict payload) \<Rightarrow>
          (let watched = merge_watched_addresses (wr_watched_addresses req) (Some payload);
               (s, n', st') = run_webhook_graph L fl clock payload watched (app_clock_pos app) (alchemy_webhook_dedupe_store app);
               app' = app\<lparr>app_dedupe := Some st', app_clock_pos := n'\<rparr> in
           case wh_summary s of
             Some summary \<Rightarrow> (Inr summary, app')
           | None \<Rightarrow> (Inr [(''received'', PBool True), (''skipped'', PBool False), (''processed'', PInt 0),
               (''alerts'', PList [])], app'))
      | Some _ \<Rightarrow> (Inl (HTTPException 400 ''JSON payload must be an object.''), app))))"

end
