(* ===== verification/Webhook_Properties.thy ===== *)
theory Webhook_Properties
  imports Webhooks
begin

text \<open>
  The guarantees of the webhook endpoint: the store answers as its specification by history, stays within its bound and
  keeps the order of accepted calls, every alert is emitted once over any sequence of deliveries, and nothing happens without a
  valid signature.
\<close>

section \<open>The store against its specification\<close>

text \<open>C30: as long as the number of different keys stays within the maximum, the store answers any sequence of calls with a
  monotonic clock exactly as the specification by history does: a call is accepted when no earlier accepted call of
  the same key is still within its time to live.\<close>

theorem dedupe_refines_history:
  assumes "sorted (map fst cs)" and "int (card (snd ` set cs)) \<le> m"
  shows "answers (mark_if_new fl) cs (new_dedupe_store ttl m) = spec_answers (\<lambda>now. fl (now + ttl)) [] cs"
proof (cases cs)
  case (Cons c cs')
  have room: "has_room ttl (new_dedupe_store ttl m) (fst c) (snd ` set cs)"
    using assms(2) by (auto simp: has_room_def wf_dedupe_def new_dedupe_store_def key_alive_def)
  show ?thesis
  proof (rule dedupe.meets_spec [OF room order.refl])
    show "sorted (fst c # map fst cs)" using assms(1) Cons by simp
    show "\<And>t k. fst c \<le> t \<Longrightarrow> key_alive (new_dedupe_store ttl m) t k \<longleftrightarrow> (\<exists>u. (u, k) \<in> set [] \<and> t < fl (u + ttl))"
      by (simp add: key_alive_def new_dedupe_store_def)
  qed
qed simp

theorem dedupe_refines_history_witness:
  "let k = (''w'', ''e'', ''n'', ''h'') in
    answers (mark_if_new id) [(0, k), (5, k), (10, k)] (new_dedupe_store 10 2) = [True, False, True]"
  unfolding Let_def
  using dedupe_refines_history [of "let k = (''w'', ''e'', ''n'', ''h'') in [(0, k), (5, k), (10, k)]" 2 id 10]
  by (simp add: Let_def)

text \<open>C31: whatever keys arrive, at whatever times, even against the clock, and whatever the configured maximum is: the store
  never holds a key twice, holds no more entries than its maximum (none when it is negative), and its entries are, in the order
  in which the calls were accepted, keys of accepted calls with the deadline that their call set; the configuration does not change.\<close>

theorem dedupe_store_bounded:
  "let st0 = new_dedupe_store ttl m; st = after_calls (mark_if_new fl) cs st0 in
    distinct (map fst (ds_expires_at st)) \<and> int (length (ds_expires_at st)) \<le> max 0 m \<and>
    subseq (ds_expires_at st) (map (\<lambda>(t, k). (k, fl (t + ttl))) (accepted (mark_if_new fl) cs st0)) \<and>
    ds_ttl st = ttl \<and> ds_max st = m"
  using after_calls_entries [of "new_dedupe_store ttl m" fl cs]
  by (cases "m < 0") (auto simp: Let_def wf_dedupe_def wf_dict_def new_dedupe_store_def)

section \<open>Retried deliveries\<close>

definition clock_calls :: "libs \<Rightarrow> (nat \<Rightarrow> rat) \<Rightarrow> string \<Rightarrow> string \<Rightarrow> pydict list \<Rightarrow> nat \<Rightarrow> (rat \<times> dedupe_key) list" where
  "clock_calls L clock wid eid alerts n =
     map (\<lambda>i. (clock (n + i), alert_key L wid eid (alerts ! i))) [0..<length alerts]"

lemma clock_calls_Cons:
  "clock_calls L clock wid eid (a # alerts) n = (clock n, alert_key L wid eid a) # clock_calls L clock wid eid alerts (Suc n)"
  unfolding clock_calls_def by (simp add: upt_rec [of 0] map_Suc_upt [symmetric] del: upt_Suc map_Suc_upt)

lemma clock_calls_fst: "map fst (clock_calls L clock wid eid as p) = map clock [p..<p + length as]"
proof -
  have "map clock [p..<p + length as] = map clock (map (\<lambda>i. i + p) [0..<length as])"
    by (simp only: map_add_upt) (simp add: add.commute)
  then show ?thesis by (simp add: clock_calls_def comp_def add.commute)
qed

lemma clock_calls_times: "fst ` set (clock_calls L clock wid eid as p) = clock ` {p..<p + length as}"
  using arg_cong [OF clock_calls_fst, of set L clock wid eid as p] by simp

lemma clock_calls_keys: "snd ` set (clock_calls L clock wid eid as p) = alert_key L wid eid ` set as"
  by (simp add: clock_calls_def image_image) (force simp: in_set_conv_nth)

lemma clock_calls_sorted:
  assumes "mono clock"
  shows "sorted (clock n # map fst (clock_calls L clock wid eid as n) @ map fst (clock_calls L clock wid eid as (n + length as)))"
proof -
  have "clock n # map fst (clock_calls L clock wid eid as n) @ map fst (clock_calls L clock wid eid as (n + length as)) =
      map clock (n # [n..<n + length as + length as])"
    by (simp add: clock_calls_fst upt_add_eq_append [symmetric] flip: map_append)
  moreover have "sorted (map clock (n # [n..<n + length as + length as]))"
    using assms by (auto simp: sorted_map mono_def intro!: sorted_wrt_mono_rel [OF _ sorted_upt] sorted_wrt_map_mono)
  ultimately show ?thesis by simp
qed

lemma dedupe_alerts_calls:
  assumes "dedupe_alerts L fl clock wid eid alerts n st = (fresh, dups, n', st')"
  shows "fresh = map snd (filter fst (zip (answers (mark_if_new fl) (clock_calls L clock wid eid alerts n) st) alerts))"
    and "dups + int (length fresh) = int (length alerts)" and "n' = n + length alerts"
    and "st' = after_calls (mark_if_new fl) (clock_calls L clock wid eid alerts n) st"
proof -
  have "dedupe_alerts L fl clock wid eid alerts n st = (
      map snd (filter fst (zip (answers (mark_if_new fl) (clock_calls L clock wid eid alerts n) st) alerts)),
      int (length alerts) - int (length (filter fst (zip (answers (mark_if_new fl) (clock_calls L clock wid eid alerts n) st) alerts))),
      n + length alerts, after_calls (mark_if_new fl) (clock_calls L clock wid eid alerts n) st)"
  proof (induction alerts arbitrary: n st)
    case Nil
    then show ?case by (simp add: clock_calls_def)
  next
    case (Cons a alerts)
    show ?case by (simp add: clock_calls_Cons Cons.IH Let_def split: prod.split)
  qed
  with assms show "fresh = map snd (filter fst (zip (answers (mark_if_new fl) (clock_calls L clock wid eid alerts n) st) alerts))"
    and "dups + int (length fresh) = int (length alerts)" and "n' = n + length alerts"
    and "st' = after_calls (mark_if_new fl) (clock_calls L clock wid eid alerts n) st"
    by auto
qed

text \<open>The part of a graph run before the store, which the run does not change.\<close>

definition webhook_front :: "libs \<Rightarrow> pydict \<Rightarrow> string list \<Rightarrow> webhook_state" where
  "webhook_front L payload watched =
     filter_incoming (normalize_activity L (classify L (initial_webhook_state payload watched)))"

lemma run_webhook_eq:
  "run_webhook_graph L fl clock payload watched n st = (let s = webhook_front L payload watched in
     if wh_skipped s then (emit_alert s, n, st)
     else let (fresh, dups, n', st') = dedupe_alerts L fl clock (wh_webhook_id s) (wh_event_id s) (wh_filtered s) n st in
       (emit_alert (s\<lparr>wh_new_alerts := fresh, wh_duplicate_count := dups\<rparr>), n', st'))"
proof -
  let ?c = "classify L (initial_webhook_state payload watched)"
  have "wh_skipped (filter_incoming (normalize_activity L ?c)) = wh_skipped ?c"
    by (simp add: filter_incoming_def normalize_activity_def Let_def split: pyval.split)
  moreover have "wh_skipped ?c \<Longrightarrow> filter_incoming (normalize_activity L ?c) = ?c"
    by (simp add: filter_incoming_def normalize_activity_def)
  ultimately show ?thesis
    by (simp add: run_webhook_graph_def webhook_front_def route_after_classify_def dedupe_def Let_def split: prod.split)
qed

lemma skipped_no_alerts: "wh_skipped (webhook_front L payload watched) \<Longrightarrow> wh_new_alerts (webhook_front L payload watched) = []"
  by (auto simp: webhook_front_def filter_incoming_def normalize_activity_def classify_def initial_webhook_state_def Let_def
      split: if_splits pyval.splits)

lemma accepted_answers:
  "map snd (accepted mark cs s) = map snd (filter fst (zip (answers mark cs s) (map snd cs)))"
  by (induction mark cs s rule: accepted.induct) simp_all

text \<open>What a delivery received after filtering, and what it emitted, by the keys of the store.\<close>

definition received :: "libs \<Rightarrow> webhook_state \<Rightarrow> dedupe_key set" where
  "received L s = alert_key L (wh_webhook_id s) (wh_event_id s) ` set (wh_filtered s)"

definition emitted :: "libs \<Rightarrow> webhook_state \<Rightarrow> dedupe_key list" where
  "emitted L s = map (alert_key L (wh_webhook_id s) (wh_event_id s)) (wh_new_alerts s)"

text \<open>A sequence of deliveries, each with its own payload and watched addresses.\<close>

fun run_deliveries :: "libs \<Rightarrow> (rat \<Rightarrow> rat) \<Rightarrow> (nat \<Rightarrow> rat) \<Rightarrow> (pydict \<times> string list) list \<Rightarrow> nat \<Rightarrow> dedupe_store
     \<Rightarrow> webhook_state list \<times> nat \<times> dedupe_store" where
  "run_deliveries L fl clock [] n st = ([], n, st)"
| "run_deliveries L fl clock ((payload, watched) # ds) n st =
     (let (s, n1, st1) = run_webhook_graph L fl clock payload watched n st;
          (ss, n2, st2) = run_deliveries L fl clock ds n1 st1 in (s # ss, n2, st2))"

lemma delivery_calls:
  assumes "run_webhook_graph L fl clock payload watched n st = (s, n', st')"
  shows "\<exists>cs. map fst cs = map clock [n..<n'] \<and> n \<le> n' \<and> emitted L s = map snd (accepted (mark_if_new fl) cs st) \<and>
    received L s = snd ` set cs \<and> st' = after_calls (mark_if_new fl) cs st"
proof -
  let ?s = "webhook_front L payload watched"
  show ?thesis
  proof (cases "wh_skipped ?s")
    case True
    have "wh_filtered ?s = []" using True
      by (auto simp: webhook_front_def filter_incoming_def normalize_activity_def classify_def initial_webhook_state_def Let_def
          split: if_splits pyval.splits)
    with True assms skipped_no_alerts [OF True] show ?thesis
      by (intro exI [of _ "[]"]) (auto simp: run_webhook_eq Let_def emit_alert_def emitted_def received_def)
  next
    case False
    let ?cs = "clock_calls L clock (wh_webhook_id ?s) (wh_event_id ?s) (wh_filtered ?s) n"
    obtain f d m t where one: "dedupe_alerts L fl clock (wh_webhook_id ?s) (wh_event_id ?s) (wh_filtered ?s) n st = (f, d, m, t)"
      using prod_cases4 by blast
    with assms False have s: "wh_filtered s = wh_filtered ?s" "wh_webhook_id s = wh_webhook_id ?s" "wh_event_id s = wh_event_id ?s"
      "wh_new_alerts s = f" "n' = m" "st' = t" by (auto simp: run_webhook_eq Let_def emit_alert_def)
    note c = dedupe_alerts_calls [OF one]
    have keys: "map snd ?cs = map (alert_key L (wh_webhook_id ?s) (wh_event_id ?s)) (wh_filtered ?s)"
      by (simp add: clock_calls_def comp_def) (rule nth_equalityI; simp)
    have "emitted L s = map snd (accepted (mark_if_new fl) ?cs st)"
      unfolding accepted_answers keys by (simp add: emitted_def s c(1) zip_map2 filter_map comp_def case_prod_unfold)
    then show ?thesis using c(3,4) s clock_calls_fst [of L clock _ _ _ n] clock_calls_keys
      by (intro exI [of _ ?cs]) (simp add: received_def)
  qed
qed

lemma deliveries_calls:
  "run_deliveries L fl clock ds n st = (ss, n', st') \<Longrightarrow> \<exists>cs. map fst cs = map clock [n..<n'] \<and> n \<le> n' \<and>
     concat (map (emitted L) ss) = map snd (accepted (mark_if_new fl) cs st) \<and> \<Union> (received L ` set ss) = snd ` set cs \<and>
     st' = after_calls (mark_if_new fl) cs st"
proof (induction ds arbitrary: n st ss)
  case Nil
  then show ?case by simp
next
  case (Cons d ds)
  obtain payload watched where d: "d = (payload, watched)" by (cases d)
  obtain s n1 st1 where one: "run_webhook_graph L fl clock payload watched n st = (s, n1, st1)" using prod_cases3 by blast
  obtain ss1 n2 st2 where rest: "run_deliveries L fl clock ds n1 st1 = (ss1, n2, st2)" using prod_cases3 by blast
  from Cons.prems d one rest have r: "ss = s # ss1" "n' = n2" "st' = st2" by simp_all
  from delivery_calls [OF one] obtain cs where cs: "map fst cs = map clock [n..<n1]" "n \<le> n1"
    "emitted L s = map snd (accepted (mark_if_new fl) cs st)" "received L s = snd ` set cs"
    "st1 = after_calls (mark_if_new fl) cs st" by blast
  from Cons.IH [OF rest [folded r(2,3)]] obtain cs1 where cs1: "map fst cs1 = map clock [n1..<n']" "n1 \<le> n'"
    "concat (map (emitted L) ss1) = map snd (accepted (mark_if_new fl) cs1 st1)" "\<Union> (received L ` set ss1) = snd ` set cs1"
    "st' = after_calls (mark_if_new fl) cs1 st1" by blast
  have "[n..<n'] = [n..<n1] @ [n1..<n']" using cs(2) cs1(2) by (metis le_Suc_ex upt_add_eq_append)
  with cs cs1 r show ?case
    by (intro exI [of _ "cs @ cs1"]) (auto simp: accepted_append after_calls_append image_Un)
qed

lemma run_deliveries_take:
  "run_deliveries L fl clock ds n st = (ss, n', st') \<Longrightarrow> \<exists>n1 st1. run_deliveries L fl clock (take j ds) n st = (take j ss, n1, st1)"
proof (induction ds arbitrary: n st ss j)
  case (Cons d ds)
  obtain payload watched where d: "d = (payload, watched)" by (cases d)
  obtain s n1 st1 where one: "run_webhook_graph L fl clock payload watched n st = (s, n1, st1)" using prod_cases3 by blast
  obtain ss1 n2 st2 where rest: "run_deliveries L fl clock ds n1 st1 = (ss1, n2, st2)" using prod_cases3 by blast
  from Cons.prems d one rest have r: "ss = s # ss1" "n' = n2" "st' = st2" by simp_all
  show ?case
  proof (cases j)
    case (Suc i)
    from Cons.IH [OF rest [folded r(2,3)], of i] d one r(1) Suc show ?thesis by auto
  qed simp
qed simp

lemma alive_finite: "finite {k. key_alive st t k}"
proof -
  have "{k. key_alive st t k} \<subseteq> fst ` set (ds_expires_at st)"
    by (auto simp: key_alive_def image_iff split: option.splits dest!: map_of_SomeD) force
  then show ?thesis by (rule finite_subset) simp
qed

lemma key_dead_later: "\<not> key_alive st t k \<Longrightarrow> t \<le> u \<Longrightarrow> \<not> key_alive st u k"
  by (auto simp: key_alive_def split: option.splits)

lemma clock_sorted: "mono clock \<Longrightarrow> sorted (clock n # map clock [n..<n'])"
  by (auto simp: sorted_map mono_def intro!: sorted_wrt_mono_rel [OF _ sorted_upt])

text \<open>C32: over any sequence of deliveries, with any payloads, retries anywhere among them included, every alert is
  emitted once: no key (webhook, event, transaction hash, log index) is emitted by two deliveries or twice by one, and every
  key that is received and was not already remembered is emitted by the delivery that brings it first or by an
  earlier one. So a retry emits nothing that was emitted before, whatever came in between. This holds as long as the whole
  sequence lies within the time to live, the clock does not go back, and the store has room for the keys it remembers and those
  that arrive.\<close>

theorem alerts_are_emitted_once:
  assumes "run_deliveries L fl clock ds n st = (ss, n', st')" and "mono clock" and "wf_dedupe st"
    and "int (card ({k. key_alive st (clock n) k} \<union> \<Union> (received L ` set ss))) \<le> ds_max st"
    and "\<forall>i j. n \<le> i \<and> i \<le> j \<and> j < n' \<longrightarrow> clock j < fl (clock i + ds_ttl st)"
  shows "distinct (concat (map (emitted L) ss)) \<and>
    (\<forall>j < length ss. \<forall>k \<in> received L (ss ! j). \<not> key_alive st (clock n) k \<longrightarrow> (\<exists>i \<le> j. k \<in> set (emitted L (ss ! i))))"
proof -
  let ?K = "{k. key_alive st (clock n) k} \<union> \<Union> (received L ` set ss)"
  have room: "has_room (ds_ttl st) st (clock n) ?K"
    using assms(3,4) alive_finite by (auto simp: has_room_def received_def)
  from deliveries_calls [OF assms(1)] obtain cs where cs: "map fst cs = map clock [n..<n']"
    "concat (map (emitted L) ss) = map snd (accepted (mark_if_new fl) cs st)" "\<Union> (received L ` set ss) = snd ` set cs" by blast
  have times: "fst ` set cs = clock ` {n..<n'}" using arg_cong [OF cs(1), of set] by simp
  have "t < fl (u + ds_ttl st)" if "t \<in> fst ` set cs" "u \<in> fst ` set cs" "u \<le> t" for t u
  proof -
    from that(1,2) times obtain i j where ij: "n \<le> i" "i < n'" "u = clock i" "n \<le> j" "j < n'" "t = clock j" by auto
    show ?thesis
    proof (cases "i \<le> j")
      case False
      then have "t = u" using monoD [OF assms(2), of j i] ij that(3) by simp
      with ij assms(5) show ?thesis by auto
    qed (use ij assms(5) in auto)
  qed
  then have "distinct (map snd (accepted (mark_if_new fl) cs st))"
    using dedupe.accepted_once [OF room, of cs fl] cs clock_sorted [OF assms(2), of n n'] by simp
  moreover have "\<exists>i \<le> j. k \<in> set (emitted L (ss ! i))"
    if "j < length ss" "k \<in> received L (ss ! j)" "\<not> key_alive st (clock n) k" for j k
  proof -
    from run_deliveries_take [OF assms(1)] obtain n1 st1 where
      "run_deliveries L fl clock (take (Suc j) ds) n st = (take (Suc j) ss, n1, st1)" by blast
    from deliveries_calls [OF this] obtain cs1 where cs1: "map fst cs1 = map clock [n..<n1]"
      "concat (map (emitted L) (take (Suc j) ss)) = map snd (accepted (mark_if_new fl) cs1 st)"
      "\<Union> (received L ` set (take (Suc j) ss)) = snd ` set cs1" by blast
    have at: "ss ! j \<in> set (take (Suc j) ss)" using that(1) by (simp add: take_Suc_conv_app_nth)
    have "snd ` set cs1 \<subseteq> ?K" using cs1(3) set_take_subset [of "Suc j" ss] by blast
    moreover have "k \<in> snd ` set cs1" using cs1(3) at that(2) by blast
    ultimately have "k \<in> snd ` set (accepted (mark_if_new fl) cs1 st)"
      using dedupe.dead_accepted [OF room, of cs1 k fl] cs1(1) clock_sorted [OF assms(2), of n n1]
        key_dead_later [OF that(3)] by simp
    then have "k \<in> set (concat (map (emitted L) (take (Suc j) ss)))" by (simp add: cs1(2))
    then obtain x where x: "x \<in> set (take (Suc j) ss)" "k \<in> set (emitted L x)" by auto
    from x(1) obtain i where "i < length (take (Suc j) ss)" "take (Suc j) ss ! i = x" by (metis in_set_conv_nth)
    with x(2) have "i < length (take (Suc j) ss)" "k \<in> set (emitted L (take (Suc j) ss ! i))" by simp_all
    then show ?thesis by (intro exI [of _ i]) simp
  qed
  ultimately show ?thesis using cs(2) by simp
qed

definition demo_delivery :: pydict where
  "demo_delivery = [(''type'', PStr ADDRESS_ACTIVITY), (''webhookId'', PStr ''wh''), (''id'', PStr ''ev''),
     (''event'', PDict [(''network'', PStr ''ETH''), (''activity'', PList [PDict [(''hash'', PStr ''0xab'')]])])]"

lemma demo_webhook_front:
  "webhook_front lower_libs demo_delivery [] = (initial_webhook_state demo_delivery [])\<lparr>wh_webhook_id := ''wh'', wh_event_id := ''ev'',
     wh_network := Some ''ETH'', wh_normalized := [row_to_alert lower_libs ''ETH'' [(''hash'', PStr ''0xab'')]],
     wh_filtered := [row_to_alert lower_libs ''ETH'' [(''hash'', PStr ''0xab'')]]\<rparr>"
  by (simp add: webhook_front_def classify_def demo_delivery_def initial_webhook_state_def normalize_activity_def
      normalize_activity_rows_def filter_incoming_def filter_incoming_for_watched_def dget_default_def Let_def
      List.map_filter_def ADDRESS_ACTIVITY_def)

theorem alerts_are_emitted_once_witness:
  "\<exists>ss n st. run_deliveries lower_libs id of_nat [(demo_delivery, []), ([], []), (demo_delivery, [])] 0 default_dedupe_store = (ss, n, st) \<and>
    received lower_libs (ss ! 0) \<noteq> {} \<and> distinct (concat (map (emitted lower_libs) ss)) \<and>
    (\<forall>k \<in> received lower_libs (ss ! 0). k \<in> set (emitted lower_libs (ss ! 0)))"
proof -
  let ?ds = "[(demo_delivery, []), ([], []), (demo_delivery, [])] :: (pydict \<times> string list) list"
  let ?run = "run_webhook_graph lower_libs id (of_nat :: nat \<Rightarrow> rat)"
  let ?row = "row_to_alert lower_libs ''ETH'' [(''hash'', PStr ''0xab'')]"
  let ?key = "alert_key lower_libs ''wh'' ''ev'' ?row"
  have del: "\<exists>s st'. ?run demo_delivery [] n st = (s, Suc n, st') \<and> received lower_libs s = {?key}" for n st
    by (auto simp: run_webhook_eq demo_webhook_front initial_webhook_state_def emit_alert_def Let_def received_def split: prod.split)
  have other: "\<exists>s. ?run [] [] n st = (s, n, st) \<and> received lower_libs s = {}" for n st
    by (simp add: run_webhook_graph_def classify_def route_after_classify_def initial_webhook_state_def emit_alert_def received_def
        ADDRESS_ACTIVITY_def Let_def)
  obtain s1 st1 where r1: "?run demo_delivery [] 0 default_dedupe_store = (s1, 1, st1)" "received lower_libs s1 = {?key}"
    using del [of 0 default_dedupe_store] unfolding One_nat_def by blast
  obtain s2 where r2: "?run [] [] 1 st1 = (s2, 1, st1)" "received lower_libs s2 = {}" using other by blast
  obtain s3 st3 where r3: "?run demo_delivery [] 1 st1 = (s3, 2, st3)" "received lower_libs s3 = {?key}"
    using del [of 1 st1] unfolding numeral_2_eq_2 One_nat_def by blast
  have run: "run_deliveries lower_libs id of_nat ?ds 0 default_dedupe_store = ([s1, s2, s3], 2, st3)"
    using r1 r2 r3 by simp
  have dead: "\<not> key_alive default_dedupe_store t k" for t k
    by (simp add: key_alive_def default_dedupe_store_def new_dedupe_store_def)
  have "distinct (concat (map (emitted lower_libs) [s1, s2, s3])) \<and>
    (\<forall>j < length [s1, s2, s3]. \<forall>k \<in> received lower_libs ([s1, s2, s3] ! j). \<not> key_alive default_dedupe_store (of_nat 0) k \<longrightarrow>
      (\<exists>i \<le> j. k \<in> set (emitted lower_libs ([s1, s2, s3] ! i))))"
  proof (rule alerts_are_emitted_once [OF run])
    have "ds_max default_dedupe_store = 50000" by (simp add: default_dedupe_store_def new_dedupe_store_def)
    then show "int (card ({k. key_alive default_dedupe_store (of_nat 0) k} \<union> \<Union> (received lower_libs ` set [s1, s2, s3])))
        \<le> ds_max default_dedupe_store" using r1(2) r2(2) r3(2) by (simp add: dead)
  qed (auto simp: mono_def wf_dedupe_def default_dedupe_store_def new_dedupe_store_def)
  with dead have "distinct (concat (map (emitted lower_libs) [s1, s2, s3]))"
    "\<forall>k \<in> received lower_libs ([s1, s2, s3] ! 0). k \<in> set (emitted lower_libs ([s1, s2, s3] ! 0))" by auto
  with run r1(2) show ?thesis by (intro exI [of _ "[s1, s2, s3]"] exI [of _ 2] exI [of _ st3]) simp
qed

section \<open>Signatures\<close>

lemma hex_digit_in: "n < 16 \<Longrightarrow> hex_digit n \<in> set HEX_DIGITS"
proof -
  have "\<forall>n \<in> {..<16}. hex_digit n \<in> set HEX_DIGITS" by code_simp
  then show "n < 16 \<Longrightarrow> hex_digit n \<in> set HEX_DIGITS" by simp
qed

lemma hexdigest_hex: "set (hexdigest bs) \<subseteq> set HEX_DIGITS"
proof (induction bs)
  case (Cons b bs)
  have "unat b < 2 ^ LENGTH(8)" by (rule unsigned_less)
  then have "unat b < 256" by simp
  then have "unat b div 16 < 16" "unat b mod 16 < 16" by auto
  with Cons hex_digit_in show ?case by (simp add: hexdigest_def byte_hex_def)
qed (simp add: hexdigest_def)

text \<open>A signature is accepted exactly when the signing key is not empty and the header, without surrounding space and
  \<^verbatim>\<open>0x\<close> prefix and in lower case, is the hexadecimal HMAC-SHA256 of the raw body under the key.\<close>

theorem signature_check_exact:
  "is_valid_signature_for_string_body body signature key \<longleftrightarrow>
     key \<noteq> [] \<and> signature_text signature = hexdigest (hmac_sha256 (utf8_encode key) body)"
proof -
  let ?d = "hexdigest (hmac_sha256 (utf8_encode key) body)"
  have l: "length ?d = 64" by (simp add: hexdigest_length hmac_length)
  then have "?d \<noteq> []" by auto
  moreover have "signature_text [] = []" by (simp add: signature_text_def py_lower_def)
  moreover have "\<not> list_ex (\<lambda>c. c \<notin> set HEX_DIGITS) ?d" using hexdigest_hex by (auto simp: list_ex_iff)
  ultimately show ?thesis by (auto simp: is_valid_signature_for_string_body_def Let_def)
qed

lemma signature_text_digest: "signature_text (hexdigest bs) = hexdigest bs"
proof -
  have h: "\<forall>c \<in> set HEX_DIGITS. lower_char c = c \<and> \<not> is_space c \<and> c \<noteq> CHR ''x''" by code_simp
  with hexdigest_hex have c: "\<forall>c \<in> set (hexdigest bs). lower_char c = c \<and> \<not> is_space c \<and> c \<noteq> CHR ''x''" by blast
  then have low: "py_lower (hexdigest bs) = hexdigest bs" by (simp add: py_lower_def map_idI)
  have strip: "py_strip (hexdigest bs) = hexdigest bs" using c by (intro py_strip_no_space) (auto simp: list_all_iff)
  have "CHR ''x'' \<notin> set (take 2 (hexdigest bs))" using c by (blast dest: in_set_takeD)
  then have "take 2 (hexdigest bs) \<noteq> ''0x''" by auto
  then show ?thesis by (simp add: signature_text_def low strip)
qed

text \<open>The specification of the header: the digest, in any case and with space around it, behind an optional \<^verbatim>\<open>0x\<close>.\<close>

definition carries_digest :: "string \<Rightarrow> string \<Rightarrow> bool" where
  "carries_digest header digest \<longleftrightarrow> (\<exists>z core. py_strip header = z @ core \<and> z \<in> {[], ''0x'', ''0X''} \<and>
     py_lower (py_strip core) = digest)"

lemma zero_x_prefix: "take 2 (py_lower s) = ''0x'' \<longleftrightarrow> take 2 s = ''0x'' \<or> take 2 s = ''0X''"
proof -
  have l: "lower_char c = CHR ''0'' \<longleftrightarrow> c = CHR ''0''" "lower_char c = CHR ''x'' \<longleftrightarrow> c = CHR ''x'' \<or> c = CHR ''X''" for c
  proof -
    let ?n = "of_char c :: nat"
    have n: "of_char (lower_char c) = (if (65 \<le> ?n \<and> ?n \<le> 90) \<or> (192 \<le> ?n \<and> ?n \<le> 222 \<and> ?n \<noteq> 215) then ?n + 32 else ?n)"
      by (simp add: lower_char_def Let_def)
    have eq: "a = b \<longleftrightarrow> (of_char a :: nat) = of_char b" for a b :: char by simp
    show "lower_char c = CHR ''0'' \<longleftrightarrow> c = CHR ''0''" "lower_char c = CHR ''x'' \<longleftrightarrow> c = CHR ''x'' \<or> c = CHR ''X''"
      unfolding eq n by auto
  qed
  show ?thesis
    by (cases s; cases "tl s") (auto simp: py_lower_def l)
qed

lemma signature_text_carries: "signature_text header = hexdigest bs \<longleftrightarrow> carries_digest header (hexdigest bs)"
proof -
  let ?s = "py_strip header"
  have no_x: "take 2 (hexdigest bs) \<noteq> ''0x''"
  proof -
    have "\<forall>c \<in> set HEX_DIGITS. c \<noteq> CHR ''x''" by code_simp
    with hexdigest_hex have "CHR ''x'' \<notin> set (take 2 (hexdigest bs))" by (blast dest: in_set_takeD)
    then show ?thesis by auto
  qed
  have plain: "py_strip ?s = ?s" by simp
  show ?thesis
  proof (cases "take 2 (py_lower ?s) = ''0x''")
    case True
    then have z: "take 2 ?s \<in> {''0x'', ''0X''}" by (simp add: zero_x_prefix)
    have "carries_digest header (hexdigest bs)" if "py_lower (py_strip (drop 2 ?s)) = hexdigest bs"
      unfolding carries_digest_def using z that by (metis append_take_drop_id insertCI)
    moreover have "py_lower (py_strip (drop 2 ?s)) = hexdigest bs" if "carries_digest header (hexdigest bs)"
    proof -
      from that obtain z' core where c: "?s = z' @ core" "z' \<in> {[], ''0x'', ''0X''}" "py_lower (py_strip core) = hexdigest bs"
        by (auto simp: carries_digest_def)
      show ?thesis
      proof (cases "z' = []")
        case True
        with c plain \<open>take 2 (py_lower ?s) = ''0x''\<close> no_x show ?thesis by simp
      next
        case False
        with c show ?thesis by auto
      qed
    qed
    ultimately show ?thesis using True by (auto simp: signature_text_def Let_def)
  next
    case False
    then have "take 2 ?s \<noteq> ''0x''" "take 2 ?s \<noteq> ''0X''" by (simp_all add: zero_x_prefix)
    then have "py_lower (py_strip ?s) = hexdigest bs" if "carries_digest header (hexdigest bs)"
      using that unfolding carries_digest_def by auto
    moreover have "carries_digest header (hexdigest bs)" if "py_lower (py_strip ?s) = hexdigest bs"
      using that unfolding carries_digest_def by (intro exI [of _ "[]"] exI [of _ ?s]) simp
    ultimately have "carries_digest header (hexdigest bs) \<longleftrightarrow> py_lower (py_strip ?s) = hexdigest bs" by blast
    with False show ?thesis by (simp add: signature_text_def Let_def)
  qed
qed

text \<open>C29: the endpoint runs the webhook graph, answers with a summary and changes its state only for a request whose signature
  header carries the HMAC-SHA256 of the raw body under the configured signing key. Every other request leaves the
  state as it is and is answered with an error: 401 without a signature header, the error of the key lookup (503 when it is
  the endpoint's own) when there is no signing key, 403 for a wrong signature, and 400 when the signed body is no JSON object.\<close>

theorem webhook_needs_valid_signature:
  assumes "alchemy_address_activity_webhook L fl clock json_loads store req app = (r, app')"
  shows "(wr_signature req = None \<or> wr_signature req = Some [] \<longrightarrow> app' = app \<and> (\<exists>m. r = Inl (HTTPException 401 m))) \<and>
    (\<forall>header. wr_signature req = Some header \<and> header \<noteq> [] \<longrightarrow>
      (\<forall>e. webhook_signing_key store app = Inl e \<longrightarrow> app' = app \<and> r = Inl e \<and> (\<forall>c m. e = HTTPException c m \<longrightarrow> c = 503)) \<and>
      (\<forall>key. webhook_signing_key store app = Inr key \<longrightarrow>
        (let genuine = (key \<noteq> [] \<and> carries_digest header (hexdigest (hmac_sha256 (utf8_encode key) (wr_body req)))) in
         (\<not> genuine \<longrightarrow> app' = app \<and> (\<exists>m. r = Inl (HTTPException 403 m))) \<and>
         (genuine \<and> (\<forall>payload. json_loads (wr_body req) \<noteq> Some (PDict payload)) \<longrightarrow>
            app' = app \<and> (\<exists>m. r = Inl (HTTPException 400 m))) \<and>
         (\<forall>payload. genuine \<and> json_loads (wr_body req) = Some (PDict payload) \<longrightarrow>
            (\<exists>s n st summary. run_webhook_graph L fl clock payload
                (merge_watched_addresses (wr_watched_addresses req) (Some payload)) (app_clock_pos app)
                (alchemy_webhook_dedupe_store app) = (s, n, st) \<and>
              wh_summary s = Some summary \<and> r = Inr summary \<and> app' = app\<lparr>app_dedupe := Some st, app_clock_pos := n\<rparr>)))))"
proof (cases "wr_signature req = None \<or> wr_signature req = Some []")
  case True
  with assms show ?thesis by (auto simp: alchemy_address_activity_webhook_def)
next
  case False
  then obtain header where h: "wr_signature req = Some header" "header \<noteq> []" by auto
  then obtain c cs where cs: "header = c # cs" by (cases header) auto
  show ?thesis
  proof (cases "webhook_signing_key store app")
    case (Inl e)
    have "c = 503" if "e = HTTPException c m" for c m
      using Inl that by (auto simp: webhook_signing_key_def split: if_splits sum.splits exn.splits exn_class.splits)
    with assms h cs Inl show ?thesis by (auto simp: alchemy_address_activity_webhook_def)
  next
    case (Inr key)
    have genuine: "is_valid_signature_for_string_body (wr_body req) header key \<longleftrightarrow>
        key \<noteq> [] \<and> carries_digest header (hexdigest (hmac_sha256 (utf8_encode key) (wr_body req)))"
      by (simp add: signature_check_exact signature_text_carries)
    have answered: "\<exists>summary. wh_summary s = Some summary" if "run_webhook_graph L fl clock p w n st = (s, n', st')" for p w n st s n' st'
      using that by (auto simp: run_webhook_eq emit_alert_def Let_def split: prod.splits if_splits)
    show ?thesis
    proof (cases "is_valid_signature_for_string_body (wr_body req) header key")
      case False
      with assms h cs Inr genuine show ?thesis by (auto simp: alchemy_address_activity_webhook_def Let_def)
    next
      case True
      show ?thesis
      proof (cases "\<exists>payload. json_loads (wr_body req) = Some (PDict payload)")
        case False
        with assms h cs Inr True genuine show ?thesis
          by (auto simp: alchemy_address_activity_webhook_def Let_def split: option.splits pyval.splits)
      next
        case obj: True
        then obtain payload where p: "json_loads (wr_body req) = Some (PDict payload)" by blast
        obtain s n st where run: "run_webhook_graph L fl clock payload
            (merge_watched_addresses (wr_watched_addresses req) (Some payload)) (app_clock_pos app)
            (alchemy_webhook_dedupe_store app) = (s, n, st)" using prod_cases3 by blast
        with answered [OF run] assms h cs Inr True genuine p show ?thesis
          by (auto simp: alchemy_address_activity_webhook_def Let_def)
      qed
    qed
  qed
qed

definition demo_app :: webhook_app where
  "demo_app = \<lparr>app_settings = default_settings, app_key_overlay = PStr ''k'', app_dedupe = None, app_clock_pos = 0\<rparr>"

definition demo_webhook_request :: webhook_request where
  "demo_webhook_request = \<lparr>wr_body = [], wr_signature = Some (hexdigest (hmac_sha256 (utf8_encode ''k'') [])),
     wr_watched_addresses = None\<rparr>"

theorem webhook_needs_valid_signature_witness:
  "\<exists>r app'. alchemy_address_activity_webhook lower_libs id of_nat (\<lambda>_. Some (PDict [])) None demo_webhook_request demo_app = (Inr r, app') \<and>
    (\<exists>s :: webhook_state. wh_summary s = Some r \<and> app' \<noteq> demo_app)"
proof -
  let ?d = "hexdigest (hmac_sha256 (utf8_encode ''k'') [])"
  have k: "webhook_signing_key None demo_app = Inr ''k''"
  proof -
    have "py_strip ''k'' = ''k''" by code_simp
    then show ?thesis by (simp add: webhook_signing_key_def demo_app_def key_overlay_def resolve_alchemy_webhook_signing_key_def)
  qed
  have ne: "?d \<noteq> []" using hexdigest_length [of "hmac_sha256 (utf8_encode ''k'') []"] hmac_length by auto
  obtain r app' where r: "alchemy_address_activity_webhook lower_libs id of_nat (\<lambda>_. Some (PDict [])) None
      demo_webhook_request demo_app = (r, app')" by (metis surj_pair)
  have h: "wr_signature demo_webhook_request = Some ?d" "wr_body demo_webhook_request = []" by (simp_all add: demo_webhook_request_def)
  have c: "''k'' \<noteq> [] \<and> carries_digest ?d ?d" using signature_text_digest signature_text_carries by simp
  note signed = webhook_needs_valid_signature [OF r, THEN conjunct2, THEN spec, THEN mp, OF conjI [OF h(1) ne], THEN conjunct2,
      THEN spec, THEN mp, OF k, unfolded Let_def h(2), THEN conjunct2, THEN conjunct2, THEN spec, THEN mp, OF conjI [OF c refl]]
  then obtain s :: webhook_state and n st summary where "wh_summary s = Some summary" "r = Inr summary"
    "app' = demo_app\<lparr>app_dedupe := Some st, app_clock_pos := n\<rparr>" by blast
  moreover from this have "app' \<noteq> demo_app" by (auto simp: demo_app_def)
  ultimately show ?thesis using r by blast
qed

end
