(* ===== verification/Json_Text.thy ===== *)
theory Json_Text
  imports Transaction_Builders
begin

text \<open>
  JSON texts, as Python's \<^verbatim>\<open>json\<close> module reads and writes them: \<open>json.loads\<close> with the messages and positions of its
  \<open>JSONDecodeError\<close>, and \<open>json.dumps\<close> with its default separators. The Juno plugin, the log lines and the
  HTTP clients use them. The values of float literals and the characters beyond Latin-1 are a parameter.
\<close>

section \<open>Reading\<close>

record json_env =
  json_float :: "string \<Rightarrow> pyval"
  json_wide :: "nat \<Rightarrow> string"

text \<open>An error of the scanner: a message with the text from the position it reports, or another exception.\<close>

datatype scan_error = Malformed string string | Raised exn

type_synonym 'a scan = "scan_error + ('a \<times> string)"

definition scan_map :: "('a \<Rightarrow> 'b) \<Rightarrow> 'a scan \<Rightarrow> 'b scan" where
  "scan_map f r = (case r of Inl e \<Rightarrow> Inl e | Inr (x, s) \<Rightarrow> Inr (f x, s))"

lemma scan_map_simps [simp]: "scan_map f (Inl e) = Inl e" "scan_map f (Inr (x, s)) = Inr (f x, s)"
  by (simp_all add: scan_map_def)

lemma scan_map_Inr: "scan_map f r = Inr (y, s) \<longleftrightarrow> (\<exists>x. r = Inr (x, s) \<and> y = f x)"
  by (auto simp: scan_map_def split: sum.splits)

definition is_json_space :: "char \<Rightarrow> bool" where
  "is_json_space c \<longleftrightarrow> c \<in> {CHR '' '', CHR 0x09, CHR 0x0A, CHR 0x0D}"

definition skip_space :: "string \<Rightarrow> string" where
  "skip_space s = dropWhile is_json_space s"

lemma skip_space_length: "length (skip_space s) \<le> length s"
  by (simp add: skip_space_def length_dropWhile_le)

lemma skip_space_ConsD: "skip_space s = c # r \<Longrightarrow> length r < length s"
  using skip_space_length [of s] by simp

subsection \<open>Strings\<close>

definition simple_escape :: "char \<Rightarrow> char option" where
  "simple_escape c = (if c \<in> {CHR 0x22, CHR 0x5C, CHR ''/''} then Some c
     else if c = CHR ''b'' then Some (CHR 0x08) else if c = CHR ''f'' then Some (CHR 0x0C)
     else if c = CHR ''n'' then Some (CHR 0x0A) else if c = CHR ''r'' then Some (CHR 0x0D)
     else if c = CHR ''t'' then Some (CHR 0x09) else None)"

definition json_char :: "json_env \<Rightarrow> nat \<Rightarrow> string" where
  "json_char E n = (if n < 256 then [char_of n] else json_wide E n)"

definition BAD_UNICODE_ESCAPE :: string where
  "BAD_UNICODE_ESCAPE = ''Invalid '' @ [CHR 0x5C] @ ''uXXXX escape''"

text \<open>
  The escape that follows \<open>u\<close>: four hexadecimal digits that are not the last characters of the document, and the second
  half of a surrogate pair when it follows.
\<close>

definition unicode_escape :: "json_env \<Rightarrow> string \<Rightarrow> string scan" where
  "unicode_escape E s = (
     if length s \<le> 4 \<or> \<not> list_all is_hex_char (take 4 s) then Inl (Malformed BAD_UNICODE_ESCAPE (CHR ''u'' # s))
     else let n = text_hex_nat (take 4 s); s' = drop 4 s in
       if 0xD800 \<le> n \<and> n < 0xDC00 \<and> 6 < length s' \<and> take 2 s' = [CHR 0x5C, CHR ''u''] then
         if \<not> list_all is_hex_char (take 4 (drop 2 s')) then Inl (Malformed BAD_UNICODE_ESCAPE (drop 1 s'))
         else let m = text_hex_nat (take 4 (drop 2 s')) in
           if 0xDC00 \<le> m \<and> m < 0xE000 then Inr (json_char E (0x10000 + (n - 0xD800) * 0x400 + (m - 0xDC00)), drop 6 s')
           else Inr (json_char E n, s')
       else Inr (json_char E n, s'))"

lemma unicode_escape_length: "unicode_escape E s = Inr (x, r) \<Longrightarrow> length r < length s"
  by (auto simp: unicode_escape_def Let_def split: if_splits)

text \<open>The characters of a string up to its closing quote; \<open>start\<close> is the text from the opening quote.\<close>

function json_string :: "json_env \<Rightarrow> string \<Rightarrow> string \<Rightarrow> string scan" where
  "json_string E start [] = Inl (Malformed ''Unterminated string starting at'' start)"
| "json_string E start (c # s) = (
     if c = CHR 0x22 then Inr ([], s)
     else if c = CHR 0x5C then
       (case s of
          [] \<Rightarrow> Inl (Malformed ''Unterminated string starting at'' start)
        | e # s' \<Rightarrow>
            if e = CHR ''u'' then
              (case unicode_escape E s' of
                 Inl x \<Rightarrow> Inl x
               | Inr (t, r) \<Rightarrow> scan_map (\<lambda>u. t @ u) (json_string E start r))
            else (case simple_escape e of
                 None \<Rightarrow> Inl (Malformed (''Invalid '' @ [CHR 0x5C] @ ''escape'') (c # s))
               | Some d \<Rightarrow> scan_map (\<lambda>u. d # u) (json_string E start s')))
     else if code_point c \<le> 31 then Inl (Malformed ''Invalid control character at'' (c # s))
     else scan_map (\<lambda>u. c # u) (json_string E start s))"
  by pat_completeness auto

termination
  by (relation "measure (\<lambda>(E, start, s). length s)") (auto dest: unicode_escape_length)

lemma json_string_length: "json_string E start s = Inr (t, r) \<Longrightarrow> length r < length s"
proof (induction E start s arbitrary: t rule: json_string.induct)
  case (2 E start c s)
  then show ?case
    by (fastforce simp: scan_map_Inr dest: unicode_escape_length split: if_splits list.splits sum.splits option.splits)
qed simp

subsection \<open>Numbers\<close>

definition MAX_STR_DIGITS :: nat where
  "MAX_STR_DIGITS = 4300"

text \<open>\<open>int(text)\<close> of a literal; the interpreter refuses texts of too many digits.\<close>

definition int_literal :: "bool \<Rightarrow> string \<Rightarrow> scan_error + pyval" where
  "int_literal neg ds = (
     if MAX_STR_DIGITS < length ds then Inl (Raised (Exn ValueError
       (''Exceeds the limit (4300 digits) for integer string conversion: value has '' @ nat_text (length ds) @
        '' digits; use sys.set_int_max_str_digits() to increase the limit'')))
     else Inr (PInt (if neg then - int (text_nat ds) else int (text_nat ds))))"

definition take_digits :: "string \<Rightarrow> string" where
  "take_digits s = takeWhile is_decimal_char s"

definition drop_digits :: "string \<Rightarrow> string" where
  "drop_digits s = dropWhile is_decimal_char s"

text \<open>The fraction and the exponent at the start of a text, and what follows them.\<close>

definition fraction :: "string \<Rightarrow> string \<times> string" where
  "fraction s = (case s of
       c # d # r \<Rightarrow> if c = CHR ''.'' \<and> is_decimal_char d then (c # take_digits (d # r), drop_digits (d # r)) else ([], s)
     | _ \<Rightarrow> ([], s))"

definition exponent :: "string \<Rightarrow> string \<times> string" where
  "exponent s = (case s of
       [] \<Rightarrow> ([], s)
     | c # r \<Rightarrow> (let sign = (case r of d # r' \<Rightarrow> if d \<in> {CHR ''+'', CHR ''-''} then [d] else [] | [] \<Rightarrow> []);
           r' = drop (length sign) r in
         if c \<in> {CHR ''e'', CHR ''E''} \<and> take_digits r' \<noteq> [] then (c # sign @ take_digits r', drop_digits r') else ([], s)))"

definition number_tail :: "json_env \<Rightarrow> bool \<Rightarrow> string \<Rightarrow> string \<Rightarrow> pyval scan" where
  "number_tail E neg ds s = (let (fr, s1) = fraction s; (ex, s2) = exponent s1 in
     if fr = [] \<and> ex = [] then (case int_literal neg ds of Inl e \<Rightarrow> Inl e | Inr v \<Rightarrow> Inr (v, s))
     else Inr (json_float E ((if neg then ''-'' else []) @ ds @ fr @ ex), s2))"

definition json_number :: "json_env \<Rightarrow> string \<Rightarrow> pyval scan" where
  "json_number E s = (let neg = (s \<noteq> [] \<and> hd s = CHR ''-''); s' = (if neg then tl s else s) in
     case s' of
       [] \<Rightarrow> Inl (Malformed ''Expecting value'' s)
     | c # r \<Rightarrow> if c = CHR ''0'' then number_tail E neg [c] r
         else if is_decimal_char c then number_tail E neg (take_digits s') (drop_digits s')
         else Inl (Malformed ''Expecting value'' s))"

lemma drop_digits_length: "length (drop_digits s) \<le> length s"
  by (simp add: drop_digits_def length_dropWhile_le)

lemma fraction_length: "length (snd (fraction s)) \<le> length s"
  using drop_digits_length [of "tl s"] by (auto simp: fraction_def split: list.splits)

lemma exponent_length: "length (snd (exponent s)) \<le> length s"
proof (cases s)
  case (Cons c r)
  have "length (drop_digits (drop n r)) \<le> length r" for n
    using drop_digits_length [of "drop n r"] by simp
  with Cons show ?thesis by (auto simp: exponent_def Let_def le_SucI)
qed (simp add: exponent_def)

lemma number_tail_length: "number_tail E neg ds s = Inr (v, r) \<Longrightarrow> length r \<le> length s"
  using fraction_length [of s] exponent_length [of "snd (fraction s)"]
  by (auto simp: number_tail_def split: prod.splits if_splits sum.splits)

lemma json_number_length: "json_number E s = Inr (v, r) \<Longrightarrow> length r < length s"
  using length_dropWhile_le [of is_decimal_char "tl s"] length_dropWhile_le [of is_decimal_char "tl (tl s)"]
  by (cases s) (auto simp: json_number_def Let_def drop_digits_def split: list.splits if_splits dest!: number_tail_length)

subsection \<open>Values\<close>

text \<open>The names of values that are not numbers, strings, arrays or objects.\<close>

definition json_name :: "json_env \<Rightarrow> string \<Rightarrow> (pyval \<times> string) option" where
  "json_name E s = (
     if prefix ''null'' s then Some (PNone, drop 4 s)
     else if prefix ''true'' s then Some (PBool True, drop 4 s)
     else if prefix ''false'' s then Some (PBool False, drop 5 s)
     else if prefix ''NaN'' s then Some (json_float E ''NaN'', drop 3 s)
     else if prefix ''Infinity'' s then Some (json_float E ''Infinity'', drop 8 s)
     else if prefix ''-Infinity'' s then Some (json_float E ''-Infinity'', drop 9 s)
     else None)"

lemma json_name_length: "json_name E s = Some (v, r) \<Longrightarrow> length r < length s"
  by (auto simp: json_name_def split: if_splits dest!: prefix_length_le)

text \<open>An object keeps the last value of a key at its first position.\<close>

definition object_of :: "pydict \<Rightarrow> pydict" where
  "object_of kvs = dmerge [] kvs"

text \<open>
  A value; the items of an array from the start of an item to the closing bracket; the members of an object from the
  start of a name to the closing brace.
\<close>

function json_value :: "json_env \<Rightarrow> string \<Rightarrow> pyval scan"
  and json_items :: "json_env \<Rightarrow> string \<Rightarrow> pyval list scan"
  and json_members :: "json_env \<Rightarrow> string \<Rightarrow> pydict scan" where
  "json_value E s = (case s of
       [] \<Rightarrow> Inl (Malformed ''Expecting value'' s)
     | c # s' \<Rightarrow>
         if c = CHR 0x22 then scan_map PStr (json_string E s s')
         else if c = CHR ''{'' then (let t = skip_space s' in
           if t \<noteq> [] \<and> hd t = CHR ''}'' then Inr (PDict [], tl t) else scan_map (PDict \<circ> object_of) (json_members E t))
         else if c = CHR ''['' then (let t = skip_space s' in
           if t \<noteq> [] \<and> hd t = CHR '']'' then Inr (PList [], tl t) else scan_map PList (json_items E t))
         else (case json_name E s of Some r \<Rightarrow> Inr r | None \<Rightarrow> json_number E s))"
| "json_items E s = (case json_value E s of
       Inl e \<Rightarrow> Inl e
     | Inr (v, r) \<Rightarrow> (let t = skip_space r in
         if t \<noteq> [] \<and> hd t = CHR '']'' then Inr ([v], tl t)
         else if t \<noteq> [] \<and> hd t = CHR '','' then scan_map (\<lambda>vs. v # vs) (json_items E (skip_space (tl t)))
         else Inl (Malformed ''Expecting ',' delimiter'' t)))"
| "json_members E s = (
     if s = [] \<or> hd s \<noteq> CHR 0x22 then Inl (Malformed ''Expecting property name enclosed in double quotes'' s)
     else case json_string E s (tl s) of
       Inl e \<Rightarrow> Inl e
     | Inr (k, r) \<Rightarrow> (let t = skip_space r in
         if t = [] \<or> hd t \<noteq> CHR '':'' then Inl (Malformed ''Expecting ':' delimiter'' t)
         else case json_value E (skip_space (tl t)) of
           Inl e \<Rightarrow> Inl e
         | Inr (v, r') \<Rightarrow> (let t' = skip_space r' in
             if t' \<noteq> [] \<and> hd t' = CHR ''}'' then Inr ([(k, v)], tl t')
             else if t' \<noteq> [] \<and> hd t' = CHR '','' then scan_map (\<lambda>kvs. (k, v) # kvs) (json_members E (skip_space (tl t')))
             else Inl (Malformed ''Expecting ',' delimiter'' t'))))"
  by pat_completeness auto

text \<open>Whatever a call accepts, it consumes a character; the calls therefore end.\<close>

lemma skip_tl_less: "skip_space r \<noteq> [] \<Longrightarrow> length (skip_space (tl (skip_space r))) < length r"
  using skip_space_length [of r] skip_space_length [of "tl (skip_space r)"]
  by (cases "skip_space r") auto

lemma skip_tl_tail: "skip_space r \<noteq> [] \<Longrightarrow> length (tl (skip_space r)) < length r"
  using skip_space_length [of r] by (cases "skip_space r") auto

lemma json_value_dom_length:
  "json_value_json_items_json_members_dom (Inl (E, s)) \<Longrightarrow> json_value E s = Inr (v, r) \<Longrightarrow> length r < length s"
  "json_value_json_items_json_members_dom (Inr (Inl (E, s))) \<Longrightarrow> json_items E s = Inr (vs, r) \<Longrightarrow> length r < length s"
  "json_value_json_items_json_members_dom (Inr (Inr (E, s))) \<Longrightarrow> json_members E s = Inr (kvs, r) \<Longrightarrow> length r < length s"
proof (induction arbitrary: v r and vs r and kvs r rule: json_value_json_items_json_members.pinduct)
  case (1 E s)
  note run = 1(4) [unfolded json_value.psimps [OF 1(1)]]
  show ?case
  proof (cases s)
    case (Cons c s')
    have obj: "length r < length s" if "c \<noteq> CHR 0x22" "c = CHR ''{''" "\<not> (skip_space s' \<noteq> [] \<and> hd (skip_space s') = CHR ''}'')"
      "json_members E (skip_space s') = Inr (kvs, r)" for kvs
      using 1(2) [OF Cons that(1,2) refl that(3,4)] skip_space_length [of s'] Cons by simp
    have arr: "length r < length s" if "c \<noteq> CHR 0x22" "c \<noteq> CHR ''{''" "c = CHR ''[''"
      "\<not> (skip_space s' \<noteq> [] \<and> hd (skip_space s') = CHR '']'')" "json_items E (skip_space s') = Inr (vs, r)" for vs
      using 1(3) [OF Cons that(1-3) refl that(4,5)] skip_space_length [of s'] Cons by simp
    have tail: "length (tl (skip_space s')) < length s" using skip_space_length [of s'] Cons by simp
    show ?thesis
      using run obj arr tail json_number_length [of E s v r] json_name_length [of E s v r] Cons
      by (auto simp: Let_def scan_map_Inr split: if_splits option.splits dest!: json_string_length)
  qed (use run in simp)
next
  case (2 E s)
  note run = 2(4) [unfolded json_items.psimps [OF 2(1)]]
  then obtain v t where v: "json_value E s = Inr (v, t)" by (auto split: sum.splits)
  have less: "length t < length s" by (rule 2(2) [OF v])
  let ?t = "skip_space t"
  have rec: "length r < length s" if "\<not> (?t \<noteq> [] \<and> hd ?t = CHR '']'')" "?t \<noteq> [] \<and> hd ?t = CHR '',''"
      "json_items E (skip_space (tl ?t)) = Inr (us, r)" for us
    using 2(3) [OF v refl refl that] skip_tl_less [of t] that(2) less by simp
  show ?case
    using run v rec skip_tl_tail [of t] less by (auto simp: Let_def scan_map_Inr split: if_splits)
next
  case (3 E s)
  note run = 3(4) [unfolded json_members.psimps [OF 3(1)]]
  then have q: "\<not> (s = [] \<or> hd s \<noteq> CHR 0x22)" by (auto split: if_splits)
  with run obtain k t where k: "json_string E s (tl s) = Inr (k, t)" by (auto split: sum.splits)
  let ?t = "skip_space t"
  from run q k have colon: "\<not> (?t = [] \<or> hd ?t \<noteq> CHR '':'')" by (auto simp: Let_def split: if_splits)
  with run q k obtain v t' where v: "json_value E (skip_space (tl ?t)) = Inr (v, t')" by (auto simp: Let_def split: sum.splits)
  let ?t' = "skip_space t'"
  have "length t' < length (skip_space (tl ?t))" by (rule 3(2) [OF q k refl refl colon v])
  moreover have "length t < length s" using json_string_length [OF k] q by (cases s) auto
  ultimately have less: "length t' < length s" using skip_tl_less [of t] colon by simp
  have rec: "length r < length s" if "\<not> (?t' \<noteq> [] \<and> hd ?t' = CHR ''}'')" "?t' \<noteq> [] \<and> hd ?t' = CHR '',''"
      "json_members E (skip_space (tl ?t')) = Inr (us, r)" for us
    using 3(3) [OF q k refl refl colon v refl refl that] skip_tl_less [of t'] that(2) less by simp
  show ?case
    using run q k colon v rec skip_tl_tail [of t'] less by (auto simp: Let_def scan_map_Inr split: if_splits)
qed

termination json_value
proof (relation "measure (\<lambda>x. case x of Inl (E, s) \<Rightarrow> 2 * length s | Inr (Inl (E, s)) \<Rightarrow> 2 * length s + 1
    | Inr (Inr (E, s)) \<Rightarrow> 2 * length s + 1)", goal_cases)
  case (2 E s c s' t)
  then show ?case using skip_space_length [of s'] by simp
next
  case (3 E s c s' t)
  then show ?case using skip_space_length [of s'] by simp
next
  case (5 E s x v r t)
  then show ?case using json_value_dom_length(1) [of E s v r] skip_tl_less [of r] by auto
next
  case (6 E s x k r t)
  then show ?case using json_string_length [of E s "tl s" k r] skip_tl_less [of r] by (cases s) auto
next
  case (7 E s x k r t y v r' t')
  then show ?case
    using json_string_length [of E s "tl s" k r] skip_tl_less [of r] skip_tl_less [of r']
      json_value_dom_length(1) [of E "skip_space (tl (skip_space r))" v r']
    by (cases s) auto
qed auto

declare json_value.simps [simp del] json_items.simps [simp del] json_members.simps [simp del]

subsection \<open>Documents\<close>

text \<open>
  What \<open>json.loads\<close> raises: a \<open>JSONDecodeError\<close> with its text, or another \<open>ValueError\<close> (an integer of too many digits).
\<close>

datatype json_error = JSONDecodeError string | OtherError exn

definition decode_error :: "string \<Rightarrow> string \<Rightarrow> string \<Rightarrow> json_error" where
  "decode_error doc msg rest = (let pos = length doc - length rest; seen = take pos doc;
       lineno = count_list seen (CHR 0x0A) + 1;
       colno = length (takeWhile (\<lambda>c. c \<noteq> CHR 0x0A) (rev seen)) + 1 in
     JSONDecodeError (msg @ '': line '' @ nat_text lineno @ '' column '' @ nat_text colno @ '' (char '' @ nat_text pos @ '')''))"

definition json_loads :: "json_env \<Rightarrow> string \<Rightarrow> json_error + pyval" where
  "json_loads E doc = (case json_value E (skip_space doc) of
       Inl (Malformed msg rest) \<Rightarrow> Inl (decode_error doc msg rest)
     | Inl (Raised x) \<Rightarrow> Inl (OtherError x)
     | Inr (v, r) \<Rightarrow> if skip_space r = [] then Inr v else Inl (decode_error doc ''Extra data'' (skip_space r)))"

section \<open>Writing\<close>

definition escaped_char :: "char \<Rightarrow> string" where
  "escaped_char c = (let n = code_point c; esc = (\<lambda>d. [CHR 0x5C, d]) in
     if n = 34 \<or> n = 92 then esc c
     else if n = 8 then esc (CHR ''b'') else if n = 12 then esc (CHR ''f'') else if n = 10 then esc (CHR ''n'')
     else if n = 13 then esc (CHR ''r'') else if n = 9 then esc (CHR ''t'')
     else if 32 \<le> n \<and> n \<le> 126 then [c]
     else [CHR 0x5C, CHR ''u'', CHR ''0'', CHR ''0'', hex_digit (n div 16), hex_digit (n mod 16)])"

definition json_quoted :: "string \<Rightarrow> string" where
  "json_quoted s = [CHR 0x22] @ concat (map escaped_char s) @ [CHR 0x22]"

text \<open>\<open>json.dumps(v)\<close> with the default separators.\<close>

fun json_text :: "libs \<Rightarrow> pyval \<Rightarrow> string" where
  "json_text L PNone = ''null''"
| "json_text L (PBool b) = (if b then ''true'' else ''false'')"
| "json_text L (PInt i) = int_text i"
| "json_text L (PFloat q) = float_text L q"
| "json_text L (PStr s) = json_quoted s"
| "json_text L (PList vs) = ''['' @ py_join '', '' (map (json_text L) vs) @ '']''"
| "json_text L (PDict d) = ''{'' @ py_join '', '' (map (\<lambda>(k, v). json_quoted k @ '': '' @ json_text L v) d) @ ''}''"

text \<open>\<open>sort_keys=True\<close>: the members of every object in the order of their names.\<close>

fun sorted_members :: "pyval \<Rightarrow> pyval" where
  "sorted_members (PList vs) = PList (map sorted_members vs)"
| "sorted_members (PDict d) = PDict (sort_key fst (map (\<lambda>(k, v). (k, sorted_members v)) d))"
| "sorted_members v = v"

end
