(* ===== verification/Juno_Plugin.thy ===== *)
theory Juno_Plugin
  imports Invoke_Service Json_Text
begin

text \<open>
  The Juno plugin: what the tool of the specialist agent makes of a language model's call
  (\<^verbatim>\<open>juno/subagent.py\<close>), the in-process runner (\<^verbatim>\<open>juno/runners.py\<close>), the reading of a response as a turn
  (\<^verbatim>\<open>juno/assistant_turn.py\<close>), the text of a turn (\<^verbatim>\<open>juno/tool_text.py\<close>) and the manifest (\<^verbatim>\<open>juno/manifest.py\<close>,
  \<^verbatim>\<open>juno/plugin.py\<close>). The marker text of the host, the packaged guide and the YAML document are parameters; the
  construction of the agent around the tool is the host's.
\<close>

section \<open>Turns\<close>

datatype assistant_turn =
    AssistantTurnSuccess "string option" "pydict option"
  | AssistantTurnWalletApproval "string option" "string option" pydict
  | AssistantTurnAgentError string "string option" "pydict option"
  | AssistantTurnHttpError int string "string option"

definition merge_mercury_payload :: "pydict \<Rightarrow> pydict" where
  "merge_mercury_payload raw = (case dget raw ''data'' of
       Some (PDict d) \<Rightarrow> filter (\<lambda>(k, v). k \<noteq> ''data'') (dmerge raw d)
     | _ \<Rightarrow> raw)"

definition without_keys :: "string list \<Rightarrow> pydict \<Rightarrow> pydict" where
  "without_keys ks d = filter (\<lambda>(k, v). k \<notin> set ks) d"

definition approval_turn :: "pydict \<Rightarrow> assistant_turn" where
  "approval_turn e = AssistantTurnWalletApproval
     (as_str (py_or_val (dget_none e ''approval_token'') (dget_none e ''idempotency_key'')))
     (dget_str e ''approval_id'') (without_keys [''status'', ''approval_required''] e)"

definition wallet_approval_turn :: "pydict \<Rightarrow> assistant_turn" where
  "wallet_approval_turn e = (let named = (\<lambda>k alt. case dget_none e k of PNone \<Rightarrow> dget_str e alt | v \<Rightarrow> as_str v) in
     AssistantTurnWalletApproval (named ''approval_token'' ''token'') (named ''approval_id'' ''id'')
       (without_keys [''wallet_approval_required'', ''data''] e))"

text \<open>
  A value taken out under a name, or under a second name when the first one has no value; the second name is only taken
  out in that case.
\<close>

definition pop_either :: "string \<Rightarrow> string \<Rightarrow> pydict \<Rightarrow> pyval \<times> pydict" where
  "pop_either k alt d = (let v = dget_none d k; d1 = without_keys [k] d in
     if truthy v then (v, d1) else (dget_none d1 alt, without_keys [alt] d1))"

definition approval_object_turn :: "pydict \<Rightarrow> assistant_turn" where
  "approval_object_turn wa = (let (token, e1) = pop_either ''approval_token'' ''token'' wa;
       (aid, e2) = pop_either ''approval_id'' ''id'' e1 in
     AssistantTurnWalletApproval (as_str token) (as_str aid) e2)"

definition nonempty_dict :: "pydict \<Rightarrow> pydict option" where
  "nonempty_dict d = (if d = [] then None else Some d)"

definition agent_error_turn :: "libs \<Rightarrow> pyval \<Rightarrow> assistant_turn" where
  "agent_error_turn L ae = (case ae of
       PStr s \<Rightarrow> AssistantTurnAgentError s None None
     | PDict d \<Rightarrow>
         (let first = (case dget_none d ''message'' of PNone \<Rightarrow> dget_none d ''error'' | v \<Rightarrow> v);
              msg = (case first of PNone \<Rightarrow> if d = [] then ''Unknown agent error'' else py_repr L (PDict d) | v \<Rightarrow> py_str L v);
              code = (case dget_none d ''code'' of PNone \<Rightarrow> None | v \<Rightarrow> Some (py_str L v)) in
          AssistantTurnAgentError msg code (nonempty_dict (without_keys [''message'', ''error'', ''code''] d)))
     | v \<Rightarrow> AssistantTurnAgentError (py_str L v) None None)"

definition success_turn :: "libs \<Rightarrow> pydict \<Rightarrow> assistant_turn" where
  "success_turn L e = (let reply = (case dget_none e ''agent_reply'' of PNone \<Rightarrow> None | v \<Rightarrow> Some (py_str L v));
       task = (case dget_none e ''task_result'' of PNone \<Rightarrow> None | PDict d \<Rightarrow> Some d | v \<Rightarrow> Some [(''value'', v)]) in
     AssistantTurnSuccess reply (if reply = None \<and> task = None \<and> e \<noteq> [] then Some e else task))"

definition parse_mercury_body :: "libs \<Rightarrow> pydict \<Rightarrow> assistant_turn" where
  "parse_mercury_body L raw = (let e = merge_mercury_payload raw in
     if dget_none e ''status'' = PStr ''approval_required'' \<or> dget_none e ''approval_required'' = PBool True then approval_turn e
     else case dget_none e ''wallet_approval_required'' of
       PBool True \<Rightarrow> wallet_approval_turn e
     | wa \<Rightarrow> (case (if truthy wa then as_dict wa else None) of
           Some d \<Rightarrow> approval_object_turn d
         | None \<Rightarrow> (case dget_none e ''agent_error'' of PNone \<Rightarrow> success_turn L e | ae \<Rightarrow> agent_error_turn L ae)))"

section \<open>Texts\<close>

definition opt_repr :: "string option \<Rightarrow> string" where
  "opt_repr v = (case v of None \<Rightarrow> ''None'' | Some s \<Rightarrow> repr_str s)"

definition APPROVAL_HINT :: string where
  "APPROVAL_HINT = ''Juno/Telegram: user taps Approve, then sends any message. Juno will call Mercury '' @
     ''again with the SAME intent (including the same idempotency_key inside the intent) '' @
     ''and top-level approval_response. Do not instruct MetaMask/hardware signing unless '' @
     ''this deployment explicitly uses in-wallet signing; the default path is a second '' @
     ''Repeat Mercury invoke with approval_response (1Claw-backed signer).''"

definition turn_key :: "string option \<Rightarrow> string option \<Rightarrow> pydict \<Rightarrow> string option" where
  "turn_key token aid extras = (case dget_str extras ''idempotency_key'' of
       Some k \<Rightarrow> Some k
     | None \<Rightarrow> if token = None \<or> token = Some [] then aid else token)"

definition approval_parts :: "libs \<Rightarrow> string option \<Rightarrow> string option \<Rightarrow> pydict \<Rightarrow> string list" where
  "approval_parts L token aid extras =
     [''Wallet approval required (Mercury approval gate).'', ''approval_token='' @ opt_repr token, ''approval_id='' @ opt_repr aid]
     @ (case turn_key token aid extras of Some k \<Rightarrow> if k = [] then [] else [''idempotency_key=\"'' @ k @ ''\"''] | None \<Rightarrow> [])
     @ [py_join '' '' ((if extras = [] then [] else [''details='' @ json_text L (PDict extras)]) @ [APPROVAL_HINT])]"

definition turn_result_to_tool_text :: "libs \<Rightarrow> string \<Rightarrow> assistant_turn \<Rightarrow> string" where
  "turn_result_to_tool_text L marker r = (case r of
       AssistantTurnSuccess reply task \<Rightarrow>
         (case reply of
            Some (c # t) \<Rightarrow> c # t
          | _ \<Rightarrow> (case task of Some d \<Rightarrow> json_text L (PDict d) | None \<Rightarrow> ''Success (no reply or task_result).''))
     | AssistantTurnWalletApproval token aid extras \<Rightarrow>
         marker @ [CHR 0x0A] @ py_join [CHR 0x0A] (approval_parts L token aid extras)
     | AssistantTurnAgentError msg code details \<Rightarrow>
         ''Agent error: '' @ msg
         @ (case code of Some (c # t) \<Rightarrow> '' (code='' @ (c # t) @ '')'' | _ \<Rightarrow> [])
         @ (case details of Some (p # d) \<Rightarrow> '' details='' @ json_text L (PDict (p # d)) | _ \<Rightarrow> [])
     | AssistantTurnHttpError status body msg \<Rightarrow>
         ''HTTP error '' @ int_text status @ '': ''
         @ (case msg of Some (c # t) \<Rightarrow> c # t | _ \<Rightarrow> ''HTTP '' @ int_text status) @ [CHR 0x0A] @ ''Body (snippet): '' @ body)"

section \<open>The in-process runner\<close>

definition mercury_error_json :: "mercury_error \<Rightarrow> pydict" where
  "mercury_error_json e = [(''code'', PStr (me_code e)), (''category'', PStr (me_category e)), (''message'', PStr (me_message e)),
     (''retryable'', PBool (me_retryable e)), (''recoverable'', PBool (me_recoverable e)),
     (''user_action'', opt_val PStr (me_user_action e)), (''llm_action'', opt_val PStr (me_llm_action e)),
     (''details'', PDict (me_details e))]"

text \<open>\<open>response.model_dump(mode="json")\<close>\<close>

definition response_json :: "invoke_response \<Rightarrow> pydict" where
  "response_json r = [(''request_id'', PStr (rs_request_id r)), (''status'', PStr (rs_status r)),
     (''chain'', opt_val PStr (rs_chain r)), (''message'', PStr (rs_message r)), (''data'', PDict (rs_data r)),
     (''tx_hash'', opt_val PStr (rs_tx_hash r)), (''receipt'', opt_val PDict (rs_receipt r)),
     (''approval_required'', PBool (rs_approval_required r)), (''approval_payload'', opt_val PDict (rs_approval_payload r)),
     (''error'', opt_val (PDict \<circ> mercury_error_json) (rs_error r))]"

definition local_response_to_result :: "libs \<Rightarrow> invoke_response \<Rightarrow> assistant_turn" where
  "local_response_to_result L response = (let raw = response_json response; status = dget_none raw ''status'' in
     case dget_none raw ''error'' of
       PDict e \<Rightarrow> AssistantTurnAgentError
         (py_str L (py_or_val (py_or_val (dget_none e ''message'') (dget_none raw ''message'')) (PStr ''Mercury request failed'')))
         (case dget_none e ''code'' of PNone \<Rightarrow> None | v \<Rightarrow> Some (py_str L v)) (as_dict (dget_none e ''details''))
     | _ \<Rightarrow>
         if status \<in> {PStr ''failed'', PStr ''rejected''} then AssistantTurnAgentError
           (py_str L (py_or_val (dget_none raw ''message'') (PStr ''Mercury request failed''))) (Some (py_str L status)) None
         else parse_mercury_body L raw)"

text \<open>The request of a turn: the keyword argument fills in a missing key.\<close>

definition turn_body :: "string option \<Rightarrow> pydict \<Rightarrow> pydict" where
  "turn_body key payload = default_opt ''idempotency_key'' key payload"

text \<open>
  The two places where \<open>uuid4\<close> may be called are given their results: \<open>rid\<close> for the request ID header (when the
  runner sends one), \<open>gen\<close> for the request ID that is made when there is none.
\<close>

definition run_turn ::
  "(state_model \<Rightarrow> pyval) \<Rightarrow> graph_runtime \<Rightarrow> string option \<Rightarrow> string \<Rightarrow> pydict \<Rightarrow> string option \<Rightarrow> world \<Rightarrow> ens_cache
     \<Rightarrow> assistant_turn \<times> world \<times> ens_cache" where
  "run_turn M R rid gen payload key w cache = (let L = d_libs (rt_tx R) in
     case invoke_request_of (turn_body key payload) of
       Inl e \<Rightarrow> (AssistantTurnAgentError ''Mercury request validation failed'' (Some ''validation_error'')
           (Some [(''errors'', case e of ValidationError m es \<Rightarrow> validation_errors L m es | Exn _ _ \<Rightarrow> PList [])]), w, cache)
     | Inr q \<Rightarrow> (case mercury_invoke M R q rid key gen w cache of
           (Inl (GraphInvocationError t), w', cache') \<Rightarrow>
             (AssistantTurnAgentError (if t = [] then ''Mercury graph invocation failed'' else t)
                (Some (service_error_code (GraphInvocationError t))) None, w', cache')
         | (Inl (DependencyUnavailableError t), w', cache') \<Rightarrow>
             (AssistantTurnAgentError ''Mercury invocation failed unexpectedly'' (Some ''internal_error'')
                (Some [(''error_type'', PStr ''DependencyUnavailableError'')]), w', cache')
         | (Inr response, w', cache') \<Rightarrow> (local_response_to_result L response, w', cache')))"

definition LOCAL_INVOKE_GUIDE_PATH :: string where
  "LOCAL_INVOKE_GUIDE_PATH = ''/mercury/invoke-guide''"

definition strip_slashes_right :: "string \<Rightarrow> string" where
  "strip_slashes_right s = rev (dropWhile (\<lambda>c. c = CHR ''/'') (rev s))"

definition fetch_get_text :: "string \<Rightarrow> string \<Rightarrow> string" where
  "fetch_get_text guide relative_path = (let s = py_strip relative_path; path = (if prefix ''/'' s then s else ''/'' @ s) in
     if strip_slashes_right path = strip_slashes_right LOCAL_INVOKE_GUIDE_PATH then guide
     else ''(Local guide unavailable: unsupported path '' @ path @ '')'')"

section \<open>The tool\<close>

definition telegram_response :: "string \<Rightarrow> string \<Rightarrow> pydict" where
  "telegram_response status rest = [(''status'', PStr status), (''reason'', PStr ''telegram''), (''approved_by'', PStr ''telegram_user'')]
     @ (if rest = [] then [] else [(''idempotency_key'', PStr rest)])"

text \<open>\<open>s.split(":", 1)[1].strip()\<close>\<close>

definition after_colon :: "string \<Rightarrow> string" where
  "after_colon s = py_strip (drop 1 (dropWhile (\<lambda>c. c \<noteq> CHR '':'') s))"

definition approved_text :: "string \<Rightarrow> pydict" where
  "approved_text reason = [(''status'', PStr ''approved''), (''reason'', PStr reason), (''approved_by'', PStr ''telegram_user'')]"

definition normalize_approval_response :: "libs \<Rightarrow> json_env \<Rightarrow> pyval \<Rightarrow> exn + pydict option" where
  "normalize_approval_response L J raw = (case raw of
       PNone \<Rightarrow> Inr None
     | PDict d \<Rightarrow> Inr (Some d)
     | PStr t \<Rightarrow>
         (let s = py_strip t;
              parsed = (if prefix ''{'' s \<and> suffix ''}'' s then
                (case json_loads J s of Inl (OtherError e) \<Rightarrow> Inl e | Inl (JSONDecodeError _) \<Rightarrow> Inr PNone | Inr v \<Rightarrow> Inr v)
                else Inr PNone) in
          rbind parsed (\<lambda>v. case v of
              PDict d \<Rightarrow> Inr (Some d)
            | _ \<Rightarrow>
                if prefix ''approved:'' (py_lower s) then Inr (Some (telegram_response ''approved'' (after_colon s)))
                else if prefix ''denied:'' (py_lower s) then Inr (Some (telegram_response ''denied'' (after_colon s)))
                else Inr (Some (approved_text s))))
     | v \<Rightarrow> Inr (Some (approved_text (py_str L v))))"

definition sanitize_intent_for_mercury_post :: "pydict \<Rightarrow> pydict \<times> string option" where
  "sanitize_intent_for_mercury_post intent = (let cleaned = without_keys [''approval_response''] intent;
       idem = (case dget_str cleaned ''idempotency_key'' of
           Some raw \<Rightarrow> if py_strip raw = [] then None else Some (py_strip raw)
         | None \<Rightarrow> None) in
     (case idem of Some k \<Rightarrow> dset ''idempotency_key'' (PStr k) cleaned | None \<Rightarrow> cleaned, idem))"

text \<open>The session's entry \<open>k\<close> as a text, unless it has no value.\<close>

definition session_text :: "libs \<Rightarrow> pydict \<Rightarrow> string \<Rightarrow> pydict" where
  "session_text L state k = (case dget_none state k of PNone \<Rightarrow> [] | v \<Rightarrow> [(k, PStr (py_str L v))])"

definition build_mercury_invoke_payload :: "libs \<Rightarrow> json_env \<Rightarrow> pydict \<Rightarrow> pydict \<Rightarrow> exn + pydict" where
  "build_mercury_invoke_payload L J state intent =
     rbind (normalize_approval_response L J (dget_none state ''approval_response'')) (\<lambda>ap.
       Inr ([(''intent'', PDict intent)] @ session_text L state ''user_id''
         @ [(''wallet_id'', PStr (str_or L (dget_none state ''wallet_id'') ''primary''))]
         @ session_text L state ''chain''
         @ (case ap of Some a \<Rightarrow> [(''approval_response'', PDict a)] | None \<Rightarrow> [])))"

definition mercury_invoke_tool ::
  "json_env \<Rightarrow> string \<Rightarrow> (state_model \<Rightarrow> pyval) \<Rightarrow> graph_runtime \<Rightarrow> string option \<Rightarrow> string \<Rightarrow> string \<Rightarrow> pydict \<Rightarrow> world \<Rightarrow> ens_cache
     \<Rightarrow> (exn + string) \<times> world \<times> ens_cache" where
  "mercury_invoke_tool J marker M R rid gen intent_text state w cache = (let L = d_libs (rt_tx R) in
     case json_loads J intent_text of
       Inl (JSONDecodeError t) \<Rightarrow> (Inr (''Invalid intent JSON: '' @ t), w, cache)
     | Inl (OtherError e) \<Rightarrow> (Inl e, w, cache)
     | Inr (PDict intent) \<Rightarrow>
         if dget_none intent ''kind'' = PNone then (Inr ''Intent must include a string \"kind\" field.'', w, cache)
         else let (clean, key) = sanitize_intent_for_mercury_post intent in
           (case build_mercury_invoke_payload L J state clean of
              Inl e \<Rightarrow> (Inl e, w, cache)
            | Inr payload \<Rightarrow> (case run_turn M R rid gen payload key w cache of
                  (turn, w', cache') \<Rightarrow> (Inr (turn_result_to_tool_text L marker turn), w', cache')))
     | Inr _ \<Rightarrow> (Inr ''Intent must be a JSON object.'', w, cache))"

section \<open>The manifest\<close>

record juno_manifest =
  jm_runner :: string
  jm_base_url_env :: "string option"
  jm_system_prompt :: string
  jm_requires_session_fields :: "string list"
  jm_guide_path :: "string option"
  jm_prompt_md_path :: "string option"
  jm_instructions_md :: "string option"

definition juno_manifest_of :: "pydict \<Rightarrow> exn + juno_manifest" where
  "juno_manifest_of d = (let r = rd_str d ''runner''; b = rd_opt_str d ''base_url_env''; p = rd_str d ''system_prompt'';
       f = rd_list item_str d ''requires_session_fields'' (Some []); g = rd_opt_str d ''guide_path'';
       m = rd_opt_str d ''prompt_md_path''; i = rd_opt_str d ''instructions_md'' in
     finish ''JunoAssistantManifest''
       (fld_errs r @ fld_errs b @ fld_errs p @ fld_errs f @ fld_errs g @ fld_errs m @ fld_errs i)
       \<lparr>jm_runner = sval r, jm_base_url_env = oval b, jm_system_prompt = sval p, jm_requires_session_fields = fld_val [] f,
        jm_guide_path = oval g, jm_prompt_md_path = oval m, jm_instructions_md = oval i\<rparr>)"

definition load_mercury_juno_manifest :: "pyval \<Rightarrow> string \<Rightarrow> exn + juno_manifest" where
  "load_mercury_juno_manifest yaml md = (case yaml of
       PDict d \<Rightarrow> juno_manifest_of (dset ''instructions_md'' (PStr md) d)
     | _ \<Rightarrow> Inl (value_error ''mercury.yaml must contain a YAML mapping at the root.''))"

text \<open>The system prompt of the agent, and the check of the plugin factory.\<close>

definition system_prompt_text :: "juno_manifest \<Rightarrow> string" where
  "system_prompt_text m = py_join [CHR 0x0A, CHR 0x0A] (filter (\<lambda>t. t \<noteq> [])
     [py_strip (jm_system_prompt m), (case jm_instructions_md m of Some t \<Rightarrow> py_strip t | None \<Rightarrow> [])])"

definition check_manifest_runner :: "juno_manifest \<Rightarrow> exn + juno_manifest" where
  "check_manifest_runner m = (if jm_runner m = ''mercury'' then Inr m
     else Inl (value_error (''Expected runner 'mercury' in packaged manifest, got '' @ repr_str (jm_runner m) @ ''.'')))"

end
