(* ===== verification/Json_Roundtrip.thy ===== *)
theory Json_Roundtrip
  imports Json_Text
begin

text \<open>
  Reading back what was written: \<open>json.loads\<close> of \<open>json.dumps(v)\<close> is \<open>v\<close>, for every value whose integers the
  interpreter prints, whose objects name a member once and whose floats are read back from their texts.
\<close>

section \<open>Strings\<close>

lemma char_eq_code:
  "c = CHR 0x22 \<longleftrightarrow> code_point c = (34::nat)" "c = CHR 0x5C \<longleftrightarrow> code_point c = (92::nat)"
  "c = CHR 0x08 \<longleftrightarrow> code_point c = (8::nat)" "c = CHR 0x0C \<longleftrightarrow> code_point c = (12::nat)"
  "c = CHR 0x0A \<longleftrightarrow> code_point c = (10::nat)" "c = CHR 0x0D \<longleftrightarrow> code_point c = (13::nat)"
  "c = CHR 0x09 \<longleftrightarrow> code_point c = (9::nat)"
proof -
  have "c = d \<longleftrightarrow> code_point c = (code_point d :: nat)" for d :: char by simp
  from this [of "CHR 0x22"] this [of "CHR 0x5C"] this [of "CHR 0x08"] this [of "CHR 0x0C"] this [of "CHR 0x0A"]
    this [of "CHR 0x0D"] this [of "CHR 0x09"]
  show "c = CHR 0x22 \<longleftrightarrow> code_point c = (34::nat)" "c = CHR 0x5C \<longleftrightarrow> code_point c = (92::nat)"
    "c = CHR 0x08 \<longleftrightarrow> code_point c = (8::nat)" "c = CHR 0x0C \<longleftrightarrow> code_point c = (12::nat)"
    "c = CHR 0x0A \<longleftrightarrow> code_point c = (10::nat)" "c = CHR 0x0D \<longleftrightarrow> code_point c = (13::nat)"
    "c = CHR 0x09 \<longleftrightarrow> code_point c = (9::nat)" by simp_all
qed

lemma unicode_escape_char:
  assumes "s \<noteq> []"
  shows "unicode_escape E ([CHR ''0'', CHR ''0'', hex_digit (code_point c div 16), hex_digit (code_point c mod 16)] @ s) =
    Inr ([c], s)"
proof -
  let ?n = "code_point c :: nat"
  have n: "?n div 16 < 16" "?n mod 16 < 16" by (simp_all add: less_mult_imp_div_less)
  have h: "is_hex_char (CHR ''0'')" "hex_value (CHR ''0'') = 0" by (simp_all add: is_hex_char_def hex_value_def)
  have "text_hex_nat [CHR ''0'', CHR ''0'', hex_digit (?n div 16), hex_digit (?n mod 16)] = ?n"
    using n h by (simp add: text_hex_nat_def)
  moreover have "json_char E ?n = [c]" using nat_of_char_less_256 [of c] by (simp add: json_char_def)
  moreover have "is_hex_char (hex_digit d)" if "d < 16" for d
    using that by (auto simp: hex_digit_def is_hex_char_def Let_def)
  moreover have "\<not> 0xD800 \<le> ?n" using nat_of_char_less_256 [of c] by linarith
  ultimately show ?thesis
    using assms n h by (simp add: unicode_escape_def Let_def)
qed

lemma json_string_escaped:
  assumes "s \<noteq> []"
  shows "json_string E start (escaped_char c @ s) = scan_map (\<lambda>u. c # u) (json_string E start s)"
proof -
  let ?n = "code_point c :: nat"
  consider (special) "?n \<in> {34, 92}" | (control) "?n \<in> {8, 12, 10, 13, 9}" | (plain) "?n \<notin> {34, 92}" "32 \<le> ?n" "?n \<le> 126"
    | (coded) "?n \<notin> {34, 92, 8, 12, 10, 13, 9}" "\<not> (32 \<le> ?n \<and> ?n \<le> 126)" by fastforce
  then show ?thesis
  proof cases
    case special
    then have "c = CHR 0x22 \<or> c = CHR 0x5C" unfolding char_eq_code by simp
    then show ?thesis by (elim disjE) (simp_all add: escaped_char_def simple_escape_def)
  next
    case control
    then have "c = CHR 0x08 \<or> c = CHR 0x0C \<or> c = CHR 0x0A \<or> c = CHR 0x0D \<or> c = CHR 0x09"
      unfolding char_eq_code by simp
    then show ?thesis by (elim disjE) (simp_all add: escaped_char_def simple_escape_def)
  next
    case plain
    then show ?thesis using char_eq_code [of c] by (auto simp: escaped_char_def Let_def)
  next
    case coded
    then have "escaped_char c = [CHR 0x5C, CHR ''u''] @
        [CHR ''0'', CHR ''0'', hex_digit (?n div 16), hex_digit (?n mod 16)]"
      by (auto simp: escaped_char_def Let_def)
    then show ?thesis
      using unicode_escape_char [OF assms, of E c] by (cases "json_string E start s") auto
  qed
qed

lemma json_string_back: "json_string E start (concat (map escaped_char t) @ CHR 0x22 # rest) = Inr (t, rest)"
  by (induction t) (simp_all add: json_string_escaped)

section \<open>Numbers\<close>

text \<open>What may follow a value inside a document.\<close>

definition ends_value :: "string \<Rightarrow> bool" where
  "ends_value s \<longleftrightarrow> s = [] \<or> hd s \<in> {CHR '','', CHR '']'', CHR ''}''}"

lemma ends_value_facts:
  assumes "ends_value r"
  shows "take_digits (s @ r) = take_digits s" "drop_digits (s @ r) = drop_digits s @ r"
    "fraction (s @ r) = (fst (fraction s), snd (fraction s) @ r)"
    "exponent (s @ r) = (fst (exponent s), snd (exponent s) @ r)"
proof -
  have no: "r \<noteq> [] \<Longrightarrow> \<not> is_decimal_char (hd r)"
    using assms by (auto simp: ends_value_def is_decimal_char_def)
  show t: "take_digits (s @ r) = take_digits s" and d: "drop_digits (s @ r) = drop_digits s @ r" for s
    using no by (induction s; cases r; simp add: take_digits_def drop_digits_def)+
  show "fraction (s @ r) = (fst (fraction s), snd (fraction s) @ r)"
  proof -
    consider "s = []" | a where "s = [a]" | a b s' where "s = a # b # s'" by (cases s; cases "tl s") auto
    then show ?thesis
    proof cases
      case 1
      with assms show ?thesis by (cases r; cases "tl r") (auto simp: fraction_def ends_value_def)
    next
      case 2
      with no show ?thesis by (cases r) (auto simp: fraction_def)
    next
      case (3 a b s')
      with t [of "b # s'"] d [of "b # s'"] show ?thesis by (simp add: fraction_def)
    qed
  qed
  show "exponent (s @ r) = (fst (exponent s), snd (exponent s) @ r)"
  proof (cases s)
    case Nil
    with assms show ?thesis by (cases r) (auto simp: exponent_def ends_value_def Let_def)
  next
    case (Cons c s')
    show ?thesis
    proof (cases s')
      case Nil
      with Cons assms no show ?thesis
        by (cases r) (auto simp: exponent_def ends_value_def Let_def take_digits_def)
    next
      case c': (Cons e s2)
      with Cons t [of s'] d [of s'] t [of s2] d [of s2] show ?thesis by (auto simp: exponent_def Let_def)
    qed
  qed
qed

lemma number_tail_back:
  assumes "number_tail E neg ds s = Inr (v, [])" and "ends_value r"
  shows "number_tail E neg ds (s @ r) = Inr (v, r)"
  using assms(1)
  by (cases "int_literal neg ds")
    (auto simp: number_tail_def ends_value_facts [OF assms(2)] Let_def split: prod.splits if_splits)

lemma json_number_back:
  assumes "json_number E s = Inr (v, [])" and "ends_value r"
  shows "json_number E (s @ r) = Inr (v, r)"
proof -
  let ?neg = "s \<noteq> [] \<and> hd s = CHR ''-''" and ?s = "\<lambda>s. if s \<noteq> [] \<and> hd s = CHR ''-'' then tl s else s"
  from assms(1) obtain c t where s: "?s s = c # t" by (auto simp: json_number_def Let_def split: list.splits)
  then have n: "(s @ r \<noteq> [] \<and> hd (s @ r) = CHR ''-'') = ?neg" "(if ?neg then tl (s @ r) else s @ r) = c # t @ r"
    by (cases s; auto split: if_splits)+
  have tail: "number_tail E ?neg ds (u @ r) = Inr (v, r)" if "number_tail E ?neg ds u = Inr (v, [])" for ds u
    by (rule number_tail_back [OF that assms(2)])
  have "json_number E (s @ r) = (if c = CHR ''0'' then number_tail E ?neg [c] (t @ r)
      else if is_decimal_char c then number_tail E ?neg (take_digits (c # t)) (drop_digits (c # t) @ r)
      else Inl (Malformed ''Expecting value'' (s @ r)))"
    unfolding json_number_def Let_def n using ends_value_facts(1,2) [OF assms(2), of "c # t"] by simp
  moreover have "json_number E s = (if c = CHR ''0'' then number_tail E ?neg [c] t
      else if is_decimal_char c then number_tail E ?neg (take_digits (c # t)) (drop_digits (c # t))
      else Inl (Malformed ''Expecting value'' s))"
    unfolding json_number_def Let_def s by simp
  ultimately show ?thesis using assms(1) tail by (auto split: if_splits)
qed

lemma take_digits_all: "list_all is_decimal_char s \<Longrightarrow> take_digits s = s \<and> drop_digits s = []"
  by (induction s) (simp_all add: take_digits_def drop_digits_def)

lemma nat_text_leading: "n \<noteq> 0 \<Longrightarrow> hd (nat_text n) \<noteq> CHR ''0''"
proof (induction n rule: nat_text.induct)
  case (1 n)
  have "digit_char n \<noteq> CHR ''0''" if "n < 10"
  proof
    assume "digit_char n = CHR ''0''"
    then have "code_point (digit_char n) = (48 :: nat)" by simp
    with that 1(2) show False by simp
  qed
  with 1 show ?case by (subst nat_text.simps) auto
qed

lemma json_int_back:
  assumes "length (nat_text (nat \<bar>i\<bar>)) \<le> MAX_STR_DIGITS"
  shows "json_number E (int_text i) = Inr (PInt i, [])"
proof -
  let ?ds = "nat_text (nat \<bar>i\<bar>)"
  obtain c t where ds: "?ds = c # t" by (cases ?ds) auto
  have dec: "list_all is_decimal_char (c # t)" using nat_text_decimal [of "nat \<bar>i\<bar>"] ds by simp
  have zero: "c = CHR ''0'' \<Longrightarrow> t = []"
    using nat_text_leading [of "nat \<bar>i\<bar>"] ds by (cases "i = 0") (auto simp: nat_text.simps)
  have minus: "c \<noteq> CHR ''-''" using dec by (auto simp: is_decimal_char_def)
  have "text_nat (c # t) = nat \<bar>i\<bar>" using ds text_nat_nat_text by metis
  then have "int_literal (i < 0) (c # t) = Inr (PInt i)"
    using assms ds by (auto simp: int_literal_def)
  then have tail: "number_tail E (i < 0) (c # t) [] = Inr (PInt i, [])"
    by (simp add: number_tail_def fraction_def exponent_def)
  have it: "int_text i = (if i < 0 then CHR ''-'' # c # t else c # t)"
    using ds by (auto simp: int_text_def)
  show ?thesis
    using dec zero minus tail take_digits_all [OF dec] unfolding it json_number_def by (auto simp: Let_def)
qed

section \<open>Values\<close>

text \<open>
  The values that are read back: printable integers, floats whose text is read as themselves, and objects with distinct names.
\<close>

fun jsonable :: "libs \<Rightarrow> json_env \<Rightarrow> pyval \<Rightarrow> bool" where
  "jsonable L E (PInt i) = (length (nat_text (nat \<bar>i\<bar>)) \<le> MAX_STR_DIGITS)"
| "jsonable L E (PFloat q) = (json_number E (float_text L q) = Inr (PFloat q, []))"
| "jsonable L E (PList vs) = list_all (jsonable L E) vs"
| "jsonable L E (PDict d) = (distinct (map fst d) \<and> list_all (\<lambda>(k, v). jsonable L E v) d)"
| "jsonable L E _ = True"

lemma object_of_distinct: "distinct (map fst d) \<Longrightarrow> object_of d = d"
  unfolding object_of_def dmerge_def
proof (induction d rule: rev_induct)
  case (snoc p d)
  obtain k v where p: "p = (k, v)" by (cases p)
  have "k \<notin> fst ` set d \<Longrightarrow> dset k v d = d @ [(k, v)]" for d :: pydict
    unfolding dset_def by (induction d) auto
  with snoc p show ?case by simp
qed simp

lemma decimal_start:
  "is_decimal_char c \<Longrightarrow> \<not> is_json_space c"
  "is_decimal_char c \<Longrightarrow> c \<notin> {CHR 0x22, CHR ''{'', CHR '']'', CHR ''['', CHR ''}''}"
  "is_decimal_char c \<Longrightarrow> c \<notin> {CHR ''n'', CHR ''t'', CHR ''f'', CHR ''N'', CHR ''I'', CHR ''-''}"
  by (auto simp: is_decimal_char_def is_json_space_def)

lemma number_start:
  assumes "json_number E s = Inr x"
  shows "s \<noteq> []" "\<not> is_json_space (hd s)" "hd s \<notin> {CHR 0x22, CHR ''{'', CHR '']'', CHR ''['', CHR ''}''}" "json_name E (s @ r) = None"
proof -
  from assms obtain c t where s: "s = c # t" by (cases s) (auto simp: json_number_def)
  have "c = CHR ''-'' \<and> t \<noteq> [] \<and> is_decimal_char (hd t) \<or> is_decimal_char c"
    using assms unfolding s by (auto simp: json_number_def Let_def is_decimal_char_def split: if_splits list.splits)
  then have c_or: "(\<exists>d u. c = CHR ''-'' \<and> t = d # u \<and> is_decimal_char d) \<or> is_decimal_char c" by (cases t) auto
  then have c: "\<not> is_json_space c" "c \<notin> {CHR 0x22, CHR ''{'', CHR '']'', CHR ''['', CHR ''}''}"
    using decimal_start [of c] by (auto simp: is_json_space_def)
  then show "s \<noteq> []" "\<not> is_json_space (hd s)" "hd s \<notin> {CHR 0x22, CHR ''{'', CHR '']'', CHR ''['', CHR ''}''}"
    by (simp_all add: s)
  consider (neg) d u where "c = CHR ''-''" "t = d # u" "is_decimal_char d" | (pos) "is_decimal_char c"
    using c_or by blast
  then show "json_name E (s @ r) = None"
  proof cases
    case neg
    then have "d \<noteq> CHR ''I''" using decimal_start(3) [of d] by auto
    with neg show ?thesis by (simp add: json_name_def s)
  next
    case pos
    from decimal_start(3) [OF this] show ?thesis by (auto simp: json_name_def s)
  qed
qed

text \<open>A value written as \<open>t\<close> is read back wherever it may stand in a document.\<close>

definition reads_back :: "json_env \<Rightarrow> string \<Rightarrow> pyval \<Rightarrow> bool" where
  "reads_back E t v \<longleftrightarrow> t \<noteq> [] \<and> \<not> is_json_space (hd t) \<and> hd t \<notin> {CHR '']'', CHR ''}''} \<and>
     (\<forall>r. ends_value r \<longrightarrow> json_value E (t @ r) = Inr (v, r))"

lemma skip_nonspace: "s \<noteq> [] \<Longrightarrow> \<not> is_json_space (hd s) \<Longrightarrow> skip_space (s @ r) = s @ r"
  by (cases s) (simp_all add: skip_space_def)

lemma skip_sep [simp]: "skip_space (CHR '' '' # s) = skip_space s"
  by (simp add: skip_space_def is_json_space_def)

lemma json_value_number:
  assumes "json_number E t = Inr (v, [])"
  shows "reads_back E t v"
proof -
  note n = number_start [OF assms]
  obtain c u where t: "t = c # u" using n(1) by (cases t) auto
  show ?thesis
    using n json_number_back [OF assms] unfolding reads_back_def t
    by (simp add: json_value.simps)
qed

lemma ends_skip: "ends_value (c # s) \<Longrightarrow> skip_space (c # s) = c # s"
  by (auto simp: ends_value_def skip_space_def is_json_space_def)

lemma ends_simps [simp]: "ends_value (CHR '','' # s)" "ends_value (CHR '']'' # s)" "ends_value (CHR ''}'' # s)"
  by (simp_all add: ends_value_def)

lemma json_items_back:
  assumes "vs \<noteq> []" and "\<forall>v \<in> set vs. reads_back E (f v) v"
  shows "json_items E (py_join '', '' (map f vs) @ CHR '']'' # r) = Inr (vs, r)"
  using assms
proof (induction vs rule: induct_list012)
  case (2 v)
  then show ?case by (simp add: json_items.simps reads_back_def ends_skip)
next
  case (3 v w vs)
  have skip: "skip_space (py_join '', '' (map f (w # vs)) @ CHR '']'' # r) = py_join '', '' (map f (w # vs)) @ CHR '']'' # r"
    using 3(4) skip_nonspace [of "f w"] by (cases vs) (auto simp: reads_back_def)
  show ?case
    using 3 skip by (subst json_items.simps) (simp add: reads_back_def ends_skip)
qed simp

lemma quoted_back:
  "json_string E start (tl (json_quoted k) @ r) = Inr (k, r)" "json_quoted k \<noteq> []" "hd (json_quoted k) = CHR 0x22"
  using json_string_back [of E start k r] by (simp_all add: json_quoted_def)

lemma json_member_back:
  assumes "reads_back E t v" and "ends_value r"
  shows "json_members E (json_quoted k @ '': '' @ t @ r) =
    (if hd r = CHR ''}'' \<and> r \<noteq> [] then Inr ([(k, v)], tl r)
     else if hd r = CHR '','' \<and> r \<noteq> [] then scan_map (\<lambda>kvs. (k, v) # kvs) (json_members E (skip_space (tl r)))
     else Inl (Malformed ''Expecting ',' delimiter'' r))"
proof -
  have q: "json_string E s (tl (json_quoted k) @ u) = Inr (k, u)" for s u by (rule quoted_back)
  have v: "json_value E (skip_space (t @ r)) = Inr (v, r)"
    using assms skip_nonspace [of t r] by (simp add: reads_back_def)
  have c: "skip_space (CHR '':'' # s) = CHR '':'' # s" for s by (simp add: skip_space_def is_json_space_def)
  have r: "skip_space r = r" using assms(2) by (cases r) (simp_all only: ends_skip, simp add: skip_space_def)
  show ?thesis
    by (subst json_members.simps) (use quoted_back(2,3) [of k] in \<open>auto simp: q c v r Let_def skip_space_def [of "[]"]\<close>)
qed

abbreviation member_text :: "libs \<Rightarrow> string \<times> pyval \<Rightarrow> string" where
  "member_text L \<equiv> \<lambda>(k, v). json_quoted k @ '': '' @ json_text L v"

lemma json_members_back:
  assumes "d \<noteq> []" and "\<forall>(k, v) \<in> set d. reads_back E (json_text L v) v"
  shows "json_members E (py_join '', '' (map (member_text L) d) @ CHR ''}'' # r) = Inr (d, r)"
  using assms
proof (induction d rule: induct_list012)
  case (2 p)
  then show ?case using json_member_back [of E "json_text L (snd p)" "snd p" "CHR ''}'' # r" "fst p"]
    by (cases p) simp
next
  case (3 p p' d)
  have start: "py_join '', '' (map (member_text L) (p' # d)) = json_quoted (fst p') @ u"
    if "u = '': '' @ json_text L (snd p') @ (if d = [] then [] else '', '' @ py_join '', '' (map (member_text L) d))" for u
    using that by (cases p'; cases d) auto
  have skip: "skip_space (py_join '', '' (map (member_text L) (p' # d)) @ CHR ''}'' # r) =
      py_join '', '' (map (member_text L) (p' # d)) @ CHR ''}'' # r"
    unfolding start [OF refl] append.assoc
    by (rule skip_nonspace) (simp_all add: quoted_back is_json_space_def)
  show ?case
    using 3 skip json_member_back [of E "json_text L (snd p)" "snd p"
        "'', '' @ py_join '', '' (map (member_text L) (p' # d)) @ CHR ''}'' # r" "fst p"]
    by (cases p) simp
qed simp

lemma simple_back:
  "reads_back E ''null'' PNone" "reads_back E ''true'' (PBool True)" "reads_back E ''false'' (PBool False)"
  by (simp_all add: reads_back_def is_json_space_def json_value.simps json_name_def)

lemma json_value_back: "jsonable L E v \<Longrightarrow> reads_back E (json_text L v) v"
proof (induction v)
  case (PInt i)
  then show ?case by (simp add: json_value_number json_int_back)
next
  case (PFloat q)
  then show ?case by (simp add: json_value_number)
next
  case (PStr s)
  then show ?case using json_string_back
    by (simp add: reads_back_def json_quoted_def is_json_space_def json_value.simps)
next
  case (PList vs)
  have "json_items E (py_join '', '' (map (json_text L) vs) @ CHR '']'' # r) = Inr (vs, r)" if "vs \<noteq> []" for r
    using PList that by (intro json_items_back) (auto simp: list_all_iff)
  moreover have "skip_space (py_join '', '' (map (json_text L) vs) @ CHR '']'' # r) =
      py_join '', '' (map (json_text L) vs) @ CHR '']'' # r \<and> hd (py_join '', '' (map (json_text L) vs)) \<noteq> CHR '']''
      \<and> py_join '', '' (map (json_text L) vs) \<noteq> []" if ne: "vs \<noteq> []" for r
  proof -
    obtain v us where vs: "vs = v # us" using ne by (cases vs) auto
    have "reads_back E (json_text L v) v" using PList by (simp add: vs)
    then show ?thesis using skip_nonspace [of "json_text L v"] by (cases us) (auto simp: vs reads_back_def)
  qed
  ultimately show ?case
    by (cases "vs = []") (auto simp: reads_back_def is_json_space_def json_value.simps skip_space_def)
next
  case (PDict d)
  have *: "json_members E (py_join '', '' (map (member_text L) d) @ CHR ''}'' # r) = Inr (d, r)" if "d \<noteq> []" for r
    using PDict that by (intro json_members_back) (fastforce simp: list_all_iff)+
  have skip: "skip_space (py_join '', '' (map (member_text L) d) @ CHR ''}'' # r) =
      py_join '', '' (map (member_text L) d) @ CHR ''}'' # r \<and> hd (py_join '', '' (map (member_text L) d)) \<noteq> CHR ''}''
      \<and> py_join '', '' (map (member_text L) d) \<noteq> []" if ne: "d \<noteq> []" for r
  proof -
    obtain k v us where d: "d = (k, v) # us" using ne by (cases d) auto
    then show ?thesis using skip_nonspace [of "json_quoted k"] quoted_back(2,3) [of k]
      by (cases us) (auto simp: is_json_space_def)
  qed
  from PDict.prems have "object_of d = d" by (simp add: object_of_distinct)
  with * skip show ?case
    by (cases "d = []") (auto simp: reads_back_def is_json_space_def json_value.simps skip_space_def)
qed (simp_all add: simple_back)

text \<open>The document that \<open>json.dumps\<close> makes of a value is read as that value.\<close>

lemma loads_dumps:
  assumes "jsonable L E v"
  shows "json_loads E (json_text L v) = Inr v"
proof -
  have b: "reads_back E (json_text L v) v" using json_value_back [OF assms] .
  then have "skip_space (json_text L v) = json_text L v" using skip_nonspace [of "json_text L v" "[]"] by (simp add: reads_back_def)
  moreover have "json_value E (json_text L v) = Inr (v, [])" using b unfolding reads_back_def by (metis append_Nil2 ends_value_def)
  ultimately show ?thesis by (simp add: json_loads_def skip_space_def)
qed

end
