(* ===== verification/Juno_Properties.thy ===== *)
theory Juno_Properties
  imports Juno_Plugin Json_Roundtrip Request_Properties
begin

text \<open>
  The guarantees of the Juno plugin: whose consent a signature that starts from a tool call rests on, what the texts of a
  chat count as, and that the text of a structured result is its JSON form.
\<close>

section \<open>Consent in the session\<close>

text \<open>The request of a tool call, with the session's decision \<open>ap\<close>.\<close>

definition tool_payload :: "libs \<Rightarrow> pydict \<Rightarrow> pydict \<Rightarrow> pydict option \<Rightarrow> pydict" where
  "tool_payload L state intent ap = [(''intent'', PDict intent)] @ session_text L state ''user_id''
     @ [(''wallet_id'', PStr (str_or L (dget_none state ''wallet_id'') ''primary''))] @ session_text L state ''chain''
     @ (case ap of Some a \<Rightarrow> [(''approval_response'', PDict a)] | None \<Rightarrow> [])"

lemma payload_of_session:
  "build_mercury_invoke_payload L J state intent = Inr p \<longleftrightarrow>
     (\<exists>ap. normalize_approval_response L J (dget_none state ''approval_response'') = Inr ap \<and> p = tool_payload L state intent ap)"
  by (auto simp: build_mercury_invoke_payload_def tool_payload_def rbind_eq_Inr)

lemma session_text_get: "dget (session_text L state k) k' = (if k' = k \<and> dget_none state k \<noteq> PNone
    then Some (PStr (py_str L (dget_none state k))) else None)"
  by (simp add: session_text_def split: pyval.splits)

lemma tool_payload_get:
  "dget (tool_payload L state intent ap) ''intent'' = Some (PDict intent)"
  "dget (tool_payload L state intent ap) ''approval_response'' = map_option PDict ap"
  "dget (tool_payload L state intent ap) ''metadata'' = None"
  by (simp_all add: tool_payload_def map_add_def session_text_get split: option.splits)

lemma turn_body_get: "k \<noteq> ''idempotency_key'' \<Longrightarrow> dget (turn_body key p) k = dget p k"
  by (simp add: turn_body_def default_opt_other)

lemma request_of_tool:
  assumes "invoke_request_of (turn_body key (tool_payload L state intent ap)) = Inr q"
  shows "iq_intent q = PDict intent" "iq_approval_response q = ap" "iq_metadata q = []"
  using assms
  by (auto simp: invoke_request_of_def Let_def rd_intent_def rd_opt_dict_def rd_metadata_def dget_none_def turn_body_get
      tool_payload_get finish_Inr split: option.splits)

lemma sanitized_get:
  assumes "sanitize_intent_for_mercury_post intent = (clean, key)" and "k \<noteq> ''idempotency_key''" "k \<noteq> ''approval_response''"
  shows "dget clean k = dget intent k"
proof -
  have "dget (without_keys [''approval_response''] intent) k = dget intent k"
    using assms(3) unfolding without_keys_def by (induction intent) auto
  with assms show ?thesis
    by (auto simp: sanitize_intent_for_mercury_post_def Let_def split: option.splits if_splits)
qed

text \<open>A tool call that does anything reads an intent, a session and a request, and is the invocation of that request.\<close>

lemma tool_call_cases:
  assumes "mercury_invoke_tool J marker M R rid gen txt0 state w cache = (out, w', cache')" and "w' \<noteq> w"
  obtains intent clean key ap q res where "json_loads J txt0 = Inr (PDict intent)"
    and "sanitize_intent_for_mercury_post intent = (clean, key)"
    and "normalize_approval_response (d_libs (rt_tx R)) J (dget_none state ''approval_response'') = Inr ap"
    and "invoke_request_of (turn_body key (tool_payload (d_libs (rt_tx R)) state clean ap)) = Inr q"
    and "mercury_invoke M R q rid key gen w cache = (res, w', cache')"
proof -
  let ?L = "d_libs (rt_tx R)"
  from assms obtain intent where i: "json_loads J txt0 = Inr (PDict intent)"
    by (auto simp: mercury_invoke_tool_def Let_def split: sum.splits json_error.splits pyval.splits)
  obtain clean key where c: "sanitize_intent_for_mercury_post intent = (clean, key)" by fastforce
  from assms i c obtain p where p: "build_mercury_invoke_payload ?L J state clean = Inr p"
    by (auto simp: mercury_invoke_tool_def Let_def split: if_splits sum.splits)
  with assms i c obtain turn where t: "run_turn M R rid gen p key w cache = (turn, w', cache')"
    by (auto simp: mercury_invoke_tool_def Let_def split: if_splits prod.splits)
  from p obtain ap where ap: "normalize_approval_response ?L J (dget_none state ''approval_response'') = Inr ap"
    "p = tool_payload ?L state clean ap" unfolding payload_of_session by blast
  from t assms(2) obtain q where q: "invoke_request_of (turn_body key p) = Inr q"
    by (auto simp: run_turn_def Let_def split: sum.splits)
  obtain res w2 c2 where r: "mercury_invoke M R q rid key gen w cache = (res, w2, c2)" by (metis prod.exhaust)
  with t q have "w2 = w'" "c2 = cache'"
    by (auto simp: run_turn_def Let_def split: sum.splits service_error.splits)
  with r q i c ap that show thesis by blast
qed

lemma tool_consent:
  assumes "web3_laws (d_libs (rt_tx R))" and "lax_laws (d_libs (rt_tx R))" and "wf_store st"
    and "d_approver (rt_tx R) = request_metadata_approver (d_libs (rt_tx R))"
    and "mercury_invoke_tool J marker M R rid gen txt0 state \<lparr>w_store = st, w_log = []\<rparr> cache = (out, w', cache')"
    and "SignerCalled r x \<in> set (w_log w')" and "sign_request_moves_value r"
  shows "\<exists>intent ap y. json_loads J txt0 = Inr (PDict intent) \<and> build_sign_request (d_libs (rt_tx R)) y = Inr r \<and>
    approval_status_text (d_libs (rt_tx R)) ap = ''approved'' \<and>
    approval_key_matches (d_libs (rt_tx R)) ap (case exec_idempotency_key y of None \<Rightarrow> [] | Some k \<Rightarrow> k) \<and>
    (case dget intent ''metadata'' of
       None \<Rightarrow> normalize_approval_response (d_libs (rt_tx R)) J (dget_none state ''approval_response'') = Inr (Some ap)
     | Some m \<Rightarrow> \<exists>meta. m = PDict meta \<and> (''approval_response'', PDict ap) \<in> set meta)"
proof -
  let ?L = "d_libs (rt_tx R)"
  have "w' \<noteq> \<lparr>w_store = st, w_log = []\<rparr>" using assms(6) by auto
  then obtain intent clean key ap0 q res where i: "json_loads J txt0 = Inr (PDict intent)"
    and c: "sanitize_intent_for_mercury_post intent = (clean, key)"
    and ap0: "normalize_approval_response ?L J (dget_none state ''approval_response'') = Inr ap0"
    and q: "invoke_request_of (turn_body key (tool_payload ?L state clean ap0)) = Inr q"
    and run: "mercury_invoke M R q rid key gen \<lparr>w_store = st, w_log = []\<rparr> cache = (res, w', cache')"
    by (rule tool_call_cases [OF assms(5)])
  from signed_is_consented [OF assms(1-4) run assms(6,7)]
  obtain raw t y meta ap where y: "comes_from (merge_intent_metadata_into_prepared t raw) y" "build_sign_request ?L y = Inr r"
    and meta: "effective_metadata q = PDict meta" "(''approval_response'', PDict ap) \<in> set meta"
    and ok: "approval_status_text ?L ap = ''approved''"
      "approval_key_matches ?L ap (case prep_idempotency_key t of None \<Rightarrow> [] | Some k \<Rightarrow> k)" by blast
  have "exec_idempotency_key y = prep_idempotency_key t"
    using y(1) by (auto simp: comes_from_def merge_intent_metadata_into_prepared_def split: pyval.splits if_splits)
  moreover have "dget clean ''metadata'' = dget intent ''metadata''" by (rule sanitized_get [OF c]) simp_all
  moreover have "ap0 = Some ap" if "dget clean ''metadata'' = None"
    using meta request_of_tool [OF q] that
    by (auto simp: effective_metadata_def request_metadata_def dset_def Let_def split: option.splits if_splits)
  moreover have "\<exists>meta. m = PDict meta \<and> (''approval_response'', PDict ap) \<in> set meta" if "dget clean ''metadata'' = Some m" for m
    using meta request_of_tool(1) [OF q] that by (simp add: effective_metadata_def)
  ultimately show ?thesis
    using i y(2) ok ap0 by (intro exI [of _ intent] exI [of _ ap] exI [of _ y] conjI) (simp_all split: option.splits)
qed

text \<open>When the intent has metadata of its own, nothing of the request's decision is left in what is run.\<close>

lemma own_metadata_boundary:
  assumes "iq_intent q = PDict d" and "dget d ''metadata'' \<noteq> None"
  shows "intent_with_boundary_fields (q\<lparr>iq_approval_response := ap\<rparr>) key = intent_with_boundary_fields q key"
proof -
  have "dget (default_opt ''idempotency_key'' key (dsetdefault ''wallet_id'' (PStr (iq_wallet_id q))
      (default_opt ''chain'' (iq_chain q) d))) ''metadata'' \<noteq> None"
    using assms(2) by (simp add: default_opt_other dget_dsetdefault)
  with assms(1) show ?thesis by (auto simp: intent_with_boundary_fields_def dsetdefault_def)
qed

lemma own_metadata_invoke:
  assumes "iq_intent q = PDict d" and "dget d ''metadata'' \<noteq> None"
  shows "mercury_invoke M R (q\<lparr>iq_approval_response := ap\<rparr>) hid hkey gen w cache = mercury_invoke M R q hid hkey gen w cache"
proof -
  have c: "iq_chain (q\<lparr>iq_approval_response := ap\<rparr>) = iq_chain q"
    "effective_request_id (q\<lparr>iq_approval_response := ap\<rparr>) hid gen = effective_request_id q hid gen"
    "effective_idempotency_key (q\<lparr>iq_approval_response := ap\<rparr>) hkey = effective_idempotency_key q hkey"
    by (simp_all add: effective_request_id_def effective_idempotency_key_def)
  show ?thesis unfolding mercury_invoke_def state_from_request_def c own_metadata_boundary [OF assms] ..
qed

lemma request_without_decision:
  "invoke_request_of (turn_body key (tool_payload L state intent ap)) =
     (case invoke_request_of (turn_body key (tool_payload L state intent None)) of
        Inl e \<Rightarrow> Inl e
      | Inr q \<Rightarrow> Inr (q\<lparr>iq_approval_response := ap\<rparr>))"
proof -
  let ?D = "\<lambda>ap. turn_body key (tool_payload L state intent ap)"
  have same: "dget (?D ap) k = dget (?D None) k" if "k \<noteq> ''approval_response''" for k
    using that by (simp add: turn_body_def default_opt_def tool_payload_def map_add_def dget_dsetdefault split: option.splits)
  have "fst ` set (?D ap) \<subseteq> set REQUEST_FIELDS" for ap
    by (auto simp: turn_body_def default_opt_def tool_payload_def session_text_def REQUEST_FIELDS_def dsetdefault_def dset_def
        dom_update split: option.splits pyval.splits if_splits)
  then have extra: "extra_errs (?D ap) = []" for ap
    by (fastforce simp: extra_errs_def filter_empty_conv)
  have ap: "rd_opt_dict (?D ap) ''approval_response'' = Inr ap" for ap
    by (cases ap) (simp_all add: rd_opt_dict_def dget_none_def turn_body_get tool_payload_get)
  have rd: "rd_opt_str1 (?D ap) k = rd_opt_str1 (?D None) k" "rd_str1 (?D ap) k = rd_str1 (?D None) k"
    if "k \<noteq> ''approval_response''" for k
    using same [OF that] by (simp_all add: rd_opt_str1_def rd_opt_str_def rd_str1_def rd_str_def dget_none_def)
  have "rd_wallet (?D ap) = rd_wallet (?D None)" "rd_intent (?D ap) = rd_intent (?D None)" "rd_metadata (?D ap) = rd_metadata (?D None)"
    using same by (simp_all add: rd_wallet_def rd_intent_def rd_metadata_def rd)
  then show ?thesis
    by (simp add: invoke_request_of_def Let_def rd ap extra finish_def)
qed

lemma own_metadata_turn:
  assumes "dget intent ''metadata'' \<noteq> None"
  shows "run_turn M R rid gen (tool_payload L state intent ap) key w cache =
    run_turn M R rid gen (tool_payload L state intent None) key w cache"
proof (cases "invoke_request_of (turn_body key (tool_payload L state intent None))")
  case (Inl e)
  then show ?thesis using request_without_decision [of key L state intent ap] by (simp add: run_turn_def Let_def)
next
  case (Inr q)
  then show ?thesis
    using request_without_decision [of key L state intent ap] own_metadata_invoke [OF request_of_tool(1) [OF Inr] assms]
    by (simp add: run_turn_def Let_def)
qed

section \<open>Concrete calls\<close>

definition demo_json :: json_env where
  "demo_json = \<lparr>json_float = (\<lambda>_. PNone), json_wide = (\<lambda>_. ''?'')\<rparr>"

text \<open>An agreed transfer: the intent is the demo payload, the session holds the consent.\<close>

definition demo_session :: pydict where
  "demo_session = [(''user_id'', PStr ''u1''), (''wallet_id'', PStr ''w1''), (''approval_response'', PDict demo_consent)]"

lemma demo_jsonable:
  "jsonable lower_libs demo_json (PDict demo_native_payload)" "jsonable lower_libs demo_json (PDict demo_raw)"
  by (simp_all add: demo_native_payload_def demo_raw_def demo_meta_def demo_consent_def)

lemma demo_key: "py_strip ''k1'' = ''k1''" "validate_wallet_id ''w1'' = Inr ''w1''"
  by code_simp+

lemma demo_sanitized:
  "sanitize_intent_for_mercury_post demo_native_payload = (demo_native_payload, Some ''k1'')"
  "sanitize_intent_for_mercury_post demo_raw = (demo_raw, Some ''k1'')"
  by (simp_all add: sanitize_intent_for_mercury_post_def without_keys_def dget_str_def demo_key dset_def demo_native_payload_def
      demo_raw_def)

definition demo_tool_request :: "pydict \<Rightarrow> pydict option \<Rightarrow> invoke_request" where
  "demo_tool_request intent ap = \<lparr>iq_request_id = None, iq_user_id = ''u1'', iq_wallet_id = ''w1'', iq_intent = PDict intent,
     iq_chain = None, iq_idempotency_key = Some ''k1'', iq_approval_response = ap, iq_metadata = []\<rparr>"

lemma demo_tool_read:
  assumes "dget_none state ''user_id'' = PStr ''u1''" and "dget_none state ''wallet_id'' = PStr ''w1''" and "dget_none state ''chain'' = PNone"
  shows "invoke_request_of (turn_body (Some ''k1'') (tool_payload L state intent ap)) = Inr (demo_tool_request intent ap)"
proof -
  have "tool_payload L state intent ap = [(''intent'', PDict intent), (''user_id'', PStr ''u1''), (''wallet_id'', PStr ''w1'')]
      @ (case ap of Some a \<Rightarrow> [(''approval_response'', PDict a)] | None \<Rightarrow> [])"
    using assms by (simp add: tool_payload_def session_text_def str_or_def)
  then show ?thesis
    by (cases ap) (simp_all add: invoke_request_of_def turn_body_def default_opt_def dsetdefault_def dset_def rd_opt_str1_def
        rd_opt_str_def rd_str1_def rd_str_def nonempty_def rd_wallet_def rd_intent_def rd_opt_dict_def rd_metadata_def
        extra_errs_def REQUEST_FIELDS_def demo_key Let_def finish_def demo_tool_request_def)
qed

lemma demo_tool_boundary:
  "intent_with_boundary_fields (demo_tool_request demo_native_payload (Some demo_consent)) key = PDict demo_raw"
  "intent_with_boundary_fields (demo_tool_request demo_raw ap) key = PDict demo_raw"
  by (auto simp: intent_with_boundary_fields_def default_opt_def dsetdefault_def demo_tool_request_def demo_native_payload_def
      request_metadata_def demo_raw_def demo_meta_def dset_def Let_def split: option.splits)

text \<open>Both calls run the payload of the demo request, which reaches the signer.\<close>

lemma demo_tool_signs:
  assumes "intent_with_boundary_fields (demo_tool_request intent ap) (Some ''k1'') = PDict demo_raw"
    and "sanitize_intent_for_mercury_post intent = (intent, Some ''k1'')" and "dget_none intent ''kind'' \<noteq> PNone"
    and "dget_none state ''user_id'' = PStr ''u1''" "dget_none state ''wallet_id'' = PStr ''w1''" "dget_none state ''chain'' = PNone"
    and "normalize_approval_response lower_libs demo_json (dget_none state ''approval_response'') = Inr ap"
    and "jsonable lower_libs demo_json (PDict intent)"
  shows "\<exists>r x. SignerCalled r x \<in> set (w_log (fst (snd (mercury_invoke_tool demo_json marker M demo_runtime rid gen
      (json_text lower_libs (PDict intent)) state \<lparr>w_store = Map.empty, w_log = []\<rparr> [])))) \<and> sign_request_moves_value r"
proof -
  let ?w = "\<lparr>w_store = Map.empty, w_log = []\<rparr>"
  let ?q = "demo_tool_request intent ap"
  have l: "d_libs (rt_tx demo_runtime) = lower_libs" by (simp add: demo_runtime_def demo_deps_def demo_deps_bc_def)
  have k: "effective_idempotency_key ?q (Some ''k1'') = Some ''k1''"
    by (simp add: effective_idempotency_key_def demo_tool_request_def opt_or_def)
  let ?id = "effective_request_id ?q rid gen"
  have id: "effective_request_id demo_request None ?id = ?id"
    by (simp add: effective_request_id_def demo_request_def opt_or_def)
  have s: "state_from_request ?q ?id (Some ''k1'') = state_from_request demo_request ?id (effective_idempotency_key demo_request None)"
    unfolding state_from_request_def demo_boundary assms(1) ..
  have same: "fst (snd (mercury_invoke M demo_runtime ?q rid (Some ''k1'') gen ?w [])) =
      fst (snd (mercury_invoke M demo_runtime demo_request None None ?id ?w []))"
    unfolding mercury_invoke_def Let_def k id s by (simp split: prod.splits sum.splits)
  have "fst (snd (mercury_invoke_tool demo_json marker M demo_runtime rid gen (json_text lower_libs (PDict intent)) state ?w [])) =
      fst (snd (mercury_invoke M demo_runtime ?q rid (Some ''k1'') gen ?w []))"
    using assms(2,3,7) loads_dumps [OF assms(8)] demo_tool_read [OF assms(4-6)]
    by (auto simp: mercury_invoke_tool_def l payload_of_session build_mercury_invoke_payload_def run_turn_def tool_payload_def
        Let_def split: prod.splits sum.splits service_error.splits)
  with same demo_request_signs [of M ?id] demo_request_value show ?thesis by metis
qed

text \<open>C3: a signature that moves value and starts from a call of the Juno tool was approved: with the default approver, if the
  signer is called with value or calldata, the text of the language model is a JSON object, and there is an approval that
  reads approved and whose key, when it has one, is the key of the signed transaction. When the object has no metadata of its
  own the approval is what the session's decision means; otherwise it is in the metadata the language model wrote.\<close>

theorem signed_tool_call_was_approved:
  assumes "web3_laws (d_libs (rt_tx R))" and "lax_laws (d_libs (rt_tx R))" and "wf_store st"
    and "d_approver (rt_tx R) = request_metadata_approver (d_libs (rt_tx R))"
    and "mercury_invoke_tool J marker M R rid gen txt0 state \<lparr>w_store = st, w_log = []\<rparr> cache = (out, w', cache')"
    and "SignerCalled r x \<in> set (w_log w')" and "sign_request_moves_value r"
  shows "\<exists>intent ap y. json_loads J txt0 = Inr (PDict intent) \<and> build_sign_request (d_libs (rt_tx R)) y = Inr r \<and>
    approval_status_text (d_libs (rt_tx R)) ap = ''approved'' \<and>
    approval_key_matches (d_libs (rt_tx R)) ap (case exec_idempotency_key y of None \<Rightarrow> [] | Some k \<Rightarrow> k) \<and>
    (case dget intent ''metadata'' of
       None \<Rightarrow> normalize_approval_response (d_libs (rt_tx R)) J (dget_none state ''approval_response'') = Inr (Some ap)
     | Some m \<Rightarrow> \<exists>meta. m = PDict meta \<and> (''approval_response'', PDict ap) \<in> set meta)"
  by (rule tool_consent [OF assms])

lemma demo_session_facts:
  "dget_none demo_session ''user_id'' = PStr ''u1''" "dget_none demo_session ''wallet_id'' = PStr ''w1''"
  "dget_none demo_session ''chain'' = PNone"
  "normalize_approval_response lower_libs demo_json (dget_none demo_session ''approval_response'') = Inr (Some demo_consent)"
  by (simp_all add: demo_session_def normalize_approval_response_def)

theorem signed_tool_call_was_approved_witness:
  "\<exists>intent. json_loads demo_json (json_text lower_libs (PDict demo_native_payload)) = Inr (PDict intent) \<and>
    normalize_approval_response lower_libs demo_json (dget_none demo_session ''approval_response'') \<noteq> Inr None"
proof -
  let ?run = "mercury_invoke_tool demo_json ''m'' (\<lambda>_. PNone) demo_runtime None ''id'' (json_text lower_libs (PDict demo_native_payload))
     demo_session \<lparr>w_store = Map.empty, w_log = []\<rparr> []"
  have st: "wf_store Map.empty" using demo_wf by (simp add: demo_world_def)
  have kind: "dget_none demo_native_payload ''kind'' \<noteq> PNone" by (simp add: demo_native_payload_def)
  obtain out w' cache' where run: "?run = (out, w', cache')" by (metis prod.exhaust)
  from demo_tool_signs [OF demo_tool_boundary(1) demo_sanitized(1) kind demo_session_facts demo_jsonable(1),
      of "''m''" "\<lambda>_. PNone" None "''id''"]
  obtain r x where sc: "SignerCalled r x \<in> set (w_log w')" "sign_request_moves_value r" unfolding run by auto
  from signed_tool_call_was_approved [OF demo_runtime_laws(1,2) st demo_runtime_laws(3) run sc] demo_session_facts(4)
  show ?thesis by auto
qed

text \<open>C9: an intent that brings metadata of its own makes the session's decision irrelevant: whatever the session holds as
  the human's answer (a denial, an approval, or nothing), the call has the same outcome, effects included. So the language
  model can write the approval of its own transaction into the intent, and a denial does not stop it.\<close>

theorem own_metadata_overrides_session:
  assumes "json_loads J txt0 = Inr (PDict intent)" and "dget intent ''metadata'' \<noteq> None"
    and "\<forall>k \<in> {''user_id'', ''wallet_id'', ''chain''}. dget_none s1 k = dget_none s2 k"
    and "normalize_approval_response (d_libs (rt_tx R)) J (dget_none s1 ''approval_response'') = Inr ap1"
    and "normalize_approval_response (d_libs (rt_tx R)) J (dget_none s2 ''approval_response'') = Inr ap2"
  shows "mercury_invoke_tool J marker M R rid gen txt0 s1 w cache = mercury_invoke_tool J marker M R rid gen txt0 s2 w cache"
proof -
  let ?L = "d_libs (rt_tx R)"
  obtain clean key where c: "sanitize_intent_for_mercury_post intent = (clean, key)" by fastforce
  have meta: "dget clean ''metadata'' \<noteq> None" using sanitized_get [OF c, of "''metadata''"] assms(2) by simp
  have "tool_payload ?L s1 clean None = tool_payload ?L s2 clean None"
    using assms(3) by (simp add: tool_payload_def session_text_def)
  then have "run_turn M R rid gen (tool_payload ?L s1 clean ap1) key w cache = run_turn M R rid gen (tool_payload ?L s2 clean ap2) key w cache"
    using own_metadata_turn [OF meta, of M R rid gen ?L] by metis
  with assms(4,5) show ?thesis
    unfolding mercury_invoke_tool_def assms(1)
    by (simp add: c Let_def build_mercury_invoke_payload_def tool_payload_def)
qed

definition demo_denied_session :: pydict where
  "demo_denied_session = [(''user_id'', PStr ''u1''), (''wallet_id'', PStr ''w1''),
     (''approval_response'', PDict [(''status'', PStr ''denied'')])]"

theorem own_metadata_overrides_session_witness:
  "\<exists>r x. SignerCalled r x \<in> set (w_log (fst (snd (mercury_invoke_tool demo_json ''m'' (\<lambda>_. PNone) demo_runtime None ''id''
      (json_text lower_libs (PDict demo_raw)) demo_denied_session \<lparr>w_store = Map.empty, w_log = []\<rparr> []))))"
proof -
  let ?run = "\<lambda>s. mercury_invoke_tool demo_json ''m'' (\<lambda>_. PNone) demo_runtime None ''id'' (json_text lower_libs (PDict demo_raw)) s
     \<lparr>w_store = Map.empty, w_log = []\<rparr> []"
  have l: "d_libs (rt_tx demo_runtime) = lower_libs" by (simp add: demo_runtime_def demo_deps_def demo_deps_bc_def)
  have n: "normalize_approval_response (d_libs (rt_tx demo_runtime)) demo_json (dget_none demo_denied_session ''approval_response'') =
      Inr (Some [(''status'', PStr ''denied'')])"
    "normalize_approval_response (d_libs (rt_tx demo_runtime)) demo_json (dget_none demo_session ''approval_response'') =
      Inr (Some demo_consent)"
    by (simp_all add: demo_denied_session_def demo_session_def normalize_approval_response_def)
  have "?run demo_denied_session = ?run demo_session"
    by (rule own_metadata_overrides_session [OF loads_dumps [OF demo_jsonable(2)] _ _ n])
      (simp_all add: demo_raw_def demo_native_payload_def demo_denied_session_def demo_session_def)
  moreover have "dget_none demo_raw ''kind'' \<noteq> PNone" by (simp add: demo_raw_def demo_native_payload_def)
  ultimately show ?thesis
    using demo_tool_signs [OF demo_tool_boundary(2) demo_sanitized(2) _ demo_session_facts demo_jsonable(2)] by metis
qed

section \<open>What a chat text means\<close>

lemma chat_text_normalized:
  assumes "\<not> (prefix ''{'' (py_strip t) \<and> suffix ''}'' (py_strip t))" and "\<not> prefix ''denied:'' (py_lower (py_strip t))"
  shows "normalize_approval_response L J (PStr t) = Inr (Some
    (if prefix ''approved:'' (py_lower (py_strip t)) then telegram_response ''approved'' (after_colon (py_strip t))
     else approved_text (py_strip t)))"
  using assms by (auto simp: normalize_approval_response_def Let_def)

lemma approved_status:
  "approval_status_text L (telegram_response ''approved'' k) = ''approved''"
  "approval_status_text L (approved_text s) = ''approved''"
proof -
  have "py_lower (py_strip ''approved'') = ''approved''" by code_simp
  then show "approval_status_text L (telegram_response ''approved'' k) = ''approved''"
    "approval_status_text L (approved_text s) = ''approved''"
    by (simp_all add: approval_status_text_def telegram_response_def approved_text_def)
qed

lemma metadata_approves:
  fixes r :: approval_request
  assumes "dget_none (ar_metadata r) ''approval_response'' = PDict ap" and "approval_status_text L ap = ''approved''"
    and "approval_key_matches L ap (ar_idempotency_key r)" and "dget_none ap ''reason'' = PStr why"
  shows "\<exists>a. request_metadata_approver L r = Inr a \<and> apr_approved a"
  using assms by (simp add: request_metadata_approver_def mk_approval_result_def finish_def min_len_def str_or_def apr_approved_def)

lemma chat_text_approves:
  assumes "\<not> (prefix ''{'' (py_strip t) \<and> suffix ''}'' (py_strip t))" and "\<not> prefix ''denied:'' (py_lower (py_strip t))"
  shows "\<exists>ap. normalize_approval_response L J (PStr t) = Inr (Some ap) \<and>
    (\<forall>r :: approval_request. dget_none (ar_metadata r) ''approval_response'' = PDict ap \<longrightarrow>
       (prefix ''approved:'' (py_lower (py_strip t)) \<longrightarrow> after_colon (py_strip t) \<in> {[], ar_idempotency_key r}) \<longrightarrow>
       (\<exists>a. request_metadata_approver L r = Inr a \<and> apr_approved a))"
proof -
  let ?ap = "if prefix ''approved:'' (py_lower (py_strip t)) then telegram_response ''approved'' (after_colon (py_strip t))
     else approved_text (py_strip t)"
  have n: "normalize_approval_response L J (PStr t) = Inr (Some ?ap)" by (rule chat_text_normalized [OF assms])
  have "\<exists>a. request_metadata_approver L r = Inr a \<and> apr_approved a"
    if m: "dget_none (ar_metadata r) ''approval_response'' = PDict ?ap"
      and k: "prefix ''approved:'' (py_lower (py_strip t)) \<longrightarrow> after_colon (py_strip t) \<in> {[], ar_idempotency_key r}"
    for r :: approval_request
  proof -
    have "approval_key_matches L ?ap (ar_idempotency_key r)"
      using k by (auto simp: approval_key_matches_def telegram_response_def approved_text_def)
    moreover have "\<exists>why. dget_none ?ap ''reason'' = PStr why" by (simp add: telegram_response_def approved_text_def)
    moreover have "approval_status_text L ?ap = ''approved''" by (simp add: approved_status)
    ultimately show ?thesis using metadata_approves [OF m] by blast
  qed
  with n show ?thesis by blast
qed

text \<open>C35: every chat text but a JSON object and a text that starts with denied: counts as an approval: the default approver
  approves any transaction whose metadata holds what the text is read as, except that a key given after approved: must be
  the transaction's. A plain no is an approval of whatever is asked.\<close>

theorem chat_text_is_consent:
  assumes "\<not> (prefix ''{'' (py_strip t) \<and> suffix ''}'' (py_strip t))" and "\<not> prefix ''denied:'' (py_lower (py_strip t))"
  shows "\<exists>ap. normalize_approval_response L J (PStr t) = Inr (Some ap) \<and>
    (\<forall>r :: approval_request. dget_none (ar_metadata r) ''approval_response'' = PDict ap \<longrightarrow>
       (prefix ''approved:'' (py_lower (py_strip t)) \<longrightarrow> after_colon (py_strip t) \<in> {[], ar_idempotency_key r}) \<longrightarrow>
       (\<exists>a. request_metadata_approver L r = Inr a \<and> apr_approved a))"
  by (rule chat_text_approves [OF assms])

lemma demo_no: "py_strip ''no'' = ''no''" "py_lower ''no'' = ''no''"
  by code_simp+

theorem chat_text_is_consent_witness:
  "\<exists>ap. normalize_approval_response lower_libs demo_json (PStr ''no'') = Inr (Some ap) \<and>
    (\<forall>r :: approval_request. dget_none (ar_metadata r) ''approval_response'' = PDict ap \<longrightarrow>
       (\<exists>a. request_metadata_approver lower_libs r = Inr a \<and> apr_approved a))"
  using chat_text_is_consent [of "''no''" lower_libs demo_json] by (simp add: demo_no)

section \<open>The answer of a read\<close>

lemma dget_filter_key: "k \<noteq> k' \<Longrightarrow> dget (filter (\<lambda>(k, v). k \<noteq> k') d) k = dget d k"
  by (induction d) auto

lemma dmerge_other: "k \<notin> fst ` set b \<Longrightarrow> dget (dmerge a b) k = dget a k"
  unfolding dmerge_def by (induction b arbitrary: a) (auto split: prod.splits)

definition RESPONSE_DATA_KEYS :: "string list" where
  "RESPONSE_DATA_KEYS = [''execution_result'', ''messages'', ''request_id'', ''raw_input'', ''parsed_intent'', ''chain_name'',
     ''chain_config'', ''chain_reference'', ''selected_tool_name'', ''tool_input'', ''tool_result'', ''response_text'', ''read_result'',
     ''policy_decision'', ''prepared_transaction'', ''prepared_swap'', ''executable_transaction'', ''simulation_result'',
     ''approval_result'', ''signed_transaction'', ''tx_hash'', ''wallet_address'', ''error'']"

lemma redact_dict_keys: "fst ` set (redact_dict d) = fst ` set d"
  by (force simp: redact_dict_def)

lemma state_json_keys: "fst ` set (state_json M s) \<subseteq> set RESPONSE_DATA_KEYS"
  by (auto simp: state_json_def present_def RESPONSE_DATA_KEYS_def split: option.splits)

lemma response_data_keys: "fst ` set (rs_data (response_from_state M s rid fb)) \<subseteq> set RESPONSE_DATA_KEYS"
  using state_json_keys [of M s] redact_dict_keys [of "state_json M s"]
  by (auto simp: response_from_state_def Let_def RESPONSE_DATA_KEYS_def split: option.splits)

text \<open>A response without an error, and without an approval to ask for, is read as a success with the whole body.\<close>

lemma plain_response_turn:
  assumes "rs_status (response_from_state M s rid fb) \<notin> {''failed'', ''rejected'', ''approval_required''}"
    and "rs_error (response_from_state M s rid fb) = None" and "\<not> rs_approval_required (response_from_state M s rid fb)"
  shows "local_response_to_result L (response_from_state M s rid fb) =
    AssistantTurnSuccess None (Some (merge_mercury_payload (response_json (response_from_state M s rid fb))))"
proof -
  let ?resp = "response_from_state M s rid fb"
  let ?raw = "response_json ?resp" and ?e = "merge_mercury_payload (response_json ?resp)"
  have merged: "?e = filter (\<lambda>(k, v). k \<noteq> ''data'') (dmerge ?raw (rs_data ?resp))"
    by (simp add: merge_mercury_payload_def response_json_def)
  have get: "dget ?e k = dget ?raw k" if "k \<notin> set RESPONSE_DATA_KEYS" "k \<noteq> ''data''" for k
    unfolding merged dget_filter_key [OF that(2)] using response_data_keys [of M s rid fb] that(1) by (intro dmerge_other) auto
  have e: "dget ?e ''status'' = Some (PStr (rs_status ?resp))" "dget ?e ''approval_required'' = Some (PBool False)"
    "dget ?e ''wallet_approval_required'' = None" "dget ?e ''agent_error'' = None" "dget ?e ''agent_reply'' = None"
    "dget ?e ''task_result'' = None"
    using assms(3) by (simp_all add: get RESPONSE_DATA_KEYS_def) (simp_all add: response_json_def)
  then have "?e \<noteq> []" by auto
  with e assms(1) have "parse_mercury_body L ?raw = AssistantTurnSuccess None (Some ?e)"
    by (simp add: parse_mercury_body_def Let_def dget_none_def success_turn_def)
  moreover have "local_response_to_result L ?resp = parse_mercury_body L ?raw"
    using assms(1,2) by (simp add: local_response_to_result_def response_json_def Let_def)
  ultimately show ?thesis by simp
qed

text \<open>C36: what the language model is told of a request that succeeded, and needs no approval, is the whole response: the tool's
  text is a JSON document that decodes to the response, with its data merged into it, as long as its numbers can be printed and
  read and no object of it has a name twice.\<close>

theorem tool_text_carries_response:
  assumes "mercury_invoke M R q hid hkey gen w cache = (Inr resp, w', cache')"
    and "rs_status resp \<notin> {''failed'', ''rejected'', ''approval_required''}" and "rs_error resp = None"
    and "\<not> rs_approval_required resp"
    and "jsonable L J (PDict (merge_mercury_payload (response_json resp)))"
  shows "json_loads J (turn_result_to_tool_text L marker (local_response_to_result L resp)) =
    Inr (PDict (merge_mercury_payload (response_json resp)))"
proof -
  from assms(1) obtain s rid fb where "resp = response_from_state M s rid fb"
    by (auto simp: mercury_invoke_def Let_def split: prod.splits sum.splits)
  with plain_response_turn [of M s rid fb L] loads_dumps [OF assms(5)] assms(2-4)
  show ?thesis by (simp add: turn_result_to_tool_text_def)
qed

lemma jsonable_redact: "jsonable L J v \<Longrightarrow> jsonable L J (redact_value v)"
proof (induction v rule: redact_value.induct)
  case (1 d)
  have "map fst (map (\<lambda>(k, v). (k, if is_sensitive_key k then PStr REDACTION else redact_value v)) d) = map fst d"
    by (induction d) auto
  with 1 show ?case by (auto simp: list_all_iff simp del: map_map)
qed (auto simp: list_all_iff)

lemma set_dmerge: "set (dmerge a b) \<subseteq> set a \<union> set b"
  unfolding dmerge_def
proof (induction b arbitrary: a)
  case (Cons p b)
  have "set (dset k v a) \<subseteq> insert (k, v) (set a)" for k v unfolding dset_def by (induction a) auto
  with Cons [of "dset (fst p) (snd p) a"] show ?case by (cases p) auto
qed simp

lemma response_jsonable:
  assumes "jsonable L J (PDict (rs_data resp))" and "rs_receipt resp = None" "rs_approval_payload resp = None" "rs_error resp = None"
  shows "jsonable L J (PDict (merge_mercury_payload (response_json resp)))"
proof -
  let ?e = "dmerge (response_json resp) (rs_data resp)"
  have m: "merge_mercury_payload (response_json resp) = filter (\<lambda>(k, v). k \<noteq> ''data'') ?e"
    by (simp add: merge_mercury_payload_def response_json_def)
  have "wf_dict ?e" by (rule wf_dict_dmerge) (simp add: wf_dict_def response_json_def)
  then have "distinct (map fst (filter (\<lambda>(k, v). k \<noteq> ''data'') ?e))" by (simp add: wf_dict_def distinct_map_filter)
  moreover have "opt_val PStr x = PNone \<or> (\<exists>s. opt_val PStr x = PStr s)" for x by (cases x) simp_all
  then have "jsonable L J (opt_val PStr x)" for x by (metis jsonable.simps)
  then have "list_all (\<lambda>(k, v). jsonable L J v) (response_json resp)"
    using assms by (simp add: response_json_def)
  then have "\<forall>(k, v) \<in> set ?e. jsonable L J v"
    using assms(1) set_dmerge [of "response_json resp" "rs_data resp"] by (auto simp: list_all_iff)
  ultimately show ?thesis unfolding m by (auto simp: list_all_iff)
qed

lemma no_kind_data:
  assumes "s = no_kind_state (success_state (state_from_request q rid key) raw)"
  shows "state_json M s = [(''messages'', PList (map (M \<circ> MessageModel) (s_messages s))), (''request_id'', PStr rid),
    (''raw_input'', PDict raw), (''parsed_intent'', PDict (intent_json (UnsupportedIntent ''Structured intents must include a kind.''))),
    (''response_text'', PStr UNSUPPORTED_NO_KIND), (''read_result'', PDict [(''intent_kind'', PStr ''unsupported'')])]"
  unfolding assms
  by (simp add: state_json_def present_def no_kind_state_def with_response_def success_state_def state_from_request_def empty_state_def
      slot_json_def result_json_def)

theorem tool_text_carries_response_witness:
  "\<exists>resp. mercury_invoke (\<lambda>_. PNone) demo_runtime demo_nested_request None None ''id'' demo_world [] = (Inr resp, demo_world, []) \<and>
    json_loads demo_json (turn_result_to_tool_text lower_libs ''m'' (local_response_to_result lower_libs resp)) =
      Inr (PDict (merge_mercury_payload (response_json resp)))"
proof -
  let ?M = "\<lambda>_ :: state_model. PNone" and ?k = "effective_idempotency_key demo_nested_request None"
  let ?id = "effective_request_id demo_nested_request None ''id''"
  let ?raw = "dset ''intent'' (PDict (native_intent_json demo_native_intent))
     [(''intent'', PDict demo_native_payload), (''wallet_id'', PStr ''w1''), (''metadata'', PDict demo_meta)]"
  let ?s = "no_kind_state (success_state (state_from_request demo_nested_request ?id ?k) ?raw)"
  let ?resp = "response_from_state ?M ?s ?id None"
  have s: "s_error ?s = None" "s_execution_result ?s = None" "s_approval_result ?s = None"
    by (simp_all add: no_kind_state_def with_response_def success_state_def state_from_request_def empty_state_def)
  have run: "mercury_invoke ?M demo_runtime demo_nested_request None None ''id'' demo_world [] = (Inr ?resp, demo_world, [])"
    by (simp add: mercury_invoke_def nested_run [OF demo_nested_premises] Let_def)
       (simp add: demo_nested_request_def demo_request_def)
  have "jsonable lower_libs demo_json (PDict (state_json ?M ?s))"
    unfolding no_kind_data [OF refl]
    by (simp add: list_all_iff dset_def demo_native_payload_def demo_meta_def demo_consent_def native_intent_json_def demo_native_intent_def)
  then have "jsonable lower_libs demo_json (PDict (redact_dict (state_json ?M ?s)))"
    using jsonable_redact [of lower_libs demo_json "PDict (state_json ?M ?s)"] by (simp add: redact_dict_def)
  then have "jsonable lower_libs demo_json (PDict (rs_data ?resp))" using s by (simp add: response_from_state_def Let_def)
  then have "jsonable lower_libs demo_json (PDict (merge_mercury_payload (response_json ?resp)))"
    using s by (intro response_jsonable) (simp_all add: response_from_state_def Let_def approval_payload_def approval_is_required_def)
  with tool_text_carries_response [OF run, of lower_libs demo_json "''m''"] run s show ?thesis
    by (simp add: response_from_state_def Let_def approval_is_required_def)
qed

end
