(* ===== verification/Approval_Turns.thy ===== *)
theory Approval_Turns
  imports Juno_Properties
begin

text \<open>
  What the Juno plugin makes of a run that needs a human's approval. The pipeline ends such a run with an execution result that
  carries an error; the runner reads the error first.
\<close>

section \<open>A required approval comes with an error\<close>

definition settled :: "mercury_state \<Rightarrow> bool" where
  "settled s \<longleftrightarrow> (approval_is_required (s_approval_result s) \<longrightarrow> (\<exists>x. s_execution_result s = Some x \<and> res_error x \<noteq> None))"

lemma nothing_required [simp]: "\<not> approval_is_required None"
  by (simp add: approval_is_required_def)

lemma settledI: "\<not> approval_is_required (s_approval_result s) \<Longrightarrow> settled s"
  by (simp add: settled_def)

lemma unasked_settled: "s_approval_result s = None \<Longrightarrow> settled s"
  by (simp add: settled_def approval_is_required_def)

lemma node_keeps_approval:
  assumes "run_node d n s w = (Inr s', w')" and "n \<noteq> RequestApproval"
  shows "s_approval_result s' = s_approval_result s"
proof (cases n)
  case ResolveNonce
  with assms show ?thesis by (auto simp: rbind_eq_Inr resolve_nonce_def rcatch_def split: sum.splits)
next
  case PopulateGas
  with assms(1) have "populate_gas d s = Inr s'" by simp
  then have "s' = s \<or> (\<exists>t. s' = s\<lparr>s_executable_transaction := Some t\<rparr>) \<or> (\<exists>e. s' = s\<lparr>s_error := Some e\<rparr>)"
    unfolding populate_gas_def rcatch_def by (auto simp: rbind_eq_Inr split: sum.splits if_splits prod.splits option.splits)
  then show ?thesis by auto
next
  case SimulateTransaction
  with assms show ?thesis
    by (auto simp: simulate_transaction_def rcatch_def rbind_eq_Inr Let_def split: sum.splits if_splits)
next
  case EvaluatePolicy
  with assms(1) have "evaluate_policy d s = Inr s'" by simp
  from evaluate_policy_result [OF this] show ?thesis by auto
next
  case CheckIdempotency
  with assms show ?thesis
    by (auto simp: check_idempotency_def idempotency_failed_def replay_or_conflict_def with_result_Inr
        split: sum.splits option.splits prod.splits reserve_outcome.splits)
next
  case SignTransaction
  with assms show ?thesis by (auto simp: sign_transaction_def with_result_Inr split: sum.splits prod.splits)
next
  case BroadcastTransaction
  with assms show ?thesis by (auto simp: broadcast_transaction_def with_result_Inr split: sum.splits prod.splits if_splits)
next
  case MonitorReceipt
  with assms show ?thesis
    by (auto simp: monitor_receipt_def monitor_failed_def split: sum.splits prod.splits if_splits)
next
  case RejectTransaction
  with assms show ?thesis by (auto simp: reject_transaction_def with_result_Inr split: if_splits)
qed (use assms in simp)

lemma reject_settled: "reject_transaction d s = Inr s' \<Longrightarrow> settled s \<Longrightarrow> settled s'"
  by (auto simp: reject_transaction_def with_result_Inr settled_def split: if_splits)

text \<open>Where the approval stands when a node is reached.\<close>

fun approval_at :: "tx_node \<Rightarrow> mercury_state \<Rightarrow> bool" where
  "approval_at RejectTransaction s \<longleftrightarrow> settled s"
| "approval_at n s \<longleftrightarrow> (if 5 \<le> node_rank n then s_approval_result s = None else \<not> approval_is_required (s_approval_result s))"

lemma record_approval_at:
  assumes "request_approval d s w = (Inr s', w')" and "s_approval_result s = None"
  shows "approval_at (route_after_transaction_approval s') s'"
  using assms
  by (auto simp: request_approval_def record_approval_def approval_failed_def with_result_Inr rcatch_def rbind_eq_Inr settled_def
      approval_is_required_def route_after_transaction_approval_def dest!: result_from_state_status
      split: sum.splits prod.splits if_splits)

lemma next_approval_at:
  assumes "run_node d n s w = (Inr s', w')" and "next_node n s' = Some n'" and "approval_at n s"
  shows "approval_at n' s'"
proof (cases "n = RequestApproval")
  case True
  with assms record_approval_at [of d s w s' w'] show ?thesis by auto
next
  case False
  note kept = node_keeps_approval [OF assms(1) this]
  show ?thesis
    using assms(2,3) kept False
    by (cases n) (auto simp: route_after_transaction_policy_def route_after_idempotency_def unasked_settled settledI
        split: option.splits policy_status.splits if_splits)
qed

lemma run_settled:
  "run_from d n s w = (Inr s', w') \<Longrightarrow> approval_at n s \<Longrightarrow> settled s'"
proof (induction d n s w arbitrary: s' w' rule: run_from.induct)
  case (1 d n s w)
  from 1(2) obtain s1 w1 where node: "run_node d n s w = (Inr s1, w1)"
    by (subst (asm) run_from.simps) (auto split: sum.splits prod.splits)
  show ?case
  proof (cases "next_node n s1")
    case None
    with 1(2) node have s': "s' = s1" by (subst (asm) run_from.simps) simp
    from None consider "n = MonitorReceipt" | "n = RejectTransaction" by (cases n) auto
    then show ?thesis
    proof cases
      case 1
      with node_keeps_approval [OF node] "1.prems"(2) s' show ?thesis by (simp add: settledI)
    next
      case 2
      with node "1.prems"(2) s' reject_settled [of d s s1] show ?thesis by simp
    qed
  next
    case (Some n')
    have "run_from d n' s1 w1 = (Inr s', w')"
      using 1(2) node Some by (subst (asm) run_from.simps) simp
    from 1(1) [OF node [symmetric] refl Some this next_approval_at [OF node Some 1(3)]] show ?thesis .
  qed
qed

text \<open>The entries of the graphs: preparation and the read nodes leave the approval alone.\<close>

lemma run_from_unasked:
  "run_from d n s w = (Inr s', w') \<Longrightarrow> s_approval_result s = None \<Longrightarrow> n \<in> {ResolveNonce, RejectTransaction} \<Longrightarrow> settled s'"
  using run_settled [of d n s w s' w'] by (auto simp: unasked_settled)

lemma answer_keeps_approval:
  "unsupported_response s = Inr s' \<Longrightarrow> s_approval_result s' = s_approval_result s"
  "format_response L s = Inr s' \<Longrightarrow> s_approval_result s' = s_approval_result s"
  by (auto simp: unsupported_response_def format_response_def with_response_def rbind_eq_Inr split: option.splits)

lemma prepared_keeps_approval:
  "s_approval_result (prepare_erc20_transaction L g s) = s_approval_result s"
  "s_approval_result (prepare_native_transaction L C g' s) = s_approval_result s"
  "prepare_swap_transaction L C g'' s = Inr s' \<Longrightarrow> s_approval_result s' = s_approval_result s"
  by (auto simp: prepare_erc20_transaction_def prepare_native_transaction_def prepare_swap_transaction_def Let_def rbind_eq_Inr
      state_for_preparation_error_def state_with_prepared_def split: sum.splits option.splits prod.splits if_splits)

lemma preparation_graphs_settled:
  assumes "s_approval_result s = None"
  shows "run_erc20_graph g d s w = (Inr s', w') \<Longrightarrow> settled s'"
    and "run_native_graph g' d s w = (Inr s', w') \<Longrightarrow> settled s'"
    and "run_swap_graph g'' d s w = (Inr s', w') \<Longrightarrow> settled s'"
  using assms
  by (auto simp: run_erc20_graph_def run_native_graph_def run_swap_graph_def Let_def answer_keeps_approval(1) unasked_settled
      prepared_keeps_approval route_after_erc20_prepare_def route_after_native_prepare_def end_swap_typed_order_pipeline_def
      dest!: prepared_keeps_approval(3) run_from_unasked split: entry_route.splits sum.splits swap_route_target.splits if_splits)

lemma chain_state_keeps_approval:
  "s_approval_result (with_chain_config s c) = s_approval_result s" "s_approval_result (chain_failure L s e) = s_approval_result s"
  "s_approval_result (named_chain_failure L s name e) = s_approval_result s"
  by (simp_all add: with_chain_config_def chain_failure_def named_chain_failure_def)

lemma named_chains_keep_approval:
  "resolve_named_chains L C s names = Inr s' \<Longrightarrow> s_approval_result s' = s_approval_result s"
  unfolding resolve_named_chains_def
  by (cases "first_some (map (unserved_chain C) (sort (remdups names)))")
     (auto simp: rbind_eq_Inr chain_state_keeps_approval)

lemma plain_chain_keeps_approval:
  "resolve_plain_chain L C s d = Inr s' \<Longrightarrow> s_approval_result s' = s_approval_result s"
  "resolve_chain_for_transfer_history L C s d = Inr s' \<Longrightarrow> s_approval_result s' = s_approval_result s"
  unfolding resolve_plain_chain_def resolve_chain_for_transfer_history_def rbind_eq_Inr
  by (elim exE conjE; auto simp: chain_state_keeps_approval split: sum.splits)+

lemma resolve_chain_keeps_approval:
  assumes "resolve_chain L C s = Inr s'"
  shows "s_approval_result s' = s_approval_result s"
proof -
  from assms obtain d where d: "(let kind = dget_none d ''kind'' in
     if kind = PStr (kind_value TOKEN_PRICES) then resolve_chain_for_token_prices L C s d
     else if kind = PStr (kind_value PORTFOLIO_TOKENS) then resolve_chain_for_portfolio_tokens L C s d
     else if kind = PStr (kind_value TRANSFER_HISTORY) then resolve_chain_for_transfer_history L C s d
     else resolve_plain_chain L C s d) = Inr s'" unfolding resolve_chain_def rbind_eq_Inr by blast
  have "resolve_chain_for_token_prices L C s d = Inr s' \<Longrightarrow> s_approval_result s' = s_approval_result s"
    "resolve_chain_for_portfolio_tokens L C s d = Inr s' \<Longrightarrow> s_approval_result s' = s_approval_result s"
    using named_chains_keep_approval
    by (auto simp: resolve_chain_for_token_prices_def resolve_chain_for_portfolio_tokens_def Let_def chain_state_keeps_approval
        split: if_splits)
  with d plain_chain_keeps_approval show ?thesis by (auto simp: Let_def split: if_splits)
qed

lemma execute_read_tool_keeps_approval:
  "execute_read_tool L C reg n s = Inr s' \<Longrightarrow> s_approval_result s' = s_approval_result s"
  unfolding execute_read_tool_def rbind_eq_Inr Let_def
  by (elim exE conjE) (auto split: sum.splits)

lemma read_graph_keeps_approval:
  "run_read_graph L C reg s = Inr s' \<Longrightarrow> s_approval_result s' = s_approval_result s"
proof -
  have "s_approval_result (parse_intent L C s) = s_approval_result s"
    by (simp add: parse_intent_def split: sum.splits)
  then show "run_read_graph L C reg s = Inr s' \<Longrightarrow> s_approval_result s' = s_approval_result s"
    by (auto simp: run_read_graph_def Let_def rbind_eq_Inr split: if_splits
        dest!: answer_keeps_approval resolve_chain_keeps_approval execute_read_tool_keeps_approval)
qed

lemma validated_keeps_approval:
  assumes "validate_invoke_intent L C K resolver s cache = (Inr (Valid s'), cache')"
  shows "s_approval_result s' = s_approval_result s"
proof -
  have "s_approval_result s' = s_approval_result s" if "validate_merged L C K s raw kind merged = Inr (Valid s')" for raw kind merged
    using that
    by (auto simp: validate_merged_def success_state_def split: option.splits sum.splits exn.splits parsed_intent.splits)
  with assms show ?thesis
    by (auto simp: validate_invoke_intent_def Let_def split: pyval.splits prod.splits sum.splits option.splits)
qed

lemma runtime_settled:
  assumes "runtime_invoke R s w cache = ((Inr s', w'), cache')" and "s_approval_result s = None"
  shows "settled s'"
proof -
  obtain v cache1 where v: "runtime_validate R s cache = (v, cache1)" by fastforce
  with assms(1) have run: "run_validated R s v w = (Inr s', w')" by (simp add: runtime_invoke_def)
  show ?thesis
  proof (cases v)
    case (Inr u)
    show ?thesis
    proof (cases u)
      case (Invalid info)
      with run Inr assms(2) show ?thesis
        by (auto simp: run_validated_def invalid_intent_state_def Let_def unasked_settled)
    next
      case (Valid s1)
      with v Inr have "s_approval_result s1 = None"
        using validated_keeps_approval assms(2) by (simp add: runtime_validate_def)
      with run Inr Valid show ?thesis
        by (auto simp: run_validated_def run_graph_def preparation_graphs_settled unasked_settled
            dest!: read_graph_keeps_approval split: graph_label.splits)
    qed
  qed (use run in \<open>simp add: run_validated_def\<close>)
qed

section \<open>The turn of a run\<close>

lemma response_of_settled:
  assumes "settled s" and "rs_error (response_from_state M s rid fb) = None"
  shows "\<not> rs_approval_required (response_from_state M s rid fb)"
    and "rs_status (response_from_state M s rid fb) \<noteq> ''approval_required''"
proof -
  have "execution_status_value x \<noteq> ''approval_required''" for x by (cases x) simp_all
  with assms show "\<not> rs_approval_required (response_from_state M s rid fb)"
    and "rs_status (response_from_state M s rid fb) \<noteq> ''approval_required''"
    by (auto simp: settled_def response_from_state_def Let_def split: option.splits if_splits)
qed

lemma settled_turn:
  assumes "settled s"
  shows "local_response_to_result L (response_from_state M s rid fb) \<noteq> AssistantTurnWalletApproval token aid extras"
proof (cases "rs_error (response_from_state M s rid fb)")
  case None
  show ?thesis
  proof (cases "rs_status (response_from_state M s rid fb) \<in> {''failed'', ''rejected''}")
    case True
    with None show ?thesis by (auto simp: local_response_to_result_def response_json_def Let_def)
  next
    case False
    with response_of_settled [OF assms None] plain_response_turn [of M s rid fb L] None show ?thesis by simp
  qed
qed (simp add: local_response_to_result_def response_json_def Let_def)

text \<open>
  A state in which an approval is required, as the pipeline leaves it, is answered with the status \<^verbatim>\<open>approval_required\<close>, and
  still becomes an agent error.
\<close>

lemma required_approval_turn:
  assumes "settled s" and "approval_is_required (s_approval_result s)"
  shows "rs_status (response_from_state M s rid fb) = ''approval_required''"
    and "\<exists>msg code details. local_response_to_result L (response_from_state M s rid fb) = AssistantTurnAgentError msg code details"
proof -
  from assms obtain x e where x: "s_execution_result s = Some x" "res_error x = Some e" by (auto simp: settled_def)
  with assms(2) show "rs_status (response_from_state M s rid fb) = ''approval_required''"
    by (simp add: response_from_state_def Let_def)
  from x show "\<exists>msg code details. local_response_to_result L (response_from_state M s rid fb) = AssistantTurnAgentError msg code details"
    by (auto simp: local_response_to_result_def response_from_state_def response_json_def Let_def)
qed

text \<open>C10: no call of the runner is ever told as a wallet approval, the turn whose marker makes the host ask the human: a run that
  needs an approval ends with an execution result that carries an error, and the runner turns every response with an error into
  an agent error before it looks at the status.\<close>

theorem wallet_approval_turn_never_made:
  "fst (run_turn M R rid gen payload key w cache) \<noteq> AssistantTurnWalletApproval token aid extras"
proof (cases "invoke_request_of (turn_body key payload)")
  case (Inr q)
  let ?s = "state_from_request q (effective_request_id q rid gen) (effective_idempotency_key q key)"
  obtain o' w' cache' where run: "runtime_invoke R ?s w cache = ((o', w'), cache')" by (metis prod.exhaust)
  have "settled s'" if "o' = Inr s'" for s'
    using runtime_settled [of R ?s w cache s' w' cache'] run that by (simp add: state_from_request_def empty_state_def)
  with run Inr settled_turn show ?thesis
    by (auto simp: run_turn_def mercury_invoke_def Let_def split: sum.splits)
qed (simp add: run_turn_def Let_def)

end
