(* ===== verification/Service_Logging.thy ===== *)
theory Service_Logging
  imports Juno_Plugin
begin

text \<open>
  What is written to the log: levels, lines and their redaction (\<^verbatim>\<open>service/logging.py\<close>, \<^verbatim>\<open>graph/logging.py\<close>), the log
  of HTTP requests and responses (\<^verbatim>\<open>service/http_logging.py\<close>), and the summaries of invocations (\<^verbatim>\<open>invoke.py\<close>) and graph
  nodes (\<^verbatim>\<open>graph/log_summaries.py\<close>). Time stamps, durations and the decoding of UTF-8 are parameters. The arrow,
  the em dash and the ellipsis of the texts are given by their UTF-8 bytes, and count as one character.
\<close>

section \<open>Texts with characters beyond Latin-1\<close>

definition ARROW :: string where
  "ARROW = [CHR 0xE2, CHR 0x86, CHR 0x92]"

definition ELLIPSIS :: string where
  "ELLIPSIS = [CHR 0xE2, CHR 0x80, CHR 0xA6]"

fun chars_of :: "string \<Rightarrow> string list" where
  "chars_of (a # b # c # s) = (if [a, b, c] \<in> {EM_DASH, ARROW, ELLIPSIS} then [a, b, c] # chars_of s
     else [a] # chars_of (b # c # s))"
| "chars_of s = map (\<lambda>c. [c]) s"

text \<open>\<open>len(s)\<close> and \<open>s[:n]\<close>\<close>

definition text_length :: "string \<Rightarrow> nat" where
  "text_length s = length (chars_of s)"

definition text_take :: "nat \<Rightarrow> string \<Rightarrow> string" where
  "text_take n s = concat (take n (chars_of s))"

section \<open>Levels\<close>

definition LOG_DEBUG :: int where "LOG_DEBUG = 10"
definition LOG_INFO :: int where "LOG_INFO = 20"

text \<open>The integer attributes of the \<^verbatim>\<open>logging\<close> module with a name in capitals; names are compared without case.\<close>

definition LOG_LEVELS :: "(string \<times> int) list" where
  "LOG_LEVELS = [(''notset'', 0), (''debug'', 10), (''info'', 20), (''warn'', 30), (''warning'', 30), (''error'', 40), (''critical'', 50),
     (''fatal'', 50)]"

definition parse_mercury_log_level :: "string \<Rightarrow> int" where
  "parse_mercury_log_level level_name = (let key = py_or (lower_strip level_name) ''debug'' in
     case dget LOG_LEVELS key of Some n \<Rightarrow> n | None \<Rightarrow> LOG_DEBUG)"

definition stderr_supports_color :: "bool \<Rightarrow> string option \<Rightarrow> bool" where
  "stderr_supports_color isatty no_color \<longleftrightarrow> isatty \<and> (no_color = None \<or> no_color = Some [])"

section \<open>The formatter\<close>

record log_record =
  lr_asctime :: string
  lr_levelno :: int
  lr_levelname :: string
  lr_name :: string
  lr_message :: string
  lr_exc_text :: string

text \<open>The text of an exception that is logged along goes on lines of its own.\<close>

definition plain_line :: "log_record \<Rightarrow> string" where
  "plain_line r = (let line = lr_asctime r @ '' | '' @ lr_levelname r @ '' | '' @ lr_name r @ '' | '' @ lr_message r in
     if lr_exc_text r = [] then line else if last line = CHR 0x0A then line @ lr_exc_text r else line @ [CHR 0x0A] @ lr_exc_text r)"

text \<open>\<open>s.split(sep, n)\<close>: at most \<open>n\<close> cuts, from the left; \<open>seen\<close> is the part since the last cut.\<close>

fun split_from :: "string \<Rightarrow> nat \<Rightarrow> string \<Rightarrow> nat \<Rightarrow> string \<Rightarrow> string list" where
  "split_from sep n seen skip [] = [rev seen]"
| "split_from sep n seen (Suc skip) (c # s) = split_from sep n seen skip s"
| "split_from sep n seen 0 (c # s) = (if 0 < n \<and> prefix sep (c # s) then rev seen # split_from sep (n - 1) [] (length sep - 1) s
     else split_from sep n (c # seen) 0 s)"

definition split_max :: "string \<Rightarrow> nat \<Rightarrow> string \<Rightarrow> string list" where
  "split_max sep n s = split_from sep n [] 0 s"

definition ansi :: "string \<Rightarrow> string" where
  "ansi code = [CHR 0x1B, CHR ''[''] @ code @ ''m''"

definition COLOR_BY_LEVELNO :: "(int \<times> string) list" where
  "COLOR_BY_LEVELNO = [(10, ansi ''90''), (20, ansi ''36''), (30, ansi ''33''), (40, ansi ''31''), (50, ansi ''35'')]"

definition colored_format :: "bool \<Rightarrow> log_record \<Rightarrow> string" where
  "colored_format use_color r = (let plain = plain_line r in
     if \<not> use_color then plain
     else case split_max '' | '' 3 plain of
       [asctime, level, name, msg] \<Rightarrow>
         (let color = (case dget COLOR_BY_LEVELNO (lr_levelno r) of Some c \<Rightarrow> c | None \<Rightarrow> ansi ''36'');
              dim = (\<lambda>t. ansi ''2'' @ t @ ansi ''0'') in
          dim asctime @ '' | '' @ color @ level @ ansi ''0'' @ '' | '' @ dim name @ '' | '' @ msg)
     | _ \<Rightarrow> plain)"

text \<open>
  The levels of the root logger, of its handlers (with the formatter this function gave them, if any) and of named loggers.
\<close>

record logging_state =
  ls_root_level :: int
  ls_handlers :: "(int \<times> bool option) list"
  ls_levels :: "(string \<times> int) list"

definition UVICORN_LOGGER_NAMES :: "string list" where
  "UVICORN_LOGGER_NAMES = [''uvicorn'', ''uvicorn.error'', ''uvicorn.access'']"

definition configure_service_logging :: "bool \<Rightarrow> int \<Rightarrow> logging_state \<Rightarrow> logging_state" where
  "configure_service_logging color level st = (let named = dset ''mercury.service'' 0 (dset ''mercury.graph'' 0 (ls_levels st)) in
     if ls_handlers st \<noteq> [] then
       st\<lparr>ls_root_level := level, ls_handlers := map (\<lambda>(_, f). (level, f)) (ls_handlers st),
          ls_levels := fold (\<lambda>n. dset n level) UVICORN_LOGGER_NAMES named\<rparr>
     else st\<lparr>ls_root_level := level, ls_handlers := [(level, Some color)], ls_levels := named\<rparr>)"

section \<open>Lines\<close>

definition LOG_SUMMARY_MAX :: nat where
  "LOG_SUMMARY_MAX = 520"

definition clip_summary :: "string \<Rightarrow> string" where
  "clip_summary s = (if text_length s \<le> LOG_SUMMARY_MAX then s else text_take (LOG_SUMMARY_MAX - 3) s @ ''...'')"

definition log_payload :: "string \<Rightarrow> pydict \<Rightarrow> pydict" where
  "log_payload event flds = dmerge [(''event'', PStr event)] (redact_dict flds)"

definition format_mercury_log_line :: "libs \<Rightarrow> string \<Rightarrow> string \<Rightarrow> pydict \<Rightarrow> string option \<Rightarrow> string" where
  "format_mercury_log_line L scope event flds summary = (
     let body = json_text L (sorted_members (PDict (log_payload event flds))); head = ''mercury '' @ scope @ '':'' @ event in
     case summary of
       Some (c # s) \<Rightarrow> head @ '' | '' @ clip_summary (c # s) @ '' | '' @ body
     | _ \<Rightarrow> head @ '' | '' @ body)"

text \<open>A logged message is a level and a line.\<close>

definition log_service_event :: "libs \<Rightarrow> string \<Rightarrow> int \<Rightarrow> string option \<Rightarrow> pydict \<Rightarrow> int \<times> string" where
  "log_service_event L event level summary flds = (level, format_mercury_log_line L ''service'' event flds summary)"

definition log_graph_event :: "libs \<Rightarrow> string \<Rightarrow> int \<Rightarrow> string option \<Rightarrow> pydict \<Rightarrow> int \<times> string" where
  "log_graph_event L event level summary flds = (level, format_mercury_log_line L ''graph'' event flds summary)"

end
