(* ===== verification/Run_Log.thy ===== *)
theory Run_Log
  imports Service_Logging Hmac_Sha256
begin

text \<open>
  The log of a request: the lines of the HTTP middleware (\<^verbatim>\<open>service/http_logging.py\<close>), of the in-process API
  (\<^verbatim>\<open>invoke.py\<close>) and of the runtime (\<^verbatim>\<open>graph/runtime.py\<close>), with the summaries of the nodes
  (\<^verbatim>\<open>graph/log_summaries.py\<close>). What the graph library streams, the duration of a request and the decoding of UTF-8
  are parameters.
\<close>

section \<open>Summaries of graph runs\<close>

definition LOG_SNIP :: nat where
  "LOG_SNIP = 420"

definition GRAPH_NODE_HELP :: "(string \<times> string) list" where
  "GRAPH_NODE_HELP = [
     (''parse_intent'', ''parse read-only intent from user/tool payload''),
     (''resolve_chain'', ''resolve chain metadata for downstream RPC tools''),
     (''get_native_balance'', ''read native balance via RPC''),
     (''get_erc20_balance'', ''read ERC-20 balance via RPC''),
     (''get_erc20_allowance'', ''read ERC-20 allowance via RPC''),
     (''get_erc20_metadata'', ''read ERC-20 decimals/symbol via RPC''),
     (''read_contract'', ''eth_call / contract view via RPC''),
     (''resolve_known_address'', ''resolve catalog address (token, etc.)''),
     (''get_token_prices'', ''fetch spot prices (Alchemy-backed when configured)''),
     (''get_portfolio_tokens'', ''fetch wallet portfolio snapshot''),
     (''get_transfer_history'', ''fetch transfer history (Alchemy-backed when configured)''),
     (''format_response'', ''format tool output for the API response''),
     (''unsupported_response'', ''intent not supported for this graph''),
     (''prepare_erc20_transaction'', ''build ERC-20 transfer or approval transaction''),
     (''prepare_native_transaction'', ''build native (ETH) transfer transaction''),
     (''prepare_swap_transaction'', ''quote swap and build approval or swap transaction''),
     (''end_swap_typed_order'', ''typed order path (e.g. CoW) '' @ EM_DASH @ '' stops before EVM tx pipeline''),
     (''resolve_nonce'', ''load sender address, chain id, and nonce''),
     (''populate_gas'', ''estimate gas and build executable transaction''),
     (''simulate_transaction'', ''simulate tx against RPC''),
     (''evaluate_policy'', ''run risk / policy rules on the simulated tx''),
     (''request_approval'', ''pause for human approval if policy requires it''),
     (''check_idempotency'', ''guard duplicate broadcasts via idempotency store''),
     (''sign_transaction'', ''sign with custody / configured signer''),
     (''broadcast_transaction'', ''submit signed tx to the network''),
     (''monitor_receipt'', ''wait for confirmations and capture receipt''),
     (''reject_transaction'', ''normalize errors or policy rejection into execution_result'')]"

text \<open>
  The update of a node: what it wrote under the three keys whose values are read, each a model or a dynamic value, and its
  other keys.
\<close>

datatype 'a held = Held 'a | Other pyval

record state_patch =
  pt_error :: "mercury_error_info held option"
  pt_execution_result :: "execution_result held option"
  pt_policy_decision :: "policy_decision held option"
  pt_other_keys :: "string list"

definition key_if :: "string \<Rightarrow> 'a option \<Rightarrow> string list" where
  "key_if k v = (if v = None then [] else [k])"

definition patch_keys :: "state_patch \<Rightarrow> string list" where
  "patch_keys p = sort (key_if ''error'' (pt_error p) @ key_if ''execution_result'' (pt_execution_result p)
     @ key_if ''policy_decision'' (pt_policy_decision p) @ pt_other_keys p)"

definition clip_text :: "nat \<Rightarrow> string \<Rightarrow> string" where
  "clip_text n t = (if n < text_length t then text_take (n - 3) t @ ''...'' else t)"

definition error_snippet :: "libs \<Rightarrow> mercury_error_info held \<Rightarrow> string" where
  "error_snippet L e = clip_text LOG_SNIP (py_strip (case e of
       Held i \<Rightarrow> err_message i
     | Other (PDict d) \<Rightarrow> py_str L (case dget d ''code'' of Some v \<Rightarrow> v | None \<Rightarrow> PStr ''?'') @ '': ''
         @ py_str L (case dget d ''message'' of Some v \<Rightarrow> v | None \<Rightarrow> PStr [])
     | Other v \<Rightarrow> redact_error_message (py_str L v)))"

text \<open>The entry of an execution result, from the model or from a dictionary.\<close>

definition dig_value :: "libs \<Rightarrow> pyval \<Rightarrow> string \<Rightarrow> string option" where
  "dig_value L v key = (case v of
       PDict d \<Rightarrow> (case dget_none d key of PNone \<Rightarrow> None | x \<Rightarrow> Some (py_str L x))
     | _ \<Rightarrow> None)"

definition dig_status :: "libs \<Rightarrow> execution_result held \<Rightarrow> string option" where
  "dig_status L x = (case x of Held r \<Rightarrow> Some (execution_status_value (res_status r)) | Other v \<Rightarrow> dig_value L v ''status'')"

definition dig_tx_hash :: "libs \<Rightarrow> execution_result held \<Rightarrow> string option" where
  "dig_tx_hash L x = (case x of Held r \<Rightarrow> res_tx_hash r | Other v \<Rightarrow> dig_value L v ''tx_hash'')"

fun policy_status_value :: "policy_status \<Rightarrow> string" where
  "policy_status_value ALLOWED = ''allowed''"
| "policy_status_value REJECTED_BY_POLICY = ''rejected''"
| "policy_status_value NEEDS_APPROVAL = ''needs_approval''"

definition reason_clip :: "string \<Rightarrow> string" where
  "reason_clip t = (if text_length t < 160 then t else text_take 157 t @ ''...'')"

definition policy_status_snippet :: "libs \<Rightarrow> policy_decision held \<Rightarrow> string" where
  "policy_status_snippet L d = (let
       st = (case d of Held p \<Rightarrow> policy_status_value (pd_status p) | Other (PDict e) \<Rightarrow> py_str L (dget_none e ''status'')
         | Other _ \<Rightarrow> ''None'');
       reason = (case d of Held p \<Rightarrow> PStr (pd_reason p) | Other (PDict e) \<Rightarrow> dget_none e ''reason'' | Other _ \<Rightarrow> PNone) in
     if truthy reason then ''status='' @ st @ '', reason='' @ reason_clip (py_str L reason) else ''status='' @ st)"

definition none_text :: "string option \<Rightarrow> string" where
  "none_text t = (case t of Some s \<Rightarrow> s | None \<Rightarrow> ''None'')"

definition patch_note :: "libs \<Rightarrow> state_patch \<Rightarrow> string" where
  "patch_note L p = (case pt_error p of
       Some e \<Rightarrow> ''ERROR '' @ error_snippet L e
     | None \<Rightarrow> (case pt_execution_result p of
         Some x \<Rightarrow> ''execution_result status='' @ none_text (dig_status L x)
           @ (case dig_tx_hash L x of Some (c # h) \<Rightarrow> '' tx='' @ (c # h) | _ \<Rightarrow> [])
       | None \<Rightarrow>
           if ''prepared_transaction'' \<in> set (pt_other_keys p) then ''prepared_transaction ready for pipeline''
           else if ''prepared_swap'' \<in> set (pt_other_keys p) then ''prepared_swap (quote/route)''
           else if ''executable_transaction'' \<in> set (pt_other_keys p) then ''executable_transaction (gas)''
           else (case pt_policy_decision p of
               Some d \<Rightarrow> ''policy_decision '' @ policy_status_snippet L d
             | None \<Rightarrow>
                 if ''tx_hash'' \<in> set (pt_other_keys p) then ''tx_hash set''
                 else ''state update keys='' @ py_join '', '' (patch_keys p))))"

definition graph_node_finished_summary :: "libs \<Rightarrow> string \<Rightarrow> state_patch option \<Rightarrow> string" where
  "graph_node_finished_summary L node patch = (let
       hint = (case dget GRAPH_NODE_HELP node of Some h \<Rightarrow> '' '' @ EM_DASH @ '' '' @ h | None \<Rightarrow> []) in
     node @ '': '' @ (case patch of None \<Rightarrow> ''done'' | Some p \<Rightarrow> patch_note L p) @ hint)"

definition graph_run_start_summary :: "string \<Rightarrow> string \<Rightarrow> string" where
  "graph_run_start_summary label kind = ''subgraph='' @ label @ '' intent_kind='' @ kind"

definition invoke_intent_validation_failed_summary :: "string \<Rightarrow> string \<Rightarrow> string \<Rightarrow> string" where
  "invoke_intent_validation_failed_summary kind code message = ''blocked kind='' @ kind @ '' code='' @ code @ '': ''
     @ (if text_length message \<le> 240 then message else text_take 237 message @ ELLIPSIS)"

section \<open>The log of the runtime\<close>

text \<open>A line of the log with its level.\<close>

type_synonym log_line = "int \<times> string"

definition text_or_empty :: "string option \<Rightarrow> string" where
  "text_or_empty t = (case t of Some s \<Rightarrow> s | None \<Rightarrow> [])"

definition validation_failed_event :: "libs \<Rightarrow> mercury_state \<Rightarrow> mercury_error_info \<Rightarrow> log_line" where
  "validation_failed_event L s info = (let kind = intent_kind_from_state L s in
     log_graph_event L ''invoke_intent_validation_failed'' LOG_INFO
       (Some (invoke_intent_validation_failed_summary kind (err_code info) (err_message info)))
       [(''request_id'', PStr (text_or_empty (s_request_id s))), (''intent_kind'', PStr kind), (''error_code'', PStr (err_code info))])"

definition graph_run_start_event :: "libs \<Rightarrow> string \<Rightarrow> string \<Rightarrow> string \<Rightarrow> log_line" where
  "graph_run_start_event L rid label kind = log_graph_event L ''graph_run_start'' LOG_INFO (Some (graph_run_start_summary label kind))
     [(''request_id'', PStr rid), (''graph'', PStr label), (''intent_kind'', PStr kind)]"

definition node_finished_event :: "libs \<Rightarrow> string \<Rightarrow> string \<Rightarrow> string \<times> state_patch option \<Rightarrow> log_line" where
  "node_finished_event L rid label u = (case u of (node, patch) \<Rightarrow>
     log_graph_event L ''graph_node_finished'' LOG_INFO (Some (graph_node_finished_summary L node patch))
       [(''request_id'', PStr rid), (''graph'', PStr label), (''node'', PStr node),
        (''state_keys'', PList (map PStr (case patch of Some p \<Rightarrow> patch_keys p | None \<Rightarrow> [])))])"

text \<open>
  The lines of one invocation, after validation: \<open>node_logging\<close> is the setting \<^verbatim>\<open>graph_node_logging\<close>, \<open>updates\<close> the updates the
  graph library streams for the run.
\<close>

definition runtime_log ::
  "graph_runtime \<Rightarrow> bool \<Rightarrow> mercury_state \<Rightarrow> exn + validated \<Rightarrow> (string \<times> state_patch option) list \<Rightarrow> log_line list" where
  "runtime_log R node_logging s v updates = (let L = d_libs (rt_tx R) in
     case v of
       Inl e \<Rightarrow> []
     | Inr (Invalid info) \<Rightarrow> [validation_failed_event L s info]
     | Inr (Valid s') \<Rightarrow>
         (let rid = text_or_empty (s_request_id s); label = graph_label_text (graph_selection_for_state L s') in
          graph_run_start_event L rid label (intent_kind_from_state L s')
          # (if node_logging then map (node_finished_event L rid label) updates else [])))"

section \<open>The log of the in-process API\<close>

definition intent_kind_from_payload :: "invoke_request \<Rightarrow> string" where
  "intent_kind_from_payload q = (case iq_intent q of
       PDict d \<Rightarrow> (case py_or_val (py_or_val (dget_none d ''kind'') (dget_none d ''type'')) (dget_none d ''intent'') of
           PStr t \<Rightarrow> py_or (lower_strip t) ''unset''
         | _ \<Rightarrow> ''unset'')
     | PStr _ \<Rightarrow> ''literal_text''
     | _ \<Rightarrow> ''unset'')"

definition invoke_request_summary :: "invoke_request \<Rightarrow> string \<Rightarrow> string option \<Rightarrow> string" where
  "invoke_request_summary q rid key = ''begin kind='' @ intent_kind_from_payload q @ '' wallet='' @ iq_wallet_id q
     @ '' boundary_chain='' @ py_or (text_or_empty (iq_chain q)) ''unset'' @ '' idem='' @ py_or (text_or_empty key) ''none''
     @ '' rid='' @ rid @ '' '' @ ARROW @ '' validate intent, route subgraph''"

definition STATUS_HINTS :: "(string \<times> string) list" where
  "STATUS_HINTS = [(''succeeded'', ''completed''), (''failed'', ''validation/domain error''),
     (''rejected'', ''rejected (prep/policy/simulation '' @ EM_DASH @ '' see msg)''), (''approval_required'', ''approval gate'')]"

definition bool_text :: "bool \<Rightarrow> string" where
  "bool_text b = (if b then ''True'' else ''False'')"

definition invoke_response_summary :: "invoke_response \<Rightarrow> string \<Rightarrow> string" where
  "invoke_response_summary r rid = (let msg = py_strip (rs_message r);
       tail = (if msg \<noteq> [] then '' msg='' @ text_take 140 msg @ (if 140 < text_length msg then ELLIPSIS else [])
         else (case rs_error r of
             Some e \<Rightarrow> if me_code e = [] then [] else '' code='' @ me_code e
           | None \<Rightarrow> []));
       hint = (case dget STATUS_HINTS (rs_status r) of Some h \<Rightarrow> h | None \<Rightarrow> rs_status r) in
     ''end status='' @ rs_status r @ '' chain='' @ opt_repr (rs_chain r) @ '' approve='' @ bool_text (rs_approval_required r)
     @ '' tx='' @ opt_repr (rs_tx_hash r) @ '' rid='' @ rid @ '' ('' @ hint @ '')'' @ tail)"

definition invoke_request_event :: "libs \<Rightarrow> invoke_request \<Rightarrow> string \<Rightarrow> string option \<Rightarrow> log_line" where
  "invoke_request_event L q rid key = log_service_event L ''invoke_request'' LOG_INFO (Some (invoke_request_summary q rid key))
     [(''request_id'', PStr rid), (''user_id'', PStr (iq_user_id q)), (''wallet_id'', PStr (iq_wallet_id q)),
      (''chain'', opt_val PStr (iq_chain q)), (''idempotency_key'', opt_val PStr key),
      (''intent_kind'', PStr (intent_kind_from_payload q))]"

definition invoke_response_log_fields :: "invoke_request \<Rightarrow> invoke_response \<Rightarrow> string \<Rightarrow> pydict" where
  "invoke_response_log_fields q r rid = [(''intent_kind'', PStr (intent_kind_from_payload q)), (''request_id'', PStr rid),
     (''status'', PStr (rs_status r)), (''chain'', opt_val PStr (rs_chain r)), (''tx_hash'', opt_val PStr (rs_tx_hash r)),
     (''approval_required'', PBool (rs_approval_required r))]
     @ (case rs_error r of None \<Rightarrow> [] | Some e \<Rightarrow>
         [(''error_code'', PStr (me_code e)), (''error_category'', PStr (me_category e)), (''error_message'', PStr (me_message e))]
         @ (case dget_none (me_details e) ''stage'' of PNone \<Rightarrow> [] | v \<Rightarrow> [(''error_stage'', v)]))"

definition invoke_response_event :: "libs \<Rightarrow> invoke_request \<Rightarrow> invoke_response \<Rightarrow> string \<Rightarrow> log_line" where
  "invoke_response_event L q r rid = log_service_event L ''invoke_response'' LOG_INFO (Some (invoke_response_summary r rid))
     (invoke_response_log_fields q r rid)"

text \<open>The lines of one invocation: an exception of the runtime leaves the log without the line of the response.\<close>

definition invoke_log ::
  "(state_model \<Rightarrow> pyval) \<Rightarrow> graph_runtime \<Rightarrow> invoke_request \<Rightarrow> string option \<Rightarrow> string option \<Rightarrow> string \<Rightarrow> bool
     \<Rightarrow> (string \<times> state_patch option) list \<Rightarrow> world \<Rightarrow> ens_cache \<Rightarrow> log_line list" where
  "invoke_log M R q header_id header_key generated node_logging updates w cache = (let L = d_libs (rt_tx R);
       rid = effective_request_id q header_id generated; key = effective_idempotency_key q header_key;
       s = state_from_request q rid key in
     invoke_request_event L q rid key # runtime_log R node_logging s (fst (runtime_validate R s cache)) updates
     @ (case mercury_invoke M R q header_id header_key generated w cache of
           (Inr r, _) \<Rightarrow> [invoke_response_event L q r rid]
         | (Inl _, _) \<Rightarrow> []))"

section \<open>The log of HTTP requests and responses\<close>

definition MAX_BODY_BYTES :: int where
  "MAX_BODY_BYTES = 64 * 1024"

text \<open>\<open>decode\<close> is \<open>bytes.decode("utf-8")\<close>: no text when the bytes are not UTF-8.\<close>

definition parse_redacted_json_body :: "json_env \<Rightarrow> (byte list \<Rightarrow> string option) \<Rightarrow> byte list \<Rightarrow> exn + pyval" where
  "parse_redacted_json_body J decode raw = (let size = PInt (int (length raw)) in
     if raw = [] then Inr PNone
     else if MAX_BODY_BYTES < int (length raw) then Inr (PDict [(''_truncated'', PBool True), (''bytes'', size)])
     else case decode raw of
       None \<Rightarrow> Inr (PDict [(''_non_json'', PBool True), (''bytes'', size)])
     | Some t \<Rightarrow> (case json_loads J t of
           Inl (OtherError e) \<Rightarrow> Inl e
         | Inl (JSONDecodeError _) \<Rightarrow> Inr (PDict [(''_non_json'', PBool True), (''bytes'', size)])
         | Inr v \<Rightarrow> Inr (redact_value v)))"

text \<open>Header names are in lower case; a name may occur more than once, and \<open>headers.get\<close> gives the first value.\<close>

record http_request =
  hq_method :: string
  hq_path :: string
  hq_query :: string
  hq_client_host :: "string option"
  hq_headers :: "(string \<times> string) list"
  hq_body :: "byte list"

record http_response =
  hr_status :: nat
  hr_headers :: "(string \<times> string) list"
  hr_media_type :: "string option"
  hr_body :: "byte list"

definition read_request_body_for_log :: "json_env \<Rightarrow> (byte list \<Rightarrow> string option) \<Rightarrow> http_request \<Rightarrow> exn + pyval" where
  "read_request_body_for_log J decode q = (let content_type = text_or_empty (dget (hq_headers q) ''content-type'') in
     if hq_method q \<notin> {''POST'', ''PUT'', ''PATCH'', ''DELETE''} then Inr PNone
     else if \<not> py_contains ''application/json'' content_type
       then Inr (PDict [(''_skipped'', PStr ''non_json_content_type''),
         (''content_type'', if content_type = [] then PNone else PStr content_type)])
     else parse_redacted_json_body J decode (hq_body q))"

definition should_capture_response_body :: "http_response \<Rightarrow> bool" where
  "should_capture_response_body r \<longleftrightarrow>
     (py_contains ''json'' (text_or_empty (hr_media_type r))
      \<or> py_contains ''json'' (text_or_empty (dget (hr_headers r) ''content-type'')))
     \<and> (case dget (hr_headers r) ''content-length'' of
          None \<Rightarrow> False
        | Some t \<Rightarrow> (case py_int_text t of None \<Rightarrow> False | Some n \<Rightarrow> 0 < n \<and> n \<le> MAX_BODY_BYTES))"

text \<open>\<open>dict(headers)\<close> keeps each name once, with its first value.\<close>

definition dict_headers :: "(string \<times> string) list \<Rightarrow> (string \<times> string) list" where
  "dict_headers hs = map (\<lambda>k. (k, text_or_empty (dget hs k))) (rev (remdups (rev (map fst hs))))"

definition http_request_event :: "libs \<Rightarrow> http_request \<Rightarrow> pyval \<Rightarrow> log_line" where
  "http_request_event L q body = log_service_event L ''http_request'' LOG_INFO
     (Some (''Incoming HTTP '' @ hq_method q @ '' '' @ hq_path q))
     [(''request_id'', opt_val PStr (dget (hq_headers q) ''x-request-id'')), (''method'', PStr (hq_method q)),
      (''path'', PStr (hq_path q)), (''query'', PStr (if hq_query q = [] then [] else redact_text (hq_query q))),
      (''client_host'', opt_val PStr (hq_client_host q)), (''body'', body)]"

definition http_response_event ::
  "libs \<Rightarrow> http_request \<Rightarrow> http_response \<Rightarrow> string option \<Rightarrow> pyval \<Rightarrow> pyval option \<Rightarrow> log_line" where
  "http_response_event L q r state_id duration_ms body = log_service_event L ''http_response'' LOG_INFO
     (Some (''HTTP '' @ hq_method q @ '' '' @ hq_path q @ '' -> '' @ int_text (int (hr_status r)) @ '' in ''
        @ py_str L duration_ms @ ''ms'' @ (if body = None then [] else '' (body logged)'')))
     [(''request_id'', opt_val PStr (opt_or state_id (dget (hq_headers q) ''x-request-id''))), (''method'', PStr (hq_method q)),
      (''path'', PStr (hq_path q)), (''status_code'', PInt (int (hr_status r))), (''duration_ms'', duration_ms),
      (''content_length'', case body of Some _ \<Rightarrow> PStr (int_text (int (length (hr_body r))))
         | None \<Rightarrow> opt_val PStr (dget (hr_headers r) ''content-length'')),
      (''response_body_logged'', PBool (body \<noteq> None)), (''response_body'', case body of Some b \<Rightarrow> b | None \<Rightarrow> PNone)]"

text \<open>
  The middleware: \<open>next_handler\<close> is the endpoint, with the request ID it leaves in the state of the request; the arguments
  of the rebuilt response are given as a response.
\<close>

definition http_log_dispatch ::
  "libs \<Rightarrow> json_env \<Rightarrow> (byte list \<Rightarrow> string option) \<Rightarrow> pyval \<Rightarrow> (http_request \<Rightarrow> exn + http_response \<times> string option) \<Rightarrow> http_request
     \<Rightarrow> (exn + http_response) \<times> log_line list" where
  "http_log_dispatch L J decode duration_ms next_handler q = (case read_request_body_for_log J decode q of
       Inl e \<Rightarrow> (Inl e, [])
     | Inr body \<Rightarrow> (let first = http_request_event L q body in
         case next_handler q of
           Inl e \<Rightarrow> (Inl e, [first])
         | Inr (r, state_id) \<Rightarrow>
             if should_capture_response_body r then
               (case parse_redacted_json_body J decode (hr_body r) of
                  Inl e \<Rightarrow> (Inl e, [first])
                | Inr b \<Rightarrow> (Inr (r\<lparr>hr_headers := dict_headers (hr_headers r)\<rparr>),
                    [first, http_response_event L q r state_id duration_ms (Some b)]))
             else (Inr r, [first, http_response_event L q r state_id duration_ms None])))"

end
