(* ===== verification/Log_Properties.thy ===== *)
theory Log_Properties
  imports Run_Log Juno_Properties Read_Properties "HOL-Library.Multiset"
begin

text \<open>
  The log does not disclose and does not interfere: the JSON of every line decodes to fields in which the values of sensitive
  keys are hidden, and the middleware that logs requests and responses hands on the answer of the endpoint.
\<close>

section \<open>The JSON of a line\<close>

lemma sorted_members_keys:
  "sorted_members (PDict d) = PDict (sort_key fst (map (\<lambda>(k, v). (k, sorted_members v)) d))"
  by simp

lemma jsonable_sorted: "jsonable L J v \<Longrightarrow> jsonable L J (sorted_members v)"
proof (induction v rule: sorted_members.induct)
  case (2 d)
  let ?m = "map (\<lambda>(k, v). (k, sorted_members v)) d"
  have keys: "map fst ?m = map fst d" by (induction d) auto
  have "mset (map fst (sort_key fst ?m)) = mset (map fst d)" 
    unfolding keys [symmetric] by (simp only: mset_map mset_sort)
  from mset_eq_imp_distinct_iff [OF this] 2(2) have "distinct (map fst (sort_key fst ?m))" by simp
  with 2 show ?case by (auto simp: list_all_iff)
qed (auto simp: list_all_iff)

lemma hidden_sorted: "hidden v \<Longrightarrow> hidden (sorted_members v)"
  by (induction v rule: sorted_members.induct) (auto simp: list_all_iff)

text \<open>The fields of a line, as its JSON has them.\<close>

definition line_fields :: "string \<Rightarrow> pydict \<Rightarrow> pydict" where
  "line_fields event flds = (case sorted_members (PDict (log_payload event flds)) of PDict d \<Rightarrow> d | _ \<Rightarrow> [])"

lemma line_fields: "sorted_members (PDict (log_payload event flds)) = PDict (line_fields event flds)"
  by (simp add: line_fields_def)

lemma event_not_sensitive: "\<not> names_secret ''event''"
proof -
  have "\<not> is_sensitive_key ''event''" by code_simp
  then show ?thesis by (simp add: sensitive_key_spec)
qed

lemma payload_hidden: "hidden (PDict (log_payload event flds))"
proof -
  have "set (log_payload event flds) \<subseteq> {(''event'', PStr event)} \<union> set (redact_dict flds)"
    using set_dmerge [of "[(''event'', PStr event)]"] by (simp add: log_payload_def)
  with hidden_redact_dict [of flds] event_not_sensitive show ?thesis by (auto simp: list_all_iff)
qed

lemma payload_jsonable:
  assumes "jsonable L J (PDict flds)"
  shows "jsonable L J (PDict (log_payload event flds))"
proof -
  have "jsonable L J (redact_value (PDict flds))" by (rule jsonable_redact [OF assms])
  then have r: "jsonable L J (PDict (redact_dict flds))" by (simp add: redact_dict_def)
  have "wf_dict (log_payload event flds)" unfolding log_payload_def by (rule wf_dict_dmerge) (simp add: wf_dict_def)
  with r set_dmerge [of "[(''event'', PStr event)]" "redact_dict flds"] show ?thesis
    by (auto simp: log_payload_def wf_dict_def list_all_iff)
qed

theorem log_line_hides_sensitive_values:
  assumes "jsonable L J (PDict flds)"
  shows "\<exists>front. format_mercury_log_line L scope event flds summary = front @ json_text L (PDict (line_fields event flds)) \<and>
      json_loads J (json_text L (PDict (line_fields event flds))) = Inr (PDict (line_fields event flds)) \<and>
      hidden (PDict (line_fields event flds))"
proof -
  have "jsonable L J (PDict (line_fields event flds))"
    unfolding line_fields [symmetric] by (rule jsonable_sorted [OF payload_jsonable [OF assms]])
  moreover have "hidden (PDict (line_fields event flds))"
    unfolding line_fields [symmetric] by (rule hidden_sorted [OF payload_hidden])
  moreover have "\<exists>front. format_mercury_log_line L scope event flds summary = front @ json_text L (PDict (line_fields event flds))"
    unfolding line_fields [symmetric] by (simp add: format_mercury_log_line_def Let_def split: option.splits list.splits)
  ultimately show ?thesis using loads_dumps by blast
qed

section \<open>The middleware\<close>

text \<open>What a client sees of a response: its status, its body, and the value each header name stands for.\<close>

definition seen :: "http_response \<Rightarrow> nat \<times> byte list \<times> (string \<Rightarrow> string option)" where
  "seen r = (hr_status r, hr_body r, dget (hr_headers r))"

lemma dget_map_keys: "dget (map (\<lambda>k. (k, f k)) ks) k = (if k \<in> set ks then Some (f k) else None)"
  by (induction ks) auto

lemma dget_dict_headers: "dget (dict_headers hs) = dget hs"
proof
  fix k
  have "dget hs k \<noteq> None \<longleftrightarrow> k \<in> fst ` set hs" by (induction hs) auto
  then show "dget (dict_headers hs) k = dget hs k"
    by (auto simp: dict_headers_def dget_map_keys text_or_empty_def split: option.splits)
qed

lemma dispatch_answer:
  "fst (http_log_dispatch L J decode dur next_handler q) = (case read_request_body_for_log J decode q of
     Inl e \<Rightarrow> Inl e
   | Inr _ \<Rightarrow> (case next_handler q of
         Inl e \<Rightarrow> Inl e
       | Inr (r, sid) \<Rightarrow> if should_capture_response_body r
           then rbind (parse_redacted_json_body J decode (hr_body r)) (\<lambda>_. Inr (r\<lparr>hr_headers := dict_headers (hr_headers r)\<rparr>))
           else Inr r))"
  by (simp add: http_log_dispatch_def Let_def split: sum.splits prod.splits)

theorem logging_is_transparent:
  assumes "read_request_body_for_log J decode q = Inr b"
    and "\<And>r sid. next_handler q = Inr (r, sid) \<Longrightarrow> should_capture_response_body r \<Longrightarrow>
      \<exists>v. parse_redacted_json_body J decode (hr_body r) = Inr v"
  shows "map_sum id seen (fst (http_log_dispatch L J decode dur next_handler q)) = map_sum id (seen \<circ> fst) (next_handler q)"
  using assms
  by (cases "next_handler q") (force simp: dispatch_answer seen_def dget_dict_headers split: prod.splits)+

end
