(* ===== verification/Service_App.thy ===== *)
theory Service_App
  imports Run_Log Webhooks
begin

text \<open>
  How the service and the plugin are put together: the state of the FastAPI application and the dependencies read from it
  (\<^verbatim>\<open>service/dependencies.py\<close>, \<^verbatim>\<open>service/api.py\<close>), and the specialist agent that the Juno plugin registers
  (\<^verbatim>\<open>juno/specs.py\<close>, \<^verbatim>\<open>juno/subagent.py\<close>, \<^verbatim>\<open>juno/plugin.py\<close>).
\<close>

section \<open>The application\<close>

text \<open>
  What \<^verbatim>\<open>app.state\<close> holds beside the webhook's own entries. \<open>create_app\<close> is given the settings read from the environment,
  for the case that none are passed; it also sets the levels of the loggers.
\<close>

record app_state =
  as_settings :: "mercury_settings option"
  as_graph_runtime :: "graph_runtime option"

definition create_app ::
  "mercury_settings \<Rightarrow> mercury_settings option \<Rightarrow> graph_runtime option \<Rightarrow> bool \<Rightarrow> logging_state \<Rightarrow> app_state \<times> logging_state" where
  "create_app environment settings runtime color logging = (let st = (case settings of Some st \<Rightarrow> st | None \<Rightarrow> environment) in
     (\<lparr>as_settings = Some st, as_graph_runtime = runtime\<rparr>,
      configure_service_logging color (parse_mercury_log_level (log_level st)) logging))"

definition get_service_settings :: "service_env \<Rightarrow> app_state \<Rightarrow> mercury_settings" where
  "get_service_settings E app = (case as_settings app of Some st \<Rightarrow> st | None \<Rightarrow> se_settings E)"

definition get_graph_runtime :: "service_env \<Rightarrow> app_state \<Rightarrow> (exn + graph_runtime) \<times> app_state" where
  "get_graph_runtime E app = (case as_graph_runtime app of
       Some R \<Rightarrow> (Inr R, app)
     | None \<Rightarrow> (case build_standalone_graph_runtime E (get_service_settings E app) of
           Inl e \<Rightarrow> (Inl e, app)
         | Inr R \<Rightarrow> (Inr R, app\<lparr>as_graph_runtime := Some R\<rparr>)))"

definition swap_config ::
  "swap_provider_name \<Rightarrow> mercury_settings \<Rightarrow> (string \<Rightarrow> exn + secret_value) \<Rightarrow> swap_provider_config" where
  "swap_config provider settings store = (let
       api_path = (case provider of LIFI \<Rightarrow> lifi_api_secret_path settings | COWSWAP \<Rightarrow> cowswap_api_secret_path settings
         | UNISWAP \<Rightarrow> uniswap_api_secret_path settings);
       base_url = (case provider of LIFI \<Rightarrow> ''https://li.quest/v1'' | COWSWAP \<Rightarrow> ''https://api.cow.fi''
         | UNISWAP \<Rightarrow> ''https://api.uniswap.org'') in
     \<lparr>spc_provider = provider, spc_base_url = base_url, spc_api_secret_path = Some api_path, spc_secret_store = Some store\<rparr>)"

text \<open>The two places that configure the providers agree.\<close>

lemma swap_config_default_for: "swap_config p st store = default_for st p (Some store)"
  by (cases p) (simp_all add: swap_config_def default_for_def)

lemma get_swap_router_config:
  "get_swap_router E st store = (let cfg = (\<lambda>p. swap_config p st store); L = se_libs E; V = se_py E;
       http = (\<lambda>p. se_http E (provider_base_url p)) in
     \<lparr>ro_providers = [lifi_provider L V (cfg LIFI) (http LIFI), cow_provider L V (cfg COWSWAP) (http COWSWAP),
        uniswap_provider L V (cfg UNISWAP) (http UNISWAP)], ro_order = default_provider_order\<rparr>)"
  by (simp add: get_swap_router_def swap_config_default_for)

text \<open>The runtime, and with it the idempotency store and the caches behind it, is built once; a failed build is tried again.\<close>

lemma get_graph_runtime_once:
  assumes "get_graph_runtime E app = (Inr R, app')"
  shows "get_graph_runtime E' app' = (Inr R, app')"
  using assms by (auto simp: get_graph_runtime_def split: option.splits sum.splits)

lemma get_graph_runtime_retry:
  assumes "get_graph_runtime E app = (Inl e, app')"
  shows "app' = app"
  using assms by (auto simp: get_graph_runtime_def split: option.splits sum.splits)

lemma created_app_settings:
  "get_service_settings E (fst (create_app env st runtime color logging)) = (case st of Some s \<Rightarrow> s | None \<Rightarrow> env)"
  by (simp add: create_app_def get_service_settings_def Let_def)

section \<open>The agent of the plugin\<close>

definition MERCURY_SUPERVISOR_TOOL_DESCRIPTION :: string where
  "MERCURY_SUPERVISOR_TOOL_DESCRIPTION = py_join [CHR 0x0A] [
     ''Mercury specialist: real balances, wallets, Base/Ethereum/L2, txs, approvals.'',
     [],
     ''**When to call:** Any request involving money/crypto, wallets, holdings, named'',
     ''chains (e.g. Base, Ethereum, L2), transactions, swaps, transfers, approvals, gas,'',
     ''or addresses'' @ EM_DASH @ ''or anything that needs live Mercury/backend data.'',
     [],
     ''Pass the user's goal in one ``request`` string (chain, wallet, tokens if mentioned).'',
     ''The Mercury sub-agent turns this into structured ``mercury_invoke`` JSON.'',
     [],
     ''**Do not call** for generic small talk with no backend data.'',
     [],
     ''**After Telegram Approve:** If state already contains ``approval_response``, call this'',
     ''again immediately with instructions for the specialist to repeat the **same**'',
     ''``mercury_invoke`` intent as before (same ``kind``, fields, ``idempotency_key``)'' @ EM_DASH @ ''never'',
     ''a new intent for the gated operation.'',
     [],
     ''Completion is normally a second Mercury invoke with approval; prefer that over'',
     ''asking the user to use browser wallets unless product docs say otherwise.'',
     []]"

definition MERCURY_SUBAGENT_RESUME_AFTER_APPROVAL :: string where
  "MERCURY_SUBAGENT_RESUME_AFTER_APPROVAL = ''Session already includes `approval_response` from Telegram (human approved). '' @
     ''Call `mercury_invoke` now with `intent_json` that is IDENTICAL to your previous '' @
     ''mercury_invoke for this operation: same `kind`, fields, amounts, addresses, and the '' @
     ''same `idempotency_key` inside the intent as before. Do not substitute a new intent. '' @
     ''Do not describe wallet UI steps; completion is via Mercury in-process invoke + 1Claw signer.''"

text \<open>
  The agent around the tool \<open>mercury_invoke\<close>: its model, its prompt, the runtime its runner calls, and the path of the guide that
  is put into its context when the manifest names one.
\<close>

record mercury_agent =
  ma_model :: string
  ma_system_prompt :: string
  ma_runtime :: graph_runtime
  ma_guide_path :: "string option"

record subagent_spec =
  ss_name :: string
  ss_description :: string
  ss_agent :: mercury_agent
  ss_state_keys :: "string list"
  ss_resume_instruction :: string
  ss_supports_wallet_approval_ui :: bool

definition build_mercury_juno_subagent :: "string \<Rightarrow> juno_manifest \<Rightarrow> graph_runtime \<Rightarrow> mercury_agent" where
  "build_mercury_juno_subagent model m R = (let guide_path = py_strip (text_or_empty (jm_guide_path m)) in
     \<lparr>ma_model = model, ma_system_prompt = system_prompt_text m, ma_runtime = R,
      ma_guide_path = (if guide_path = [] then None else Some guide_path)\<rparr>)"

definition default_mercury_subagent_spec :: "mercury_agent \<Rightarrow> subagent_spec" where
  "default_mercury_subagent_spec agent = \<lparr>ss_name = ''mercury'', ss_description = py_strip MERCURY_SUPERVISOR_TOOL_DESCRIPTION,
     ss_agent = agent, ss_state_keys = [''user_id'', ''wallet_id'', ''chain'', ''approval_response''],
     ss_resume_instruction = MERCURY_SUBAGENT_RESUME_AFTER_APPROVAL, ss_supports_wallet_approval_ui = True\<rparr>"

definition create_plugin :: "service_env \<Rightarrow> pyval \<Rightarrow> string \<Rightarrow> string \<Rightarrow> exn + subagent_spec list" where
  "create_plugin E yaml md model =
     rbind (load_mercury_juno_manifest yaml md) (\<lambda>loaded.
     rbind (check_manifest_runner loaded) (\<lambda>m.
     rbind (build_standalone_graph_runtime E (se_settings E)) (\<lambda>R.
     Inr [default_mercury_subagent_spec (build_mercury_juno_subagent model m R)])))"

text \<open>The runtime of a created plugin asks the approver that reads the metadata of the request.\<close>

lemma standalone_approver:
  "build_standalone_graph_runtime E st = Inr R \<Longrightarrow>
     d_approver (rt_tx R) = request_metadata_approver (se_libs E) \<and> d_libs (rt_tx R) = se_libs E"
  by (auto simp: build_standalone_graph_runtime_def transaction_deps_of_def Let_def rbind_eq_Inr)

lemma created_plugin_approver:
  assumes "create_plugin E yaml md model = Inr specs" and "spec \<in> set specs"
  shows "d_approver (rt_tx (ma_runtime (ss_agent spec))) = request_metadata_approver (d_libs (rt_tx (ma_runtime (ss_agent spec))))"
    and "ss_state_keys spec = [''user_id'', ''wallet_id'', ''chain'', ''approval_response'']"
  using assms standalone_approver
  by (auto simp: create_plugin_def rbind_eq_Inr build_mercury_juno_subagent_def default_mercury_subagent_spec_def Let_def)

end
