(* ===== verification/Http_Client.thy ===== *)
theory Http_Client
  imports Service_Logging Hmac_Sha256
begin

text \<open>
  The JSON client behind the swap providers and the Alchemy clients (\<^verbatim>\<open>swaps/base.py\<close>, \<open>UrllibJsonHttpClient\<close>): the
  requests it builds and the reading of answers and failures. The exchange itself (\<^verbatim>\<open>urlopen\<close>) is a parameter, as is
  the decoding of UTF-8.
\<close>

record wire_request =
  wq_url :: string
  wq_method :: string
  wq_headers :: headers
  wq_data :: "byte list option"

text \<open>
  How \<^verbatim>\<open>urlopen\<close> fails: an HTTP status with its reason and the text of its body (if that could be read), an error of
  the connection with the name of its class and its text, or an exception of another kind, which passes through.
\<close>

datatype wire_failure = WireHTTPError int "string option" "string option" | WireOSError string string | WireOther exn

definition DEFAULT_HTTP_HEADERS :: headers where
  "DEFAULT_HTTP_HEADERS =
     [(''User-Agent'', ''Mercury/0.1 (EVM agent; https://github.com/fabriziogianni7/mercury-agent-wallet)''),
      (''Accept'', ''application/json'')]"

definition merge_provider_headers :: "headers \<Rightarrow> headers" where
  "merge_provider_headers hs = dmerge DEFAULT_HTTP_HEADERS hs"

text \<open>\<open>urlencode\<close>: names and values quoted for a form, where a space is a plus sign.\<close>

definition form_quote :: "string \<Rightarrow> string" where
  "form_quote s = concat (map (\<lambda>c. if c = CHR '' '' then ''+'' else if c = CHR ''/'' then ''%2F'' else url_quote [c]) s)"

definition urlencode :: "libs \<Rightarrow> pydict \<Rightarrow> string" where
  "urlencode L params = py_join ''&'' (map (\<lambda>(k, v). form_quote k @ ''='' @ form_quote (py_str L v)) params)"

definition request_url :: "string \<Rightarrow> string \<Rightarrow> string" where
  "request_url base_url path = strip_slashes_right base_url @ ''/'' @ dropWhile (\<lambda>c. c = CHR ''/'') path"

definition get_request :: "libs \<Rightarrow> string \<Rightarrow> string \<Rightarrow> pydict \<Rightarrow> headers \<Rightarrow> wire_request" where
  "get_request L base_url path params hs = \<lparr>
     wq_url = request_url base_url path @ (if params = [] then [] else ''?'' @ urlencode L params),
     wq_method = ''GET'', wq_headers = merge_provider_headers hs, wq_data = None\<rparr>"

definition post_request :: "libs \<Rightarrow> string \<Rightarrow> string \<Rightarrow> pydict \<Rightarrow> headers \<Rightarrow> wire_request" where
  "post_request L base_url path payload hs = \<lparr>
     wq_url = request_url base_url path, wq_method = ''POST'',
     wq_headers = dset ''Content-Type'' ''application/json'' (merge_provider_headers hs),
     wq_data = Some (utf8_encode (json_text L (PDict payload)))\<rparr>"

definition swap_http_error_detail :: "int \<Rightarrow> string option \<Rightarrow> string option \<Rightarrow> string" where
  "swap_http_error_detail status reason body = py_join ''; ''
     ([''HTTP '' @ int_text status]
      @ (case reason of Some (c # r) \<Rightarrow> [py_strip (c # r)] | _ \<Rightarrow> [])
      @ (case map_option py_strip body of
           Some (c # b) \<Rightarrow> [map (\<lambda>x. if x = CHR 0x0A then CHR '' '' else x) (text_take 400 (c # b))
             @ (if 400 < text_length (c # b) then ELLIPSIS else [])]
         | _ \<Rightarrow> []))"

definition send_request ::
  "json_env \<Rightarrow> (byte list \<Rightarrow> exn + string) \<Rightarrow> (wire_request \<Rightarrow> wire_failure + byte list) \<Rightarrow> wire_request \<Rightarrow> exn + pydict" where
  "send_request J decode urlopen q = (case urlopen q of
       Inl (WireHTTPError status reason body) \<Rightarrow>
         Inl (swap_err (''Swap provider request failed ('' @ swap_http_error_detail status reason body @ '').''))
     | Inl (WireOSError cls t) \<Rightarrow> Inl (swap_err (''Swap provider request failed ('' @ cls @ '': '' @ t @ '').''))
     | Inl (WireOther e) \<Rightarrow> Inl e
     | Inr raw \<Rightarrow> rbind (decode raw) (\<lambda>doc. case json_loads J doc of
           Inl (OtherError e) \<Rightarrow> Inl e
         | Inl (JSONDecodeError _) \<Rightarrow>
             Inl (swap_err ''Swap provider response was not valid JSON (non-JSON body or HTML error page).'')
         | Inr (PDict d) \<Rightarrow> Inr d
         | Inr _ \<Rightarrow> Inl (swap_err ''Swap provider response must be a JSON object.'')))"

definition urllib_json_http_client ::
  "libs \<Rightarrow> json_env \<Rightarrow> (byte list \<Rightarrow> exn + string) \<Rightarrow> (wire_request \<Rightarrow> wire_failure + byte list) \<Rightarrow> string \<Rightarrow> exn + json_http_client" where
  "urllib_json_http_client L J decode urlopen base_url =
     (if py_strip base_url = [] then Inl (value_error ''Provider base URL must not be empty.'')
      else Inr \<lparr>jc_get = (\<lambda>path params hs. send_request J decode urlopen (get_request L base_url path params hs)),
        jc_post = (\<lambda>path payload hs. send_request J decode urlopen (post_request L base_url path payload hs))\<rparr>)"

section \<open>Answers and failures\<close>

text \<open>An answer is the JSON object in the body; a failure of the exchange is always a \<open>SwapProviderError\<close>.\<close>

lemma send_request_Inr:
  "send_request J decode urlopen q = Inr d \<longleftrightarrow>
     (\<exists>raw doc. urlopen q = Inr raw \<and> decode raw = Inr doc \<and> json_loads J doc = Inr (PDict d))"
proof (cases "urlopen q")
  case (Inl f)
  then show ?thesis by (cases f) (simp_all add: send_request_def)
next
  case (Inr raw)
  show ?thesis
  proof (cases "decode raw")
    case Inl
    with Inr show ?thesis by (simp add: send_request_def)
  next
    case doc: (Inr doc)
    with Inr show ?thesis
      by (simp add: send_request_def split: sum.splits json_error.splits pyval.splits)
  qed
qed

lemma send_request_failed:
  assumes "urlopen q = Inl f" and "\<forall>e. f \<noteq> WireOther e"
  shows "\<exists>t. send_request J decode urlopen q = Inl (swap_err t)"
  using assms by (cases f) (auto simp: send_request_def)

lemma request_headers:
  "dget (wq_headers (post_request L b p d hs)) ''Content-Type'' = Some ''application/json''"
  "dget (wq_headers (get_request L b p d [])) ''Accept'' = Some ''application/json''"
  by (simp_all add: post_request_def get_request_def merge_provider_headers_def DEFAULT_HTTP_HEADERS_def dmerge_def)

end
