(* ===== verification/Wallet_Intents.thy ===== *)
theory Wallet_Intents
  imports Swap_Preparation Read_Intents
begin

text \<open>
  The wallet intents of \<^verbatim>\<open>models/intents.py\<close>: seven models, each with its validation. The state of the graphs names their
  union as a type of an entry; the graphs themselves parse requests with \<open>Read_Intents\<close> and \<open>Intent_Validation\<close>.
\<close>

datatype intent_kind = READ_CONTRACT | NATIVE_BALANCE | ERC20_BALANCE | PREPARE_TRANSACTION | ERC20_TRANSFER | ERC20_APPROVAL | SWAP

fun intent_kind_value :: "intent_kind \<Rightarrow> string" where
  "intent_kind_value READ_CONTRACT = ''read_contract''"
| "intent_kind_value NATIVE_BALANCE = ''native_balance''"
| "intent_kind_value ERC20_BALANCE = ''erc20_balance''"
| "intent_kind_value PREPARE_TRANSACTION = ''prepare_transaction''"
| "intent_kind_value ERC20_TRANSFER = ''erc20_transfer''"
| "intent_kind_value ERC20_APPROVAL = ''erc20_approval''"
| "intent_kind_value SWAP = ''swap''"

record read_contract_intent =
  wrc_contract_address :: string
  wrc_function_name :: string
  wrc_args :: "string list"

record native_balance_intent =
  wnb_wallet_address :: string

record erc20_balance_intent =
  web_wallet_address :: string
  web_token_address :: string

record placeholder_transaction_intent =
  wph_summary :: string

record wallet_transfer_intent =
  wtr_chain :: string
  wtr_wallet_id :: string
  wtr_token_address :: string
  wtr_recipient_address :: string
  wtr_amount :: string
  wtr_amount_in_smallest_units :: bool
  wtr_idempotency_key :: "string option"

record wallet_approval_intent =
  wap_chain :: string
  wap_wallet_id :: string
  wap_token_address :: string
  wap_spender_address :: string
  wap_amount :: string
  wap_amount_in_smallest_units :: bool
  wap_idempotency_key :: "string option"
  wap_spender_known :: bool
  wap_allow_unlimited :: bool

record wallet_swap_intent =
  wsw_wallet_id :: string
  wsw_chain :: string
  wsw_from_token :: string
  wsw_to_token :: string
  wsw_amount_in :: string
  wsw_min_amount_out :: "string option"
  wsw_max_slippage_bps :: "int option"
  wsw_provider_preference :: "string option"
  wsw_recipient_address :: "string option"
  wsw_idempotency_key :: string

datatype wallet_intent = WalletReadContract read_contract_intent | WalletNativeBalance native_balance_intent
  | WalletErc20Balance erc20_balance_intent | WalletPlaceholder placeholder_transaction_intent
  | WalletTransfer wallet_transfer_intent | WalletApproval wallet_approval_intent | WalletSwap wallet_swap_intent

section \<open>Fields\<close>

text \<open>The type \<^verbatim>\<open>Address\<close>: the pattern \<^verbatim>\<open>^0x[a-fA-F0-9]{40}$\<close>, checked before a validator normalises the text.\<close>

definition address_pattern :: "string \<Rightarrow> string \<Rightarrow> string field" where
  "address_pattern fld s = (if is_evm_hex s then Inr s else Inl [(fld, MatchesPattern ''^0x[a-fA-F0-9]{40}$'')])"

definition rd_address :: "pydict \<Rightarrow> string \<Rightarrow> string field" where
  "rd_address d fld = rbind (rd_str d fld) (address_pattern fld)"

definition rd_norm_address :: "libs \<Rightarrow> pydict \<Rightarrow> string \<Rightarrow> string field" where
  "rd_norm_address L d fld = rbind (rd_address d fld) (norm_addr_field L fld)"

definition rd_opt_norm_address :: "libs \<Rightarrow> pydict \<Rightarrow> string \<Rightarrow> string option field" where
  "rd_opt_norm_address L d fld = rbind (rd_opt_str d fld) (\<lambda>v. case v of
       None \<Rightarrow> Inr None
     | Some s \<Rightarrow> rbind (address_pattern fld s) (\<lambda>a. rbind (norm_addr_field L fld a) (\<lambda>n. Inr (Some n))))"

text \<open>A literal kind: absent, or the text of the kind.\<close>

definition rd_kind :: "intent_kind \<Rightarrow> pydict \<Rightarrow> unit field" where
  "rd_kind k d = (case dget d ''kind'' of
       None \<Rightarrow> Inr ()
     | Some v \<Rightarrow> if v = PStr (intent_kind_value k) then Inr () else Inl [(''kind'', WrongType ''literal'')])"

definition rd_norm_chain :: "pydict \<Rightarrow> string field" where
  "rd_norm_chain d = rbind (rd_str1 d ''chain'') (\<lambda>s. Inr (lower_strip s))"

section \<open>Models\<close>

definition read_contract_intent_of :: "pydict \<Rightarrow> exn + read_contract_intent" where
  "read_contract_intent_of d = (let k = rd_kind READ_CONTRACT d; a = rd_address d ''contract_address'';
       f = rd_str1 d ''function_name'';
       xs = (case dget d ''args'' of None \<Rightarrow> Inr [] | Some (PList vs) \<Rightarrow> rd_items item_str ''args'' vs
         | Some _ \<Rightarrow> Inl [(''args'', WrongType ''tuple'')]) in
     finish ''ReadContractIntent'' (fld_errs k @ fld_errs a @ fld_errs f @ fld_errs xs)
       \<lparr>wrc_contract_address = sval a, wrc_function_name = sval f, wrc_args = fld_val [] xs\<rparr>)"

definition native_balance_intent_of :: "pydict \<Rightarrow> exn + native_balance_intent" where
  "native_balance_intent_of d = (let k = rd_kind NATIVE_BALANCE d; w = rd_address d ''wallet_address'' in
     finish ''NativeBalanceIntent'' (fld_errs k @ fld_errs w) \<lparr>wnb_wallet_address = sval w\<rparr>)"

definition erc20_balance_intent_of :: "pydict \<Rightarrow> exn + erc20_balance_intent" where
  "erc20_balance_intent_of d = (let k = rd_kind ERC20_BALANCE d; w = rd_address d ''wallet_address''; t = rd_address d ''token_address'' in
     finish ''ERC20BalanceIntent'' (fld_errs k @ fld_errs w @ fld_errs t) \<lparr>web_wallet_address = sval w, web_token_address = sval t\<rparr>)"

definition placeholder_transaction_intent_of :: "pydict \<Rightarrow> exn + placeholder_transaction_intent" where
  "placeholder_transaction_intent_of d = (let k = rd_kind PREPARE_TRANSACTION d; s = rd_str1 d ''summary'' in
     finish ''PlaceholderTransactionIntent'' (fld_errs k @ fld_errs s) \<lparr>wph_summary = sval s\<rparr>)"

definition wallet_transfer_intent_of :: "libs \<Rightarrow> pydict \<Rightarrow> exn + wallet_transfer_intent" where
  "wallet_transfer_intent_of L d = (let k = rd_kind ERC20_TRANSFER d; c = rd_norm_chain d; w = rd_str1 d ''wallet_id'';
       t = rd_norm_address L d ''token_address''; r = rd_norm_address L d ''recipient_address''; a = rd_str1 d ''amount'';
       u = rd_bool L d ''amount_in_smallest_units'' False; i = rd_opt_str1 d ''idempotency_key'' in
     finish ''ERC20TransferIntent''
       (fld_errs k @ fld_errs c @ fld_errs w @ fld_errs t @ fld_errs r @ fld_errs a @ fld_errs u @ fld_errs i)
       \<lparr>wtr_chain = sval c, wtr_wallet_id = sval w, wtr_token_address = sval t, wtr_recipient_address = sval r, wtr_amount = sval a,
        wtr_amount_in_smallest_units = fld_val False u, wtr_idempotency_key = oval i\<rparr>)"

definition wallet_approval_intent_of :: "libs \<Rightarrow> pydict \<Rightarrow> exn + wallet_approval_intent" where
  "wallet_approval_intent_of L d = (let k = rd_kind ERC20_APPROVAL d; c = rd_norm_chain d; w = rd_str1 d ''wallet_id'';
       t = rd_norm_address L d ''token_address''; s = rd_norm_address L d ''spender_address''; a = rd_str1 d ''amount'';
       u = rd_bool L d ''amount_in_smallest_units'' False; i = rd_opt_str1 d ''idempotency_key'';
       n = rd_bool L d ''spender_known'' False; m = rd_bool L d ''allow_unlimited'' False in
     finish ''ERC20ApprovalIntent''
       (fld_errs k @ fld_errs c @ fld_errs w @ fld_errs t @ fld_errs s @ fld_errs a @ fld_errs u @ fld_errs i @ fld_errs n @ fld_errs m)
       \<lparr>wap_chain = sval c, wap_wallet_id = sval w, wap_token_address = sval t, wap_spender_address = sval s, wap_amount = sval a,
        wap_amount_in_smallest_units = fld_val False u, wap_idempotency_key = oval i, wap_spender_known = fld_val False n,
        wap_allow_unlimited = fld_val False m\<rparr>)"

definition wallet_swap_intent_of :: "libs \<Rightarrow> pydict \<Rightarrow> exn + wallet_swap_intent" where
  "wallet_swap_intent_of L d = (let k = rd_kind SWAP d; w = rd_str1 d ''wallet_id''; c = rd_norm_chain d;
       f = rd_norm_address L d ''from_token''; t = rd_norm_address L d ''to_token''; a = rd_str1 d ''amount_in'';
       m = rd_opt_str1 d ''min_amount_out''; b = rd_int_range L d ''max_slippage_bps'' (bps_errs ''max_slippage_bps'');
       p = rd_opt_str1 d ''provider_preference''; r = rd_opt_norm_address L d ''recipient_address''; i = rd_str1 d ''idempotency_key'' in
     finish ''SwapIntent''
       (fld_errs k @ fld_errs w @ fld_errs c @ fld_errs f @ fld_errs t @ fld_errs a @ fld_errs m @ fld_errs b @ fld_errs p @ fld_errs r
         @ fld_errs i)
       \<lparr>wsw_wallet_id = sval w, wsw_chain = sval c, wsw_from_token = sval f, wsw_to_token = sval t, wsw_amount_in = sval a,
        wsw_min_amount_out = oval m, wsw_max_slippage_bps = oval b, wsw_provider_preference = oval p, wsw_recipient_address = oval r,
        wsw_idempotency_key = sval i\<rparr>)"

section \<open>What a validated intent holds\<close>

lemma finish_eq_Inr: "finish model es x = Inr y \<longleftrightarrow> es = [] \<and> y = x"
  by (auto simp: finish_def)

lemma field_errs_Nil_ne: "fld_errs f = [] \<Longrightarrow> f \<noteq> Inl [] \<Longrightarrow> f = Inr (fld_val v f)"
  by (cases f) simp_all

lemma norm_addr_field_Inr: "norm_addr_field L fld s = Inr a \<longleftrightarrow> normalize_evm_address L s = Inr a"
  by (simp add: norm_addr_field_def split: sum.splits)

lemma rd_address_Inr: "rd_address d fld = Inr s \<longleftrightarrow> dget d fld = Some (PStr s) \<and> is_evm_hex s"
  by (auto simp: rd_address_def rd_str_def address_pattern_def rbind_eq_Inr split: option.splits pyval.splits if_splits)

lemma rd_norm_address_Inr:
  "rd_norm_address L d fld = Inr a \<Longrightarrow> \<exists>s. dget d fld = Some (PStr s) \<and> is_evm_hex s \<and> normalize_evm_address L s = Inr a"
  by (auto simp: rd_norm_address_def rbind_eq_Inr norm_addr_field_Inr rd_address_Inr)

lemma rd_norm_address_errs: "rd_norm_address L d fld \<noteq> Inl []"
proof -
  have "norm_addr_field L fld s \<noteq> Inl []" for s by (simp add: norm_addr_field_def split: sum.splits)
  moreover have "rd_address d fld \<noteq> Inl []"
    by (auto simp: rd_address_def rd_str_def address_pattern_def rbind_eq_Inl split: option.splits pyval.splits if_splits)
  ultimately show ?thesis by (auto simp: rd_norm_address_def rbind_eq_Inl)
qed

lemma rd_norm_address_ok:
  "fld_errs (rd_norm_address L d fld) = [] \<Longrightarrow>
     \<exists>s. dget d fld = Some (PStr s) \<and> is_evm_hex s \<and> normalize_evm_address L s = Inr (sval (rd_norm_address L d fld))"
  by (rule rd_norm_address_Inr) (rule field_errs_Nil_ne [OF _ rd_norm_address_errs])

text \<open>The addresses of a validated transfer or approval are the normal forms of the texts that were given.\<close>

lemma wallet_transfer_addresses:
  assumes "wallet_transfer_intent_of L d = Inr x"
  shows "\<exists>t r. dget d ''token_address'' = Some (PStr t) \<and> normalize_evm_address L t = Inr (wtr_token_address x)
    \<and> dget d ''recipient_address'' = Some (PStr r) \<and> normalize_evm_address L r = Inr (wtr_recipient_address x)"
  using assms rd_norm_address_ok [of L d "''token_address''"] rd_norm_address_ok [of L d "''recipient_address''"]
  by (auto simp: wallet_transfer_intent_of_def Let_def finish_eq_Inr)

lemma wallet_approval_addresses:
  assumes "wallet_approval_intent_of L d = Inr x"
  shows "\<exists>t s. dget d ''token_address'' = Some (PStr t) \<and> normalize_evm_address L t = Inr (wap_token_address x)
    \<and> dget d ''spender_address'' = Some (PStr s) \<and> normalize_evm_address L s = Inr (wap_spender_address x)"
  using assms rd_norm_address_ok [of L d "''token_address''"] rd_norm_address_ok [of L d "''spender_address''"]
  by (auto simp: wallet_approval_intent_of_def Let_def finish_eq_Inr)

end
