(* ===== verification/Spec2Isabelle.thy ===== *)
theory Spec2Isabelle
  imports Read_Properties Run_Limits Webhook_Properties Juno_Properties Approval_Turns Log_Properties Service_App Http_Client
    Wallet_Intents
begin

text \<open>
  Mercury, a wallet agent (\<^verbatim>\<open>src/mercury/\<close>): it answers read-only questions about EVM chains and turns structured
  requests into transactions that it simulates, judges, lets a human approve, signs with a key of a secret store
  and broadcasts. This development translates its Python code into HOL functions and proves what makes it correct.

  \<^bold>\<open>How a request runs.\<close> \<^verbatim>\<open>invoke.py\<close> (theory \<open>Invoke_Service\<close>) makes the graph state of a request. The runtime
  (\<^verbatim>\<open>graph/runtime.py\<close>, \<open>Runtime\<close>) validates the intent (\<^verbatim>\<open>graph/intent_validation.py\<close>, \<open>Intent_Validation\<close>), picks
  one of four graphs by its kind and runs it. A read request goes through the read graph (\<open>Read_Graph\<close>), whose nodes
  call a tool of the registry (\<open>Tool_Registry\<close>) and word the answer. A value-moving request goes through the ERC20,
  native or swap preparation graph, which builds an unsigned transaction or fails, and from there into the
  transaction pipeline: nonce, gas, simulation, policy, approval, idempotency, signature, broadcast, receipt.
  The response is made from the final state and redacted. The webhook endpoint is a graph of its own. The Juno plugin
  (\<^verbatim>\<open>juno/\<close>, \<open>Juno_Plugin\<close>) is a second way in: the tool of a language model's agent makes a request of JSON text the model
  wrote and of the session, runs it in the same process and words the response for the model.

  \<^bold>\<open>Values, errors, effects.\<close>
  \<^item> A fallible operation returns \<open>exn + 'a\<close> (\<open>Mercury_Prelude\<close>, \<open>Py_Values\<close>): \<open>Inl\<close> is the raised exception, an
    \<open>Exn\<close> with its class and text or a pydantic \<open>ValidationError\<close> with the violated fields. Every raise and every
    \<open>except\<close> of the code is a branch.
  \<^item> A string is a list of characters below 256 (\<open>Py_Strings\<close>), with Python's tables on that range; the few other
    characters of fixed texts are given by their UTF-8 bytes. A Python integer is an \<open>int\<close>, a finite float its exact
    rational value, a \<open>decimal\<close> a sign, a coefficient and an exponent with the rounding of its context (\<open>Amounts\<close>),
    and the 32-bit words of SHA-256 are words (\<open>Hmac_Sha256\<close>).
  \<^item> A dictionary is an association list in insertion order; \<open>pyval\<close> is a dynamic value. A pydantic model is a record
    and its constructor a validator that gives the normalised record or the errors in field order (\<open>Model_Fields\<close>,
    \<open>Execution_Models\<close>, \<open>Swap_Models\<close>).
  \<^item> State is passed explicitly: \<open>mercury_state\<close> is the TypedDict of the graphs (\<open>Graph_State\<close>), \<open>world\<close> holds the shared
    idempotency store and a log of the calls to approver, signer and network. The log is not in the code; it
    is how the theorems speak of these calls.

  \<^bold>\<open>Parameters.\<close> What is not under \<^verbatim>\<open>src/\<close> is an argument: \<open>L :: libs\<close> (address checks and checksums, keccak, ABI words,
  pydantic's texts and lax conversions, float texts), the RPC client inside the read provider and the transaction
  backend, the account library, the secret service, HTTP clients, the ENS client, clocks, the JSON decoder of the
  webhook, the decoding of UTF-8 and of floats in JSON (\<open>json_env\<close>), the YAML manifest and \<open>M\<close>, the JSON dump of models in a response. \<open>web3_laws\<close>, \<open>abi_laws\<close> and \<open>lax_laws\<close> state documented behaviour of
  libraries; \<open>lower_libs\<close> is a concrete instance that satisfies all three and on which every witness is evaluated.
  \<open>C\<close> or \<open>d_chains\<close> is the chain table made of the registry.

  \<^bold>\<open>Theories, in the order of their imports.\<close>
  \<^item> \<open>Mercury_Prelude\<close>, \<open>Py_Strings\<close>, \<open>Py_Values\<close>, \<open>Redaction\<close> (\<^verbatim>\<open>service/logging.py\<close>, \<^verbatim>\<open>custody/redaction.py\<close>), \<open>Errors\<close>
    (\<^verbatim>\<open>models/errors.py\<close>), \<open>Addresses\<close>, \<open>Known_Addresses\<close>, \<open>Config_Chains\<close> (\<^verbatim>\<open>config.py\<close>, \<^verbatim>\<open>chains/\<close>), \<open>Amounts\<close>.
  \<^item> The pipeline: \<open>Execution_Models\<close> (\<^verbatim>\<open>models/\<close>), \<open>Graph_State\<close>, \<open>Idempotency\<close>, \<open>Policy_Rules\<close> (\<^verbatim>\<open>policy/\<close>), \<open>Custody\<close>
    (\<^verbatim>\<open>custody/\<close>), \<open>Transaction_Tools\<close> (approvers and the web3 backend), \<open>Transaction_Nodes\<close> and
    \<open>Transaction_Graph\<close> (\<^verbatim>\<open>graph/nodes_transaction.py\<close>, \<^verbatim>\<open>router.py\<close>, \<^verbatim>\<open>agent.py\<close>).
  \<^item> Preparation: \<open>Read_Tools\<close>, \<open>Transaction_Builders\<close>, \<open>Graph_Entry\<close>, \<open>Prepare_Nodes\<close>, and for swaps \<open>Swap_Models\<close>,
    \<open>Swap_Providers\<close> (LiFi, CoW Swap, Uniswap and the router) and \<open>Swap_Preparation\<close>.
  \<^item> Requests: \<open>Read_Intents\<close>, \<open>Intent_Validation\<close>, \<open>Alchemy_Clients\<close>, \<open>Tool_Registry\<close>, \<open>Read_Graph\<close>, \<open>Runtime\<close>,
    \<open>Invoke_Service\<close>, and \<open>Wallet_Intents\<close> (\<^verbatim>\<open>models/intents.py\<close>).
  \<^item> Around requests: \<open>Json_Text\<close> (Python's \<^verbatim>\<open>json\<close>: the scanner with its error texts, and the printer), \<open>Juno_Plugin\<close>,
    \<open>Service_Logging\<close> and \<open>Run_Log\<close> (levels, lines and their redaction, the HTTP middleware, the summaries of
    invocations and nodes), \<open>Http_Client\<close> (the \<^verbatim>\<open>urllib\<close> client of \<^verbatim>\<open>swaps/base.py\<close>), \<open>Service_App\<close> (the state of the
    application and the plugin factory).
  \<^item> Webhooks: \<open>Hmac_Sha256\<close>, \<open>Webhook_Dedupe\<close>, \<open>Webhooks\<close>.
  \<^item> Proofs over several components: \<open>Pipeline_Run\<close> (the shapes of a run), \<open>Pipeline_Safety\<close> (interleavings),
    \<open>Intent_Properties\<close> and \<open>Canonical_Requests\<close> (reading back what validation made canonical), and the theories
    \<open>Component_Properties\<close>, \<open>Custody_Properties\<close>, \<open>Builder_Properties\<close>, \<open>Swap_Properties\<close>, \<open>Pipeline_Properties\<close>,
    \<open>Entry_Properties\<close>, \<open>Request_Properties\<close>, \<open>Read_Properties\<close>, \<open>Run_Limits\<close>, \<open>Webhook_Properties\<close>, \<open>Json_Roundtrip\<close>,
    \<open>Juno_Properties\<close>, \<open>Approval_Turns\<close>, \<open>Log_Properties\<close> with the main theorems, each after a text that states it.

  \<^bold>\<open>Interfaces.\<close> Locales state what a client relies on and are interpreted on the model:
  \<open>idempotency_store\<close> (the store as phases of keys) on the in-memory store; \<open>backend_contract\<close> on the web3 backend;
  \<open>consenting_approver\<close> on both approvers; \<open>secret_store\<close> on the 1Claw and the fake store; \<open>chain_registry\<close> on the
  registry; \<open>swap_adapter\<close> on the three adapters; \<open>prepared_graph\<close> (a graph that hands what it built to the pipeline) on the
  ERC20, native and swap graphs and on the whole runtime; \<open>expiring_keys\<close> (the deduplication store against the history
  of its calls) on the store of the webhook.

  \<^bold>\<open>What is shown.\<close>
  \<^item> From a request to its signature: whatever is signed was validated, built from the canonical intent, simulated,
    accepted by the policy and approved (\<open>Request_Properties\<close>, \<open>Pipeline_Properties\<close>, \<open>Entry_Properties\<close>). The
    interfaces carry this: each graph is a \<open>prepared_graph\<close>, and the runtime is one because the graph parses the
    canonical payload to the intent that was validated.
  \<^item> The pipeline: the order of its calls, at most one submission per idempotency key over any interleaving, the
    store after each way a run can end (the result under the key of the transaction that was submitted), replay of a
    recorded result, progress when nothing refuses, and a rejection when a builder fails, in each of the three graphs.
  \<^item> The components: the policy engine is equivalent to its declarative reading and sound for swaps; an approval of tokens is judged
    by its metadata alone and always needs a human; the signer uses the key of the wallet asked for and its errors do not depend on the key; built calldata decodes to
    the requested recipient or spender and the requested amount, checked against what the token contract answers (\<open>on_chain\<close>,
    \<open>requested_amount\<close>); amounts are exact and round-trip; quotes are for the request; the allowance of the quoted spender
    (\<open>quoted_allowance\<close>) decides whether a swap makes an exact approval or a transaction.
  \<^item> Reading: a validated read intent is read back as itself, the balance text parses to the balance, merged
    transfers are ordered (\<open>newer_or_equal\<close>) and bounded, responses hide the values of sensitive keys; which keys these are
    is specified apart from the code (\<open>names_secret\<close>).
  \<^item> Webhooks: no effect without the right HMAC-SHA256, and the status of every refusal; the deduplication store refines its
    specification by history, stays bounded and keeps the order of the accepted calls; over any sequence of deliveries that fits the
    time to live and the room of the store, every alert is emitted once.
  \<^item> The plugin: a signed tool call rests on an approval, but it may be one the language model wrote; almost every
    chat text counts as consent; the turn that asks the human is never made; a plain response reaches the model
    whole, because printing and scanning JSON are inverse (\<open>loads_dumps\<close>).
  \<^item> The log: its JSON decodes to fields in which sensitive values are hidden, and the middleware hands on the
    answer of the endpoint (\<open>log_line_hides_sensitive_values\<close>, \<open>logging_is_transparent\<close>).

  Some theorems state that the code does something its documents do not say, for example that a nested value-moving
  intent is answered as an unsupported operation, that only one transfer per transaction hash is listed,
  that the calldata of an approval is never compared with its metadata, or that the
  decision in a chat session can be overridden by the intent.

  \<^bold>\<open>Bounds and termination.\<close> No definition uses fuel to cut a computation of the code: the pipeline is a \<open>function\<close> whose
  edges lead to later nodes (a measure shows that it ends), the JSON scanner ends because whatever it accepts it
  consumes, loops over lists are structural, and digits of numbers
  are produced by recursion on the number. \<open>run_steps\<close> (\<open>Run_Limits\<close>) is the pipeline with the step limit of the graph
  library; ten steps are always enough, and the library's limit is 25. The dedupe store
  is bounded by its maximum, proved for any calls.

  \<^bold>\<open>Not modelled.\<close> Reading of files and environment variables, the exchange over the network behind \<^verbatim>\<open>urlopen\<close> and the
  RPC clients, FastAPI's routing, dependency injection and serialisation, the language model agent that LangChain
  builds around the plugin's tool, and re-exports (\<^verbatim>\<open>__init__.py\<close>). The summaries that stand before the JSON of a log line
  are modelled; that they are not redacted is a finding. Strings beyond Latin-1 and floats that are not finite are
  outside the data model, and so is Python's limit on the depth of recursion.
\<close>

end
